(* ===== verification/Proto_Ids.thy ===== *)
theory Proto_Ids
  imports Prelude
begin

text \<open>
  The opaque UUID identities of \<open>maxops-proto\<close>: \<open>JobId\<close> (jobs.rs), \<open>ChangeId\<close> (changes.rs),
  \<open>WorkspaceId\<close> (workspaces.rs) and the three types made by the \<open>opaque_uuid!\<close> macro
  (events.rs).  Each is a newtype over a string whose only constructor function is \<open>parse\<close>.
\<close>

section \<open>The textual UUID form\<close>

text \<open>
  \<open>value.len() == 36 && value.bytes().enumerate().all(...)\<close>: hyphens at 8, 13, 18 and 23,
  hexadecimal digits everywhere else.
\<close>

definition uuid_byte_ok :: "nat \<Rightarrow> char \<Rightarrow> bool" where
  "uuid_byte_ok index c =
     (if index \<in> {8, 13, 18, 23} then c = CHR ''-'' else is_ascii_hexdigit c)"

definition uuid_text :: "string \<Rightarrow> bool" where
  "uuid_text value \<longleftrightarrow>
     length value = 36 \<and> list_all (\<lambda>(index, c). uuid_byte_ok index c) (enumerate 0 value)"

section \<open>The newtypes\<close>

datatype JobId = JobId (job_id_str: string)
datatype ChangeId = ChangeId (change_id_str: string)
datatype WorkspaceId = WorkspaceId (workspace_id_str: string)
datatype EventId = EventId (event_id_str: string)
datatype EpisodeId = EpisodeId (episode_id_str: string)
datatype RemediationId = RemediationId (remediation_id_str: string)

definition JobId_parse :: "string \<Rightarrow> (JobId, string) result" where
  "JobId_parse value = (if uuid_text value then Ok (JobId value) else Err ''invalid job ID'')"

definition ChangeId_parse :: "string \<Rightarrow> (ChangeId, string) result" where
  "ChangeId_parse value =
     (if uuid_text value then Ok (ChangeId value) else Err ''invalid change ID'')"

definition WorkspaceId_parse :: "string \<Rightarrow> (WorkspaceId, string) result" where
  "WorkspaceId_parse value =
     (if uuid_text value then Ok (WorkspaceId value) else Err ''invalid workspace ID'')"

definition EventId_parse :: "string \<Rightarrow> (EventId, string) result" where
  "EventId_parse value =
     (if uuid_text value then Ok (EventId value) else Err ''invalid event ID'')"

definition EpisodeId_parse :: "string \<Rightarrow> (EpisodeId, string) result" where
  "EpisodeId_parse value =
     (if uuid_text value then Ok (EpisodeId value) else Err ''invalid episode ID'')"

definition RemediationId_parse :: "string \<Rightarrow> (RemediationId, string) result" where
  "RemediationId_parse value =
     (if uuid_text value then Ok (RemediationId value) else Err ''invalid remediation ID'')"

section \<open>One contract for the six newtypes\<close>

text \<open>
  \<open>parse\<close> accepts exactly the UUID texts, and \<open>as_str\<close> returns the text that was parsed.  What a
  client may conclude from that is proved once.
\<close>

locale opaque_id =
  fixes parse :: "string \<Rightarrow> ('i, string) result"
    and as_str :: "'i \<Rightarrow> string"
    and mk :: "string \<Rightarrow> 'i"
  assumes parse_ok: "uuid_text s \<Longrightarrow> parse s = Ok (mk s)"
    and parse_err: "\<not> uuid_text s \<Longrightarrow> \<exists>e. parse s = Err e"
    and as_str_mk: "as_str (mk s) = s"
    and mk_as_str: "mk (as_str i) = i"
begin

lemma parse_iff: "parse s = Ok i \<longleftrightarrow> uuid_text s \<and> as_str i = s"
  using parse_ok[of s] parse_err[of s] as_str_mk mk_as_str by (cases "uuid_text s") force+

lemma parse_as_str: "uuid_text (as_str i) \<Longrightarrow> parse (as_str i) = Ok i"
  by (simp add: parse_iff)

lemma as_str_inj: "as_str i = as_str j \<longleftrightarrow> i = j"
  by (metis mk_as_str)

end

interpretation job_id: opaque_id JobId_parse job_id_str JobId
  by unfold_locales (simp_all add: JobId_parse_def)

interpretation change_id: opaque_id ChangeId_parse change_id_str ChangeId
  by unfold_locales (simp_all add: ChangeId_parse_def)

interpretation workspace_id: opaque_id WorkspaceId_parse workspace_id_str WorkspaceId
  by unfold_locales (simp_all add: WorkspaceId_parse_def)

interpretation event_id: opaque_id EventId_parse event_id_str EventId
  by unfold_locales (simp_all add: EventId_parse_def)

interpretation episode_id: opaque_id EpisodeId_parse episode_id_str EpisodeId
  by unfold_locales (simp_all add: EpisodeId_parse_def)

interpretation remediation_id: opaque_id RemediationId_parse remediation_id_str RemediationId
  by unfold_locales (simp_all add: RemediationId_parse_def)

section \<open>What a UUID text can contain\<close>

lemma uuid_text_nth:
  "uuid_text s \<longleftrightarrow> length s = 36 \<and> (\<forall>i < 36. uuid_byte_ok i (s ! i))"
  by (auto simp: uuid_text_def list_all_length enumerate_eq_zip)

lemma uuid_byte_graphic: "uuid_byte_ok i c \<Longrightarrow> is_ascii_hexdigit c \<or> c = CHR ''-''"
  by (auto simp: uuid_byte_ok_def split: if_splits)

lemma uuid_text_chars:
  assumes "uuid_text s" and "c \<in> set s"
  shows "is_ascii_hexdigit c \<or> c = CHR ''-''"
proof -
  from assms obtain i where "i < 36" and "c = s ! i" and "uuid_byte_ok i (s ! i)"
    by (auto simp: uuid_text_nth in_set_conv_nth)
  then show ?thesis using uuid_byte_graphic by blast
qed

lemma uuid_text_graphic: "uuid_text s \<Longrightarrow> c \<in> set s \<Longrightarrow> is_ascii_graphic c"
  by (drule (1) uuid_text_chars) (auto simp: byte_simps)

lemma uuid_text_no_slash:
  assumes "uuid_text s"
  shows "CHR ''/'' \<notin> set s" and "CHR ''.'' \<notin> set s"
  using uuid_text_chars[OF assms, of "CHR ''/''"] uuid_text_chars[OF assms, of "CHR ''.''"]
  by (auto simp: byte_simps)

end
