(* ===== verification/Proto_Operations.thy ===== *)
theory Proto_Operations
  imports Proto_Ids
begin

text \<open>
  \<open>maxops-proto/src/lib.rs\<close>: unit and host name syntax, the parameter checks of the unit
  operations, and the operation registry produced by the \<open>operations!\<close> macro.  The schema
  and summary columns of the registry are documentation for clients and are left out.
\<close>

section \<open>Names\<close>

text \<open>\<open>b.is_ascii_alphanumeric() || b"_-.:@".contains(&b)\<close>\<close>

definition unit_byte :: "char \<Rightarrow> bool" where
  "unit_byte b \<longleftrightarrow> is_ascii_alphanumeric b \<or> b \<in> set ''_-.:@''"

definition ends_with :: "string \<Rightarrow> string \<Rightarrow> bool" where
  "ends_with s suffix \<longleftrightarrow>
     length suffix \<le> length s \<and> drop (length s - length suffix) s = suffix"

definition valid_unit :: "string \<Rightarrow> bool" where
  "valid_unit name \<longleftrightarrow>
     length name \<le> 255 \<and> ends_with name ''.service'' \<and> length name > 8 \<and> list_all unit_byte name"

text \<open>\<open>str::rsplit_once\<close>: split at the last occurrence.\<close>

definition rsplit_once :: "char \<Rightarrow> string \<Rightarrow> (string \<times> string) option" where
  "rsplit_once c s =
     (if c \<in> set s
      then Some (rev (tl (dropWhile (\<lambda>x. x \<noteq> c) (rev s))), rev (takeWhile (\<lambda>x. x \<noteq> c) (rev s)))
      else None)"

definition observation_kinds :: "string list" where
  "observation_kinds =
     [''service'', ''timer'', ''socket'', ''target'', ''path'', ''mount'', ''automount'',
      ''swap'', ''slice'', ''scope'', ''device'']"

text \<open>The \<open>while let Some(byte) = bytes.next()\<close> loop over the stem.\<close>

fun observation_stem :: "string \<Rightarrow> bool" where
  "observation_stem [] = True"
| "observation_stem (b # rest) =
     (if b = CHR 0x5C
      then (case rest of
              x # h1 # h2 # more \<Rightarrow>
                x = CHR ''x'' \<and> is_ascii_hexdigit h1 \<and> is_ascii_hexdigit h2 \<and> observation_stem more
            | _ \<Rightarrow> False)
      else unit_byte b \<and> observation_stem rest)"

definition valid_observation_unit :: "string \<Rightarrow> bool" where
  "valid_observation_unit name =
     (case rsplit_once CHR ''.'' name of
        None \<Rightarrow> False
      | Some (stem, kind) \<Rightarrow>
          \<not> (length name > 255 \<or> stem = [] \<or> kind \<notin> set observation_kinds) \<and> observation_stem stem)"

definition valid_host :: "string \<Rightarrow> bool" where
  "valid_host name \<longleftrightarrow>
     name \<noteq> [] \<and> length name \<le> 128 \<and>
     list_all (\<lambda>b. is_ascii_alphanumeric b \<or> b \<in> set ''_-'') name"

section \<open>Unit parameters\<close>

record UnitActionParams =
  ua_host :: string
  ua_unit :: string
  ua_expected_invocation_id :: "string option"

definition UnitActionParams_validate :: "UnitActionParams \<Rightarrow> (unit, string) result" where
  "UnitActionParams_validate p =
     (if \<not> valid_host (ua_host p) then Err ''invalid host''
      else if \<not> valid_unit (ua_unit p) then
        (if valid_observation_unit (ua_unit p) \<and> \<not> ends_with (ua_unit p) ''.service''
         then Err ''unit kind is not manageable; mutations require .service''
         else Err ''invalid service unit name'')
      else if (case ua_expected_invocation_id p of
                 None \<Rightarrow> False
               | Some value \<Rightarrow> length value \<noteq> 32 \<or> \<not> list_all is_ascii_hexdigit value)
      then Err ''expected invocation ID must contain 32 hexadecimal digits''
      else Ok ())"

record LogParams =
  lg_host :: string
  lg_unit :: string
  lg_lines :: nat
  lg_since_seconds :: nat

definition default_lines :: nat where "default_lines = 50"
definition default_since :: nat where "default_since = 3600"

definition LogParams_validate :: "LogParams \<Rightarrow> (unit, string) result" where
  "LogParams_validate p =
     (if \<not> (1 \<le> lg_lines p \<and> lg_lines p \<le> 200)
         \<or> \<not> (1 \<le> lg_since_seconds p \<and> lg_since_seconds p \<le> 86400)
      then Err ''logs require 1..200 lines and 1..86400 since_seconds''
      else if \<not> valid_observation_unit (lg_unit p) then Err ''invalid observation unit name''
      else Ok ())"

section \<open>The operation registry\<close>

datatype OperationKind = Observation | JobSubmission | JobControl

text \<open>\<open>IdempotencyRequirement::None\<close> is \<open>NoKey\<close> here.\<close>

datatype IdempotencyRequirement = NoKey | Required

text \<open>The variants of the macro-generated \<open>Request\<close> enum, without their payloads.\<close>

datatype RequestTag =
    FleetOverview
  | UnitsFailed
  | HostFacts
  | HostMetrics
  | DeployStatus
  | UnitsList
  | UnitsStatus
  | UnitsLogs
  | AlertsActive
  | EventsGet
  | EventsRecent
  | EventsList
  | SelfStatus
  | ExecRun
  | UnitsStart
  | UnitsStop
  | UnitsRestart
  | UnitsReload
  | JobsList
  | JobsStatus
  | JobsLogs
  | JobsCancel
  | WorkspaceCreate
  | WorkspaceStatus
  | WorkspaceRead
  | WorkspaceApply
  | WorkspaceDiff
  | WorkspaceCommit
  | WorkspaceCheck
  | WorkspacePublish
  | DeployPrepare
  | DeployBuild
  | DeployActivate
  | DeployVerify
  | DeployRollback
  | ChangesStatus
  | ChangesHistory
  | DiagnosticsCollect
  | RemediationsBegin
  | RemediationsFinish
  | ResourcesList
  | JobsWait
  | JobsEvents
  | JobsResult
  | DeployRun

primrec Request_name :: "RequestTag \<Rightarrow> string" where
  "Request_name FleetOverview = ''fleet.overview''"
| "Request_name UnitsFailed = ''units.failed''"
| "Request_name HostFacts = ''host.facts''"
| "Request_name HostMetrics = ''host.metrics''"
| "Request_name DeployStatus = ''deploy.status''"
| "Request_name UnitsList = ''units.list''"
| "Request_name UnitsStatus = ''units.status''"
| "Request_name UnitsLogs = ''units.logs''"
| "Request_name AlertsActive = ''alerts.active''"
| "Request_name EventsGet = ''events.get''"
| "Request_name EventsRecent = ''events.recent''"
| "Request_name EventsList = ''events.list''"
| "Request_name SelfStatus = ''self.status''"
| "Request_name ExecRun = ''exec.run''"
| "Request_name UnitsStart = ''units.start''"
| "Request_name UnitsStop = ''units.stop''"
| "Request_name UnitsRestart = ''units.restart''"
| "Request_name UnitsReload = ''units.reload''"
| "Request_name JobsList = ''jobs.list''"
| "Request_name JobsStatus = ''jobs.status''"
| "Request_name JobsLogs = ''jobs.logs''"
| "Request_name JobsCancel = ''jobs.cancel''"
| "Request_name WorkspaceCreate = ''workspace.create''"
| "Request_name WorkspaceStatus = ''workspace.status''"
| "Request_name WorkspaceRead = ''workspace.read''"
| "Request_name WorkspaceApply = ''workspace.apply''"
| "Request_name WorkspaceDiff = ''workspace.diff''"
| "Request_name WorkspaceCommit = ''workspace.commit''"
| "Request_name WorkspaceCheck = ''workspace.check''"
| "Request_name WorkspacePublish = ''workspace.publish''"
| "Request_name DeployPrepare = ''deploy.prepare''"
| "Request_name DeployBuild = ''deploy.build''"
| "Request_name DeployActivate = ''deploy.activate''"
| "Request_name DeployVerify = ''deploy.verify''"
| "Request_name DeployRollback = ''deploy.rollback''"
| "Request_name ChangesStatus = ''changes.status''"
| "Request_name ChangesHistory = ''changes.history''"
| "Request_name DiagnosticsCollect = ''diagnostics.collect''"
| "Request_name RemediationsBegin = ''remediations.begin''"
| "Request_name RemediationsFinish = ''remediations.finish''"
| "Request_name ResourcesList = ''resources.list''"
| "Request_name JobsWait = ''jobs.wait''"
| "Request_name JobsEvents = ''jobs.events''"
| "Request_name JobsResult = ''jobs.result''"
| "Request_name DeployRun = ''deploy.run''"

primrec Request_capability :: "RequestTag \<Rightarrow> string" where
  "Request_capability FleetOverview = ''fleet:read''"
| "Request_capability UnitsFailed = ''units:read''"
| "Request_capability HostFacts = ''host:read''"
| "Request_capability HostMetrics = ''metrics:read''"
| "Request_capability DeployStatus = ''host:read''"
| "Request_capability UnitsList = ''units:read''"
| "Request_capability UnitsStatus = ''units:read''"
| "Request_capability UnitsLogs = ''logs:read''"
| "Request_capability AlertsActive = ''alerts:read''"
| "Request_capability EventsGet = ''events:read''"
| "Request_capability EventsRecent = ''events:read''"
| "Request_capability EventsList = ''events:read''"
| "Request_capability SelfStatus = ''self:read''"
| "Request_capability ExecRun = ''exec:run''"
| "Request_capability UnitsStart = ''units:manage''"
| "Request_capability UnitsStop = ''units:manage''"
| "Request_capability UnitsRestart = ''units:manage''"
| "Request_capability UnitsReload = ''units:manage''"
| "Request_capability JobsList = ''jobs:read''"
| "Request_capability JobsStatus = ''jobs:read''"
| "Request_capability JobsLogs = ''jobs:read''"
| "Request_capability JobsCancel = ''jobs:cancel''"
| "Request_capability WorkspaceCreate = ''workspace:write''"
| "Request_capability WorkspaceStatus = ''workspace:read''"
| "Request_capability WorkspaceRead = ''workspace:read''"
| "Request_capability WorkspaceApply = ''workspace:write''"
| "Request_capability WorkspaceDiff = ''workspace:read''"
| "Request_capability WorkspaceCommit = ''workspace:write''"
| "Request_capability WorkspaceCheck = ''workspace:write''"
| "Request_capability WorkspacePublish = ''workspace:publish''"
| "Request_capability DeployPrepare = ''deploy:manage''"
| "Request_capability DeployBuild = ''deploy:manage''"
| "Request_capability DeployActivate = ''deploy:manage''"
| "Request_capability DeployVerify = ''deploy:manage''"
| "Request_capability DeployRollback = ''deploy:manage''"
| "Request_capability ChangesStatus = ''changes:read''"
| "Request_capability ChangesHistory = ''changes:read''"
| "Request_capability DiagnosticsCollect = ''diagnostics:collect''"
| "Request_capability RemediationsBegin = ''remediations:manage''"
| "Request_capability RemediationsFinish = ''remediations:manage''"
| "Request_capability ResourcesList = ''self:read''"
| "Request_capability JobsWait = ''jobs:read''"
| "Request_capability JobsEvents = ''jobs:read''"
| "Request_capability JobsResult = ''jobs:read''"
| "Request_capability DeployRun = ''deploy:manage''"

primrec operation_kind :: "RequestTag \<Rightarrow> OperationKind" where
  "operation_kind FleetOverview = Observation"
| "operation_kind UnitsFailed = Observation"
| "operation_kind HostFacts = Observation"
| "operation_kind HostMetrics = Observation"
| "operation_kind DeployStatus = Observation"
| "operation_kind UnitsList = Observation"
| "operation_kind UnitsStatus = Observation"
| "operation_kind UnitsLogs = Observation"
| "operation_kind AlertsActive = Observation"
| "operation_kind EventsGet = Observation"
| "operation_kind EventsRecent = Observation"
| "operation_kind EventsList = Observation"
| "operation_kind SelfStatus = Observation"
| "operation_kind ExecRun = JobSubmission"
| "operation_kind UnitsStart = JobSubmission"
| "operation_kind UnitsStop = JobSubmission"
| "operation_kind UnitsRestart = JobSubmission"
| "operation_kind UnitsReload = JobSubmission"
| "operation_kind JobsList = JobControl"
| "operation_kind JobsStatus = JobControl"
| "operation_kind JobsLogs = JobControl"
| "operation_kind JobsCancel = JobControl"
| "operation_kind WorkspaceCreate = JobSubmission"
| "operation_kind WorkspaceStatus = JobControl"
| "operation_kind WorkspaceRead = JobControl"
| "operation_kind WorkspaceApply = JobControl"
| "operation_kind WorkspaceDiff = JobControl"
| "operation_kind WorkspaceCommit = JobControl"
| "operation_kind WorkspaceCheck = JobSubmission"
| "operation_kind WorkspacePublish = JobSubmission"
| "operation_kind DeployPrepare = JobSubmission"
| "operation_kind DeployBuild = JobSubmission"
| "operation_kind DeployActivate = JobSubmission"
| "operation_kind DeployVerify = JobSubmission"
| "operation_kind DeployRollback = JobSubmission"
| "operation_kind ChangesStatus = JobControl"
| "operation_kind ChangesHistory = JobControl"
| "operation_kind DiagnosticsCollect = JobSubmission"
| "operation_kind RemediationsBegin = JobSubmission"
| "operation_kind RemediationsFinish = JobControl"
| "operation_kind ResourcesList = Observation"
| "operation_kind JobsWait = JobControl"
| "operation_kind JobsEvents = JobControl"
| "operation_kind JobsResult = JobControl"
| "operation_kind DeployRun = JobSubmission"

primrec operation_read_only :: "RequestTag \<Rightarrow> bool" where
  "operation_read_only FleetOverview = True"
| "operation_read_only UnitsFailed = True"
| "operation_read_only HostFacts = True"
| "operation_read_only HostMetrics = True"
| "operation_read_only DeployStatus = True"
| "operation_read_only UnitsList = True"
| "operation_read_only UnitsStatus = True"
| "operation_read_only UnitsLogs = True"
| "operation_read_only AlertsActive = True"
| "operation_read_only EventsGet = True"
| "operation_read_only EventsRecent = True"
| "operation_read_only EventsList = True"
| "operation_read_only SelfStatus = True"
| "operation_read_only ExecRun = False"
| "operation_read_only UnitsStart = False"
| "operation_read_only UnitsStop = False"
| "operation_read_only UnitsRestart = False"
| "operation_read_only UnitsReload = False"
| "operation_read_only JobsList = True"
| "operation_read_only JobsStatus = True"
| "operation_read_only JobsLogs = True"
| "operation_read_only JobsCancel = False"
| "operation_read_only WorkspaceCreate = False"
| "operation_read_only WorkspaceStatus = True"
| "operation_read_only WorkspaceRead = True"
| "operation_read_only WorkspaceApply = False"
| "operation_read_only WorkspaceDiff = True"
| "operation_read_only WorkspaceCommit = False"
| "operation_read_only WorkspaceCheck = False"
| "operation_read_only WorkspacePublish = False"
| "operation_read_only DeployPrepare = False"
| "operation_read_only DeployBuild = False"
| "operation_read_only DeployActivate = False"
| "operation_read_only DeployVerify = False"
| "operation_read_only DeployRollback = False"
| "operation_read_only ChangesStatus = True"
| "operation_read_only ChangesHistory = True"
| "operation_read_only DiagnosticsCollect = False"
| "operation_read_only RemediationsBegin = False"
| "operation_read_only RemediationsFinish = False"
| "operation_read_only ResourcesList = True"
| "operation_read_only JobsWait = True"
| "operation_read_only JobsEvents = True"
| "operation_read_only JobsResult = True"
| "operation_read_only DeployRun = False"

primrec operation_idempotency :: "RequestTag \<Rightarrow> IdempotencyRequirement" where
  "operation_idempotency FleetOverview = NoKey"
| "operation_idempotency UnitsFailed = NoKey"
| "operation_idempotency HostFacts = NoKey"
| "operation_idempotency HostMetrics = NoKey"
| "operation_idempotency DeployStatus = NoKey"
| "operation_idempotency UnitsList = NoKey"
| "operation_idempotency UnitsStatus = NoKey"
| "operation_idempotency UnitsLogs = NoKey"
| "operation_idempotency AlertsActive = NoKey"
| "operation_idempotency EventsGet = NoKey"
| "operation_idempotency EventsRecent = NoKey"
| "operation_idempotency EventsList = NoKey"
| "operation_idempotency SelfStatus = NoKey"
| "operation_idempotency ExecRun = Required"
| "operation_idempotency UnitsStart = Required"
| "operation_idempotency UnitsStop = Required"
| "operation_idempotency UnitsRestart = Required"
| "operation_idempotency UnitsReload = Required"
| "operation_idempotency JobsList = NoKey"
| "operation_idempotency JobsStatus = NoKey"
| "operation_idempotency JobsLogs = NoKey"
| "operation_idempotency JobsCancel = NoKey"
| "operation_idempotency WorkspaceCreate = Required"
| "operation_idempotency WorkspaceStatus = NoKey"
| "operation_idempotency WorkspaceRead = NoKey"
| "operation_idempotency WorkspaceApply = NoKey"
| "operation_idempotency WorkspaceDiff = NoKey"
| "operation_idempotency WorkspaceCommit = NoKey"
| "operation_idempotency WorkspaceCheck = Required"
| "operation_idempotency WorkspacePublish = Required"
| "operation_idempotency DeployPrepare = Required"
| "operation_idempotency DeployBuild = Required"
| "operation_idempotency DeployActivate = Required"
| "operation_idempotency DeployVerify = Required"
| "operation_idempotency DeployRollback = Required"
| "operation_idempotency ChangesStatus = NoKey"
| "operation_idempotency ChangesHistory = NoKey"
| "operation_idempotency DiagnosticsCollect = Required"
| "operation_idempotency RemediationsBegin = Required"
| "operation_idempotency RemediationsFinish = NoKey"
| "operation_idempotency ResourcesList = NoKey"
| "operation_idempotency JobsWait = NoKey"
| "operation_idempotency JobsEvents = NoKey"
| "operation_idempotency JobsResult = NoKey"
| "operation_idempotency DeployRun = Required"

definition all_requests :: "RequestTag list" where
  "all_requests =
   [FleetOverview, UnitsFailed, HostFacts, HostMetrics, DeployStatus, UnitsList, UnitsStatus,
     UnitsLogs, AlertsActive, EventsGet, EventsRecent, EventsList, SelfStatus, ExecRun,
     UnitsStart, UnitsStop, UnitsRestart, UnitsReload, JobsList, JobsStatus, JobsLogs,
     JobsCancel, WorkspaceCreate, WorkspaceStatus, WorkspaceRead, WorkspaceApply,
     WorkspaceDiff, WorkspaceCommit, WorkspaceCheck, WorkspacePublish, DeployPrepare,
     DeployBuild, DeployActivate, DeployVerify, DeployRollback, ChangesStatus, ChangesHistory,
     DiagnosticsCollect, RemediationsBegin, RemediationsFinish, ResourcesList, JobsWait,
     JobsEvents, JobsResult, DeployRun]"

record Operation =
  op_name :: string
  op_capability :: string
  op_kind :: OperationKind
  op_read_only :: bool
  op_minimum_protocol_version :: nat
  op_idempotency :: IdempotencyRequirement

definition Request_operation :: "RequestTag \<Rightarrow> Operation" where
  "Request_operation r =
     \<lparr>op_name = Request_name r,
      op_capability = Request_capability r,
      op_kind = operation_kind r,
      op_read_only = operation_read_only r,
      op_minimum_protocol_version =
        (case operation_kind r of Observation \<Rightarrow> 1 | JobSubmission \<Rightarrow> 2 | JobControl \<Rightarrow> 2),
      op_idempotency = operation_idempotency r\<rparr>"

definition operations :: "Operation list" where
  "operations = map Request_operation all_requests"

section \<open>Facts about names\<close>

lemma rsplit_once_Some:
  assumes "rsplit_once c s = Some (a, b)"
  shows "s = a @ c # b" and "c \<notin> set b"
proof -
  from assms have mem: "c \<in> set s"
    and a: "a = rev (tl (dropWhile (\<lambda>x. x \<noteq> c) (rev s)))"
    and b: "b = rev (takeWhile (\<lambda>x. x \<noteq> c) (rev s))"
    by (auto simp: rsplit_once_def split: if_splits)
  from mem have ne: "dropWhile (\<lambda>x. x \<noteq> c) (rev s) \<noteq> []"
    by (simp add: dropWhile_eq_Nil_conv)
  then have hd: "dropWhile (\<lambda>x. x \<noteq> c) (rev s) = c # tl (dropWhile (\<lambda>x. x \<noteq> c) (rev s))"
    using hd_dropWhile[OF ne] by (cases "dropWhile (\<lambda>x. x \<noteq> c) (rev s)") auto
  have "rev s = takeWhile (\<lambda>x. x \<noteq> c) (rev s) @ c # tl (dropWhile (\<lambda>x. x \<noteq> c) (rev s))"
    using takeWhile_dropWhile_id[of "\<lambda>x. x \<noteq> c" "rev s"] hd by simp
  then have "rev (rev s) = rev (takeWhile (\<lambda>x. x \<noteq> c) (rev s) @ c # tl (dropWhile (\<lambda>x. x \<noteq> c) (rev s)))"
    by (rule arg_cong)
  then show "s = a @ c # b" by (simp add: a b)
  show "c \<notin> set b" unfolding b by (auto dest: set_takeWhileD)
qed

lemma rsplit_once_append: "c \<notin> set b \<Longrightarrow> rsplit_once c (a @ c # b) = Some (a, b)"
proof -
  assume "c \<notin> set b"
  then have all: "\<forall>x \<in> set (rev b). x \<noteq> c" by auto
  have "takeWhile (\<lambda>x. x \<noteq> c) (rev b @ c # rev a) = rev b"
    using all by (subst takeWhile_append2) auto
  moreover have "dropWhile (\<lambda>x. x \<noteq> c) (rev b @ c # rev a) = c # rev a"
    using all by (subst dropWhile_append2) auto
  ultimately show ?thesis by (simp add: rsplit_once_def)
qed

lemma ends_with_append: "ends_with s suffix \<longleftrightarrow> (\<exists>a. s = a @ suffix)"
proof
  assume "ends_with s suffix"
  then have "drop (length s - length suffix) s = suffix"
    by (simp add: ends_with_def)
  then have "take (length s - length suffix) s @ suffix = s"
    by (metis append_take_drop_id)
  then show "\<exists>a. s = a @ suffix" by metis
qed (auto simp: ends_with_def)

lemma observation_stem_unit_bytes: "list_all unit_byte s \<Longrightarrow> observation_stem s"
  by (induction s rule: observation_stem.induct) (auto simp: unit_byte_def byte_simps)

lemma hexdigit_unit_byte: "is_ascii_hexdigit c \<Longrightarrow> unit_byte c"
  using hexdigit_alphanumeric by (simp add: unit_byte_def)

lemma observation_stem_chars:
  "observation_stem s \<Longrightarrow> c \<in> set s \<Longrightarrow> unit_byte c \<or> c = CHR 0x5C"
proof (induction s rule: observation_stem.induct)
  case 1
  then show ?case by simp
next
  case (2 b rest)
  show ?case
  proof (cases "b = CHR 0x5C")
    case True
    with "2.prems"(1) obtain h1 h2 more where rest: "rest = CHR ''x'' # h1 # h2 # more"
      and hex: "unit_byte h1" "unit_byte h2" and more: "observation_stem more"
      by (auto split: list.splits intro: hexdigit_unit_byte)
    have x: "unit_byte CHR ''x''"
      by (simp add: unit_byte_def byte_simps)
    from "2.IH"(1)[OF True rest refl refl more] "2.prems"(2) rest True hex x
    show ?thesis by auto
  next
    case False
    with 2 show ?thesis by auto
  qed
qed

lemma observation_kinds_unit_bytes: "k \<in> set observation_kinds \<Longrightarrow> list_all unit_byte k"
  by (auto simp: observation_kinds_def unit_byte_def byte_simps)

lemma valid_unit_shape:
  assumes "valid_unit name"
  obtains stem where "name = stem @ ''.service''" and "stem \<noteq> []" and "list_all unit_byte stem"
    and "length name \<le> 255"
proof -
  from assms obtain stem where "name = stem @ ''.service''"
    by (auto simp: valid_unit_def ends_with_append)
  with assms show ?thesis using that by (auto simp: valid_unit_def)
qed

text \<open>Every name accepted for a mutation is accepted for observation.\<close>

lemma valid_unit_observable: "valid_unit name \<Longrightarrow> valid_observation_unit name"
proof -
  assume "valid_unit name"
  then obtain stem where name: "name = stem @ CHR ''.'' # ''service''" and ne: "stem \<noteq> []"
    and ok: "list_all unit_byte stem" and len: "length name \<le> 255"
    by (auto elim: valid_unit_shape)
  have "rsplit_once CHR ''.'' name = Some (stem, ''service'')"
    unfolding name by (rule rsplit_once_append) simp
  then show ?thesis
    using ne ok len observation_stem_unit_bytes[OF ok]
    by (simp add: valid_observation_unit_def observation_kinds_def)
qed

lemma valid_observation_unit_chars:
  assumes "valid_observation_unit name" and "c \<in> set name"
  shows "unit_byte c \<or> c = CHR 0x5C"
proof -
  from assms(1) obtain stem kind where split: "rsplit_once CHR ''.'' name = Some (stem, kind)"
    and kind: "kind \<in> set observation_kinds" and stem: "observation_stem stem"
    by (auto simp: valid_observation_unit_def split: option.splits)
  from rsplit_once_Some(1)[OF split] assms(2)
  consider "c \<in> set stem" | "c = CHR ''.''" | "c \<in> set kind" by auto
  then show ?thesis
  proof cases
    case 1
    with stem show ?thesis by (rule observation_stem_chars)
  next
    case 2
    then show ?thesis by (simp add: unit_byte_def)
  next
    case 3
    with observation_kinds_unit_bytes[OF kind] show ?thesis by (auto simp: list_all_iff)
  qed
qed

section \<open>Facts about the registry\<close>

lemma all_requests_complete: "r \<in> set all_requests"
  by (cases r) (simp_all add: all_requests_def)

lemma operations_distinct_names: "distinct (map op_name operations)"
  by code_simp

lemma Request_name_inj: "Request_name a = Request_name b \<Longrightarrow> a = b"
proof -
  have "map op_name operations = map Request_name all_requests"
    by (simp add: operations_def Request_operation_def o_def)
  with operations_distinct_names have "inj_on Request_name (set all_requests)"
    by (simp add: distinct_map)
  then show "Request_name a = Request_name b \<Longrightarrow> a = b"
    using all_requests_complete by (auto dest: inj_onD)
qed

lemma submission_policy:
  "operation_kind r = JobSubmission \<longleftrightarrow> operation_idempotency r = Required"
  "operation_kind r = JobSubmission \<Longrightarrow> \<not> operation_read_only r"
  "operation_kind r = Observation \<Longrightarrow> operation_read_only r"
  by (cases r; simp)+

end
