(* ===== verification/Json.thy ===== *)
theory Json
  imports Prelude "HOL-Library.Multiset"
begin

text \<open>
  \<open>serde_json::Value\<close> and the canonical form of \<open>maxops-store/src/lib.rs\<close>.  A number keeps
  serde's three representations; an object is its list of entries in iteration order, with
  distinct keys (\<open>json_wf\<close>) because \<open>serde_json::Map\<close> is a map.
\<close>

datatype number = PosInt nat | NegInt int | Float nat

datatype json =
    JNull
  | JBool bool
  | JNumber number
  | JString string
  | JArray "json list"
  | JObject "(string \<times> json) list"

fun json_wf :: "json \<Rightarrow> bool" where
  "json_wf (JArray vs) = list_all json_wf vs"
| "json_wf (JObject kvs) = (distinct (map fst kvs) \<and> list_all (\<lambda>(_, v). json_wf v) kvs)"
| "json_wf _ = True"

definition is_object :: "json \<Rightarrow> bool" where
  "is_object v = (case v of JObject _ \<Rightarrow> True | _ \<Rightarrow> False)"

text \<open>\<open>Value::get\<close> with a key.\<close>

definition json_get :: "string \<Rightarrow> json \<Rightarrow> json option" where
  "json_get k v = (case v of JObject kvs \<Rightarrow> map_of kvs k | _ \<Rightarrow> None)"

definition json_as_str :: "json \<Rightarrow> string option" where
  "json_as_str v = (case v of JString s \<Rightarrow> Some s | _ \<Rightarrow> None)"

text \<open>
  \<open>entries.sort_by_key(|(key, _)| *key)\<close>, keys compared bytewise, then every value recursively.
\<close>

fun canonical_json :: "json \<Rightarrow> json" where
  "canonical_json (JObject object) =
     JObject (map (\<lambda>(k, v). (k, canonical_json v)) (sort_key fst object))"
| "canonical_json (JArray vs) = JArray (map canonical_json vs)"
| "canonical_json v = v"

text \<open>Two documents that differ only in the order of object entries, at any depth.\<close>

inductive json_sim :: "json \<Rightarrow> json \<Rightarrow> bool" where
  atom: "\<lbrakk>\<And>vs. v \<noteq> JArray vs; \<And>kvs. v \<noteq> JObject kvs\<rbrakk> \<Longrightarrow> json_sim v v"
| array: "list_all2 json_sim vs ws \<Longrightarrow> json_sim (JArray vs) (JArray ws)"
| object: "\<lbrakk>distinct (map fst a); map fst a' = map fst b';
     list_all2 json_sim (map snd a') (map snd b'); mset a' = mset a; mset b' = mset b\<rbrakk>
     \<Longrightarrow> json_sim (JObject a) (JObject b)"
monos list_all2_mono

section \<open>The canonical form\<close>

lemma canonical_object_perm:
  assumes "mset a = mset b" and "distinct (map fst a)"
  shows "canonical_json (JObject a) = canonical_json (JObject b)"
proof -
  have "inj_on fst (set a)" using assms(2) by (simp add: distinct_map)
  then have "sort_key fst a = sort_key fst b"
    using sort_key_inj_key_eq[of a "sort_key fst b" fst] assms(1) by simp
  then show ?thesis by simp
qed

lemma insort_key_map_values:
  "insort_key fst (k, f v) (map (\<lambda>(k, v). (k, f v)) ys) = map (\<lambda>(k, v). (k, f v)) (insort_key fst (k, v) ys)"
  by (induction ys) auto

lemma sort_key_map_values:
  "sort_key fst (map (\<lambda>(k, v). (k, f v)) xs) = map (\<lambda>(k, v). (k, f v)) (sort_key fst xs)"
  by (induction xs) (auto simp: insort_key_map_values)

lemma sort_key_idem [simp]: "sort_key f (sort_key f xs) = sort_key f xs"
  by (simp add: sort_key_id_if_sorted)

lemma distinct_sort_key_keys [simp]: "distinct (map f (sort_key f xs)) \<longleftrightarrow> distinct (map f xs)"
proof -
  have "mset (map f (sort_key f xs)) = mset (map f xs)" by simp
  then show ?thesis by (rule mset_eq_imp_distinct_iff)
qed

lemma canonical_json_idem: "canonical_json (canonical_json v) = canonical_json v"
proof (induction v rule: canonical_json.induct)
  case (1 object)
  then have "canonical_json (canonical_json v) = canonical_json v" if "(k, v) \<in> set object" for k v
    using that by force
  then show ?case by (auto simp: sort_key_map_values)
qed simp_all

lemma canonical_json_wf: "json_wf v \<Longrightarrow> json_wf (canonical_json v)"
proof (induction v rule: canonical_json.induct)
  case (1 object)
  have "map fst (map (\<lambda>(k, v). (k, canonical_json v)) (sort_key fst object)) = map fst (sort_key fst object)"
    by (simp add: case_prod_beta)
  moreover have "list_all (\<lambda>(_, v). json_wf v) (map (\<lambda>(k, v). (k, canonical_json v)) (sort_key fst object))"
    using "1.IH" "1.prems" by (auto simp: list_all_iff)
  ultimately show ?case using "1.prems"
    by (simp only: canonical_json.simps json_wf.simps distinct_sort_key_keys)
next
  case (2 vs)
  then show ?case by (simp add: list_all_iff)
qed simp_all

lemma map_of_sort_key: "distinct (map fst kvs) \<Longrightarrow> map_of (sort_key fst kvs) = map_of kvs"
  by (rule map_of_inject_set[THEN iffD2]) (simp_all)

lemma json_get_canonical:
  assumes "json_wf v"
  shows "json_get k (canonical_json v) = map_option canonical_json (json_get k v)"
proof (cases v)
  case (JObject kvs)
  with assms show ?thesis by (simp add: json_get_def map_of_map map_of_sort_key)
qed (simp_all add: json_get_def)

lemma json_sim_canonical: "json_sim v w \<Longrightarrow> canonical_json v = canonical_json w"
proof (induction rule: json_sim.induct)
  case (atom v)
  then show ?case by (cases v) auto
next
  case (array vs ws)
  then have "map canonical_json vs = map canonical_json ws"
    by (induction rule: list_all2_induct) auto
  then show ?case by simp
next
  case (object a a' b' b)
  have canon: "map canonical_json (map snd a') = map canonical_json (map snd b')"
    using object.IH by (induction rule: list_all2_induct) auto
  have zip: "map (\<lambda>(k, v). (k, canonical_json v)) xs
      = zip (map fst xs) (map canonical_json (map snd xs))" for xs :: "(string \<times> json) list"
    by (induction xs) auto
  have eq: "map (\<lambda>(k, v). (k, canonical_json v)) a' = map (\<lambda>(k, v). (k, canonical_json v)) b'"
    unfolding zip canon object.hyps(2) ..
  have da: "distinct (map fst a')"
    using object.hyps(1,3) by (metis mset_eq_imp_distinct_iff mset_map)
  have "canonical_json (JObject a) = canonical_json (JObject a')"
    by (rule canonical_object_perm[OF object.hyps(3)[symmetric] object.hyps(1)])
  also have "\<dots> = canonical_json (JObject b')"
    using eq by (simp add: sort_key_map_values[symmetric])
  also have "\<dots> = canonical_json (JObject b)"
    using da object.hyps(2,4) by (intro canonical_object_perm) simp_all
  finally show ?case .
qed

end
