(* ===== verification/Proto_Jobs.thy ===== *)
theory Proto_Jobs
  imports Proto_Operations Json
begin

text \<open>
  \<open>maxops-proto/src/jobs.rs\<close>: the job state machine, job records, and the checks on command
  submissions.
\<close>

section \<open>Job states\<close>

datatype JobState =
    Queued | Dispatching | Running | Reconciling | Succeeded | Failed | Cancelled | TimedOut
  | OutcomeUnknown

primrec JobState_as_str :: "JobState \<Rightarrow> string" where
  "JobState_as_str Queued = ''queued''"
| "JobState_as_str Dispatching = ''dispatching''"
| "JobState_as_str Running = ''running''"
| "JobState_as_str Reconciling = ''reconciling''"
| "JobState_as_str Succeeded = ''succeeded''"
| "JobState_as_str Failed = ''failed''"
| "JobState_as_str Cancelled = ''cancelled''"
| "JobState_as_str TimedOut = ''timed_out''"
| "JobState_as_str OutcomeUnknown = ''outcome_unknown''"

definition JobState_is_terminal :: "JobState \<Rightarrow> bool" where
  "JobState_is_terminal s \<longleftrightarrow> s \<in> {Succeeded, Failed, Cancelled, TimedOut, OutcomeUnknown}"

primrec JobState_successors :: "JobState \<Rightarrow> JobState list" where
  "JobState_successors Queued = [Dispatching, Failed, Cancelled, TimedOut]"
| "JobState_successors Dispatching =
     [Running, Reconciling, Succeeded, Failed, Cancelled, TimedOut]"
| "JobState_successors Running = [Reconciling, Succeeded, Failed, Cancelled, TimedOut]"
| "JobState_successors Reconciling =
     [Running, Succeeded, Failed, Cancelled, TimedOut, OutcomeUnknown]"
| "JobState_successors OutcomeUnknown = [Succeeded, Failed, Cancelled, TimedOut]"
| "JobState_successors Succeeded = []"
| "JobState_successors Failed = []"
| "JobState_successors Cancelled = []"
| "JobState_successors TimedOut = []"

definition JobState_can_transition_to :: "JobState \<Rightarrow> JobState \<Rightarrow> bool" where
  "JobState_can_transition_to s next \<longleftrightarrow> next \<in> set (JobState_successors s)"

definition JobState_from_str :: "string \<Rightarrow> (JobState, string) result" where
  "JobState_from_str value =
     (if value = ''queued'' then Ok Queued
      else if value = ''dispatching'' then Ok Dispatching
      else if value = ''running'' then Ok Running
      else if value = ''reconciling'' then Ok Reconciling
      else if value = ''succeeded'' then Ok Succeeded
      else if value = ''failed'' then Ok Failed
      else if value = ''cancelled'' then Ok Cancelled
      else if value = ''timed_out'' then Ok TimedOut
      else if value = ''outcome_unknown'' then Ok OutcomeUnknown
      else Err ''invalid job state'')"

section \<open>Job records\<close>

text \<open>
  A \<open>jiff::Timestamp\<close> is an integer count of nanoseconds since the epoch.
\<close>

type_synonym timestamp = int

record NewJob =
  nj_principal :: string
  nj_host :: string
  nj_operation :: string
  nj_spec_version :: nat
  nj_spec :: json
  nj_policy_version :: string
  nj_deadline :: "timestamp option"

record JobHandle =
  h_job_id :: JobId
  h_state :: JobState
  h_revision :: nat
  h_operation :: string
  h_host :: string

record JobRecord =
  job_handle :: JobHandle
  job_principal :: string
  job_spec_version :: nat
  job_spec :: json
  job_spec_hash :: string
  job_policy_version :: string
  job_created_at :: timestamp
  job_updated_at :: timestamp
  job_deadline :: "timestamp option"
  job_cancel_requested :: bool
  job_result :: "json option"

section \<open>Command submissions\<close>

datatype CommandSpec = Argv "string list" | Script string

definition CommandSpec_validate :: "CommandSpec \<Rightarrow> (unit, string) result" where
  "CommandSpec_validate c =
     (case c of
        Argv argv \<Rightarrow>
          if argv \<noteq> [] \<and> length argv \<le> 256 \<and> list_all (\<lambda>v. length v \<le> 16 * 1024) argv
          then Ok () else Err ''argv must contain 1..256 bounded arguments''
      | Script script \<Rightarrow>
          if script \<noteq> [] \<and> length script \<le> 64 * 1024
          then Ok () else Err ''script must contain 1..65536 bytes'')"

text \<open>\<open>env\<close> is a \<open>BTreeMap\<close>: its entries in key order.\<close>

record ExecRunParams =
  er_host :: string
  er_profile :: string
  er_command :: CommandSpec
  er_cwd :: "string option"
  er_env :: "(string \<times> string) list"
  er_credential_refs :: "string list"
  er_timeout_seconds :: "nat option"

definition ident_byte :: "char \<Rightarrow> bool" where
  "ident_byte b \<longleftrightarrow> is_ascii_alphanumeric b \<or> b = CHR ''_'' \<or> b = CHR ''-''"

definition env_entry_ok :: "string \<times> string \<Rightarrow> bool" where
  "env_entry_ok = (\<lambda>(key, value).
     \<not> (key = [] \<or> length key > 256 \<or> length value > 16 * 1024 \<or>
        \<not> list_all (\<lambda>b. is_ascii_alphanumeric b \<or> b = CHR ''_'') key))"

definition credential_ref_ok :: "string \<Rightarrow> bool" where
  "credential_ref_ok value \<longleftrightarrow>
     \<not> (value = [] \<or> length value > 128 \<or> value = ''spec'' \<or> \<not> list_all ident_byte value)"

definition ExecRunParams_validate :: "ExecRunParams \<Rightarrow> (unit, string) result" where
  "ExecRunParams_validate p =
     rbind (CommandSpec_validate (er_command p)) (\<lambda>_.
      if \<not> valid_host (er_host p) then Err ''invalid host''
      else if er_profile p = [] \<or> length (er_profile p) > 64 \<or> \<not> list_all ident_byte (er_profile p)
      then Err ''invalid execution profile''
      else if length (er_env p) > 128 \<or> \<not> list_all env_entry_ok (er_env p)
      then Err ''invalid environment''
      else if length (er_credential_refs p) > 32
              \<or> card (set (er_credential_refs p)) \<noteq> length (er_credential_refs p)
              \<or> \<not> list_all credential_ref_ok (er_credential_refs p)
      then Err ''credential references must be unique valid names''
      else if er_timeout_seconds p = Some 0 then Err ''timeout must be positive''
      else Ok ())"

section \<open>Parameters of the job operations\<close>

record JobsListParams =
  jl_cursor :: "JobId option"
  jl_host :: "string option"
  jl_states :: "JobState list"
  jl_limit :: nat

definition default_job_limit :: nat where "default_job_limit = 50"

record JobLogsParams =
  jlog_job_id :: JobId
  jlog_stdout_offset :: nat
  jlog_stderr_offset :: nat
  jlog_limit :: nat

definition default_log_limit :: nat where "default_log_limit = 64 * 1024"

record JobCancelParams =
  jc_job_id :: JobId
  jc_expected_revision :: nat
  jc_reason :: string

record RuntimeStateResponse =
  rs_host :: string
  rs_deployment_profile :: string
  rs_running_closure :: "string option"
  rs_persistent_profile :: "string option"
  rs_generation :: "nat option"
  rs_boot_id :: "string option"
  rs_observed_at :: timestamp

section \<open>Facts about the state machine\<close>

lemma JobState_from_as_str [simp, enum_codec]: "JobState_from_str (JobState_as_str s) = Ok s"
  by (cases s) (simp_all add: JobState_from_str_def)

lemma JobState_from_str_Ok: "JobState_from_str v = Ok s \<longleftrightarrow> v = JobState_as_str s"
  by (cases s) (auto simp: JobState_from_str_def split: if_splits)

lemma JobState_as_str_inj [simp]: "JobState_as_str a = JobState_as_str b \<longleftrightarrow> a = b"
  by (metis JobState_from_as_str sum.inject(2))

lemmas job_machine = JobState_can_transition_to_def JobState_is_terminal_def

lemma can_transition_irrefl [simp]: "\<not> JobState_can_transition_to s s"
  by (cases s) (simp_all add: job_machine)

lemma never_back_to_Queued [simp]: "\<not> JobState_can_transition_to s Queued"
  by (cases s) (simp_all add: job_machine)

lemma unknown_only_from_reconciling:
  "JobState_can_transition_to s OutcomeUnknown \<longleftrightarrow> s = Reconciling"
  by (cases s) (simp_all add: job_machine)

text \<open>The four definitive outcomes have no successor; \<open>OutcomeUnknown\<close> only resolves to one.\<close>

definition JobState_definitive :: "JobState \<Rightarrow> bool" where
  "JobState_definitive s \<longleftrightarrow> JobState_is_terminal s \<and> s \<noteq> OutcomeUnknown"

lemma definitive_final: "JobState_definitive s \<Longrightarrow> \<not> JobState_can_transition_to s t"
  by (cases s) (simp_all add: job_machine JobState_definitive_def)

lemma terminal_resolves:
  "JobState_is_terminal s \<Longrightarrow> JobState_can_transition_to s t \<Longrightarrow>
   s = OutcomeUnknown \<and> JobState_definitive t"
  by (cases s) (auto simp: job_machine JobState_definitive_def)

lemma nonterminal_can_finish:
  "\<not> JobState_is_terminal s \<Longrightarrow> JobState_can_transition_to s Failed"
  by (cases s) (simp_all add: job_machine)

end
