(* ===== verification/Proto_Changes.thy ===== *)
theory Proto_Changes
  imports Proto_Jobs
begin

text \<open>
  \<open>maxops-proto/src/changes.rs\<close>: the deployment change record, its state machine and the
  parameter checks of the deployment operations.
\<close>

section \<open>Change states\<close>

datatype ChangeState =
    Prepared | Checking | Building | Publishing | Ready | Activating | Verifying | Recovering
  | ChSucceeded | RolledBack | RecoveryFailed | ChFailed | Stale | Superseded | ChOutcomeUnknown

primrec ChangeState_as_str :: "ChangeState \<Rightarrow> string" where
  "ChangeState_as_str Prepared = ''prepared''"
| "ChangeState_as_str Checking = ''checking''"
| "ChangeState_as_str Building = ''building''"
| "ChangeState_as_str Publishing = ''publishing''"
| "ChangeState_as_str Ready = ''ready''"
| "ChangeState_as_str Activating = ''activating''"
| "ChangeState_as_str Verifying = ''verifying''"
| "ChangeState_as_str Recovering = ''recovering''"
| "ChangeState_as_str ChSucceeded = ''succeeded''"
| "ChangeState_as_str RolledBack = ''rolled_back''"
| "ChangeState_as_str RecoveryFailed = ''recovery_failed''"
| "ChangeState_as_str ChFailed = ''failed''"
| "ChangeState_as_str Stale = ''stale''"
| "ChangeState_as_str Superseded = ''superseded''"
| "ChangeState_as_str ChOutcomeUnknown = ''outcome_unknown''"

definition ChangeState_is_terminal :: "ChangeState \<Rightarrow> bool" where
  "ChangeState_is_terminal s \<longleftrightarrow>
     s \<in> {ChSucceeded, RolledBack, RecoveryFailed, ChFailed, Stale, Superseded, ChOutcomeUnknown}"

primrec ChangeState_successors :: "ChangeState \<Rightarrow> ChangeState list" where
  "ChangeState_successors Checking = [Prepared, ChFailed, Stale, ChOutcomeUnknown]"
| "ChangeState_successors Prepared = [Building, Stale, ChFailed]"
| "ChangeState_successors Building = [Publishing, Ready, ChFailed, Stale, ChOutcomeUnknown]"
| "ChangeState_successors Publishing = [Ready, ChFailed, Stale, ChOutcomeUnknown]"
| "ChangeState_successors Ready = [Activating, Stale, ChFailed]"
| "ChangeState_successors Activating =
     [Verifying, RolledBack, RecoveryFailed, ChFailed, Stale, Superseded, ChOutcomeUnknown]"
| "ChangeState_successors Verifying =
     [ChSucceeded, Recovering, RolledBack, RecoveryFailed, ChFailed, Superseded, ChOutcomeUnknown]"
| "ChangeState_successors ChSucceeded = [Recovering]"
| "ChangeState_successors Recovering = [RolledBack, RecoveryFailed, Superseded, ChOutcomeUnknown]"
| "ChangeState_successors RolledBack = []"
| "ChangeState_successors RecoveryFailed = []"
| "ChangeState_successors ChFailed = []"
| "ChangeState_successors Stale = []"
| "ChangeState_successors Superseded = []"
| "ChangeState_successors ChOutcomeUnknown = []"

definition ChangeState_can_transition_to :: "ChangeState \<Rightarrow> ChangeState \<Rightarrow> bool" where
  "ChangeState_can_transition_to s next \<longleftrightarrow> next \<in> set (ChangeState_successors s)"

definition ChangeState_from_str :: "string \<Rightarrow> (ChangeState, string) result" where
  "ChangeState_from_str value =
     (if value = ''prepared'' then Ok Prepared
      else if value = ''checking'' then Ok Checking
      else if value = ''building'' then Ok Building
      else if value = ''publishing'' then Ok Publishing
      else if value = ''ready'' then Ok Ready
      else if value = ''activating'' then Ok Activating
      else if value = ''verifying'' then Ok Verifying
      else if value = ''recovering'' then Ok Recovering
      else if value = ''succeeded'' then Ok ChSucceeded
      else if value = ''rolled_back'' then Ok RolledBack
      else if value = ''recovery_failed'' then Ok RecoveryFailed
      else if value = ''failed'' then Ok ChFailed
      else if value = ''stale'' then Ok Stale
      else if value = ''superseded'' then Ok Superseded
      else if value = ''outcome_unknown'' then Ok ChOutcomeUnknown
      else Err ''invalid change state'')"

section \<open>The frozen plan, the artifact and the record\<close>

record SourceBaseline =
  sb_repository_id :: string
  sb_reference :: string
  sb_commit :: "string option"
  sb_observed_at :: timestamp
  sb_evidence :: string

record RuntimeBaseline =
  rb_host :: string
  rb_profile :: string
  rb_running_closure :: "string option"
  rb_persistent_profile :: "string option"
  rb_generation :: "nat option"
  rb_boot_id :: "string option"
  rb_source_commit :: "string option"
  rb_observed_at :: timestamp
  rb_evidence :: string

datatype DeploymentKind = SystemKind | HomeKind

record ChangePlan =
  pl_change_id :: ChangeId
  pl_repository :: string
  pl_workspace_id :: WorkspaceId
  pl_workspace_revision :: nat
  pl_tree_hash :: string
  pl_source_commit :: string
  pl_source_reference :: string
  pl_source_remote_head :: string
  pl_target_host :: string
  pl_deployment_profile :: string
  pl_kind :: DeploymentKind
  pl_flake_attribute :: string
  pl_drv_path :: "string option"
  pl_lock_digest :: "string option"
  pl_source_baseline :: SourceBaseline
  pl_runtime_baseline :: RuntimeBaseline
  pl_policy_version :: string
  pl_created_at :: timestamp
  pl_expires_at :: timestamp

record DeploymentArtifact =
  ar_builder_host :: string
  ar_source_commit :: string
  ar_tree_hash :: string
  ar_lock_digest :: string
  ar_drv_path :: string
  ar_out_path :: string
  ar_built_at :: timestamp

record ChangeJobs =
  cj_prepare :: "JobId option"
  cj_build :: "JobId option"
  cj_activate :: "JobId option"
  cj_verify :: "JobId option"
  cj_rollback :: "JobId option"

text \<open>\<open>ChangeJobs::default()\<close>\<close>

definition ChangeJobs_default :: ChangeJobs where
  "ChangeJobs_default =
     \<lparr>cj_prepare = None, cj_build = None, cj_activate = None, cj_verify = None, cj_rollback = None\<rparr>"

record ChangeRecord =
  ch_plan :: ChangePlan
  ch_creator :: string
  ch_revision :: nat
  ch_state :: ChangeState
  ch_artifact :: "DeploymentArtifact option"
  ch_jobs :: ChangeJobs
  ch_recovery_state :: "string option"
  ch_updated_at :: timestamp

section \<open>Deployment jobs and reports\<close>

datatype DeploymentAction = Prepare | Build | Activate | Verify | Rollback

record DeploymentJobSpec =
  dj_action :: DeploymentAction
  dj_plan :: ChangePlan
  dj_artifact :: "DeploymentArtifact option"

record DeploymentRunnerSpec =
  dr_job :: DeploymentJobSpec
  dr_nix :: string
  dr_nix_env :: string
  dr_profile_path :: string
  dr_running_link :: string
  dr_activation_program :: string
  dr_activation_arguments :: "string list"
  dr_artifact_source :: "string option"
  dr_verify_commands :: "string list list"
  dr_verify_attempts :: nat
  dr_verify_interval_seconds :: nat
  dr_automatic_rollback :: bool

datatype DeploymentReportStatus =
    RPrepared | RBuilt | RActivated | RVerified | RRolledBack | RStale | RSuperseded
  | RRecoveryFailed | ROutcomeUnknown | RFailed

record DeploymentReport =
  rp_action :: DeploymentAction
  rp_status :: DeploymentReportStatus
  rp_drv_path :: "string option"
  rp_out_path :: "string option"
  rp_lock_digest :: "string option"
  rp_observed_running :: "string option"
  rp_observed_profile :: "string option"
  rp_detail :: string
  rp_completed_at :: timestamp

section \<open>Parameters\<close>

record DeployChangeParams =
  dc_change_id :: ChangeId
  dc_expected_revision :: nat

definition DeployChangeParams_validate :: "DeployChangeParams \<Rightarrow> (unit, string) result" where
  "DeployChangeParams_validate p =
     (if dc_expected_revision p = 0 then Err ''change revision must be positive'' else Ok ())"

record ChangeHistoryParams =
  hi_cursor :: "ChangeId option"
  hi_host :: "string option"
  hi_limit :: nat

definition default_change_limit :: nat where "default_change_limit = 50"

definition ChangeHistoryParams_validate :: "ChangeHistoryParams \<Rightarrow> (unit, string) result" where
  "ChangeHistoryParams_validate p =
     (if \<not> (1 \<le> hi_limit p \<and> hi_limit p \<le> 200)
         \<or> (case hi_host p of None \<Rightarrow> False | Some host \<Rightarrow> \<not> valid_host host)
      then Err ''invalid change history request'' else Ok ())"

section \<open>Facts about the state machine\<close>

lemma ChangeState_from_as_str [simp, enum_codec]:
  "ChangeState_from_str (ChangeState_as_str s) = Ok s"
  by (cases s) (simp_all add: ChangeState_from_str_def)

lemma ChangeState_from_str_Ok: "ChangeState_from_str v = Ok s \<longleftrightarrow> v = ChangeState_as_str s"
  by (cases s) (auto simp: ChangeState_from_str_def split: if_splits)

lemma ChangeState_as_str_inj [simp]: "ChangeState_as_str a = ChangeState_as_str b \<longleftrightarrow> a = b"
  by (metis ChangeState_from_as_str sum.inject(2))

lemmas change_machine = ChangeState_can_transition_to_def ChangeState_is_terminal_def

text \<open>
  Progress through a deployment: every transition climbs, so the graph has no cycle, unlike the
  job machine, whose \<open>Running\<close> and \<open>Reconciling\<close> states alternate.
\<close>

primrec change_rank :: "ChangeState \<Rightarrow> nat" where
  "change_rank Checking = 0"
| "change_rank Prepared = 1"
| "change_rank Building = 2"
| "change_rank Publishing = 3"
| "change_rank Ready = 4"
| "change_rank Activating = 5"
| "change_rank Verifying = 6"
| "change_rank ChSucceeded = 7"
| "change_rank Recovering = 8"
| "change_rank RolledBack = 9"
| "change_rank RecoveryFailed = 9"
| "change_rank ChFailed = 9"
| "change_rank Stale = 9"
| "change_rank Superseded = 9"
| "change_rank ChOutcomeUnknown = 9"

lemma change_rank_bound: "change_rank s \<le> 9"
  by (cases s) simp_all

lemma change_rank_mono: "ChangeState_can_transition_to s t \<Longrightarrow> change_rank s < change_rank t"
  by (cases s) (auto simp: change_machine)

lemma change_terminal_successor:
  "ChangeState_is_terminal s \<Longrightarrow> ChangeState_can_transition_to s t \<Longrightarrow>
   s = ChSucceeded \<and> t = Recovering"
  by (cases s) (auto simp: change_machine)

end
