(* ===== verification/Proto_Workspaces.thy ===== *)
theory Proto_Workspaces
  imports Proto_Changes
begin

text \<open>
  \<open>maxops-proto/src/workspaces.rs\<close>: workspace records, their states, and the checks of the
  workspace operations (and of \<open>deploy.prepare\<close>, which uses the same identifier syntax).
\<close>

definition MAX_WORKSPACE_APPLY_BYTES :: nat where "MAX_WORKSPACE_APPLY_BYTES = 1024 * 1024"
definition MAX_WORKSPACE_READ_BYTES :: nat where "MAX_WORKSPACE_READ_BYTES = 256 * 1024"

datatype WorkspaceState = Clean | Dirty | Committed | Published

primrec WorkspaceState_as_str :: "WorkspaceState \<Rightarrow> string" where
  "WorkspaceState_as_str Clean = ''clean''"
| "WorkspaceState_as_str Dirty = ''dirty''"
| "WorkspaceState_as_str Committed = ''committed''"
| "WorkspaceState_as_str Published = ''published''"

definition WorkspaceState_from_str :: "string \<Rightarrow> (WorkspaceState, string) result" where
  "WorkspaceState_from_str value =
     (if value = ''clean'' then Ok Clean
      else if value = ''dirty'' then Ok Dirty
      else if value = ''committed'' then Ok Committed
      else if value = ''published'' then Ok Published
      else Err ''invalid workspace state'')"

record WorkspaceRecord =
  ws_workspace_id :: WorkspaceId
  ws_repository :: string
  ws_executor :: string
  ws_base_commit :: string
  ws_revision :: nat
  ws_tree_hash :: string
  ws_commit_hash :: "string option"
  ws_state :: WorkspaceState
  ws_creator :: string
  ws_created_at :: timestamp
  ws_retain_until :: "timestamp option"

section \<open>Identifiers\<close>

definition valid_repository_id :: "string \<Rightarrow> bool" where
  "valid_repository_id value \<longleftrightarrow> value \<noteq> [] \<and> length value \<le> 64 \<and> list_all ident_byte value"

definition valid_git_oid :: "string \<Rightarrow> bool" where
  "valid_git_oid value \<longleftrightarrow> length value \<in> {40, 64} \<and> list_all is_ascii_hexdigit value"

definition valid_check_id :: "string \<Rightarrow> bool" where
  "valid_check_id value \<longleftrightarrow>
     value \<noteq> [] \<and> length value \<le> 64 \<and> list_all (\<lambda>b. ident_byte b \<or> b = CHR ''.'') value"

section \<open>Parameter checks\<close>

definition validate_repository :: "string \<Rightarrow> (unit, string) result" where
  "validate_repository repository =
     (if valid_repository_id repository then Ok () else Err ''invalid repository ID'')"

definition validate_revision :: "string \<Rightarrow> nat \<Rightarrow> (unit, string) result" where
  "validate_revision repository revision =
     rbind (validate_repository repository) (\<lambda>_.
       if revision = 0 then Err ''workspace revision must be positive'' else Ok ())"

record WorkspaceCreateParams =
  wc_repository :: string
  wc_expected_remote_head :: "string option"

definition WorkspaceCreateParams_validate :: "WorkspaceCreateParams \<Rightarrow> (unit, string) result" where
  "WorkspaceCreateParams_validate p =
     rbind (validate_repository (wc_repository p)) (\<lambda>_.
       if (case wc_expected_remote_head p of None \<Rightarrow> False | Some value \<Rightarrow> \<not> valid_git_oid value)
       then Err ''invalid expected remote commit'' else Ok ())"

record WorkspaceReadParams =
  wr_repository :: string
  wr_workspace_id :: WorkspaceId
  wr_expected_revision :: nat
  wr_path :: string
  wr_max_bytes :: nat

definition WorkspaceReadParams_validate :: "WorkspaceReadParams \<Rightarrow> (unit, string) result" where
  "WorkspaceReadParams_validate p =
     rbind (validate_revision (wr_repository p) (wr_expected_revision p)) (\<lambda>_.
       if wr_path p = [] \<or> length (wr_path p) > 4096 \<or> CHR 0x00 \<in> set (wr_path p)
          \<or> \<not> (1 \<le> wr_max_bytes p \<and> wr_max_bytes p \<le> MAX_WORKSPACE_READ_BYTES)
       then Err ''invalid workspace read request'' else Ok ())"

record WorkspaceEdit =
  we_path :: string
  we_content :: "string option"

record WorkspaceApplyParams =
  wa_repository :: string
  wa_workspace_id :: WorkspaceId
  wa_expected_revision :: nat
  wa_edits :: "WorkspaceEdit list"

text \<open>
  The loop over the edits, with the set of paths seen and the running byte count; \<open>usize\<close> is
  64 bits wide.
\<close>

fun validate_edits :: "string set \<Rightarrow> nat \<Rightarrow> WorkspaceEdit list \<Rightarrow> (nat, string) result" where
  "validate_edits paths bytes [] = Ok bytes"
| "validate_edits paths bytes (edit # edits) =
     (if we_path edit = [] \<or> length (we_path edit) > 4096 \<or> CHR 0x00 \<in> set (we_path edit)
         \<or> we_path edit \<in> paths
      then Err ''workspace edit paths must be unique and bounded''
      else rbind (ok_or ''workspace edits are too large''
             (checked_add_u64 bytes (case we_content edit of None \<Rightarrow> 0 | Some c \<Rightarrow> length c)))
           (\<lambda>bytes'. validate_edits (insert (we_path edit) paths) bytes' edits))"

definition WorkspaceApplyParams_validate :: "WorkspaceApplyParams \<Rightarrow> (unit, string) result" where
  "WorkspaceApplyParams_validate p =
     rbind (validate_revision (wa_repository p) (wa_expected_revision p)) (\<lambda>_.
       if wa_edits p = [] \<or> length (wa_edits p) > 128
       then Err ''workspace apply requires 1..128 edits''
       else rbind (validate_edits {} 0 (wa_edits p)) (\<lambda>bytes.
         if bytes > MAX_WORKSPACE_APPLY_BYTES then Err ''workspace edits exceed 1 MiB''
         else Ok ()))"

record WorkspaceCheckParams =
  wk_repository :: string
  wk_workspace_id :: WorkspaceId
  wk_expected_revision :: nat
  wk_check :: string

definition WorkspaceCheckParams_validate :: "WorkspaceCheckParams \<Rightarrow> (unit, string) result" where
  "WorkspaceCheckParams_validate p =
     rbind (validate_revision (wk_repository p) (wk_expected_revision p)) (\<lambda>_.
       if \<not> valid_check_id (wk_check p) then Err ''invalid check name'' else Ok ())"

record WorkspacePublishParams =
  wp_repository :: string
  wp_workspace_id :: WorkspaceId
  wp_expected_revision :: nat
  wp_reference :: string
  wp_expected_remote_head :: string

definition WorkspacePublishParams_validate :: "WorkspacePublishParams \<Rightarrow> (unit, string) result" where
  "WorkspacePublishParams_validate p =
     rbind (validate_revision (wp_repository p) (wp_expected_revision p)) (\<lambda>_.
       if wp_reference p = [] \<or> length (wp_reference p) > 512
          \<or> \<not> valid_git_oid (wp_expected_remote_head p)
       then Err ''invalid publish baseline'' else Ok ())"

record WorkspaceCommitParams =
  wm_repository :: string
  wm_workspace_id :: WorkspaceId
  wm_expected_revision :: nat
  wm_message :: string

text \<open>
  \<open>message.trim().is_empty()\<close>: the text consists of characters with the Unicode property
  White\_Space only, here by their UTF-8 encodings.
\<close>

fun trim_is_empty :: "nat list \<Rightarrow> bool" where
  "trim_is_empty [] = True"
| "trim_is_empty (b # bs) =
     (if 9 \<le> b \<and> b \<le> 13 \<or> b = 32 then trim_is_empty bs
      else case bs of
        b2 # bs2 \<Rightarrow>
          if b = 0xC2 \<and> b2 \<in> {0x85, 0xA0} then trim_is_empty bs2
          else (case bs2 of
                  b3 # bs3 \<Rightarrow>
                    if b = 0xE1 \<and> b2 = 0x9A \<and> b3 = 0x80
                       \<or> b = 0xE2 \<and> b2 = 0x80 \<and>
                           (0x80 \<le> b3 \<and> b3 \<le> 0x8A \<or> b3 \<in> {0xA8, 0xA9, 0xAF})
                       \<or> b = 0xE2 \<and> b2 = 0x81 \<and> b3 = 0x9F
                       \<or> b = 0xE3 \<and> b2 = 0x80 \<and> b3 = 0x80
                    then trim_is_empty bs3 else False
                | [] \<Rightarrow> False)
      | [] \<Rightarrow> False)"

definition WorkspaceCommitParams_validate :: "WorkspaceCommitParams \<Rightarrow> (unit, string) result" where
  "WorkspaceCommitParams_validate p =
     rbind (validate_revision (wm_repository p) (wm_expected_revision p)) (\<lambda>_.
       if trim_is_empty (map byte (wm_message p)) \<or> length (wm_message p) > 8192
          \<or> CHR 0x00 \<in> set (wm_message p)
       then Err ''commit message must contain 1..8192 bytes'' else Ok ())"

record DeployPrepareParams =
  dp_repository :: string
  dp_workspace_id :: WorkspaceId
  dp_expected_revision :: nat
  dp_target_host :: string
  dp_profile :: string

definition DeployPrepareParams_validate :: "DeployPrepareParams \<Rightarrow> (unit, string) result" where
  "DeployPrepareParams_validate p =
     (if \<not> valid_repository_id (dp_repository p) \<or> dp_expected_revision p = 0
         \<or> \<not> valid_host (dp_target_host p) \<or> \<not> valid_check_id (dp_profile p)
      then Err ''invalid deployment preparation request'' else Ok ())"

section \<open>Facts\<close>

lemma WorkspaceState_from_as_str [simp, enum_codec]:
  "WorkspaceState_from_str (WorkspaceState_as_str s) = Ok s"
  by (cases s) (simp_all add: WorkspaceState_from_str_def)

lemma WorkspaceState_from_str_Ok:
  "WorkspaceState_from_str v = Ok s \<longleftrightarrow> v = WorkspaceState_as_str s"
  by (cases s) (auto simp: WorkspaceState_from_str_def split: if_splits)

lemma valid_git_oid_lower [simp]: "valid_git_oid (to_ascii_lowercase s) \<longleftrightarrow> valid_git_oid s"
  by (simp add: valid_git_oid_def to_ascii_lowercase_def list_all_iff)

text \<open>
  What one pass of the loop establishes: the paths are distinct, bounded and new, and the count
  is the exact sum of the replacement sizes.
\<close>

definition edit_bytes :: "WorkspaceEdit \<Rightarrow> nat" where
  "edit_bytes e = (case we_content e of None \<Rightarrow> 0 | Some c \<Rightarrow> length c)"

definition edit_path_ok :: "WorkspaceEdit \<Rightarrow> bool" where
  "edit_path_ok e \<longleftrightarrow> we_path e \<noteq> [] \<and> length (we_path e) \<le> 4096 \<and> CHR 0x00 \<notin> set (we_path e)"

lemma validate_edits_Ok:
  "validate_edits paths bytes edits = Ok t \<longleftrightarrow>
     list_all edit_path_ok edits \<and> distinct (map we_path edits) \<and>
     we_path ` set edits \<inter> paths = {} \<and>
     t = bytes + sum_list (map edit_bytes edits) \<and> (edits \<noteq> [] \<longrightarrow> t \<le> u64_max)"
proof (induction edits arbitrary: paths bytes)
  case Nil
  then show ?case by auto
next
  case (Cons e edits)
  define n where "n = edit_bytes e"
  have n: "(case we_content e of None \<Rightarrow> 0 | Some c \<Rightarrow> length c) = n"
    by (simp add: n_def edit_bytes_def)
  show ?case
  proof (cases "edit_path_ok e \<and> we_path e \<notin> paths")
    case False
    then show ?thesis by (auto simp: edit_path_ok_def)
  next
    case True
    then have ok: "\<not> (we_path e = [] \<or> length (we_path e) > 4096 \<or> CHR 0x00 \<in> set (we_path e)
        \<or> we_path e \<in> paths)" by (auto simp: edit_path_ok_def)
    have "validate_edits paths bytes (e # edits) = Ok t \<longleftrightarrow>
        bytes + n \<le> u64_max \<and> validate_edits (insert (we_path e) paths) (bytes + n) edits = Ok t"
      using ok by (simp add: n)
    with True show ?thesis unfolding Cons.IH by (auto simp: n_def[symmetric])
  qed
qed

end
