(* ===== verification/Proto_Events.thy ===== *)
theory Proto_Events
  imports Proto_Workspaces
begin

text \<open>
  \<open>maxops-proto/src/events.rs\<close> and the resource kinds of \<open>observations.rs\<close>: job events, fleet
  events, diagnostics, remediations and delivery stages, with their parameter checks.
\<close>

section \<open>Job events\<close>

datatype JobEventKind = Submitted | StateChanged | CancelRequested | Reconciled

primrec JobEventKind_as_str :: "JobEventKind \<Rightarrow> string" where
  "JobEventKind_as_str Submitted = ''submitted''"
| "JobEventKind_as_str StateChanged = ''state_changed''"
| "JobEventKind_as_str CancelRequested = ''cancel_requested''"
| "JobEventKind_as_str Reconciled = ''reconciled''"

definition JobEventKind_parse :: "string \<Rightarrow> (JobEventKind, string) result" where
  "JobEventKind_parse value =
     (if value = ''submitted'' then Ok Submitted
      else if value = ''state_changed'' then Ok StateChanged
      else if value = ''cancel_requested'' then Ok CancelRequested
      else if value = ''reconciled'' then Ok Reconciled
      else Err ''invalid job event kind'')"

record JobEvent =
  je_sequence :: nat
  je_job_id :: JobId
  je_kind :: JobEventKind
  je_state :: JobState
  je_occurred_at :: timestamp
  je_payload :: json

section \<open>Fleet events\<close>

datatype EventKind =
    AlertFiring | AlertResolved | DiagnosticCollected | RemediationStarted | RemediationFinished

primrec EventKind_as_str :: "EventKind \<Rightarrow> string" where
  "EventKind_as_str AlertFiring = ''alert_firing''"
| "EventKind_as_str AlertResolved = ''alert_resolved''"
| "EventKind_as_str DiagnosticCollected = ''diagnostic_collected''"
| "EventKind_as_str RemediationStarted = ''remediation_started''"
| "EventKind_as_str RemediationFinished = ''remediation_finished''"

definition EventKind_parse :: "string \<Rightarrow> (EventKind, string) result" where
  "EventKind_parse value =
     (if value = ''alert_firing'' then Ok AlertFiring
      else if value = ''alert_resolved'' then Ok AlertResolved
      else if value = ''diagnostic_collected'' then Ok DiagnosticCollected
      else if value = ''remediation_started'' then Ok RemediationStarted
      else if value = ''remediation_finished'' then Ok RemediationFinished
      else Err ''invalid event kind'')"

record EventRecord =
  ev_sequence :: nat
  ev_event_id :: EventId
  ev_source :: string
  ev_fingerprint :: string
  ev_episode_id :: EpisodeId
  ev_kind :: EventKind
  ev_host :: string
  ev_occurred_at :: timestamp
  ev_received_at :: timestamp
  ev_related_job_id :: "JobId option"
  ev_related_change_id :: "ChangeId option"
  ev_payload :: json

record EventsListParams =
  el_cursor :: "nat option"
  el_host :: "string option"
  el_kinds :: "EventKind list"
  el_limit :: nat

definition default_event_limit :: nat where "default_event_limit = 100"

definition EventsListParams_validate :: "EventsListParams \<Rightarrow> (unit, string) result" where
  "EventsListParams_validate p =
     (if \<not> (1 \<le> el_limit p \<and> el_limit p \<le> 200) then Err ''event list limit must be 1..200''
      else if (case el_host p of None \<Rightarrow> False | Some host \<Rightarrow> \<not> valid_host host)
      then Err ''invalid host'' else Ok ())"

record RecentEventsParams =
  re_host :: "string option"
  re_unit :: "string option"
  re_since_seconds :: nat
  re_before_sequence :: "nat option"
  re_limit :: nat

definition default_recent_limit :: nat where "default_recent_limit = 20"

definition RecentEventsParams_validate :: "RecentEventsParams \<Rightarrow> (unit, string) result" where
  "RecentEventsParams_validate p =
     (if \<not> (1 \<le> re_limit p \<and> re_limit p \<le> 50)
         \<or> \<not> (1 \<le> re_since_seconds p \<and> re_since_seconds p \<le> 604800)
      then Err ''recent events require 1..50 entries and 1..604800 since_seconds''
      else if (case re_host p of None \<Rightarrow> False | Some host \<Rightarrow> \<not> valid_host host)
      then Err ''invalid host''
      else if (case re_unit p of None \<Rightarrow> False | Some u \<Rightarrow> \<not> valid_observation_unit u)
      then Err ''invalid observation unit name'' else Ok ())"

record EventsListResponse =
  er_events :: "EventRecord list"
  er_next_cursor :: nat
  er_earliest_cursor :: nat

section \<open>Diagnostics\<close>

record DiagnosticCollectParams =
  di_host :: string
  di_event_id :: "EventId option"
  di_unit :: "string option"
  di_lines :: nat
  di_since_seconds :: nat
  di_probes :: "string list"

definition probe_name_ok :: "string \<Rightarrow> bool" where
  "probe_name_ok probe \<longleftrightarrow>
     \<not> (probe = [] \<or> length probe > 128 \<or>
        \<not> list_all (\<lambda>b. is_ascii_alphanumeric b \<or> b \<in> set ''_-.:'') probe)"

text \<open>\<open>Vec::dedup\<close> drops consecutive duplicates.\<close>

definition dedup :: "string list \<Rightarrow> string list" where
  "dedup xs = remdups_adj xs"

definition DiagnosticCollectParams_validate :: "DiagnosticCollectParams \<Rightarrow> (unit, string) result" where
  "DiagnosticCollectParams_validate p =
     (if \<not> valid_host (di_host p) then Err ''invalid host''
      else if (case di_unit p of None \<Rightarrow> False | Some u \<Rightarrow> \<not> valid_unit u)
      then Err ''invalid service unit name''
      else if \<not> (1 \<le> di_lines p \<and> di_lines p \<le> 200)
              \<or> \<not> (1 \<le> di_since_seconds p \<and> di_since_seconds p \<le> 86400)
      then Err ''diagnostics require 1..200 lines and 1..86400 since_seconds''
      else if length (di_probes p) > 16 \<or> \<not> list_all probe_name_ok (di_probes p)
      then Err ''invalid diagnostic probe list''
      else if length (dedup (sort (di_probes p))) \<noteq> length (di_probes p)
      then Err ''diagnostic probes must be unique''
      else Ok ())"

section \<open>Remediations\<close>

datatype RemediationState = RmActive | RmSucceeded | RmFailed | RmNoAction | RmSuperseded

primrec RemediationState_as_str :: "RemediationState \<Rightarrow> string" where
  "RemediationState_as_str RmActive = ''active''"
| "RemediationState_as_str RmSucceeded = ''succeeded''"
| "RemediationState_as_str RmFailed = ''failed''"
| "RemediationState_as_str RmNoAction = ''no_action''"
| "RemediationState_as_str RmSuperseded = ''superseded''"

definition RemediationState_parse :: "string \<Rightarrow> (RemediationState, string) result" where
  "RemediationState_parse value =
     (if value = ''active'' then Ok RmActive
      else if value = ''succeeded'' then Ok RmSucceeded
      else if value = ''failed'' then Ok RmFailed
      else if value = ''no_action'' then Ok RmNoAction
      else if value = ''superseded'' then Ok RmSuperseded
      else Err ''invalid remediation state'')"

record RemediationFinishParams =
  rf_remediation_id :: RemediationId
  rf_expected_revision :: nat
  rf_outcome :: RemediationState
  rf_related_job_id :: "JobId option"
  rf_related_change_id :: "ChangeId option"
  rf_summary :: string

definition RemediationFinishParams_validate :: "RemediationFinishParams \<Rightarrow> (unit, string) result" where
  "RemediationFinishParams_validate p =
     (if rf_outcome p = RmActive then Err ''remediation outcome must be terminal''
      else if rf_summary p = [] \<or> length (rf_summary p) > 1024
      then Err ''remediation summary must be 1..1024 bytes'' else Ok ())"

record RemediationRecord =
  rm_remediation_id :: RemediationId
  rm_event_id :: EventId
  rm_episode_id :: EpisodeId
  rm_host :: string
  rm_principal :: string
  rm_attempt :: nat
  rm_revision :: nat
  rm_state :: RemediationState
  rm_started_at :: timestamp
  rm_finished_at :: "timestamp option"
  rm_related_job_id :: "JobId option"
  rm_related_change_id :: "ChangeId option"
  rm_summary :: "string option"

section \<open>Deliveries\<close>

datatype DeliveryStage = DlQueued | DlAccepted | DlConfirmed

primrec DeliveryStage_as_str :: "DeliveryStage \<Rightarrow> string" where
  "DeliveryStage_as_str DlQueued = ''queued''"
| "DeliveryStage_as_str DlAccepted = ''accepted''"
| "DeliveryStage_as_str DlConfirmed = ''confirmed''"

definition DeliveryStage_parse :: "string \<Rightarrow> (DeliveryStage, string) result" where
  "DeliveryStage_parse value =
     (if value = ''queued'' then Ok DlQueued
      else if value = ''accepted'' then Ok DlAccepted
      else if value = ''confirmed'' then Ok DlConfirmed
      else Err ''invalid delivery stage'')"

section \<open>Resource observations\<close>

datatype ResourceKind = GitRef | RunningSystem | PersistentProfile | HomeProfile | UnitResource

primrec ResourceKind_as_str :: "ResourceKind \<Rightarrow> string" where
  "ResourceKind_as_str GitRef = ''git_ref''"
| "ResourceKind_as_str RunningSystem = ''running_system''"
| "ResourceKind_as_str PersistentProfile = ''persistent_profile''"
| "ResourceKind_as_str HomeProfile = ''home_profile''"
| "ResourceKind_as_str UnitResource = ''unit''"

definition ResourceKind_parse :: "string \<Rightarrow> (ResourceKind, string) result" where
  "ResourceKind_parse value =
     (if value = ''git_ref'' then Ok GitRef
      else if value = ''running_system'' then Ok RunningSystem
      else if value = ''persistent_profile'' then Ok PersistentProfile
      else if value = ''home_profile'' then Ok HomeProfile
      else if value = ''unit'' then Ok UnitResource
      else Err ''invalid observation resource kind'')"

record ResourceObservation =
  ob_resource_kind :: ResourceKind
  ob_resource_key :: string
  ob_observed_at :: timestamp
  ob_value :: json
  ob_evidence :: string
  ob_related_change_id :: "string option"

section \<open>The enum codecs\<close>

text \<open>
  Every state, kind and stage is written to the database with \<open>as_str\<close> and read back with its
  parser.  The contract between the two, and what it gives a reader, is proved once.
\<close>

locale enum_codec_spec =
  fixes enc :: "'a \<Rightarrow> string"
    and dec :: "string \<Rightarrow> ('a, string) result"
  assumes dec_enc: "dec (enc x) = Ok x"
    and dec_only: "dec s = Ok x \<Longrightarrow> s = enc x"
begin

lemma dec_iff: "dec s = Ok x \<longleftrightarrow> s = enc x"
  using dec_enc dec_only by blast

lemma enc_inj: "enc x = enc y \<longleftrightarrow> x = y"
  by (metis dec_enc sum.inject(2))

lemma dec_error: "(\<forall>x. s \<noteq> enc x) \<longleftrightarrow> (\<exists>e. dec s = Err e)"
  by (metis dec_iff old.sum.exhaust sum.distinct(1))

end

interpretation job_state: enum_codec_spec JobState_as_str JobState_from_str
  by unfold_locales (simp_all add: JobState_from_str_Ok)

interpretation change_state: enum_codec_spec ChangeState_as_str ChangeState_from_str
  by unfold_locales (simp_all add: ChangeState_from_str_Ok)

interpretation workspace_state: enum_codec_spec WorkspaceState_as_str WorkspaceState_from_str
  by unfold_locales (simp_all add: WorkspaceState_from_str_Ok)

interpretation job_event_kind: enum_codec_spec JobEventKind_as_str JobEventKind_parse
proof unfold_locales
  show "JobEventKind_parse (JobEventKind_as_str x) = Ok x" for x
    by (cases x) (simp_all add: JobEventKind_parse_def)
  show "JobEventKind_parse s = Ok x \<Longrightarrow> s = JobEventKind_as_str x" for s x
    by (auto simp: JobEventKind_parse_def split: if_splits)
qed

interpretation event_kind: enum_codec_spec EventKind_as_str EventKind_parse
proof unfold_locales
  show "EventKind_parse (EventKind_as_str x) = Ok x" for x
    by (cases x) (simp_all add: EventKind_parse_def)
  show "EventKind_parse s = Ok x \<Longrightarrow> s = EventKind_as_str x" for s x
    by (auto simp: EventKind_parse_def split: if_splits)
qed

interpretation remediation_state: enum_codec_spec RemediationState_as_str RemediationState_parse
proof unfold_locales
  show "RemediationState_parse (RemediationState_as_str x) = Ok x" for x
    by (cases x) (simp_all add: RemediationState_parse_def)
  show "RemediationState_parse s = Ok x \<Longrightarrow> s = RemediationState_as_str x" for s x
    by (auto simp: RemediationState_parse_def split: if_splits)
qed

interpretation delivery_stage: enum_codec_spec DeliveryStage_as_str DeliveryStage_parse
proof unfold_locales
  show "DeliveryStage_parse (DeliveryStage_as_str x) = Ok x" for x
    by (cases x) (simp_all add: DeliveryStage_parse_def)
  show "DeliveryStage_parse s = Ok x \<Longrightarrow> s = DeliveryStage_as_str x" for s x
    by (auto simp: DeliveryStage_parse_def split: if_splits)
qed

interpretation resource_kind: enum_codec_spec ResourceKind_as_str ResourceKind_parse
proof unfold_locales
  show "ResourceKind_parse (ResourceKind_as_str x) = Ok x" for x
    by (cases x) (simp_all add: ResourceKind_parse_def)
  show "ResourceKind_parse s = Ok x \<Longrightarrow> s = ResourceKind_as_str x" for s x
    by (auto simp: ResourceKind_parse_def split: if_splits)
qed

lemmas enum_dec_enc [simp] =
  job_event_kind.dec_enc event_kind.dec_enc remediation_state.dec_enc delivery_stage.dec_enc
  resource_kind.dec_enc

lemmas enum_enc_inj [simp] =
  workspace_state.enc_inj job_event_kind.enc_inj event_kind.enc_inj remediation_state.enc_inj
  delivery_stage.enc_inj resource_kind.enc_inj

end
