(* ===== verification/Store_Tables.thy ===== *)
theory Store_Tables
  imports Proto_Events
begin

text \<open>
  The database of \<open>maxops-store\<close>: one row type per table of
  \<open>crates/maxops-store/migrations/*.sql\<close>, the store as the record of its tables, and the SQL
  statement forms the transactions use (select one row, update the matching rows, insert).

  Enum columns hold the text written by \<open>as_str\<close> and integer columns hold SQLite integers
  (\<open>int\<close>), as in the database; timestamp columns hold the instant and JSON columns hold the
  document (SQLite stores their text, which jiff and serde\_json write and read back).
  A foreign key, a primary key and a unique index are checked where a statement of the code can
  meet them, and a violation is the error \<open>Constraint\<close>; every other failure is a \<open>Report\<close> with
  the message of the source.
\<close>

datatype store_error = Report string | Constraint string

section \<open>Rows\<close>

record job_row =
  jr_id :: string
  jr_principal :: string
  jr_host :: string
  jr_operation :: string
  jr_spec_version :: int
  jr_spec :: json
  jr_spec_hash :: string
  jr_state :: string
  jr_revision :: int
  jr_policy_version :: string
  jr_created_at :: timestamp
  jr_updated_at :: timestamp
  jr_deadline :: "timestamp option"
  jr_cancel_requested :: int
  jr_result :: "json option"

record idempotency_row =
  ir_principal :: string
  ir_key :: string
  ir_spec_hash :: string
  ir_job_id :: string
  ir_created_at :: timestamp

record job_event_row =
  jer_sequence :: int
  jer_job_id :: string
  jer_kind :: string
  jer_state :: string
  jer_occurred_at :: timestamp
  jer_payload :: json

record resource_row =
  rr_kind :: string
  rr_key :: string
  rr_owner_job_id :: string
  rr_revision :: int
  rr_acquired_at :: timestamp

record workspace_row =
  wr_id :: string
  wrow_repository_id :: string
  wrow_executor :: string
  wrow_base_commit :: string
  wrow_revision :: int
  wrow_tree_hash :: string
  wrow_commit_hash :: "string option"
  wrow_state :: string
  wrow_creator :: string
  wrow_created_at :: timestamp
  wrow_retain_until :: "timestamp option"

record change_row =
  cr_id :: string
  cr_workspace_id :: string
  cr_workspace_revision :: int
  cr_host :: string
  cr_profile :: string
  cr_source :: SourceBaseline
  cr_artifact :: "DeploymentArtifact option"
  cr_baseline :: RuntimeBaseline
  cr_intent :: ChangePlan
  cr_state :: string
  cr_recovery_state :: "string option"
  cr_created_at :: timestamp
  cr_updated_at :: timestamp
  cr_creator :: string
  cr_revision :: int
  cr_jobs :: ChangeJobs
  cr_workflow_job_id :: "string option"

record observation_row =
  or_sequence :: int
  or_resource_kind :: string
  or_resource_key :: string
  or_observed_at :: timestamp
  or_value :: json
  or_evidence :: string
  or_related_change_id :: "string option"

record episode_row =
  ep_source :: string
  ep_fingerprint :: string
  ep_host :: string
  ep_episode_id :: string
  ep_active :: int
  ep_last_received_at :: timestamp

record event_row =
  evr_sequence :: int
  evr_id :: string
  evr_source :: string
  evr_fingerprint :: string
  evr_episode_id :: string
  evr_kind :: string
  evr_host :: string
  evr_occurred_at :: timestamp
  evr_received_at :: timestamp
  evr_related_job_id :: "string option"
  evr_related_change_id :: "string option"
  evr_payload :: json

record subscription_row =
  sr_id :: string
  sr_principal :: string
  sr_filter :: json
  sr_target :: json
  sr_credential_ref :: "string option"
  sr_cursor :: int
  sr_acknowledged_at :: "timestamp option"
  sr_created_at :: timestamp

record delivery_row =
  dl_subscription_id :: string
  dl_event_sequence :: int
  dl_stage :: string
  dl_attempts :: int
  dl_retry_at :: "timestamp option"
  dl_response_status :: "int option"
  dl_updated_at :: timestamp

record remediation_row =
  mr_id :: string
  mr_event_id :: string
  mr_episode_id :: string
  mr_host :: string
  mr_principal :: string
  mr_attempt :: int
  mr_revision :: int
  mr_state :: string
  mr_started_at :: timestamp
  mr_finished_at :: "timestamp option"
  mr_related_job_id :: "string option"
  mr_related_change_id :: "string option"
  mr_summary :: "string option"

text \<open>
  The store.  The three counters are SQLite's \<open>sqlite_sequence\<close> entries of the tables whose key
  is \<open>AUTOINCREMENT\<close>: the largest key ever handed out.
\<close>

record store =
  st_jobs :: "job_row list"
  st_idempotency :: "idempotency_row list"
  st_job_events :: "job_event_row list"
  st_job_event_seq :: int
  st_resources :: "resource_row list"
  st_workspaces :: "workspace_row list"
  st_changes :: "change_row list"
  st_observations :: "observation_row list"
  st_observation_seq :: int
  st_episodes :: "episode_row list"
  st_events :: "event_row list"
  st_event_seq :: int
  st_subscriptions :: "subscription_row list"
  st_deliveries :: "delivery_row list"
  st_remediations :: "remediation_row list"

definition empty_store :: store where
  "empty_store =
     \<lparr>st_jobs = [], st_idempotency = [], st_job_events = [], st_job_event_seq = 0,
      st_resources = [], st_workspaces = [], st_changes = [], st_observations = [],
      st_observation_seq = 0, st_episodes = [], st_events = [], st_event_seq = 0,
      st_subscriptions = [], st_deliveries = [], st_remediations = []\<rparr>"

section \<open>Statements\<close>

text \<open>\<open>SELECT ... WHERE p\<close> with \<open>fetch_optional\<close>.\<close>

definition select_one :: "('r \<Rightarrow> bool) \<Rightarrow> 'r list \<Rightarrow> 'r option" where
  "select_one p rows = find p rows"

text \<open>\<open>UPDATE ... SET f WHERE p\<close> and its \<open>rows_affected\<close>.\<close>

definition update_where :: "('r \<Rightarrow> bool) \<Rightarrow> ('r \<Rightarrow> 'r) \<Rightarrow> 'r list \<Rightarrow> 'r list" where
  "update_where p f rows = map (\<lambda>r. if p r then f r else r) rows"

definition count_where :: "('r \<Rightarrow> bool) \<Rightarrow> 'r list \<Rightarrow> nat" where
  "count_where p rows = length (filter p rows)"

text \<open>Integer conversions at the database boundary.\<close>

definition to_i64 :: "nat \<Rightarrow> string \<Rightarrow> (int, store_error) result" where
  "to_i64 value name =
     (if int value \<le> i64_max then Ok (int value)
      else Err (Report (name @ '' exceeds SQLite integer range'')))"

definition to_u64 :: "int \<Rightarrow> string \<Rightarrow> (nat, store_error) result" where
  "to_u64 value name =
     (if 0 \<le> value then Ok (nat value) else Err (Report (''invalid '' @ name @ '' in database'')))"

text \<open>
  A transaction body either fails and is rolled back, or commits its tables and a value.
\<close>

definition transact ::
  "(store \<Rightarrow> (store \<times> 'a, store_error) result) \<Rightarrow> store \<Rightarrow> store \<times> ('a, store_error) result" where
  "transact body s = (case body s of Inl e \<Rightarrow> (s, Inl e) | Inr (s', x) \<Rightarrow> (s', Inr x))"

section \<open>Facts about the statement forms\<close>

lemma to_i64_Ok [simp]: "to_i64 n name = Ok i \<longleftrightarrow> i = int n \<and> int n \<le> i64_max"
  by (auto simp: to_i64_def)

lemma to_u64_Ok [simp]: "to_u64 i name = Ok n \<longleftrightarrow> 0 \<le> i \<and> n = nat i"
  by (auto simp: to_u64_def)

lemma to_u64_int [simp]: "to_u64 (int n) name = Ok n"
  by simp

lemma select_one_Some_iff:
  "select_one p rows = Some r \<Longrightarrow> r \<in> set rows \<and> p r"
  by (auto simp: select_one_def find_Some_iff in_set_conv_nth)

lemma select_one_None_iff: "select_one p rows = None \<longleftrightarrow> (\<forall>r \<in> set rows. \<not> p r)"
  by (auto simp: select_one_def find_None_iff)

lemma select_one_append:
  "select_one p (xs @ ys) = (case select_one p xs of Some r \<Rightarrow> Some r | None \<Rightarrow> select_one p ys)"
  by (induction xs) (auto simp: select_one_def)

lemma select_one_simps [simp]:
  "select_one p [] = None"
  "select_one p (x # xs) = (if p x then Some x else select_one p xs)"
  by (simp_all add: select_one_def)

lemma select_one_update_where:
  assumes "\<And>r. q (f r) = q r"
  shows "select_one q (update_where p f rows) =
    map_option (\<lambda>r. if p r then f r else r) (select_one q rows)"
  using assms by (induction rows) (auto simp: update_where_def)

lemma set_update_where: "set (update_where p f rows) = (\<lambda>r. if p r then f r else r) ` set rows"
  by (simp add: update_where_def)

lemma length_update_where [simp]: "length (update_where p f rows) = length rows"
  by (simp add: update_where_def)

lemma map_update_where: "(\<And>r. k (f r) = k r) \<Longrightarrow> map k (update_where p f rows) = map k rows"
  by (simp add: update_where_def)

lemma update_where_none: "(\<And>r. r \<in> set rows \<Longrightarrow> \<not> p r) \<Longrightarrow> update_where p f rows = rows"
  by (simp add: update_where_def map_idI)

lemma count_where_pos: "count_where p rows \<noteq> 0 \<longleftrightarrow> (\<exists>r \<in> set rows. p r)"
  by (auto simp: count_where_def filter_empty_conv)

lemma count_where_append [simp]: "count_where p (xs @ ys) = count_where p xs + count_where p ys"
  by (simp add: count_where_def)

lemma count_where_simps [simp]:
  "count_where p [] = 0"
  "count_where p (x # xs) = (if p x then Suc (count_where p xs) else count_where p xs)"
  by (simp_all add: count_where_def)

lemma transact_Inl: "body s = Inl e \<Longrightarrow> transact body s = (s, Inl e)"
  by (simp add: transact_def)

lemma transact_Inr: "body s = Inr (s', x) \<Longrightarrow> transact body s = (s', Inr x)"
  by (simp add: transact_def)

section \<open>Tables with a key\<close>

text \<open>
  What the transactions rely on from a table with a primary key: a row is found by its key, an
  update that keeps the keys changes the selected rows and no other, a fresh insert is found and
  hides nothing.
\<close>

locale keyed_table =
  fixes key :: "'r \<Rightarrow> 'k"
begin

lemma found: "select_one (\<lambda>r. key r = k) rows = Some r \<Longrightarrow> r \<in> set rows \<and> key r = k"
  by (auto dest: select_one_Some_iff)

lemma not_found: "select_one (\<lambda>r. key r = k) rows = None \<longleftrightarrow> k \<notin> key ` set rows"
  by (auto simp: select_one_None_iff)

lemma member_found:
  "distinct (map key rows) \<Longrightarrow> r \<in> set rows \<Longrightarrow> select_one (\<lambda>x. key x = key r) rows = Some r"
  by (induction rows) force+

lemma found_iff:
  "distinct (map key rows) \<Longrightarrow>
   select_one (\<lambda>r. key r = k) rows = Some r \<longleftrightarrow> r \<in> set rows \<and> key r = k"
  using member_found found by blast

lemma insert_keeps_key:
  "distinct (map key rows) \<Longrightarrow> select_one (\<lambda>x. key x = key r) rows = None \<Longrightarrow>
   distinct (map key (rows @ [r]))"
  by (auto simp: not_found)

lemma found_after_insert:
  "select_one (\<lambda>r. key r = k) (rows @ [r]) =
     (case select_one (\<lambda>r. key r = k) rows of
        Some r' \<Rightarrow> Some r'
      | None \<Rightarrow> if key r = k then Some r else None)"
  by (simp add: select_one_append split: option.split)

lemma update_keeps_key:
  "(\<And>r. key (f r) = key r) \<Longrightarrow> map key (update_where p f rows) = map key rows"
  by (rule map_update_where)

lemma found_after_update:
  assumes "\<And>r. key (f r) = key r"
  shows "select_one (\<lambda>r. key r = k) (update_where p f rows) =
    map_option (\<lambda>r. if p r then f r else r) (select_one (\<lambda>r. key r = k) rows)"
  using assms by (intro select_one_update_where) simp

lemma key_unique:
  "distinct (map key rows) \<Longrightarrow> r \<in> set rows \<Longrightarrow> r' \<in> set rows \<Longrightarrow> key r = key r' \<Longrightarrow> r = r'"
  by (metis member_found option.inject)

lemma count_key:
  "distinct (map key rows) \<Longrightarrow>
   count_where (\<lambda>r. key r = k) rows = (if k \<in> key ` set rows then 1 else 0)"
  by (induction rows) auto

lemma count_key_and:
  assumes "distinct (map key rows)" and "r \<in> set rows" and "p r"
  shows "count_where (\<lambda>x. key x = key r \<and> p x) rows = 1"
proof -
  have "count_where (\<lambda>x. key x = key r \<and> p x) rows = count_where (\<lambda>x. key x = key r) rows"
    unfolding count_where_def using assms key_unique by (metis (mono_tags, lifting) filter_cong)
  with assms show ?thesis by (simp add: count_key)
qed

end

interpretation jobs_t: keyed_table jr_id .
interpretation idem_t: keyed_table "\<lambda>r. (ir_principal r, ir_key r)" .
interpretation resources_t: keyed_table "\<lambda>r. (rr_kind r, rr_key r)" .
interpretation workspaces_t: keyed_table wr_id .
interpretation changes_t: keyed_table cr_id .
interpretation episodes_t: keyed_table "\<lambda>r. (ep_source r, ep_fingerprint r, ep_host r)" .
interpretation events_t: keyed_table evr_id .
interpretation subscriptions_t: keyed_table sr_id .
interpretation deliveries_t: keyed_table "\<lambda>r. (dl_subscription_id r, dl_event_sequence r)" .
interpretation remediations_t: keyed_table mr_id .

end
