(* ===== verification/Store_Jobs.thy ===== *)
theory Store_Jobs
  imports Store_Tables
begin

text \<open>
  \<open>maxops-store/src/lib.rs\<close>, durable jobs: submission with an idempotency receipt (and,
  atomically, the link of a deployment stage or workflow to its change), acceptance under an
  upstream identity, revision-checked transitions, cancellation, the job event log and the
  listings.

  Parameters for code outside the repository: \<open>digest\<close> is \<open>blake3(serde_json::to_vec(_))\<close> in
  hexadecimal, \<open>ts_text\<close> the text form of a timestamp (which SQL compares), \<open>now\<close> the clock
  reading of the call, and the fresh identities of \<open>Uuid::now_v7\<close> are arguments.
\<close>

section \<open>Validation and fingerprints\<close>

definition MAX_IDEMPOTENCY_KEY_BYTES :: nat where "MAX_IDEMPOTENCY_KEY_BYTES = 128"

definition validate_new_job :: "string \<Rightarrow> NewJob \<Rightarrow> (unit, store_error) result" where
  "validate_new_job idempotency_key new =
     (if \<not> (idempotency_key \<noteq> [] \<and> length idempotency_key \<le> MAX_IDEMPOTENCY_KEY_BYTES
            \<and> list_all is_ascii_graphic idempotency_key)
      then Err (Report ''idempotency key must contain 1..128 printable ASCII characters without spaces'')
      else if \<not> (nj_principal new \<noteq> [] \<and> length (nj_principal new) \<le> 128)
      then Err (Report ''invalid principal'')
      else if \<not> valid_host (nj_host new) then Err (Report ''invalid host'')
      else if \<not> (nj_operation new \<noteq> [] \<and> length (nj_operation new) \<le> 128)
      then Err (Report ''invalid operation'')
      else if \<not> nj_spec_version new > 0 then Err (Report ''invalid spec version'')
      else if \<not> (nj_policy_version new \<noteq> [] \<and> length (nj_policy_version new) \<le> 128)
      then Err (Report ''invalid policy version'')
      else if \<not> is_object (nj_spec new)
      then Err (Report ''job specification must be a JSON object'')
      else Ok ())"

definition job_fingerprint :: "NewJob \<Rightarrow> json" where
  "job_fingerprint new =
     canonical_json (JObject
       [(''host'', JString (nj_host new)),
        (''operation'', JString (nj_operation new)),
        (''spec_version'', JNumber (PosInt (nj_spec_version new))),
        (''spec'', nj_spec new)])"

definition job_spec_hash_of :: "(json \<Rightarrow> string) \<Rightarrow> NewJob \<Rightarrow> string" where
  "job_spec_hash_of digest new = digest (job_fingerprint new)"

section \<open>Reading\<close>

definition row_to_job :: "job_row \<Rightarrow> (JobRecord, store_error) result" where
  "row_to_job row =
     rbind (map_err Report (JobId_parse (jr_id row))) (\<lambda>jid.
     rbind (map_err Report (JobState_from_str (jr_state row))) (\<lambda>state.
     rbind (to_u64 (jr_revision row) ''job revision'') (\<lambda>revision.
     rbind (if 0 \<le> jr_spec_version row \<and> nat (jr_spec_version row) \<le> u32_max
            then Ok (nat (jr_spec_version row))
            else Err (Report ''invalid spec version in database'')) (\<lambda>spec_version.
     Ok \<lparr>job_handle =
           \<lparr>h_job_id = jid, h_state = state, h_revision = revision,
            h_operation = jr_operation row, h_host = jr_host row\<rparr>,
         job_principal = jr_principal row,
         job_spec_version = spec_version,
         job_spec = jr_spec row,
         job_spec_hash = jr_spec_hash row,
         job_policy_version = jr_policy_version row,
         job_created_at = jr_created_at row,
         job_updated_at = jr_updated_at row,
         job_deadline = jr_deadline row,
         job_cancel_requested = (jr_cancel_requested row \<noteq> 0),
         job_result = jr_result row\<rparr>))))"

definition get_job_by_text :: "string \<Rightarrow> store \<Rightarrow> (JobRecord, store_error) result" where
  "get_job_by_text jid s =
     rbind (ok_or (Report ''job not found'') (select_one (\<lambda>r. jr_id r = jid) (st_jobs s))) row_to_job"

definition get_job :: "JobId \<Rightarrow> store \<Rightarrow> (JobRecord, store_error) result" where
  "get_job jid s = get_job_by_text (job_id_str jid) s"

definition get_idempotent_job ::
  "string \<Rightarrow> string \<Rightarrow> store \<Rightarrow> (JobRecord option, store_error) result" where
  "get_idempotent_job prin key s =
     (case select_one (\<lambda>r. (ir_principal r, ir_key r) = (prin, key)) (st_idempotency s) of
        Some row \<Rightarrow> rbind (get_job_by_text (ir_job_id row) s) (\<lambda>job. Ok (Some job))
      | None \<Rightarrow> Ok None)"

definition get_owned_job :: "string \<Rightarrow> JobId \<Rightarrow> store \<Rightarrow> (JobRecord, store_error) result" where
  "get_owned_job prin jid s =
     rbind (get_job jid s) (\<lambda>job.
       if job_principal job = prin then Ok job else Err (Report ''job not found''))"

section \<open>Submission\<close>

record SubmitResult =
  sub_job :: JobRecord
  sub_created :: bool

record ChangeJobLink =
  ln_change :: ChangeRecord
  ln_next :: ChangeState
  ln_action :: "DeploymentAction option"
  ln_workflow :: "JobId option"

definition new_job_row :: "(json \<Rightarrow> string) \<Rightarrow> timestamp \<Rightarrow> JobId \<Rightarrow> NewJob \<Rightarrow> job_row" where
  "new_job_row digest now jid new =
     \<lparr>jr_id = job_id_str jid, jr_principal = nj_principal new, jr_host = nj_host new,
      jr_operation = nj_operation new, jr_spec_version = int (nj_spec_version new),
      jr_spec = canonical_json (nj_spec new), jr_spec_hash = job_spec_hash_of digest new,
      jr_state = ''queued'', jr_revision = 1, jr_policy_version = nj_policy_version new,
      jr_created_at = now, jr_updated_at = now, jr_deadline = nj_deadline new,
      jr_cancel_requested = 0, jr_result = None\<rparr>"

text \<open>\<open>INSERT INTO jobs\<close>: the identity is the primary key.\<close>

definition insert_job_row :: "job_row \<Rightarrow> store \<Rightarrow> (store, store_error) result" where
  "insert_job_row row s =
     (if jr_id row \<in> jr_id ` set (st_jobs s)
      then Err (Constraint ''UNIQUE constraint failed: jobs.id'')
      else Ok (s\<lparr>st_jobs := st_jobs s @ [row]\<rparr>))"

definition append_job_event ::
  "string \<Rightarrow> string \<Rightarrow> string \<Rightarrow> timestamp \<Rightarrow> json \<Rightarrow> store \<Rightarrow> store" where
  "append_job_event job_id kind state at payload s =
     s\<lparr>st_job_events := st_job_events s @
         [\<lparr>jer_sequence = st_job_event_seq s + 1, jer_job_id = job_id, jer_kind = kind,
           jer_state = state, jer_occurred_at = at, jer_payload = payload\<rparr>],
       st_job_event_seq := st_job_event_seq s + 1\<rparr>"

text \<open>The \<open>match action\<close> that picks the stage slot of \<open>ChangeJobs\<close>.\<close>

definition set_stage_job :: "DeploymentAction \<Rightarrow> JobId \<Rightarrow> ChangeJobs \<Rightarrow> ChangeJobs" where
  "set_stage_job action jid jobs =
     (case action of
        Build \<Rightarrow> jobs\<lparr>cj_build := Some jid\<rparr>
      | Activate \<Rightarrow> jobs\<lparr>cj_activate := Some jid\<rparr>
      | Verify \<Rightarrow> jobs\<lparr>cj_verify := Some jid\<rparr>
      | Rollback \<Rightarrow> jobs\<lparr>cj_rollback := Some jid\<rparr>
      | Prepare \<Rightarrow> jobs\<lparr>cj_prepare := Some jid\<rparr>)"

text \<open>
  The workflow fence: a workflow's own stage needs the workflow to be the running, uncancelled
  owner; any other link needs the previous owner, if there is one, to have a definitive outcome.
\<close>

definition check_workflow_owner ::
  "string option \<Rightarrow> job_row option \<Rightarrow> JobId option \<Rightarrow> (unit, store_error) result" where
  "check_workflow_owner owner owner_row workflow =
     (case workflow of
        Some w \<Rightarrow>
          if owner \<noteq> Some (job_id_str w) then Err (Report ''workflow ownership changed'')
          else (case owner_row of
                  Some j \<Rightarrow>
                    if jr_state j = ''running'' \<and> jr_cancel_requested j = 0 then Ok ()
                    else Err (Report ''workflow is not running'')
                | None \<Rightarrow> Err (Report ''workflow is not running''))
      | None \<Rightarrow>
          (case owner_row of
             None \<Rightarrow> Ok ()
           | Some j \<Rightarrow>
               rbind (map_err Report (JobState_from_str (jr_state j))) (\<lambda>state.
                 if JobState_is_terminal state \<and> state \<noteq> OutcomeUnknown then Ok ()
                 else Err (Report ''change is owned by a deployment workflow''))))"

definition link_change ::
  "timestamp \<Rightarrow> JobId \<Rightarrow> string \<Rightarrow> ChangeJobLink \<Rightarrow> store \<Rightarrow> (store, store_error) result" where
  "link_change now jid prin link s =
     (let change = ln_change link; cid = change_id_str (pl_change_id (ch_plan change)) in
      rbind (ok_or (Report ''change not found'')
              (select_one (\<lambda>c. cr_id c = cid \<and> cr_creator c = prin) (st_changes s))) (\<lambda>row.
      rbind (to_u64 (cr_revision row) ''change revision'') (\<lambda>revision.
      if revision \<noteq> ch_revision change then Err (Report ''change revision changed'')
      else
        let owner = cr_workflow_job_id row;
            owner_row = Option.bind owner (\<lambda>w. select_one (\<lambda>j. jr_id j = w) (st_jobs s)) in
        rbind (check_workflow_owner owner owner_row (ln_workflow link)) (\<lambda>_.
        if \<not> (ch_state change = ln_next link
              \<or> ChangeState_can_transition_to (ch_state change) (ln_next link))
        then Err (Report ''invalid change state transition'')
        else
          let jobs = (case ln_action link of
                        Some action \<Rightarrow> set_stage_job action jid (ch_jobs change)
                      | None \<Rightarrow> ch_jobs change);
              owner' = (if ln_action link = None then Some (job_id_str jid) else owner) in
          rbind (to_i64 (ch_revision change) ''change revision'') (\<lambda>expected.
          Ok (s\<lparr>st_changes := update_where
                (\<lambda>c. cr_id c = cid \<and> cr_creator c = prin \<and> cr_revision c = expected)
                (\<lambda>c. c\<lparr>cr_revision := cr_revision c + 1,
                        cr_state := ChangeState_as_str (ln_next link),
                        cr_jobs := jobs, cr_workflow_job_id := owner', cr_updated_at := now\<rparr>)
                (st_changes s)\<rparr>))))))"

definition submit_body ::
  "(json \<Rightarrow> string) \<Rightarrow> timestamp \<Rightarrow> string \<Rightarrow> JobId \<Rightarrow> NewJob \<Rightarrow> ChangeJobLink option \<Rightarrow> store \<Rightarrow>
   (store \<times> string \<times> bool, store_error) result" where
  "submit_body digest now key jid new link s =
     (let spec_hash = job_spec_hash_of digest new in
      case select_one (\<lambda>r. (ir_principal r, ir_key r) = (nj_principal new, key)) (st_idempotency s) of
        Some row \<Rightarrow>
          if ir_spec_hash row \<noteq> spec_hash
          then Err (Report ''idempotency key was already used with a different job specification'')
          else Ok (s, ir_job_id row, False)
      | None \<Rightarrow>
          rbind (insert_job_row (new_job_row digest now jid new) s) (\<lambda>s1.
          rbind (case link of
                   Some l \<Rightarrow> link_change now jid (nj_principal new) l s1
                 | None \<Rightarrow> Ok s1) (\<lambda>s2.
          let s3 = s2\<lparr>st_idempotency := st_idempotency s2 @
                [\<lparr>ir_principal = nj_principal new, ir_key = key, ir_spec_hash = spec_hash,
                  ir_job_id = job_id_str jid, ir_created_at = now\<rparr>]\<rparr>;
              s4 = append_job_event (job_id_str jid) ''submitted'' ''queued'' now (JObject []) s3 in
          Ok (s4, job_id_str jid, True))))"

definition finish_submit ::
  "store \<times> (string \<times> bool, store_error) result \<Rightarrow> store \<times> (SubmitResult, store_error) result" where
  "finish_submit = (\<lambda>(s, r). (s, rbind r (\<lambda>(jid, created).
     rbind (get_job_by_text jid s) (\<lambda>job. Ok \<lparr>sub_job = job, sub_created = created\<rparr>))))"

definition submit_linked_job ::
  "(json \<Rightarrow> string) \<Rightarrow> timestamp \<Rightarrow> string \<Rightarrow> JobId \<Rightarrow> NewJob \<Rightarrow> ChangeJobLink option \<Rightarrow> store \<Rightarrow>
   store \<times> (SubmitResult, store_error) result" where
  "submit_linked_job digest now key jid new link s =
     (case validate_new_job key new of
        Inl e \<Rightarrow> (s, Inl e)
      | Inr _ \<Rightarrow> finish_submit (transact (submit_body digest now key jid new link) s))"

definition submit_job_with_id ::
  "(json \<Rightarrow> string) \<Rightarrow> timestamp \<Rightarrow> string \<Rightarrow> JobId \<Rightarrow> NewJob \<Rightarrow> store \<Rightarrow>
   store \<times> (SubmitResult, store_error) result" where
  "submit_job_with_id digest now key jid new s = submit_linked_job digest now key jid new None s"

text \<open>Acceptance under an upstream identity: repeated dispatch returns the existing job.\<close>

definition accept_body ::
  "(json \<Rightarrow> string) \<Rightarrow> timestamp \<Rightarrow> JobId \<Rightarrow> NewJob \<Rightarrow> store \<Rightarrow>
   (store \<times> string \<times> bool, store_error) result" where
  "accept_body digest now jid new s =
     (case select_one (\<lambda>r. jr_id r = job_id_str jid) (st_jobs s) of
        Some row \<Rightarrow>
          if jr_spec_hash row \<noteq> job_spec_hash_of digest new
          then Err (Report ''job ID was already used with a different specification'')
          else Ok (s, job_id_str jid, False)
      | None \<Rightarrow>
          rbind (insert_job_row (new_job_row digest now jid new) s) (\<lambda>s1.
            Ok (append_job_event (job_id_str jid) ''submitted'' ''queued'' now (JObject []) s1,
                job_id_str jid, True)))"

definition accept_job ::
  "(json \<Rightarrow> string) \<Rightarrow> timestamp \<Rightarrow> JobId \<Rightarrow> NewJob \<Rightarrow> store \<Rightarrow>
   store \<times> (SubmitResult, store_error) result" where
  "accept_job digest now jid new s =
     (case validate_new_job ''upstream-job-id'' new of
        Inl e \<Rightarrow> (s, Inl e)
      | Inr _ \<Rightarrow> finish_submit (transact (accept_body digest now jid new) s))"

section \<open>Transitions and cancellation\<close>

definition transition_event_kind :: "JobState \<Rightarrow> JobEventKind" where
  "transition_event_kind current =
     (if current = Reconciling \<or> current = OutcomeUnknown then Reconciled else StateChanged)"

definition transition_message :: "JobState \<Rightarrow> JobState \<Rightarrow> string" where
  "transition_message current next =
     ''invalid job state transition from '' @ JobState_as_str current @ '' to '' @ JobState_as_str next"

text \<open>
  The current state and revision, guarded by the expected revision: the first half that
  \<open>transition_job\<close> and \<open>request_cancel\<close> share.
\<close>

definition read_current ::
  "JobId \<Rightarrow> nat \<Rightarrow> store \<Rightarrow> (JobState \<times> nat, store_error) result" where
  "read_current jid expected_revision s =
     rbind (ok_or (Report ''job not found'')
             (select_one (\<lambda>r. jr_id r = job_id_str jid) (st_jobs s))) (\<lambda>row.
     rbind (map_err Report (JobState_from_str (jr_state row))) (\<lambda>current.
     rbind (to_u64 (jr_revision row) ''job revision'') (\<lambda>revision.
     if revision \<noteq> expected_revision then Err (Report ''job revision changed'')
     else Ok (current, revision))))"

text \<open>\<open>UPDATE jobs SET ... WHERE jid = ? AND revision = ?\<close> and its \<open>rows_affected() == 1\<close> check.\<close>

definition cas_update_job ::
  "string \<Rightarrow> int \<Rightarrow> (job_row \<Rightarrow> job_row) \<Rightarrow> store \<Rightarrow> (store, store_error) result" where
  "cas_update_job jid revision f s =
     (if count_where (\<lambda>r. jr_id r = jid \<and> jr_revision r = revision) (st_jobs s) \<noteq> 1
      then Err (Report ''job revision changed'')
      else Ok (s\<lparr>st_jobs := update_where (\<lambda>r. jr_id r = jid \<and> jr_revision r = revision) f (st_jobs s)\<rparr>))"

definition transition_body ::
  "timestamp \<Rightarrow> JobId \<Rightarrow> nat \<Rightarrow> JobState \<Rightarrow> json \<Rightarrow> json option \<Rightarrow> store \<Rightarrow>
   (store \<times> unit, store_error) result" where
  "transition_body now jid expected_revision next payload result s =
     rbind (read_current jid expected_revision s) (\<lambda>(current, revision).
     if \<not> JobState_can_transition_to current next
     then Err (Report (transition_message current next))
     else
       rbind (ok_or (Report ''job revision overflow'') (checked_add_u64 revision 1)) (\<lambda>next_revision.
       rbind (to_i64 next_revision ''job revision'') (\<lambda>next_i.
       rbind (to_i64 revision ''job revision'') (\<lambda>rev_i.
       rbind (cas_update_job (job_id_str jid) rev_i
               (\<lambda>r. r\<lparr>jr_state := JobState_as_str next, jr_revision := next_i,
                      jr_updated_at := now, jr_result := map_option canonical_json result\<rparr>) s) (\<lambda>s1.
       Ok (append_job_event (job_id_str jid)
             (JobEventKind_as_str (transition_event_kind current))
             (JobState_as_str next) now (canonical_json payload) s1, ()))))))"

definition then_get_job ::
  "JobId \<Rightarrow> store \<times> (unit, store_error) result \<Rightarrow> store \<times> (JobRecord, store_error) result" where
  "then_get_job jid = (\<lambda>(s, r). (s, rbind r (\<lambda>_. get_job jid s)))"

definition transition_job ::
  "timestamp \<Rightarrow> JobId \<Rightarrow> nat \<Rightarrow> JobState \<Rightarrow> json \<Rightarrow> json option \<Rightarrow> store \<Rightarrow>
   store \<times> (JobRecord, store_error) result" where
  "transition_job now jid expected_revision next payload result s =
     then_get_job jid (transact (transition_body now jid expected_revision next payload result) s)"

definition cancel_body ::
  "timestamp \<Rightarrow> JobId \<Rightarrow> nat \<Rightarrow> string \<Rightarrow> store \<Rightarrow> (store \<times> unit, store_error) result" where
  "cancel_body now jid expected_revision reason s =
     rbind (read_current jid expected_revision s) (\<lambda>(state, revision).
     if JobState_is_terminal state then Err (Report ''terminal job cannot be cancelled'')
     else
       rbind (ok_or (Report ''job revision overflow'') (checked_add_u64 revision 1)) (\<lambda>next_revision.
       rbind (to_i64 next_revision ''job revision'') (\<lambda>next_i.
       rbind (to_i64 revision ''job revision'') (\<lambda>rev_i.
       rbind (cas_update_job (job_id_str jid) rev_i
               (\<lambda>r. r\<lparr>jr_cancel_requested := 1, jr_revision := next_i, jr_updated_at := now\<rparr>) s) (\<lambda>s1.
       Ok (append_job_event (job_id_str jid) ''cancel_requested'' (JobState_as_str state) now
             (JObject [(''reason'', JString reason)]) s1, ()))))))"

definition request_cancel ::
  "timestamp \<Rightarrow> JobId \<Rightarrow> nat \<Rightarrow> string \<Rightarrow> store \<Rightarrow> store \<times> (JobRecord, store_error) result" where
  "request_cancel now jid expected_revision reason s =
     (if \<not> (reason \<noteq> [] \<and> length reason \<le> 1024)
      then (s, Err (Report ''invalid cancel reason''))
      else then_get_job jid (transact (cancel_body now jid expected_revision reason) s))"

section \<open>Listings\<close>

text \<open>
  \<open>ORDER BY key DESC\<close>.  SQL leaves the order of rows with equal keys open; here the later row
  comes first.
\<close>

definition order_by_desc :: "('r \<Rightarrow> 'k::linorder) \<Rightarrow> 'r list \<Rightarrow> 'r list" where
  "order_by_desc key rows = rev (sort_key key rows)"

definition list_jobs ::
  "(timestamp \<Rightarrow> string) \<Rightarrow> string option \<Rightarrow> string option \<Rightarrow> JobState list \<Rightarrow> nat \<Rightarrow> store \<Rightarrow>
   (JobRecord list, store_error) result" where
  "list_jobs ts_text prin host states limit s =
     (if \<not> (1 \<le> limit \<and> limit \<le> 200) then Err (Report ''job list limit must be 1..200'')
      else
        let rows = take 1000 (order_by_desc (\<lambda>r. ts_text (jr_created_at r))
              (filter (\<lambda>r. (prin = None \<or> prin = Some (jr_principal r))
                         \<and> (host = None \<or> host = Some (jr_host r))) (st_jobs s)));
            results = filter (\<lambda>res. case res of
                Inr job \<Rightarrow> states = [] \<or> h_state (job_handle job) \<in> set states
              | Inl _ \<Rightarrow> True) (map row_to_job rows)
        in rmap (\<lambda>x. x) (take limit results))"

definition nonterminal_jobs ::
  "(timestamp \<Rightarrow> string) \<Rightarrow> store \<Rightarrow> (JobRecord list, store_error) result" where
  "nonterminal_jobs ts_text s =
     rbind (list_jobs ts_text None None [] 200 s) (\<lambda>jobs.
       Ok (filter (\<lambda>job. h_state (job_handle job)
              \<notin> {Succeeded, Failed, Cancelled, TimedOut, OutcomeUnknown}) jobs))"

definition job_page_key :: "(timestamp \<Rightarrow> string) \<Rightarrow> job_row \<Rightarrow> string \<times> string" where
  "job_page_key ts_text r = (ts_text (jr_created_at r), jr_id r)"

definition list_visible_jobs ::
  "(timestamp \<Rightarrow> string) \<Rightarrow> string \<Rightarrow> string set \<Rightarrow> JobsListParams \<Rightarrow> store \<Rightarrow>
   (JobRecord list, store_error) result" where
  "list_visible_jobs ts_text prin hosts params s =
     (if \<not> (1 \<le> jl_limit params \<and> jl_limit params \<le> 200)
      then Err (Report ''job list limit must be 1..200'')
      else
        rbind (case jl_cursor params of
                 None \<Rightarrow> Ok None
               | Some jid \<Rightarrow>
                   rbind (get_owned_job prin jid s) (\<lambda>job.
                     if h_host (job_handle job) \<in> hosts
                     then Ok (Some (ts_text (job_created_at job), job_id_str jid))
                     else Err (Report ''job not found''))) (\<lambda>cursor.
        if hosts = {} then Ok []
        else rmap row_to_job
          (take (jl_limit params + 1) (order_by_desc (job_page_key ts_text)
            (filter (\<lambda>r. jr_principal r = prin \<and> jr_host r \<in> hosts
                \<and> (jl_host params = None \<or> jl_host params = Some (jr_host r))
                \<and> (jl_states params = [] \<or> jr_state r \<in> JobState_as_str ` set (jl_states params))
                \<and> (case cursor of None \<Rightarrow> True | Some c \<Rightarrow> job_page_key ts_text r < c))
              (st_jobs s))))))"

definition row_to_job_event :: "JobId \<Rightarrow> job_event_row \<Rightarrow> (JobEvent, store_error) result" where
  "row_to_job_event jid row =
     rbind (to_u64 (jer_sequence row) ''event sequence'') (\<lambda>sequence.
     rbind (map_err Report (JobEventKind_parse (jer_kind row))) (\<lambda>kind.
     rbind (map_err Report (JobState_from_str (jer_state row))) (\<lambda>state.
     Ok \<lparr>je_sequence = sequence, je_job_id = jid, je_kind = kind, je_state = state,
         je_occurred_at = jer_occurred_at row, je_payload = jer_payload row\<rparr>)))"

definition job_events_page ::
  "JobId \<Rightarrow> nat \<Rightarrow> nat \<Rightarrow> store \<Rightarrow> (JobEvent list, store_error) result" where
  "job_events_page jid after_sequence limit s =
     (if \<not> (1 \<le> limit \<and> limit \<le> 200) then Err (Report ''event limit must be 1..200'')
      else
        rbind (to_i64 after_sequence ''event sequence'') (\<lambda>after.
          rmap (row_to_job_event jid)
            (take limit (sort_key jer_sequence
              (filter (\<lambda>r. jer_job_id r = job_id_str jid \<and> jer_sequence r > after)
                (st_job_events s))))))"

definition job_events :: "JobId \<Rightarrow> nat \<Rightarrow> store \<Rightarrow> (JobEvent list, store_error) result" where
  "job_events jid after_sequence s = job_events_page jid after_sequence 200 s"

end
