(* ===== verification/Store_Jobs_Facts.thy ===== *)
theory Store_Jobs_Facts
  imports Store_Jobs
begin

text \<open>
  What the job transactions do to the tables: one effect lemma per operation, the type invariant
  of the job table, and the event log as an event-sourced copy of every job.
\<close>

section \<open>Well-formed job rows\<close>

definition job_row_ok :: "job_row \<Rightarrow> bool" where
  "job_row_ok r \<longleftrightarrow>
     uuid_text (jr_id r) \<and> is_ok (JobState_from_str (jr_state r)) \<and>
     1 \<le> jr_revision r \<and> jr_revision r \<le> i64_max \<and>
     1 \<le> jr_spec_version r \<and> jr_spec_version r \<le> int u32_max \<and>
     jr_cancel_requested r \<in> {0, 1}"

text \<open>The state of a well-formed row.\<close>

definition row_state :: "job_row \<Rightarrow> JobState" where
  "row_state r = (case JobState_from_str (jr_state r) of Inr st \<Rightarrow> st | Inl _ \<Rightarrow> Failed)"

lemma row_state_text: "job_row_ok r \<Longrightarrow> jr_state r = JobState_as_str (row_state r)"
  by (auto simp: job_row_ok_def row_state_def JobState_from_str_Ok is_ok_def split: sum.splits)

lemma row_state_as_str: "jr_state r = JobState_as_str st \<Longrightarrow> row_state r = st"
  by (simp add: row_state_def)

definition decoded_job :: "job_row \<Rightarrow> JobRecord" where
  "decoded_job r =
     \<lparr>job_handle = \<lparr>h_job_id = JobId (jr_id r), h_state = row_state r,
        h_revision = nat (jr_revision r), h_operation = jr_operation r, h_host = jr_host r\<rparr>,
      job_principal = jr_principal r, job_spec_version = nat (jr_spec_version r),
      job_spec = jr_spec r, job_spec_hash = jr_spec_hash r,
      job_policy_version = jr_policy_version r, job_created_at = jr_created_at r,
      job_updated_at = jr_updated_at r, job_deadline = jr_deadline r,
      job_cancel_requested = (jr_cancel_requested r \<noteq> 0), job_result = jr_result r\<rparr>"

lemma row_to_job_ok: "job_row_ok r \<Longrightarrow> row_to_job r = Ok (decoded_job r)"
proof -
  assume ok: "job_row_ok r"
  then obtain st where st: "JobState_from_str (jr_state r) = Ok st" and rs: "row_state r = st"
    by (auto simp: job_row_ok_def row_state_def is_ok_def split: sum.splits)
  from ok show ?thesis
    by (simp add: row_to_job_def decoded_job_def job_row_ok_def JobId_parse_def st rs nat_le_iff)
qed

section \<open>Effects\<close>

lemma new_job_row_simps [simp]:
  "jr_id (new_job_row digest now jid new) = job_id_str jid"
  "jr_principal (new_job_row digest now jid new) = nj_principal new"
  "jr_host (new_job_row digest now jid new) = nj_host new"
  "jr_spec (new_job_row digest now jid new) = canonical_json (nj_spec new)"
  "jr_spec_hash (new_job_row digest now jid new) = job_spec_hash_of digest new"
  "jr_state (new_job_row digest now jid new) = ''queued''"
  "jr_revision (new_job_row digest now jid new) = 1"
  "jr_spec_version (new_job_row digest now jid new) = int (nj_spec_version new)"
  "jr_cancel_requested (new_job_row digest now jid new) = 0"
  by (simp_all add: new_job_row_def)

definition fresh_submission ::
  "(json \<Rightarrow> string) \<Rightarrow> timestamp \<Rightarrow> string \<Rightarrow> JobId \<Rightarrow> NewJob \<Rightarrow> change_row list \<Rightarrow> store \<Rightarrow> store" where
  "fresh_submission digest now key jid new cs s =
     append_job_event (job_id_str jid) ''submitted'' ''queued'' now (JObject [])
       (s\<lparr>st_jobs := st_jobs s @ [new_job_row digest now jid new],
          st_changes := cs,
          st_idempotency := st_idempotency s @
            [\<lparr>ir_principal = nj_principal new, ir_key = key,
              ir_spec_hash = job_spec_hash_of digest new,
              ir_job_id = job_id_str jid, ir_created_at = now\<rparr>]\<rparr>)"

lemma link_change_frame:
  "link_change now jid prin l s = Ok s' \<Longrightarrow> \<exists>cs. s' = s\<lparr>st_changes := cs\<rparr>"
  by (auto simp: link_change_def Let_def split: if_splits)

lemma submit_body_cases:
  assumes "submit_body digest now key jid new link s = Ok (s', t, c)"
  obtains (replayed) row where
      "select_one (\<lambda>r. (ir_principal r, ir_key r) = (nj_principal new, key)) (st_idempotency s) = Some row"
      "ir_spec_hash row = job_spec_hash_of digest new" "s' = s" "t = ir_job_id row" "\<not> c"
  | (fresh) cs where
      "select_one (\<lambda>r. (ir_principal r, ir_key r) = (nj_principal new, key)) (st_idempotency s) = None"
      "job_id_str jid \<notin> jr_id ` set (st_jobs s)"
      "case link of None \<Rightarrow> cs = st_changes s
       | Some l \<Rightarrow> link_change now jid (nj_principal new) l
           (s\<lparr>st_jobs := st_jobs s @ [new_job_row digest now jid new]\<rparr>)
           = Ok (s\<lparr>st_jobs := st_jobs s @ [new_job_row digest now jid new], st_changes := cs\<rparr>)"
      "s' = fresh_submission digest now key jid new cs s" "t = job_id_str jid" c
proof (cases "select_one (\<lambda>r. (ir_principal r, ir_key r) = (nj_principal new, key)) (st_idempotency s)")
  case (Some row)
  with assms that(1)[OF Some] show ?thesis
    by (auto simp: submit_body_def Let_def split: if_splits)
next
  case None
  with assms have fresh: "job_id_str jid \<notin> jr_id ` set (st_jobs s)"
    by (auto simp: submit_body_def insert_job_row_def Let_def split: if_splits)
  let ?s1 = "s\<lparr>st_jobs := st_jobs s @ [new_job_row digest now jid new]\<rparr>"
  from None assms fresh obtain s2 where
    s2: "(case link of None \<Rightarrow> Ok ?s1 | Some l \<Rightarrow> link_change now jid (nj_principal new) l ?s1) = Ok s2"
    and s': "s' = append_job_event (job_id_str jid) ''submitted'' ''queued'' now (JObject [])
        (s2\<lparr>st_idempotency := st_idempotency s2 @
          [\<lparr>ir_principal = nj_principal new, ir_key = key, ir_spec_hash = job_spec_hash_of digest new,
            ir_job_id = job_id_str jid, ir_created_at = now\<rparr>]\<rparr>)"
    and tc: "t = job_id_str jid" "c"
    by (auto simp: submit_body_def insert_job_row_def Let_def split: if_splits)
  from s2 obtain cs where cs: "s2 = ?s1\<lparr>st_changes := cs\<rparr>"
    and link: "case link of None \<Rightarrow> cs = st_changes s
       | Some l \<Rightarrow> link_change now jid (nj_principal new) l ?s1 = Ok (?s1\<lparr>st_changes := cs\<rparr>)"
    by (cases link) (auto dest: link_change_frame)
  show ?thesis
    using that(2)[OF None fresh, of cs] link s' tc
    by (simp add: fresh_submission_def cs split: option.splits)
qed

text \<open>
  A submission either leaves the store alone or is one fresh insertion.
\<close>

lemma submit_linked_job_effect:
  assumes "submit_linked_job digest now key jid new link s = (s', r)"
  obtains (same) "s' = s"
  | (fresh) cs where "validate_new_job key new = Ok ()"
      "select_one (\<lambda>r. (ir_principal r, ir_key r) = (nj_principal new, key)) (st_idempotency s) = None"
      "job_id_str jid \<notin> jr_id ` set (st_jobs s)"
      "case link of None \<Rightarrow> cs = st_changes s
       | Some l \<Rightarrow> link_change now jid (nj_principal new) l
           (s\<lparr>st_jobs := st_jobs s @ [new_job_row digest now jid new]\<rparr>)
           = Ok (s\<lparr>st_jobs := st_jobs s @ [new_job_row digest now jid new], st_changes := cs\<rparr>)"
      "s' = fresh_submission digest now key jid new cs s"
proof (cases "validate_new_job key new")
  case (Inl e)
  with assms that(1) show ?thesis by (simp add: submit_linked_job_def)
next
  case (Inr u)
  then have ok: "validate_new_job key new = Ok ()" by simp
  show ?thesis
  proof (cases "submit_body digest now key jid new link s")
    case (Inl e)
    with assms ok that(1) show ?thesis
      by (simp add: submit_linked_job_def transact_def finish_submit_def)
  next
    case (Inr x)
    then obtain s1 t c where body: "submit_body digest now key jid new link s = Ok (s1, t, c)"
      by (cases x) auto
    with assms ok have s': "s' = s1"
      by (simp add: submit_linked_job_def transact_def finish_submit_def)
    from body show ?thesis
      by (cases rule: submit_body_cases) (use that ok s' in auto)
  qed
qed

lemma accept_job_effect:
  assumes "accept_job digest now jid new s = (s', r)"
  obtains (same) "s' = s"
  | (fresh) "validate_new_job ''upstream-job-id'' new = Ok ()"
      "job_id_str jid \<notin> jr_id ` set (st_jobs s)"
      "s' = append_job_event (job_id_str jid) ''submitted'' ''queued'' now (JObject [])
              (s\<lparr>st_jobs := st_jobs s @ [new_job_row digest now jid new]\<rparr>)"
proof (cases "validate_new_job ''upstream-job-id'' new")
  case (Inl e)
  with assms that(1) show ?thesis by (simp add: accept_job_def)
next
  case (Inr u)
  then have ok: "validate_new_job ''upstream-job-id'' new = Ok ()" by simp
  show ?thesis
  proof (cases "select_one (\<lambda>r. jr_id r = job_id_str jid) (st_jobs s)")
    case None
    then have "job_id_str jid \<notin> jr_id ` set (st_jobs s)"
      by (simp add: jobs_t.not_found)
    with assms ok None that(2) show ?thesis
      by (simp add: accept_job_def accept_body_def insert_job_row_def
          transact_def finish_submit_def)
  next
    case (Some row)
    with assms ok that(1) show ?thesis
      by (auto simp: accept_job_def accept_body_def transact_def finish_submit_def split: if_splits)
  qed
qed

text \<open>The guarded read, on every branch.\<close>

lemma read_current_Ok:
  "read_current jid expected s = Ok (cur, rvn) \<longleftrightarrow>
     (\<exists>row. select_one (\<lambda>r. jr_id r = job_id_str jid) (st_jobs s) = Some row \<and>
        jr_state row = JobState_as_str cur \<and> jr_revision row = int expected \<and> rvn = expected)"
  by (auto simp: read_current_def JobState_from_str_Ok split: if_splits)

definition transitioned_row :: "timestamp \<Rightarrow> JobState \<Rightarrow> json option \<Rightarrow> job_row \<Rightarrow> job_row" where
  "transitioned_row now next result r =
     r\<lparr>jr_state := JobState_as_str next, jr_revision := jr_revision r + 1,
       jr_updated_at := now, jr_result := map_option canonical_json result\<rparr>"

definition cancelled_row :: "timestamp \<Rightarrow> job_row \<Rightarrow> job_row" where
  "cancelled_row now r =
     r\<lparr>jr_cancel_requested := 1, jr_revision := jr_revision r + 1, jr_updated_at := now\<rparr>"

lemma update_one_row:
  assumes "distinct (map jr_id rows)" and "select_one (\<lambda>r. jr_id r = k) rows = Some row"
    and "jr_revision row = rvn" and "f row = g row"
  shows "update_where (\<lambda>r. jr_id r = k \<and> jr_revision r = rvn) f rows =
         update_where (\<lambda>r. jr_id r = k) g rows"
    and "count_where (\<lambda>r. jr_id r = k \<and> jr_revision r = rvn) rows = 1"
proof -
  from assms(2) have row: "row \<in> set rows" "jr_id row = k"
    by (auto dest: jobs_t.found)
  have only: "r = row" if "r \<in> set rows" "jr_id r = k" for r
    using jobs_t.key_unique[OF assms(1) that(1) row(1)] that(2) row(2) by simp
  show "update_where (\<lambda>r. jr_id r = k \<and> jr_revision r = rvn) f rows =
      update_where (\<lambda>r. jr_id r = k) g rows"
    unfolding update_where_def
  proof (rule map_cong[OF refl])
    fix r assume r: "r \<in> set rows"
    show "(if jr_id r = k \<and> jr_revision r = rvn then f r else r) = (if jr_id r = k then g r else r)"
      by (cases "jr_id r = k") (use only[OF r] assms(3,4) in simp_all)
  qed
  show "count_where (\<lambda>r. jr_id r = k \<and> jr_revision r = rvn) rows = 1"
    using jobs_t.count_key_and[OF assms(1) row(1), of "\<lambda>r. jr_revision r = rvn"] assms(3) row(2)
    by simp
qed

text \<open>
  The effect of a transition: it commits exactly when the row exists at the expected revision
  and the state machine allows the step, and then it replaces that row and logs the step.
\<close>

lemma transition_body_iff:
  assumes "distinct (map jr_id (st_jobs s))"
  shows "transition_body now jid expected nx payload result s = Ok (s', u) \<longleftrightarrow>
    (\<exists>row cur. select_one (\<lambda>r. jr_id r = job_id_str jid) (st_jobs s) = Some row \<and>
       jr_state row = JobState_as_str cur \<and> jr_revision row = int expected \<and>
       JobState_can_transition_to cur nx \<and> int expected + 1 \<le> i64_max \<and>
       s' = append_job_event (job_id_str jid) (JobEventKind_as_str (transition_event_kind cur))
              (JobState_as_str nx) now (canonical_json payload)
              (s\<lparr>st_jobs := update_where (\<lambda>r. jr_id r = job_id_str jid)
                              (transitioned_row now nx result) (st_jobs s)\<rparr>))"
  (is "?lhs \<longleftrightarrow> ?rhs")
proof (cases "\<exists>row cur. select_one (\<lambda>r. jr_id r = job_id_str jid) (st_jobs s) = Some row \<and>
       jr_state row = JobState_as_str cur \<and> jr_revision row = int expected")
  case False
  then show ?thesis by (auto simp: transition_body_def read_current_Ok)
next
  case True
  then obtain row cur where sel: "select_one (\<lambda>r. jr_id r = job_id_str jid) (st_jobs s) = Some row"
    and st: "jr_state row = JobState_as_str cur" and rv: "jr_revision row = int expected"
    by blast
  then have rd: "read_current jid expected s = Ok (cur, expected)"
    by (simp add: read_current_Ok)
  note upd = update_one_row[OF assms sel rv,
      of "\<lambda>r. r\<lparr>jr_state := JobState_as_str nx, jr_revision := 1 + int expected,
                 jr_updated_at := now, jr_result := map_option canonical_json result\<rparr>"
         "transitioned_row now nx result"]
  have same: "row\<lparr>jr_state := JobState_as_str nx, jr_revision := 1 + int expected,
                 jr_updated_at := now, jr_result := map_option canonical_json result\<rparr>
      = transitioned_row now nx result row"
    by (simp add: transitioned_row_def rv)
  have "?lhs \<longleftrightarrow> JobState_can_transition_to cur nx \<and> int expected + 1 \<le> i64_max \<and>
       s' = append_job_event (job_id_str jid) (JobEventKind_as_str (transition_event_kind cur))
              (JobState_as_str nx) now (canonical_json payload)
              (s\<lparr>st_jobs := update_where (\<lambda>r. jr_id r = job_id_str jid)
                              (transitioned_row now nx result) (st_jobs s)\<rparr>)"
    using upd[OF same]
    by (auto simp: transition_body_def rd cas_update_job_def)
  with sel st rv show ?thesis by auto
qed

lemma cancel_body_iff:
  assumes "distinct (map jr_id (st_jobs s))"
  shows "cancel_body now jid expected reason s = Ok (s', u) \<longleftrightarrow>
    (\<exists>row cur. select_one (\<lambda>r. jr_id r = job_id_str jid) (st_jobs s) = Some row \<and>
       jr_state row = JobState_as_str cur \<and> jr_revision row = int expected \<and>
       \<not> JobState_is_terminal cur \<and> int expected + 1 \<le> i64_max \<and>
       s' = append_job_event (job_id_str jid) ''cancel_requested'' (JobState_as_str cur) now
              (JObject [(''reason'', JString reason)])
              (s\<lparr>st_jobs := update_where (\<lambda>r. jr_id r = job_id_str jid)
                              (cancelled_row now) (st_jobs s)\<rparr>))"
  (is "?lhs \<longleftrightarrow> ?rhs")
proof (cases "\<exists>row cur. select_one (\<lambda>r. jr_id r = job_id_str jid) (st_jobs s) = Some row \<and>
       jr_state row = JobState_as_str cur \<and> jr_revision row = int expected")
  case False
  then show ?thesis by (auto simp: cancel_body_def read_current_Ok)
next
  case True
  then obtain row cur where sel: "select_one (\<lambda>r. jr_id r = job_id_str jid) (st_jobs s) = Some row"
    and st: "jr_state row = JobState_as_str cur" and rv: "jr_revision row = int expected"
    by blast
  then have rd: "read_current jid expected s = Ok (cur, expected)"
    by (simp add: read_current_Ok)
  note upd = update_one_row[OF assms sel rv,
      of "\<lambda>r. r\<lparr>jr_cancel_requested := 1, jr_revision := 1 + int expected, jr_updated_at := now\<rparr>"
         "cancelled_row now"]
  have same: "row\<lparr>jr_cancel_requested := 1, jr_revision := 1 + int expected, jr_updated_at := now\<rparr>
      = cancelled_row now row"
    by (simp add: cancelled_row_def rv)
  have "?lhs \<longleftrightarrow> \<not> JobState_is_terminal cur \<and> int expected + 1 \<le> i64_max \<and>
       s' = append_job_event (job_id_str jid) ''cancel_requested'' (JobState_as_str cur) now
              (JObject [(''reason'', JString reason)])
              (s\<lparr>st_jobs := update_where (\<lambda>r. jr_id r = job_id_str jid)
                              (cancelled_row now) (st_jobs s)\<rparr>)"
    using upd[OF same]
    by (auto simp: cancel_body_def rd cas_update_job_def)
  with sel st rv show ?thesis by auto
qed

end
