(* ===== verification/Store_Jobs_Inv.thy ===== *)
theory Store_Jobs_Inv
  imports Store_Jobs_Facts
begin

text \<open>
  Invariants of the job tables.  The event log of a job is read as an event-sourced job: replaying
  it through the abstract machine \<open>replay_step\<close> gives the state, the revision and the cancel flag
  of the job's row.  The idempotency receipts point at jobs of the same principal and the same
  specification.
\<close>

section \<open>The abstract job behind the log\<close>

type_synonym abstract_job = "JobState \<times> int \<times> bool"

definition replay_step :: "abstract_job option \<Rightarrow> job_event_row \<Rightarrow> abstract_job option" where
  "replay_step a e =
     (case a of
        None \<Rightarrow> None
      | Some (st, revision, cancelled) \<Rightarrow>
          if jer_kind e = ''cancel_requested''
          then (if jer_state e = JobState_as_str st \<and> \<not> JobState_is_terminal st
                then Some (st, revision + 1, True) else None)
          else (case JobState_from_str (jer_state e) of
                  Inl _ \<Rightarrow> None
                | Inr nx \<Rightarrow>
                    if JobState_can_transition_to st nx
                       \<and> jer_kind e = JobEventKind_as_str (transition_event_kind st)
                    then Some (nx, revision + 1, cancelled) else None))"

definition replay_log :: "job_event_row list \<Rightarrow> abstract_job option" where
  "replay_log l =
     (case l of
        [] \<Rightarrow> None
      | e # es \<Rightarrow>
          if jer_kind e = ''submitted'' \<and> jer_state e = ''queued''
          then foldl replay_step (Some (Queued, 1, False)) es else None)"

definition abstract_row :: "job_row \<Rightarrow> abstract_job" where
  "abstract_row r = (row_state r, jr_revision r, jr_cancel_requested r \<noteq> 0)"

lemma replay_step_None [simp]: "replay_step None e = None"
  by (simp add: replay_step_def)

lemma foldl_replay_None [simp]: "foldl replay_step None es = None"
  by (induction es) simp_all

lemma replay_log_snoc: "l \<noteq> [] \<Longrightarrow> replay_log (l @ [e]) = replay_step (replay_log l) e"
  by (cases l) (simp_all add: replay_log_def)

lemma replay_log_nonempty: "replay_log l = Some a \<Longrightarrow> l \<noteq> []"
  by (auto simp: replay_log_def)

section \<open>The invariants\<close>

definition job_log_of :: "string \<Rightarrow> job_event_row list \<Rightarrow> job_event_row list" where
  "job_log_of k events = filter (\<lambda>e. jer_job_id e = k) events"

definition jobs_tables_ok :: "job_row list \<Rightarrow> job_event_row list \<Rightarrow> int \<Rightarrow> bool" where
  "jobs_tables_ok jobs events n \<longleftrightarrow>
     distinct (map jr_id jobs) \<and>
     (\<forall>r \<in> set jobs. job_row_ok r \<and> replay_log (job_log_of (jr_id r) events) = Some (abstract_row r)) \<and>
     (\<forall>e \<in> set events. jer_job_id e \<in> jr_id ` set jobs \<and> 0 < jer_sequence e \<and> jer_sequence e \<le> n) \<and>
     sorted_wrt (<) (map jer_sequence events) \<and> 0 \<le> n"

definition jobs_inv :: "store \<Rightarrow> bool" where
  "jobs_inv s \<longleftrightarrow> jobs_tables_ok (st_jobs s) (st_job_events s) (st_job_event_seq s)"

definition idempotency_inv :: "store \<Rightarrow> bool" where
  "idempotency_inv s \<longleftrightarrow>
     distinct (map (\<lambda>r. (ir_principal r, ir_key r)) (st_idempotency s)) \<and>
     (\<forall>i \<in> set (st_idempotency s). \<exists>j \<in> set (st_jobs s).
        jr_id j = ir_job_id i \<and> jr_principal j = ir_principal i \<and> jr_spec_hash j = ir_spec_hash i)"

lemma jobs_inv_distinct: "jobs_inv s \<Longrightarrow> distinct (map jr_id (st_jobs s))"
  by (simp add: jobs_inv_def jobs_tables_ok_def)

lemma jobs_inv_row_ok: "jobs_inv s \<Longrightarrow> r \<in> set (st_jobs s) \<Longrightarrow> job_row_ok r"
  by (simp add: jobs_inv_def jobs_tables_ok_def)

lemma jobs_inv_empty: "jobs_inv empty_store" "idempotency_inv empty_store"
  by (simp_all add: jobs_inv_def jobs_tables_ok_def idempotency_inv_def empty_store_def)

lemma jobs_tables_event:
  assumes "jobs_tables_ok jobs events n" and "e \<in> set events"
  shows "jer_job_id e \<in> jr_id ` set jobs" and "0 < jer_sequence e" and "jer_sequence e \<le> n"
  using assms by (simp_all add: jobs_tables_ok_def)

section \<open>Preservation\<close>

lemma sorted_wrt_snoc_less:
  "sorted_wrt (<) xs \<Longrightarrow> (\<And>x. x \<in> set xs \<Longrightarrow> x < y) \<Longrightarrow> sorted_wrt (<) (xs @ [y])"
  by (simp add: sorted_wrt_append)

lemma jobs_tables_insert:
  assumes ok: "jobs_tables_ok jobs events n"
    and fresh: "jr_id r \<notin> jr_id ` set jobs" and r: "job_row_ok r"
    and abs: "abstract_row r = (Queued, 1, False)"
    and e: "jer_sequence e = n + 1" "jer_job_id e = jr_id r"
      "jer_kind e = ''submitted''" "jer_state e = ''queued''"
  shows "jobs_tables_ok (jobs @ [r]) (events @ [e]) (n + 1)"
proof -
  have none: "job_log_of (jr_id r) events = []"
    unfolding job_log_of_def filter_empty_conv using jobs_tables_event(1)[OF ok] fresh by metis
  have new: "replay_log (job_log_of (jr_id r) (events @ [e])) = Some (abstract_row r)"
    using none e abs by (simp add: job_log_of_def replay_log_def)
  have old: "job_log_of (jr_id x) (events @ [e]) = job_log_of (jr_id x) events" if "x \<in> set jobs" for x
    using that fresh e by (auto simp: job_log_of_def)
  have bound: "\<And>x. x \<in> set events \<Longrightarrow> jer_sequence x < n + 1"
    using jobs_tables_event(3)[OF ok] by force
  show ?thesis
    using ok fresh r new old e bound
    by (auto simp: jobs_tables_ok_def sorted_wrt_append)
qed

lemma jobs_tables_update:
  assumes ok: "jobs_tables_ok jobs events n"
    and sel: "select_one (\<lambda>r. jr_id r = k) jobs = Some row"
    and f: "\<And>r. jr_id (f r) = jr_id r" "job_row_ok (f row)"
    and step: "replay_step (Some (abstract_row row)) e = Some (abstract_row (f row))"
    and e: "jer_sequence e = n + 1" "jer_job_id e = k"
  shows "jobs_tables_ok (update_where (\<lambda>r. jr_id r = k) f jobs) (events @ [e]) (n + 1)"
proof -
  let ?jobs = "update_where (\<lambda>r. jr_id r = k) f jobs"
  from sel have row: "row \<in> set jobs" "jr_id row = k" by (auto dest: jobs_t.found)
  from ok have dist: "distinct (map jr_id jobs)" by (simp add: jobs_tables_ok_def)
  have keys: "map jr_id ?jobs = map jr_id jobs" by (rule map_update_where) (rule f(1))
  have ids: "jr_id ` set ?jobs = jr_id ` set jobs"
    using arg_cong[OF keys, of set] by simp
  have rows: "job_row_ok x \<and> replay_log (job_log_of (jr_id x) (events @ [e])) = Some (abstract_row x)"
    if "x \<in> set ?jobs" for x
  proof -
    from that obtain y where y: "y \<in> set jobs" and x: "x = (if jr_id y = k then f y else y)"
      by (auto simp: set_update_where)
    show ?thesis
    proof (cases "jr_id y = k")
      case True
      then have "y = row" using jobs_t.key_unique[OF dist y row(1)] row(2) by simp
      have old: "replay_log (job_log_of k events) = Some (abstract_row row)"
        using ok row by (auto simp: jobs_tables_ok_def)
      have "replay_log (job_log_of k events @ [e]) = Some (abstract_row (f row))"
        using replay_log_snoc[OF replay_log_nonempty[OF old]] old step by simp
      with True \<open>y = row\<close> x f row e show ?thesis by (simp add: job_log_of_def)
    next
      case False
      with x y ok e show ?thesis by (auto simp: jobs_tables_ok_def job_log_of_def)
    qed
  qed
  have bound: "\<And>x. x \<in> set events \<Longrightarrow> jer_sequence x < n + 1"
    using jobs_tables_event(3)[OF ok] by force
  have evs: "\<forall>x \<in> set (events @ [e]). jer_job_id x \<in> jr_id ` set jobs \<and> 0 < jer_sequence x \<and> jer_sequence x \<le> n + 1"
  proof
    fix x assume "x \<in> set (events @ [e])"
    then consider "x \<in> set events" | "x = e" by auto
    then show "jer_job_id x \<in> jr_id ` set jobs \<and> 0 < jer_sequence x \<and> jer_sequence x \<le> n + 1"
    proof cases
      case 1
      with jobs_tables_event[OF ok 1] show ?thesis by simp
    next
      case 2
      have "jer_job_id e \<in> jr_id ` set jobs" unfolding e(2) row(2)[symmetric] using row(1) by (rule imageI)
      with 2 ok e(1) show ?thesis by (simp add: jobs_tables_ok_def)
    qed
  qed
  have "sorted_wrt (<) (map jer_sequence (events @ [e]))"
    using ok e bound by (auto simp: jobs_tables_ok_def sorted_wrt_append)
  with rows evs ids dist keys ok show ?thesis
    by (simp add: jobs_tables_ok_def)
qed

lemma new_job_row_ok:
  assumes "validate_new_job key new = Ok ()" and "nj_spec_version new \<le> u32_max"
    and "uuid_text (job_id_str jid)"
  shows "job_row_ok (new_job_row digest now jid new)"
    and "abstract_row (new_job_row digest now jid new) = (Queued, 1, False)"
  using assms
  by (auto simp: job_row_ok_def abstract_row_def row_state_def validate_new_job_def
      JobState_from_str_def split: if_splits)

lemma submit_preserves_jobs_inv:
  assumes "submit_linked_job digest now key jid new link s = (s', r)" and "jobs_inv s"
    and "nj_spec_version new \<le> u32_max" and "uuid_text (job_id_str jid)"
  shows "jobs_inv s'"
  using assms(1)
proof (cases rule: submit_linked_job_effect)
  case same
  with assms(2) show ?thesis by simp
next
  case (fresh cs)
  then show ?thesis
    using assms new_job_row_ok[OF fresh(1) assms(3,4)]
    by (auto simp: jobs_inv_def fresh_submission_def append_job_event_def intro!: jobs_tables_insert)
qed

lemma accept_preserves_jobs_inv:
  assumes "accept_job digest now jid new s = (s', r)" and "jobs_inv s"
    and "nj_spec_version new \<le> u32_max" and "uuid_text (job_id_str jid)"
  shows "jobs_inv s'"
  using assms(1)
proof (cases rule: accept_job_effect)
  case same
  with assms(2) show ?thesis by simp
next
  case fresh
  then show ?thesis
    using assms new_job_row_ok[OF fresh(1) assms(3,4)]
    by (auto simp: jobs_inv_def append_job_event_def intro!: jobs_tables_insert)
qed

lemma transition_cases:
  assumes "transition_job now jid expected nx payload result s = (s', r)" and "jobs_inv s"
  obtains (same) "s' = s" "\<exists>e. r = Err e"
  | (step) row cur where "select_one (\<lambda>r. jr_id r = job_id_str jid) (st_jobs s) = Some row"
      "jr_state row = JobState_as_str cur" "jr_revision row = int expected"
      "JobState_can_transition_to cur nx" "int expected + 1 \<le> i64_max"
      "s' = append_job_event (job_id_str jid) (JobEventKind_as_str (transition_event_kind cur))
              (JobState_as_str nx) now (canonical_json payload)
              (s\<lparr>st_jobs := update_where (\<lambda>r. jr_id r = job_id_str jid)
                              (transitioned_row now nx result) (st_jobs s)\<rparr>)"
      "r = get_job jid s'"
proof (cases "transition_body now jid expected nx payload result s")
  case (Inl e)
  with assms(1) have "s' = s" "r = Err e"
    by (simp_all add: transition_job_def transact_def then_get_job_def)
  with that(1) show ?thesis by blast
next
  case (Inr x)
  then obtain s1 where body: "transition_body now jid expected nx payload result s = Ok (s1, ())"
    by (cases x) auto
  with assms(1) have "s' = s1 \<and> r = get_job jid s1"
    by (auto simp: transition_job_def transact_def then_get_job_def)
  with body that(2) show ?thesis
    unfolding transition_body_iff[OF jobs_inv_distinct[OF assms(2)]] by blast
qed

lemma cancel_cases:
  assumes "request_cancel now jid expected reason s = (s', r)" and "jobs_inv s"
  obtains (same) "s' = s" "\<exists>e. r = Err e"
  | (step) row cur where "select_one (\<lambda>r. jr_id r = job_id_str jid) (st_jobs s) = Some row"
      "jr_state row = JobState_as_str cur" "jr_revision row = int expected"
      "\<not> JobState_is_terminal cur" "int expected + 1 \<le> i64_max"
      "s' = append_job_event (job_id_str jid) ''cancel_requested'' (JobState_as_str cur) now
              (JObject [(''reason'', JString reason)])
              (s\<lparr>st_jobs := update_where (\<lambda>r. jr_id r = job_id_str jid)
                              (cancelled_row now) (st_jobs s)\<rparr>)"
      "r = get_job jid s'"
proof (cases "reason \<noteq> [] \<and> length reason \<le> 1024")
  case False
  with assms that(1) show ?thesis by (auto simp: request_cancel_def)
next
  case True
  show ?thesis
  proof (cases "cancel_body now jid expected reason s")
    case (Inl e)
    with assms(1) True have "s' = s" "r = Err e"
      by (simp_all add: request_cancel_def transact_def then_get_job_def)
    with that(1) show ?thesis by blast
  next
    case (Inr x)
    then obtain s1 where body: "cancel_body now jid expected reason s = Ok (s1, ())"
      by (cases x) auto
    with assms(1) True have "s' = s1 \<and> r = get_job jid s1"
      by (auto simp: request_cancel_def transact_def then_get_job_def)
    with body that(2) show ?thesis
      unfolding cancel_body_iff[OF jobs_inv_distinct[OF assms(2)]] by blast
  qed
qed

lemma transition_preserves_jobs_inv:
  assumes "transition_job now jid expected nx payload result s = (s', r)" and "jobs_inv s"
  shows "jobs_inv s'"
  using assms
proof (cases rule: transition_cases)
  case same
  with assms(2) show ?thesis by simp
next
  case (step row cur)
  have ok: "job_row_ok row"
    using step(1) assms(2) by (auto dest: jobs_t.found jobs_inv_row_ok)
  have cur: "row_state row = cur" using step(2) by (rule row_state_as_str)
  have nx: "row_state (transitioned_row now nx result row) = nx"
    by (rule row_state_as_str) (simp add: transitioned_row_def)
  have "job_row_ok (transitioned_row now nx result row)"
    using ok step(3,5) by (simp add: job_row_ok_def transitioned_row_def)
  moreover have "replay_step (Some (abstract_row row))
      \<lparr>jer_sequence = st_job_event_seq s + 1, jer_job_id = job_id_str jid,
       jer_kind = JobEventKind_as_str (transition_event_kind cur), jer_state = JobState_as_str nx,
       jer_occurred_at = now, jer_payload = canonical_json payload\<rparr>
     = Some (abstract_row (transitioned_row now nx result row))"
    using step(4) nx cur
    by (simp add: replay_step_def abstract_row_def transition_event_kind_def transitioned_row_def)
  ultimately show ?thesis
    using assms(2) step(1)
    by (auto simp: jobs_inv_def step(6) append_job_event_def transitioned_row_def
        intro!: jobs_tables_update)
qed

lemma cancel_preserves_jobs_inv:
  assumes "request_cancel now jid expected reason s = (s', r)" and "jobs_inv s"
  shows "jobs_inv s'"
  using assms
proof (cases rule: cancel_cases)
  case same
  with assms(2) show ?thesis by simp
next
  case (step row cur)
  have ok: "job_row_ok row"
    using step(1) assms(2) by (auto dest: jobs_t.found jobs_inv_row_ok)
  have cur: "row_state row = cur" using step(2) by (rule row_state_as_str)
  have cur': "row_state (cancelled_row now row) = cur"
    by (rule row_state_as_str) (simp add: cancelled_row_def step(2))
  have "job_row_ok (cancelled_row now row)"
    using ok step(3,5) by (simp add: job_row_ok_def cancelled_row_def)
  moreover have "replay_step (Some (abstract_row row))
      \<lparr>jer_sequence = st_job_event_seq s + 1, jer_job_id = job_id_str jid,
       jer_kind = ''cancel_requested'', jer_state = JobState_as_str cur,
       jer_occurred_at = now, jer_payload = JObject [(''reason'', JString reason)]\<rparr>
     = Some (abstract_row (cancelled_row now row))"
    using step(4) cur cur'
    by (simp add: replay_step_def abstract_row_def cancelled_row_def)
  ultimately show ?thesis
    using assms(2) step(1)
    by (auto simp: jobs_inv_def step(6) append_job_event_def cancelled_row_def
        intro!: jobs_tables_update)
qed

section \<open>Receipts\<close>

lemma submit_preserves_idempotency_inv:
  assumes "submit_linked_job digest now key jid new link s = (s', r)" and "idempotency_inv s"
  shows "idempotency_inv s'"
  using assms(1)
proof (cases rule: submit_linked_job_effect)
  case same
  with assms(2) show ?thesis by simp
next
  case (fresh cs)
  from fresh(2) have "(nj_principal new, key) \<notin> (\<lambda>r. (ir_principal r, ir_key r)) ` set (st_idempotency s)"
    by (subst (asm) idem_t.not_found) simp
  with assms(2) show ?thesis
    by (auto simp: idempotency_inv_def fresh(5) fresh_submission_def append_job_event_def)
qed

text \<open>
  Rows may only change in ways that keep identity, owner and fingerprint.
\<close>

definition same_identity :: "job_row \<Rightarrow> job_row \<Rightarrow> bool" where
  "same_identity a b \<longleftrightarrow>
     jr_id a = jr_id b \<and> jr_principal a = jr_principal b \<and> jr_host a = jr_host b \<and>
     jr_operation a = jr_operation b \<and> jr_spec a = jr_spec b \<and> jr_spec_hash a = jr_spec_hash b \<and>
     jr_spec_version a = jr_spec_version b \<and> jr_policy_version a = jr_policy_version b \<and>
     jr_created_at a = jr_created_at b \<and> jr_deadline a = jr_deadline b"

lemma same_identity_refl [simp]: "same_identity r r"
  by (simp add: same_identity_def)

lemma same_identity_trans: "same_identity a b \<Longrightarrow> same_identity b c \<Longrightarrow> same_identity a c"
  by (simp add: same_identity_def)

lemma row_updates_identity [simp]:
  "same_identity r (transitioned_row now nx result r)"
  "same_identity r (cancelled_row now r)"
  by (simp_all add: same_identity_def transitioned_row_def cancelled_row_def)

lemma update_preserves_idempotency_inv:
  assumes "idempotency_inv s" and "\<And>r. same_identity r (f r)"
    and "st_jobs s' = update_where p f (st_jobs s)" and "st_idempotency s' = st_idempotency s"
  shows "idempotency_inv s'"
proof -
  have "\<exists>j' \<in> set (st_jobs s'). jr_id j' = jr_id j \<and> jr_principal j' = jr_principal j
      \<and> jr_spec_hash j' = jr_spec_hash j" if "j \<in> set (st_jobs s)" for j
    using that assms(2)[of j]
    by (intro bexI[of _ "if p j then f j else j"])
      (auto simp: assms(3) set_update_where same_identity_def)
  with assms(1,4) show ?thesis unfolding idempotency_inv_def by metis
qed

lemma transition_preserves_idempotency_inv:
  assumes "transition_job now jid expected nx payload result s = (s', r)" and "jobs_inv s"
    and "idempotency_inv s"
  shows "idempotency_inv s'"
  using assms(1,2)
proof (cases rule: transition_cases)
  case same
  with assms(3) show ?thesis by simp
next
  case (step row cur)
  show ?thesis
    by (rule update_preserves_idempotency_inv[OF assms(3), of "transitioned_row now nx result"])
      (simp_all add: step(6) append_job_event_def)
qed

lemma cancel_preserves_idempotency_inv:
  assumes "request_cancel now jid expected reason s = (s', r)" and "jobs_inv s"
    and "idempotency_inv s"
  shows "idempotency_inv s'"
  using assms(1,2)
proof (cases rule: cancel_cases)
  case same
  with assms(3) show ?thesis by simp
next
  case (step row cur)
  show ?thesis
    by (rule update_preserves_idempotency_inv[OF assms(3), of "cancelled_row now"])
      (simp_all add: step(6) append_job_event_def)
qed

lemma accept_preserves_idempotency_inv:
  assumes "accept_job digest now jid new s = (s', r)" and "idempotency_inv s"
  shows "idempotency_inv s'"
  using assms(1)
  by (cases rule: accept_job_effect)
    (use assms(2) in \<open>auto simp: idempotency_inv_def append_job_event_def\<close>)

section \<open>Reading back\<close>

lemma get_job_iff:
  assumes "jobs_inv s"
  shows "get_job jid s =
    (case select_one (\<lambda>r. jr_id r = job_id_str jid) (st_jobs s) of
       None \<Rightarrow> Err (Report ''job not found'') | Some r \<Rightarrow> Ok (decoded_job r))"
  using jobs_inv_row_ok[OF assms]
  by (auto simp: get_job_def get_job_by_text_def row_to_job_ok dest: jobs_t.found split: option.splits)

end
