(* ===== verification/Store_Resources.thy ===== *)
theory Store_Resources
  imports Store_Jobs_Inv
begin

text \<open>
  \<open>maxops-store/src/lib.rs\<close>, target-local resource locks: \<open>try_acquire_resource\<close> and
  \<open>release_resource\<close>.  A lock belongs to a job; a lock of a live job is never taken away.
\<close>

definition try_acquire_body ::
  "timestamp \<Rightarrow> string \<Rightarrow> string \<Rightarrow> JobId \<Rightarrow> store \<Rightarrow> (store \<times> bool, store_error) result" where
  "try_acquire_body now resource_kind resource_key owner s =
     (case select_one (\<lambda>r. (rr_kind r, rr_key r) = (resource_kind, resource_key)
              \<and> rr_owner_job_id r \<in> jr_id ` set (st_jobs s)) (st_resources s) of
        Some row \<Rightarrow>
          if rr_owner_job_id row = job_id_str owner then Ok (s, True)
          else
            rbind (ok_or (Report ''job not found'')
                    (select_one (\<lambda>j. jr_id j = rr_owner_job_id row) (st_jobs s))) (\<lambda>job.
            rbind (map_err Report (JobState_from_str (jr_state job))) (\<lambda>state.
            if \<not> JobState_is_terminal state then Ok (s, False)
            else if job_id_str owner \<notin> jr_id ` set (st_jobs s)
            then Err (Constraint ''FOREIGN KEY constraint failed'')
            else Ok (s\<lparr>st_resources := update_where
                   (\<lambda>r. (rr_kind r, rr_key r) = (resource_kind, resource_key)
                      \<and> rr_revision r = rr_revision row)
                   (\<lambda>r. r\<lparr>rr_owner_job_id := job_id_str owner,
                          rr_revision := rr_revision row + 1, rr_acquired_at := now\<rparr>)
                   (st_resources s)\<rparr>, True)))
      | None \<Rightarrow>
          if (resource_kind, resource_key) \<in> (\<lambda>r. (rr_kind r, rr_key r)) ` set (st_resources s)
          then Err (Constraint ''UNIQUE constraint failed: resources'')
          else if job_id_str owner \<notin> jr_id ` set (st_jobs s)
          then Err (Constraint ''FOREIGN KEY constraint failed'')
          else Ok (s\<lparr>st_resources := st_resources s @
                 [\<lparr>rr_kind = resource_kind, rr_key = resource_key,
                   rr_owner_job_id = job_id_str owner, rr_revision = 1, rr_acquired_at = now\<rparr>]\<rparr>, True))"

definition try_acquire_resource ::
  "timestamp \<Rightarrow> string \<Rightarrow> string \<Rightarrow> JobId \<Rightarrow> store \<Rightarrow> store \<times> (bool, store_error) result" where
  "try_acquire_resource now resource_kind resource_key owner s =
     (if resource_kind = [] \<or> resource_key = []
      then (s, Err (Report ''resource identity must not be empty''))
      else transact (try_acquire_body now resource_kind resource_key owner) s)"

definition release_resource ::
  "string \<Rightarrow> string \<Rightarrow> JobId \<Rightarrow> store \<Rightarrow> store \<times> (bool, store_error) result" where
  "release_resource resource_kind resource_key owner s =
     (let p = (\<lambda>r. (rr_kind r, rr_key r) = (resource_kind, resource_key)
                 \<and> rr_owner_job_id r = job_id_str owner) in
      (s\<lparr>st_resources := filter (\<lambda>r. \<not> p r) (st_resources s)\<rparr>,
       Ok (count_where p (st_resources s) = 1)))"

section \<open>The lock table\<close>

definition resources_inv :: "store \<Rightarrow> bool" where
  "resources_inv s \<longleftrightarrow>
     distinct (map (\<lambda>r. (rr_kind r, rr_key r)) (st_resources s)) \<and>
     (\<forall>r \<in> set (st_resources s). rr_owner_job_id r \<in> jr_id ` set (st_jobs s))"

text \<open>Who holds a lock.\<close>

definition lock_owner :: "string \<Rightarrow> string \<Rightarrow> store \<Rightarrow> string option" where
  "lock_owner kind key s =
     map_option rr_owner_job_id
       (select_one (\<lambda>r. (rr_kind r, rr_key r) = (kind, key)) (st_resources s))"

definition live_job :: "string \<Rightarrow> store \<Rightarrow> bool" where
  "live_job k s \<longleftrightarrow> (\<exists>j \<in> set (st_jobs s). jr_id j = k \<and> \<not> JobState_is_terminal (row_state j))"

lemma resources_inv_empty: "resources_inv empty_store"
  by (simp add: resources_inv_def empty_store_def)

lemma select_resource:
  "resources_inv s \<Longrightarrow>
   select_one (\<lambda>r. (rr_kind r, rr_key r) = (k, y) \<and> rr_owner_job_id r \<in> jr_id ` set (st_jobs s))
     (st_resources s)
   = select_one (\<lambda>r. (rr_kind r, rr_key r) = (k, y)) (st_resources s)"
  unfolding select_one_def by (rule find_cong) (auto simp: resources_inv_def)

lemma lock_owner_after_update:
  assumes "\<And>r. (rr_kind (f r), rr_key (f r)) = (rr_kind r, rr_key r)"
  shows "lock_owner k y (s\<lparr>st_resources := update_where p f (st_resources s)\<rparr>) =
    map_option (\<lambda>r. rr_owner_job_id (if p r then f r else r))
      (select_one (\<lambda>r. (rr_kind r, rr_key r) = (k, y)) (st_resources s))"
  unfolding lock_owner_def
  using resources_t.found_after_update[of f "(k, y)" p "st_resources s"] assms
  by (simp add: option.map_comp o_def)

text \<open>The job behind a lock, and what the body does with it: one lemma per branch.\<close>

lemma lock_job:
  assumes "jobs_inv s" and "resources_inv s" and "row \<in> set (st_resources s)"
  obtains job where "select_one (\<lambda>j. jr_id j = rr_owner_job_id row) (st_jobs s) = Some job"
    "JobState_from_str (jr_state job) = Ok (row_state job)"
    "live_job (rr_owner_job_id row) s \<longleftrightarrow> \<not> JobState_is_terminal (row_state job)"
proof -
  from assms(2,3) have "rr_owner_job_id row \<in> jr_id ` set (st_jobs s)"
    by (simp add: resources_inv_def)
  then obtain job where job: "select_one (\<lambda>j. jr_id j = rr_owner_job_id row) (st_jobs s) = Some job"
    using jobs_t.not_found by fastforce
  then have jm: "job \<in> set (st_jobs s)" "jr_id job = rr_owner_job_id row"
    by (auto dest: jobs_t.found)
  have "live_job (rr_owner_job_id row) s \<longleftrightarrow> \<not> JobState_is_terminal (row_state job)"
    unfolding live_job_def
    using jobs_t.key_unique[OF jobs_inv_distinct[OF assms(1)] _ jm(1)] jm by metis
  with job row_state_text[OF jobs_inv_row_ok[OF assms(1) jm(1)]] show ?thesis
    by (intro that[OF job]) simp_all
qed

lemma relock_update:
  assumes "resources_inv s" and "row \<in> set (st_resources s)"
    and "(rr_kind row, rr_key row) = (kind, key)"
  shows "update_where (\<lambda>r. (rr_kind r, rr_key r) = (kind, key) \<and> rr_revision r = rr_revision row)
      (\<lambda>r. r\<lparr>rr_owner_job_id := w, rr_revision := rr_revision row + 1, rr_acquired_at := now\<rparr>)
      (st_resources s)
    = update_where (\<lambda>r. (rr_kind r, rr_key r) = (kind, key))
      (\<lambda>r. r\<lparr>rr_owner_job_id := w, rr_revision := rr_revision r + 1, rr_acquired_at := now\<rparr>)
      (st_resources s)"
  unfolding update_where_def
proof (rule map_cong[OF refl])
  fix r assume r: "r \<in> set (st_resources s)"
  show "(if (rr_kind r, rr_key r) = (kind, key) \<and> rr_revision r = rr_revision row
      then r\<lparr>rr_owner_job_id := w, rr_revision := rr_revision row + 1, rr_acquired_at := now\<rparr> else r) =
    (if (rr_kind r, rr_key r) = (kind, key)
      then r\<lparr>rr_owner_job_id := w, rr_revision := rr_revision r + 1, rr_acquired_at := now\<rparr> else r)"
  proof (cases "(rr_kind r, rr_key r) = (kind, key)")
    case True
    have "r = row"
      using resources_t.key_unique[OF _ r assms(2)] assms(1,3) True
      unfolding resources_inv_def by metis
    then show ?thesis by simp
  next
    case False
    then show ?thesis by (simp only: if_False simp_thms)
  qed
qed

lemma acquire_body_free:
  assumes "resources_inv s"
    and None: "select_one (\<lambda>r. (rr_kind r, rr_key r) = (kind, key)) (st_resources s) = None"
  shows "try_acquire_body now kind key owner s =
    (if job_id_str owner \<notin> jr_id ` set (st_jobs s)
     then Err (Constraint ''FOREIGN KEY constraint failed'')
     else Ok (s\<lparr>st_resources := st_resources s @
          [\<lparr>rr_kind = kind, rr_key = key, rr_owner_job_id = job_id_str owner, rr_revision = 1,
            rr_acquired_at = now\<rparr>]\<rparr>, True))"
proof -
  have "(kind, key) \<notin> (\<lambda>r. (rr_kind r, rr_key r)) ` set (st_resources s)"
    using None unfolding resources_t.not_found .
  then show ?thesis
    unfolding try_acquire_body_def select_resource[OF assms(1)] None by simp
qed

lemma acquire_body_taken:
  assumes "jobs_inv s" and "resources_inv s"
    and Some: "select_one (\<lambda>r. (rr_kind r, rr_key r) = (kind, key)) (st_resources s) = Some row"
  shows "try_acquire_body now kind key owner s =
    (if rr_owner_job_id row = job_id_str owner then Ok (s, True)
     else if live_job (rr_owner_job_id row) s then Ok (s, False)
     else if job_id_str owner \<notin> jr_id ` set (st_jobs s)
     then Err (Constraint ''FOREIGN KEY constraint failed'')
     else Ok (s\<lparr>st_resources := update_where (\<lambda>r. (rr_kind r, rr_key r) = (kind, key))
            (\<lambda>r. r\<lparr>rr_owner_job_id := job_id_str owner, rr_revision := rr_revision r + 1,
                   rr_acquired_at := now\<rparr>) (st_resources s)\<rparr>, True))"
proof -
  from Some have row: "row \<in> set (st_resources s)" "(rr_kind row, rr_key row) = (kind, key)"
    by (auto dest: select_one_Some_iff)
  obtain job where "select_one (\<lambda>j. jr_id j = rr_owner_job_id row) (st_jobs s) = Some job"
    "JobState_from_str (jr_state job) = Ok (row_state job)"
    "live_job (rr_owner_job_id row) s \<longleftrightarrow> \<not> JobState_is_terminal (row_state job)"
    using lock_job[OF assms(1,2) row(1)] by blast
  then show ?thesis
    unfolding try_acquire_body_def select_resource[OF assms(2)] Some
    by (simp add: relock_update[OF assms(2) row, simplified])
qed

text \<open>Complete case analysis of an acquisition.\<close>

lemma acquire_cases:
  assumes "try_acquire_resource now kind key owner s = (s', r)" and "jobs_inv s" and "resources_inv s"
  obtains (failed) e where "r = Err e" "s' = s"
  | (held) k where "r = Ok False" "s' = s" "lock_owner kind key s = Some k"
      "k \<noteq> job_id_str owner" "live_job k s"
  | (recovered) "r = Ok True" "s' = s" "lock_owner kind key s = Some (job_id_str owner)"
  | (replaced) row where "r = Ok True"
      "select_one (\<lambda>r. (rr_kind r, rr_key r) = (kind, key)) (st_resources s) = Some row"
      "rr_owner_job_id row \<noteq> job_id_str owner" "\<not> live_job (rr_owner_job_id row) s"
      "job_id_str owner \<in> jr_id ` set (st_jobs s)"
      "s' = s\<lparr>st_resources := update_where (\<lambda>r. (rr_kind r, rr_key r) = (kind, key))
                (\<lambda>r. r\<lparr>rr_owner_job_id := job_id_str owner, rr_revision := rr_revision r + 1,
                       rr_acquired_at := now\<rparr>) (st_resources s)\<rparr>"
  | (created) "r = Ok True" "lock_owner kind key s = None"
      "job_id_str owner \<in> jr_id ` set (st_jobs s)"
      "s' = s\<lparr>st_resources := st_resources s @ [\<lparr>rr_kind = kind, rr_key = key,
                rr_owner_job_id = job_id_str owner, rr_revision = 1, rr_acquired_at = now\<rparr>]\<rparr>"
proof (cases "kind = [] \<or> key = []")
  case True
  with assms(1) failed show ?thesis by (auto simp: try_acquire_resource_def)
next
  case False
  with assms(1) have tx: "transact (try_acquire_body now kind key owner) s = (s', r)"
    by (simp add: try_acquire_resource_def)
  show ?thesis
  proof (cases "select_one (\<lambda>r. (rr_kind r, rr_key r) = (kind, key)) (st_resources s)")
    case None
    then have "lock_owner kind key s = None" unfolding lock_owner_def by simp
    with tx failed created show ?thesis
      unfolding transact_def acquire_body_free[OF assms(3) None] by (auto split: if_splits)
  next
    case (Some row)
    then have owner: "lock_owner kind key s = Some (rr_owner_job_id row)"
      unfolding lock_owner_def by simp
    show ?thesis
      using tx failed held[OF _ _ owner] recovered replaced[OF _ Some] owner
      unfolding transact_def acquire_body_taken[OF assms(2,3) Some]
      by (auto split: if_splits)
  qed
qed

lemma acquire_preserves_resources_inv:
  assumes "try_acquire_resource now kind key owner s = (s', r)" and "jobs_inv s" and "resources_inv s"
  shows "resources_inv s'"
  using assms
proof (cases rule: acquire_cases)
  case (replaced row)
  have "map (\<lambda>r. (rr_kind r, rr_key r)) (st_resources s') = map (\<lambda>r. (rr_kind r, rr_key r)) (st_resources s)"
    unfolding replaced(6) by (simp add: map_update_where)
  with assms(3) replaced show ?thesis
    by (auto simp: resources_inv_def set_update_where)
next
  case created
  have "(kind, key) \<notin> (\<lambda>r. (rr_kind r, rr_key r)) ` set (st_resources s)"
    using created(2) unfolding lock_owner_def map_option_is_None resources_t.not_found .
  with assms(3) created show ?thesis by (auto simp: resources_inv_def)
qed (use assms(3) in simp_all)

lemma acquire_frame:
  assumes "try_acquire_resource now kind key owner s = (s', r)" and "jobs_inv s" and "resources_inv s"
  shows "\<exists>rs. s' = s\<lparr>st_resources := rs\<rparr>"
  using assms
proof (cases rule: acquire_cases)
  case failed
  then show ?thesis by (intro exI[of _ "st_resources s"]) simp
next
  case held
  then show ?thesis by (intro exI[of _ "st_resources s"]) simp
next
  case recovered
  then show ?thesis by (intro exI[of _ "st_resources s"]) simp
qed blast+

lemma release_preserves_resources_inv:
  "resources_inv s \<Longrightarrow> resources_inv (fst (release_resource kind key owner s))"
  by (auto simp: resources_inv_def release_resource_def Let_def distinct_map_filter)

end
