(* ===== verification/Store_Workspaces.thy ===== *)
theory Store_Workspaces
  imports Store_Resources
begin

text \<open>
  \<open>maxops-store/src/lib.rs\<close>, configuration workspaces: idempotent creation, the projection the
  hub keeps of an executor's workspace, and the revision-checked transition.
\<close>

definition row_to_workspace :: "workspace_row \<Rightarrow> (WorkspaceRecord, store_error) result" where
  "row_to_workspace row =
     rbind (map_err Report (WorkspaceId_parse (wr_id row))) (\<lambda>wid.
     rbind (to_u64 (wrow_revision row) ''workspace revision'') (\<lambda>revision.
     rbind (map_err Report (WorkspaceState_from_str (wrow_state row))) (\<lambda>state.
     Ok \<lparr>ws_workspace_id = wid, ws_repository = wrow_repository_id row,
         ws_executor = wrow_executor row, ws_base_commit = wrow_base_commit row,
         ws_revision = revision, ws_tree_hash = wrow_tree_hash row,
         ws_commit_hash = wrow_commit_hash row, ws_state = state,
         ws_creator = wrow_creator row, ws_created_at = wrow_created_at row,
         ws_retain_until = wrow_retain_until row\<rparr>)))"

definition get_workspace :: "WorkspaceId \<Rightarrow> store \<Rightarrow> (WorkspaceRecord, store_error) result" where
  "get_workspace wid s =
     rbind (ok_or (Report ''workspace not found'')
             (select_one (\<lambda>r. wr_id r = workspace_id_str wid) (st_workspaces s))) row_to_workspace"

definition get_owned_workspace ::
  "string \<Rightarrow> string \<Rightarrow> WorkspaceId \<Rightarrow> store \<Rightarrow> (WorkspaceRecord, store_error) result" where
  "get_owned_workspace creator repository wid s =
     rbind (get_workspace wid s) (\<lambda>workspace.
       if ws_creator workspace = creator \<and> ws_repository workspace = repository
       then Ok workspace else Err (Report ''workspace not found''))"

definition create_workspace_body ::
  "timestamp \<Rightarrow> WorkspaceId \<Rightarrow> string \<Rightarrow> string \<Rightarrow> string \<Rightarrow> string \<Rightarrow> string \<Rightarrow> store \<Rightarrow>
   (store \<times> WorkspaceRecord option, store_error) result" where
  "create_workspace_body now wid repository executor base_commit tree_hash creator s =
     (case select_one (\<lambda>r. wr_id r = workspace_id_str wid) (st_workspaces s) of
        Some row \<Rightarrow>
          rbind (row_to_workspace row) (\<lambda>existing.
            if ws_repository existing = repository \<and> ws_executor existing = executor
               \<and> eq_ignore_ascii_case (ws_base_commit existing) base_commit
               \<and> eq_ignore_ascii_case (ws_tree_hash existing) tree_hash
               \<and> ws_creator existing = creator
            then Ok (s, Some existing)
            else Err (Report ''workspace ID was already used with different metadata''))
      | None \<Rightarrow>
          Ok (s\<lparr>st_workspaces := st_workspaces s @
                [\<lparr>wr_id = workspace_id_str wid, wrow_repository_id = repository,
                  wrow_executor = executor, wrow_base_commit = to_ascii_lowercase base_commit,
                  wrow_revision = 1, wrow_tree_hash = to_ascii_lowercase tree_hash,
                  wrow_commit_hash = None, wrow_state = ''clean'', wrow_creator = creator,
                  wrow_created_at = now, wrow_retain_until = None\<rparr>]\<rparr>, None))"

definition create_workspace ::
  "timestamp \<Rightarrow> WorkspaceId \<Rightarrow> string \<Rightarrow> string \<Rightarrow> string \<Rightarrow> string \<Rightarrow> string \<Rightarrow> store \<Rightarrow>
   store \<times> (WorkspaceRecord, store_error) result" where
  "create_workspace now wid repository executor base_commit tree_hash creator s =
     (if \<not> valid_repository_id repository then (s, Err (Report ''invalid repository ID''))
      else if \<not> valid_host executor then (s, Err (Report ''invalid workspace executor''))
      else if \<not> valid_git_oid base_commit then (s, Err (Report ''invalid base commit''))
      else if \<not> valid_git_oid tree_hash then (s, Err (Report ''invalid tree hash''))
      else if \<not> (creator \<noteq> [] \<and> length creator \<le> 128)
      then (s, Err (Report ''invalid workspace creator''))
      else case transact (create_workspace_body now wid repository executor base_commit tree_hash creator) s of
        (s', r) \<Rightarrow>
          (s', rbind r (\<lambda>existing. case existing of Some w \<Rightarrow> Ok w | None \<Rightarrow> get_workspace wid s')))"

text \<open>
  \<open>INSERT ... ON CONFLICT(id) DO UPDATE ... WHERE\<close> the identity columns agree.  A conflict on a
  row with another identity affects no row.
\<close>

definition same_projection :: "WorkspaceRecord \<Rightarrow> workspace_row \<Rightarrow> bool" where
  "same_projection w r \<longleftrightarrow>
     wrow_repository_id r = ws_repository w \<and> wrow_executor r = ws_executor w
     \<and> wrow_base_commit r = ws_base_commit w \<and> wrow_creator r = ws_creator w"

definition record_workspace ::
  "WorkspaceRecord \<Rightarrow> store \<Rightarrow> store \<times> (WorkspaceRecord, store_error) result" where
  "record_workspace w s =
     (case to_i64 (ws_revision w) ''workspace revision'' of
        Inl e \<Rightarrow> (s, Inl e)
      | Inr revision \<Rightarrow>
          let k = workspace_id_str (ws_workspace_id w);
              tree = to_ascii_lowercase (ws_tree_hash w);
              commit = map_option to_ascii_lowercase (ws_commit_hash w) in
          (case select_one (\<lambda>r. wr_id r = k) (st_workspaces s) of
             None \<Rightarrow>
               let s' = s\<lparr>st_workspaces := st_workspaces s @
                     [\<lparr>wr_id = k, wrow_repository_id = ws_repository w,
                       wrow_executor = ws_executor w, wrow_base_commit = ws_base_commit w,
                       wrow_revision = revision, wrow_tree_hash = tree, wrow_commit_hash = commit,
                       wrow_state = WorkspaceState_as_str (ws_state w), wrow_creator = ws_creator w,
                       wrow_created_at = ws_created_at w, wrow_retain_until = ws_retain_until w\<rparr>]\<rparr>
               in (s', get_workspace (ws_workspace_id w) s')
           | Some row \<Rightarrow>
               if \<not> same_projection w row
               then (s, Err (Report ''workspace projection identity changed''))
               else
                 let s' = s\<lparr>st_workspaces := update_where (\<lambda>r. wr_id r = k \<and> same_projection w r)
                       (\<lambda>r. r\<lparr>wrow_revision := revision, wrow_tree_hash := tree,
                              wrow_commit_hash := commit,
                              wrow_state := WorkspaceState_as_str (ws_state w),
                              wrow_retain_until := ws_retain_until w\<rparr>) (st_workspaces s)\<rparr>
                 in (s', get_workspace (ws_workspace_id w) s')))"

definition transition_workspace ::
  "WorkspaceId \<Rightarrow> string \<Rightarrow> nat \<Rightarrow> string \<Rightarrow> string option \<Rightarrow> WorkspaceState \<Rightarrow> store \<Rightarrow>
   store \<times> (WorkspaceRecord, store_error) result" where
  "transition_workspace wid creator expected_revision tree_hash commit_hash state s =
     (if \<not> valid_git_oid tree_hash then (s, Err (Report ''invalid tree hash''))
      else if (case commit_hash of None \<Rightarrow> False | Some c \<Rightarrow> \<not> valid_git_oid c)
      then (s, Err (Report ''invalid commit hash''))
      else
        case rbind (ok_or (Report ''workspace revision overflow'')
                     (checked_add_u64 expected_revision 1)) (\<lambda>next_revision.
             rbind (to_i64 next_revision ''workspace revision'') (\<lambda>next_i.
             rbind (to_i64 expected_revision ''workspace revision'') (\<lambda>rev_i. Ok (next_i, rev_i)))) of
          Inl e \<Rightarrow> (s, Inl e)
        | Inr (next_i, rev_i) \<Rightarrow>
            let p = (\<lambda>r. wr_id r = workspace_id_str wid \<and> wrow_creator r = creator
                       \<and> wrow_revision r = rev_i) in
            if count_where p (st_workspaces s) \<noteq> 1
            then (s, Err (Report ''workspace revision changed''))
            else
              let s' = s\<lparr>st_workspaces := update_where p
                    (\<lambda>r. r\<lparr>wrow_revision := next_i, wrow_tree_hash := to_ascii_lowercase tree_hash,
                           wrow_commit_hash := map_option to_ascii_lowercase commit_hash,
                           wrow_state := WorkspaceState_as_str state\<rparr>) (st_workspaces s)\<rparr>
              in (s', get_workspace wid s'))"

section \<open>The workspace table\<close>

definition workspace_identity :: "workspace_row \<Rightarrow> string \<times> string \<times> string \<times> string \<times> string" where
  "workspace_identity r =
     (wr_id r, wrow_repository_id r, wrow_executor r, wrow_base_commit r, wrow_creator r)"

definition workspace_row_ok :: "workspace_row \<Rightarrow> bool" where
  "workspace_row_ok r \<longleftrightarrow>
     uuid_text (wr_id r) \<and> 0 \<le> wrow_revision r \<and> wrow_revision r \<le> i64_max \<and>
     is_ok (WorkspaceState_from_str (wrow_state r)) \<and>
     to_ascii_lowercase (wrow_tree_hash r) = wrow_tree_hash r"

definition workspaces_inv :: "store \<Rightarrow> bool" where
  "workspaces_inv s \<longleftrightarrow>
     distinct (map wr_id (st_workspaces s)) \<and> (\<forall>r \<in> set (st_workspaces s). workspace_row_ok r)"

lemma workspaces_inv_empty: "workspaces_inv empty_store"
  by (simp add: workspaces_inv_def empty_store_def)

text \<open>
  Identity is permanent: every operation keeps the identities of the rows it finds, in order, and
  at most appends a row with a fresh key.
\<close>

definition workspaces_extend :: "store \<Rightarrow> store \<Rightarrow> bool" where
  "workspaces_extend s s' \<longleftrightarrow>
     (\<exists>new. map workspace_identity (st_workspaces s') = map workspace_identity (st_workspaces s) @ new)"

lemma workspaces_extend_refl [simp]: "workspaces_extend s s"
  by (simp add: workspaces_extend_def)

lemma create_workspace_cases:
  assumes "create_workspace now wid repository executor base_commit tree_hash creator s = (s', r)"
  obtains (same) "s' = s"
  | (created) "select_one (\<lambda>r. wr_id r = workspace_id_str wid) (st_workspaces s) = None"
      "valid_git_oid tree_hash" "r = get_workspace wid s'"
      "s' = s\<lparr>st_workspaces := st_workspaces s @
                [\<lparr>wr_id = workspace_id_str wid, wrow_repository_id = repository,
                  wrow_executor = executor, wrow_base_commit = to_ascii_lowercase base_commit,
                  wrow_revision = 1, wrow_tree_hash = to_ascii_lowercase tree_hash,
                  wrow_commit_hash = None, wrow_state = ''clean'', wrow_creator = creator,
                  wrow_created_at = now, wrow_retain_until = None\<rparr>]\<rparr>"
proof (cases "select_one (\<lambda>r. wr_id r = workspace_id_str wid) (st_workspaces s)")
  case None
  show ?thesis
  proof (cases "valid_repository_id repository \<and> valid_host executor \<and> valid_git_oid base_commit
      \<and> valid_git_oid tree_hash \<and> creator \<noteq> [] \<and> length creator \<le> 128")
    case False
    then have "fst (create_workspace now wid repository executor base_commit tree_hash creator s) = s"
      unfolding create_workspace_def by auto
    with assms have "s' = s" by simp
    with same show ?thesis .
  next
    case True
    let ?row = "\<lparr>wr_id = workspace_id_str wid, wrow_repository_id = repository,
        wrow_executor = executor, wrow_base_commit = to_ascii_lowercase base_commit,
        wrow_revision = 1, wrow_tree_hash = to_ascii_lowercase tree_hash,
        wrow_commit_hash = None, wrow_state = ''clean'', wrow_creator = creator,
        wrow_created_at = now, wrow_retain_until = None\<rparr>"
    let ?s = "s\<lparr>st_workspaces := st_workspaces s @ [?row]\<rparr>"
    have "create_workspace now wid repository executor base_commit tree_hash creator s
        = (?s, get_workspace wid ?s)"
      using True None
      by (simp add: create_workspace_def create_workspace_body_def transact_def)
    with assms have "s' = ?s" and "r = get_workspace wid s'"
      by (metis Pair_inject)+
    with created[OF None] True show ?thesis by blast
  qed
next
  case (Some row)
  have "s' = s"
    using assms Some
    by (cases "row_to_workspace row")
      (simp_all add: create_workspace_def create_workspace_body_def transact_def split: if_splits)
  with same show ?thesis .
qed

lemma create_preserves_workspaces_inv:
  assumes "create_workspace now wid repository executor base_commit tree_hash creator s = (s', r)"
    and "workspaces_inv s" and "uuid_text (workspace_id_str wid)"
  shows "workspaces_inv s'" and "workspaces_extend s s'"
proof -
  have "workspaces_inv s' \<and> workspaces_extend s s'"
    using assms(1)
  proof (cases rule: create_workspace_cases)
    case same
    with assms(2) show ?thesis by simp
  next
    case created
    from created(1) have "workspace_id_str wid \<notin> wr_id ` set (st_workspaces s)"
      unfolding workspaces_t.not_found .
    with assms(2,3) show ?thesis
      by (auto simp: workspaces_inv_def workspace_row_ok_def created(4) WorkspaceState_from_str_def
          workspaces_extend_def)
  qed
  then show "workspaces_inv s'" "workspaces_extend s s'" by simp_all
qed

lemma workspace_update_inv:
  assumes "workspaces_inv s" and "\<And>r. workspace_identity (f r) = workspace_identity r"
    and "\<And>r. workspace_row_ok r \<Longrightarrow> workspace_row_ok (f r)"
    and "st_workspaces s' = update_where p f (st_workspaces s)"
  shows "workspaces_inv s'" and "workspaces_extend s s'"
proof -
  have keys: "map wr_id (st_workspaces s') = map wr_id (st_workspaces s)"
    unfolding assms(4) using assms(2) by (intro map_update_where) (simp add: workspace_identity_def)
  show "workspaces_inv s'"
    using assms(1,3) keys by (auto simp: workspaces_inv_def assms(4) set_update_where)
  show "workspaces_extend s s'"
    unfolding workspaces_extend_def assms(4) using assms(2) by (simp add: map_update_where)
qed

lemma record_preserves_workspaces_inv:
  assumes "record_workspace w s = (s', r)" and "workspaces_inv s"
    and "uuid_text (workspace_id_str (ws_workspace_id w))"
  shows "workspaces_inv s' \<and> workspaces_extend s s'"
proof (cases "to_i64 (ws_revision w) ''workspace revision''")
  case (Inl e)
  with assms show ?thesis by (simp add: record_workspace_def)
next
  case (Inr n)
  then have n: "n = int (ws_revision w)" "int (ws_revision w) \<le> i64_max" by simp_all
  show ?thesis
  proof (cases "select_one (\<lambda>r. wr_id r = workspace_id_str (ws_workspace_id w)) (st_workspaces s)")
    case None
    then have "workspace_id_str (ws_workspace_id w) \<notin> wr_id ` set (st_workspaces s)"
      unfolding workspaces_t.not_found .
    moreover from assms(1) None have "st_workspaces s' = st_workspaces s @
        [\<lparr>wr_id = workspace_id_str (ws_workspace_id w), wrow_repository_id = ws_repository w,
          wrow_executor = ws_executor w, wrow_base_commit = ws_base_commit w,
          wrow_revision = n, wrow_tree_hash = to_ascii_lowercase (ws_tree_hash w),
          wrow_commit_hash = map_option to_ascii_lowercase (ws_commit_hash w),
          wrow_state = WorkspaceState_as_str (ws_state w), wrow_creator = ws_creator w,
          wrow_created_at = ws_created_at w, wrow_retain_until = ws_retain_until w\<rparr>]"
      unfolding record_workspace_def Inr by (auto simp: Let_def)
    ultimately show ?thesis
      using assms(2,3) n by (auto simp: workspaces_inv_def workspace_row_ok_def workspaces_extend_def)
  next
    case (Some row)
    show ?thesis
    proof (cases "same_projection w row")
      case False
      with Some assms show ?thesis unfolding record_workspace_def Inr by (simp add: Let_def)
    next
      case True
      define f :: "workspace_row \<Rightarrow> workspace_row" where "f = (\<lambda>r. r\<lparr>wrow_revision := n, wrow_tree_hash := to_ascii_lowercase (ws_tree_hash w),
           wrow_commit_hash := map_option to_ascii_lowercase (ws_commit_hash w),
           wrow_state := WorkspaceState_as_str (ws_state w), wrow_retain_until := ws_retain_until w\<rparr>)"
      have "st_workspaces s' = update_where
          (\<lambda>r. wr_id r = workspace_id_str (ws_workspace_id w) \<and> same_projection w r) f (st_workspaces s)"
        using assms(1) Some True unfolding record_workspace_def Inr by (auto simp: Let_def f_def)
      then show ?thesis
        using workspace_update_inv[OF assms(2), of f] n
        by (simp add: f_def workspace_identity_def workspace_row_ok_def)
    qed
  qed
qed

lemma transition_workspace_cases:
  assumes "transition_workspace wid creator expected tree commit st s = (s', r)"
  obtains (same) "s' = s" "\<exists>e. r = Err e"
  | (step) "int expected + 1 \<le> i64_max" "valid_git_oid tree"
      "count_where (\<lambda>r. wr_id r = workspace_id_str wid \<and> wrow_creator r = creator
         \<and> wrow_revision r = int expected) (st_workspaces s) = 1"
      "s' = s\<lparr>st_workspaces := update_where
           (\<lambda>r. wr_id r = workspace_id_str wid \<and> wrow_creator r = creator \<and> wrow_revision r = int expected)
           (\<lambda>r. r\<lparr>wrow_revision := int expected + 1, wrow_tree_hash := to_ascii_lowercase tree,
                  wrow_commit_hash := map_option to_ascii_lowercase commit,
                  wrow_state := WorkspaceState_as_str st\<rparr>) (st_workspaces s)\<rparr>"
      "r = get_workspace wid s'"
proof (cases "valid_git_oid tree \<and> (case commit of None \<Rightarrow> True | Some c \<Rightarrow> valid_git_oid c)
    \<and> int expected + 1 \<le> i64_max")
  case False
  have "s' = s \<and> (\<exists>e. r = Err e)"
    using assms False
    by (auto simp: transition_workspace_def rbind_def to_i64_def checked_add_u64_def Let_def
        split: if_splits option.splits)
  with same show ?thesis by blast
next
  case True
  then have conv: "rbind (ok_or (Report ''workspace revision overflow'') (checked_add_u64 expected 1))
      (\<lambda>next_revision. rbind (to_i64 next_revision ''workspace revision'') (\<lambda>next_i.
        rbind (to_i64 expected ''workspace revision'') (\<lambda>rev_i. Ok (next_i, rev_i))))
      = Ok (int expected + 1, int expected)"
    by simp
  show ?thesis
  proof (cases "count_where (\<lambda>r. wr_id r = workspace_id_str wid \<and> wrow_creator r = creator
         \<and> wrow_revision r = int expected) (st_workspaces s) = 1")
    case c: True
    with assms True have "s' = s\<lparr>st_workspaces := update_where
           (\<lambda>r. wr_id r = workspace_id_str wid \<and> wrow_creator r = creator \<and> wrow_revision r = int expected)
           (\<lambda>r. r\<lparr>wrow_revision := int expected + 1, wrow_tree_hash := to_ascii_lowercase tree,
                  wrow_commit_hash := map_option to_ascii_lowercase commit,
                  wrow_state := WorkspaceState_as_str st\<rparr>) (st_workspaces s)\<rparr> \<and> r = get_workspace wid s'"
      unfolding transition_workspace_def conv by (auto simp: Let_def split: option.splits)
    with c True step show ?thesis by blast
  next
    case c: False
    with assms True have "s' = s \<and> r = Err (Report ''workspace revision changed'')"
      unfolding transition_workspace_def conv by (auto simp: Let_def split: option.splits)
    with same show ?thesis by blast
  qed
qed

lemma transition_preserves_workspaces_inv:
  assumes "transition_workspace wid creator expected tree commit st s = (s', r)" and "workspaces_inv s"
  shows "workspaces_inv s' \<and> workspaces_extend s s'"
  using assms(1)
proof (cases rule: transition_workspace_cases)
  case same
  with assms(2) show ?thesis by simp
next
  case step
  define f :: "workspace_row \<Rightarrow> workspace_row" where "f = (\<lambda>r. r\<lparr>wrow_revision := int expected + 1, wrow_tree_hash := to_ascii_lowercase tree,
      wrow_commit_hash := map_option to_ascii_lowercase commit, wrow_state := WorkspaceState_as_str st\<rparr>)"
  have "st_workspaces s' = update_where (\<lambda>r. wr_id r = workspace_id_str wid \<and> wrow_creator r = creator
      \<and> wrow_revision r = int expected) f (st_workspaces s)"
    by (simp add: step(4) f_def)
  then show ?thesis
    using workspace_update_inv[OF assms(2), of f] step(1)
    by (simp add: f_def workspace_identity_def workspace_row_ok_def)
qed

end
