(* ===== verification/Revision_Contract.thy ===== *)
theory Revision_Contract
  imports Store_Tables
begin

text \<open>
  Optimistic concurrency as the store offers it: every mutable record carries a revision, an
  update names the revision it was computed from, and it either commits and moves the record to
  the next revision or fails and leaves the store as it was.

  Job transitions, cancellations, change transitions and workspace transitions follow this
  contract; what their callers may conclude is proved once here.
\<close>

locale revision_cas =
  fixes inv :: "store \<Rightarrow> bool"
    and revision_of :: "'k \<Rightarrow> store \<Rightarrow> nat option"
    and update :: "'k \<Rightarrow> nat \<Rightarrow> 'a \<Rightarrow> store \<Rightarrow> store \<times> ('r, store_error) result"
  assumes keeps_inv: "inv s \<Longrightarrow> update k n a s = (s', r) \<Longrightarrow> inv s'"
    and commit_old: "inv s \<Longrightarrow> update k n a s = (s', Ok x) \<Longrightarrow> revision_of k s = Some n"
    and commit_new: "inv s \<Longrightarrow> update k n a s = (s', Ok x) \<Longrightarrow> revision_of k s' = Some (n + 1)"
    and commit_other:
      "inv s \<Longrightarrow> update k n a s = (s', Ok x) \<Longrightarrow> k' \<noteq> k \<Longrightarrow> revision_of k' s' = revision_of k' s"
    and reject: "inv s \<Longrightarrow> update k n a s = (s', Err e) \<Longrightarrow> s' = s"
begin

text \<open>A caller that lost the race is told so, and changes nothing.\<close>

lemma stale_rejected:
  assumes "inv s" and "update k n a s = (s1, Ok x)" and "update k n b s1 = (s2, r)"
  shows "(\<exists>e. r = Err e) \<and> s2 = s1"
proof -
  have inv1: "inv s1" using keeps_inv[OF assms(1,2)] .
  have "\<nexists>y. r = Ok y"
    using commit_new[OF assms(1,2)] commit_old[OF inv1] assms(3) by fastforce
  then obtain e where "r = Err e" by (cases r) auto
  with reject[OF inv1] assms(3) show ?thesis by blast
qed

text \<open>A sequence of updates by any number of callers.\<close>

primrec run_updates :: "('k \<times> nat \<times> 'a) list \<Rightarrow> store \<Rightarrow> store \<times> ('r, store_error) result list" where
  "run_updates [] s = (s, [])"
| "run_updates (c # cs) s =
     (let (s1, r) = update (fst c) (fst (snd c)) (snd (snd c)) s;
          (s2, rs) = run_updates cs s1
      in (s2, r # rs))"

definition commits :: "'k \<Rightarrow> ('k \<times> nat \<times> 'a) list \<Rightarrow> ('r, store_error) result list \<Rightarrow> nat" where
  "commits k cs rs = length (filter (\<lambda>(c, r). fst c = k \<and> is_ok r) (zip cs rs))"

lemma run_keeps_inv: "inv s \<Longrightarrow> run_updates cs s = (s', rs) \<Longrightarrow> inv s'"
  by (induction cs arbitrary: s s' rs) (auto simp: Let_def split: prod.splits dest: keeps_inv)

text \<open>No update is lost: a record's revision counts the updates of it that committed.\<close>

lemma no_lost_update:
  assumes "inv s" and "run_updates cs s = (s', rs)" and "revision_of k s = Some n"
  shows "revision_of k s' = Some (n + commits k cs rs)"
  using assms
proof (induction cs arbitrary: s s' rs n)
  case Nil
  then show ?case by (simp add: commits_def)
next
  case (Cons c cs)
  obtain s1 r where one: "update (fst c) (fst (snd c)) (snd (snd c)) s = (s1, r)"
    by fastforce
  obtain s2 rs' where rest: "run_updates cs s1 = (s2, rs')"
    by fastforce
  with one Cons.prems(2) have res: "s' = s2" "rs = r # rs'" by auto
  have inv1: "inv s1" using keeps_inv[OF Cons.prems(1) one] .
  show ?case
  proof (cases r)
    case (Inl e)
    with reject[OF Cons.prems(1)] one have "s1 = s" by blast
    with Cons.IH[OF inv1 rest] Cons.prems(3) Inl res show ?thesis by (simp add: commits_def)
  next
    case (Inr x)
    with one have upd: "update (fst c) (fst (snd c)) (snd (snd c)) s = (s1, Ok x)" by simp
    show ?thesis
    proof (cases "fst c = k")
      case True
      with commit_old[OF Cons.prems(1) upd] commit_new[OF Cons.prems(1) upd] Cons.prems(3)
      have "revision_of k s1 = Some (n + 1)" by simp
      with Cons.IH[OF inv1 rest] Inr res True show ?thesis by (simp add: commits_def)
    next
      case False
      with commit_other[OF Cons.prems(1) upd] Cons.prems(3) have "revision_of k s1 = Some n" by simp
      with Cons.IH[OF inv1 rest] Inr res False show ?thesis by (simp add: commits_def)
    qed
  qed
qed

text \<open>Of the updates computed from one revision of one record, at most one commits.\<close>

lemma one_winner:
  assumes "inv s" and "run_updates cs s = (s', rs)" and "revision_of k s = Some m" and "n \<le> m"
  shows "length (filter (\<lambda>(c, r). fst c = k \<and> fst (snd c) = n \<and> is_ok r) (zip cs rs)) \<le> 1"
    and "n < m \<Longrightarrow> filter (\<lambda>(c, r). fst c = k \<and> fst (snd c) = n \<and> is_ok r) (zip cs rs) = []"
proof -
  have main: "length (filter (\<lambda>(c, r). fst c = k \<and> fst (snd c) = n \<and> is_ok r) (zip cs rs))
      \<le> (if n < m then 0 else 1)"
    using assms
  proof (induction cs arbitrary: s s' rs m)
    case Nil
    then show ?case by simp
  next
    case (Cons c cs)
    obtain s1 r where one: "update (fst c) (fst (snd c)) (snd (snd c)) s = (s1, r)"
      by fastforce
    obtain s2 rs' where rest: "run_updates cs s1 = (s2, rs')"
      by fastforce
    with one Cons.prems(2) have res: "s' = s2" "rs = r # rs'" by auto
    have inv1: "inv s1" using keeps_inv[OF Cons.prems(1) one] .
    show ?case
    proof (cases r)
      case (Inl e)
      with reject[OF Cons.prems(1)] one have "s1 = s" by blast
      with Cons.IH[OF inv1 rest] Cons.prems(3,4) Inl res show ?thesis by simp
    next
      case (Inr x)
      with one have upd: "update (fst c) (fst (snd c)) (snd (snd c)) s = (s1, Ok x)" by simp
      show ?thesis
      proof (cases "fst c = k")
        case True
        with commit_old[OF Cons.prems(1) upd] commit_new[OF Cons.prems(1) upd] Cons.prems(3)
        have "revision_of k s1 = Some (m + 1)" and "fst (snd c) = m" by simp_all
        with Cons.IH[OF inv1 rest, of "m + 1"] Cons.prems(4) Inr res True show ?thesis
          by auto
      next
        case False
        with commit_other[OF Cons.prems(1) upd] Cons.prems(3) have "revision_of k s1 = Some m" by simp
        with Cons.IH[OF inv1 rest] Cons.prems(4) Inr res False show ?thesis by simp
      qed
    qed
  qed
  then show "length (filter (\<lambda>(c, r). fst c = k \<and> fst (snd c) = n \<and> is_ok r) (zip cs rs)) \<le> 1"
    by (simp split: if_splits)
  from main show "filter (\<lambda>(c, r). fst c = k \<and> fst (snd c) = n \<and> is_ok r) (zip cs rs) = []" if "n < m"
    using that by simp
qed

end

end
