(* ===== verification/Store_Changes.thy ===== *)
theory Store_Changes
  imports Store_Workspaces Revision_Contract
begin

text \<open>
  \<open>maxops-store/src/lib.rs\<close>, deployment changes: creation, the revision-checked transition and
  the listings.  The link of a stage or workflow job to its change, which \<open>submit_linked_job\<close>
  performs in the transaction that creates the job, is \<open>link_change\<close> of \<open>Store_Jobs\<close>; its effect
  on the change table is proved here.
\<close>

section \<open>Operations\<close>

definition row_to_change :: "change_row \<Rightarrow> (ChangeRecord, store_error) result" where
  "row_to_change row =
     rbind (to_u64 (cr_revision row) ''change revision'') (\<lambda>revision.
     rbind (map_err Report (ChangeState_from_str (cr_state row))) (\<lambda>state.
     Ok \<lparr>ch_plan = cr_intent row, ch_creator = cr_creator row, ch_revision = revision,
         ch_state = state, ch_artifact = cr_artifact row, ch_jobs = cr_jobs row,
         ch_recovery_state = cr_recovery_state row, ch_updated_at = cr_updated_at row\<rparr>))"

definition get_change :: "ChangeId \<Rightarrow> store \<Rightarrow> (ChangeRecord, store_error) result" where
  "get_change cid s =
     rbind (ok_or (Report ''change not found'')
             (select_one (\<lambda>r. cr_id r = change_id_str cid) (st_changes s))) row_to_change"

definition get_owned_change :: "string \<Rightarrow> ChangeId \<Rightarrow> store \<Rightarrow> (ChangeRecord, store_error) result" where
  "get_owned_change creator cid s =
     rbind (get_change cid s) (\<lambda>change.
       if ch_creator change = creator then Ok change else Err (Report ''change not found''))"

definition new_change_row :: "timestamp \<Rightarrow> ChangePlan \<Rightarrow> string \<Rightarrow> JobId \<Rightarrow> change_row" where
  "new_change_row now plan creator prepare_job =
     \<lparr>cr_id = change_id_str (pl_change_id plan),
      cr_workspace_id = workspace_id_str (pl_workspace_id plan),
      cr_workspace_revision = int (pl_workspace_revision plan),
      cr_host = pl_target_host plan, cr_profile = pl_deployment_profile plan,
      cr_source = pl_source_baseline plan, cr_artifact = None,
      cr_baseline = pl_runtime_baseline plan, cr_intent = plan, cr_state = ''checking'',
      cr_recovery_state = None, cr_created_at = now, cr_updated_at = now, cr_creator = creator,
      cr_revision = 1, cr_jobs = ChangeJobs_default\<lparr>cj_prepare := Some prepare_job\<rparr>,
      cr_workflow_job_id = None\<rparr>"

text \<open>
  \<open>INSERT INTO changes\<close>: the identity is the primary key and the workspace a foreign key.
\<close>

definition insert_change_row :: "change_row \<Rightarrow> store \<Rightarrow> (store, store_error) result" where
  "insert_change_row row s =
     (if cr_id row \<in> cr_id ` set (st_changes s)
      then Err (Constraint ''UNIQUE constraint failed: changes.id'')
      else if cr_workspace_id row \<notin> wr_id ` set (st_workspaces s)
      then Err (Constraint ''FOREIGN KEY constraint failed'')
      else Ok (s\<lparr>st_changes := st_changes s @ [row]\<rparr>))"

definition create_change ::
  "timestamp \<Rightarrow> ChangePlan \<Rightarrow> string \<Rightarrow> JobId \<Rightarrow> store \<Rightarrow> store \<times> (ChangeRecord, store_error) result" where
  "create_change now plan creator prepare_job s =
     (if \<not> (creator \<noteq> [] \<and> length creator \<le> 128) then (s, Err (Report ''invalid change creator''))
      else
        case rbind (to_i64 (pl_workspace_revision plan) ''workspace revision'') (\<lambda>_.
               insert_change_row (new_change_row now plan creator prepare_job) s) of
          Inl e \<Rightarrow> (s, Inl e)
        | Inr s' \<Rightarrow> (s', get_change (pl_change_id plan) s'))"

definition list_changes ::
  "(timestamp \<Rightarrow> string) \<Rightarrow> string \<Rightarrow> string option \<Rightarrow> nat \<Rightarrow> store \<Rightarrow>
   (ChangeRecord list, store_error) result" where
  "list_changes ts_text creator host limit s =
     (if \<not> (1 \<le> limit \<and> limit \<le> 200) then Err (Report ''change list limit must be 1..200'')
      else rmap row_to_change
        (take limit (order_by_desc (\<lambda>r. ts_text (cr_created_at r))
          (filter (\<lambda>r. cr_creator r = creator \<and> (host = None \<or> host = Some (cr_host r)))
            (st_changes s)))))"

definition change_page_key :: "(timestamp \<Rightarrow> string) \<Rightarrow> change_row \<Rightarrow> string \<times> string" where
  "change_page_key ts_text r = (ts_text (cr_created_at r), cr_id r)"

text \<open>The cursor is built from the creation time of the plan, not of the row.\<close>

definition list_visible_changes ::
  "(timestamp \<Rightarrow> string) \<Rightarrow> string \<Rightarrow> string set \<Rightarrow> string set \<Rightarrow> ChangeHistoryParams \<Rightarrow> store \<Rightarrow>
   (ChangeRecord list, store_error) result" where
  "list_visible_changes ts_text prin hosts deployments params s =
     (if \<not> (1 \<le> hi_limit params \<and> hi_limit params \<le> 200)
      then Err (Report ''change list limit must be 1..200'')
      else
        rbind (case hi_cursor params of
                 None \<Rightarrow> Ok None
               | Some cid \<Rightarrow>
                   rbind (get_owned_change prin cid s) (\<lambda>change.
                     if pl_target_host (ch_plan change) \<in> hosts
                     then Ok (Some (ts_text (pl_created_at (ch_plan change)), change_id_str cid))
                     else Err (Report ''change not found''))) (\<lambda>cursor.
        if hosts = {} then Ok []
        else if deployments = {} then Ok []
        else rmap row_to_change
          (take (hi_limit params + 1) (order_by_desc (change_page_key ts_text)
            (filter (\<lambda>r. cr_creator r = prin \<and> cr_host r \<in> hosts
                \<and> pl_deployment_profile (cr_intent r) \<in> deployments
                \<and> (hi_host params = None \<or> hi_host params = Some (cr_host r))
                \<and> (case cursor of None \<Rightarrow> True | Some c \<Rightarrow> change_page_key ts_text r < c))
              (st_changes s))))))"

record ChangeTransition =
  ct_expected_revision :: nat
  ct_next :: ChangeState
  ct_plan :: ChangePlan
  ct_artifact :: "DeploymentArtifact option"
  ct_jobs :: ChangeJobs
  ct_recovery_state :: "string option"

definition change_transition_message :: "ChangeState \<Rightarrow> ChangeState \<Rightarrow> string" where
  "change_transition_message current next =
     ''invalid change state transition from '' @ ChangeState_as_str current @ '' to ''
       @ ChangeState_as_str next"

definition moved_change :: "timestamp \<Rightarrow> ChangeTransition \<Rightarrow> int \<Rightarrow> change_row \<Rightarrow> change_row" where
  "moved_change now update next_i r =
     r\<lparr>cr_state := ChangeState_as_str (ct_next update), cr_revision := next_i,
       cr_intent := ct_plan update, cr_artifact := ct_artifact update, cr_jobs := ct_jobs update,
       cr_recovery_state := ct_recovery_state update, cr_updated_at := now\<rparr>"

definition transition_change_body ::
  "timestamp \<Rightarrow> ChangeId \<Rightarrow> string \<Rightarrow> ChangeTransition \<Rightarrow> store \<Rightarrow> (store \<times> unit, store_error) result" where
  "transition_change_body now cid creator update s =
     rbind (ok_or (Report ''change not found'')
             (select_one (\<lambda>r. cr_id r = change_id_str cid \<and> cr_creator r = creator) (st_changes s))) (\<lambda>row.
     rbind (map_err Report (ChangeState_from_str (cr_state row))) (\<lambda>current.
     rbind (to_u64 (cr_revision row) ''change revision'') (\<lambda>revision.
     if revision \<noteq> ct_expected_revision update then Err (Report ''change revision changed'')
     else if \<not> (current = ct_next update \<or> ChangeState_can_transition_to current (ct_next update))
     then Err (Report (change_transition_message current (ct_next update)))
     else
       rbind (ok_or (Report ''change revision overflow'') (checked_add_u64 revision 1)) (\<lambda>next_revision.
       rbind (to_i64 next_revision ''change revision'') (\<lambda>next_i.
       rbind (to_i64 (ct_expected_revision update) ''change revision'') (\<lambda>rev_i.
       let p = (\<lambda>r. cr_id r = change_id_str cid \<and> cr_creator r = creator \<and> cr_revision r = rev_i) in
       if count_where p (st_changes s) \<noteq> 1 then Err (Report ''change revision changed'')
       else Ok (s\<lparr>st_changes := update_where p (moved_change now update next_i) (st_changes s)\<rparr>, ())))))))"

definition transition_change ::
  "timestamp \<Rightarrow> ChangeId \<Rightarrow> string \<Rightarrow> ChangeTransition \<Rightarrow> store \<Rightarrow>
   store \<times> (ChangeRecord, store_error) result" where
  "transition_change now cid creator update s =
     (case transact (transition_change_body now cid creator update) s of
        (s', r) \<Rightarrow> (s', rbind r (\<lambda>_. get_change cid s')))"

section \<open>The change table\<close>

definition change_row_ok :: "change_row \<Rightarrow> bool" where
  "change_row_ok r \<longleftrightarrow> 1 \<le> cr_revision r \<and> is_ok (ChangeState_from_str (cr_state r))"

definition changes_inv :: "store \<Rightarrow> bool" where
  "changes_inv s \<longleftrightarrow>
     distinct (map cr_id (st_changes s)) \<and>
     (\<forall>r \<in> set (st_changes s).
        change_row_ok r \<and> cr_workspace_id r \<in> wr_id ` set (st_workspaces s) \<and>
        set_option (cr_workflow_job_id r) \<subseteq> jr_id ` set (st_jobs s))"

lemma changes_inv_empty: "changes_inv empty_store"
  by (simp add: changes_inv_def empty_store_def)

lemma changes_inv_distinct: "changes_inv s \<Longrightarrow> distinct (map cr_id (st_changes s))"
  by (simp add: changes_inv_def)

lemma changes_inv_row: "changes_inv s \<Longrightarrow> r \<in> set (st_changes s) \<Longrightarrow> change_row_ok r"
  by (simp add: changes_inv_def)

text \<open>The invariant only needs the jobs and workspaces it refers to to stay.\<close>

lemma changes_inv_frame:
  assumes "changes_inv s" and "st_changes s' = st_changes s"
    and "jr_id ` set (st_jobs s) \<subseteq> jr_id ` set (st_jobs s')"
    and "wr_id ` set (st_workspaces s) \<subseteq> wr_id ` set (st_workspaces s')"
  shows "changes_inv s'"
  using assms unfolding changes_inv_def by (metis subset_trans subsetD)

definition row_change_state :: "change_row \<Rightarrow> ChangeState" where
  "row_change_state r = (case ChangeState_from_str (cr_state r) of Inr st \<Rightarrow> st | Inl _ \<Rightarrow> ChFailed)"

definition decoded_change :: "change_row \<Rightarrow> ChangeRecord" where
  "decoded_change r =
     \<lparr>ch_plan = cr_intent r, ch_creator = cr_creator r, ch_revision = nat (cr_revision r),
      ch_state = row_change_state r, ch_artifact = cr_artifact r, ch_jobs = cr_jobs r,
      ch_recovery_state = cr_recovery_state r, ch_updated_at = cr_updated_at r\<rparr>"

lemma row_change_state_text: "change_row_ok r \<Longrightarrow> cr_state r = ChangeState_as_str (row_change_state r)"
  by (auto simp: change_row_ok_def row_change_state_def ChangeState_from_str_Ok is_ok_def split: sum.splits)

lemma row_change_state_as_str: "cr_state r = ChangeState_as_str st \<Longrightarrow> row_change_state r = st"
  by (simp add: row_change_state_def)

lemma row_to_change_ok: "change_row_ok r \<Longrightarrow> row_to_change r = Ok (decoded_change r)"
  using row_change_state_text[of r]
  by (simp add: row_to_change_def decoded_change_def change_row_ok_def to_u64_def)

lemma get_change_iff:
  assumes "changes_inv s"
  shows "get_change cid s = Ok c \<longleftrightarrow>
    (\<exists>r \<in> set (st_changes s). cr_id r = change_id_str cid \<and> c = decoded_change r)"
proof -
  have "rbind (Ok r) row_to_change = Ok c \<longleftrightarrow> c = decoded_change r" if "r \<in> set (st_changes s)" for r
    using row_to_change_ok[OF changes_inv_row[OF assms that]] by auto
  then show ?thesis
    using changes_t.found_iff[OF changes_inv_distinct[OF assms], of "change_id_str cid"]
    unfolding get_change_def by auto
qed

lemma create_change_cases:
  assumes "create_change now plan creator prepare_job s = (s', r)"
  obtains (same) "s' = s" "\<exists>e. r = Err e"
  | (created) "change_id_str (pl_change_id plan) \<notin> cr_id ` set (st_changes s)"
      "workspace_id_str (pl_workspace_id plan) \<in> wr_id ` set (st_workspaces s)"
      "s' = s\<lparr>st_changes := st_changes s @ [new_change_row now plan creator prepare_job]\<rparr>"
      "r = get_change (pl_change_id plan) s'"
proof (cases "creator \<noteq> [] \<and> length creator \<le> 128")
  case False
  with assms same show ?thesis by (auto simp: create_change_def)
next
  case True
  let ?row = "new_change_row now plan creator prepare_job"
  have keys: "cr_id ?row = change_id_str (pl_change_id plan)"
    "cr_workspace_id ?row = workspace_id_str (pl_workspace_id plan)"
    by (simp_all add: new_change_row_def)
  show ?thesis
  proof (cases "rbind (to_i64 (pl_workspace_revision plan) ''workspace revision'') (\<lambda>_. insert_change_row ?row s)")
    case (Inl e)
    with assms True same show ?thesis by (auto simp: create_change_def)
  next
    case (Inr s1)
    then have "insert_change_row ?row s = Ok s1" by simp
    then have "cr_id ?row \<notin> cr_id ` set (st_changes s)"
      "cr_workspace_id ?row \<in> wr_id ` set (st_workspaces s)"
      "s1 = s\<lparr>st_changes := st_changes s @ [?row]\<rparr>"
      by (simp_all add: insert_change_row_def del: new_change_row_def split: if_splits)
    moreover have "s' = s1" "r = get_change (pl_change_id plan) s1"
      using assms True unfolding create_change_def Inr by auto
    ultimately show ?thesis using created keys by simp
  qed
qed

lemma create_preserves_changes_inv:
  assumes "create_change now plan creator prepare_job s = (s', r)" and "changes_inv s"
  shows "changes_inv s'"
  using assms(1)
proof (cases rule: create_change_cases)
  case same
  with assms(2) show ?thesis by simp
next
  case created
  have "change_row_ok (new_change_row now plan creator prepare_job)"
    by (simp add: change_row_ok_def new_change_row_def ChangeState_from_str_def)
  with assms(2) created(1,2) show ?thesis
    by (auto simp: changes_inv_def created(3) new_change_row_def)
qed


section \<open>Transitions\<close>

lemma transition_change_cases:
  assumes "transition_change now cid creator update s = (s', r)" and "changes_inv s"
  obtains (same) "s' = s" "\<exists>e. r = Err e"
  | (step) row where "row \<in> set (st_changes s)" "cr_id row = change_id_str cid" "cr_creator row = creator"
      "cr_revision row = int (ct_expected_revision update)"
      "row_change_state row = ct_next update
       \<or> ChangeState_can_transition_to (row_change_state row) (ct_next update)"
      "s' = s\<lparr>st_changes := update_where (\<lambda>r. cr_id r = change_id_str cid)
              (moved_change now update (cr_revision row + 1)) (st_changes s)\<rparr>"
      "r = get_change cid s'"
proof (cases "transition_change_body now cid creator update s")
  case (Inl e)
  with assms(1) same show ?thesis by (auto simp: transition_change_def transact_def)
next
  case (Inr x)
  then obtain s1 where body: "transition_change_body now cid creator update s = Ok (s1, ())"
    by (cases x) auto
  then have res: "s' = s1" "r = get_change cid s'"
    using assms(1) by (auto simp: transition_change_def transact_def)
  let ?n = "ct_expected_revision update"
  let ?p = "\<lambda>r. cr_id r = change_id_str cid \<and> cr_creator r = creator \<and> cr_revision r = int ?n"
  obtain row where
    sel: "select_one (\<lambda>r. cr_id r = change_id_str cid \<and> cr_creator r = creator) (st_changes s) = Some row"
    using body
    by (cases "select_one (\<lambda>r. cr_id r = change_id_str cid \<and> cr_creator r = creator) (st_changes s)")
      (simp_all add: transition_change_body_def)
  obtain cur where cur: "ChangeState_from_str (cr_state row) = Ok cur"
    using body sel
    by (cases "ChangeState_from_str (cr_state row)") (simp_all add: transition_change_body_def)
  note body' = body[unfolded transition_change_body_def sel cur Let_def, unfolded rbind_simps ok_or_simps map_err_simps]
  have rev: "0 \<le> cr_revision row" "nat (cr_revision row) = ?n"
    and ok: "cur = ct_next update \<or> ChangeState_can_transition_to cur (ct_next update)"
    and s1: "s\<lparr>st_changes := update_where ?p (moved_change now update (1 + int ?n)) (st_changes s)\<rparr> = s1"
    using body' cur by (simp_all split: if_split_asm)
  from sel have row: "row \<in> set (st_changes s)" "cr_id row = change_id_str cid" "cr_creator row = creator"
    by (auto dest: select_one_Some_iff)
  have same_rows: "?p x \<longleftrightarrow> cr_id x = change_id_str cid" if "x \<in> set (st_changes s)" for x
    using changes_t.key_unique[OF changes_inv_distinct[OF assms(2)] that row(1)] row rev by auto
  have rv: "cr_revision row = int ?n" using rev by simp
  have "update_where ?p (moved_change now update (1 + int ?n)) (st_changes s)
      = update_where (\<lambda>r. cr_id r = change_id_str cid) (moved_change now update (cr_revision row + 1)) (st_changes s)"
    unfolding update_where_def rv using same_rows by (simp add: add.commute)
  moreover have "row_change_state row = cur" using cur by (simp add: row_change_state_def)
  ultimately show ?thesis
    using step[OF row rv] ok res s1 by simp
qed

text \<open>What an update of one row by key keeps of the invariant.\<close>

lemma changes_inv_update:
  assumes "changes_inv s" and "st_changes s' = update_where (\<lambda>r. cr_id r = k) f (st_changes s)"
    and "jr_id ` set (st_jobs s) \<subseteq> jr_id ` set (st_jobs s')" and "st_workspaces s' = st_workspaces s"
    and "\<And>r. cr_id (f r) = cr_id r \<and> cr_workspace_id (f r) = cr_workspace_id r"
    and "\<And>r. r \<in> set (st_changes s) \<Longrightarrow> cr_id r = k \<Longrightarrow> change_row_ok (f r)"
    and "\<And>r. r \<in> set (st_changes s) \<Longrightarrow> cr_id r = k \<Longrightarrow>
      set_option (cr_workflow_job_id (f r)) \<subseteq> jr_id ` set (st_jobs s')"
  shows "changes_inv s'"
proof -
  have keys: "map cr_id (st_changes s') = map cr_id (st_changes s)"
    unfolding assms(2) using assms(5) by (intro map_update_where) simp
  have "change_row_ok y \<and> cr_workspace_id y \<in> wr_id ` set (st_workspaces s') \<and>
      set_option (cr_workflow_job_id y) \<subseteq> jr_id ` set (st_jobs s')" if "y \<in> set (st_changes s')" for y
  proof -
    from that obtain x where x: "x \<in> set (st_changes s)" "y = (if cr_id x = k then f x else x)"
      by (auto simp: assms(2) set_update_where)
    have old: "change_row_ok x" "cr_workspace_id x \<in> wr_id ` set (st_workspaces s)"
      "set_option (cr_workflow_job_id x) \<subseteq> jr_id ` set (st_jobs s)"
      using assms(1) x(1) by (auto simp: changes_inv_def)
    show ?thesis
    proof (cases "cr_id x = k")
      case True
      with x old assms(4,5,6,7) show ?thesis by simp
    next
      case False
      with x old assms(3,4) show ?thesis by auto
    qed
  qed
  with keys changes_inv_distinct[OF assms(1)] show ?thesis by (simp add: changes_inv_def)
qed

lemma transition_preserves_changes_inv:
  assumes "transition_change now cid creator update s = (s', r)" and "changes_inv s"
  shows "changes_inv s'"
  using assms
proof (cases rule: transition_change_cases)
  case same
  with assms(2) show ?thesis by simp
next
  case (step row)
  show ?thesis
  proof (rule changes_inv_update[OF assms(2)])
    show "st_changes s' = update_where (\<lambda>r. cr_id r = change_id_str cid)
        (moved_change now update (cr_revision row + 1)) (st_changes s)"
      by (simp add: step(6))
    show "change_row_ok (moved_change now update (cr_revision row + 1) x)" for x
      using step(4) by (simp add: change_row_ok_def moved_change_def)
    show "set_option (cr_workflow_job_id (moved_change now update (cr_revision row + 1) x))
        \<subseteq> jr_id ` set (st_jobs s')" if "x \<in> set (st_changes s)" for x
      using assms(2) that by (simp add: changes_inv_def moved_change_def step(6))
  qed (simp_all add: step(6) moved_change_def)
qed

definition change_revision :: "ChangeId \<Rightarrow> store \<Rightarrow> nat option" where
  "change_revision cid s =
     map_option (\<lambda>r. nat (cr_revision r)) (select_one (\<lambda>r. cr_id r = change_id_str cid) (st_changes s))"

lemma change_revision_row:
  "changes_inv s \<Longrightarrow> row \<in> set (st_changes s) \<Longrightarrow> cr_id row = change_id_str cid \<Longrightarrow>
   change_revision cid s = Some (nat (cr_revision row))"
  using changes_t.member_found[OF changes_inv_distinct, of s row] by (simp add: change_revision_def)

lemma change_revision_update:
  assumes "\<And>r. cr_id (f r) = cr_id r" and "st_changes s' = update_where (\<lambda>r. cr_id r = change_id_str cid) f (st_changes s)"
    and "changes_inv s" and "row \<in> set (st_changes s)" and "cr_id row = change_id_str cid"
  shows "change_revision cid s' = Some (nat (cr_revision (f row)))"
    and "cid' \<noteq> cid \<Longrightarrow> change_revision cid' s' = change_revision cid' s"
proof -
  have sel: "select_one (\<lambda>r. cr_id r = k) (st_changes s') =
      map_option (\<lambda>r. if cr_id r = change_id_str cid then f r else r) (select_one (\<lambda>r. cr_id r = k) (st_changes s))" for k
    unfolding assms(2) using assms(1) by (rule changes_t.found_after_update)
  show "change_revision cid s' = Some (nat (cr_revision (f row)))"
    using changes_t.member_found[OF changes_inv_distinct[OF assms(3)] assms(4)] assms(5)
    by (simp add: change_revision_def sel)
  show "change_revision cid' s' = change_revision cid' s" if "cid' \<noteq> cid"
  proof -
    have "change_id_str cid' \<noteq> change_id_str cid" using that by (simp add: change_id.as_str_inj)
    then show ?thesis
      by (auto simp: change_revision_def sel option.map_comp o_def dest: changes_t.found
          intro!: option.map_cong)
  qed
qed

lemma transition_change_commit:
  assumes "transition_change now cid creator update s = (s', r)" and "changes_inv s"
  shows "\<exists>x. r = Ok x \<Longrightarrow> change_revision cid s = Some (ct_expected_revision update)"
    and "\<exists>x. r = Ok x \<Longrightarrow> change_revision cid s' = Some (ct_expected_revision update + 1)"
    and "cid' \<noteq> cid \<Longrightarrow> change_revision cid' s' = change_revision cid' s"
    and "\<exists>e. r = Err e \<Longrightarrow> s' = s"
proof -
  have "(\<exists>x. r = Ok x) \<and> change_revision cid s = Some (ct_expected_revision update)
      \<and> change_revision cid s' = Some (ct_expected_revision update + 1)
      \<and> (cid' \<noteq> cid \<longrightarrow> change_revision cid' s' = change_revision cid' s)
    \<or> (\<exists>e. r = Err e) \<and> s' = s"
    using assms
  proof (cases rule: transition_change_cases)
    case same
    then show ?thesis by blast
  next
    case (step row)
    let ?f = "moved_change now update (cr_revision row + 1)"
    have f: "cr_id (?f x) = cr_id x" for x by (simp add: moved_change_def)
    have tab: "st_changes s' = update_where (\<lambda>r. cr_id r = change_id_str cid) ?f (st_changes s)"
      by (simp add: step(6))
    have "?f row \<in> set (st_changes s')" using step(1,2) by (force simp: tab set_update_where)
    then have "get_change cid s' = Ok (decoded_change (?f row))"
      unfolding get_change_iff[OF transition_preserves_changes_inv[OF assms]] using f step(2) by metis
    moreover note change_revision_update[OF f tab assms(2) step(1,2)] change_revision_row[OF assms(2) step(1,2)]
    ultimately show ?thesis
      using step(4,7) by (simp add: moved_change_def nat_add_distrib)
  qed
  then show "\<exists>x. r = Ok x \<Longrightarrow> change_revision cid s = Some (ct_expected_revision update)"
    and "\<exists>x. r = Ok x \<Longrightarrow> change_revision cid s' = Some (ct_expected_revision update + 1)"
    and "cid' \<noteq> cid \<Longrightarrow> change_revision cid' s' = change_revision cid' s"
    and "\<exists>e. r = Err e \<Longrightarrow> s' = s"
    by auto
qed

interpretation change_cas: revision_cas changes_inv change_revision
  "\<lambda>cid n (now, creator, update) s.
     transition_change now cid creator (update\<lparr>ct_expected_revision := n\<rparr>) s"
proof unfold_locales
qed (auto split: prod.splits dest: transition_preserves_changes_inv transition_change_commit)

section \<open>The link of a job to its change\<close>

definition linked_change :: "timestamp \<Rightarrow> JobId \<Rightarrow> ChangeJobLink \<Rightarrow> change_row \<Rightarrow> change_row" where
  "linked_change now jid link c =
     c\<lparr>cr_revision := cr_revision c + 1, cr_state := ChangeState_as_str (ln_next link),
       cr_jobs := (case ln_action link of
                     Some action \<Rightarrow> set_stage_job action jid (ch_jobs (ln_change link))
                   | None \<Rightarrow> ch_jobs (ln_change link)),
       cr_workflow_job_id := (if ln_action link = None then Some (job_id_str jid) else cr_workflow_job_id c),
       cr_updated_at := now\<rparr>"

definition owner_row_of :: "change_row \<Rightarrow> store \<Rightarrow> job_row option" where
  "owner_row_of c s = Option.bind (cr_workflow_job_id c) (\<lambda>w. select_one (\<lambda>j. jr_id j = w) (st_jobs s))"

lemma link_change_cases:
  assumes "link_change now jid prin link s = Ok s'" and "changes_inv s"
  obtains row where "row \<in> set (st_changes s)"
    "cr_id row = change_id_str (pl_change_id (ch_plan (ln_change link)))" "cr_creator row = prin"
    "cr_revision row = int (ch_revision (ln_change link))"
    "check_workflow_owner (cr_workflow_job_id row) (owner_row_of row s) (ln_workflow link) = Ok ()"
    "ch_state (ln_change link) = ln_next link
     \<or> ChangeState_can_transition_to (ch_state (ln_change link)) (ln_next link)"
    "s' = s\<lparr>st_changes := update_where (\<lambda>c. cr_id c = cr_id row) (linked_change now jid link) (st_changes s)\<rparr>"
proof -
  let ?ch = "ln_change link"
  let ?cid = "change_id_str (pl_change_id (ch_plan ?ch))"
  obtain row where
    sel: "select_one (\<lambda>c. cr_id c = ?cid \<and> cr_creator c = prin) (st_changes s) = Some row"
    using assms(1)
    by (cases "select_one (\<lambda>c. cr_id c = ?cid \<and> cr_creator c = prin) (st_changes s)")
      (simp_all add: link_change_def)
  let ?p = "\<lambda>c. cr_id c = ?cid \<and> cr_creator c = prin \<and> cr_revision c = int (ch_revision ?ch)"
  let ?f = "\<lambda>c. c\<lparr>cr_revision := cr_revision c + 1, cr_state := ChangeState_as_str (ln_next link),
       cr_jobs := (case ln_action link of
                     Some action \<Rightarrow> set_stage_job action jid (ch_jobs ?ch) | None \<Rightarrow> ch_jobs ?ch),
       cr_workflow_job_id := (if ln_action link = None then Some (job_id_str jid) else cr_workflow_job_id row),
       cr_updated_at := now\<rparr>"
  have rev: "0 \<le> cr_revision row" "nat (cr_revision row) = ch_revision ?ch"
    and own: "check_workflow_owner (cr_workflow_job_id row) (owner_row_of row s) (ln_workflow link) = Ok ()"
    and ok: "ch_state ?ch = ln_next link \<or> ChangeState_can_transition_to (ch_state ?ch) (ln_next link)"
    and s': "s\<lparr>st_changes := update_where ?p ?f (st_changes s)\<rparr> = s'"
    using assms(1) sel unfolding link_change_def Let_def owner_row_of_def
    by (cases "ln_action link"; simp split: if_split_asm)+
  from sel have row: "row \<in> set (st_changes s)" "cr_id row = ?cid" "cr_creator row = prin"
    by (auto dest: select_one_Some_iff)
  have rv: "cr_revision row = int (ch_revision ?ch)" using rev by simp
  have is_row: "x = row" if "x \<in> set (st_changes s)" "cr_id x = ?cid" for x
    using changes_t.key_unique[OF changes_inv_distinct[OF assms(2)] that(1) row(1)] row(2) that(2) by simp
  have "(if ?p x then ?f x else x) = (if cr_id x = ?cid then linked_change now jid link x else x)"
    if "x \<in> set (st_changes s)" for x
  proof (cases "cr_id x = ?cid")
    case True
    from is_row[OF that this] row rv show ?thesis by (simp add: linked_change_def)
  qed simp
  then have "update_where ?p ?f (st_changes s)
      = update_where (\<lambda>c. cr_id c = cr_id row) (linked_change now jid link) (st_changes s)"
    unfolding update_where_def row(2) by (rule map_cong[OF refl])
  with s' have "s' = s\<lparr>st_changes := update_where (\<lambda>c. cr_id c = cr_id row) (linked_change now jid link) (st_changes s)\<rparr>"
    by simp
  with that[OF row rv own ok] show ?thesis .
qed

lemma link_preserves_changes_inv:
  assumes "link_change now jid prin link s = Ok s'" and "changes_inv s"
    and "job_id_str jid \<in> jr_id ` set (st_jobs s)"
  shows "changes_inv s'"
  using assms(1,2)
proof (cases rule: link_change_cases)
  case (1 row)
  show ?thesis
  proof (rule changes_inv_update[OF assms(2)])
    show "st_changes s' = update_where (\<lambda>c. cr_id c = cr_id row) (linked_change now jid link) (st_changes s)"
      by (simp add: 1(7))
    show "change_row_ok (linked_change now jid link x)" if "x \<in> set (st_changes s)" for x
      using changes_inv_row[OF assms(2) that] by (simp add: change_row_ok_def linked_change_def)
    show "set_option (cr_workflow_job_id (linked_change now jid link x)) \<subseteq> jr_id ` set (st_jobs s')"
      if "x \<in> set (st_changes s)" for x
      using assms(2,3) that by (auto simp: changes_inv_def linked_change_def 1(7))
  qed (simp_all add: 1(7) linked_change_def)
qed

lemma submit_preserves_changes_inv:
  assumes "submit_linked_job digest now key jid new link s = (s', r)" and "changes_inv s"
  shows "changes_inv s'"
  using assms(1)
proof (cases rule: submit_linked_job_effect)
  case same
  with assms(2) show ?thesis by simp
next
  case (fresh cs)
  let ?s1 = "s\<lparr>st_jobs := st_jobs s @ [new_job_row digest now jid new]\<rparr>"
  have s1: "changes_inv ?s1" by (rule changes_inv_frame[OF assms(2)]) auto
  have "changes_inv (?s1\<lparr>st_changes := cs\<rparr>)"
  proof (cases link)
    case None
    with fresh(4) s1 show ?thesis by simp
  next
    case (Some l)
    with fresh(4) have "link_change now jid (nj_principal new) l ?s1 = Ok (?s1\<lparr>st_changes := cs\<rparr>)" by simp
    from link_preserves_changes_inv[OF this s1] show ?thesis by simp
  qed
  then show ?thesis
    by (rule changes_inv_frame) (auto simp: fresh(5) fresh_submission_def append_job_event_def)
qed

end
