(* ===== verification/Store_Revisions.thy ===== *)
theory Store_Revisions
  imports Store_Changes
begin

text \<open>
  The optimistic-concurrency contract of \<open>Revision_Contract\<close>, discharged for job transitions,
  job cancellations and workspace transitions (\<open>Store_Changes\<close> discharges it for changes).
\<close>

section \<open>Jobs\<close>

definition job_revision :: "JobId \<Rightarrow> store \<Rightarrow> nat option" where
  "job_revision jid s =
     map_option (\<lambda>r. nat (jr_revision r)) (select_one (\<lambda>r. jr_id r = job_id_str jid) (st_jobs s))"

text \<open>What a committed update of one job row does to the revisions.\<close>

lemma job_update_revisions:
  assumes "select_one (\<lambda>r. jr_id r = job_id_str jid) (st_jobs s) = Some row"
    and "st_jobs s' = update_where (\<lambda>r. jr_id r = job_id_str jid) f (st_jobs s)"
    and "\<And>r. jr_id (f r) = jr_id r" and "\<And>r. jr_revision (f r) = jr_revision r + 1"
    and "jr_revision row = int n"
  shows "job_revision jid s = Some n" and "job_revision jid s' = Some (n + 1)"
    and "jid' \<noteq> jid \<Longrightarrow> job_revision jid' s' = job_revision jid' s"
proof -
  have sel: "select_one (\<lambda>r. jr_id r = k) (st_jobs s') =
      map_option (\<lambda>r. if jr_id r = job_id_str jid then f r else r) (select_one (\<lambda>r. jr_id r = k) (st_jobs s))" for k
    unfolding assms(2) using assms(3) by (rule jobs_t.found_after_update)
  have key: "jr_id row = job_id_str jid" using assms(1) by (auto dest: jobs_t.found)
  show "job_revision jid s = Some n" using assms(1,5) by (simp add: job_revision_def)
  show "job_revision jid s' = Some (n + 1)"
    using assms(1,4,5) key by (simp add: job_revision_def sel nat_add_distrib)
  show "job_revision jid' s' = job_revision jid' s" if "jid' \<noteq> jid"
  proof -
    have "job_id_str jid' \<noteq> job_id_str jid" using that by (simp add: job_id.as_str_inj)
    then show ?thesis
      by (auto simp: job_revision_def sel option.map_comp o_def dest: jobs_t.found intro!: option.map_cong)
  qed
qed

lemma get_job_after_update:
  assumes "jobs_inv s'" and "select_one (\<lambda>r. jr_id r = job_id_str jid) (st_jobs s) = Some row"
    and "st_jobs s' = update_where (\<lambda>r. jr_id r = job_id_str jid) f (st_jobs s)"
    and "\<And>r. jr_id (f r) = jr_id r"
  shows "get_job jid s' = Ok (decoded_job (f row))"
proof -
  have "jr_id row = job_id_str jid" using assms(2) by (auto dest: jobs_t.found)
  then have "select_one (\<lambda>r. jr_id r = job_id_str jid) (st_jobs s') = Some (f row)"
    unfolding assms(3) using jobs_t.found_after_update[of f, OF assms(4)] assms(2) by simp
  then show ?thesis by (simp add: get_job_iff[OF assms(1)])
qed

lemma transition_job_outcome:
  assumes "transition_job now jid expected nx payload result s = (s', r)" and "jobs_inv s"
  obtains (rejected) e where "s' = s" "r = Err e"
  | (committed) row where "select_one (\<lambda>r. jr_id r = job_id_str jid) (st_jobs s) = Some row"
      "jr_revision row = int expected"
      "st_jobs s' = update_where (\<lambda>r. jr_id r = job_id_str jid) (transitioned_row now nx result) (st_jobs s)"
      "r = Ok (decoded_job (transitioned_row now nx result row))"
  using assms
proof (cases rule: transition_cases)
  case same
  with rejected show ?thesis by blast
next
  case (step row cur)
  have tab: "st_jobs s' = update_where (\<lambda>r. jr_id r = job_id_str jid) (transitioned_row now nx result) (st_jobs s)"
    by (simp add: step(6) append_job_event_def)
  have "get_job jid s' = Ok (decoded_job (transitioned_row now nx result row))"
    by (rule get_job_after_update[OF transition_preserves_jobs_inv[OF assms] step(1) tab])
      (simp add: transitioned_row_def)
  with committed[OF step(1,3) tab] step(7) show ?thesis by simp
qed

lemma request_cancel_outcome:
  assumes "request_cancel now jid expected reason s = (s', r)" and "jobs_inv s"
  obtains (rejected) e where "s' = s" "r = Err e"
  | (committed) row where "select_one (\<lambda>r. jr_id r = job_id_str jid) (st_jobs s) = Some row"
      "jr_revision row = int expected"
      "st_jobs s' = update_where (\<lambda>r. jr_id r = job_id_str jid) (cancelled_row now) (st_jobs s)"
      "r = Ok (decoded_job (cancelled_row now row))"
  using assms
proof (cases rule: cancel_cases)
  case same
  with rejected show ?thesis by blast
next
  case (step row cur)
  have tab: "st_jobs s' = update_where (\<lambda>r. jr_id r = job_id_str jid) (cancelled_row now) (st_jobs s)"
    by (simp add: step(6) append_job_event_def)
  have "get_job jid s' = Ok (decoded_job (cancelled_row now row))"
    by (rule get_job_after_update[OF cancel_preserves_jobs_inv[OF assms] step(1) tab])
      (simp add: cancelled_row_def)
  with committed[OF step(1,3) tab] step(7) show ?thesis by simp
qed

text \<open>A client update of a job: a state transition or a cancellation request.\<close>

datatype job_update =
    Move timestamp JobState json "json option"
  | Cancel timestamp string

fun update_job :: "JobId \<Rightarrow> nat \<Rightarrow> job_update \<Rightarrow> store \<Rightarrow> store \<times> (JobRecord, store_error) result" where
  "update_job jid n (Move now next payload result) s = transition_job now jid n next payload result s"
| "update_job jid n (Cancel now reason) s = request_cancel now jid n reason s"

lemma update_job_outcome:
  assumes "update_job jid n u s = (s', r)" and "jobs_inv s"
  shows "jobs_inv s'"
    and "r = Ok x \<Longrightarrow> job_revision jid s = Some n \<and> job_revision jid s' = Some (n + 1)
           \<and> (\<forall>jid'. jid' \<noteq> jid \<longrightarrow> job_revision jid' s' = job_revision jid' s)"
    and "r = Err e \<Longrightarrow> s' = s"
proof -
  show inv: "jobs_inv s'"
    using assms by (cases u) (auto dest: transition_preserves_jobs_inv cancel_preserves_jobs_inv)
  have "(\<exists>e. r = Err e) \<and> s' = s \<or>
      (\<exists>y. r = Ok y) \<and> job_revision jid s = Some n \<and> job_revision jid s' = Some (n + 1)
        \<and> (\<forall>jid'. jid' \<noteq> jid \<longrightarrow> job_revision jid' s' = job_revision jid' s)"
  proof (cases u)
    case (Move now nx payload result)
    with assms(1) have "transition_job now jid n nx payload result s = (s', r)" by simp
    then show ?thesis using assms(2)
    proof (cases rule: transition_job_outcome)
      case (committed row)
      show ?thesis
        using job_update_revisions[OF committed(1,3) _ _ committed(2)] committed(4)
        by (simp add: transitioned_row_def)
    qed blast
  next
    case (Cancel now reason)
    with assms(1) have "request_cancel now jid n reason s = (s', r)" by simp
    then show ?thesis using assms(2)
    proof (cases rule: request_cancel_outcome)
      case (committed row)
      show ?thesis
        using job_update_revisions[OF committed(1,3) _ _ committed(2)] committed(4)
        by (simp add: cancelled_row_def)
    qed blast
  qed
  then show "r = Ok x \<Longrightarrow> job_revision jid s = Some n \<and> job_revision jid s' = Some (n + 1)
           \<and> (\<forall>jid'. jid' \<noteq> jid \<longrightarrow> job_revision jid' s' = job_revision jid' s)"
    and "r = Err e \<Longrightarrow> s' = s" by auto
qed

interpretation job_cas: revision_cas jobs_inv job_revision update_job
proof unfold_locales
  fix s k n a s' r x k' e
  assume inv: "jobs_inv s"
  show "update_job k n a s = (s', r) \<Longrightarrow> jobs_inv s'"
    using inv by (rule update_job_outcome(1)[rotated])
  assume "update_job k n a s = (s', Ok x)"
  note ok = update_job_outcome(2)[OF this inv refl]
  show "job_revision k s = Some n" and "job_revision k s' = Some (n + 1)"
    and "k' \<noteq> k \<Longrightarrow> job_revision k' s' = job_revision k' s"
    using ok by simp_all
next
  fix s k n a s' e
  assume inv: "jobs_inv s" and "update_job k n a s = (s', Err e)"
  from update_job_outcome(3)[OF this(2) inv refl] show "s' = s" .
qed

section \<open>Workspaces\<close>

definition workspace_revision :: "WorkspaceId \<Rightarrow> store \<Rightarrow> nat option" where
  "workspace_revision wid s =
     map_option (\<lambda>r. nat (wrow_revision r)) (select_one (\<lambda>r. wr_id r = workspace_id_str wid) (st_workspaces s))"

lemma get_workspace_found:
  assumes "workspaces_inv s" and "select_one (\<lambda>r. wr_id r = workspace_id_str wid) (st_workspaces s) = Some row"
  shows "\<exists>w. get_workspace wid s = Ok w"
proof -
  have "workspace_row_ok row" using assms by (auto simp: workspaces_inv_def dest: workspaces_t.found)
  then obtain st where "uuid_text (wr_id row)" "0 \<le> wrow_revision row"
    "WorkspaceState_from_str (wrow_state row) = Ok st"
    by (auto simp: workspace_row_ok_def is_ok_def split: sum.splits)
  with assms(2) show ?thesis
    by (simp add: get_workspace_def row_to_workspace_def WorkspaceId_parse_def to_u64_def)
qed

lemma transition_workspace_outcome:
  assumes "transition_workspace wid creator n tree commit st s = (s', r)" and "workspaces_inv s"
  shows "r = Ok x \<Longrightarrow> workspace_revision wid s = Some n \<and> workspace_revision wid s' = Some (n + 1)
           \<and> (\<forall>wid'. wid' \<noteq> wid \<longrightarrow> workspace_revision wid' s' = workspace_revision wid' s)"
    and "r = Err e \<Longrightarrow> s' = s"
proof -
  have "(\<exists>e. r = Err e) \<and> s' = s \<or>
      (\<exists>y. r = Ok y) \<and> workspace_revision wid s = Some n \<and> workspace_revision wid s' = Some (n + 1)
        \<and> (\<forall>wid'. wid' \<noteq> wid \<longrightarrow> workspace_revision wid' s' = workspace_revision wid' s)"
    using assms(1)
  proof (cases rule: transition_workspace_cases)
    case same
    then show ?thesis by blast
  next
    case step
    let ?p = "\<lambda>r. wr_id r = workspace_id_str wid \<and> wrow_creator r = creator \<and> wrow_revision r = int n"
    let ?f = "\<lambda>r :: workspace_row. r\<lparr>wrow_revision := int n + 1, wrow_tree_hash := to_ascii_lowercase tree,
                  wrow_commit_hash := map_option to_ascii_lowercase commit,
                  wrow_state := WorkspaceState_as_str st\<rparr>"
    have sel: "select_one (\<lambda>r. wr_id r = k) (st_workspaces s') =
        map_option (\<lambda>r. if ?p r then ?f r else r) (select_one (\<lambda>r. wr_id r = k) (st_workspaces s))" for k
      unfolding step(4) using workspaces_t.found_after_update[of ?f k ?p] by simp
    from step(3) obtain row where row: "row \<in> set (st_workspaces s)" "?p row"
      using count_where_pos[of ?p "st_workspaces s"] by auto
    have found: "select_one (\<lambda>r. wr_id r = workspace_id_str wid) (st_workspaces s) = Some row"
      using workspaces_t.member_found[of "st_workspaces s" row] row assms(2) by (simp add: workspaces_inv_def)
    have inv: "workspaces_inv s'" using transition_preserves_workspaces_inv[OF assms] by simp
    have "\<exists>y. r = Ok y"
      unfolding step(5) by (rule get_workspace_found[OF inv]) (simp add: sel found)
    moreover have "workspace_revision wid s = Some n" "workspace_revision wid s' = Some (n + 1)"
      using row by (simp_all add: workspace_revision_def sel found nat_add_distrib)
    moreover have "workspace_revision wid' s' = workspace_revision wid' s" if "wid' \<noteq> wid" for wid'
    proof -
      have "workspace_id_str wid' \<noteq> workspace_id_str wid" using that by (simp add: workspace_id.as_str_inj)
      then show ?thesis
        by (auto simp: workspace_revision_def sel option.map_comp o_def dest: workspaces_t.found
            intro!: option.map_cong)
    qed
    ultimately show ?thesis by blast
  qed
  then show "r = Ok x \<Longrightarrow> workspace_revision wid s = Some n \<and> workspace_revision wid s' = Some (n + 1)
           \<and> (\<forall>wid'. wid' \<noteq> wid \<longrightarrow> workspace_revision wid' s' = workspace_revision wid' s)"
    and "r = Err e \<Longrightarrow> s' = s" by auto
qed

interpretation workspace_cas: revision_cas workspaces_inv workspace_revision
  "\<lambda>wid n (creator, tree, commit, st). transition_workspace wid creator n tree commit st"
proof unfold_locales
  fix s wid n a s' r
  assume "workspaces_inv s" and "(case a of (creator, tree, commit, st) \<Rightarrow>
      transition_workspace wid creator n tree commit st) s = (s', r)"
  then show "workspaces_inv s'"
    by (cases a) (auto dest: transition_preserves_workspaces_inv)
qed (auto split: prod.splits dest: transition_workspace_outcome)

end
