(* ===== verification/Store_Events.thy ===== *)
theory Store_Events
  imports Store_Revisions
begin

text \<open>
  \<open>maxops-store/src/lib.rs\<close>, resource observations and fleet events: alert episodes, the
  append-only event table with its \<open>AUTOINCREMENT\<close> sequence, the cursor listing, the recent
  listing and pruning.

  Parameters for code outside the repository: \<open>ts_sub\<close> is jiff's \<open>Timestamp::checked_sub\<close> and
  \<open>jd_ge\<close> SQLite's comparison of two \<open>julianday\<close> values.  Identities of \<open>Uuid::now_v7\<close> are
  arguments, as texts that the code still parses.
\<close>

section \<open>Observations\<close>

definition record_observation ::
  "ResourceObservation \<Rightarrow> store \<Rightarrow> store \<times> (nat, store_error) result" where
  "record_observation ob s =
     (if ob_resource_key ob = [] then (s, Err (Report ''empty observation resource key''))
      else if \<not> set_option (ob_related_change_id ob) \<subseteq> cr_id ` set (st_changes s)
      then (s, Err (Constraint ''FOREIGN KEY constraint failed''))
      else
        let n = st_observation_seq s + 1 in
        (s\<lparr>st_observations := st_observations s @
            [\<lparr>or_sequence = n, or_resource_kind = ResourceKind_as_str (ob_resource_kind ob),
              or_resource_key = ob_resource_key ob, or_observed_at = ob_observed_at ob,
              or_value = canonical_json (ob_value ob), or_evidence = ob_evidence ob,
              or_related_change_id = ob_related_change_id ob\<rparr>],
           st_observation_seq := n\<rparr>,
         to_u64 n ''observation sequence''))"

definition row_to_observation :: "observation_row \<Rightarrow> (ResourceObservation, store_error) result" where
  "row_to_observation row =
     rbind (map_err Report (ResourceKind_parse (or_resource_kind row))) (\<lambda>kind.
     Ok \<lparr>ob_resource_kind = kind, ob_resource_key = or_resource_key row,
         ob_observed_at = or_observed_at row, ob_value = or_value row,
         ob_evidence = or_evidence row, ob_related_change_id = or_related_change_id row\<rparr>)"

text \<open>\<open>fetch_optional\<close> of the first row of an ordered selection, decoded.\<close>

definition decode_first ::
  "('r \<Rightarrow> ('a, store_error) result) \<Rightarrow> 'r list \<Rightarrow> ('a option, store_error) result" where
  "decode_first dec rows =
     (case rows of [] \<Rightarrow> Ok None | r # _ \<Rightarrow> rbind (dec r) (\<lambda>x. Ok (Some x)))"

definition latest_observation ::
  "ResourceKind \<Rightarrow> string \<Rightarrow> store \<Rightarrow> (ResourceObservation option, store_error) result" where
  "latest_observation kind key s =
     decode_first row_to_observation
       (order_by_desc or_sequence
         (filter (\<lambda>r. or_resource_kind r = ResourceKind_as_str kind \<and> or_resource_key r = key)
           (st_observations s)))"

section \<open>Appending fleet events\<close>

record AlertEventInput =
  ai_source :: string
  ai_fingerprint :: string
  ai_host :: string
  ai_firing :: bool
  ai_occurred_at :: timestamp
  ai_payload :: json

record NewFleetEvent =
  nf_source :: string
  nf_fingerprint :: string
  nf_episode_id :: EpisodeId
  nf_kind :: EventKind
  nf_host :: string
  nf_occurred_at :: timestamp
  nf_related_job_id :: "JobId option"
  nf_related_change_id :: "ChangeId option"
  nf_payload :: json

definition validate_event_identity :: "string \<Rightarrow> string \<Rightarrow> string \<Rightarrow> (unit, store_error) result" where
  "validate_event_identity source fingerprint host =
     (if \<not> (source \<noteq> [] \<and> length source \<le> 128) then Err (Report ''invalid event source'')
      else if \<not> (fingerprint \<noteq> [] \<and> length fingerprint \<le> 512)
      then Err (Report ''invalid event fingerprint'')
      else if \<not> valid_host host then Err (Report ''invalid event host'')
      else Ok ())"

definition row_to_event :: "event_row \<Rightarrow> (EventRecord, store_error) result" where
  "row_to_event row =
     rbind (to_u64 (evr_sequence row) ''event sequence'') (\<lambda>sequence.
     rbind (map_err Report (EventId_parse (evr_id row))) (\<lambda>event_id.
     rbind (map_err Report (EpisodeId_parse (evr_episode_id row))) (\<lambda>episode_id.
     rbind (map_err Report (EventKind_parse (evr_kind row))) (\<lambda>kind.
     rbind (case evr_related_job_id row of
              None \<Rightarrow> Ok None
            | Some j \<Rightarrow> rbind (map_err Report (JobId_parse j)) (\<lambda>x. Ok (Some x))) (\<lambda>job.
     rbind (case evr_related_change_id row of
              None \<Rightarrow> Ok None
            | Some c \<Rightarrow> rbind (map_err Report (ChangeId_parse c)) (\<lambda>x. Ok (Some x))) (\<lambda>change.
     Ok \<lparr>ev_sequence = sequence, ev_event_id = event_id, ev_source = evr_source row,
         ev_fingerprint = evr_fingerprint row, ev_episode_id = episode_id, ev_kind = kind,
         ev_host = evr_host row, ev_occurred_at = evr_occurred_at row,
         ev_received_at = evr_received_at row, ev_related_job_id = job,
         ev_related_change_id = change, ev_payload = evr_payload row\<rparr>))))))"

definition new_event_row :: "int \<Rightarrow> string \<Rightarrow> NewFleetEvent \<Rightarrow> timestamp \<Rightarrow> event_row" where
  "new_event_row n event_id input received_at =
     \<lparr>evr_sequence = n, evr_id = event_id, evr_source = nf_source input,
      evr_fingerprint = nf_fingerprint input, evr_episode_id = episode_id_str (nf_episode_id input),
      evr_kind = EventKind_as_str (nf_kind input), evr_host = nf_host input,
      evr_occurred_at = nf_occurred_at input, evr_received_at = received_at,
      evr_related_job_id = map_option job_id_str (nf_related_job_id input),
      evr_related_change_id = map_option change_id_str (nf_related_change_id input),
      evr_payload = canonical_json (nf_payload input)\<rparr>"

text \<open>
  \<open>INSERT INTO fleet_events\<close>: the identity is unique and the related job and change must exist.
\<close>

definition insert_fleet_event ::
  "string \<Rightarrow> NewFleetEvent \<Rightarrow> timestamp \<Rightarrow> store \<Rightarrow> (store \<times> nat, store_error) result" where
  "insert_fleet_event event_id input received_at s =
     (let n = st_event_seq s + 1; row = new_event_row n event_id input received_at in
      if event_id \<in> evr_id ` set (st_events s)
      then Err (Constraint ''UNIQUE constraint failed: fleet_events.id'')
      else if \<not> set_option (evr_related_job_id row) \<subseteq> jr_id ` set (st_jobs s)
              \<or> \<not> set_option (evr_related_change_id row) \<subseteq> cr_id ` set (st_changes s)
      then Err (Constraint ''FOREIGN KEY constraint failed'')
      else rbind (to_u64 n ''event sequence'') (\<lambda>sequence.
        Ok (s\<lparr>st_events := st_events s @ [row], st_event_seq := n\<rparr>, sequence)))"

definition get_event :: "EventId \<Rightarrow> store \<Rightarrow> (EventRecord, store_error) result" where
  "get_event eid s =
     rbind (ok_or (Report ''event not found'')
             (select_one (\<lambda>r. evr_id r = event_id_str eid) (st_events s))) row_to_event"

definition then_get_event ::
  "store \<times> (EventId, store_error) result \<Rightarrow> store \<times> (EventRecord, store_error) result" where
  "then_get_event = (\<lambda>(s, r). (s, rbind r (\<lambda>eid. get_event eid s)))"

text \<open>\<open>INSERT ... ON CONFLICT(source, fingerprint, host) DO UPDATE\<close>.\<close>

definition upsert_episode :: "episode_row \<Rightarrow> store \<Rightarrow> store" where
  "upsert_episode row s =
     (let k = (ep_source row, ep_fingerprint row, ep_host row);
          same = (\<lambda>r. (ep_source r, ep_fingerprint r, ep_host r) = k) in
      s\<lparr>st_episodes :=
          (if select_one same (st_episodes s) = None then st_episodes s @ [row]
           else update_where same (\<lambda>r. r\<lparr>ep_episode_id := ep_episode_id row,
                  ep_active := ep_active row, ep_last_received_at := ep_last_received_at row\<rparr>)
                (st_episodes s))\<rparr>)"

text \<open>
  A firing alert joins the active episode of its source, fingerprint and host, a resolution the
  latest one; otherwise a new episode begins.
\<close>

definition episode_for_alert ::
  "string \<Rightarrow> episode_row option \<Rightarrow> bool \<Rightarrow> (EpisodeId, store_error) result" where
  "episode_for_alert fresh_episode existing firing =
     (case existing of
        Some row \<Rightarrow>
          if firing \<and> ep_active row \<noteq> 0 then map_err Report (EpisodeId_parse (ep_episode_id row))
          else if \<not> firing then map_err Report (EpisodeId_parse (ep_episode_id row))
          else map_err Report (EpisodeId_parse fresh_episode)
      | None \<Rightarrow> map_err Report (EpisodeId_parse fresh_episode))"

definition ingest_alert_body ::
  "timestamp \<Rightarrow> string \<Rightarrow> string \<Rightarrow> AlertEventInput \<Rightarrow> store \<Rightarrow> (store \<times> EventId, store_error) result" where
  "ingest_alert_body received_at fresh_episode fresh_event input s =
     rbind (episode_for_alert fresh_episode
             (select_one (\<lambda>r. (ep_source r, ep_fingerprint r, ep_host r)
                = (ai_source input, ai_fingerprint input, ai_host input)) (st_episodes s))
             (ai_firing input)) (\<lambda>episode_id.
     let s1 = upsert_episode
           \<lparr>ep_source = ai_source input, ep_fingerprint = ai_fingerprint input,
            ep_host = ai_host input, ep_episode_id = episode_id_str episode_id,
            ep_active = (if ai_firing input then 1 else 0), ep_last_received_at = received_at\<rparr> s in
     rbind (map_err Report (EventId_parse fresh_event)) (\<lambda>event_id.
     rbind (insert_fleet_event (event_id_str event_id)
             \<lparr>nf_source = ai_source input, nf_fingerprint = ai_fingerprint input,
              nf_episode_id = episode_id,
              nf_kind = (if ai_firing input then AlertFiring else AlertResolved),
              nf_host = ai_host input, nf_occurred_at = ai_occurred_at input,
              nf_related_job_id = None, nf_related_change_id = None,
              nf_payload = ai_payload input\<rparr> received_at s1) (\<lambda>(s2, _).
     Ok (s2, event_id))))"

definition ingest_alert ::
  "timestamp \<Rightarrow> string \<Rightarrow> string \<Rightarrow> AlertEventInput \<Rightarrow> store \<Rightarrow>
   store \<times> (EventRecord, store_error) result" where
  "ingest_alert received_at fresh_episode fresh_event input s =
     (case validate_event_identity (ai_source input) (ai_fingerprint input) (ai_host input) of
        Inl e \<Rightarrow> (s, Inl e)
      | Inr _ \<Rightarrow> then_get_event (transact (ingest_alert_body received_at fresh_episode fresh_event input) s))"

definition append_fleet_event ::
  "timestamp \<Rightarrow> string \<Rightarrow> NewFleetEvent \<Rightarrow> store \<Rightarrow> store \<times> (EventRecord, store_error) result" where
  "append_fleet_event received_at fresh_event input s =
     (case rbind (validate_event_identity (nf_source input) (nf_fingerprint input) (nf_host input)) (\<lambda>_.
             map_err Report (EventId_parse fresh_event)) of
        Inl e \<Rightarrow> (s, Inl e)
      | Inr event_id \<Rightarrow>
          then_get_event (transact (\<lambda>s. rbind (insert_fleet_event (event_id_str event_id) input received_at s)
            (\<lambda>(s', _). Ok (s', event_id))) s))"

section \<open>Reading fleet events\<close>

definition event_for_host :: "EventId \<Rightarrow> string \<Rightarrow> store \<Rightarrow> (EventRecord, store_error) result" where
  "event_for_host eid host s =
     rbind (get_event eid s) (\<lambda>event.
       if ev_host event = host then Ok event else Err (Report ''event not found''))"

definition event_for_job_kind ::
  "JobId \<Rightarrow> EventKind \<Rightarrow> store \<Rightarrow> (EventRecord option, store_error) result" where
  "event_for_job_kind jid kind s =
     decode_first row_to_event
       (sort_key evr_sequence
         (filter (\<lambda>r. evr_related_job_id r = Some (job_id_str jid) \<and> evr_kind r = EventKind_as_str kind)
           (st_events s)))"

definition next_event :: "nat \<Rightarrow> store \<Rightarrow> (EventRecord option, store_error) result" where
  "next_event after s =
     rbind (to_i64 after ''event cursor'') (\<lambda>n.
       decode_first row_to_event (sort_key evr_sequence (filter (\<lambda>r. evr_sequence r > n) (st_events s))))"

text \<open>\<open>SELECT MIN(sequence)\<close> and \<open>SELECT MAX(sequence)\<close> over the hosts.\<close>

definition min_sequence :: "string set \<Rightarrow> store \<Rightarrow> int option" where
  "min_sequence hosts s =
     (case map evr_sequence (filter (\<lambda>r. evr_host r \<in> hosts) (st_events s)) of
        [] \<Rightarrow> None | n # ns \<Rightarrow> Some (foldl min n ns))"

definition max_sequence :: "string set \<Rightarrow> store \<Rightarrow> int option" where
  "max_sequence hosts s =
     (case map evr_sequence (filter (\<lambda>r. evr_host r \<in> hosts) (st_events s)) of
        [] \<Rightarrow> None | n # ns \<Rightarrow> Some (foldl max n ns))"

definition earliest_cursor_of :: "string set \<Rightarrow> store \<Rightarrow> (nat, store_error) result" where
  "earliest_cursor_of hosts s =
     (case min_sequence hosts s of
        Some sequence \<Rightarrow> rbind (to_u64 sequence ''event sequence'') (\<lambda>n. Ok (n - 1))
      | None \<Rightarrow> to_u64 (st_event_seq s) ''event sequence'')"

definition event_page_rows :: "string set \<Rightarrow> EventKind list \<Rightarrow> int \<Rightarrow> nat \<Rightarrow> store \<Rightarrow> event_row list" where
  "event_page_rows hosts kinds cursor limit s =
     take limit (sort_key evr_sequence
       (filter (\<lambda>r. evr_sequence r > cursor \<and> evr_host r \<in> hosts
                  \<and> (kinds = [] \<or> evr_kind r \<in> EventKind_as_str ` set kinds)) (st_events s)))"

definition expired_message :: "nat \<Rightarrow> string" where
  "expired_message earliest = ''event cursor expired; resync from '' @ nat_to_string earliest"

text \<open>
  \<open>list_events\<close> runs its statements one by one, outside a transaction and without the writer
  lock, on a pool of four connections: \<open>s_min\<close>, \<open>s_page\<close> and \<open>s_max\<close> are the states that the
  earliest-cursor query, the page query and the final maximum query see.
\<close>

definition list_events_reads ::
  "string set \<Rightarrow> EventsListParams \<Rightarrow> store \<Rightarrow> store \<Rightarrow> store \<Rightarrow>
   (EventsListResponse, store_error) result" where
  "list_events_reads allowed_hosts params s_min s_page s_max =
     rbind (map_err Report (EventsListParams_validate params)) (\<lambda>_.
     if allowed_hosts = {} then Err (Report ''event host scope is empty'')
     else if \<not> set_option (el_host params) \<subseteq> allowed_hosts then Err (Report ''host not permitted'')
     else
       let hosts = (case el_host params of Some host \<Rightarrow> {host} | None \<Rightarrow> allowed_hosts) in
       rbind (earliest_cursor_of hosts s_min) (\<lambda>earliest.
       let cursor = (case el_cursor params of Some c \<Rightarrow> c | None \<Rightarrow> earliest) in
       if \<not> (el_cursor params = None \<or> cursor \<ge> earliest)
       then Err (Report (expired_message earliest))
       else
         rbind (to_i64 cursor ''event cursor'') (\<lambda>cursor_i.
         rbind (rmap row_to_event
                 (event_page_rows hosts (el_kinds params) cursor_i (el_limit params) s_page)) (\<lambda>events.
         rbind (if length events = el_limit params
                then Ok (if events = [] then cursor else ev_sequence (last events))
                else case max_sequence hosts s_max of
                       None \<Rightarrow> Ok cursor
                     | Some sequence \<Rightarrow>
                         rbind (to_u64 sequence ''event sequence'') (\<lambda>n. Ok (max n cursor))) (\<lambda>next_cursor.
         Ok \<lparr>er_events = events, er_next_cursor = next_cursor, er_earliest_cursor = earliest\<rparr>)))))"

text \<open>The listing when no write lands between its statements.\<close>

definition list_events ::
  "string set \<Rightarrow> EventsListParams \<Rightarrow> store \<Rightarrow>
   (EventsListResponse, store_error) result" where
  "list_events allowed_hosts params s =
     list_events_reads allowed_hosts params s s s"

text \<open>
  \<open>COALESCE\<close> of \<open>json_extract\<close> at \<open>$.labels.unit\<close>, \<open>$.labels.name\<close> and \<open>$.unit\<close>; a JSON null
  is an SQL null.
\<close>

definition json_path :: "string list \<Rightarrow> json \<Rightarrow> json option" where
  "json_path ks v =
     (case foldl (\<lambda>acc k. Option.bind acc (json_get k)) (Some v) ks of
        Some JNull \<Rightarrow> None | r \<Rightarrow> r)"

definition event_unit :: "json \<Rightarrow> json option" where
  "event_unit payload =
     (case json_path [''labels'', ''unit''] payload of
        Some v \<Rightarrow> Some v
      | None \<Rightarrow> (case json_path [''labels'', ''name''] payload of
          Some v \<Rightarrow> Some v
        | None \<Rightarrow> json_path [''unit''] payload))"

definition recent_events ::
  "(timestamp \<Rightarrow> nat \<Rightarrow> (timestamp, store_error) result) \<Rightarrow> (timestamp \<Rightarrow> timestamp \<Rightarrow> bool) \<Rightarrow>
   timestamp \<Rightarrow> string set \<Rightarrow> RecentEventsParams \<Rightarrow> store \<Rightarrow> (EventRecord list, store_error) result" where
  "recent_events ts_sub jd_ge now allowed_hosts params s =
     rbind (map_err Report (RecentEventsParams_validate params)) (\<lambda>_.
     if allowed_hosts = {} then Err (Report ''event host scope is empty'')
     else if \<not> set_option (re_host params) \<subseteq> allowed_hosts then Err (Report ''host not permitted'')
     else
       rbind (ts_sub now (re_since_seconds params)) (\<lambda>since.
       rbind (case re_before_sequence params of
                None \<Rightarrow> Ok None
              | Some n \<Rightarrow> rbind (to_i64 n ''event sequence'') (\<lambda>i. Ok (Some i))) (\<lambda>before.
       rmap row_to_event
         (take (re_limit params) (order_by_desc evr_sequence
           (filter (\<lambda>r. evr_host r \<in> allowed_hosts
                \<and> (re_host params = None \<or> re_host params = Some (evr_host r))
                \<and> jd_ge (evr_occurred_at r) since
                \<and> (case before of None \<Rightarrow> True | Some i \<Rightarrow> evr_sequence r < i)
                \<and> (case re_unit params of None \<Rightarrow> True
                   | Some u \<Rightarrow> event_unit (evr_payload r) = Some (JString u)))
             (st_events s)))))))"

text \<open>
  \<open>DELETE FROM fleet_events WHERE sequence <= ?\<close>: a remediation restricts the deletion of its
  event, and deliveries of a deleted event are deleted with it.
\<close>

definition prune_events_through :: "nat \<Rightarrow> store \<Rightarrow> store \<times> (nat, store_error) result" where
  "prune_events_through sequence s =
     (case to_i64 sequence ''event sequence'' of
        Inl e \<Rightarrow> (s, Inl e)
      | Inr n \<Rightarrow>
          let gone = filter (\<lambda>r. evr_sequence r \<le> n) (st_events s) in
          if \<exists>m \<in> set (st_remediations s). mr_event_id m \<in> evr_id ` set gone
          then (s, Err (Constraint ''FOREIGN KEY constraint failed''))
          else (s\<lparr>st_events := filter (\<lambda>r. evr_sequence r > n) (st_events s),
                  st_deliveries := filter (\<lambda>d. dl_event_sequence d \<notin> evr_sequence ` set gone)
                    (st_deliveries s)\<rparr>,
                Ok (length gone)))"

end
