(* ===== verification/Store_Events_Facts.thy ===== *)
theory Store_Events_Facts
  imports Store_Events
begin

text \<open>
  The event table: sequence numbers grow and are never reused, every stored row decodes, alert
  episodes open, are joined and close, and the cursor listing neither skips nor repeats an event
  when no write lands between its statements.
\<close>

section \<open>The table\<close>

definition event_row_ok :: "event_row \<Rightarrow> bool" where
  "event_row_ok r \<longleftrightarrow>
     uuid_text (evr_id r) \<and> uuid_text (evr_episode_id r) \<and> is_ok (EventKind_parse (evr_kind r)) \<and>
     list_all uuid_text (case evr_related_job_id r of None \<Rightarrow> [] | Some j \<Rightarrow> [j]) \<and>
     list_all uuid_text (case evr_related_change_id r of None \<Rightarrow> [] | Some c \<Rightarrow> [c])"

definition events_inv :: "store \<Rightarrow> bool" where
  "events_inv s \<longleftrightarrow>
     0 \<le> st_event_seq s \<and> sorted_wrt (<) (map evr_sequence (st_events s)) \<and>
     distinct (map evr_id (st_events s)) \<and>
     (\<forall>r \<in> set (st_events s). 0 < evr_sequence r \<and> evr_sequence r \<le> st_event_seq s \<and> event_row_ok r)"

lemma events_inv_empty: "events_inv empty_store"
  by (simp add: events_inv_def empty_store_def)

lemma events_inv_frame:
  "events_inv s \<Longrightarrow> st_events s' = st_events s \<Longrightarrow> st_event_seq s' = st_event_seq s \<Longrightarrow> events_inv s'"
  by (simp add: events_inv_def)

lemma events_inv_distinct: "events_inv s \<Longrightarrow> distinct (map evr_id (st_events s))"
  by (simp add: events_inv_def)

definition decoded_event :: "event_row \<Rightarrow> EventRecord" where
  "decoded_event r =
     \<lparr>ev_sequence = nat (evr_sequence r), ev_event_id = EventId (evr_id r),
      ev_source = evr_source r, ev_fingerprint = evr_fingerprint r,
      ev_episode_id = EpisodeId (evr_episode_id r),
      ev_kind = (case EventKind_parse (evr_kind r) of Inr k \<Rightarrow> k | Inl _ \<Rightarrow> AlertFiring),
      ev_host = evr_host r, ev_occurred_at = evr_occurred_at r, ev_received_at = evr_received_at r,
      ev_related_job_id = map_option JobId (evr_related_job_id r),
      ev_related_change_id = map_option ChangeId (evr_related_change_id r),
      ev_payload = evr_payload r\<rparr>"

lemma decoded_event_simps [simp]:
  "ev_sequence (decoded_event r) = nat (evr_sequence r)"
  "ev_host (decoded_event r) = evr_host r"
  "ev_episode_id (decoded_event r) = EpisodeId (evr_episode_id r)"
  by (simp_all add: decoded_event_def)

lemma row_to_event_ok:
  assumes "event_row_ok r" and "0 \<le> evr_sequence r"
  shows "row_to_event r = Ok (decoded_event r)"
proof -
  from assms(1) obtain k where "EventKind_parse (evr_kind r) = Ok k"
    by (auto simp: event_row_ok_def is_ok_def split: sum.splits)
  with assms show ?thesis
    by (cases "evr_related_job_id r"; cases "evr_related_change_id r")
      (simp_all add: row_to_event_def event_row_ok_def decoded_event_def EventId_parse_def
        EpisodeId_parse_def JobId_parse_def ChangeId_parse_def to_u64_def)
qed

lemma events_inv_row:
  assumes "events_inv s" and "r \<in> set (st_events s)"
  shows "event_row_ok r" and "0 < evr_sequence r" and "evr_sequence r \<le> st_event_seq s"
  using assms by (simp_all add: events_inv_def)

lemma decode_member:
  "events_inv s \<Longrightarrow> r \<in> set (st_events s) \<Longrightarrow> row_to_event r = Ok (decoded_event r)"
  using events_inv_row[of s r] by (intro row_to_event_ok) simp_all

lemma decode_events:
  "events_inv s \<Longrightarrow> set rows \<subseteq> set (st_events s) \<Longrightarrow> rmap row_to_event rows = Ok (map decoded_event rows)"
  by (rule rmap_Ok) (auto intro: decode_member)

lemma sort_events:
  assumes "events_inv s"
  shows "sort_key evr_sequence (filter p (st_events s)) = filter p (st_events s)"
proof (rule sort_key_id_if_sorted)
  have "sorted_wrt (<) (map evr_sequence (filter p (st_events s)))"
    using assms sorted_wrt_filter[of "\<lambda>a b. evr_sequence a < evr_sequence b" "st_events s" p]
    by (simp add: events_inv_def sorted_wrt_map)
  then show "sorted (map evr_sequence (filter p (st_events s)))"
    by (rule strict_sorted_imp_sorted)
qed

section \<open>Insertion\<close>

text \<open>The identities inside an event record are UUID texts, as their types guarantee.\<close>

definition event_ids_ok :: "NewFleetEvent \<Rightarrow> bool" where
  "event_ids_ok input \<longleftrightarrow>
     uuid_text (episode_id_str (nf_episode_id input)) \<and>
     list_all (\<lambda>j. uuid_text (job_id_str j)) (case nf_related_job_id input of None \<Rightarrow> [] | Some j \<Rightarrow> [j]) \<and>
     list_all (\<lambda>c. uuid_text (change_id_str c)) (case nf_related_change_id input of None \<Rightarrow> [] | Some c \<Rightarrow> [c])"

lemma insert_fleet_event_Ok:
  assumes "insert_fleet_event event_id input received_at s = Ok (s', n)"
  shows "s' = s\<lparr>st_events := st_events s @ [new_event_row (st_event_seq s + 1) event_id input received_at],
                st_event_seq := st_event_seq s + 1\<rparr>"
    and "event_id \<notin> evr_id ` set (st_events s)" and "n = nat (st_event_seq s + 1)"
    and "0 \<le> st_event_seq s + 1"
  using assms by (simp_all add: insert_fleet_event_def Let_def split: if_split_asm)

lemma insert_preserves_events_inv:
  assumes "insert_fleet_event event_id input received_at s = Ok (s', n)" and "events_inv s"
    and "uuid_text event_id" and "event_ids_ok input"
  shows "events_inv s'"
proof -
  let ?row = "new_event_row (st_event_seq s + 1) event_id input received_at"
  have row: "event_row_ok ?row" "evr_sequence ?row = st_event_seq s + 1" "evr_id ?row = event_id"
    using assms(3,4)
    by (cases "nf_related_job_id input"; cases "nf_related_change_id input";
        simp add: event_row_ok_def new_event_row_def event_ids_ok_def)+
  have "sorted_wrt (<) (map evr_sequence (st_events s @ [?row]))"
    using assms(2) row(2) by (auto simp: events_inv_def sorted_wrt_append)
  moreover have "distinct (map evr_id (st_events s @ [?row]))"
    using assms(2) insert_fleet_event_Ok(2)[OF assms(1)] row(3) by (simp add: events_inv_def)
  moreover have "0 < evr_sequence r \<and> evr_sequence r \<le> st_event_seq s + 1 \<and> event_row_ok r"
    if "r \<in> set (st_events s @ [?row])" for r
    using that assms(2) row by (auto simp: events_inv_def)
  ultimately show ?thesis
    using assms(2) by (simp add: insert_fleet_event_Ok(1)[OF assms(1)] events_inv_def)
qed

lemma get_event_found:
  assumes "events_inv s" and "r \<in> set (st_events s)" and "evr_id r = event_id_str eid"
  shows "get_event eid s = Ok (decoded_event r)"
proof -
  have "select_one (\<lambda>x. evr_id x = event_id_str eid) (st_events s) = Some r"
    using events_t.member_found[OF events_inv_distinct[OF assms(1)] assms(2)] assms(3) by simp
  with decode_member[OF assms(1,2)] show ?thesis by (simp add: get_event_def)
qed

section \<open>Alert episodes\<close>

definition episode_key :: "episode_row \<Rightarrow> string \<times> string \<times> string" where
  "episode_key r = (ep_source r, ep_fingerprint r, ep_host r)"

definition episodes_inv :: "store \<Rightarrow> bool" where
  "episodes_inv s \<longleftrightarrow>
     distinct (map episode_key (st_episodes s)) \<and>
     (\<forall>r \<in> set (st_episodes s). uuid_text (ep_episode_id r) \<and> ep_active r \<in> {0, 1})"

lemma episodes_inv_empty: "episodes_inv empty_store"
  by (simp add: episodes_inv_def empty_store_def)

text \<open>The current episode of an alert: its identity, and whether it is still firing.\<close>

definition current_episode :: "string \<times> string \<times> string \<Rightarrow> store \<Rightarrow> (EpisodeId \<times> bool) option" where
  "current_episode k s =
     map_option (\<lambda>r. (EpisodeId (ep_episode_id r), ep_active r \<noteq> 0))
       (select_one (\<lambda>r. (ep_source r, ep_fingerprint r, ep_host r) = k) (st_episodes s))"

text \<open>The abstract transition of an alert's episode.\<close>

definition next_episode :: "EpisodeId \<Rightarrow> bool \<Rightarrow> (EpisodeId \<times> bool) option \<Rightarrow> EpisodeId \<times> bool" where
  "next_episode fresh firing current =
     (case current of
        Some (e, active) \<Rightarrow> (if firing \<and> \<not> active then fresh else e, firing)
      | None \<Rightarrow> (fresh, firing))"

lemma upsert_episode_current:
  "current_episode k (upsert_episode row s) =
     (if k = episode_key row then Some (EpisodeId (ep_episode_id row), ep_active row \<noteq> 0)
      else current_episode k s)"
proof -
  let ?sel = "\<lambda>k. select_one (\<lambda>r. (ep_source r, ep_fingerprint r, ep_host r) = k) (st_episodes s)"
  have key: "episode_key row = (ep_source row, ep_fingerprint row, ep_host row)"
    by (simp add: episode_key_def)
  show ?thesis
  proof (cases "?sel (episode_key row)")
    case None
    then show ?thesis
      by (auto simp: current_episode_def upsert_episode_def Let_def key select_one_append
          split: option.splits)
  next
    case (Some old)
    let ?f = "\<lambda>r :: episode_row. r\<lparr>ep_episode_id := ep_episode_id row, ep_active := ep_active row,
        ep_last_received_at := ep_last_received_at row\<rparr>"
    have upd: "st_episodes (upsert_episode row s)
        = update_where (\<lambda>r. (ep_source r, ep_fingerprint r, ep_host r) = episode_key row) ?f (st_episodes s)"
      using Some by (simp add: upsert_episode_def Let_def key)
    have sel: "select_one (\<lambda>r. (ep_source r, ep_fingerprint r, ep_host r) = k) (st_episodes (upsert_episode row s))
        = map_option (\<lambda>r. if (ep_source r, ep_fingerprint r, ep_host r) = episode_key row then ?f r else r) (?sel k)"
      unfolding upd by (rule episodes_t.found_after_update) simp
    show ?thesis
    proof (cases "k = episode_key row")
      case True
      have "(ep_source old, ep_fingerprint old, ep_host old) = episode_key row"
        using Some by (rule episodes_t.found[THEN conjunct2])
      with True Some sel show ?thesis by (simp add: current_episode_def)
    next
      case False
      have "?sel k = Some r \<Longrightarrow> (ep_source r, ep_fingerprint r, ep_host r) = k" for r
        by (rule episodes_t.found[THEN conjunct2])
      with False sel show ?thesis
        by (cases "?sel k") (auto simp: current_episode_def)
    qed
  qed
qed

lemma upsert_preserves_episodes_inv:
  assumes "episodes_inv s" and "uuid_text (ep_episode_id row)" and "ep_active row \<in> {0, 1}"
  shows "episodes_inv (upsert_episode row s)"
proof (cases "select_one (\<lambda>r. (ep_source r, ep_fingerprint r, ep_host r)
    = (ep_source row, ep_fingerprint row, ep_host row)) (st_episodes s)")
  case None
  then have "episode_key row \<notin> episode_key ` set (st_episodes s)"
    by (auto simp: select_one_None_iff episode_key_def image_iff)
  with None assms show ?thesis by (auto simp: episodes_inv_def upsert_episode_def Let_def)
next
  case (Some old)
  let ?f = "\<lambda>r :: episode_row. r\<lparr>ep_episode_id := ep_episode_id row, ep_active := ep_active row,
      ep_last_received_at := ep_last_received_at row\<rparr>"
  have keys: "map episode_key (update_where p ?f (st_episodes s)) = map episode_key (st_episodes s)" for p
    by (rule map_update_where) (simp add: episode_key_def)
  from Some assms show ?thesis
    by (auto simp: episodes_inv_def upsert_episode_def Let_def set_update_where keys)
qed

text \<open>One alert, as a step of the abstract episode and one appended event.\<close>

lemma episode_for_alert_Ok:
  assumes "episode_for_alert fresh existing firing = Ok e"
  shows "uuid_text (episode_id_str e)"
    and "(e, firing) = next_episode (EpisodeId fresh) firing
           (map_option (\<lambda>r. (EpisodeId (ep_episode_id r), ep_active r \<noteq> 0)) existing)"
  using assms
  by (auto simp: episode_for_alert_def next_episode_def EpisodeId_parse_def split: option.splits if_splits)

lemma ingest_alert_cases:
  assumes "ingest_alert received_at fresh_episode fresh_event input s = (s', r)"
  obtains (rejected) err where "s' = s" "r = Err err"
  | (ingested) e row where
      "(e, ai_firing input) = next_episode (EpisodeId fresh_episode) (ai_firing input)
         (current_episode (ai_source input, ai_fingerprint input, ai_host input) s)"
      "uuid_text (episode_id_str e)" "uuid_text fresh_event"
      "row = \<lparr>ep_source = ai_source input, ep_fingerprint = ai_fingerprint input,
              ep_host = ai_host input, ep_episode_id = episode_id_str e,
              ep_active = (if ai_firing input then 1 else 0), ep_last_received_at = received_at\<rparr>"
      "\<exists>n. insert_fleet_event fresh_event
         \<lparr>nf_source = ai_source input, nf_fingerprint = ai_fingerprint input, nf_episode_id = e,
          nf_kind = (if ai_firing input then AlertFiring else AlertResolved),
          nf_host = ai_host input, nf_occurred_at = ai_occurred_at input,
          nf_related_job_id = None, nf_related_change_id = None, nf_payload = ai_payload input\<rparr>
         received_at (upsert_episode row s) = Ok (s', n)"
      "r = get_event (EventId fresh_event) s'"
proof (cases "validate_event_identity (ai_source input) (ai_fingerprint input) (ai_host input)")
  case (Inl err)
  with assms rejected show ?thesis by (auto simp: ingest_alert_def)
next
  case valid: (Inr u)
  show ?thesis
  proof (cases "ingest_alert_body received_at fresh_episode fresh_event input s")
    case (Inl err)
    with assms valid rejected show ?thesis
      by (auto simp: ingest_alert_def transact_def then_get_event_def)
  next
    case (Inr x)
    obtain s1 eid where x: "x = (s1, eid)" by (cases x)
    have res: "s' = s1" "r = get_event eid s1"
      using assms valid Inr x by (auto simp: ingest_alert_def transact_def then_get_event_def)
    from Inr x obtain e n where
      e: "episode_for_alert fresh_episode
           (select_one (\<lambda>r. (ep_source r, ep_fingerprint r, ep_host r)
              = (ai_source input, ai_fingerprint input, ai_host input)) (st_episodes s))
           (ai_firing input) = Ok e"
      and ev: "EventId_parse fresh_event = Ok eid"
      and ins: "insert_fleet_event (event_id_str eid)
         \<lparr>nf_source = ai_source input, nf_fingerprint = ai_fingerprint input, nf_episode_id = e,
          nf_kind = (if ai_firing input then AlertFiring else AlertResolved),
          nf_host = ai_host input, nf_occurred_at = ai_occurred_at input,
          nf_related_job_id = None, nf_related_change_id = None, nf_payload = ai_payload input\<rparr>
         received_at (upsert_episode
           \<lparr>ep_source = ai_source input, ep_fingerprint = ai_fingerprint input,
            ep_host = ai_host input, ep_episode_id = episode_id_str e,
            ep_active = (if ai_firing input then 1 else 0), ep_last_received_at = received_at\<rparr> s)
         = Ok (s1, n)"
      unfolding ingest_alert_body_def Let_def by force
    from ev have "uuid_text fresh_event" "eid = EventId fresh_event"
      by (auto simp: EventId_parse_def split: if_splits)
    with ingested[OF _ _ _ refl, of e] episode_for_alert_Ok[OF e] ins res show ?thesis
      by (simp add: current_episode_def)
  qed
qed


lemma ingest_preserves_events_inv:
  assumes "ingest_alert received_at fresh_episode fresh_event input s = (s', r)"
    and "events_inv s" and "episodes_inv s"
  shows "events_inv s'" and "episodes_inv s'"
proof -
  have "events_inv s' \<and> episodes_inv s'"
    using assms(1)
  proof (cases rule: ingest_alert_cases)
    case rejected
    with assms(2,3) show ?thesis by simp
  next
    case (ingested e row)
    then obtain n where ins: "insert_fleet_event fresh_event
         \<lparr>nf_source = ai_source input, nf_fingerprint = ai_fingerprint input, nf_episode_id = e,
          nf_kind = (if ai_firing input then AlertFiring else AlertResolved),
          nf_host = ai_host input, nf_occurred_at = ai_occurred_at input,
          nf_related_job_id = None, nf_related_change_id = None, nf_payload = ai_payload input\<rparr>
         received_at (upsert_episode row s) = Ok (s', n)" by blast
    have "events_inv (upsert_episode row s)"
      using assms(2) by (rule events_inv_frame) (simp_all add: upsert_episode_def Let_def)
    from insert_preserves_events_inv[OF ins this ingested(3)] ingested(2) have "events_inv s'"
      by (simp add: event_ids_ok_def)
    moreover have "episodes_inv (upsert_episode row s)"
      using upsert_preserves_episodes_inv[OF assms(3), of row] ingested(2,4) by simp
    then have "episodes_inv s'"
      unfolding insert_fleet_event_Ok(1)[OF ins] by (simp add: episodes_inv_def)
    ultimately show ?thesis by simp
  qed
  then show "events_inv s'" "episodes_inv s'" by simp_all
qed

section \<open>Listing and pruning\<close>

lemma foldl_min_sorted: "sorted_wrt (<) (n # ns) \<Longrightarrow> foldl min n ns = (n :: int)"
  by (induction ns arbitrary: n) (auto simp: min_def)

lemma foldl_max_sorted: "sorted_wrt (<) (n # ns) \<Longrightarrow> foldl max n ns = (last (n # ns) :: int)"
  by (induction ns arbitrary: n) (auto simp: max_def)

lemma last_is_greatest:
  fixes k :: "'a \<Rightarrow> int"
  shows "sorted_wrt (<) (map k xs) \<Longrightarrow> x \<in> set xs \<Longrightarrow> k x \<le> k (last xs)"
  by (induction xs) (auto simp: less_imp_le)

text \<open>A full page ends exactly where its last row does.\<close>

lemma filter_up_to_last:
  fixes k :: "'a \<Rightarrow> int"
  assumes "sorted_wrt (<) (map k xs)" and "take n xs \<noteq> []"
  shows "filter (\<lambda>x. k x \<le> k (last (take n xs))) xs = take n xs"
proof -
  let ?ys = "take n xs" and ?zs = "drop n xs"
  have split: "sorted_wrt (<) (map k ?ys)" "\<forall>y \<in> set ?ys. \<forall>z \<in> set ?zs. k y < k z"
    using assms(1) sorted_wrt_append[of "(<)" "map k ?ys" "map k ?zs"]
    by (simp_all flip: map_append)
  have "filter (\<lambda>x. k x \<le> k (last ?ys)) ?ys = ?ys"
    using last_is_greatest[OF split(1)] by simp
  moreover have "filter (\<lambda>x. k x \<le> k (last ?ys)) ?zs = []"
    using split(2) last_in_set[OF assms(2)] by (force simp: filter_empty_conv)
  ultimately show ?thesis
    by (metis append_take_drop_id append_Nil2 filter_append)
qed

text \<open>The visible part of the event table, in sequence order.\<close>

definition visible_events :: "string set \<Rightarrow> store \<Rightarrow> event_row list" where
  "visible_events hosts s = filter (\<lambda>r. evr_host r \<in> hosts) (st_events s)"

lemma visible_sorted: "events_inv s \<Longrightarrow> sorted_wrt (<) (map evr_sequence (visible_events hosts s))"
  using sorted_wrt_filter[of "\<lambda>a b. evr_sequence a < evr_sequence b" "st_events s"]
  by (simp add: events_inv_def visible_events_def sorted_wrt_map)

lemma max_sequence_bound:
  assumes "events_inv s" and "r \<in> set (st_events s)" and "evr_host r \<in> hosts"
  obtains m where "max_sequence hosts s = Some m" and "evr_sequence r \<le> m"
proof -
  let ?ns = "map evr_sequence (visible_events hosts s)"
  have mem: "evr_sequence r \<in> set ?ns" using assms(2,3) by (auto simp: visible_events_def)
  then obtain n ns where ns: "?ns = n # ns" by (cases ?ns) auto
  have srt: "sorted_wrt (<) (n # ns)" using visible_sorted[OF assms(1), of hosts] ns by simp
  then have "evr_sequence r \<le> last (n # ns)"
    using last_is_greatest[of "\<lambda>x. x" "n # ns"] mem unfolding ns by simp
  moreover have "max_sequence hosts s = Some (last (n # ns))"
    using ns foldl_max_sorted[OF srt] by (simp add: max_sequence_def visible_events_def)
  ultimately show ?thesis using that by blast
qed

lemma min_sequence_bound:
  assumes "events_inv s" and "r \<in> set (st_events s)" and "evr_host r \<in> hosts"
  obtains m where "min_sequence hosts s = Some m" and "m \<le> evr_sequence r"
proof -
  let ?ns = "map evr_sequence (visible_events hosts s)"
  have mem: "evr_sequence r \<in> set ?ns" using assms(2,3) by (auto simp: visible_events_def)
  then obtain n ns where ns: "?ns = n # ns" by (cases ?ns) auto
  have srt: "sorted_wrt (<) (n # ns)" using visible_sorted[OF assms(1), of hosts] ns by simp
  with mem have "n \<le> evr_sequence r" unfolding ns by auto
  moreover have "min_sequence hosts s = Some n"
    using ns foldl_min_sorted[OF srt] by (simp add: min_sequence_def visible_events_def)
  ultimately show ?thesis using that by blast
qed

text \<open>What the listing selects, beyond the cursor.\<close>

definition listing_hosts :: "string set \<Rightarrow> EventsListParams \<Rightarrow> string set" where
  "listing_hosts allowed_hosts params =
     (case el_host params of Some host \<Rightarrow> {host} | None \<Rightarrow> allowed_hosts)"

definition listing_selects :: "string set \<Rightarrow> EventsListParams \<Rightarrow> event_row \<Rightarrow> bool" where
  "listing_selects allowed_hosts params r \<longleftrightarrow>
     evr_host r \<in> listing_hosts allowed_hosts params \<and>
     (el_kinds params = [] \<or> evr_kind r \<in> EventKind_as_str ` set (el_kinds params))"

lemma list_events_reads_Ok:
  assumes "list_events_reads allowed params s_min s_page s_max = Ok resp"
  obtains earliest cursor events where
    "1 \<le> el_limit params" "earliest_cursor_of (listing_hosts allowed params) s_min = Ok earliest"
    "cursor = (case el_cursor params of Some c \<Rightarrow> c | None \<Rightarrow> earliest)"
    "el_cursor params = None \<or> earliest \<le> cursor" "int cursor \<le> i64_max"
    "rmap row_to_event (event_page_rows (listing_hosts allowed params) (el_kinds params) (int cursor)
       (el_limit params) s_page) = Ok events"
    "er_events resp = events" "er_earliest_cursor resp = earliest"
    "if length events = el_limit params then er_next_cursor resp = ev_sequence (last events)
     else case max_sequence (listing_hosts allowed params) s_max of
            None \<Rightarrow> er_next_cursor resp = cursor
          | Some m \<Rightarrow> 0 \<le> m \<and> er_next_cursor resp = max (nat m) cursor"
proof -
  obtain u where valid: "EventsListParams_validate params = Ok u"
    using assms by (cases "EventsListParams_validate params") (simp_all add: list_events_reads_def)
  then have lim: "1 \<le> el_limit params"
    by (simp add: EventsListParams_validate_def split: if_split_asm)
  have scope: "allowed \<noteq> {}" "set_option (el_host params) \<subseteq> allowed"
    using assms valid by (simp_all add: list_events_reads_def split: if_split_asm)
  note body = assms[unfolded list_events_reads_def valid Let_def listing_hosts_def[symmetric]]
  obtain earliest where earliest: "earliest_cursor_of (listing_hosts allowed params) s_min = Ok earliest"
    using body scope
    by (cases "earliest_cursor_of (listing_hosts allowed params) s_min") (simp_all)
  let ?cursor = "case el_cursor params of Some c \<Rightarrow> c | None \<Rightarrow> earliest"
  have guard: "el_cursor params = None \<or> earliest \<le> ?cursor"
    using body scope earliest by (simp split: if_split_asm)
  have i64: "int ?cursor \<le> i64_max"
    using body scope earliest guard by (simp split: if_split_asm)
  obtain events where events: "rmap row_to_event (event_page_rows (listing_hosts allowed params)
      (el_kinds params) (int ?cursor) (el_limit params) s_page) = Ok events"
    using body scope earliest guard i64
    by (auto split: if_split_asm)
  have rest: "er_events resp = events \<and> er_earliest_cursor resp = earliest \<and>
    (if length events = el_limit params then er_next_cursor resp = ev_sequence (last events)
     else case max_sequence (listing_hosts allowed params) s_max of
            None \<Rightarrow> er_next_cursor resp = ?cursor
          | Some m \<Rightarrow> 0 \<le> m \<and> er_next_cursor resp = max (nat m) ?cursor)"
    using body scope earliest guard i64 events lim
    by (cases "length events = el_limit params"; cases "max_sequence (listing_hosts allowed params) s_max")
      (auto split: if_split_asm)
  show ?thesis
    using that[OF lim earliest refl guard i64 events] rest by blast
qed

lemma page_rows_filter:
  assumes "events_inv s"
  shows "event_page_rows (listing_hosts allowed params) (el_kinds params) c n s
    = take n (filter (\<lambda>r. c < evr_sequence r \<and> listing_selects allowed params r) (st_events s))"
  unfolding event_page_rows_def listing_selects_def sort_events[OF assms] by simp

text \<open>
  A page of the listing, read without an intervening write, is the events after the cursor up to
  the returned cursor: nothing is skipped, nothing is repeated.
\<close>

lemma list_events_page:
  assumes "events_inv s" and "list_events allowed params s = Ok resp"
    and cursor: "cursor = (case el_cursor params of Some c \<Rightarrow> c | None \<Rightarrow> er_earliest_cursor resp)"
  shows "er_events resp = map decoded_event (filter (\<lambda>r. int cursor < evr_sequence r
           \<and> evr_sequence r \<le> int (er_next_cursor resp) \<and> listing_selects allowed params r) (st_events s))"
    and "cursor \<le> er_next_cursor resp"
proof -
  let ?sel = "\<lambda>r. int cursor < evr_sequence r \<and> listing_selects allowed params r"
  let ?rows = "filter ?sel (st_events s)"
  from assms(2) obtain events where
    lim: "1 \<le> el_limit params"
    and ev: "rmap row_to_event (event_page_rows (listing_hosts allowed params) (el_kinds params) (int cursor)
       (el_limit params) s) = Ok events"
    and resp: "er_events resp = events"
    and nxt: "if length events = el_limit params then er_next_cursor resp = ev_sequence (last events)
     else case max_sequence (listing_hosts allowed params) s of
            None \<Rightarrow> er_next_cursor resp = cursor
          | Some m \<Rightarrow> 0 \<le> m \<and> er_next_cursor resp = max (nat m) cursor"
    unfolding list_events_def cursor by (elim list_events_reads_Ok) auto
  have "set (take (el_limit params) ?rows) \<subseteq> set (st_events s)"
    using set_take_subset[of "el_limit params" ?rows] by auto
  from ev decode_events[OF assms(1) this] have events: "events = map decoded_event (take (el_limit params) ?rows)"
    unfolding page_rows_filter[OF assms(1)] by simp
  have srt: "sorted_wrt (<) (map evr_sequence ?rows)"
    using assms(1) sorted_wrt_filter[of "\<lambda>a b. evr_sequence a < evr_sequence b" "st_events s" ?sel]
    by (simp add: events_inv_def sorted_wrt_map)
  have "take (el_limit params) ?rows = filter (\<lambda>r. evr_sequence r \<le> int (er_next_cursor resp)) ?rows
      \<and> cursor \<le> er_next_cursor resp"
  proof (cases "length events = el_limit params")
    case True
    then have ne: "take (el_limit params) ?rows \<noteq> []" using lim events by (cases "take (el_limit params) ?rows") auto
    have last: "last (take (el_limit params) ?rows) \<in> set ?rows"
      using last_in_set[OF ne] by (auto dest: in_set_takeD)
    then have pos: "int cursor < evr_sequence (last (take (el_limit params) ?rows))" by simp
    have "er_next_cursor resp = nat (evr_sequence (last (take (el_limit params) ?rows)))"
      using nxt True events ne by (simp add: last_map)
    with pos filter_up_to_last[OF srt ne] show ?thesis by simp
  next
    case False
    then have all: "take (el_limit params) ?rows = ?rows" using events by (cases "length ?rows \<le> el_limit params") auto
    have le: "evr_sequence r \<le> int (er_next_cursor resp)" if "r \<in> set ?rows" for r
    proof -
      from that have "r \<in> set (st_events s)" "evr_host r \<in> listing_hosts allowed params"
        by (auto simp: listing_selects_def)
      then obtain m where "max_sequence (listing_hosts allowed params) s = Some m" "evr_sequence r \<le> m"
        using max_sequence_bound[OF assms(1)] by blast
      with nxt False show ?thesis by simp
    qed
    have "cursor \<le> er_next_cursor resp"
      using nxt False by (simp split: option.splits)
    moreover have "filter (\<lambda>r. evr_sequence r \<le> int (er_next_cursor resp)) ?rows = ?rows"
      by (rule filter_True) (use le in blast)
    ultimately show ?thesis using all by metis
  qed
  then show "cursor \<le> er_next_cursor resp"
    and "er_events resp = map decoded_event (filter (\<lambda>r. int cursor < evr_sequence r
           \<and> evr_sequence r \<le> int (er_next_cursor resp) \<and> listing_selects allowed params r) (st_events s))"
    unfolding resp events by (auto simp: conj_ac intro!: arg_cong[of _ _ "map decoded_event"] filter_cong)
qed

section \<open>Pruning\<close>

lemma prune_cases:
  assumes "prune_events_through n s = (s', r)"
  obtains (rejected) e where "s' = s" "r = Err e"
  | (pruned) "int n \<le> i64_max"
      "\<forall>m \<in> set (st_remediations s). \<forall>x \<in> set (st_events s). evr_id x = mr_event_id m \<longrightarrow> int n < evr_sequence x"
      "s' = s\<lparr>st_events := filter (\<lambda>r. int n < evr_sequence r) (st_events s),
             st_deliveries := filter (\<lambda>d. dl_event_sequence d \<notin> evr_sequence `
               set (filter (\<lambda>r. evr_sequence r \<le> int n) (st_events s))) (st_deliveries s)\<rparr>"
      "r = Ok (length (filter (\<lambda>r. evr_sequence r \<le> int n) (st_events s)))"
proof (cases "int n \<le> i64_max")
  case False
  with assms rejected show ?thesis by (auto simp: prune_events_through_def to_i64_def)
next
  case True
  then have conv: "to_i64 n ''event sequence'' = Ok (int n)" by simp
  show ?thesis
  proof (cases "\<exists>m \<in> set (st_remediations s). mr_event_id m \<in> evr_id ` set (filter (\<lambda>r. evr_sequence r \<le> int n) (st_events s))")
    case blocked: True
    with assms rejected show ?thesis unfolding prune_events_through_def conv by (auto simp: Let_def)
  next
    case free: False
    then have "\<forall>m \<in> set (st_remediations s). \<forall>x \<in> set (st_events s). evr_id x = mr_event_id m \<longrightarrow> int n < evr_sequence x"
      by (force simp: image_iff)
    with pruned[OF True] assms free show ?thesis
      unfolding prune_events_through_def conv by (simp add: Let_def)
  qed
qed

lemma prune_preserves_events_inv:
  assumes "prune_events_through n s = (s', r)" and "events_inv s"
  shows "events_inv s'"
  using assms(1)
proof (cases rule: prune_cases)
  case rejected
  with assms(2) show ?thesis by simp
next
  case pruned
  have "sorted_wrt (<) (map evr_sequence (filter (\<lambda>r. int n < evr_sequence r) (st_events s)))"
    using assms(2) sorted_wrt_filter[of "\<lambda>a b. evr_sequence a < evr_sequence b" "st_events s"]
    by (simp add: events_inv_def sorted_wrt_map)
  with assms(2) show ?thesis
    by (simp add: pruned(3) events_inv_def distinct_map_filter)
qed

text \<open>
  A reader whose cursor is still accepted has lost nothing to pruning: every event after its
  cursor that it may see is still there.
\<close>

lemma prune_no_gap:
  assumes "events_inv s" and "prune_events_through n s = (s', r)"
    and "list_events allowed params s' = Ok resp" and "el_cursor params = Some c"
    and "x \<in> set (st_events s)" and "int c < evr_sequence x" and "listing_selects allowed params x"
  shows "x \<in> set (st_events s')"
  using assms(2)
proof (cases rule: prune_cases)
  case rejected
  with assms(5) show ?thesis by simp
next
  case pruned
  have inv: "events_inv s'" using prune_preserves_events_inv[OF assms(2,1)] .
  let ?hosts = "listing_hosts allowed params"
  obtain earliest where e: "earliest_cursor_of ?hosts s' = Ok earliest" and le: "earliest \<le> c"
    using assms(3,4) unfolding list_events_def by (elim list_events_reads_Ok) auto
  show ?thesis
  proof (cases "min_sequence ?hosts s'")
    case None
    with e have "earliest = nat (st_event_seq s')" and "0 \<le> st_event_seq s'"
      by (simp_all add: earliest_cursor_of_def)
    moreover have "evr_sequence x \<le> st_event_seq s'"
      using events_inv_row(3)[OF assms(1,5)] by (simp add: pruned(3))
    ultimately show ?thesis using le assms(6) by simp
  next
    case (Some m)
    with e have em: "earliest = nat m - 1" and m0: "0 \<le> m" by (auto simp: earliest_cursor_of_def)
    have "int n < m"
    proof -
      let ?ns = "map evr_sequence (filter (\<lambda>r. evr_host r \<in> ?hosts) (st_events s'))"
      obtain k ks where ks: "?ns = k # ks" using Some by (cases ?ns) (auto simp: min_sequence_def)
      have "sorted_wrt (<) (k # ks)"
        using visible_sorted[OF inv, of ?hosts] ks by (simp add: visible_events_def)
      then have "m = k" using Some ks foldl_min_sorted by (simp add: min_sequence_def)
      then have "m \<in> set ?ns" using ks by simp
      then show ?thesis by (auto simp: pruned(3))
    qed
    with le em assms(6) m0 have "int n < evr_sequence x" by linarith
    with assms(5) show ?thesis by (simp add: pruned(3))
  qed
qed

end
