(* ===== verification/Store_Delivery.thy ===== *)
theory Store_Delivery
  imports Store_Events_Facts
begin

text \<open>
  \<open>maxops-store/src/lib.rs\<close>, outbound delivery: subscriptions with their cursor, and one delivery
  intent per subscription and event with its attempts, its retry time and its final stage.

  \<open>ts_add\<close> is jiff's \<open>Timestamp::checked_add\<close> of whole seconds.
\<close>

section \<open>Operations\<close>

record SubscriptionCursor =
  sc_id :: string
  sc_cursor :: nat

record DeliveryRecord =
  dv_stage :: DeliveryStage
  dv_attempts :: nat

definition subscription_cursor :: "string \<Rightarrow> store \<Rightarrow> (SubscriptionCursor, store_error) result" where
  "subscription_cursor sid s =
     rbind (ok_or (Report ''subscription not found'')
             (select_one (\<lambda>r. sr_id r = sid) (st_subscriptions s))) (\<lambda>row.
     rbind (to_u64 (sr_cursor row) ''subscription cursor'') (\<lambda>cursor.
     Ok \<lparr>sc_id = sr_id row, sc_cursor = cursor\<rparr>))"

definition ensure_subscription ::
  "timestamp \<Rightarrow> string \<Rightarrow> json \<Rightarrow> json \<Rightarrow> string option \<Rightarrow> store \<Rightarrow>
   store \<times> (SubscriptionCursor, store_error) result" where
  "ensure_subscription now sid filter_doc target credential_ref s =
     (if \<not> (sid \<noteq> [] \<and> length sid \<le> 128) then (s, Err (Report ''invalid subscription ID''))
      else
        let s' = s\<lparr>st_subscriptions :=
              (if select_one (\<lambda>r. sr_id r = sid) (st_subscriptions s) = None
               then st_subscriptions s @
                 [\<lparr>sr_id = sid, sr_principal = ''system'', sr_filter = canonical_json filter_doc,
                   sr_target = canonical_json target, sr_credential_ref = credential_ref,
                   sr_cursor = 0, sr_acknowledged_at = None, sr_created_at = now\<rparr>]
               else update_where (\<lambda>r. sr_id r = sid)
                 (\<lambda>r. r\<lparr>sr_filter := canonical_json filter_doc, sr_target := canonical_json target,
                        sr_credential_ref := credential_ref\<rparr>) (st_subscriptions s))\<rparr>
        in (s', subscription_cursor sid s'))"

text \<open>The row of \<open>event_deliveries\<close> with this subscription and event.\<close>

definition is_delivery :: "string \<Rightarrow> int \<Rightarrow> delivery_row \<Rightarrow> bool" where
  "is_delivery sid n r \<longleftrightarrow> (dl_subscription_id r, dl_event_sequence r) = (sid, n)"

text \<open>The \<open>INSERT ... ON CONFLICT DO UPDATE\<close> of a delivery intent, with its foreign keys.\<close>

definition upsert_delivery ::
  "string \<Rightarrow> int \<Rightarrow> timestamp \<Rightarrow> timestamp \<Rightarrow> store \<Rightarrow> (store, store_error) result" where
  "upsert_delivery sid n retry_at now s =
     (if select_one (is_delivery sid n) (st_deliveries s) = None
      then
        if sid \<notin> sr_id ` set (st_subscriptions s) \<or> n \<notin> evr_sequence ` set (st_events s)
        then Err (Constraint ''FOREIGN KEY constraint failed'')
        else Ok (s\<lparr>st_deliveries := st_deliveries s @
          [\<lparr>dl_subscription_id = sid, dl_event_sequence = n, dl_stage = ''queued'', dl_attempts = 1,
            dl_retry_at = Some retry_at, dl_response_status = None, dl_updated_at = now\<rparr>]\<rparr>)
      else Ok (s\<lparr>st_deliveries := update_where (is_delivery sid n)
          (\<lambda>r. r\<lparr>dl_attempts := dl_attempts r + 1, dl_retry_at := Some retry_at,
                 dl_updated_at := now\<rparr>) (st_deliveries s)\<rparr>))"

text \<open>Whether an existing intent stops a new attempt: it is final, or its retry time is ahead.\<close>

definition delivery_blocked :: "timestamp \<Rightarrow> delivery_row option \<Rightarrow> (bool, store_error) result" where
  "delivery_blocked now existing =
     (case existing of
        None \<Rightarrow> Ok False
      | Some row \<Rightarrow>
          rbind (map_err Report (DeliveryStage_parse (dl_stage row))) (\<lambda>stage.
          Ok (stage \<noteq> DlQueued
              \<or> (case dl_retry_at row of None \<Rightarrow> False | Some retry_at \<Rightarrow> retry_at > now))))"

definition begin_delivery_body ::
  "(timestamp \<Rightarrow> nat \<Rightarrow> timestamp option) \<Rightarrow> timestamp \<Rightarrow> string \<Rightarrow> nat \<Rightarrow> nat \<Rightarrow> store \<Rightarrow>
   (store \<times> int option, store_error) result" where
  "begin_delivery_body ts_add now sid event_sequence retry_after_seconds s =
     rbind (to_i64 event_sequence ''event sequence'') (\<lambda>n.
     rbind (delivery_blocked now (select_one (is_delivery sid n) (st_deliveries s))) (\<lambda>blocked.
     if blocked then Ok (s, None)
     else
       rbind (ok_or (Report ''delivery retry deadline overflow'') (ts_add now retry_after_seconds)) (\<lambda>retry_at.
       rbind (upsert_delivery sid n retry_at now s) (\<lambda>s1.
       rbind (ok_or (Report ''delivery intent not found'')
               (select_one (is_delivery sid n) (st_deliveries s1))) (\<lambda>row.
       Ok (s1, Some (dl_attempts row)))))))"

text \<open>The conversion of the attempt counter happens after the commit.\<close>

definition to_u32_attempts :: "int \<Rightarrow> (nat, store_error) result" where
  "to_u32_attempts i =
     (if 0 \<le> i \<and> nat i \<le> u32_max then Ok (nat i) else Err (Report ''invalid delivery attempts''))"

definition begin_delivery ::
  "(timestamp \<Rightarrow> nat \<Rightarrow> timestamp option) \<Rightarrow> timestamp \<Rightarrow> string \<Rightarrow> nat \<Rightarrow> nat \<Rightarrow> store \<Rightarrow>
   store \<times> (DeliveryRecord option, store_error) result" where
  "begin_delivery ts_add now sid event_sequence retry_after_seconds s =
     (case transact (begin_delivery_body ts_add now sid event_sequence retry_after_seconds) s of
        (s', r) \<Rightarrow>
          (s', rbind r (\<lambda>attempts.
             case attempts of
               None \<Rightarrow> Ok None
             | Some i \<Rightarrow> rbind (to_u32_attempts i) (\<lambda>n.
                 Ok (Some \<lparr>dv_stage = DlQueued, dv_attempts = n\<rparr>)))))"

definition delivery_record :: "string \<Rightarrow> nat \<Rightarrow> store \<Rightarrow> (DeliveryRecord, store_error) result" where
  "delivery_record sid event_sequence s =
     rbind (to_i64 event_sequence ''event sequence'') (\<lambda>n.
     rbind (ok_or (Report ''delivery intent not found'')
             (select_one (is_delivery sid n) (st_deliveries s))) (\<lambda>row.
     rbind (map_err Report (DeliveryStage_parse (dl_stage row))) (\<lambda>stage.
     rbind (to_u32_attempts (dl_attempts row)) (\<lambda>attempts.
     Ok \<lparr>dv_stage = stage, dv_attempts = attempts\<rparr>))))"

definition acknowledged_delivery :: "timestamp \<Rightarrow> DeliveryStage \<Rightarrow> nat option \<Rightarrow> delivery_row \<Rightarrow> delivery_row" where
  "acknowledged_delivery now stage response_status r =
     r\<lparr>dl_stage := DeliveryStage_as_str stage, dl_retry_at := None,
       dl_response_status := map_option int response_status, dl_updated_at := now\<rparr>"

definition acknowledged_subscription :: "timestamp \<Rightarrow> int \<Rightarrow> subscription_row \<Rightarrow> subscription_row" where
  "acknowledged_subscription now n r = r\<lparr>sr_cursor := max (sr_cursor r) n, sr_acknowledged_at := Some now\<rparr>"

definition acknowledge_delivery_body ::
  "timestamp \<Rightarrow> string \<Rightarrow> nat \<Rightarrow> DeliveryStage \<Rightarrow> nat option \<Rightarrow> store \<Rightarrow>
   (store \<times> unit, store_error) result" where
  "acknowledge_delivery_body now sid event_sequence stage response_status s =
     rbind (to_i64 event_sequence ''event sequence'') (\<lambda>n.
     if count_where (is_delivery sid n) (st_deliveries s) \<noteq> 1
     then Err (Report ''delivery intent not found'')
     else Ok (s\<lparr>st_deliveries := update_where (is_delivery sid n)
                  (acknowledged_delivery now stage response_status) (st_deliveries s),
                st_subscriptions := update_where (\<lambda>r. sr_id r = sid)
                  (acknowledged_subscription now n) (st_subscriptions s)\<rparr>, ()))"

definition acknowledge_delivery ::
  "timestamp \<Rightarrow> string \<Rightarrow> nat \<Rightarrow> DeliveryStage \<Rightarrow> nat option \<Rightarrow> store \<Rightarrow>
   store \<times> (unit, store_error) result" where
  "acknowledge_delivery now sid event_sequence stage response_status s =
     (if stage = DlQueued then (s, Err (Report ''delivery acknowledgement is not final''))
      else transact (acknowledge_delivery_body now sid event_sequence stage response_status) s)"

definition skip_subscription_event :: "string \<Rightarrow> nat \<Rightarrow> store \<Rightarrow> store \<times> (unit, store_error) result" where
  "skip_subscription_event sid event_sequence s =
     (case to_i64 event_sequence ''event sequence'' of
        Inl e \<Rightarrow> (s, Inl e)
      | Inr n \<Rightarrow>
          (s\<lparr>st_subscriptions := update_where (\<lambda>r. sr_id r = sid)
              (\<lambda>r. r\<lparr>sr_cursor := max (sr_cursor r) n\<rparr>) (st_subscriptions s)\<rparr>, Ok ()))"

section \<open>The delivery tables\<close>

definition delivery_key :: "delivery_row \<Rightarrow> string \<times> int" where
  "delivery_key = (\<lambda>r. (dl_subscription_id r, dl_event_sequence r))"

definition delivery_row_ok :: "delivery_row \<Rightarrow> bool" where
  "delivery_row_ok r \<longleftrightarrow> is_ok (DeliveryStage_parse (dl_stage r)) \<and> 1 \<le> dl_attempts r"

definition deliveries_inv :: "store \<Rightarrow> bool" where
  "deliveries_inv s \<longleftrightarrow>
     distinct (map sr_id (st_subscriptions s)) \<and> (\<forall>r \<in> set (st_subscriptions s). 0 \<le> sr_cursor r) \<and>
     distinct (map delivery_key (st_deliveries s)) \<and>
     (\<forall>d \<in> set (st_deliveries s). delivery_row_ok d \<and>
        dl_subscription_id d \<in> sr_id ` set (st_subscriptions s) \<and>
        dl_event_sequence d \<in> evr_sequence ` set (st_events s))"

lemma deliveries_inv_empty: "deliveries_inv empty_store"
  by (simp add: deliveries_inv_def empty_store_def)

lemma deliveries_inv_frame:
  assumes "deliveries_inv s" and "st_subscriptions s' = st_subscriptions s"
    and "st_deliveries s' = st_deliveries s" and "set (st_events s) \<subseteq> set (st_events s')"
  shows "deliveries_inv s'"
  using assms unfolding deliveries_inv_def by (metis image_mono subsetD)

lemma is_delivery_key: "is_delivery sid n = (\<lambda>r. delivery_key r = (sid, n))"
  by (simp add: is_delivery_def delivery_key_def fun_eq_iff)

lemma delivery_selected:
  assumes "deliveries_inv s" and "d \<in> set (st_deliveries s)" and "is_delivery sid n d"
  shows "select_one (is_delivery sid n) (st_deliveries s) = Some d"
  using assms deliveries_t.member_found[of "st_deliveries s" d]
  by (simp add: deliveries_inv_def is_delivery_key delivery_key_def)

definition cursor_of :: "string \<Rightarrow> store \<Rightarrow> int option" where
  "cursor_of sid s = map_option sr_cursor (select_one (\<lambda>r. sr_id r = sid) (st_subscriptions s))"

text \<open>Cursors only move forward, and a subscription is never dropped.\<close>

definition cursors_grow :: "store \<Rightarrow> store \<Rightarrow> bool" where
  "cursors_grow s s' \<longleftrightarrow>
     (\<forall>sid c. cursor_of sid s = Some c \<longrightarrow> (\<exists>c'. cursor_of sid s' = Some c' \<and> c \<le> c'))"

lemma cursors_grow_refl [simp]: "cursors_grow s s"
  by (simp add: cursors_grow_def)

lemma cursors_grow_frame: "st_subscriptions s' = st_subscriptions s \<Longrightarrow> cursors_grow s s'"
  unfolding cursors_grow_def cursor_of_def by force

lemma cursors_grow_trans: "cursors_grow a b \<Longrightarrow> cursors_grow b c \<Longrightarrow> cursors_grow a c"
  unfolding cursors_grow_def by (meson order_trans)

lemma cursors_grow_update:
  assumes "st_subscriptions s' = update_where p f (st_subscriptions s)"
    and "\<And>r. sr_id (f r) = sr_id r" and "\<And>r. sr_cursor r \<le> sr_cursor (f r)"
  shows "cursors_grow s s'"
proof -
  have "select_one (\<lambda>r. sr_id r = sid) (st_subscriptions s')
      = map_option (\<lambda>r. if p r then f r else r) (select_one (\<lambda>r. sr_id r = sid) (st_subscriptions s))" for sid
    unfolding assms(1) using assms(2) by (rule subscriptions_t.found_after_update)
  then have "cursor_of sid s' = map_option (\<lambda>r. if p r then sr_cursor (f r) else sr_cursor r)
      (select_one (\<lambda>r. sr_id r = sid) (st_subscriptions s))" for sid
    by (auto simp: cursor_of_def option.map_comp o_def intro!: option.map_cong)
  then have new: "cursor_of sid s' = Some (if p z then sr_cursor (f z) else sr_cursor z)"
    if "select_one (\<lambda>r. sr_id r = sid) (st_subscriptions s) = Some z" for sid z
    using that by simp
  show ?thesis
    unfolding cursors_grow_def
  proof (intro allI impI)
    fix sid c
    assume "cursor_of sid s = Some c"
    then obtain z where z: "select_one (\<lambda>r. sr_id r = sid) (st_subscriptions s) = Some z" "sr_cursor z = c"
      by (auto simp: cursor_of_def)
    show "\<exists>c'. cursor_of sid s' = Some c' \<and> c \<le> c'"
      using new[OF z(1)] z(2) assms(3)[of z] by simp
  qed
qed

lemma cursors_grow_insert:
  "st_subscriptions s' = st_subscriptions s @ [r] \<Longrightarrow> cursors_grow s s'"
  by (auto simp: cursors_grow_def cursor_of_def select_one_append split: option.splits)

text \<open>An update of both tables that keeps the keys keeps the invariant.\<close>

lemma deliveries_inv_update:
  assumes "deliveries_inv s" and "st_events s' = st_events s"
    and subs: "st_subscriptions s' = update_where p f (st_subscriptions s)"
      "\<And>r. sr_id (f r) = sr_id r" "\<And>r. sr_cursor r \<le> sr_cursor (f r)"
    and dels: "st_deliveries s' = update_where q g (st_deliveries s)"
      "\<And>d. delivery_key (g d) = delivery_key d" "\<And>d. delivery_row_ok d \<Longrightarrow> delivery_row_ok (g d)"
  shows "deliveries_inv s'"
proof -
  have sub_keys: "map sr_id (st_subscriptions s') = map sr_id (st_subscriptions s)"
    unfolding subs(1) using subs(2) by (rule map_update_where)
  then have sub_set: "sr_id ` set (st_subscriptions s') = sr_id ` set (st_subscriptions s)"
    by (metis list.set_map)
  have del_keys: "map delivery_key (st_deliveries s') = map delivery_key (st_deliveries s)"
    unfolding dels(1) using dels(2) by (rule map_update_where)
  have cursors: "0 \<le> sr_cursor r" if r: "r \<in> set (st_subscriptions s')" for r
  proof -
    from r obtain r0 where "r0 \<in> set (st_subscriptions s)" "r = (if p r0 then f r0 else r0)"
      by (auto simp: subs(1) set_update_where)
    with assms(1) subs(3)[of r0] show ?thesis by (auto simp: deliveries_inv_def intro: order_trans)
  qed
  have rows: "delivery_row_ok d \<and> dl_subscription_id d \<in> sr_id ` set (st_subscriptions s) \<and>
      dl_event_sequence d \<in> evr_sequence ` set (st_events s)" if d: "d \<in> set (st_deliveries s')" for d
  proof -
    from d obtain d0 where d0: "d0 \<in> set (st_deliveries s)" "d = (if q d0 then g d0 else d0)"
      by (auto simp: dels(1) set_update_where)
    moreover from this dels(2)[of d0] have "delivery_key d = delivery_key d0" by simp
    ultimately show ?thesis
      using assms(1) dels(3)[of d0] by (auto simp: deliveries_inv_def delivery_key_def)
  qed
  from assms(1) sub_keys del_keys sub_set cursors rows assms(2) show ?thesis
    by (simp add: deliveries_inv_def)
qed

lemma update_nothing: "update_where (\<lambda>_. False) f xs = xs"
  by (simp add: update_where_def)

section \<open>What each operation does\<close>

lemma ensure_subscription_facts:
  assumes "ensure_subscription now sid filter_doc target cred s = (s', r)" and "deliveries_inv s"
  shows "deliveries_inv s'" and "cursors_grow s s'" and "st_deliveries s' = st_deliveries s"
    and "st_events s' = st_events s" and "st_event_seq s' = st_event_seq s"
proof -
  let ?f = "\<lambda>r :: subscription_row. r\<lparr>sr_filter := canonical_json filter_doc,
      sr_target := canonical_json target, sr_credential_ref := cred\<rparr>"
  consider "s' = s" | row where "s' = s\<lparr>st_subscriptions := st_subscriptions s @ [row]\<rparr>" "sr_id row = sid"
      "sid \<notin> sr_id ` set (st_subscriptions s)" "sr_cursor row = 0"
    | "s' = s\<lparr>st_subscriptions := update_where (\<lambda>r. sr_id r = sid) ?f (st_subscriptions s)\<rparr>"
  proof (cases "sid \<noteq> [] \<and> length sid \<le> 128")
    case False
    with assms(1) have "s' = s" by (auto simp: ensure_subscription_def)
    with that(1) show ?thesis .
  next
    case True
    show ?thesis
    proof (cases "select_one (\<lambda>r. sr_id r = sid) (st_subscriptions s)")
      case None
      then have "sid \<notin> sr_id ` set (st_subscriptions s)" by (simp add: subscriptions_t.not_found)
      with that(2) None True assms(1) show ?thesis by (auto simp: ensure_subscription_def Let_def)
    next
      case (Some old)
      with that(3) True assms(1) show ?thesis by (auto simp: ensure_subscription_def Let_def)
    qed
  qed
  then have "deliveries_inv s' \<and> cursors_grow s s' \<and> st_deliveries s' = st_deliveries s
      \<and> st_events s' = st_events s \<and> st_event_seq s' = st_event_seq s"
  proof cases
    case 1
    with assms(2) show ?thesis by simp
  next
    case (2 row)
    then have "cursors_grow s s'" by (intro cursors_grow_insert[of _ _ row]) simp
    with 2 assms(2) show ?thesis by (auto simp: deliveries_inv_def)
  next
    case 3
    then have "cursors_grow s s'" by (intro cursors_grow_update[of _ _ ?f]) simp_all
    moreover have "deliveries_inv s'"
      by (rule deliveries_inv_update[OF assms(2), where g = "\<lambda>d. d" and q = "\<lambda>_. False" and f = ?f
            and p = "\<lambda>r. sr_id r = sid"])
        (use 3 in \<open>simp_all add: update_nothing\<close>)
    ultimately show ?thesis using 3 by simp
  qed
  then show "deliveries_inv s'" "cursors_grow s s'" "st_deliveries s' = st_deliveries s"
    "st_events s' = st_events s" "st_event_seq s' = st_event_seq s" by simp_all
qed


lemma begin_delivery_cases:
  assumes "begin_delivery ts_add now sid n retry s = (s', r)" and "deliveries_inv s"
  obtains (rejected) e where "s' = s" "r = Err e"
  | (blocked) "s' = s" "r = Ok None"
      "delivery_blocked now (select_one (is_delivery sid (int n)) (st_deliveries s)) = Ok True"
  | (attempt) retry_at where "ts_add now retry = Some retry_at"
      "delivery_blocked now (select_one (is_delivery sid (int n)) (st_deliveries s)) = Ok False"
      "upsert_delivery sid (int n) retry_at now s = Ok s'" "r \<noteq> Ok None"
proof (cases "begin_delivery_body ts_add now sid n retry s")
  case (Inl e)
  with assms(1) rejected show ?thesis by (auto simp: begin_delivery_def transact_def)
next
  case (Inr x)
  obtain s1 a where x: "x = (s1, a)" by (cases x)
  have s': "s' = s1" using assms(1) Inr x by (simp add: begin_delivery_def transact_def)
  note body = Inr[unfolded x begin_delivery_body_def]
  obtain b where b: "delivery_blocked now (select_one (is_delivery sid (int n)) (st_deliveries s)) = Ok b"
    using body by (auto simp: rbind_def split: sum.splits)
  show ?thesis
  proof (cases b)
    case True
    with body b have "s1 = s" "a = None" by auto
    with blocked b True s' assms(1) Inr x show ?thesis by (simp add: begin_delivery_def transact_def)
  next
    case False
    with body b obtain retry_at where "ts_add now retry = Some retry_at"
      "upsert_delivery sid (int n) retry_at now s = Ok s1" "a \<noteq> None"
      by auto
    with attempt[of retry_at] b False s' assms(1) Inr x show ?thesis
      by (auto simp: begin_delivery_def transact_def)
  qed
qed

lemma upsert_delivery_facts:
  assumes "upsert_delivery sid n retry_at now s = Ok s'" and "deliveries_inv s"
  shows "deliveries_inv s'" and "st_subscriptions s' = st_subscriptions s"
    and "st_events s' = st_events s" and "st_event_seq s' = st_event_seq s"
    and "\<exists>d \<in> set (st_deliveries s'). is_delivery sid n d \<and> dl_retry_at d = Some retry_at
           \<and> (select_one (is_delivery sid n) (st_deliveries s) = None \<longrightarrow> dl_stage d = ''queued'')
           \<and> (\<forall>old. select_one (is_delivery sid n) (st_deliveries s) = Some old \<longrightarrow>
                dl_stage d = dl_stage old \<and> dl_attempts d = dl_attempts old + 1)"
    and "n \<in> evr_sequence ` set (st_events s)"
    and "\<And>d. d \<in> set (st_deliveries s) \<Longrightarrow> \<not> is_delivery sid n d \<Longrightarrow> d \<in> set (st_deliveries s')"
proof -
  let ?f = "\<lambda>r :: delivery_row. r\<lparr>dl_attempts := dl_attempts r + 1, dl_retry_at := Some retry_at, dl_updated_at := now\<rparr>"
  have "deliveries_inv s' \<and> st_subscriptions s' = st_subscriptions s \<and> st_events s' = st_events s
    \<and> st_event_seq s' = st_event_seq s
    \<and> (\<exists>d \<in> set (st_deliveries s'). is_delivery sid n d \<and> dl_retry_at d = Some retry_at
           \<and> (select_one (is_delivery sid n) (st_deliveries s) = None \<longrightarrow> dl_stage d = ''queued'')
           \<and> (\<forall>old. select_one (is_delivery sid n) (st_deliveries s) = Some old \<longrightarrow>
                dl_stage d = dl_stage old \<and> dl_attempts d = dl_attempts old + 1))
    \<and> n \<in> evr_sequence ` set (st_events s)
    \<and> (\<forall>d \<in> set (st_deliveries s). \<not> is_delivery sid n d \<longrightarrow> d \<in> set (st_deliveries s'))"
  proof (cases "select_one (is_delivery sid n) (st_deliveries s)")
    case None
    let ?row = "\<lparr>dl_subscription_id = sid, dl_event_sequence = n, dl_stage = ''queued'', dl_attempts = 1,
            dl_retry_at = Some retry_at, dl_response_status = None, dl_updated_at = now\<rparr>"
    have s': "s' = s\<lparr>st_deliveries := st_deliveries s @ [?row]\<rparr>"
      and fk: "sid \<in> sr_id ` set (st_subscriptions s)" "n \<in> evr_sequence ` set (st_events s)"
      using assms(1) None by (auto simp: upsert_delivery_def split: if_split_asm)
    have "(sid, n) \<notin> delivery_key ` set (st_deliveries s)"
      using None by (auto simp: select_one_None_iff is_delivery_key)
    with assms(2) fk have "deliveries_inv s'"
      by (auto simp: s' deliveries_inv_def delivery_row_ok_def delivery_key_def DeliveryStage_parse_def)
    with None fk show ?thesis by (simp add: s' is_delivery_def)
  next
    case (Some old)
    then have s': "s' = s\<lparr>st_deliveries := update_where (is_delivery sid n) ?f (st_deliveries s)\<rparr>"
      using assms(1) by (simp add: upsert_delivery_def)
    have old: "old \<in> set (st_deliveries s)" "is_delivery sid n old"
      using Some by (auto dest: select_one_Some_iff)
    have "deliveries_inv s'"
      by (rule deliveries_inv_update[OF assms(2), where f = "\<lambda>d. d" and p = "\<lambda>_. False" and g = ?f])
        (simp_all add: s' update_nothing delivery_key_def delivery_row_ok_def)
    moreover have "?f old \<in> set (st_deliveries s')" "is_delivery sid n (?f old)"
      using old by (force simp: s' set_update_where, simp add: is_delivery_def)
    moreover have "n \<in> evr_sequence ` set (st_events s)"
      using assms(2) old by (auto simp: deliveries_inv_def is_delivery_def)
    moreover have "\<forall>d \<in> set (st_deliveries s). \<not> is_delivery sid n d \<longrightarrow> d \<in> set (st_deliveries s')"
      by (force simp: s' set_update_where)
    ultimately show ?thesis
      using Some by (intro conjI bexI[of _ "?f old"]) (simp_all add: s')
  qed
  then show "deliveries_inv s'" and "st_subscriptions s' = st_subscriptions s"
    and "st_events s' = st_events s" and "st_event_seq s' = st_event_seq s"
    and "\<exists>d \<in> set (st_deliveries s'). is_delivery sid n d \<and> dl_retry_at d = Some retry_at
           \<and> (select_one (is_delivery sid n) (st_deliveries s) = None \<longrightarrow> dl_stage d = ''queued'')
           \<and> (\<forall>old. select_one (is_delivery sid n) (st_deliveries s) = Some old \<longrightarrow>
                dl_stage d = dl_stage old \<and> dl_attempts d = dl_attempts old + 1)"
    and "n \<in> evr_sequence ` set (st_events s)"
    and "\<And>d. d \<in> set (st_deliveries s) \<Longrightarrow> \<not> is_delivery sid n d \<Longrightarrow> d \<in> set (st_deliveries s')"
    by blast+
qed

lemma begin_delivery_facts:
  assumes "begin_delivery ts_add now sid n retry s = (s', r)" and "deliveries_inv s"
  shows "deliveries_inv s'" and "cursors_grow s s'"
    and "st_events s' = st_events s" and "st_event_seq s' = st_event_seq s"
proof -
  have "deliveries_inv s' \<and> st_subscriptions s' = st_subscriptions s \<and> st_events s' = st_events s
      \<and> st_event_seq s' = st_event_seq s"
    using assms
  proof (cases rule: begin_delivery_cases)
    case (attempt retry_at)
    from upsert_delivery_facts[OF attempt(3) assms(2)] show ?thesis by simp
  qed (use assms(2) in simp_all)
  then show "deliveries_inv s'" "cursors_grow s s'" "st_events s' = st_events s" "st_event_seq s' = st_event_seq s"
    by (simp_all add: cursors_grow_frame)
qed

lemma acknowledge_cases:
  assumes "acknowledge_delivery now sid n stage status s = (s', r)"
  obtains (rejected) e where "s' = s" "r = Err e"
  | (acked) "stage \<noteq> DlQueued" "r = Ok ()" "count_where (is_delivery sid (int n)) (st_deliveries s) = 1"
      "s' = s\<lparr>st_deliveries := update_where (is_delivery sid (int n)) (acknowledged_delivery now stage status) (st_deliveries s),
             st_subscriptions := update_where (\<lambda>r. sr_id r = sid) (acknowledged_subscription now (int n)) (st_subscriptions s)\<rparr>"
proof (cases "stage \<noteq> DlQueued \<and> int n \<le> i64_max \<and> count_where (is_delivery sid (int n)) (st_deliveries s) = 1")
  case False
  then have "\<exists>e. acknowledge_delivery now sid n stage status s = (s, Err e)"
    by (auto simp: acknowledge_delivery_def acknowledge_delivery_body_def transact_def to_i64_def)
  with assms rejected show ?thesis by auto
next
  case True
  then have "acknowledge_delivery now sid n stage status s
      = (s\<lparr>st_deliveries := update_where (is_delivery sid (int n)) (acknowledged_delivery now stage status) (st_deliveries s),
           st_subscriptions := update_where (\<lambda>r. sr_id r = sid) (acknowledged_subscription now (int n)) (st_subscriptions s)\<rparr>, Ok ())"
    by (simp add: acknowledge_delivery_def acknowledge_delivery_body_def transact_def to_i64_def)
  with assms acked True show ?thesis by simp
qed

lemma acknowledge_facts:
  assumes "acknowledge_delivery now sid n stage status s = (s', r)" and "deliveries_inv s"
  shows "deliveries_inv s'" and "cursors_grow s s'"
    and "st_events s' = st_events s" and "st_event_seq s' = st_event_seq s"
proof -
  have "deliveries_inv s' \<and> cursors_grow s s' \<and> st_events s' = st_events s \<and> st_event_seq s' = st_event_seq s"
    using assms(1)
  proof (cases rule: acknowledge_cases)
    case rejected
    with assms(2) show ?thesis by simp
  next
    case acked
    have "deliveries_inv s'"
      by (rule deliveries_inv_update[OF assms(2), where f = "acknowledged_subscription now (int n)"
            and g = "acknowledged_delivery now stage status" and p = "\<lambda>r. sr_id r = sid"
            and q = "is_delivery sid (int n)"])
        (simp_all add: acked(4) acknowledged_subscription_def acknowledged_delivery_def delivery_key_def
          delivery_row_ok_def)
    moreover have "cursors_grow s s'"
      by (rule cursors_grow_update[where f = "acknowledged_subscription now (int n)" and p = "\<lambda>r. sr_id r = sid"])
        (simp_all add: acked(4) acknowledged_subscription_def)
    ultimately show ?thesis by (simp add: acked(4))
  qed
  then show "deliveries_inv s'" "cursors_grow s s'" "st_events s' = st_events s" "st_event_seq s' = st_event_seq s"
    by simp_all
qed

lemma skip_facts:
  assumes "skip_subscription_event sid n s = (s', r)" and "deliveries_inv s"
  shows "deliveries_inv s'" and "cursors_grow s s'" and "st_deliveries s' = st_deliveries s"
    and "st_events s' = st_events s" and "st_event_seq s' = st_event_seq s"
proof -
  let ?f = "\<lambda>r :: subscription_row. r\<lparr>sr_cursor := max (sr_cursor r) (int n)\<rparr>"
  consider "s' = s" | "s' = s\<lparr>st_subscriptions := update_where (\<lambda>r. sr_id r = sid) ?f (st_subscriptions s)\<rparr>"
    using assms(1) by (cases "int n \<le> i64_max") (auto simp: skip_subscription_event_def to_i64_def)
  then have "deliveries_inv s' \<and> cursors_grow s s' \<and> st_deliveries s' = st_deliveries s
      \<and> st_events s' = st_events s \<and> st_event_seq s' = st_event_seq s"
  proof cases
    case 2
    have "deliveries_inv s'"
      by (rule deliveries_inv_update[OF assms(2), where f = ?f and g = "\<lambda>d. d"
            and p = "\<lambda>r. sr_id r = sid" and q = "\<lambda>_. False"]) (simp_all add: 2 update_nothing)
    moreover have "cursors_grow s s'"
      by (rule cursors_grow_update[where f = ?f and p = "\<lambda>r. sr_id r = sid"]) (simp_all add: 2)
    ultimately show ?thesis by (simp add: 2)
  qed (use assms(2) in simp)
  then show "deliveries_inv s'" "cursors_grow s s'" "st_deliveries s' = st_deliveries s"
    "st_events s' = st_events s" "st_event_seq s' = st_event_seq s" by simp_all
qed

lemma prune_preserves_deliveries_inv:
  assumes "prune_events_through n s = (s', r)" and "deliveries_inv s"
  shows "deliveries_inv s'"
  using assms(1)
proof (cases rule: prune_cases)
  case rejected
  with assms(2) show ?thesis by simp
next
  case pruned
  have "d \<in> set (st_deliveries s) \<Longrightarrow> dl_event_sequence d \<notin> evr_sequence ` set (filter (\<lambda>r. evr_sequence r \<le> int n) (st_events s))
      \<Longrightarrow> dl_event_sequence d \<in> evr_sequence ` set (filter (\<lambda>r. int n < evr_sequence r) (st_events s))" for d
    using assms(2) by (force simp: deliveries_inv_def)
  with assms(2) show ?thesis
    by (auto simp: pruned(3) deliveries_inv_def distinct_map_filter)
qed

section \<open>Settled deliveries\<close>

text \<open>
  An event is settled for a subscription once its delivery is acknowledged; pruning the event
  settles it too, because sequence numbers are not reused.
\<close>

definition settled :: "string \<Rightarrow> nat \<Rightarrow> store \<Rightarrow> bool" where
  "settled sid n s \<longleftrightarrow>
     int n \<le> st_event_seq s \<and>
     (int n \<in> evr_sequence ` set (st_events s) \<longrightarrow>
        (\<exists>d \<in> set (st_deliveries s). is_delivery sid (int n) d \<and> dl_stage d \<noteq> ''queued''))"

lemma acknowledge_settles:
  assumes "acknowledge_delivery now sid n stage status s = (s', Ok ())"
    and "deliveries_inv s" and "events_inv s"
  shows "settled sid n s'"
  using assms(1)
proof (cases rule: acknowledge_cases)
  case (rejected e)
  then show ?thesis by simp
next
  case acked
  then obtain d where d: "d \<in> set (st_deliveries s)" "is_delivery sid (int n) d"
    using count_where_pos[of "is_delivery sid (int n)" "st_deliveries s"] by auto
  let ?d = "acknowledged_delivery now stage status d"
  have "?d \<in> set (st_deliveries s')" using d by (force simp: acked(4) set_update_where)
  moreover have "is_delivery sid (int n) ?d" "dl_stage ?d \<noteq> ''queued''"
    using d(2) acked(1) by (cases stage; simp add: acknowledged_delivery_def is_delivery_def)+
  moreover have "int n \<in> evr_sequence ` set (st_events s)"
    using assms(2) d unfolding deliveries_inv_def is_delivery_def by (metis Pair_inject)
  then have "int n \<le> st_event_seq s"
    using events_inv_row(3)[OF assms(3)] by (metis imageE)
  ultimately show ?thesis by (auto simp: settled_def acked(4))
qed

text \<open>A settled event is never handed out again.\<close>

lemma settled_not_attempted:
  assumes "settled sid n s" and "deliveries_inv s"
    and "begin_delivery ts_add now sid n retry s = (s', r)"
  shows "s' = s" and "r \<noteq> Ok (Some d)"
proof -
  have "s' = s \<and> r \<noteq> Ok (Some d)"
    using assms(3,2)
  proof (cases rule: begin_delivery_cases)
    case (attempt retry_at)
    note up = upsert_delivery_facts(6)[OF attempt(3) assms(2)]
    with assms(1) obtain x where x: "x \<in> set (st_deliveries s)" "is_delivery sid (int n) x" "dl_stage x \<noteq> ''queued''"
      by (auto simp: settled_def)
    from assms(2) x(1) have "is_ok (DeliveryStage_parse (dl_stage x))"
      by (simp add: deliveries_inv_def delivery_row_ok_def)
    then obtain st where st: "DeliveryStage_parse (dl_stage x) = Ok st"
      by (cases "DeliveryStage_parse (dl_stage x)") simp_all
    then have "st \<noteq> DlQueued" using x(3) delivery_stage.dec_only[OF st] by auto
    then show ?thesis
      using attempt(2) delivery_selected[OF assms(2) x(1,2)] st by (simp add: delivery_blocked_def)
  qed simp_all
  then show "s' = s" and "r \<noteq> Ok (Some d)" by simp_all
qed

lemma settled_begin:
  assumes "settled sid n s" and "deliveries_inv s" and "begin_delivery ts_add now sid' m retry s = (s', r)"
  shows "settled sid n s'"
proof (cases "sid' = sid \<and> m = n")
  case True
  with settled_not_attempted(1)[OF assms(1,2)] assms(1,3) show ?thesis by blast
next
  case False
  note frame = begin_delivery_facts(3,4)[OF assms(3,2)]
  from assms(3,2) have "d \<in> set (st_deliveries s')" if "d \<in> set (st_deliveries s)" "is_delivery sid (int n) d" for d
  proof (cases rule: begin_delivery_cases)
    case (attempt retry_at)
    from that False have "\<not> is_delivery sid' (int m) d" by (auto simp: is_delivery_def)
    with upsert_delivery_facts(7)[OF attempt(3) assms(2)] that show ?thesis by blast
  qed (use that in simp_all)
  with assms(1) show ?thesis by (auto simp: settled_def frame)
qed

lemma settled_acknowledge:
  assumes "settled sid n s" and "acknowledge_delivery now sid' m stage status s = (s', r)"
  shows "settled sid n s'"
  using assms(2)
proof (cases rule: acknowledge_cases)
  case rejected
  with assms(1) show ?thesis by simp
next
  case acked
  let ?g = "acknowledged_delivery now stage status"
  have "\<exists>d' \<in> set (st_deliveries s'). is_delivery sid (int n) d' \<and> dl_stage d' \<noteq> ''queued''"
    if d: "d \<in> set (st_deliveries s)" "is_delivery sid (int n) d" "dl_stage d \<noteq> ''queued''" for d
  proof -
    have "(if is_delivery sid' (int m) d then ?g d else d) \<in> set (st_deliveries s')"
      using d(1) by (force simp: acked(4) set_update_where)
    moreover have "dl_stage (?g d) \<noteq> ''queued''" "is_delivery sid (int n) (?g d) = is_delivery sid (int n) d"
      using acked(1) by (cases stage; simp add: acknowledged_delivery_def is_delivery_def)+
    ultimately show ?thesis using d by (cases "is_delivery sid' (int m) d") auto
  qed
  with assms(1) show ?thesis by (auto simp: settled_def acked(4))
qed

lemma settled_prune:
  assumes "settled sid n s" and "prune_events_through m s = (s', r)" and "events_inv s"
  shows "settled sid n s'"
  using assms(2)
proof (cases rule: prune_cases)
  case rejected
  with assms(1) show ?thesis by simp
next
  case pruned
  show ?thesis
    using assms(1) by (auto simp: settled_def pruned(3) is_delivery_def)
qed

text \<open>Appending events keeps settled events settled: the new event has a fresh number.\<close>

lemma settled_frame:
  assumes "settled sid n s" and "st_deliveries s' = st_deliveries s" and "st_event_seq s \<le> st_event_seq s'"
    and "\<And>x. x \<in> set (st_events s') \<Longrightarrow> x \<in> set (st_events s) \<or> st_event_seq s < evr_sequence x"
  shows "settled sid n s'"
  using assms by (fastforce simp: settled_def)

end
