(* ===== verification/Store_Remediations.thy ===== *)
theory Store_Remediations
  imports Store_Delivery
begin

text \<open>
  \<open>maxops-store/src/lib.rs\<close>, remediations: the lease on an alert episode and its host, with the
  attempt budget and the cooldown, and its completion.

  \<open>as_second\<close> is jiff's \<open>Timestamp::as_second\<close> and \<open>ts_text\<close> the text of a timestamp, which
  \<open>MAX(started_at)\<close> compares.
\<close>

section \<open>Operations\<close>

record RemediationCompletion =
  rc_expected_revision :: nat
  rc_outcome :: RemediationState
  rc_related_job_id :: "JobId option"
  rc_related_change_id :: "ChangeId option"
  rc_summary :: string

definition row_to_remediation :: "remediation_row \<Rightarrow> (RemediationRecord, store_error) result" where
  "row_to_remediation row =
     rbind (map_err Report (RemediationId_parse (mr_id row))) (\<lambda>rid.
     rbind (map_err Report (EventId_parse (mr_event_id row))) (\<lambda>event_id.
     rbind (map_err Report (EpisodeId_parse (mr_episode_id row))) (\<lambda>episode_id.
     rbind (if 0 \<le> mr_attempt row \<and> nat (mr_attempt row) \<le> u16_max then Ok (nat (mr_attempt row))
            else Err (Report ''invalid remediation attempt'')) (\<lambda>attempt.
     rbind (to_u64 (mr_revision row) ''remediation revision'') (\<lambda>revision.
     rbind (map_err Report (RemediationState_parse (mr_state row))) (\<lambda>state.
     rbind (case mr_related_job_id row of
              None \<Rightarrow> Ok None
            | Some j \<Rightarrow> rbind (map_err Report (JobId_parse j)) (\<lambda>x. Ok (Some x))) (\<lambda>job.
     rbind (case mr_related_change_id row of
              None \<Rightarrow> Ok None
            | Some c \<Rightarrow> rbind (map_err Report (ChangeId_parse c)) (\<lambda>x. Ok (Some x))) (\<lambda>change.
     Ok \<lparr>rm_remediation_id = rid, rm_event_id = event_id, rm_episode_id = episode_id,
         rm_host = mr_host row, rm_principal = mr_principal row, rm_attempt = attempt,
         rm_revision = revision, rm_state = state, rm_started_at = mr_started_at row,
         rm_finished_at = mr_finished_at row, rm_related_job_id = job,
         rm_related_change_id = change, rm_summary = mr_summary row\<rparr>))))))))"

definition get_remediation ::
  "RemediationId \<Rightarrow> string \<Rightarrow> store \<Rightarrow> (RemediationRecord, store_error) result" where
  "get_remediation rid prin s =
     rbind (ok_or (Report ''remediation not found'')
             (select_one (\<lambda>r. mr_id r = remediation_id_str rid \<and> mr_principal r = prin)
               (st_remediations s))) row_to_remediation"

text \<open>\<open>SELECT MAX(started_at)\<close>: the greatest text.\<close>

definition last_started_at :: "(timestamp \<Rightarrow> string) \<Rightarrow> remediation_row list \<Rightarrow> timestamp option" where
  "last_started_at ts_text rows =
     (if rows = [] then None
      else Some (mr_started_at (last (sort_key (\<lambda>r. ts_text (mr_started_at r)) rows))))"

text \<open>\<open>INSERT INTO remediations\<close>, with its primary key and its foreign keys.\<close>

definition insert_remediation_row :: "remediation_row \<Rightarrow> store \<Rightarrow> (store, store_error) result" where
  "insert_remediation_row row s =
     (if mr_id row \<in> mr_id ` set (st_remediations s)
      then Err (Constraint ''UNIQUE constraint failed: remediations.id'')
      else if mr_event_id row \<notin> evr_id ` set (st_events s)
              \<or> \<not> set_option (mr_related_job_id row) \<subseteq> jr_id ` set (st_jobs s)
      then Err (Constraint ''FOREIGN KEY constraint failed'')
      else Ok (s\<lparr>st_remediations := st_remediations s @ [row]\<rparr>))"

definition new_remediation_row ::
  "timestamp \<Rightarrow> RemediationId \<Rightarrow> EventId \<Rightarrow> EpisodeId \<Rightarrow> string \<Rightarrow> string \<Rightarrow> JobId \<Rightarrow> int \<Rightarrow> remediation_row" where
  "new_remediation_row now rid event_id episode_id host prin related_job_id attempt =
     \<lparr>mr_id = remediation_id_str rid, mr_event_id = event_id_str event_id,
      mr_episode_id = episode_id_str episode_id, mr_host = host, mr_principal = prin,
      mr_attempt = attempt, mr_revision = 1, mr_state = ''active'', mr_started_at = now,
      mr_finished_at = None, mr_related_job_id = Some (job_id_str related_job_id),
      mr_related_change_id = None, mr_summary = None\<rparr>"

text \<open>
  The lease checks, in their order: no active remediation of the episode or of the host, budget
  left, cooldown over.  The result is the number of the new attempt.
\<close>

definition lease_attempt ::
  "(timestamp \<Rightarrow> string) \<Rightarrow> (timestamp \<Rightarrow> int) \<Rightarrow> timestamp \<Rightarrow> string \<Rightarrow> string \<Rightarrow> nat \<Rightarrow> nat \<Rightarrow> store \<Rightarrow>
   (int, store_error) result" where
  "lease_attempt ts_text as_second now episode host max_attempts cooldown_seconds s =
     (let of_episode = filter (\<lambda>r. mr_episode_id r = episode) (st_remediations s);
          attempts = int (length of_episode) in
      if count_where (\<lambda>r. mr_episode_id r = episode \<and> mr_state r = ''active'') (st_remediations s) \<noteq> 0
      then Err (Report ''remediation already active for this episode'')
      else if count_where (\<lambda>r. mr_host r = host \<and> mr_state r = ''active'') (st_remediations s) \<noteq> 0
      then Err (Report ''remediation already active for this host'')
      else if \<not> attempts < int max_attempts then Err (Report ''remediation attempt budget exhausted'')
      else if (case last_started_at ts_text of_episode of
                 None \<Rightarrow> False
               | Some last_at \<Rightarrow> \<not> as_second now - as_second last_at \<ge> int cooldown_seconds)
      then Err (Report ''remediation cooldown active'')
      else Ok (attempts + 1))"

definition begin_remediation_body ::
  "(timestamp \<Rightarrow> string) \<Rightarrow> (timestamp \<Rightarrow> int) \<Rightarrow> timestamp \<Rightarrow> RemediationId \<Rightarrow> string \<Rightarrow> EventId \<Rightarrow>
   string \<Rightarrow> string \<Rightarrow> JobId \<Rightarrow> nat \<Rightarrow> nat \<Rightarrow> store \<Rightarrow> (store \<times> RemediationId, store_error) result" where
  "begin_remediation_body ts_text as_second now rid fresh_event event_id host prin related_job_id
       max_attempts cooldown_seconds s =
     (case select_one (\<lambda>r. mr_related_job_id r = Some (job_id_str related_job_id) \<and> mr_principal r = prin)
             (st_remediations s) of
        Some row \<Rightarrow>
          rbind (map_err Report (RemediationId_parse (mr_id row))) (\<lambda>existing. Ok (s, existing))
      | None \<Rightarrow>
          rbind (ok_or (Report ''event not found'')
                  (select_one (\<lambda>r. evr_id r = event_id_str event_id) (st_events s))) (\<lambda>event.
          if evr_host event \<noteq> host then Err (Report ''event not found'')
          else
            rbind (map_err Report (EpisodeId_parse (evr_episode_id event))) (\<lambda>episode_id.
            rbind (lease_attempt ts_text as_second now (episode_id_str episode_id) host
                    max_attempts cooldown_seconds s) (\<lambda>attempt.
            rbind (insert_remediation_row
                    (new_remediation_row now rid event_id episode_id host prin related_job_id attempt) s) (\<lambda>s1.
            rbind (map_err Report (EventId_parse fresh_event)) (\<lambda>lifecycle_event.
            rbind (insert_fleet_event (event_id_str lifecycle_event)
                    \<lparr>nf_source = ''maxops.remediation'', nf_fingerprint = evr_fingerprint event,
                     nf_episode_id = episode_id, nf_kind = RemediationStarted, nf_host = host,
                     nf_occurred_at = now, nf_related_job_id = Some related_job_id,
                     nf_related_change_id = None,
                     nf_payload = JObject
                       [(''remediation_id'', JString (remediation_id_str rid)),
                        (''attempt'', JNumber (PosInt (nat attempt))),
                        (''principal'', JString prin)]\<rparr> now s1) (\<lambda>(s2, _).
            Ok (s2, rid))))))))"

definition begin_remediation ::
  "(timestamp \<Rightarrow> string) \<Rightarrow> (timestamp \<Rightarrow> int) \<Rightarrow> timestamp \<Rightarrow> string \<Rightarrow> string \<Rightarrow> EventId \<Rightarrow>
   string \<Rightarrow> string \<Rightarrow> JobId \<Rightarrow> nat \<Rightarrow> nat \<Rightarrow> store \<Rightarrow> store \<times> (RemediationRecord, store_error) result" where
  "begin_remediation ts_text as_second now fresh_remediation fresh_event event_id host prin
       related_job_id max_attempts cooldown_seconds s =
     (if \<not> max_attempts > 0 then (s, Err (Report ''remediation attempts must be positive''))
      else case map_err Report (RemediationId_parse fresh_remediation) of
        Inl e \<Rightarrow> (s, Inl e)
      | Inr rid \<Rightarrow>
          (case transact (begin_remediation_body ts_text as_second now rid fresh_event event_id host
                  prin related_job_id max_attempts cooldown_seconds) s of
             (s', r) \<Rightarrow> (s', rbind r (\<lambda>existing. get_remediation existing prin s'))))"

definition finished_row ::
  "timestamp \<Rightarrow> RemediationCompletion \<Rightarrow> remediation_row \<Rightarrow> remediation_row" where
  "finished_row now c r =
     r\<lparr>mr_state := RemediationState_as_str (rc_outcome c), mr_revision := mr_revision r + 1,
       mr_finished_at := Some now, mr_related_job_id := map_option job_id_str (rc_related_job_id c),
       mr_related_change_id := map_option change_id_str (rc_related_change_id c),
       mr_summary := Some (rc_summary c)\<rparr>"

definition finish_remediation_body ::
  "timestamp \<Rightarrow> string \<Rightarrow> RemediationId \<Rightarrow> string \<Rightarrow> RemediationCompletion \<Rightarrow> store \<Rightarrow>
   (store \<times> unit, store_error) result" where
  "finish_remediation_body now fresh_event rid prin c s =
     rbind (ok_or (Report ''remediation not found'')
             (select_one (\<lambda>r. mr_id r = remediation_id_str rid \<and> mr_principal r = prin)
               (st_remediations s))) (\<lambda>row.
     rbind (to_u64 (mr_revision row) ''remediation revision'') (\<lambda>revision.
     if revision \<noteq> rc_expected_revision c then Err (Report ''remediation revision changed'')
     else if mr_state row \<noteq> ''active'' then Err (Report ''remediation is terminal'')
     else
       rbind (map_err Report (EventId_parse (mr_event_id row))) (\<lambda>event_id.
       rbind (map_err Report (EpisodeId_parse (mr_episode_id row))) (\<lambda>episode_id.
       rbind (ok_or (Report ''no rows returned by a query that expected to return at least one row'')
               (select_one (\<lambda>r. evr_id r = event_id_str event_id) (st_events s))) (\<lambda>event.
       rbind (to_i64 (rc_expected_revision c) ''remediation revision'') (\<lambda>rev_i.
       if \<not> set_option (map_option job_id_str (rc_related_job_id c)) \<subseteq> jr_id ` set (st_jobs s)
          \<or> \<not> set_option (map_option change_id_str (rc_related_change_id c)) \<subseteq> cr_id ` set (st_changes s)
       then Err (Constraint ''FOREIGN KEY constraint failed'')
       else
         let s1 = s\<lparr>st_remediations := update_where
               (\<lambda>r. mr_id r = remediation_id_str rid \<and> mr_principal r = prin \<and> mr_revision r = rev_i)
               (finished_row now c) (st_remediations s)\<rparr> in
         rbind (map_err Report (EventId_parse fresh_event)) (\<lambda>lifecycle_event.
         rbind (insert_fleet_event (event_id_str lifecycle_event)
                 \<lparr>nf_source = ''maxops.remediation'', nf_fingerprint = evr_fingerprint event,
                  nf_episode_id = episode_id, nf_kind = RemediationFinished,
                  nf_host = mr_host row, nf_occurred_at = now,
                  nf_related_job_id = rc_related_job_id c,
                  nf_related_change_id = rc_related_change_id c,
                  nf_payload = JObject
                    [(''remediation_id'', JString (remediation_id_str rid)),
                     (''outcome'', JString (RemediationState_as_str (rc_outcome c))),
                     (''summary'', JString (rc_summary c))]\<rparr> now s1) (\<lambda>(s2, _).
         Ok (s2, ())))))))))"

definition finish_remediation ::
  "timestamp \<Rightarrow> string \<Rightarrow> RemediationId \<Rightarrow> string \<Rightarrow> RemediationCompletion \<Rightarrow> store \<Rightarrow>
   store \<times> (RemediationRecord, store_error) result" where
  "finish_remediation now fresh_event rid prin c s =
     (if rc_outcome c = RmActive then (s, Err (Report ''remediation outcome must be terminal''))
      else if \<not> (rc_summary c \<noteq> [] \<and> length (rc_summary c) \<le> 1024)
      then (s, Err (Report ''invalid remediation summary''))
      else case transact (finish_remediation_body now fresh_event rid prin c) s of
        (s', r) \<Rightarrow> (s', rbind r (\<lambda>_. get_remediation rid prin s')))"

section \<open>The remediation table\<close>

definition remediation_row_ok :: "remediation_row \<Rightarrow> bool" where
  "remediation_row_ok r \<longleftrightarrow>
     uuid_text (mr_id r) \<and> uuid_text (mr_event_id r) \<and> uuid_text (mr_episode_id r) \<and>
     1 \<le> mr_attempt r \<and> mr_attempt r \<le> int u16_max \<and> 1 \<le> mr_revision r \<and>
     is_ok (RemediationState_parse (mr_state r)) \<and>
     list_all uuid_text (case mr_related_job_id r of None \<Rightarrow> [] | Some j \<Rightarrow> [j]) \<and>
     list_all uuid_text (case mr_related_change_id r of None \<Rightarrow> [] | Some c \<Rightarrow> [c])"

abbreviation is_active :: "remediation_row \<Rightarrow> bool" where
  "is_active r \<equiv> mr_state r = ''active''"

text \<open>
  Every row decodes and refers to a stored event; at most one remediation of an episode and at
  most one of a host is active; the attempts of an episode are numbered 1, 2, 3, ... in order.
\<close>

definition remediations_inv :: "store \<Rightarrow> bool" where
  "remediations_inv s \<longleftrightarrow>
     distinct (map mr_id (st_remediations s)) \<and>
     (\<forall>r \<in> set (st_remediations s). remediation_row_ok r \<and> mr_event_id r \<in> evr_id ` set (st_events s)) \<and>
     (\<forall>e. count_where (\<lambda>r. mr_episode_id r = e \<and> is_active r) (st_remediations s) \<le> 1) \<and>
     (\<forall>h. count_where (\<lambda>r. mr_host r = h \<and> is_active r) (st_remediations s) \<le> 1) \<and>
     (\<forall>e. map mr_attempt (filter (\<lambda>r. mr_episode_id r = e) (st_remediations s))
          = [1..int (length (filter (\<lambda>r. mr_episode_id r = e) (st_remediations s)))])"

lemma remediations_inv_empty: "remediations_inv empty_store"
  by (simp add: remediations_inv_def empty_store_def)

lemma remediations_inv_frame:
  assumes "remediations_inv s" and "st_remediations s' = st_remediations s"
    and "evr_id ` set (st_events s) \<subseteq> evr_id ` set (st_events s')"
  shows "remediations_inv s'"
  using assms unfolding remediations_inv_def by (metis subsetD)

lemma remediations_inv_row: "remediations_inv s \<Longrightarrow> r \<in> set (st_remediations s) \<Longrightarrow> remediation_row_ok r"
  by (simp add: remediations_inv_def)

lemma remediations_inv_distinct: "remediations_inv s \<Longrightarrow> distinct (map mr_id (st_remediations s))"
  by (simp add: remediations_inv_def)

lemma row_to_remediation_ok:
  assumes "remediation_row_ok r"
  shows "\<exists>x. row_to_remediation r = Ok x \<and> remediation_id_str (rm_remediation_id x) = mr_id r
    \<and> rm_state x = (case RemediationState_parse (mr_state r) of Inr st \<Rightarrow> st | Inl _ \<Rightarrow> RmActive)
    \<and> rm_attempt x = nat (mr_attempt r) \<and> rm_revision x = nat (mr_revision r)
    \<and> rm_host x = mr_host r \<and> rm_episode_id x = EpisodeId (mr_episode_id r)"
proof -
  obtain st where "RemediationState_parse (mr_state r) = Ok st"
    using assms by (cases "RemediationState_parse (mr_state r)") (simp_all add: remediation_row_ok_def)
  with assms show ?thesis
    by (cases "mr_related_job_id r"; cases "mr_related_change_id r")
      (simp_all add: row_to_remediation_def remediation_row_ok_def RemediationId_parse_def
        EventId_parse_def EpisodeId_parse_def JobId_parse_def ChangeId_parse_def to_u64_def nat_le_iff)
qed

lemma get_remediation_found:
  assumes "remediations_inv s" and "r \<in> set (st_remediations s)"
  shows "get_remediation (RemediationId (mr_id r)) (mr_principal r) s = row_to_remediation r"
proof -
  have "select_one (\<lambda>x. mr_id x = mr_id r \<and> mr_principal x = mr_principal r) (st_remediations s) = Some r"
  proof -
    obtain x where x: "select_one (\<lambda>x. mr_id x = mr_id r \<and> mr_principal x = mr_principal r) (st_remediations s) = Some x"
      using assms(2) by (cases "select_one (\<lambda>x. mr_id x = mr_id r \<and> mr_principal x = mr_principal r) (st_remediations s)")
        (auto simp: select_one_None_iff)
    from select_one_Some_iff[OF x] remediations_t.key_unique[OF remediations_inv_distinct[OF assms(1)], of x r] assms(2)
    have "x = r" by simp
    with x show ?thesis by simp
  qed
  then show ?thesis by (simp add: get_remediation_def)
qed

section \<open>Beginning\<close>

lemma lease_attempt_Ok:
  assumes "lease_attempt ts_text as_second now episode host max_attempts cooldown s = Ok a"
  shows "count_where (\<lambda>r. mr_episode_id r = episode \<and> is_active r) (st_remediations s) = 0"
    and "count_where (\<lambda>r. mr_host r = host \<and> is_active r) (st_remediations s) = 0"
    and "a = int (length (filter (\<lambda>r. mr_episode_id r = episode) (st_remediations s))) + 1"
    and "a \<le> int max_attempts"
    and "case last_started_at ts_text (filter (\<lambda>r. mr_episode_id r = episode) (st_remediations s)) of
           None \<Rightarrow> True | Some t \<Rightarrow> as_second now - as_second t \<ge> int cooldown"
  using assms by (simp_all add: lease_attempt_def Let_def split: if_split_asm option.splits)

text \<open>
  The texts of timestamps order like their seconds; then the cooldown holds against every earlier
  attempt of the episode.
\<close>

lemma last_started_bound:
  assumes "\<And>a b. ts_text a \<le> ts_text b \<Longrightarrow> as_second a \<le> as_second b"
    and "r \<in> set rows"
  obtains t where "last_started_at ts_text rows = Some t" and "as_second (mr_started_at r) \<le> as_second t"
proof -
  let ?k = "\<lambda>r. ts_text (mr_started_at r)"
  let ?xs = "sort_key ?k rows"
  have ne: "?xs \<noteq> []" "rows \<noteq> []" using assms(2) by (auto simp flip: set_empty)
  have "r \<in> set ?xs" using assms(2) by simp
  have "?k r \<le> ?k (last ?xs)"
  proof -
    have srt: "sorted (map ?k ?xs)" by simp
    obtain i where i: "i < length ?xs" "r = ?xs ! i" using \<open>r \<in> set ?xs\<close> by (metis in_set_conv_nth)
    have "map ?k ?xs ! i \<le> map ?k ?xs ! (length ?xs - 1)"
      using sorted_nth_mono[OF srt, of i "length ?xs - 1"] i by simp
    with i ne show ?thesis by (simp add: last_conv_nth)
  qed
  from assms(1)[OF this] ne that show ?thesis by (simp add: last_started_at_def)
qed

lemma begin_remediation_cases:
  assumes "begin_remediation ts_text as_second now fresh_remediation fresh_event event_id host prin
    job max_attempts cooldown s = (s', r)"
  obtains (rejected) e where "s' = s" "r = Err e"
  | (existing) row where "s' = s"
      "select_one (\<lambda>r. mr_related_job_id r = Some (job_id_str job) \<and> mr_principal r = prin) (st_remediations s) = Some row"
      "r = get_remediation (RemediationId (mr_id row)) prin s"
  | (begun) event a s1 n where
      "select_one (\<lambda>r. mr_related_job_id r = Some (job_id_str job) \<and> mr_principal r = prin) (st_remediations s) = None"
      "event \<in> set (st_events s)" "evr_id event = event_id_str event_id" "evr_host event = host"
      "uuid_text (evr_episode_id event)" "uuid_text fresh_remediation" "uuid_text fresh_event"
      "lease_attempt ts_text as_second now (evr_episode_id event) host max_attempts cooldown s = Ok a"
      "insert_remediation_row (new_remediation_row now (RemediationId fresh_remediation) event_id
         (EpisodeId (evr_episode_id event)) host prin job a) s = Ok s1"
      "insert_fleet_event fresh_event
        \<lparr>nf_source = ''maxops.remediation'', nf_fingerprint = evr_fingerprint event,
         nf_episode_id = EpisodeId (evr_episode_id event), nf_kind = RemediationStarted, nf_host = host,
         nf_occurred_at = now, nf_related_job_id = Some job, nf_related_change_id = None,
         nf_payload = JObject
           [(''remediation_id'', JString fresh_remediation), (''attempt'', JNumber (PosInt (nat a))),
            (''principal'', JString prin)]\<rparr> now s1 = Ok (s', n)"
      "r = get_remediation (RemediationId fresh_remediation) prin s'"
proof (cases "max_attempts > 0 \<and> uuid_text fresh_remediation")
  case False
  then have "\<exists>e. begin_remediation ts_text as_second now fresh_remediation fresh_event event_id host prin
    job max_attempts cooldown s = (s, Err e)"
    by (auto simp: begin_remediation_def RemediationId_parse_def)
  with assms rejected show ?thesis by auto
next
  case True
  let ?rid = "RemediationId fresh_remediation"
  let ?body = "begin_remediation_body ts_text as_second now ?rid fresh_event event_id host prin job max_attempts cooldown s"
  have unf: "begin_remediation ts_text as_second now fresh_remediation fresh_event event_id host prin
      job max_attempts cooldown s
    = (case transact (begin_remediation_body ts_text as_second now ?rid fresh_event event_id host
                  prin job max_attempts cooldown) s of
             (s', r) \<Rightarrow> (s', rbind r (\<lambda>existing. get_remediation existing prin s')))"
    using True by (simp add: begin_remediation_def RemediationId_parse_def)
  show ?thesis
  proof (cases ?body)
    case (Inl e)
    with assms rejected show ?thesis unfolding unf by (auto simp: transact_def)
  next
    case (Inr x)
    obtain s2 rid where x: "x = (s2, rid)" by (cases x)
    have res: "s' = s2" "r = get_remediation rid prin s'"
      using assms Inr x unfolding unf by (auto simp: transact_def)
    show ?thesis
    proof (cases "select_one (\<lambda>r. mr_related_job_id r = Some (job_id_str job) \<and> mr_principal r = prin) (st_remediations s)")
      case (Some row)
      with Inr x have "s2 = s" "rid = RemediationId (mr_id row)"
        by (auto simp: begin_remediation_body_def RemediationId_parse_def split: if_splits)
      with existing[OF _ Some] res show ?thesis by simp
    next
      case None
      note body = Inr[unfolded x begin_remediation_body_def None]
      obtain event where sel: "select_one (\<lambda>r. evr_id r = event_id_str event_id) (st_events s) = Some event"
        using body by (cases "select_one (\<lambda>r. evr_id r = event_id_str event_id) (st_events s)") simp_all
      have host: "evr_host event = host" and epi: "uuid_text (evr_episode_id event)"
        using body sel by (auto simp: EpisodeId_parse_def split: if_split_asm)
      obtain a s1 n where
        a: "lease_attempt ts_text as_second now (evr_episode_id event) host max_attempts cooldown s = Ok a"
        and s1: "insert_remediation_row (new_remediation_row now ?rid event_id
         (EpisodeId (evr_episode_id event)) host prin job a) s = Ok s1"
        and fe: "uuid_text fresh_event"
        and ins: "insert_fleet_event fresh_event
        \<lparr>nf_source = ''maxops.remediation'', nf_fingerprint = evr_fingerprint event,
         nf_episode_id = EpisodeId (evr_episode_id event), nf_kind = RemediationStarted, nf_host = host,
         nf_occurred_at = now, nf_related_job_id = Some job, nf_related_change_id = None,
         nf_payload = JObject
           [(''remediation_id'', JString fresh_remediation), (''attempt'', JNumber (PosInt (nat a))),
            (''principal'', JString prin)]\<rparr> now s1 = Ok (s2, n)"
        and rid: "rid = ?rid"
        using body sel host epi
        by (auto simp: EpisodeId_parse_def EventId_parse_def split: if_split_asm)
      from sel have "event \<in> set (st_events s)" "evr_id event = event_id_str event_id"
        by (auto dest: events_t.found)
      with begun[OF None _ _ host epi _ fe a s1] ins True rid res show ?thesis by simp
    qed
  qed
qed

lemma insert_remediation_row_Ok:
  assumes "insert_remediation_row row s = Ok s'"
  shows "s' = s\<lparr>st_remediations := st_remediations s @ [row]\<rparr>"
    and "mr_id row \<notin> mr_id ` set (st_remediations s)" and "mr_event_id row \<in> evr_id ` set (st_events s)"
    and "set_option (mr_related_job_id row) \<subseteq> jr_id ` set (st_jobs s)"
  using assms by (simp_all add: insert_remediation_row_def split: if_split_asm)

lemma insert_preserves_remediations_inv:
  assumes "insert_remediation_row row s = Ok s'" and "remediations_inv s" and "remediation_row_ok row"
    and "count_where (\<lambda>r. mr_episode_id r = mr_episode_id row \<and> is_active r) (st_remediations s) = 0"
    and "count_where (\<lambda>r. mr_host r = mr_host row \<and> is_active r) (st_remediations s) = 0"
    and "mr_attempt row = int (length (filter (\<lambda>r. mr_episode_id r = mr_episode_id row) (st_remediations s))) + 1"
  shows "remediations_inv s'"
proof -
  have eps: "count_where (\<lambda>r. mr_episode_id r = e \<and> is_active r) (st_remediations s @ [row]) \<le> 1" for e
    using assms(2,4) by (cases "e = mr_episode_id row") (simp_all add: remediations_inv_def)
  have hosts: "count_where (\<lambda>r. mr_host r = h \<and> is_active r) (st_remediations s @ [row]) \<le> 1" for h
    using assms(2,5) by (cases "h = mr_host row") (simp_all add: remediations_inv_def)
  have att: "map mr_attempt (filter (\<lambda>r. mr_episode_id r = e) (st_remediations s @ [row]))
      = [1..int (length (filter (\<lambda>r. mr_episode_id r = e) (st_remediations s @ [row])))]" for e
  proof (cases "e = mr_episode_id row")
    case True
    let ?l = "int (length (filter (\<lambda>r. mr_episode_id r = e) (st_remediations s)))"
    have old: "map mr_attempt (filter (\<lambda>r. mr_episode_id r = e) (st_remediations s)) = [1..?l]"
      using assms(2) unfolding remediations_inv_def by blast
    have "[1..?l + 1] = [1..?l] @ [?l + 1]" using upto_rec2[of 1 "?l + 1"] by simp
    with True old assms(6) show ?thesis by (simp add: add.commute)
  next
    case False
    with assms(2) show ?thesis by (simp add: remediations_inv_def)
  qed
  from assms(2,3) eps hosts att insert_remediation_row_Ok[OF assms(1)] show ?thesis
    by (simp add: remediations_inv_def)
qed

lemma begin_preserves_remediations_inv:
  assumes "begin_remediation ts_text as_second now fresh_remediation fresh_event event_id host prin
      job max_attempts cooldown s = (s', r)"
    and "remediations_inv s" and "events_inv s"
    and "max_attempts \<le> u16_max" and "uuid_text (job_id_str job)"
  shows "remediations_inv s'" and "events_inv s'"
proof -
  have "remediations_inv s' \<and> events_inv s'"
    using assms(1)
  proof (cases rule: begin_remediation_cases)
    case rejected
    with assms(2,3) show ?thesis by simp
  next
    case existing
    with assms(2,3) show ?thesis by simp
  next
    case (begun event a s1 n)
    note lease = lease_attempt_Ok[OF begun(8)]
    let ?row = "new_remediation_row now (RemediationId fresh_remediation) event_id
         (EpisodeId (evr_episode_id event)) host prin job a"
    have "uuid_text (event_id_str event_id)"
      using events_inv_row(1)[OF assms(3) begun(2)] begun(3) by (simp add: event_row_ok_def)
    then have "remediation_row_ok ?row"
      using begun(5,6) assms(4,5) lease(3,4)
      by (simp add: remediation_row_ok_def new_remediation_row_def RemediationState_parse_def)
    then have inv1: "remediations_inv s1"
      using insert_preserves_remediations_inv[OF begun(9) assms(2)] lease(1,2,3)
      by (simp add: new_remediation_row_def)
    have "events_inv s1"
      using assms(3) by (rule events_inv_frame) (simp_all add: insert_remediation_row_Ok(1)[OF begun(9)])
    then have "events_inv s'"
      using insert_preserves_events_inv[OF begun(10) _ begun(7)] begun(5) assms(5)
      by (simp add: event_ids_ok_def)
    moreover have "remediations_inv s'"
      using inv1 by (rule remediations_inv_frame) (auto simp: insert_fleet_event_Ok(1)[OF begun(10)])
    ultimately show ?thesis by simp
  qed
  then show "remediations_inv s'" "events_inv s'" by simp_all
qed

section \<open>Finishing\<close>

lemma finish_remediation_cases:
  assumes "finish_remediation now fresh_event rid prin c s = (s', r)"
  obtains (rejected) e where "s' = s" "r = Err e"
  | (finished) row event s1 n where
      "row \<in> set (st_remediations s)" "mr_id row = remediation_id_str rid" "mr_principal row = prin"
      "mr_revision row = int (rc_expected_revision c)" "is_active row" "rc_outcome c \<noteq> RmActive"
      "uuid_text fresh_event" "uuid_text (mr_episode_id row)"
      "select_one (\<lambda>r. evr_id r = mr_event_id row) (st_events s) = Some event"
      "s1 = s\<lparr>st_remediations := update_where
               (\<lambda>r. mr_id r = remediation_id_str rid \<and> mr_principal r = prin \<and> mr_revision r = int (rc_expected_revision c))
               (finished_row now c) (st_remediations s)\<rparr>"
      "insert_fleet_event fresh_event
         \<lparr>nf_source = ''maxops.remediation'', nf_fingerprint = evr_fingerprint event,
          nf_episode_id = EpisodeId (mr_episode_id row), nf_kind = RemediationFinished,
          nf_host = mr_host row, nf_occurred_at = now, nf_related_job_id = rc_related_job_id c,
          nf_related_change_id = rc_related_change_id c,
          nf_payload = JObject
            [(''remediation_id'', JString (remediation_id_str rid)),
             (''outcome'', JString (RemediationState_as_str (rc_outcome c))),
             (''summary'', JString (rc_summary c))]\<rparr> now s1 = Ok (s', n)"
      "r = get_remediation rid prin s'"
proof (cases "rc_outcome c \<noteq> RmActive \<and> rc_summary c \<noteq> [] \<and> length (rc_summary c) \<le> 1024")
  case False
  then have "\<exists>e. finish_remediation now fresh_event rid prin c s = (s, Err e)"
    by (auto simp: finish_remediation_def)
  with assms rejected show ?thesis by auto
next
  case True
  have unf: "finish_remediation now fresh_event rid prin c s =
      (case transact (finish_remediation_body now fresh_event rid prin c) s of
        (s', r) \<Rightarrow> (s', rbind r (\<lambda>_. get_remediation rid prin s')))"
    using True by (simp add: finish_remediation_def)
  show ?thesis
  proof (cases "finish_remediation_body now fresh_event rid prin c s")
    case (Inl e)
    with assms rejected show ?thesis unfolding unf by (auto simp: transact_def)
  next
    case (Inr x)
    obtain s2 u where x: "x = (s2, u)" by (cases x)
    have res: "s' = s2" "r = get_remediation rid prin s'"
      using assms Inr x unfolding unf by (auto simp: transact_def)
    note body = Inr[unfolded x finish_remediation_body_def Let_def]
    let ?sel = "select_one (\<lambda>r. mr_id r = remediation_id_str rid \<and> mr_principal r = prin) (st_remediations s)"
    obtain row where sel: "?sel = Some row" using body by (cases ?sel) simp_all
    have rev: "mr_revision row = int (rc_expected_revision c)" and act: "is_active row"
      using body sel by (auto split: if_split_asm)
    have conv: "to_i64 (rc_expected_revision c) m = Ok i \<Longrightarrow> i = int (rc_expected_revision c)" for m i by simp
    obtain event n where epi: "uuid_text (mr_episode_id row)" and fe: "uuid_text fresh_event"
      and ev: "select_one (\<lambda>r. evr_id r = mr_event_id row) (st_events s) = Some event"
      and ins: "insert_fleet_event fresh_event
         \<lparr>nf_source = ''maxops.remediation'', nf_fingerprint = evr_fingerprint event,
          nf_episode_id = EpisodeId (mr_episode_id row), nf_kind = RemediationFinished,
          nf_host = mr_host row, nf_occurred_at = now, nf_related_job_id = rc_related_job_id c,
          nf_related_change_id = rc_related_change_id c,
          nf_payload = JObject
            [(''remediation_id'', JString (remediation_id_str rid)),
             (''outcome'', JString (RemediationState_as_str (rc_outcome c))),
             (''summary'', JString (rc_summary c))]\<rparr> now
          (s\<lparr>st_remediations := update_where
               (\<lambda>r. mr_id r = remediation_id_str rid \<and> mr_principal r = prin \<and> mr_revision r = int (rc_expected_revision c))
               (finished_row now c) (st_remediations s)\<rparr>) = Ok (s2, n)"
      using body sel rev act
      by (auto simp: EpisodeId_parse_def EventId_parse_def split: if_split_asm)
    from sel have row: "row \<in> set (st_remediations s)" "mr_id row = remediation_id_str rid" "mr_principal row = prin"
      by (auto dest: select_one_Some_iff)
    show ?thesis
      using finished[OF row rev act _ fe epi ev refl] ins True res by simp
  qed
qed

text \<open>Updates of a table that respect a predicate.\<close>

lemma filter_update_where:
  "(\<And>x. q (f x) = q x) \<Longrightarrow> filter q (update_where p f xs) = update_where p f (filter q xs)"
  by (induction xs) (auto simp: update_where_def)

lemma count_where_update_le:
  "(\<And>x. q (f x) \<Longrightarrow> q x) \<Longrightarrow> count_where q (update_where p f xs) \<le> count_where q xs"
  by (induction xs) (auto simp: update_where_def le_SucI)

lemma finished_row_simps [simp]:
  "mr_id (finished_row now c r) = mr_id r"
  "mr_event_id (finished_row now c r) = mr_event_id r"
  "mr_episode_id (finished_row now c r) = mr_episode_id r"
  "mr_host (finished_row now c r) = mr_host r"
  "mr_principal (finished_row now c r) = mr_principal r"
  "mr_attempt (finished_row now c r) = mr_attempt r"
  "mr_started_at (finished_row now c r) = mr_started_at r"
  "mr_revision (finished_row now c r) = mr_revision r + 1"
  "mr_state (finished_row now c r) = RemediationState_as_str (rc_outcome c)"
  by (simp_all add: finished_row_def)

definition completion_ids_ok :: "RemediationCompletion \<Rightarrow> bool" where
  "completion_ids_ok c \<longleftrightarrow>
     list_all (\<lambda>j. uuid_text (job_id_str j)) (case rc_related_job_id c of None \<Rightarrow> [] | Some j \<Rightarrow> [j]) \<and>
     list_all (\<lambda>x. uuid_text (change_id_str x)) (case rc_related_change_id c of None \<Rightarrow> [] | Some x \<Rightarrow> [x])"

lemma finish_update_inv:
  assumes "remediations_inv s" and "rc_outcome c \<noteq> RmActive" and "completion_ids_ok c"
    and "s1 = s\<lparr>st_remediations := update_where p (finished_row now c) (st_remediations s)\<rparr>"
  shows "remediations_inv s1"
proof -
  let ?xs = "update_where p (finished_row now c) (st_remediations s)"
  have inactive: "\<not> is_active (finished_row now c r)" for r
    using assms(2) by (cases "rc_outcome c") simp_all
  have "map mr_id ?xs = map mr_id (st_remediations s)" by (rule map_update_where) simp
  moreover have "remediation_row_ok r \<and> mr_event_id r \<in> evr_id ` set (st_events s)" if r: "r \<in> set ?xs" for r
  proof -
    from r obtain r0 where r0: "r0 \<in> set (st_remediations s)" "r = (if p r0 then finished_row now c r0 else r0)"
      by (auto simp: set_update_where)
    from assms(1) r0(1) have old: "remediation_row_ok r0" "mr_event_id r0 \<in> evr_id ` set (st_events s)"
      by (auto simp: remediations_inv_def)
    have "remediation_row_ok (finished_row now c r0)"
      using old(1) assms(3)
      by (cases "rc_related_job_id c"; cases "rc_related_change_id c")
        (simp_all add: remediation_row_ok_def completion_ids_ok_def finished_row_def)
    with r0(2) old show ?thesis by simp
  qed
  moreover have "count_where (\<lambda>r. mr_episode_id r = e \<and> is_active r) ?xs \<le> 1"
    "count_where (\<lambda>r. mr_host r = e \<and> is_active r) ?xs \<le> 1" for e
    using assms(1) inactive
      count_where_update_le[of "\<lambda>r. mr_episode_id r = e \<and> is_active r" "finished_row now c" p "st_remediations s"]
      count_where_update_le[of "\<lambda>r. mr_host r = e \<and> is_active r" "finished_row now c" p "st_remediations s"]
    unfolding remediations_inv_def by (meson order_trans)+
  moreover have "map mr_attempt (filter (\<lambda>r. mr_episode_id r = e) ?xs)
      = [1..int (length (filter (\<lambda>r. mr_episode_id r = e) ?xs))]" for e
  proof -
    have "filter (\<lambda>r. mr_episode_id r = e) ?xs
        = update_where p (finished_row now c) (filter (\<lambda>r. mr_episode_id r = e) (st_remediations s))"
      by (rule filter_update_where) simp
    moreover have "map mr_attempt (update_where p (finished_row now c) ys) = map mr_attempt ys" for ys
      by (rule map_update_where) simp
    ultimately show ?thesis using assms(1) by (simp add: remediations_inv_def)
  qed
  ultimately show ?thesis
    using assms(1) by (simp add: assms(4) remediations_inv_def)
qed

lemma finish_preserves_remediations_inv:
  assumes "finish_remediation now fresh_event rid prin c s = (s', r)"
    and "remediations_inv s" and "events_inv s" and "completion_ids_ok c"
  shows "remediations_inv s'" and "events_inv s'"
proof -
  have "remediations_inv s' \<and> events_inv s'"
    using assms(1)
  proof (cases rule: finish_remediation_cases)
    case rejected
    with assms(2,3) show ?thesis by simp
  next
    case (finished row event s1 n)
    have inv1: "remediations_inv s1"
      using finish_update_inv[OF assms(2) finished(6) assms(4) finished(10)] .
    have "events_inv s1"
      using assms(3) by (rule events_inv_frame) (simp_all add: finished(10))
    then have "events_inv s'"
      using insert_preserves_events_inv[OF finished(11) _ finished(7)] finished(8) assms(4)
      by (simp add: event_ids_ok_def completion_ids_ok_def)
    moreover have "remediations_inv s'"
      using inv1 by (rule remediations_inv_frame) (auto simp: insert_fleet_event_Ok(1)[OF finished(11)])
    ultimately show ?thesis by simp
  qed
  then show "remediations_inv s'" "events_inv s'" by simp_all
qed

lemma prune_preserves_remediations_inv:
  assumes "prune_events_through n s = (s', r)" and "remediations_inv s"
  shows "remediations_inv s'"
  using assms(1)
proof (cases rule: prune_cases)
  case rejected
  with assms(2) show ?thesis by simp
next
  case pruned
  have "mr_event_id m \<in> evr_id ` set (st_events s')" if "m \<in> set (st_remediations s)" for m
  proof -
    from assms(2) that obtain x where "x \<in> set (st_events s)" "evr_id x = mr_event_id m"
      by (auto simp: remediations_inv_def)
    with pruned(2) that show ?thesis by (force simp: pruned(3))
  qed
  with assms(2) show ?thesis by (simp add: pruned(3) remediations_inv_def)
qed

end
