(* ===== verification/Store_System.thy ===== *)
theory Store_System
  imports Store_Remediations
begin

text \<open>
  The store as a whole: one invariant for all tables, the transition relation whose steps are the
  writing operations of \<open>maxops-store\<close> (the writer mutex and SQLite's transactions make each one
  atomic), and the invariant in every reachable store.
\<close>

section \<open>The invariant\<close>

definition store_inv :: "store \<Rightarrow> bool" where
  "store_inv s \<longleftrightarrow>
     jobs_inv s \<and> idempotency_inv s \<and> resources_inv s \<and> workspaces_inv s \<and> changes_inv s \<and>
     events_inv s \<and> episodes_inv s \<and> deliveries_inv s \<and> remediations_inv s"

lemma store_inv_empty: "store_inv empty_store"
  by (simp add: store_inv_def jobs_inv_empty resources_inv_empty workspaces_inv_empty
      changes_inv_empty events_inv_empty episodes_inv_empty deliveries_inv_empty remediations_inv_empty)

lemma store_inv_parts:
  assumes "store_inv s"
  shows "jobs_inv s" "idempotency_inv s" "resources_inv s" "workspaces_inv s" "changes_inv s"
    "events_inv s" "episodes_inv s" "deliveries_inv s" "remediations_inv s"
  using assms by (simp_all add: store_inv_def)

text \<open>
  Each operation writes one group of tables; a frame says that it left the others alone, and the
  invariants that do not mention its tables carry over.
\<close>

definition same_config :: "store \<Rightarrow> store \<Rightarrow> bool" where
  "same_config s s' \<longleftrightarrow>
     st_resources s' = st_resources s \<and> st_workspaces s' = st_workspaces s"

definition same_jobs :: "store \<Rightarrow> store \<Rightarrow> bool" where
  "same_jobs s s' \<longleftrightarrow>
     st_jobs s' = st_jobs s \<and> st_idempotency s' = st_idempotency s \<and>
     st_job_events s' = st_job_events s \<and> st_job_event_seq s' = st_job_event_seq s"

definition same_events :: "store \<Rightarrow> store \<Rightarrow> bool" where
  "same_events s s' \<longleftrightarrow>
     st_events s' = st_events s \<and> st_event_seq s' = st_event_seq s \<and> st_episodes s' = st_episodes s \<and>
     st_subscriptions s' = st_subscriptions s \<and> st_deliveries s' = st_deliveries s \<and>
     st_remediations s' = st_remediations s"

lemmas frame_defs = same_config_def same_jobs_def same_events_def

lemma same_events_inv:
  "same_events s s' \<Longrightarrow> store_inv s \<Longrightarrow>
   events_inv s' \<and> episodes_inv s' \<and> deliveries_inv s' \<and> remediations_inv s'"
  by (simp add: same_events_def store_inv_def events_inv_def episodes_inv_def deliveries_inv_def
      remediations_inv_def)

lemma same_jobs_inv: "same_jobs s s' \<Longrightarrow> store_inv s \<Longrightarrow> jobs_inv s' \<and> idempotency_inv s'"
  by (simp add: same_jobs_def store_inv_def jobs_inv_def idempotency_inv_def)

text \<open>A step that writes jobs (and perhaps links a change).\<close>

lemma store_inv_jobs_step:
  assumes "store_inv s" and "same_config s s'" and "same_events s s'"
    and "jr_id ` set (st_jobs s) \<subseteq> jr_id ` set (st_jobs s')"
    and "jobs_inv s'" and "idempotency_inv s'" and "changes_inv s'"
  shows "store_inv s'"
proof -
  have "workspaces_inv s'" "resources_inv s'"
    using assms(1,2,4) by (auto simp: store_inv_def same_config_def workspaces_inv_def resources_inv_def)
  with assms(5-7) same_events_inv[OF assms(3,1)] show ?thesis by (simp add: store_inv_def)
qed

text \<open>A step that writes locks, workspaces, changes or observations.\<close>

lemma store_inv_config_step:
  assumes "store_inv s" and "same_jobs s s'" and "same_events s s'"
    and "resources_inv s'" and "workspaces_inv s'" and "changes_inv s'"
  shows "store_inv s'"
  using same_jobs_inv[OF assms(2,1)] same_events_inv[OF assms(3,1)] assms(4-6)
  by (simp add: store_inv_def)

text \<open>A step that writes events, deliveries or remediations.\<close>

lemma store_inv_event_step:
  assumes "store_inv s" and "same_jobs s s'" and "same_config s s'" and "st_changes s' = st_changes s"
    and "events_inv s'" and "episodes_inv s'" and "deliveries_inv s'" and "remediations_inv s'"
  shows "store_inv s'"
proof -
  have "workspaces_inv s'" "resources_inv s'" "changes_inv s'"
    using assms(1-4)
    by (simp_all add: store_inv_def frame_defs workspaces_inv_def resources_inv_def changes_inv_def)
  with assms(5-8) same_jobs_inv[OF assms(2,1)] show ?thesis by (simp add: store_inv_def)
qed

section \<open>Every writing operation keeps the invariant\<close>

lemma append_job_event_frame [simp]:
  "st_jobs (append_job_event k kind st at p s) = st_jobs s"
  "st_idempotency (append_job_event k kind st at p s) = st_idempotency s"
  "st_changes (append_job_event k kind st at p s) = st_changes s"
  "st_workspaces (append_job_event k kind st at p s) = st_workspaces s"
  "same_config s0 (append_job_event k kind st at p s) = same_config s0 s"
  "same_events s0 (append_job_event k kind st at p s) = same_events s0 s"
  by (simp_all add: append_job_event_def frame_defs)

lemma submit_store_inv:
  assumes "submit_linked_job digest now key jid new link s = (s', r)" and "store_inv s"
    and "nj_spec_version new \<le> u32_max" and "uuid_text (job_id_str jid)"
  shows "store_inv s'"
proof -
  have frame: "same_config s s' \<and> same_events s s' \<and> jr_id ` set (st_jobs s) \<subseteq> jr_id ` set (st_jobs s')"
    using assms(1)
    by (cases rule: submit_linked_job_effect) (auto simp: fresh_submission_def frame_defs append_job_event_def)
  show ?thesis
  proof (rule store_inv_jobs_step[OF assms(2)])
    show "jobs_inv s'"
      using submit_preserves_jobs_inv[OF assms(1) store_inv_parts(1)[OF assms(2)] assms(3,4)] .
    show "idempotency_inv s'"
      using submit_preserves_idempotency_inv[OF assms(1) store_inv_parts(2)[OF assms(2)]] .
    show "changes_inv s'"
      using submit_preserves_changes_inv[OF assms(1) store_inv_parts(5)[OF assms(2)]] .
  qed (use frame in simp_all)
qed

lemma accept_store_inv:
  assumes "accept_job digest now jid new s = (s', r)" and "store_inv s"
    and "nj_spec_version new \<le> u32_max" and "uuid_text (job_id_str jid)"
  shows "store_inv s'"
proof -
  have frame: "same_config s s' \<and> same_events s s' \<and> st_changes s' = st_changes s \<and>
      jr_id ` set (st_jobs s) \<subseteq> jr_id ` set (st_jobs s')"
    using assms(1)
    by (cases rule: accept_job_effect) (auto simp: frame_defs append_job_event_def)
  then have "changes_inv s'"
    by (intro changes_inv_frame[OF store_inv_parts(5)[OF assms(2)]]) (simp_all add: same_config_def)
  show ?thesis
  proof (rule store_inv_jobs_step[OF assms(2)])
    show "jobs_inv s'"
      using accept_preserves_jobs_inv[OF assms(1) store_inv_parts(1)[OF assms(2)] assms(3,4)] .
    show "idempotency_inv s'"
      using accept_preserves_idempotency_inv[OF assms(1) store_inv_parts(2)[OF assms(2)]] .
  qed (use frame \<open>changes_inv s'\<close> in simp_all)
qed

text \<open>Updates of a job row in place: transitions and cancellations.\<close>

lemma job_update_frame:
  assumes "s' = append_job_event k kind st at p (s\<lparr>st_jobs := update_where q f (st_jobs s)\<rparr>)"
    and "\<And>r. jr_id (f r) = jr_id r"
  shows "same_config s s'" and "same_events s s'" and "st_changes s' = st_changes s"
    and "jr_id ` set (st_jobs s') = jr_id ` set (st_jobs s)"
proof -
  have "map jr_id (update_where q f (st_jobs s)) = map jr_id (st_jobs s)"
    using assms(2) by (rule map_update_where)
  then show "jr_id ` set (st_jobs s') = jr_id ` set (st_jobs s)"
    by (simp add: assms(1)) (metis list.set_map)
qed (simp_all add: assms(1), simp_all add: frame_defs)

lemma job_update_store_inv:
  assumes "store_inv s" and "s' = append_job_event k kind st at p (s\<lparr>st_jobs := update_where q f (st_jobs s)\<rparr>)"
    and "\<And>r. jr_id (f r) = jr_id r" and "jobs_inv s'" and "idempotency_inv s'"
  shows "store_inv s'"
proof -
  note frame = job_update_frame[OF assms(2,3)]
  have "changes_inv s'"
    using frame by (intro changes_inv_frame[OF store_inv_parts(5)[OF assms(1)]]) (simp_all add: same_config_def)
  then show ?thesis
    using frame assms(4,5) by (intro store_inv_jobs_step[OF assms(1)]) simp_all
qed

lemma transition_store_inv:
  assumes "transition_job now jid expected nx payload result s = (s', r)" and "store_inv s"
  shows "store_inv s'"
  using assms(1) store_inv_parts(1)[OF assms(2)]
proof (cases rule: transition_cases)
  case same
  with assms(2) show ?thesis by simp
next
  case (step row cur)
  show ?thesis
    by (rule job_update_store_inv[OF assms(2) step(6)])
      (use assms store_inv_parts[OF assms(2)] in
        \<open>auto simp: transitioned_row_def intro: transition_preserves_jobs_inv transition_preserves_idempotency_inv\<close>)
qed

lemma cancel_store_inv:
  assumes "request_cancel now jid expected reason s = (s', r)" and "store_inv s"
  shows "store_inv s'"
  using assms(1) store_inv_parts(1)[OF assms(2)]
proof (cases rule: cancel_cases)
  case same
  with assms(2) show ?thesis by simp
next
  case (step row cur)
  show ?thesis
    by (rule job_update_store_inv[OF assms(2) step(6)])
      (use assms store_inv_parts[OF assms(2)] in
        \<open>auto simp: cancelled_row_def intro: cancel_preserves_jobs_inv cancel_preserves_idempotency_inv\<close>)
qed

lemma acquire_store_inv:
  assumes "try_acquire_resource now kind key owner s = (s', r)" and "store_inv s"
  shows "store_inv s'"
proof -
  note parts = store_inv_parts[OF assms(2)]
  obtain rs where s': "s' = s\<lparr>st_resources := rs\<rparr>"
    using acquire_frame[OF assms(1) parts(1,3)] by blast
  show ?thesis
    using acquire_preserves_resources_inv[OF assms(1) parts(1,3)] parts
    by (intro store_inv_config_step[OF assms(2)])
      (simp_all add: s' frame_defs workspaces_inv_def changes_inv_def)
qed

lemma release_store_inv:
  assumes "release_resource kind key owner s = (s', r)" and "store_inv s"
  shows "store_inv s'"
proof -
  have "resources_inv s'"
    using release_preserves_resources_inv[OF store_inv_parts(3)[OF assms(2)], of kind key owner] assms(1) by simp
  moreover obtain rs where "s' = s\<lparr>st_resources := rs\<rparr>"
    using assms(1) by (auto simp: release_resource_def Let_def)
  ultimately show ?thesis
    using store_inv_parts[OF assms(2)]
    by (intro store_inv_config_step[OF assms(2)])
      (simp_all add: frame_defs workspaces_inv_def changes_inv_def)
qed

text \<open>Workspace operations write only the workspace table, and never drop a workspace.\<close>

lemma workspaces_extend_ids:
  assumes "workspaces_extend s s'"
  shows "wr_id ` set (st_workspaces s) \<subseteq> wr_id ` set (st_workspaces s')"
proof -
  from assms obtain new where
    "map workspace_identity (st_workspaces s') = map workspace_identity (st_workspaces s) @ new"
    by (auto simp: workspaces_extend_def)
  then have "workspace_identity ` set (st_workspaces s) \<subseteq> workspace_identity ` set (st_workspaces s')"
    by (metis Un_upper1 list.set_map set_append)
  then have "fst ` workspace_identity ` set (st_workspaces s) \<subseteq> fst ` workspace_identity ` set (st_workspaces s')"
    by (rule image_mono)
  then show ?thesis by (simp add: image_image workspace_identity_def)
qed

lemma workspace_step_store_inv:
  assumes "store_inv s" and "s' = s\<lparr>st_workspaces := ws\<rparr>" and "workspaces_inv s'" and "workspaces_extend s s'"
  shows "store_inv s'"
proof -
  have "changes_inv s'"
    using workspaces_extend_ids[OF assms(4)]
    by (intro changes_inv_frame[OF store_inv_parts(5)[OF assms(1)]]) (simp_all add: assms(2))
  with assms store_inv_parts(3)[OF assms(1)] show ?thesis
    by (intro store_inv_config_step[OF assms(1)]) (simp_all add: frame_defs resources_inv_def)
qed

lemma create_workspace_writes:
  assumes "create_workspace now wid repository executor base_commit tree_hash creator s = (s', r)"
  shows "\<exists>ws. s' = s\<lparr>st_workspaces := ws\<rparr>"
  using assms
proof (cases rule: create_workspace_cases)
  case same
  then show ?thesis by (intro exI[of _ "st_workspaces s"]) simp
qed blast

lemma create_workspace_store_inv:
  assumes "create_workspace now wid repository executor base_commit tree_hash creator s = (s', r)"
    and "store_inv s" and "uuid_text (workspace_id_str wid)"
  shows "store_inv s'"
proof -
  obtain ws where "s' = s\<lparr>st_workspaces := ws\<rparr>" using create_workspace_writes[OF assms(1)] ..
  then show ?thesis
    using create_preserves_workspaces_inv[OF assms(1) store_inv_parts(4)[OF assms(2)] assms(3)]
    by (intro workspace_step_store_inv[OF assms(2)])
qed

lemma record_workspace_writes:
  assumes "record_workspace w s = (s', r)"
  shows "\<exists>ws. s' = s\<lparr>st_workspaces := ws\<rparr>"
proof (cases "to_i64 (ws_revision w) ''workspace revision''")
  case (Inl e)
  with assms show ?thesis by (intro exI[of _ "st_workspaces s"]) (simp add: record_workspace_def)
next
  case (Inr n)
  show ?thesis
  proof (cases "select_one (\<lambda>r. wr_id r = workspace_id_str (ws_workspace_id w)) (st_workspaces s)")
    case None
    with assms show ?thesis unfolding record_workspace_def Inr by (auto simp: Let_def)
  next
    case (Some row)
    show ?thesis
    proof (cases "same_projection w row")
      case True
      with Some assms show ?thesis unfolding record_workspace_def Inr by (auto simp: Let_def)
    next
      case False
      with Some assms show ?thesis
        unfolding record_workspace_def Inr by (intro exI[of _ "st_workspaces s"]) (simp add: Let_def)
    qed
  qed
qed

lemma record_workspace_store_inv:
  assumes "record_workspace w s = (s', r)" and "store_inv s"
    and "uuid_text (workspace_id_str (ws_workspace_id w))"
  shows "store_inv s'"
proof -
  obtain ws where "s' = s\<lparr>st_workspaces := ws\<rparr>" using record_workspace_writes[OF assms(1)] ..
  then show ?thesis
    using record_preserves_workspaces_inv[OF assms(1) store_inv_parts(4)[OF assms(2)] assms(3)]
    by (intro workspace_step_store_inv[OF assms(2)]) auto
qed

lemma transition_workspace_writes:
  assumes "transition_workspace wid creator expected tree commit st s = (s', r)"
  shows "\<exists>ws. s' = s\<lparr>st_workspaces := ws\<rparr>"
  using assms
proof (cases rule: transition_workspace_cases)
  case same
  then show ?thesis by (intro exI[of _ "st_workspaces s"]) simp
qed blast

lemma transition_workspace_store_inv:
  assumes "transition_workspace wid creator expected tree commit st s = (s', r)" and "store_inv s"
  shows "store_inv s'"
proof -
  obtain ws where "s' = s\<lparr>st_workspaces := ws\<rparr>" using transition_workspace_writes[OF assms(1)] ..
  then show ?thesis
    using transition_preserves_workspaces_inv[OF assms(1) store_inv_parts(4)[OF assms(2)]]
    by (intro workspace_step_store_inv[OF assms(2)]) auto
qed

text \<open>Change operations write only the change table.\<close>

lemma change_step_store_inv:
  assumes "store_inv s" and "s' = s\<lparr>st_changes := cs\<rparr>" and "changes_inv s'"
  shows "store_inv s'"
  using assms(3) store_inv_parts(3,4)[OF assms(1)]
  by (intro store_inv_config_step[OF assms(1)])
    (simp_all add: assms(2) frame_defs resources_inv_def workspaces_inv_def)

lemma create_change_store_inv:
  assumes "create_change now plan creator prepare_job s = (s', r)" and "store_inv s"
  shows "store_inv s'"
  using assms(1)
proof (cases rule: create_change_cases)
  case same
  with assms(2) show ?thesis by simp
next
  case created
  from change_step_store_inv[OF assms(2) created(3)]
    create_preserves_changes_inv[OF assms(1) store_inv_parts(5)[OF assms(2)]]
  show ?thesis .
qed

lemma transition_change_store_inv:
  assumes "transition_change now cid creator update s = (s', r)" and "store_inv s"
  shows "store_inv s'"
  using assms(1) store_inv_parts(5)[OF assms(2)]
proof (cases rule: transition_change_cases)
  case same
  with assms(2) show ?thesis by simp
next
  case (step row)
  from change_step_store_inv[OF assms(2) step(6)]
    transition_preserves_changes_inv[OF assms(1) store_inv_parts(5)[OF assms(2)]]
  show ?thesis .
qed

lemma record_observation_store_inv:
  assumes "record_observation ob s = (s', r)" and "store_inv s"
  shows "store_inv s'"
proof -
  consider "s' = s" | obs n where "s' = s\<lparr>st_observations := obs, st_observation_seq := n\<rparr>"
    using assms(1) by (auto simp: record_observation_def Let_def split: if_splits)
  then show ?thesis
  proof cases
    case 2
    with store_inv_parts[OF assms(2)] show ?thesis
      by (intro store_inv_config_step[OF assms(2)])
        (simp_all add: frame_defs resources_inv_def workspaces_inv_def changes_inv_def)
  qed (use assms(2) in simp)
qed

text \<open>Event operations.\<close>

lemma insert_event_frame:
  assumes "insert_fleet_event event_id input received_at s = Ok (s', n)"
  shows "same_jobs s s'" "same_config s s'" "st_changes s' = st_changes s" "st_episodes s' = st_episodes s"
    "st_subscriptions s' = st_subscriptions s" "st_deliveries s' = st_deliveries s"
    "st_remediations s' = st_remediations s" "set (st_events s) \<subseteq> set (st_events s')"
  by (simp_all add: insert_fleet_event_Ok(1)[OF assms] frame_defs subset_insertI)

lemma ingest_store_inv:
  assumes "ingest_alert received_at fresh_episode fresh_event input s = (s', r)" and "store_inv s"
  shows "store_inv s'"
  using assms(1)
proof (cases rule: ingest_alert_cases)
  case rejected
  with assms(2) show ?thesis by simp
next
  case (ingested e row)
  then obtain n input' where ins: "insert_fleet_event fresh_event input' received_at (upsert_episode row s) = Ok (s', n)"
    by blast
  note parts = store_inv_parts[OF assms(2)] and frame = insert_event_frame[OF ins]
  have up: "same_jobs s (upsert_episode row s)" "same_config s (upsert_episode row s)"
    "st_changes (upsert_episode row s) = st_changes s" "st_subscriptions (upsert_episode row s) = st_subscriptions s"
    "st_deliveries (upsert_episode row s) = st_deliveries s" "st_remediations (upsert_episode row s) = st_remediations s"
    "st_events (upsert_episode row s) = st_events s"
    by (simp_all add: upsert_episode_def Let_def frame_defs)
  show ?thesis
  proof (rule store_inv_event_step[OF assms(2)])
    show "events_inv s'" "episodes_inv s'"
      using ingest_preserves_events_inv[OF assms(1) parts(6,7)] by simp_all
    show "deliveries_inv s'" using frame up by (intro deliveries_inv_frame[OF parts(8)]) simp_all
    show "remediations_inv s'" using frame up by (intro remediations_inv_frame[OF parts(9)] image_mono) simp_all
  qed (use frame up in \<open>simp_all add: frame_defs\<close>)
qed

lemma append_fleet_event_cases:
  assumes "append_fleet_event received_at fresh_event input s = (s', r)"
  obtains (rejected) e where "s' = s" "r = Err e"
  | (appended) n where "uuid_text fresh_event" "insert_fleet_event fresh_event input received_at s = Ok (s', n)"
      "r = get_event (EventId fresh_event) s'"
proof -
  let ?v = "rbind (validate_event_identity (nf_source input) (nf_fingerprint input) (nf_host input)) (\<lambda>_.
             map_err Report (EventId_parse fresh_event))"
  show ?thesis
  proof (cases ?v)
    case (Inl e)
    with assms rejected show ?thesis by (auto simp: append_fleet_event_def)
  next
    case (Inr eid)
    then have eid: "uuid_text fresh_event" "eid = EventId fresh_event"
      by (auto simp: EventId_parse_def split: if_splits)
    show ?thesis
    proof (cases "insert_fleet_event fresh_event input received_at s")
      case (Inl e)
      with assms rejected eid show ?thesis
        unfolding append_fleet_event_def Inr by (auto simp: transact_def then_get_event_def)
    next
      case ins: (Inr x)
      obtain s1 n where x: "x = (s1, n)" by (cases x)
      have "s' = s1" "r = get_event (EventId fresh_event) s'"
        using assms ins x eid unfolding append_fleet_event_def Inr
        by (auto simp: transact_def then_get_event_def)
      with appended[OF eid(1)] ins x show ?thesis by simp
    qed
  qed
qed

lemma append_event_store_inv:
  assumes "append_fleet_event received_at fresh_event input s = (s', r)" and "store_inv s"
    and "event_ids_ok input"
  shows "store_inv s'"
  using assms(1)
proof (cases rule: append_fleet_event_cases)
  case rejected
  with assms(2) show ?thesis by simp
next
  case (appended n)
  note parts = store_inv_parts[OF assms(2)] and frame = insert_event_frame[OF appended(2)]
  show ?thesis
  proof (rule store_inv_event_step[OF assms(2)])
    show "events_inv s'" using insert_preserves_events_inv[OF appended(2) parts(6) appended(1) assms(3)] .
    show "episodes_inv s'" using parts(7) frame by (simp add: episodes_inv_def)
    show "deliveries_inv s'" using frame by (intro deliveries_inv_frame[OF parts(8)]) simp_all
    show "remediations_inv s'" using frame by (intro remediations_inv_frame[OF parts(9)] image_mono) simp_all
  qed (use frame in simp_all)
qed

lemma prune_store_inv:
  assumes "prune_events_through n s = (s', r)" and "store_inv s"
  shows "store_inv s'"
proof -
  note parts = store_inv_parts[OF assms(2)]
  have frame: "same_jobs s s' \<and> same_config s s' \<and> st_changes s' = st_changes s \<and> st_episodes s' = st_episodes s"
    using assms(1) by (cases rule: prune_cases) (simp_all add: frame_defs)
  show ?thesis
  proof (rule store_inv_event_step[OF assms(2)])
    show "events_inv s'" using prune_preserves_events_inv[OF assms(1) parts(6)] .
    show "episodes_inv s'" using parts(7) frame by (simp add: episodes_inv_def)
    show "deliveries_inv s'" using prune_preserves_deliveries_inv[OF assms(1) parts(8)] .
    show "remediations_inv s'" using prune_preserves_remediations_inv[OF assms(1) parts(9)] .
  qed (use frame in simp_all)
qed

text \<open>Delivery operations write subscriptions and deliveries.\<close>

lemma delivery_step_store_inv:
  assumes "store_inv s" and "s' = s\<lparr>st_subscriptions := subs, st_deliveries := ds\<rparr>" and "deliveries_inv s'"
  shows "store_inv s'"
  using assms(3) store_inv_parts(6,7,9)[OF assms(1)]
  by (intro store_inv_event_step[OF assms(1)])
    (simp_all add: assms(2) frame_defs events_inv_def episodes_inv_def remediations_inv_def)

lemma ensure_subscription_store_inv:
  assumes "ensure_subscription now sid filter_doc target cred s = (s', r)" and "store_inv s"
  shows "store_inv s'"
proof -
  have "\<exists>subs. s' = s\<lparr>st_subscriptions := subs, st_deliveries := st_deliveries s\<rparr>"
    using assms(1)
    by (cases "sid \<noteq> [] \<and> length sid \<le> 128")
      (auto simp: ensure_subscription_def Let_def intro: exI[of _ "st_subscriptions s"])
  then obtain subs where "s' = s\<lparr>st_subscriptions := subs, st_deliveries := st_deliveries s\<rparr>" ..
  then show ?thesis
    using ensure_subscription_facts(1)[OF assms(1) store_inv_parts(8)[OF assms(2)]]
    by (rule delivery_step_store_inv[OF assms(2)])
qed

lemma upsert_delivery_frame:
  "upsert_delivery sid n retry_at now s = Ok s' \<Longrightarrow>
   \<exists>ds. s' = s\<lparr>st_subscriptions := st_subscriptions s, st_deliveries := ds\<rparr>"
  by (auto simp: upsert_delivery_def split: if_splits)

lemma begin_delivery_store_inv:
  assumes "begin_delivery ts_add now sid n retry s = (s', r)" and "store_inv s"
  shows "store_inv s'"
  using assms(1) store_inv_parts(8)[OF assms(2)]
proof (cases rule: begin_delivery_cases)
  case (attempt retry_at)
  obtain ds where "s' = s\<lparr>st_subscriptions := st_subscriptions s, st_deliveries := ds\<rparr>"
    using upsert_delivery_frame[OF attempt(3)] ..
  then show ?thesis
    using begin_delivery_facts(1)[OF assms(1) store_inv_parts(8)[OF assms(2)]]
    by (rule delivery_step_store_inv[OF assms(2)])
qed (use assms(2) in simp_all)

lemma acknowledge_store_inv:
  assumes "acknowledge_delivery now sid n stage status s = (s', r)" and "store_inv s"
  shows "store_inv s'"
  using assms(1)
proof (cases rule: acknowledge_cases)
  case rejected
  with assms(2) show ?thesis by simp
next
  case acked
  show ?thesis
    by (rule delivery_step_store_inv[OF assms(2), where
          subs = "update_where (\<lambda>r. sr_id r = sid) (acknowledged_subscription now (int n)) (st_subscriptions s)"
          and ds = "update_where (is_delivery sid (int n)) (acknowledged_delivery now stage status) (st_deliveries s)"])
      (simp_all add: acked(4) acknowledge_facts(1)[OF assms(1) store_inv_parts(8)[OF assms(2)], unfolded acked(4)])
qed

lemma skip_store_inv:
  assumes "skip_subscription_event sid n s = (s', r)" and "store_inv s"
  shows "store_inv s'"
proof -
  have "\<exists>subs. s' = s\<lparr>st_subscriptions := subs, st_deliveries := st_deliveries s\<rparr>"
    using assms(1)
    by (cases "int n \<le> i64_max")
      (auto simp: skip_subscription_event_def to_i64_def intro: exI[of _ "st_subscriptions s"])
  then obtain subs where "s' = s\<lparr>st_subscriptions := subs, st_deliveries := st_deliveries s\<rparr>" ..
  then show ?thesis
    using skip_facts(1)[OF assms(1) store_inv_parts(8)[OF assms(2)]]
    by (rule delivery_step_store_inv[OF assms(2)])
qed

text \<open>Remediation operations write remediations and events.\<close>

lemma remediation_step_store_inv:
  assumes "store_inv s" and "s1 = s\<lparr>st_remediations := ms\<rparr>"
    and "insert_fleet_event event_id input at s1 = Ok (s', n)" and "remediations_inv s'" and "events_inv s'"
  shows "store_inv s'"
proof -
  note frame = insert_event_frame[OF assms(3), unfolded assms(2)]
  show ?thesis
  proof (rule store_inv_event_step[OF assms(1)])
    show "episodes_inv s'" using store_inv_parts(7)[OF assms(1)] frame by (simp add: episodes_inv_def)
    show "deliveries_inv s'"
      using frame by (intro deliveries_inv_frame[OF store_inv_parts(8)[OF assms(1)]]) simp_all
  qed (use frame assms(4,5) in \<open>simp_all add: frame_defs\<close>)
qed

lemma begin_remediation_store_inv:
  assumes "begin_remediation ts_text as_second now fresh_remediation fresh_event event_id host prin
      job max_attempts cooldown s = (s', r)"
    and "store_inv s" and "max_attempts \<le> u16_max" and "uuid_text (job_id_str job)"
  shows "store_inv s'"
  using assms(1)
proof (cases rule: begin_remediation_cases)
  case rejected
  with assms(2) show ?thesis by simp
next
  case existing
  with assms(2) show ?thesis by simp
next
  case (begun event a s1 n)
  note parts = store_inv_parts[OF assms(2)]
  show ?thesis
    by (rule remediation_step_store_inv[OF assms(2) insert_remediation_row_Ok(1)[OF begun(9)] begun(10)])
      (use begin_preserves_remediations_inv[OF assms(1) parts(9,6) assms(3,4)] in simp_all)
qed

lemma finish_remediation_store_inv:
  assumes "finish_remediation now fresh_event rid prin c s = (s', r)"
    and "store_inv s" and "completion_ids_ok c"
  shows "store_inv s'"
  using assms(1)
proof (cases rule: finish_remediation_cases)
  case rejected
  with assms(2) show ?thesis by simp
next
  case (finished row event s1 n)
  note parts = store_inv_parts[OF assms(2)]
  show ?thesis
    by (rule remediation_step_store_inv[OF assms(2) finished(10,11)])
      (use finish_preserves_remediations_inv[OF assms(1) parts(9,6) assms(3)] in simp_all)
qed

section \<open>Reachable stores\<close>

text \<open>
  One step is one call of a writing operation with arguments of the types the Rust signatures
  give them: identities are UUID texts and the narrow integers are in range.
\<close>

inductive store_step ::
  "(json \<Rightarrow> string) \<Rightarrow> (timestamp \<Rightarrow> string) \<Rightarrow> (timestamp \<Rightarrow> int) \<Rightarrow> (timestamp \<Rightarrow> nat \<Rightarrow> timestamp option) \<Rightarrow>
   store \<Rightarrow> store \<Rightarrow> bool"
  for digest ts_text as_second ts_add where
  submit: "submit_linked_job digest now key jid new link s = (s', r) \<Longrightarrow>
     nj_spec_version new \<le> u32_max \<Longrightarrow> uuid_text (job_id_str jid) \<Longrightarrow>
     store_step digest ts_text as_second ts_add s s'"
| accept: "accept_job digest now jid new s = (s', r') \<Longrightarrow>
     nj_spec_version new \<le> u32_max \<Longrightarrow> uuid_text (job_id_str jid) \<Longrightarrow>
     store_step digest ts_text as_second ts_add s s'"
| transition: "transition_job now jid expected nx payload result s = (s', r'') \<Longrightarrow>
     store_step digest ts_text as_second ts_add s s'"
| cancel: "request_cancel now jid expected reason s = (s', r3) \<Longrightarrow>
     store_step digest ts_text as_second ts_add s s'"
| acquire: "try_acquire_resource now kind rkey owner s = (s', r4) \<Longrightarrow>
     store_step digest ts_text as_second ts_add s s'"
| release: "release_resource kind rkey owner s = (s', r5) \<Longrightarrow>
     store_step digest ts_text as_second ts_add s s'"
| create_workspace: "create_workspace now wid repository executor base_commit tree_hash creator s = (s', r6) \<Longrightarrow>
     uuid_text (workspace_id_str wid) \<Longrightarrow> store_step digest ts_text as_second ts_add s s'"
| record_workspace: "record_workspace w s = (s', r7) \<Longrightarrow>
     uuid_text (workspace_id_str (ws_workspace_id w)) \<Longrightarrow> store_step digest ts_text as_second ts_add s s'"
| transition_workspace: "transition_workspace wid creator expected tree_hash commit st s = (s', r8) \<Longrightarrow>
     store_step digest ts_text as_second ts_add s s'"
| create_change: "create_change now plan creator jid s = (s', r9) \<Longrightarrow>
     store_step digest ts_text as_second ts_add s s'"
| transition_change: "transition_change now cid creator update s = (s', r10) \<Longrightarrow>
     store_step digest ts_text as_second ts_add s s'"
| observation: "record_observation ob s = (s', r11) \<Longrightarrow>
     store_step digest ts_text as_second ts_add s s'"
| alert: "ingest_alert now fresh_episode fresh_event alert s = (s', r12) \<Longrightarrow>
     store_step digest ts_text as_second ts_add s s'"
| append: "append_fleet_event now fresh_event input s = (s', r13) \<Longrightarrow> event_ids_ok input \<Longrightarrow>
     store_step digest ts_text as_second ts_add s s'"
| prune: "prune_events_through n s = (s', r14) \<Longrightarrow>
     store_step digest ts_text as_second ts_add s s'"
| subscribe: "ensure_subscription now sid filter_doc target cred s = (s', r15) \<Longrightarrow>
     store_step digest ts_text as_second ts_add s s'"
| deliver: "begin_delivery ts_add now sid n retry s = (s', r16) \<Longrightarrow>
     store_step digest ts_text as_second ts_add s s'"
| acknowledge: "acknowledge_delivery now sid n stage status s = (s', r17) \<Longrightarrow>
     store_step digest ts_text as_second ts_add s s'"
| skip: "skip_subscription_event sid n s = (s', r18) \<Longrightarrow>
     store_step digest ts_text as_second ts_add s s'"
| begin_remediation: "begin_remediation ts_text as_second now fresh_remediation fresh_event event_id host prin
       jid max_attempts cooldown s = (s', r19) \<Longrightarrow>
     max_attempts \<le> u16_max \<Longrightarrow> uuid_text (job_id_str jid) \<Longrightarrow>
     store_step digest ts_text as_second ts_add s s'"
| finish_remediation: "finish_remediation now fresh_event rid prin c s = (s', r20) \<Longrightarrow>
     completion_ids_ok c \<Longrightarrow> store_step digest ts_text as_second ts_add s s'"

inductive_cases store_stepE: "store_step digest ts_text as_second ts_add s s'"

inductive reachable ::
  "(json \<Rightarrow> string) \<Rightarrow> (timestamp \<Rightarrow> string) \<Rightarrow> (timestamp \<Rightarrow> int) \<Rightarrow> (timestamp \<Rightarrow> nat \<Rightarrow> timestamp option) \<Rightarrow>
   store \<Rightarrow> bool"
  for digest ts_text as_second ts_add where
  initial: "reachable digest ts_text as_second ts_add empty_store"
| step: "reachable digest ts_text as_second ts_add s \<Longrightarrow> store_step digest ts_text as_second ts_add s s' \<Longrightarrow>
     reachable digest ts_text as_second ts_add s'"

lemma step_store_inv:
  assumes "store_step digest ts_text as_second ts_add s s'" and "store_inv s"
  shows "store_inv s'"
  using assms
  by (cases rule: store_step.cases)
    (blast intro: submit_store_inv accept_store_inv transition_store_inv cancel_store_inv
      acquire_store_inv release_store_inv create_workspace_store_inv record_workspace_store_inv
      transition_workspace_store_inv create_change_store_inv transition_change_store_inv
      record_observation_store_inv ingest_store_inv append_event_store_inv prune_store_inv
      ensure_subscription_store_inv begin_delivery_store_inv acknowledge_store_inv skip_store_inv
      begin_remediation_store_inv finish_remediation_store_inv)+

lemma reachable_store_inv: "reachable digest ts_text as_second ts_add s \<Longrightarrow> store_inv s"
  by (induction rule: reachable.induct) (auto intro: store_inv_empty step_store_inv)

end
