(* ===== verification/Store_History.thy ===== *)
theory Store_History
  imports Store_System
begin

text \<open>
  What holds along every run of the store: jobs keep their identity and their definitive outcome,
  a change record read earlier is still current whenever its revision is, workspaces keep their
  identity, delivery cursors only grow and a settled delivery stays settled.
\<close>

section \<open>Frames of the operations that do not write jobs or changes\<close>

lemma release_writes:
  "release_resource kind key owner s = (s', r) \<Longrightarrow> \<exists>rs. s' = s\<lparr>st_resources := rs\<rparr>"
  by (auto simp: release_resource_def Let_def)

lemma record_observation_writes:
  "record_observation ob s = (s', r) \<Longrightarrow>
   st_jobs s' = st_jobs s \<and> st_changes s' = st_changes s \<and> same_config s s' \<and> same_events s s'"
  by (auto simp: record_observation_def Let_def frame_defs split: if_splits)

lemma ingest_writes:
  assumes "ingest_alert received_at fresh_episode fresh_event input s = (s', r)"
  shows "same_jobs s s' \<and> st_changes s' = st_changes s \<and> same_config s s' \<and>
    st_subscriptions s' = st_subscriptions s \<and> st_deliveries s' = st_deliveries s \<and>
    st_event_seq s \<le> st_event_seq s' \<and>
    (\<forall>x \<in> set (st_events s'). x \<in> set (st_events s) \<or> st_event_seq s < evr_sequence x)"
  using assms
proof (cases rule: ingest_alert_cases)
  case rejected
  then show ?thesis by (simp add: frame_defs)
next
  case (ingested e row)
  then obtain n input' where ins: "insert_fleet_event fresh_event input' received_at (upsert_episode row s) = Ok (s', n)"
    by blast
  show ?thesis
    by (simp add: insert_fleet_event_Ok(1)[OF ins] upsert_episode_def Let_def frame_defs new_event_row_def)
qed

lemma append_writes:
  assumes "append_fleet_event received_at fresh_event input s = (s', r)"
  shows "same_jobs s s' \<and> st_changes s' = st_changes s \<and> same_config s s' \<and>
    st_subscriptions s' = st_subscriptions s \<and> st_deliveries s' = st_deliveries s \<and>
    st_event_seq s \<le> st_event_seq s' \<and>
    (\<forall>x \<in> set (st_events s'). x \<in> set (st_events s) \<or> st_event_seq s < evr_sequence x)"
  using assms
proof (cases rule: append_fleet_event_cases)
  case rejected
  then show ?thesis by (simp add: frame_defs)
next
  case (appended n)
  show ?thesis
    by (simp add: insert_fleet_event_Ok(1)[OF appended(2)] frame_defs new_event_row_def)
qed

lemma prune_writes:
  assumes "prune_events_through n s = (s', r)"
  shows "same_jobs s s' \<and> st_changes s' = st_changes s \<and> same_config s s' \<and>
    st_subscriptions s' = st_subscriptions s"
  using assms by (cases rule: prune_cases) (simp_all add: frame_defs)

lemma ensure_writes:
  assumes "ensure_subscription now sid filter_doc target cred s = (s', r)"
  shows "same_jobs s s' \<and> st_changes s' = st_changes s \<and> same_config s s'"
  using assms
  by (cases "sid \<noteq> [] \<and> length sid \<le> 128") (auto simp: ensure_subscription_def Let_def frame_defs)

lemma begin_delivery_writes:
  assumes "begin_delivery ts_add now sid n retry s = (s', r)" and "deliveries_inv s"
  shows "same_jobs s s' \<and> st_changes s' = st_changes s \<and> same_config s s'"
  using assms
proof (cases rule: begin_delivery_cases)
  case (attempt retry_at)
  from upsert_delivery_frame[OF attempt(3)] show ?thesis by (auto simp: frame_defs)
qed (simp_all add: frame_defs)

lemma acknowledge_writes:
  assumes "acknowledge_delivery now sid n stage status s = (s', r)"
  shows "same_jobs s s' \<and> st_changes s' = st_changes s \<and> same_config s s'"
  using assms by (cases rule: acknowledge_cases) (simp_all add: frame_defs)

lemma skip_writes:
  assumes "skip_subscription_event sid n s = (s', r)"
  shows "same_jobs s s' \<and> st_changes s' = st_changes s \<and> same_config s s'"
  using assms
  by (cases "int n \<le> i64_max") (auto simp: skip_subscription_event_def to_i64_def frame_defs)

lemma begin_remediation_writes:
  assumes "begin_remediation ts_text as_second now fresh_remediation fresh_event event_id host prin
      job max_attempts cooldown s = (s', r)"
  shows "same_jobs s s' \<and> st_changes s' = st_changes s \<and> same_config s s' \<and>
    st_subscriptions s' = st_subscriptions s \<and> st_deliveries s' = st_deliveries s \<and>
    st_event_seq s \<le> st_event_seq s' \<and>
    (\<forall>x \<in> set (st_events s'). x \<in> set (st_events s) \<or> st_event_seq s < evr_sequence x)"
  using assms
proof (cases rule: begin_remediation_cases)
  case (begun event a s1 n)
  show ?thesis
    by (simp add: insert_fleet_event_Ok(1)[OF begun(10)] insert_remediation_row_Ok(1)[OF begun(9)]
        frame_defs new_event_row_def)
qed (simp_all add: frame_defs)

lemma finish_remediation_writes:
  assumes "finish_remediation now fresh_event rid prin c s = (s', r)"
  shows "same_jobs s s' \<and> st_changes s' = st_changes s \<and> same_config s s' \<and>
    st_subscriptions s' = st_subscriptions s \<and> st_deliveries s' = st_deliveries s \<and>
    st_event_seq s \<le> st_event_seq s' \<and>
    (\<forall>x \<in> set (st_events s'). x \<in> set (st_events s) \<or> st_event_seq s < evr_sequence x)"
  using assms
proof (cases rule: finish_remediation_cases)
  case (finished row event s1 n)
  show ?thesis
    by (simp add: insert_fleet_event_Ok(1)[OF finished(11)] finished(10) frame_defs new_event_row_def)
qed (simp_all add: frame_defs)

lemma acquire_writes:
  assumes "try_acquire_resource now kind key owner s = (s', r)" and "store_inv s"
  shows "\<exists>rs. s' = s\<lparr>st_resources := rs\<rparr>"
  using acquire_frame[OF assms(1) store_inv_parts(1,3)[OF assms(2)]] .

lemma submit_writes:
  assumes "submit_linked_job digest now key jid new link s = (s', r)"
  shows "same_config s s' \<and> same_events s s'"
  using assms
  by (cases rule: submit_linked_job_effect) (simp_all add: fresh_submission_def append_job_event_def frame_defs)

lemma accept_writes:
  assumes "accept_job digest now jid new s = (s', r)"
  shows "same_config s s' \<and> same_events s s'"
  using assms by (cases rule: accept_job_effect) (simp_all add: append_job_event_def frame_defs)

lemma transition_writes:
  assumes "transition_job now jid expected nx payload result s = (s', r)" and "jobs_inv s"
  shows "same_config s s' \<and> same_events s s'"
  using assms by (cases rule: transition_cases) (simp_all add: append_job_event_def frame_defs)

lemma cancel_writes:
  assumes "request_cancel now jid expected reason s = (s', r)" and "jobs_inv s"
  shows "same_config s s' \<and> same_events s s'"
  using assms by (cases rule: cancel_cases) (simp_all add: append_job_event_def frame_defs)

lemma create_change_writes:
  assumes "create_change now plan creator prepare_job s = (s', r)"
  shows "same_jobs s s' \<and> same_events s s' \<and> same_config s s'"
  using assms by (cases rule: create_change_cases) (simp_all add: frame_defs)

lemma transition_change_writes:
  assumes "transition_change now cid creator update s = (s', r)" and "changes_inv s"
  shows "same_jobs s s' \<and> same_events s s' \<and> same_config s s'"
  using assms by (cases rule: transition_change_cases) (simp_all add: frame_defs)

section \<open>Jobs\<close>

text \<open>One step of one job row.\<close>

definition job_row_step :: "job_row \<Rightarrow> job_row \<Rightarrow> bool" where
  "job_row_step j j' \<longleftrightarrow>
     j' = j
     \<or> (\<exists>now nx result. JobState_can_transition_to (row_state j) nx \<and> j' = transitioned_row now nx result j)
     \<or> (\<exists>now. \<not> JobState_is_terminal (row_state j) \<and> j' = cancelled_row now j)"

lemma job_rows_kept:
  "st_jobs s' = st_jobs s \<Longrightarrow> \<forall>j \<in> set (st_jobs s). \<exists>j' \<in> set (st_jobs s'). job_row_step j j'"
  by (auto simp: job_row_step_def)

lemma selected_state:
  assumes "store_inv s" and "select_one (\<lambda>r. jr_id r = k) (st_jobs s) = Some row"
    and "jr_state row = JobState_as_str cur" and "j \<in> set (st_jobs s)" and "jr_id j = k"
  shows "row_state j = cur"
proof -
  have "j = row"
    using jobs_t.member_found[OF jobs_inv_distinct[OF store_inv_parts(1)[OF assms(1)]] assms(4)] assms(2,5) by simp
  with assms(3) show ?thesis by (simp add: row_state_as_str)
qed

lemma step_job_rows:
  assumes "store_step digest ts_text as_second ts_add s s'" and "store_inv s"
  shows "\<forall>j \<in> set (st_jobs s). \<exists>j' \<in> set (st_jobs s'). job_row_step j j'"
  using assms(1)
proof cases
  case (submit now key jid new link r)
  from submit(1) show ?thesis
    by (cases rule: submit_linked_job_effect)
      (auto simp: fresh_submission_def append_job_event_def job_row_step_def)
next
  case (accept now jid new r')
  from accept(1) show ?thesis
    by (cases rule: accept_job_effect) (auto simp: append_job_event_def job_row_step_def)
next
  case (transition now jid expected nx payload result r'')
  from transition store_inv_parts(1)[OF assms(2)] show ?thesis
  proof (cases rule: transition_cases)
    case same
    then show ?thesis by (auto simp: job_row_step_def)
  next
    case (step row cur)
    note cur = selected_state[OF assms(2) step(1,2)]
    show ?thesis
    proof
      fix j assume j: "j \<in> set (st_jobs s)"
      let ?j' = "if jr_id j = job_id_str jid then transitioned_row now nx result j else j"
      have "?j' \<in> set (st_jobs s')" using j by (simp add: step(6) set_update_where)
      moreover have "job_row_step j ?j'" using cur[OF j] step(4) by (auto simp: job_row_step_def)
      ultimately show "\<exists>j' \<in> set (st_jobs s'). job_row_step j j'" by blast
    qed
  qed
next
  case (cancel now jid expected reason r3)
  from cancel store_inv_parts(1)[OF assms(2)] show ?thesis
  proof (cases rule: cancel_cases)
    case same
    then show ?thesis by (auto simp: job_row_step_def)
  next
    case (step row cur)
    note cur = selected_state[OF assms(2) step(1,2)]
    show ?thesis
    proof
      fix j assume j: "j \<in> set (st_jobs s)"
      let ?j' = "if jr_id j = job_id_str jid then cancelled_row now j else j"
      have "?j' \<in> set (st_jobs s')" using j by (simp add: step(6) set_update_where)
      moreover have "job_row_step j ?j'" using cur[OF j] step(4) by (auto simp: job_row_step_def)
      ultimately show "\<exists>j' \<in> set (st_jobs s'). job_row_step j j'" by blast
    qed
  qed
next
  case (acquire now kind rkey owner r4)
  from acquire_writes[OF acquire assms(2)] show ?thesis by (auto intro!: job_rows_kept)
next
  case (release kind rkey owner r5)
  from release_writes[OF release] show ?thesis by (auto intro!: job_rows_kept)
next
  case (create_workspace now wid repository executor base_commit tree_hash creator r6)
  from create_workspace_writes[OF create_workspace(1)] show ?thesis by (auto intro!: job_rows_kept)
next
  case (record_workspace w r7)
  from record_workspace_writes[OF record_workspace(1)] show ?thesis by (auto intro!: job_rows_kept)
next
  case (transition_workspace wid creator expected tree_hash commit st r8)
  from transition_workspace_writes[OF transition_workspace] show ?thesis by (auto intro!: job_rows_kept)
next
  case (deliver now sid n retry r16)
  from begin_delivery_writes[OF deliver store_inv_parts(8)[OF assms(2)]] show ?thesis
    by (auto simp: same_jobs_def intro!: job_rows_kept)
next
  case (transition_change now cid creator update r10)
  from transition_change_writes[OF transition_change store_inv_parts(5)[OF assms(2)]] show ?thesis
    by (auto simp: same_jobs_def intro!: job_rows_kept)
qed (auto simp: same_jobs_def intro!: job_rows_kept
    dest!: create_change_writes record_observation_writes ingest_writes append_writes
      prune_writes ensure_writes acknowledge_writes skip_writes begin_remediation_writes finish_remediation_writes)

text \<open>
  How a job row may have changed after any number of steps: identity, owner, specification and
  creation time are fixed, the revision grows with every write, a request to cancel stays, and
  once the outcome is definitive the row does not change again.
\<close>

definition job_row_evolved :: "job_row \<Rightarrow> job_row \<Rightarrow> bool" where
  "job_row_evolved j j' \<longleftrightarrow>
     same_identity j j' \<and> jr_revision j \<le> jr_revision j' \<and> (jr_revision j' = jr_revision j \<longrightarrow> j' = j) \<and>
     (jr_cancel_requested j \<noteq> 0 \<longrightarrow> jr_cancel_requested j' \<noteq> 0) \<and>
     (JobState_definitive (row_state j) \<longrightarrow> j' = j)"

lemma job_row_step_evolved: "job_row_step j j' \<Longrightarrow> job_row_evolved j j'"
proof -
  have "JobState_definitive (row_state j) \<Longrightarrow> job_row_step j j' \<Longrightarrow> j' = j"
    using definitive_final by (auto simp: job_row_step_def JobState_definitive_def)
  then show "job_row_step j j' \<Longrightarrow> job_row_evolved j j'"
    by (auto simp: job_row_step_def job_row_evolved_def transitioned_row_def cancelled_row_def same_identity_def)
qed

lemma job_row_evolved_refl: "job_row_evolved j j"
  by (simp add: job_row_evolved_def)

lemma job_row_evolved_trans: "job_row_evolved a b \<Longrightarrow> job_row_evolved b c \<Longrightarrow> job_row_evolved a c"
  unfolding job_row_evolved_def by (metis order.antisym order.trans same_identity_trans)

definition steps ::
  "(json \<Rightarrow> string) \<Rightarrow> (timestamp \<Rightarrow> string) \<Rightarrow> (timestamp \<Rightarrow> int) \<Rightarrow> (timestamp \<Rightarrow> nat \<Rightarrow> timestamp option) \<Rightarrow>
   store \<Rightarrow> store \<Rightarrow> bool" where
  "steps digest ts_text as_second ts_add = (store_step digest ts_text as_second ts_add)\<^sup>*\<^sup>*"

text \<open>A relation between stores that every step respects holds along every run.\<close>

lemma steps_invariant:
  assumes "steps digest ts_text as_second ts_add s s'" and "store_inv s"
    and refl: "\<And>x. P x x" and trans: "\<And>x y z. P x y \<Longrightarrow> P y z \<Longrightarrow> P x z"
    and step: "\<And>x y. store_step digest ts_text as_second ts_add x y \<Longrightarrow> store_inv x \<Longrightarrow> P x y"
  shows "P s s' \<and> store_inv s'"
  using assms(1) unfolding steps_def
proof (induction rule: rtranclp_induct)
  case base
  with assms(2) refl show ?case by simp
next
  case (step y z)
  then show ?case using trans assms(5)[of y z] step_store_inv by blast
qed

lemma steps_store_inv: "steps digest ts_text as_second ts_add s s' \<Longrightarrow> store_inv s \<Longrightarrow> store_inv s'"
  by (drule steps_invariant[where P = "\<lambda>_ _. True"]) simp_all

lemma steps_jobs:
  assumes "steps digest ts_text as_second ts_add s s'" and "store_inv s"
  shows "\<forall>j \<in> set (st_jobs s). \<exists>j' \<in> set (st_jobs s'). job_row_evolved j j'"
proof -
  have "(\<forall>j \<in> set (st_jobs s). \<exists>j' \<in> set (st_jobs s'). job_row_evolved j j') \<and> store_inv s'"
    using assms
  proof (rule steps_invariant)
    show "\<forall>j \<in> set (st_jobs x). \<exists>j' \<in> set (st_jobs x). job_row_evolved j j'" for x
      using job_row_evolved_refl by blast
    show "\<forall>j \<in> set (st_jobs x). \<exists>j' \<in> set (st_jobs z). job_row_evolved j j'"
      if "\<forall>j \<in> set (st_jobs x). \<exists>j' \<in> set (st_jobs y). job_row_evolved j j'"
        "\<forall>j \<in> set (st_jobs y). \<exists>j' \<in> set (st_jobs z). job_row_evolved j j'" for x y z
      using that job_row_evolved_trans by meson
    show "\<forall>j \<in> set (st_jobs x). \<exists>j' \<in> set (st_jobs y). job_row_evolved j j'"
      if "store_step digest ts_text as_second ts_add x y" "store_inv x" for x y
      using step_job_rows[OF that] job_row_step_evolved by meson
  qed
  then show ?thesis ..
qed

text \<open>Idempotency receipts are never dropped.\<close>

lemma step_receipts:
  assumes "store_step digest ts_text as_second ts_add s s'" and "store_inv s"
  shows "set (st_idempotency s) \<subseteq> set (st_idempotency s')"
proof -
  note parts = store_inv_parts[OF assms(2)]
  from assms(1) show ?thesis
  proof cases
    case (submit now key jid new link r)
    from submit(1) show ?thesis
      by (cases rule: submit_linked_job_effect) (auto simp: fresh_submission_def)
  next
    case (accept now jid new r')
    from accept(1) show ?thesis by (cases rule: accept_job_effect) simp_all
  next
    case (transition now jid expected nx payload result r'')
    from transition parts(1) show ?thesis by (cases rule: transition_cases) simp_all
  next
    case (cancel now jid expected reason r3)
    from cancel parts(1) show ?thesis by (cases rule: cancel_cases) simp_all
  next
    case (acquire now kind rkey owner r4)
    from acquire_writes[OF acquire assms(2)] show ?thesis by auto
  next
    case (release kind rkey owner r5)
    from release_writes[OF release] show ?thesis by auto
  next
    case (create_workspace now wid repository executor base_commit tree_hash creator r6)
    from create_workspace_writes[OF create_workspace(1)] show ?thesis by auto
  next
    case (record_workspace w r7)
    from record_workspace_writes[OF record_workspace(1)] show ?thesis by auto
  next
    case (transition_workspace wid creator expected tree_hash commit st r8)
    from transition_workspace_writes[OF transition_workspace] show ?thesis by auto
  next
    case (observation ob r11)
    then show ?thesis by (auto simp: record_observation_def Let_def split: if_splits)
  next
    case (deliver now sid n retry r16)
    from begin_delivery_writes[OF deliver parts(8)] show ?thesis by (simp add: same_jobs_def)
  next
    case (transition_change now cid creator update r10)
    from transition_change_writes[OF transition_change parts(5)] show ?thesis by (simp add: same_jobs_def)
  qed (auto simp: same_jobs_def
    dest!: create_change_writes ingest_writes append_writes prune_writes ensure_writes acknowledge_writes
      skip_writes begin_remediation_writes finish_remediation_writes)
qed

lemma steps_receipts:
  assumes "steps digest ts_text as_second ts_add s s'" and "store_inv s"
  shows "set (st_idempotency s) \<subseteq> set (st_idempotency s')"
proof -
  have "set (st_idempotency s) \<subseteq> set (st_idempotency s') \<and> store_inv s'"
    using assms
  proof (rule steps_invariant)
    show "set (st_idempotency x) \<subseteq> set (st_idempotency y)"
      if "store_step digest ts_text as_second ts_add x y" "store_inv x" for x y
      using step_receipts[OF that] .
  qed auto
  then show ?thesis ..
qed

section \<open>Submission results\<close>

text \<open>A receipt decides every later submission under its key.\<close>

lemma receipt_selected:
  assumes "idempotency_inv s" and "i \<in> set (st_idempotency s)"
  shows "select_one (\<lambda>r. (ir_principal r, ir_key r) = (ir_principal i, ir_key i)) (st_idempotency s) = Some i"
  using assms idem_t.member_found[of "st_idempotency s" i] by (simp add: idempotency_inv_def)

lemma submit_replayed:
  assumes "store_inv s" and "i \<in> set (st_idempotency s)" and "ir_principal i = nj_principal new" and "ir_key i = key"
    and "ir_spec_hash i = job_spec_hash_of digest new" and "validate_new_job key new = Ok ()"
  obtains row where "row \<in> set (st_jobs s)" "jr_id row = ir_job_id i"
    "submit_linked_job digest now key jid new link s = (s, Ok \<lparr>sub_job = decoded_job row, sub_created = False\<rparr>)"
proof -
  note parts = store_inv_parts[OF assms(1)]
  from parts(2) assms(2) obtain row where row: "row \<in> set (st_jobs s)" "jr_id row = ir_job_id i"
    by (auto simp: idempotency_inv_def)
  have "select_one (\<lambda>r. jr_id r = ir_job_id i) (st_jobs s) = Some row"
    using jobs_t.member_found[OF jobs_inv_distinct[OF parts(1)] row(1)] row(2) by simp
  then have job: "get_job_by_text (ir_job_id i) s = Ok (decoded_job row)"
    using row_to_job_ok[OF jobs_inv_row_ok[OF parts(1) row(1)]] by (simp add: get_job_by_text_def)
  have "submit_body digest now key jid new link s = Ok (s, ir_job_id i, False)"
    using receipt_selected[OF parts(2) assms(2)] assms(3-5) by (simp add: submit_body_def Let_def)
  then have "submit_linked_job digest now key jid new link s = (s, Ok \<lparr>sub_job = decoded_job row, sub_created = False\<rparr>)"
    using assms(6) job by (simp add: submit_linked_job_def transact_def finish_submit_def)
  with that row show ?thesis by blast
qed

lemma submit_conflicting:
  assumes "store_inv s" and "i \<in> set (st_idempotency s)" and "ir_principal i = nj_principal new" and "ir_key i = key"
    and "ir_spec_hash i \<noteq> job_spec_hash_of digest new" and "validate_new_job key new = Ok ()"
  shows "submit_linked_job digest now key jid new link s =
    (s, Err (Report ''idempotency key was already used with a different job specification''))"
proof -
  have "submit_body digest now key jid new link s
      = Err (Report ''idempotency key was already used with a different job specification'')"
    using receipt_selected[OF store_inv_parts(2)[OF assms(1)] assms(2)] assms(3-5)
    by (simp add: submit_body_def Let_def)
  then show ?thesis
    using assms(6) by (simp add: submit_linked_job_def transact_def finish_submit_def)
qed

lemma submit_result:
  assumes "submit_linked_job digest now key jid new link s = (s', Ok res)" and "store_inv s"
    and "nj_spec_version new \<le> u32_max" and "uuid_text (job_id_str jid)"
  obtains (replayed) i where "s' = s" "\<not> sub_created res" "i \<in> set (st_idempotency s')"
      "ir_principal i = nj_principal new" "ir_key i = key" "ir_spec_hash i = job_spec_hash_of digest new"
      "h_job_id (job_handle (sub_job res)) = JobId (ir_job_id i)"
  | (created) i cs where "sub_created res" "i \<in> set (st_idempotency s')"
      "ir_principal i = nj_principal new" "ir_key i = key" "ir_spec_hash i = job_spec_hash_of digest new"
      "h_job_id (job_handle (sub_job res)) = JobId (ir_job_id i)"
      "case link of None \<Rightarrow> cs = st_changes s
       | Some l \<Rightarrow> link_change now jid (nj_principal new) l
           (s\<lparr>st_jobs := st_jobs s @ [new_job_row digest now jid new]\<rparr>)
           = Ok (s\<lparr>st_jobs := st_jobs s @ [new_job_row digest now jid new], st_changes := cs\<rparr>)"
      "job_id_str jid \<notin> jr_id ` set (st_jobs s)" "st_changes s' = cs"
proof -
  note inv' = submit_store_inv[OF assms]
  have valid: "validate_new_job key new = Ok ()"
    using assms(1) by (cases "validate_new_job key new") (simp_all add: submit_linked_job_def)
  obtain s1 t c where body: "submit_body digest now key jid new link s = Ok (s1, t, c)"
    using assms(1) valid
    by (cases "submit_body digest now key jid new link s")
      (auto simp: submit_linked_job_def transact_def finish_submit_def)
  have fin: "s' = s1" "\<exists>job. get_job_by_text t s1 = Ok job \<and> res = \<lparr>sub_job = job, sub_created = c\<rparr>"
    using assms(1) valid body by (auto simp: submit_linked_job_def transact_def finish_submit_def)
  then obtain job where job: "get_job_by_text t s' = Ok job" "res = \<lparr>sub_job = job, sub_created = c\<rparr>" by blast
  have hid: "h_job_id (job_handle job) = JobId t"
    using job(1) jobs_inv_row_ok[OF store_inv_parts(1)[OF inv']]
    by (auto simp: get_job_by_text_def row_to_job_ok decoded_job_def dest!: jobs_t.found)
  from body show ?thesis
  proof (cases rule: submit_body_cases)
    case (replayed row)
    have "row \<in> set (st_idempotency s)" "ir_principal row = nj_principal new" "ir_key row = key"
      using select_one_Some_iff[OF replayed(1)] by simp_all
    with that(1) replayed fin job hid show ?thesis by simp
  next
    case (fresh cs)
    let ?i = "\<lparr>ir_principal = nj_principal new, ir_key = key, ir_spec_hash = job_spec_hash_of digest new,
        ir_job_id = job_id_str jid, ir_created_at = now\<rparr>"
    have "?i \<in> set (st_idempotency s')" "st_changes s' = cs"
      using fin(1) fresh(4) by (simp_all add: fresh_submission_def)
    with that(2)[of ?i cs] fresh job hid show ?thesis by simp
  qed
qed

section \<open>Changes\<close>

text \<open>A change is never dropped, and its row changes only together with its revision.\<close>

definition change_row_evolved :: "change_row \<Rightarrow> change_row \<Rightarrow> bool" where
  "change_row_evolved c c' \<longleftrightarrow>
     cr_id c' = cr_id c \<and> cr_creator c' = cr_creator c \<and> cr_workspace_id c' = cr_workspace_id c \<and>
     cr_host c' = cr_host c \<and> cr_created_at c' = cr_created_at c \<and>
     (c' = c \<or> cr_revision c < cr_revision c')"

definition changes_evolved :: "store \<Rightarrow> store \<Rightarrow> bool" where
  "changes_evolved s s' \<longleftrightarrow> (\<forall>c \<in> set (st_changes s). \<exists>c' \<in> set (st_changes s'). change_row_evolved c c')"

lemma changes_evolved_same: "st_changes s' = st_changes s \<Longrightarrow> changes_evolved s s'"
  by (auto simp: changes_evolved_def change_row_evolved_def)

lemma changes_evolved_trans: "changes_evolved a b \<Longrightarrow> changes_evolved b c \<Longrightarrow> changes_evolved a c"
proof -
  have "change_row_evolved x y \<Longrightarrow> change_row_evolved y z \<Longrightarrow> change_row_evolved x z" for x y z
    by (auto simp: change_row_evolved_def)
  then show "changes_evolved a b \<Longrightarrow> changes_evolved b c \<Longrightarrow> changes_evolved a c"
    unfolding changes_evolved_def by meson
qed

lemma changes_evolved_update:
  assumes "st_changes s' = update_where p f (st_changes s)"
    and "\<And>c. c \<in> set (st_changes s) \<Longrightarrow> p c \<Longrightarrow> change_row_evolved c (f c)"
  shows "changes_evolved s s'"
  unfolding changes_evolved_def
proof
  fix c assume c: "c \<in> set (st_changes s)"
  have "(if p c then f c else c) \<in> set (st_changes s')" using c by (simp add: assms(1) set_update_where)
  moreover have "change_row_evolved c (if p c then f c else c)"
    using assms(2)[OF c] by (simp add: change_row_evolved_def)
  ultimately show "\<exists>c' \<in> set (st_changes s'). change_row_evolved c c'" by blast
qed

lemma submit_changes_evolved:
  assumes "submit_linked_job digest now key jid new link s = (s', r)" and "store_inv s"
  shows "changes_evolved s s'"
  using assms(1)
proof (cases rule: submit_linked_job_effect)
  case same
  then show ?thesis by (simp add: changes_evolved_same)
next
  case (fresh cs)
  let ?s1 = "s\<lparr>st_jobs := st_jobs s @ [new_job_row digest now jid new]\<rparr>"
  have s1: "changes_inv ?s1" by (rule changes_inv_frame[OF store_inv_parts(5)[OF assms(2)]]) auto
  show ?thesis
  proof (cases link)
    case None
    with fresh(4,5) show ?thesis by (simp add: changes_evolved_same fresh_submission_def)
  next
    case (Some l)
    with fresh(4) have "link_change now jid (nj_principal new) l ?s1 = Ok (?s1\<lparr>st_changes := cs\<rparr>)" by simp
    from this s1 show ?thesis
    proof (cases rule: link_change_cases)
      case (1 row)
      have "cs = update_where (\<lambda>c. cr_id c = cr_id row) (linked_change now jid l) (st_changes s)"
        using arg_cong[OF 1(7), of st_changes] by simp
      with fresh(5) show ?thesis
        by (intro changes_evolved_update[where f = "linked_change now jid l"])
          (simp_all add: fresh_submission_def linked_change_def change_row_evolved_def)
    qed
  qed
qed

lemma step_changes_evolved:
  assumes "store_step digest ts_text as_second ts_add s s'" and "store_inv s"
  shows "changes_evolved s s'"
  using assms(1)
proof cases
  case (submit now key jid new link r)
  from submit_changes_evolved[OF submit(1) assms(2)] show ?thesis .
next
  case (accept now jid new r')
  from accept(1) show ?thesis
    by (cases rule: accept_job_effect) (simp_all add: changes_evolved_same)
next
  case (transition now jid expected nx payload result r'')
  from transition store_inv_parts(1)[OF assms(2)] show ?thesis
    by (cases rule: transition_cases) (simp_all add: changes_evolved_same)
next
  case (cancel now jid expected reason r3)
  from cancel store_inv_parts(1)[OF assms(2)] show ?thesis
    by (cases rule: cancel_cases) (simp_all add: changes_evolved_same)
next
  case (acquire now kind rkey owner r4)
  from acquire_writes[OF acquire assms(2)] show ?thesis by (auto intro!: changes_evolved_same)
next
  case (release kind rkey owner r5)
  from release_writes[OF release] show ?thesis by (auto intro!: changes_evolved_same)
next
  case (create_workspace now wid repository executor base_commit tree_hash creator r6)
  from create_workspace_writes[OF create_workspace(1)] show ?thesis by (auto intro!: changes_evolved_same)
next
  case (record_workspace w r7)
  from record_workspace_writes[OF record_workspace(1)] show ?thesis by (auto intro!: changes_evolved_same)
next
  case (transition_workspace wid creator expected tree_hash commit st r8)
  from transition_workspace_writes[OF transition_workspace] show ?thesis by (auto intro!: changes_evolved_same)
next
  case (create_change now plan creator jid r9)
  from create_change show ?thesis
    by (cases rule: create_change_cases) (auto simp: changes_evolved_def change_row_evolved_def)
next
  case (transition_change now cid creator update r10)
  from transition_change store_inv_parts(5)[OF assms(2)] show ?thesis
  proof (cases rule: transition_change_cases)
    case same
    then show ?thesis by (simp add: changes_evolved_same)
  next
    case (step row)
    have "change_row_evolved c (moved_change now update (cr_revision row + 1) c)"
      if "c \<in> set (st_changes s)" "cr_id c = change_id_str cid" for c
    proof -
      have "c = row"
        using changes_t.key_unique[OF changes_inv_distinct[OF store_inv_parts(5)[OF assms(2)]] that(1) step(1)]
          that(2) step(2) by simp
      then show ?thesis by (simp add: change_row_evolved_def moved_change_def)
    qed
    then show ?thesis
      by (intro changes_evolved_update[where f = "moved_change now update (cr_revision row + 1)"
            and p = "\<lambda>c. cr_id c = change_id_str cid"]) (simp_all add: step(6))
  qed
next
  case (deliver now sid n retry r16)
  from begin_delivery_writes[OF deliver store_inv_parts(8)[OF assms(2)]] show ?thesis
    by (simp add: changes_evolved_same)
qed (simp_all add: changes_evolved_same record_observation_writes ingest_writes append_writes
    prune_writes ensure_writes acknowledge_writes skip_writes begin_remediation_writes finish_remediation_writes)

lemma steps_changes:
  assumes "steps digest ts_text as_second ts_add s s'" and "store_inv s"
  shows "changes_evolved s s'"
  using steps_invariant[OF assms, of changes_evolved] changes_evolved_same changes_evolved_trans
    step_changes_evolved by blast

text \<open>A change read earlier is current as long as its revision is.\<close>

lemma same_revision_same_change:
  assumes "steps digest ts_text as_second ts_add s s'" and "store_inv s"
    and "c \<in> set (st_changes s)" and "c' \<in> set (st_changes s')" and "cr_id c' = cr_id c"
    and "cr_revision c' = cr_revision c"
  shows "c' = c"
proof -
  from steps_changes[OF assms(1,2)] assms(3) obtain d where
    d: "d \<in> set (st_changes s')" "change_row_evolved c d" by (auto simp: changes_evolved_def)
  have "d = c'"
    using changes_t.key_unique[OF changes_inv_distinct[OF store_inv_parts(5)[OF steps_store_inv[OF assms(1,2)]]] d(1) assms(4)]
      d(2) assms(5) by (simp add: change_row_evolved_def)
  with d(2) assms(6) show ?thesis by (auto simp: change_row_evolved_def)
qed

section \<open>Workspaces\<close>

lemma step_workspaces_extend:
  assumes "store_step digest ts_text as_second ts_add s s'" and "store_inv s"
  shows "workspaces_extend s s'"
proof -
  have same: "st_workspaces s' = st_workspaces s \<Longrightarrow> workspaces_extend s s'"
    by (simp add: workspaces_extend_def)
  have same': "same_config s s' \<Longrightarrow> workspaces_extend s s'"
    by (simp add: same same_config_def)
  note parts = store_inv_parts[OF assms(2)]
  from assms(1) show ?thesis
  proof cases
    case (submit now key jid new link r)
    from submit_writes[OF submit(1)] show ?thesis by (intro same) (auto simp: frame_defs)
  next
    case (accept now jid new r')
    from accept_writes[OF accept(1)] show ?thesis by (intro same) (auto simp: frame_defs)
  next
    case (transition now jid expected nx payload result r'')
    from transition_writes[OF transition parts(1)] show ?thesis by (intro same) (auto simp: frame_defs)
  next
    case (cancel now jid expected reason r3)
    from cancel_writes[OF cancel parts(1)] show ?thesis by (intro same) (auto simp: frame_defs)
  next
    case (acquire now kind rkey owner r4)
    from acquire_writes[OF acquire assms(2)] show ?thesis by (intro same) auto
  next
    case (release kind rkey owner r5)
    from release_writes[OF release] show ?thesis by (intro same) auto
  next
    case (create_workspace now wid repository executor base_commit tree_hash creator r6)
    from create_preserves_workspaces_inv(2)[OF create_workspace(1) parts(4) create_workspace(2)] show ?thesis .
  next
    case (record_workspace w r7)
    from record_preserves_workspaces_inv[OF record_workspace(1) parts(4) record_workspace(2)] show ?thesis ..
  next
    case (transition_workspace wid creator expected tree_hash commit st r8)
    from transition_preserves_workspaces_inv[OF transition_workspace parts(4)] show ?thesis ..
  next
    case (deliver now sid n retry r16)
    from begin_delivery_writes[OF deliver parts(8)] show ?thesis by (simp add: same')
  next
    case (transition_change now cid creator update r10)
    from transition_change_writes[OF transition_change parts(5)] show ?thesis by (simp add: same')
  qed (simp_all add: same' create_change_writes record_observation_writes ingest_writes append_writes
    prune_writes ensure_writes acknowledge_writes skip_writes begin_remediation_writes finish_remediation_writes)
qed

lemma workspaces_extend_trans: "workspaces_extend a b \<Longrightarrow> workspaces_extend b c \<Longrightarrow> workspaces_extend a c"
  by (force simp: workspaces_extend_def)

lemma steps_workspaces:
  assumes "steps digest ts_text as_second ts_add s s'" and "store_inv s"
  shows "workspaces_extend s s'"
  using steps_invariant[OF assms, of workspaces_extend] workspaces_extend_trans step_workspaces_extend
    workspaces_extend_refl by blast

section \<open>Deliveries\<close>

lemma step_delivery:
  assumes "store_step digest ts_text as_second ts_add s s'" and "store_inv s"
  shows "cursors_grow s s' \<and> (\<forall>sid n. settled sid n s \<longrightarrow> settled sid n s')"
proof -
  note parts = store_inv_parts[OF assms(2)]
  have same: "same_events s s' \<Longrightarrow> ?thesis"
    by (auto simp: same_events_def settled_def intro: cursors_grow_frame)
  have grown: "cursors_grow s s' \<and> (\<forall>sid n. settled sid n s \<longrightarrow> settled sid n s')"
    if "st_subscriptions s' = st_subscriptions s \<and> st_deliveries s' = st_deliveries s \<and>
      st_event_seq s \<le> st_event_seq s' \<and>
      (\<forall>x \<in> set (st_events s'). x \<in> set (st_events s) \<or> st_event_seq s < evr_sequence x)"
    using that by (auto intro: cursors_grow_frame settled_frame)
  from assms(1) show ?thesis
  proof cases
    case (submit now key jid new link r)
    from submit_writes[OF submit(1)] show ?thesis by (intro same) (auto simp: frame_defs)
  next
    case (accept now jid new r')
    from accept_writes[OF accept(1)] show ?thesis by (intro same) (auto simp: frame_defs)
  next
    case (transition now jid expected nx payload result r'')
    from transition_writes[OF transition parts(1)] show ?thesis by (intro same) (auto simp: frame_defs)
  next
    case (cancel now jid expected reason r3)
    from cancel_writes[OF cancel parts(1)] show ?thesis by (intro same) (auto simp: frame_defs)
  next
    case (acquire now kind rkey owner r4)
    from acquire_writes[OF acquire assms(2)] show ?thesis by (intro same) (auto simp: frame_defs)
  next
    case (release kind rkey owner r5)
    from release_writes[OF release] show ?thesis by (intro same) (auto simp: frame_defs)
  next
    case (create_workspace now wid repository executor base_commit tree_hash creator r6)
    from create_workspace_writes[OF create_workspace(1)] show ?thesis by (intro same) (auto simp: frame_defs)
  next
    case (record_workspace w r7)
    from record_workspace_writes[OF record_workspace(1)] show ?thesis by (intro same) (auto simp: frame_defs)
  next
    case (transition_workspace wid creator expected tree_hash commit st r8)
    from transition_workspace_writes[OF transition_workspace] show ?thesis by (intro same) (auto simp: frame_defs)
  next
    case (create_change now plan creator jid r9)
    from create_change_writes[OF create_change] show ?thesis by (simp add: same)
  next
    case (transition_change now cid creator update r10)
    from transition_change_writes[OF transition_change parts(5)] show ?thesis by (simp add: same)
  next
    case (observation ob r11)
    from record_observation_writes[OF observation] show ?thesis by (simp add: same)
  next
    case (alert now fresh_episode fresh_event alert r12)
    from ingest_writes[OF alert] show ?thesis by (intro grown) blast
  next
    case (append now fresh_event input r13)
    from append_writes[OF append(1)] show ?thesis by (intro grown) blast
  next
    case (prune n r14)
    from prune_writes[OF prune] settled_prune[OF _ prune parts(6)] show ?thesis
      by (auto intro: cursors_grow_frame)
  next
    case (subscribe now sid filter_doc target cred r15)
    note f = ensure_subscription_facts[OF subscribe parts(8)]
    from f show ?thesis by (auto intro: settled_frame)
  next
    case (deliver now sid n retry r16)
    from begin_delivery_facts(2)[OF deliver parts(8)] settled_begin[OF _ parts(8) deliver] show ?thesis by blast
  next
    case (acknowledge now sid n stage status r17)
    from acknowledge_facts(2)[OF acknowledge parts(8)] settled_acknowledge[OF _ acknowledge] show ?thesis by blast
  next
    case (skip sid n r18)
    note f = skip_facts[OF skip parts(8)]
    from f show ?thesis by (auto intro: settled_frame)
  next
    case (begin_remediation now fresh_remediation fresh_event event_id host prin jid max_attempts cooldown r19)
    from begin_remediation_writes[OF begin_remediation(1)] show ?thesis by (intro grown) blast
  next
    case (finish_remediation now fresh_event rid prin c r20)
    from finish_remediation_writes[OF finish_remediation(1)] show ?thesis by (intro grown) blast
  qed
qed

lemma steps_delivery:
  assumes "steps digest ts_text as_second ts_add s s'" and "store_inv s"
  shows "cursors_grow s s'" and "settled sid n s \<Longrightarrow> settled sid n s'"
proof -
  let ?P = "\<lambda>s s'. cursors_grow s s' \<and> (\<forall>sid n. settled sid n s \<longrightarrow> settled sid n s')"
  have "?P s s' \<and> store_inv s'"
    using assms
  proof (rule steps_invariant)
    show "?P x z" if "?P x y" "?P y z" for x y z using that cursors_grow_trans by blast
    show "?P x y" if "store_step digest ts_text as_second ts_add x y" "store_inv x" for x y
      using step_delivery[OF that] .
  qed simp
  then show "cursors_grow s s'" and "settled sid n s \<Longrightarrow> settled sid n s'" by blast+
qed

section \<open>Locks\<close>

text \<open>Only the holder's own release, or an acquisition after the holder ended, moves a lock.\<close>

lemma lock_owner_frame: "st_resources s' = st_resources s \<Longrightarrow> lock_owner kind key s' = lock_owner kind key s"
  by (simp add: lock_owner_def)

lemma acquire_keeps_live_lock:
  assumes "try_acquire_resource now kind' key' owner s = (s', r)" and "store_inv s"
    and "lock_owner kind key s = Some k" and "live_job k s"
  shows "lock_owner kind key s' = Some k"
  using assms(1) store_inv_parts(1,3)[OF assms(2)]
proof (cases rule: acquire_cases)
  case (replaced row)
  have other: "(kind', key') \<noteq> (kind, key)"
  proof
    assume "(kind', key') = (kind, key)"
    with replaced(2) assms(3) have "rr_owner_job_id row = k" by (simp add: lock_owner_def)
    with replaced(4) assms(4) show False by simp
  qed
  let ?f = "\<lambda>r :: resource_row. r\<lparr>rr_owner_job_id := job_id_str owner, rr_revision := rr_revision r + 1, rr_acquired_at := now\<rparr>"
  have "select_one (\<lambda>r. (rr_kind r, rr_key r) = (kind, key)) (st_resources s')
      = map_option (\<lambda>r. if (rr_kind r, rr_key r) = (kind', key') then ?f r else r)
          (select_one (\<lambda>r. (rr_kind r, rr_key r) = (kind, key)) (st_resources s))"
    using resources_t.found_after_update[of ?f "(kind, key)" "\<lambda>r. (rr_kind r, rr_key r) = (kind', key')" "st_resources s"]
    by (simp add: replaced(6))
  moreover obtain row' where
    row': "select_one (\<lambda>r. (rr_kind r, rr_key r) = (kind, key)) (st_resources s) = Some row'" "rr_owner_job_id row' = k"
    using assms(3) unfolding lock_owner_def by (auto simp only: map_option_eq_Some)
  moreover have "(rr_kind row', rr_key row') = (kind, key)"
    using resources_t.found[OF row'(1)] by simp
  ultimately show ?thesis using other by (auto simp: lock_owner_def)
next
  case created
  then show ?thesis using assms(3) by (auto simp: lock_owner_def select_one_append)
qed (use assms(3) in simp_all)

lemma release_other_lock:
  assumes "release_resource kind' key' owner s = (s', r)" and "resources_inv s"
    and "lock_owner kind key s = Some k" and "(kind', key', job_id_str owner) \<noteq> (kind, key, k)"
  shows "lock_owner kind key s' = Some k"
proof -
  from assms(3) obtain row where
    row: "select_one (\<lambda>r. (rr_kind r, rr_key r) = (kind, key)) (st_resources s) = Some row" "rr_owner_job_id row = k"
    unfolding lock_owner_def by (auto simp only: map_option_eq_Some)
  have mem: "row \<in> set (st_resources s)" "(rr_kind row, rr_key row) = (kind, key)"
    using resources_t.found[OF row(1)] by simp_all
  have s': "st_resources s' = filter (\<lambda>r. \<not> ((rr_kind r, rr_key r) = (kind', key') \<and> rr_owner_job_id r = job_id_str owner)) (st_resources s)"
    using assms(1) by (auto simp: release_resource_def Let_def)
  have "row \<in> set (st_resources s')" using mem row(2) assms(4) by (auto simp: s')
  moreover have "distinct (map (\<lambda>r. (rr_kind r, rr_key r)) (st_resources s'))"
    using assms(2) by (simp add: s' resources_inv_def distinct_map_filter)
  ultimately have "select_one (\<lambda>r. (rr_kind r, rr_key r) = (rr_kind row, rr_key row)) (st_resources s') = Some row"
    by (intro resources_t.member_found)
  with mem(2) row(2) show ?thesis by (simp add: lock_owner_def)
qed

lemma step_keeps_live_lock:
  assumes "store_step digest ts_text as_second ts_add s s'" and "store_inv s"
    and "lock_owner kind key s = Some k" and "live_job k s"
  shows "lock_owner kind key s' = Some k \<or> (\<exists>r. release_resource kind key (JobId k) s = (s', r))"
proof -
  note parts = store_inv_parts[OF assms(2)]
  have same: "st_resources s' = st_resources s \<Longrightarrow> ?thesis" using lock_owner_frame[of s' s kind key] assms(3) by simp
  have same': "same_config s s' \<Longrightarrow> ?thesis" by (simp add: same same_config_def)
  from assms(1) show ?thesis
  proof cases
    case (submit now key' jid new link r)
    from submit_writes[OF submit(1)] show ?thesis by (intro same') blast
  next
    case (accept now jid new r')
    from accept_writes[OF accept(1)] show ?thesis by (intro same') blast
  next
    case (transition now jid expected nx payload result r'')
    from transition_writes[OF transition parts(1)] show ?thesis by (intro same') blast
  next
    case (cancel now jid expected reason r3)
    from cancel_writes[OF cancel parts(1)] show ?thesis by (intro same') blast
  next
    case (acquire now kind' rkey owner r4)
    from acquire_keeps_live_lock[OF acquire assms(2,3,4)] show ?thesis ..
  next
    case (release kind' rkey owner r5)
    show ?thesis
    proof (cases "(kind', rkey, job_id_str owner) = (kind, key, k)")
      case True
      with release show ?thesis by (cases owner) auto
    next
      case False
      from release_other_lock[OF release parts(3) assms(3) False] show ?thesis ..
    qed
  next
    case (create_workspace now wid repository executor base_commit tree_hash creator r6)
    from create_workspace_writes[OF create_workspace(1)] show ?thesis by (intro same) auto
  next
    case (record_workspace w r7)
    from record_workspace_writes[OF record_workspace(1)] show ?thesis by (intro same) auto
  next
    case (transition_workspace wid creator expected tree_hash commit st r8)
    from transition_workspace_writes[OF transition_workspace] show ?thesis by (intro same) auto
  next
    case (deliver now sid n retry r16)
    from begin_delivery_writes[OF deliver parts(8)] show ?thesis by (simp add: same')
  next
    case (transition_change now cid creator update r10)
    from transition_change_writes[OF transition_change parts(5)] show ?thesis by (simp add: same')
  qed (simp_all add: same' create_change_writes record_observation_writes ingest_writes append_writes
    prune_writes ensure_writes acknowledge_writes skip_writes begin_remediation_writes finish_remediation_writes)
qed

section \<open>Workflow fences\<close>

lemma link_result:
  assumes "link_change now jid prin l (s\<lparr>st_jobs := st_jobs s @ [jrow]\<rparr>)
      = Ok (s\<lparr>st_jobs := st_jobs s @ [jrow], st_changes := cs\<rparr>)" and "store_inv s"
  obtains row where "row \<in> set (st_changes s)"
    "cr_id row = change_id_str (pl_change_id (ch_plan (ln_change l)))" "cr_creator row = prin"
    "cr_revision row = int (ch_revision (ln_change l))"
    "check_workflow_owner (cr_workflow_job_id row) (owner_row_of row s) (ln_workflow l) = Ok ()"
    "ch_state (ln_change l) = ln_next l
     \<or> ChangeState_can_transition_to (ch_state (ln_change l)) (ln_next l)"
    "cs = update_where (\<lambda>c. cr_id c = cr_id row) (linked_change now jid l) (st_changes s)"
proof -
  let ?s1 = "s\<lparr>st_jobs := st_jobs s @ [jrow]\<rparr>"
  have s1: "changes_inv ?s1" by (rule changes_inv_frame[OF store_inv_parts(5)[OF assms(2)]]) auto
  from assms(1) s1 show ?thesis
  proof (cases rule: link_change_cases)
    case (1 row)
    have row: "row \<in> set (st_changes s)" using 1(1) by simp
    have "owner_row_of row ?s1 = owner_row_of row s"
    proof (cases "cr_workflow_job_id row")
      case None
      then show ?thesis by (simp add: owner_row_of_def)
    next
      case (Some w)
      then have "w \<in> jr_id ` set (st_jobs s)"
        using store_inv_parts(5)[OF assms(2)] row by (auto simp: changes_inv_def)
      then obtain j where "select_one (\<lambda>j. jr_id j = w) (st_jobs s) = Some j"
        using jobs_t.not_found[of w "st_jobs s"] by fastforce
      with Some show ?thesis by (simp add: owner_row_of_def select_one_append)
    qed
    moreover have "cs = update_where (\<lambda>c. cr_id c = cr_id row) (linked_change now jid l) (st_changes s)"
      using arg_cong[OF 1(7), of st_changes] by simp
    ultimately show ?thesis using that[OF row 1(2-4)] 1(5,6) by simp
  qed
qed

text \<open>What the fence lets through.\<close>

lemma workflow_owner_ok:
  assumes "check_workflow_owner (cr_workflow_job_id row) (owner_row_of row s) workflow = Ok ()" and "store_inv s"
    and "row \<in> set (st_changes s)"
  shows "case workflow of
      Some w \<Rightarrow> cr_workflow_job_id row = Some (job_id_str w) \<and>
        (\<exists>j \<in> set (st_jobs s). jr_id j = job_id_str w \<and> row_state j = Running \<and> jr_cancel_requested j = 0)
    | None \<Rightarrow> (\<forall>w. cr_workflow_job_id row = Some w \<longrightarrow>
        (\<exists>j \<in> set (st_jobs s). jr_id j = w \<and> JobState_definitive (row_state j)))"
proof (cases workflow)
  case (Some w)
  with assms(1) obtain j where own: "cr_workflow_job_id row = Some (job_id_str w)"
    and j: "owner_row_of row s = Some j" "jr_state j = ''running''" "jr_cancel_requested j = 0"
    by (auto simp: check_workflow_owner_def split: if_splits option.splits)
  from j(1) own have sel: "select_one (\<lambda>j. jr_id j = job_id_str w) (st_jobs s) = Some j"
    by (simp add: owner_row_of_def)
  have "row_state j = Running" by (rule row_state_as_str) (simp add: j(2))
  with Some own j(3) jobs_t.found[OF sel] show ?thesis by auto
next
  case None
  have "\<exists>j \<in> set (st_jobs s). jr_id j = w \<and> JobState_definitive (row_state j)" if w: "cr_workflow_job_id row = Some w" for w
  proof -
    have "w \<in> jr_id ` set (st_jobs s)"
      using store_inv_parts(5)[OF assms(2)] assms(3) w by (auto simp: changes_inv_def)
    then obtain j where sel: "select_one (\<lambda>j. jr_id j = w) (st_jobs s) = Some j"
      using jobs_t.not_found[of w "st_jobs s"] by fastforce
    then have "owner_row_of row s = Some j" using w by (simp add: owner_row_of_def)
    with assms(1) None have "JobState_definitive (row_state j)"
      by (auto simp: check_workflow_owner_def JobState_definitive_def row_state_def
          split: if_splits)
    with jobs_t.found[OF sel] show ?thesis by blast
  qed
  with None show ?thesis by simp
qed

end
