(* ===== verification/Example_Run.thy ===== *)
theory Example_Run
  imports Store_History "HOL-Library.Code_Target_Numeral"
begin

text \<open>
  A worked run of the store: a job is submitted and dispatched, a workspace and a change are
  created, an alert fires, its event is delivered and acknowledged, and a remediation begins.
  The properties are applied to it where they have hypotheses.
\<close>

lemma ok_run: "is_ok (snd p) \<Longrightarrow> p = (fst p, Ok (projr (snd p)))"
  by (simp add: is_ok_def prod_eq_iff split: sum.splits)

definition ex_digest :: "json \<Rightarrow> string" where
  "ex_digest v = (case v of JObject kvs \<Rightarrow> concat (map fst kvs) | _ \<Rightarrow> [])"

text \<open>Seconds since the epoch, from 1970 on, and a text that orders like them.\<close>

definition ex_second :: "timestamp \<Rightarrow> int" where
  "ex_second t = (if t < 0 then 0 else t div 1000000000)"

definition ex_text :: "timestamp \<Rightarrow> string" where
  "ex_text t = replicate (nat (ex_second t)) (CHR ''x'')"

definition ex_add :: "timestamp \<Rightarrow> nat \<Rightarrow> timestamp option" where
  "ex_add t n = Some (t + int n * 1000000000)"

definition ex_uuid :: "char \<Rightarrow> string" where
  "ex_uuid c = ''01890000-0000-7000-8000-00000000000'' @ [c]"

definition ex_job :: JobId where "ex_job = JobId (ex_uuid (CHR ''1''))"
definition ex_job2 :: JobId where "ex_job2 = JobId (ex_uuid (CHR ''2''))"
definition ex_workspace :: WorkspaceId where "ex_workspace = WorkspaceId (ex_uuid (CHR ''3''))"
definition ex_change :: ChangeId where "ex_change = ChangeId (ex_uuid (CHR ''4''))"
definition ex_event :: EventId where "ex_event = EventId (ex_uuid (CHR ''5''))"

definition ex_oid :: string where "ex_oid = replicate 40 (CHR ''a'')"

definition ex_new :: NewJob where
  "ex_new = \<lparr>nj_principal = ''alice'', nj_host = ''web1'', nj_operation = ''exec.run'', nj_spec_version = 1,
     nj_spec = JObject [(''b'', JNull), (''a'', JBool True)], nj_policy_version = ''v1'', nj_deadline = None\<rparr>"

definition ex_plan :: ChangePlan where
  "ex_plan = \<lparr>pl_change_id = ex_change, pl_repository = ''infra'', pl_workspace_id = ex_workspace,
     pl_workspace_revision = 1, pl_tree_hash = ex_oid, pl_source_commit = ex_oid,
     pl_source_reference = ''main'', pl_source_remote_head = ex_oid, pl_target_host = ''web1'',
     pl_deployment_profile = ''system'', pl_kind = SystemKind, pl_flake_attribute = ''web1'',
     pl_drv_path = None, pl_lock_digest = None,
     pl_source_baseline = \<lparr>sb_repository_id = ''infra'', sb_reference = ''main'', sb_commit = None,
       sb_observed_at = 0, sb_evidence = []\<rparr>,
     pl_runtime_baseline = \<lparr>rb_host = ''web1'', rb_profile = ''system'', rb_running_closure = None,
       rb_persistent_profile = None, rb_generation = None, rb_boot_id = None, rb_source_commit = None,
       rb_observed_at = 0, rb_evidence = []\<rparr>,
     pl_policy_version = ''v1'', pl_created_at = 0, pl_expires_at = 100\<rparr>"

definition ex_alert :: "bool \<Rightarrow> AlertEventInput" where
  "ex_alert firing = \<lparr>ai_source = ''prometheus'', ai_fingerprint = ''disk'', ai_host = ''web1'',
     ai_firing = firing, ai_occurred_at = 0, ai_payload = JObject []\<rparr>"

definition ex1 :: store where
  "ex1 = fst (submit_linked_job ex_digest 1 ''key'' ex_job ex_new None empty_store)"
definition ex2 :: store where
  "ex2 = fst (transition_job 2 ex_job 1 Dispatching (JObject []) None ex1)"
definition ex3 :: store where
  "ex3 = fst (transition_job 3 ex_job 2 Running (JObject []) None ex2)"
definition ex4 :: store where
  "ex4 = fst (create_workspace 4 ex_workspace ''infra'' ''web1'' ex_oid ex_oid ''alice'' ex3)"
definition ex5 :: store where
  "ex5 = fst (create_change 5 ex_plan ''alice'' ex_job ex4)"
definition ex6 :: store where
  "ex6 = fst (ingest_alert 6 (ex_uuid (CHR ''6'')) (ex_uuid (CHR ''5'')) (ex_alert True) ex5)"
definition ex7 :: store where
  "ex7 = fst (ensure_subscription 7 ''hook'' JNull JNull None ex6)"
definition ex8 :: store where
  "ex8 = fst (begin_delivery ex_add 8 ''hook'' 1 60 ex7)"
definition ex9 :: store where
  "ex9 = fst (acknowledge_delivery 9 ''hook'' 1 DlConfirmed (Some 200) ex8)"
definition ex10 :: store where
  "ex10 = fst (begin_remediation ex_text ex_second 10 (ex_uuid (CHR ''7'')) (ex_uuid (CHR ''8'')) ex_event
     ''web1'' ''alice'' ex_job 2 60 ex9)"

lemma ex_ids:
  "uuid_text (job_id_str ex_job)" "uuid_text (job_id_str ex_job2)"
  "uuid_text (workspace_id_str ex_workspace)" "uuid_text (change_id_str ex_change)"
  by code_simp+

abbreviation ex_reachable :: "store \<Rightarrow> bool" where
  "ex_reachable \<equiv> reachable ex_digest ex_text ex_second ex_add"

lemma ex_step:
  assumes "ex_reachable s" and "store_step ex_digest ex_text ex_second ex_add s s'"
  shows "ex_reachable s'"
  using assms by (rule reachable.step)

lemma ex_reachable_1: "ex_reachable ex1"
proof (rule ex_step[OF reachable.initial])
  show "store_step ex_digest ex_text ex_second ex_add empty_store ex1"
    unfolding ex1_def
    by (rule store_step.submit[OF prod.collapse[symmetric]]) (use ex_ids in \<open>simp_all add: ex_new_def\<close>)
qed

lemma ex_reachable_3: "ex_reachable ex3"
proof -
  have "ex_reachable ex2"
    by (rule ex_step[OF ex_reachable_1]) (unfold ex2_def, rule store_step.transition[OF prod.collapse[symmetric]])
  then show ?thesis
    by (rule ex_step) (unfold ex3_def, rule store_step.transition[OF prod.collapse[symmetric]])
qed

lemma ex_reachable_4: "ex_reachable ex4"
  by (rule ex_step[OF ex_reachable_3]) (unfold ex4_def, rule store_step.create_workspace[OF prod.collapse[symmetric] ex_ids(3)])

lemma ex_reachable_5: "ex_reachable ex5"
  by (rule ex_step[OF ex_reachable_4]) (unfold ex5_def, rule store_step.create_change[OF prod.collapse[symmetric]])

lemma ex_reachable_7: "ex_reachable ex7"
proof -
  have "ex_reachable ex6"
    by (rule ex_step[OF ex_reachable_5]) (unfold ex6_def, rule store_step.alert[OF prod.collapse[symmetric]])
  then show ?thesis
    by (rule ex_step) (unfold ex7_def, rule store_step.subscribe[OF prod.collapse[symmetric]])
qed

lemma ex_reachable_8: "ex_reachable ex8"
  by (rule ex_step[OF ex_reachable_7]) (unfold ex8_def, rule store_step.deliver[OF prod.collapse[symmetric]])

lemma ex_reachable_9: "ex_reachable ex9"
  by (rule ex_step[OF ex_reachable_8]) (unfold ex9_def, rule store_step.acknowledge[OF prod.collapse[symmetric]])

lemma ex_reachable_10: "ex_reachable ex10"
proof (rule ex_step[OF ex_reachable_9])
  show "store_step ex_digest ex_text ex_second ex_add ex9 ex10"
    unfolding ex10_def
    by (rule store_step.begin_remediation[OF prod.collapse[symmetric]]) (use ex_ids in simp_all)
qed

end
