(* ===== verification/Properties_Jobs.thy ===== *)
theory Properties_Jobs
  imports Example_Run
begin

text \<open>
  Properties of durable jobs: the event log and the job table agree, outcomes are final,
  submission is idempotent, transitions are revision-checked, locks are exclusive.
\<close>

section \<open>Consistency of every reachable store\<close>



lemma replay_step_revision:
  "replay_step (Some (st, n, c)) e = Some (st', n', c') \<Longrightarrow> n' = n + 1"
  by (auto simp: replay_step_def split: if_splits sum.splits)

lemma replay_revision_counts:
  "foldl replay_step (Some (st, n, c)) es = Some (st', n', c') \<Longrightarrow> n' = n + int (length es)"
proof (induction es arbitrary: st n c)
  case Nil
  then show ?case by simp
next
  case (Cons e es)
  then obtain a where a: "replay_step (Some (st, n, c)) e = Some a"
    by (cases "replay_step (Some (st, n, c)) e") simp_all
  obtain st1 n1 c1 where "a = (st1, n1, c1)" by (cases a)
  with Cons a replay_step_revision[of st n c e] show ?case by force
qed

lemma replay_log_counts: "replay_log l = Some (st, n, c) \<Longrightarrow> n = int (length l)"
  by (auto simp: replay_log_def split: list.splits if_splits dest: replay_revision_counts)

text \<open>
  (C2) The event log is a faithful history: replaying the events of a job through the job state
  machine gives exactly its stored state, revision and cancel flag, and the revision counts the
  events.
\<close>

theorem job_log_replays:
  assumes "reachable digest ts_text as_second ts_add s" and "r \<in> set (st_jobs s)"
  shows "replay_log (job_log_of (jr_id r) (st_job_events s))
      = Some (row_state r, jr_revision r, jr_cancel_requested r \<noteq> 0)
    \<and> jr_revision r = int (length (job_log_of (jr_id r) (st_job_events s)))"
proof -
  have "jobs_inv s" using reachable_store_inv[OF assms(1)] by (simp add: store_inv_def)
  with assms(2) have log: "replay_log (job_log_of (jr_id r) (st_job_events s))
      = Some (row_state r, jr_revision r, jr_cancel_requested r \<noteq> 0)"
    by (simp add: jobs_inv_def jobs_tables_ok_def abstract_row_def)
  with replay_log_counts[OF log] show ?thesis by simp
qed

theorem job_log_replays_witness:
  "\<exists>r \<in> set (st_jobs ex3). jr_revision r = 3 \<and> length (job_log_of (jr_id r) (st_job_events ex3)) = 3
     \<and> replay_log (job_log_of (jr_id r) (st_job_events ex3)) = Some (Running, 3, False)"
proof -
  let ?r = "hd (st_jobs ex3)"
  have r: "?r \<in> set (st_jobs ex3)" "jr_revision ?r = 3" "row_state ?r = Running" "jr_cancel_requested ?r = 0"
    by code_simp+
  from job_log_replays[OF ex_reachable_3 r(1)] r show ?thesis by (intro bexI[of _ ?r]) auto
qed

section \<open>Outcomes\<close>

text \<open>
  (C26) Once a job has succeeded, failed, timed out or been cancelled, no later operation changes
  its row in any way: state, result and revision stay as they were.
\<close>

theorem definitive_outcome_final:
  assumes "reachable digest ts_text as_second ts_add s" and "steps digest ts_text as_second ts_add s s'"
    and "j \<in> set (st_jobs s)" and "JobState_definitive (row_state j)"
  shows "j \<in> set (st_jobs s') \<and> (\<forall>j' \<in> set (st_jobs s'). jr_id j' = jr_id j \<longrightarrow> j' = j)"
proof -
  note inv = reachable_store_inv[OF assms(1)]
  from steps_jobs[OF assms(2) inv] assms(3,4) have mem: "j \<in> set (st_jobs s')"
    by (auto simp: job_row_evolved_def)
  have "distinct (map jr_id (st_jobs s'))"
    using jobs_inv_distinct[OF store_inv_parts(1)[OF steps_store_inv[OF assms(2) inv]]] .
  with mem show ?thesis by (auto dest: jobs_t.key_unique)
qed

definition ex_failed :: store where
  "ex_failed = fst (transition_job 4 ex_job 3 Failed (JObject []) (Some JNull) ex3)"

lemma ex_reachable_failed: "ex_reachable ex_failed"
  by (rule ex_step[OF ex_reachable_3]) (unfold ex_failed_def, rule store_step.transition[OF prod.collapse[symmetric]])

definition ex_failed_later :: store where
  "ex_failed_later = fst (transition_job 5 ex_job 4 Succeeded (JObject []) None ex_failed)"

lemma ex_failed_steps: "steps ex_digest ex_text ex_second ex_add ex_failed ex_failed_later"
  unfolding steps_def ex_failed_later_def
  by (rule r_into_rtranclp) (rule store_step.transition[OF prod.collapse[symmetric]])

theorem definitive_outcome_final_witness:
  "\<exists>j \<in> set (st_jobs ex_failed). row_state j = Failed \<and> j \<in> set (st_jobs ex_failed_later)"
proof -
  let ?j = "hd (st_jobs ex_failed)"
  have j: "?j \<in> set (st_jobs ex_failed)" "row_state ?j = Failed" "JobState_definitive (row_state ?j)" by code_simp+
  with definitive_outcome_final[OF ex_reachable_failed ex_failed_steps j(1,3)] show ?thesis by blast
qed

section \<open>Submission\<close>

text \<open>
  (C3) Submission is idempotent across any history: after a submission was acknowledged, a retry by
  the same principal with the same key and an equal specification, at any later time and with any
  freshly drawn identifier, writes nothing and answers with the job of the first submission.
\<close>

theorem submit_idempotent:
  assumes "reachable digest ts_text as_second ts_add s"
    and "submit_linked_job digest now key jid new link s = (s1, Ok res)"
    and "nj_spec_version new \<le> u32_max" and "uuid_text (job_id_str jid)"
    and "steps digest ts_text as_second ts_add s1 s2"
    and "nj_principal new2 = nj_principal new" and "job_spec_hash_of digest new2 = job_spec_hash_of digest new"
    and "validate_new_job key new2 = Ok ()"
  shows "\<exists>job. submit_linked_job digest now2 key jid2 new2 link2 s2 = (s2, Ok \<lparr>sub_job = job, sub_created = False\<rparr>)
    \<and> h_job_id (job_handle job) = h_job_id (job_handle (sub_job res))"
proof -
  note inv = reachable_store_inv[OF assms(1)]
  note inv1 = submit_store_inv[OF assms(2) inv assms(3,4)]
  note inv2 = steps_store_inv[OF assms(5) inv1]
  from assms(2) inv assms(3,4) obtain i where i: "i \<in> set (st_idempotency s1)"
    "ir_principal i = nj_principal new" "ir_key i = key" "ir_spec_hash i = job_spec_hash_of digest new"
    "h_job_id (job_handle (sub_job res)) = JobId (ir_job_id i)"
    by (cases rule: submit_result) blast+
  have i2: "i \<in> set (st_idempotency s2)" using steps_receipts[OF assms(5) inv1] i(1) by blast
  obtain row where row: "row \<in> set (st_jobs s2)" "jr_id row = ir_job_id i"
    "submit_linked_job digest now2 key jid2 new2 link2 s2 = (s2, Ok \<lparr>sub_job = decoded_job row, sub_created = False\<rparr>)"
    by (rule submit_replayed[OF inv2 i2, of new2 key digest now2 jid2 link2]) (use i assms(6-8) in auto)
  with i(5) show ?thesis by (auto simp: decoded_job_def)
qed

lemma ex_steps_1_3: "steps ex_digest ex_text ex_second ex_add ex1 ex3"
proof -
  have "store_step ex_digest ex_text ex_second ex_add ex1 ex2"
    unfolding ex2_def by (rule store_step.transition[OF prod.collapse[symmetric]])
  moreover have "store_step ex_digest ex_text ex_second ex_add ex2 ex3"
    unfolding ex3_def by (rule store_step.transition[OF prod.collapse[symmetric]])
  ultimately show ?thesis by (simp add: steps_def)
qed

definition ex_submitted :: SubmitResult where
  "ex_submitted = projr (snd (submit_linked_job ex_digest 1 ''key'' ex_job ex_new None empty_store))"

lemma ex_submits:
  "submit_linked_job ex_digest 1 ''key'' ex_job ex_new None empty_store = (ex1, Ok ex_submitted)"
proof -
  have "is_ok (snd (submit_linked_job ex_digest 1 ''key'' ex_job ex_new None empty_store))" by code_simp
  then show ?thesis unfolding ex1_def ex_submitted_def by (rule ok_run)
qed

theorem submit_idempotent_witness:
  "\<exists>job. submit_linked_job ex_digest 9 ''key'' ex_job2 ex_new None ex3 = (ex3, Ok \<lparr>sub_job = job, sub_created = False\<rparr>)
    \<and> h_job_id (job_handle job) = h_job_id (job_handle (sub_job ex_submitted))"
proof -
  have v: "nj_spec_version ex_new \<le> u32_max" "validate_new_job ''key'' ex_new = Ok ()" by code_simp+
  show ?thesis
    by (rule submit_idempotent[OF reachable.initial ex_submits v(1) ex_ids(1) ex_steps_1_3 refl refl v(2)])
qed

text \<open>
  A key never covers two specifications: after an acknowledged submission, the same principal's
  key with a different specification is refused at every later time and the store is unchanged.
\<close>

theorem submit_conflict:
  assumes "reachable digest ts_text as_second ts_add s"
    and "submit_linked_job digest now key jid new link s = (s1, Ok res)"
    and "nj_spec_version new \<le> u32_max" and "uuid_text (job_id_str jid)"
    and "steps digest ts_text as_second ts_add s1 s2"
    and "nj_principal new2 = nj_principal new" and "job_spec_hash_of digest new2 \<noteq> job_spec_hash_of digest new"
    and "validate_new_job key new2 = Ok ()"
  shows "submit_linked_job digest now2 key jid2 new2 link2 s2 =
    (s2, Err (Report ''idempotency key was already used with a different job specification''))"
proof -
  note inv = reachable_store_inv[OF assms(1)]
  note inv1 = submit_store_inv[OF assms(2) inv assms(3,4)]
  from assms(2) inv assms(3,4) obtain i where i: "i \<in> set (st_idempotency s1)"
    "ir_principal i = nj_principal new" "ir_key i = key" "ir_spec_hash i = job_spec_hash_of digest new"
    by (cases rule: submit_result) blast+
  then have "i \<in> set (st_idempotency s2)" using steps_receipts[OF assms(5) inv1] by blast
  from submit_conflicting[OF steps_store_inv[OF assms(5) inv1] this _ i(3) _ assms(8), of digest] i assms(6,7)
  show ?thesis by auto
qed

definition ex_host_digest :: "json \<Rightarrow> string" where
  "ex_host_digest v = (case json_get ''host'' v of Some (JString h) \<Rightarrow> h | _ \<Rightarrow> [])"

theorem submit_conflict_witness:
  "snd (submit_linked_job ex_host_digest 9 ''key'' ex_job2 (ex_new\<lparr>nj_host := ''web2''\<rparr>) None
      (fst (submit_linked_job ex_host_digest 1 ''key'' ex_job ex_new None empty_store)))
    = Err (Report ''idempotency key was already used with a different job specification'')"
proof -
  let ?r = "submit_linked_job ex_host_digest 1 ''key'' ex_job ex_new None empty_store"
  have ok: "is_ok (snd ?r)" "nj_spec_version ex_new \<le> u32_max"
    "validate_new_job ''key'' (ex_new\<lparr>nj_host := ''web2''\<rparr>) = Ok ()"
    "job_spec_hash_of ex_host_digest (ex_new\<lparr>nj_host := ''web2''\<rparr>) \<noteq> job_spec_hash_of ex_host_digest ex_new"
    by code_simp+
  note r = ok_run[OF ok(1)]
  have st: "steps ex_host_digest ex_text ex_second ex_add (fst ?r) (fst ?r)" by (simp add: steps_def)
  show ?thesis
    using submit_conflict[OF reachable.initial r ok(2) ex_ids(1) st _ ok(4,3), of 9 ex_job2 None] by simp
qed

end
