(* ===== verification/Properties_Updates.thy ===== *)
theory Properties_Updates
  imports Properties_Jobs
begin

text \<open>
  Properties of the guarded updates: job transitions and their races, resource locks, the workflow
  fence of a change and the change state machine.
\<close>

section \<open>Job transitions\<close>

text \<open>
  A job transition succeeds exactly when the named job exists at the expected revision, the
  state machine allows the step and the next revision is representable; it then returns the row
  moved to the next state and revision. In every other case the store is unchanged.
\<close>

theorem transition_job_iff:
  assumes "reachable digest ts_text as_second ts_add s"
  shows "(snd (transition_job now jid expected nx payload result s) = Ok job \<longleftrightarrow>
      (\<exists>row \<in> set (st_jobs s). jr_id row = job_id_str jid \<and> jr_revision row = int expected \<and>
         JobState_can_transition_to (row_state row) nx \<and> int expected + 1 \<le> i64_max \<and>
         job = decoded_job (transitioned_row now nx result row)))
    \<and> (\<not> is_ok (snd (transition_job now jid expected nx payload result s)) \<longrightarrow>
         fst (transition_job now jid expected nx payload result s) = s)"
proof -
  have inv: "jobs_inv s" using store_inv_parts(1)[OF reachable_store_inv[OF assms]] .
  note d = jobs_inv_distinct[OF inv]
  obtain s' r where run: "transition_job now jid expected nx payload result s = (s', r)" by fastforce
  have state: "row_state row = cur" if "jr_state row = JobState_as_str cur" for row cur
    using that by (rule row_state_as_str)
  from run inv show ?thesis
  proof (cases rule: transition_cases)
    case same
    have "\<not> (\<exists>row \<in> set (st_jobs s). jr_id row = job_id_str jid \<and> jr_revision row = int expected \<and>
         JobState_can_transition_to (row_state row) nx \<and> int expected + 1 \<le> i64_max)"
    proof
      assume "\<exists>row \<in> set (st_jobs s). jr_id row = job_id_str jid \<and> jr_revision row = int expected \<and>
         JobState_can_transition_to (row_state row) nx \<and> int expected + 1 \<le> i64_max"
      then obtain row where row: "row \<in> set (st_jobs s)" "jr_id row = job_id_str jid"
        "jr_revision row = int expected" "JobState_can_transition_to (row_state row) nx"
        "int expected + 1 \<le> i64_max" by blast
      have sel: "select_one (\<lambda>r. jr_id r = job_id_str jid) (st_jobs s) = Some row"
        using jobs_t.member_found[OF d row(1)] row(2) by simp
      with row row_state_text[OF jobs_inv_row_ok[OF inv row(1)]] obtain s1 where
        "transition_body now jid expected nx payload result s = Ok (s1, ())"
        by (simp add: transition_body_iff[OF d])
      with run same(2) have "\<exists>e. get_job jid s' = Err e"
        by (auto simp: transition_job_def transact_def then_get_job_def)
      with sel same(1) show False by (simp add: get_job_iff[OF inv])
    qed
    with run same show ?thesis by auto
  next
    case (step row cur)
    have row: "row \<in> set (st_jobs s)" "jr_id row = job_id_str jid" "row_state row = cur"
      using jobs_t.found[OF step(1)] state[OF step(2)] by simp_all
    have "st_jobs s' = update_where (\<lambda>r. jr_id r = job_id_str jid) (transitioned_row now nx result) (st_jobs s)"
      by (simp add: step(6) append_job_event_def)
    then have ok: "r = Ok (decoded_job (transitioned_row now nx result row))"
      unfolding step(7)
      by (rule get_job_after_update[OF transition_preserves_jobs_inv[OF run inv] step(1)])
        (simp add: transitioned_row_def)
    have "row' = row" if "row' \<in> set (st_jobs s)" "jr_id row' = job_id_str jid" for row'
      using jobs_t.key_unique[OF d that(1) row(1)] that(2) row(2) by simp
    with ok have "snd (s', r) = Ok job \<longleftrightarrow> (\<exists>row \<in> set (st_jobs s). jr_id row = job_id_str jid \<and>
        jr_revision row = int expected \<and> JobState_can_transition_to (row_state row) nx \<and>
        int expected + 1 \<le> i64_max \<and> job = decoded_job (transitioned_row now nx result row))"
      using row step(3-5) by (metis Inr_inject snd_conv)
    with ok show ?thesis unfolding run by simp
  qed
qed

theorem transition_job_iff_witness:
  "is_ok (snd (transition_job 4 ex_job 3 Succeeded (JObject []) None ex3))
   \<and> \<not> is_ok (snd (transition_job 4 ex_job 2 Succeeded (JObject []) None ex3))
   \<and> fst (transition_job 4 ex_job 2 Succeeded (JObject []) None ex3) = ex3"
proof -
  have "is_ok (snd (transition_job 4 ex_job 3 Succeeded (JObject []) None ex3))"
    "\<not> is_ok (snd (transition_job 4 ex_job 2 Succeeded (JObject []) None ex3))" by code_simp+
  with transition_job_iff[OF ex_reachable_3, of 4 ex_job 2 Succeeded "JObject []" None undefined]
  show ?thesis by auto
qed

text \<open>
  (C28) Concurrent updates of jobs serialise: for any sequence of transitions and cancellation
  requests by any number of callers, a job's revision grows by exactly the number of its updates
  that were acknowledged, and of those computed from one revision at most one is.
\<close>

theorem job_updates_serialize:
  assumes "reachable digest ts_text as_second ts_add s"
    and "job_cas.run_updates cs s = (s', rs)" and "job_revision jid s = Some n"
  shows "job_revision jid s' = Some (n + job_cas.commits jid cs rs)
    \<and> length (filter (\<lambda>(c, r). fst c = jid \<and> fst (snd c) = n \<and> is_ok r) (zip cs rs)) \<le> 1"
proof -
  have "jobs_inv s" using store_inv_parts(1)[OF reachable_store_inv[OF assms(1)]] .
  from job_cas.no_lost_update[OF this assms(2,3)] job_cas.one_winner(1)[OF this assms(2,3)] show ?thesis by simp
qed

definition ex_race :: "(JobId \<times> nat \<times> job_update) list" where
  "ex_race = [(ex_job, 3, Move 4 Succeeded (JObject []) None), (ex_job, 3, Cancel 5 ''stop'')]"

theorem job_updates_serialize_witness:
  "\<exists>s' rs. job_cas.run_updates ex_race ex3 = (s', rs) \<and>
     job_revision ex_job s' = Some (3 + job_cas.commits ex_job ex_race rs)"
proof -
  have "job_revision ex_job ex3 = Some 3" by code_simp
  with job_updates_serialize[OF ex_reachable_3 prod.collapse[symmetric], of ex_job 3 ex_race] show ?thesis
    by (metis prod.collapse)
qed

section \<open>Locks\<close>


definition ex_locked :: store where
  "ex_locked = fst (try_acquire_resource 4 ''unit'' ''web1'' ex_job ex3)"


text \<open>
  An acquisition answers true exactly when the caller holds the lock afterwards; it is refused
  only when another live job holds the lock, and it takes over only from a job that has ended.
\<close>

theorem acquire_decides:
  assumes "reachable digest ts_text as_second ts_add s"
    and "try_acquire_resource now kind key owner s = (s', Ok b)"
  shows "(b \<longleftrightarrow> lock_owner kind key s' = Some (job_id_str owner))
    \<and> (b \<longrightarrow> (\<forall>k. lock_owner kind key s = Some k \<longrightarrow> k = job_id_str owner \<or> \<not> live_job k s))
    \<and> (\<not> b \<longrightarrow> s' = s \<and> (\<exists>k. lock_owner kind key s = Some k \<and> k \<noteq> job_id_str owner \<and> live_job k s))"
proof -
  note parts = store_inv_parts[OF reachable_store_inv[OF assms(1)]]
  from assms(2) parts(1,3) show ?thesis
  proof (cases rule: acquire_cases)
    case (replaced row)
    have "lock_owner kind key s = Some (rr_owner_job_id row)"
      unfolding lock_owner_def replaced(2) by simp
    moreover have "lock_owner kind key s' = Some (job_id_str owner)"
      unfolding replaced(6) using resources_t.found[OF replaced(2)]
      by (subst lock_owner_after_update) (simp_all only: replaced(2), simp_all)
    ultimately show ?thesis using replaced(1,4) by auto
  next
    case created
    then have "lock_owner kind key s' = Some (job_id_str owner)"
      by (auto simp: lock_owner_def select_one_append)
    with created(1,2) show ?thesis by simp
  qed auto
qed

theorem acquire_decides_witness:
  "lock_owner ''unit'' ''web1'' ex_locked = Some (job_id_str ex_job)"
proof -
  have ok: "snd (try_acquire_resource 4 ''unit'' ''web1'' ex_job ex3) = Ok True" by code_simp
  have "try_acquire_resource 4 ''unit'' ''web1'' ex_job ex3 = (ex_locked, Ok True)"
    by (simp add: ex_locked_def ok[symmetric])
  from acquire_decides[OF ex_reachable_3 this] show ?thesis by simp
qed

end
