(* ===== verification/Properties_Changes.thy ===== *)
theory Properties_Changes
  imports Properties_Updates
begin

text \<open>
  Properties of deployment changes and workspaces: the workflow fence, the state machine under
  stale reads, the bound on its steps, and the permanence of a workspace's identity.
\<close>

section \<open>The workflow fence\<close>

text \<open>
  (C4) A job is linked to a change only through the fence: the caller owns the change and saw its
  current revision; a job submitted on behalf of a workflow needs that workflow to be the recorded
  owner, running and without a cancellation request; any other job needs the previous workflow, if
  there was one, to have a definitive outcome.
\<close>

theorem workflow_fence:
  assumes "reachable digest ts_text as_second ts_add s"
    and "submit_linked_job digest now key jid new (Some l) s = (s', Ok res)" and "sub_created res"
    and "nj_spec_version new \<le> u32_max" and "uuid_text (job_id_str jid)"
  shows "\<exists>row \<in> set (st_changes s).
      cr_id row = change_id_str (pl_change_id (ch_plan (ln_change l))) \<and> cr_creator row = nj_principal new \<and>
      cr_revision row = int (ch_revision (ln_change l)) \<and> linked_change now jid l row \<in> set (st_changes s') \<and>
      (case ln_workflow l of
         Some w \<Rightarrow> cr_workflow_job_id row = Some (job_id_str w) \<and>
           (\<exists>j \<in> set (st_jobs s). jr_id j = job_id_str w \<and> row_state j = Running \<and> jr_cancel_requested j = 0)
       | None \<Rightarrow> (\<forall>w. cr_workflow_job_id row = Some w \<longrightarrow>
           (\<exists>j \<in> set (st_jobs s). jr_id j = w \<and> JobState_definitive (row_state j))))"
proof -
  note inv = reachable_store_inv[OF assms(1)]
  from assms(2) inv assms(4,5) show ?thesis
  proof (cases rule: submit_result)
    case (replayed i)
    with assms(3) show ?thesis by simp
  next
    case (created i cs)
    then have link: "link_change now jid (nj_principal new) l
           (s\<lparr>st_jobs := st_jobs s @ [new_job_row digest now jid new]\<rparr>)
           = Ok (s\<lparr>st_jobs := st_jobs s @ [new_job_row digest now jid new], st_changes := cs\<rparr>)" by simp
    from link_result[OF link inv] obtain row where row: "row \<in> set (st_changes s)"
      "cr_id row = change_id_str (pl_change_id (ch_plan (ln_change l)))" "cr_creator row = nj_principal new"
      "cr_revision row = int (ch_revision (ln_change l))"
      "check_workflow_owner (cr_workflow_job_id row) (owner_row_of row s) (ln_workflow l) = Ok ()"
      "cs = update_where (\<lambda>c. cr_id c = cr_id row) (linked_change now jid l) (st_changes s)"
      by blast
    have "linked_change now jid l row \<in> set (st_changes s')"
      using row(1) unfolding created(9) row(6) set_update_where by force
    with row workflow_owner_ok[OF row(5) inv row(1)] show ?thesis by blast
  qed
qed

definition ex_change_record :: ChangeRecord where
  "ex_change_record = projr (get_change ex_change ex5)"

definition ex_link :: ChangeJobLink where
  "ex_link = \<lparr>ln_change = ex_change_record, ln_next = Checking, ln_action = None, ln_workflow = None\<rparr>"

definition ex_linked :: "store \<times> (SubmitResult, store_error) result" where
  "ex_linked = submit_linked_job ex_digest 6 ''deploy'' ex_job2 ex_new (Some ex_link) ex5"

lemma ex_linked_ok: "is_ok (snd ex_linked)" "sub_created (projr (snd ex_linked))"
  by code_simp+

lemma ex_linked_run:
  "submit_linked_job ex_digest 6 ''deploy'' ex_job2 ex_new (Some ex_link) ex5 = (fst ex_linked, Ok (projr (snd ex_linked)))"
  using ok_run[OF ex_linked_ok(1)] by (simp add: ex_linked_def)

theorem workflow_fence_witness:
  "\<exists>row \<in> set (st_changes ex5). cr_creator row = ''alice'' \<and> cr_id row = change_id_str ex_change"
proof -
  have new: "nj_spec_version ex_new \<le> u32_max" "nj_principal ex_new = ''alice''"
    "pl_change_id (ch_plan (ln_change ex_link)) = ex_change" by code_simp+
  from workflow_fence[OF ex_reachable_5 ex_linked_run ex_linked_ok(2) new(1) ex_ids(2)] show ?thesis
    unfolding new(2,3) by blast
qed

section \<open>The state machine under stale reads\<close>

text \<open>
  (C27) A stage decided on an earlier read of a change is still legal when it is stored: if a link
  computed from a change read at some point is accepted after any number of other operations, then
  the stored change is the one that was read and the step from its stored state is one the change
  state machine allows (or keeps the state).
\<close>

theorem linked_step_legal:
  assumes "reachable digest ts_text as_second ts_add s0" and "get_change cid s0 = Ok c"
    and "pl_change_id (ch_plan c) = cid"
    and "steps digest ts_text as_second ts_add s0 s"
    and "submit_linked_job digest now key jid new (Some l) s = (s', Ok res)" and "sub_created res"
    and "ln_change l = c" and "nj_spec_version new \<le> u32_max" and "uuid_text (job_id_str jid)"
  shows "\<exists>row \<in> set (st_changes s). cr_id row = change_id_str cid \<and> decoded_change row = c \<and>
      (row_change_state row = ln_next l \<or> ChangeState_can_transition_to (row_change_state row) (ln_next l))"
proof -
  note inv0 = reachable_store_inv[OF assms(1)]
  note inv = steps_store_inv[OF assms(4) inv0]
  from assms(2) obtain row0 where row0: "row0 \<in> set (st_changes s0)" "cr_id row0 = change_id_str cid"
    "c = decoded_change row0"
    using get_change_iff[OF store_inv_parts(5)[OF inv0]] by blast
  from assms(5) inv assms(8,9) show ?thesis
  proof (cases rule: submit_result)
    case (replayed i)
    with assms(6) show ?thesis by simp
  next
    case (created i cs)
    then have link: "link_change now jid (nj_principal new) l
           (s\<lparr>st_jobs := st_jobs s @ [new_job_row digest now jid new]\<rparr>)
           = Ok (s\<lparr>st_jobs := st_jobs s @ [new_job_row digest now jid new], st_changes := cs\<rparr>)" by simp
    from link_result[OF link inv] obtain row where row: "row \<in> set (st_changes s)"
      "cr_id row = change_id_str (pl_change_id (ch_plan (ln_change l)))"
      "cr_revision row = int (ch_revision (ln_change l))"
      "ch_state (ln_change l) = ln_next l \<or> ChangeState_can_transition_to (ch_state (ln_change l)) (ln_next l)"
      by blast
    have rid: "cr_id row = cr_id row0" using row(2) row0(2) assms(3,7) by simp
    have "1 \<le> cr_revision row0"
      using changes_inv_row[OF store_inv_parts(5)[OF inv0] row0(1)] by (simp add: change_row_ok_def)
    then have "cr_revision row = cr_revision row0" using row(3) row0(3) assms(7) by (simp add: decoded_change_def)
    from same_revision_same_change[OF assms(4) inv0 row0(1) row(1) rid this] have "row = row0" .
    moreover have "ch_state (ln_change l) = row_change_state row0" by (simp add: assms(7) row0(3) decoded_change_def)
    ultimately show ?thesis using row(1,4) row0(2,3) by auto
  qed
qed

theorem linked_step_legal_witness:
  "\<exists>row \<in> set (st_changes ex5). cr_id row = change_id_str ex_change \<and> decoded_change row = ex_change_record"
proof -
  have ok: "is_ok (get_change ex_change ex5)" "pl_change_id (ch_plan ex_change_record) = ex_change"
    "nj_spec_version ex_new \<le> u32_max" by code_simp+
  from ok(1) have read: "get_change ex_change ex5 = Ok ex_change_record"
    by (simp add: ex_change_record_def is_ok_def split: sum.splits)
  have st: "steps ex_digest ex_text ex_second ex_add ex5 ex5" by (simp add: steps_def)
  have l: "ln_change ex_link = ex_change_record" by (simp add: ex_link_def)
  from linked_step_legal[OF ex_reachable_5 read ok(2) st ex_linked_run ex_linked_ok(2) l ok(3) ex_ids(2)]
  show ?thesis by blast
qed

text \<open>
  (C34) The change state machine terminates: every legal step goes up in a rank of at most nine, so
  no change makes more than nine state changes, and only a succeeded change can leave a terminal
  state, to be recovered.
\<close>

theorem change_machine_bounded:
  fixes n :: nat
  assumes "\<forall>i < n. ChangeState_can_transition_to (f i) (f (i + 1))"
  shows "n \<le> 9 \<and> (\<forall>i < n. ChangeState_is_terminal (f i) \<longrightarrow> f i = ChSucceeded \<and> f (i + 1) = Recovering)"
proof -
  have "i \<le> n \<Longrightarrow> i \<le> change_rank (f i)" for i
  proof (induction i)
    case (Suc i)
    then have "change_rank (f i) < change_rank (f (i + 1))" using assms change_rank_mono by simp
    with Suc show ?case by simp
  qed simp
  then have "n \<le> change_rank (f n)" by simp
  then show ?thesis using change_rank_bound[of "f n"] assms change_terminal_successor by fastforce
qed

theorem change_machine_bounded_witness:
  "(2::nat) \<le> 9 \<and> ChangeState_can_transition_to Checking Prepared"
proof -
  let ?f = "\<lambda>i::nat. [Checking, Prepared, Building] ! i"
  have legal: "ChangeState_can_transition_to Checking Prepared" "ChangeState_can_transition_to Prepared Building"
    by code_simp+
  then have "\<forall>i < 2. ChangeState_can_transition_to (?f i) (?f (i + 1))"
    by (auto simp: less_2_cases_iff)
  from change_machine_bounded[OF this] legal show ?thesis by simp
qed

section \<open>Workspaces\<close>

text \<open>
  A workspace is permanent: once stored it is never removed, and whatever row carries its
  identifier later has the same repository, executor, base commit and creator.
\<close>

theorem workspace_permanent:
  assumes "reachable digest ts_text as_second ts_add s" and "steps digest ts_text as_second ts_add s s'"
    and "w \<in> set (st_workspaces s)"
  shows "(\<exists>w' \<in> set (st_workspaces s'). wr_id w' = wr_id w) \<and>
    (\<forall>w' \<in> set (st_workspaces s'). wr_id w' = wr_id w \<longrightarrow> workspace_identity w' = workspace_identity w)"
proof -
  note inv = reachable_store_inv[OF assms(1)]
  have "workspace_identity w \<in> set (map workspace_identity (st_workspaces s'))"
    using steps_workspaces[OF assms(2) inv] assms(3) unfolding workspaces_extend_def by (metis UnI1 image_eqI image_set set_append)
  then obtain w' where w': "w' \<in> set (st_workspaces s')" "workspace_identity w' = workspace_identity w" by auto
  have ident: "wr_id w' = wr_id w" using w'(2) by (simp add: workspace_identity_def)
  have "distinct (map wr_id (st_workspaces s'))"
    using store_inv_parts(4)[OF steps_store_inv[OF assms(2) inv]] by (simp add: workspaces_inv_def)
  with w' ident show ?thesis using workspaces_t.key_unique by metis
qed

theorem workspace_permanent_witness:
  "\<exists>w \<in> set (st_workspaces ex5). \<exists>w' \<in> set (st_workspaces ex6). wr_id w' = wr_id w"
proof -
  have st: "steps ex_digest ex_text ex_second ex_add ex5 ex6"
    unfolding steps_def ex6_def by (rule r_into_rtranclp) (rule store_step.alert[OF prod.collapse[symmetric]])
  have "hd (st_workspaces ex5) \<in> set (st_workspaces ex5)" by code_simp
  from workspace_permanent[OF ex_reachable_5 st this] this show ?thesis by blast
qed

end
