(* ===== verification/Properties_Events.thy ===== *)
theory Properties_Events
  imports Example_Run
begin

text \<open>
  Properties of fleet events: alert episodes, the event feed and its retention, deliveries to
  subscriptions, and remediations.
\<close>

section \<open>Alert episodes\<close>

text \<open>
  (C29) Alert ingestion refines the episode machine: an accepted alert moves exactly the episode of
  its source, fingerprint and host by \<open>next_episode\<close> (a firing alert opens a new episode unless one
  is active, a resolution closes the latest one) and its event carries that episode.
\<close>

theorem ingest_refines_episode:
  assumes "reachable digest ts_text as_second ts_add s"
    and "ingest_alert received_at fresh_episode fresh_event input s = (s', Ok ev)"
  shows "current_episode k s' =
      (if k = (ai_source input, ai_fingerprint input, ai_host input)
       then Some (next_episode (EpisodeId fresh_episode) (ai_firing input) (current_episode k s))
       else current_episode k s)
    \<and> ev_episode_id ev = fst (next_episode (EpisodeId fresh_episode) (ai_firing input)
        (current_episode (ai_source input, ai_fingerprint input, ai_host input) s))"
  using assms(2)
proof (cases rule: ingest_alert_cases)
  case (rejected err)
  then show ?thesis by simp
next
  case (ingested e row)
  note parts = store_inv_parts[OF reachable_store_inv[OF assms(1)]]
  from ingested(5) obtain n input' where
    ins: "insert_fleet_event fresh_event input' received_at (upsert_episode row s) = Ok (s', n)"
    and ep: "nf_episode_id input' = e" by force
  have "current_episode k s' = current_episode k (upsert_episode row s)"
    by (simp add: insert_fleet_event_Ok(1)[OF ins] current_episode_def)
  moreover have "episode_key row = (ai_source input, ai_fingerprint input, ai_host input)"
    "EpisodeId (ep_episode_id row) = e" "(ep_active row \<noteq> 0) = ai_firing input"
    using ingested(4) by (simp_all add: episode_key_def)
  moreover have "ev_episode_id ev = e"
  proof -
    let ?x = "new_event_row (st_event_seq (upsert_episode row s) + 1) fresh_event input' received_at"
    have mem: "?x \<in> set (st_events s')" by (simp add: insert_fleet_event_Ok(1)[OF ins])
    have "events_inv s'" using ingest_preserves_events_inv(1)[OF assms(2)] parts(6,7) .
    from get_event_found[OF this mem, of "EventId fresh_event"] ingested(6) show ?thesis
      by (simp add: new_event_row_def ep)
  qed
  ultimately show ?thesis using ingested(1)[symmetric] by (simp add: upsert_episode_current)
qed

theorem ingest_refines_episode_witness:
  "current_episode (''prometheus'', ''disk'', ''web1'') ex6 = Some (EpisodeId (ex_uuid (CHR ''6'')), True)"
proof -
  let ?run = "ingest_alert 6 (ex_uuid (CHR ''6'')) (ex_uuid (CHR ''5'')) (ex_alert True) ex5"
  have ok: "is_ok (snd ?run)" "current_episode (''prometheus'', ''disk'', ''web1'') ex5 = None" by code_simp+
  from ok(1) have run: "?run = (ex6, Ok (projr (snd ?run)))" unfolding ex6_def by (rule ok_run)
  from ingest_refines_episode[OF ex_reachable_5 run, of "(''prometheus'', ''disk'', ''web1'')"] ok(2)
  show ?thesis by (simp add: ex_alert_def next_episode_def)
qed

section \<open>The event feed\<close>

text \<open>
  A page of the event feed has no gaps: it holds exactly the selected events after the cursor
  and up to the returned next cursor, in order, and the cursor never moves back, when no write lands
  between the statements of the listing.
\<close>

theorem feed_page_complete:
  assumes "reachable digest ts_text as_second ts_add s" and "list_events allowed params s = Ok resp"
    and "cursor = (case el_cursor params of Some c \<Rightarrow> c | None \<Rightarrow> er_earliest_cursor resp)"
  shows "er_events resp = map decoded_event (filter (\<lambda>r. int cursor < evr_sequence r
           \<and> evr_sequence r \<le> int (er_next_cursor resp) \<and> listing_selects allowed params r) (st_events s))
    \<and> cursor \<le> er_next_cursor resp"
  using list_events_page[OF store_inv_parts(6)[OF reachable_store_inv[OF assms(1)]] assms(2,3)] by blast

definition ex_page :: EventsListParams where
  "ex_page = \<lparr>el_cursor = Some 0, el_host = None, el_kinds = [], el_limit = 10\<rparr>"

theorem feed_page_complete_witness:
  "\<exists>resp. list_events {''web1''} ex_page ex8 = Ok resp \<and> length (er_events resp) = 1 \<and> 0 \<le> er_next_cursor resp"
proof -
  let ?r = "list_events {''web1''} ex_page ex8"
  have ok: "is_ok ?r" "length (er_events (projr ?r)) = 1" by code_simp+
  from ok(1) have r: "?r = Ok (projr ?r)" by (simp add: is_ok_def split: sum.splits)
  from feed_page_complete[OF ex_reachable_8 r refl] r ok(2) show ?thesis by blast
qed

text \<open>
  The listing is not atomic: when an event is appended between its page query and its maximum
  query, the next cursor passes the event although the page does not hold it, so a client that
  continues from the cursor never receives it.
\<close>

theorem feed_page_race:
  "\<exists>s s' resp x. ex_reachable s \<and> store_step ex_digest ex_text ex_second ex_add s s' \<and>
     list_events_reads {''web1''} ex_page s s s' = Ok resp \<and> er_events resp = [] \<and>
     x \<in> set (st_events s') \<and> listing_selects {''web1''} ex_page x \<and>
     0 < evr_sequence x \<and> evr_sequence x \<le> int (er_next_cursor resp)"
proof -
  let ?r = "list_events_reads {''web1''} ex_page ex5 ex5 ex6" and ?x = "hd (st_events ex6)"
  have step: "store_step ex_digest ex_text ex_second ex_add ex5 ex6"
    unfolding ex6_def by (rule store_step.alert[OF prod.collapse[symmetric]])
  have ok: "is_ok ?r" "er_events (projr ?r) = []" "?x \<in> set (st_events ex6)"
    "listing_selects {''web1''} ex_page ?x" "evr_sequence ?x = 1" "er_next_cursor (projr ?r) = 1"
    by code_simp+
  then have bounds: "0 < evr_sequence ?x" "evr_sequence ?x \<le> int (er_next_cursor (projr ?r))" by simp_all
  from ok(1) have "?r = Ok (projr ?r)" by (simp add: is_ok_def split: sum.splits)
  then show ?thesis
    by (intro exI[of _ ex5] exI[of _ ex6] exI[of _ "projr ?r"] exI[of _ ?x] conjI ex_reachable_5 step ok(2-4) bounds)
qed

text \<open>
  Retention is never silent: after old events were pruned, a client whose cursor is still
  accepted by the feed has lost nothing, every selected event after its cursor is still stored.
\<close>

theorem prune_keeps_accepted_cursors:
  assumes "reachable digest ts_text as_second ts_add s" and "prune_events_through n s = (s', r)"
    and "list_events allowed params s' = Ok resp" and "el_cursor params = Some c"
    and "x \<in> set (st_events s)" and "int c < evr_sequence x" and "listing_selects allowed params x"
  shows "x \<in> set (st_events s')"
  using prune_no_gap[OF store_inv_parts(6)[OF reachable_store_inv[OF assms(1)]] assms(2-7)] .

theorem prune_keeps_accepted_cursors_witness:
  "hd (st_events ex8) \<in> set (st_events (fst (prune_events_through 0 ex8)))"
proof -
  let ?s = "fst (prune_events_through 0 ex8)"
  let ?r = "list_events {''web1''} ex_page ?s" and ?x = "hd (st_events ex8)"
  have ok: "is_ok ?r" "el_cursor ex_page = Some 0" "?x \<in> set (st_events ex8)" "evr_sequence ?x = 1"
    "listing_selects {''web1''} ex_page ?x" by code_simp+
  then have pos: "int 0 < evr_sequence ?x" by simp
  from ok(1) have r: "?r = Ok (projr ?r)" by (simp add: is_ok_def split: sum.splits)
  show ?thesis by (rule prune_keeps_accepted_cursors[OF ex_reachable_8 prod.collapse[symmetric] r ok(2,3) pos ok(5)])
qed

section \<open>Deliveries\<close>

text \<open>
  An acknowledged delivery is never attempted again, whatever happens in between, pruning and
  re-subscription included: a later attempt writes nothing and is not handed a delivery.
\<close>

theorem delivered_once:
  assumes "reachable digest ts_text as_second ts_add s"
    and "acknowledge_delivery now sid n stage status s = (s1, Ok ())"
    and "steps digest ts_text as_second ts_add s1 s2"
    and "begin_delivery ts_add now2 sid n retry s2 = (s3, r)"
  shows "s3 = s2 \<and> r \<noteq> Ok (Some d)"
proof -
  note inv = reachable_store_inv[OF assms(1)]
  have "store_step digest ts_text as_second ts_add s s1" by (rule store_step.acknowledge[OF assms(2)])
  then have inv1: "store_inv s1" using step_store_inv inv by blast
  note inv2 = steps_store_inv[OF assms(3) inv1]
  have "settled sid n s1"
    using acknowledge_settles[OF assms(2)] store_inv_parts(6,8)[OF inv] by blast
  then have "settled sid n s2" by (rule steps_delivery(2)[OF assms(3) inv1])
  from settled_not_attempted[OF this store_inv_parts(8)[OF inv2] assms(4)] show ?thesis by blast
qed

theorem delivered_once_witness:
  "fst (begin_delivery ex_add 1000 ''hook'' 1 60 ex9) = ex9"
proof -
  let ?a = "acknowledge_delivery 9 ''hook'' 1 DlConfirmed (Some 200) ex8"
  have "snd ?a = Ok ()" by code_simp
  then have a: "?a = (ex9, Ok ())" by (simp add: ex9_def prod_eq_iff)
  have st: "steps ex_digest ex_text ex_second ex_add ex9 ex9" by (simp add: steps_def)
  from delivered_once[OF ex_reachable_8 a st prod.collapse[symmetric]] show ?thesis by blast
qed

text \<open>
  The cursor of a subscription never moves back and a subscription is never lost, along every
  run of the store.
\<close>

theorem cursors_never_regress:
  assumes "reachable digest ts_text as_second ts_add s" and "steps digest ts_text as_second ts_add s s'"
    and "cursor_of sid s = Some c"
  shows "\<exists>c'. cursor_of sid s' = Some c' \<and> c \<le> c'"
  using steps_delivery(1)[OF assms(2) reachable_store_inv[OF assms(1)]] assms(3) by (simp add: cursors_grow_def)

theorem cursors_never_regress_witness: "\<exists>c'. cursor_of ''hook'' ex9 = Some c' \<and> 0 \<le> c'"
proof -
  have st: "steps ex_digest ex_text ex_second ex_add ex8 ex9"
    unfolding steps_def ex9_def
    by (rule r_into_rtranclp) (rule store_step.acknowledge[OF prod.collapse[symmetric]])
  have "cursor_of ''hook'' ex8 = Some 0" by code_simp
  from cursors_never_regress[OF ex_reachable_8 st this] show ?thesis .
qed

text \<open>
  An attempt takes out a retry window: a second attempt of the same delivery before the retry
  time writes nothing and is not handed the delivery.
\<close>

theorem retry_window:
  assumes "reachable digest ts_text as_second ts_add s"
    and "begin_delivery ts_add now sid n retry s = (s1, Ok (Some d))"
    and "ts_add now retry = Some retry_at" and "now2 < retry_at"
  shows "begin_delivery ts_add now2 sid n retry2 s1 = (s1, Ok None)"
proof -
  note inv = store_inv_parts(8)[OF reachable_store_inv[OF assms(1)]]
  from assms(2) inv show ?thesis
  proof (cases rule: begin_delivery_cases)
    case (attempt t)
    have t: "t = retry_at" using attempt(1) assms(3) by simp
    have inv1: "deliveries_inv s1" using begin_delivery_facts(1)[OF assms(2) inv] .
    from upsert_delivery_facts(5)[OF attempt(3) inv] obtain row where
      row: "row \<in> set (st_deliveries s1)" "is_delivery sid (int n) row" "dl_retry_at row = Some retry_at"
      by (auto simp: t)
    note sel = delivery_selected[OF inv1 row(1,2)]
    have "delivery_row_ok row" using inv1 row(1) by (simp add: deliveries_inv_def)
    then obtain stage where "DeliveryStage_parse (dl_stage row) = Ok stage"
      by (auto simp: delivery_row_ok_def is_ok_def split: sum.splits)
    then have "delivery_blocked now2 (Some row) = Ok True" using row(3) assms(4) by (simp add: delivery_blocked_def)
    moreover have i: "to_i64 n ''event sequence'' = Ok (int n)"
      using assms(2) by (cases "to_i64 n ''event sequence''")
        (auto simp: begin_delivery_def begin_delivery_body_def transact_def to_i64_def split: if_splits)
    ultimately show ?thesis
      unfolding begin_delivery_def begin_delivery_body_def transact_def i by (simp add: sel)
  qed simp_all
qed

theorem retry_window_witness: "begin_delivery ex_add 9 ''hook'' 1 60 ex8 = (ex8, Ok None)"
proof -
  let ?b = "begin_delivery ex_add 8 ''hook'' 1 60 ex7"
  have ok: "is_ok (snd ?b)" "projr (snd ?b) \<noteq> None" by code_simp+
  then obtain d where "?b = (ex8, Ok (Some d))" unfolding ex8_def by (metis ok_run option.exhaust)
  from retry_window[OF ex_reachable_7 this, of 60000000008 9 60] show ?thesis by (simp add: ex_add_def)
qed

end
