(* ===== verification/Properties_Remediations.thy ===== *)
theory Properties_Remediations
  imports Example_Run
begin

text \<open>Properties of remediations: exclusivity, budget and cooldown, and the single outcome.\<close>

section \<open>Exclusivity and budget\<close>

text \<open>
  Remediation is exclusive and counted: in every reachable store an episode and a host have at
  most one active remediation each, and the attempts of an episode are numbered 1, 2, ... without
  gaps or duplicates.
\<close>

theorem remediation_exclusive:
  assumes "reachable digest ts_text as_second ts_add s"
  shows "count_where (\<lambda>r. mr_episode_id r = e \<and> mr_state r = ''active'') (st_remediations s) \<le> 1
    \<and> count_where (\<lambda>r. mr_host r = h \<and> mr_state r = ''active'') (st_remediations s) \<le> 1
    \<and> map mr_attempt (filter (\<lambda>r. mr_episode_id r = e) (st_remediations s))
        = [1..int (length (filter (\<lambda>r. mr_episode_id r = e) (st_remediations s)))]"
  using store_inv_parts(9)[OF reachable_store_inv[OF assms]] by (simp add: remediations_inv_def)

theorem remediation_exclusive_witness:
  "count_where (\<lambda>r. mr_host r = ''web1'' \<and> mr_state r = ''active'') (st_remediations ex10) \<le> 1
   \<and> length (st_remediations ex10) = 1"
proof
  show "count_where (\<lambda>r. mr_host r = ''web1'' \<and> mr_state r = ''active'') (st_remediations ex10) \<le> 1"
    using remediation_exclusive[OF ex_reachable_10] by blast
  show "length (st_remediations ex10) = 1" by code_simp
qed

text \<open>
  (C33) The retry budget and the cooldown hold: when a remediation is recorded for an event, its
  attempt number is within the budget and every earlier attempt of the episode started at least the
  cooldown ago, provided that the stored timestamp texts order like the times they stand for.
\<close>

theorem remediation_budget:
  assumes "reachable digest ts_text as_second ts_add s"
    and "begin_remediation ts_text as_second now fresh_remediation fresh_event event_id host prin job
           max_attempts cooldown s = (s', r)"
    and "row \<in> set (st_remediations s')" and "row \<notin> set (st_remediations s)"
    and "\<And>a b. ts_text a \<le> ts_text b \<Longrightarrow> as_second a \<le> as_second b"
  shows "mr_attempt row \<le> int max_attempts \<and> mr_host row = host \<and> mr_state row = ''active'' \<and>
    (\<forall>old \<in> set (st_remediations s). mr_episode_id old = mr_episode_id row \<longrightarrow>
       mr_state old \<noteq> ''active'' \<and> int cooldown \<le> as_second now - as_second (mr_started_at old))"
  using assms(2)
proof (cases rule: begin_remediation_cases)
  case (begun event a s1 n)
  note lease = lease_attempt_Ok[OF begun(8)]
  have "st_remediations s' = st_remediations s @ [new_remediation_row now (RemediationId fresh_remediation) event_id
         (EpisodeId (evr_episode_id event)) host prin job a]"
    by (simp add: insert_fleet_event_Ok(1)[OF begun(10)] insert_remediation_row_Ok(1)[OF begun(9)])
  with assms(3,4) have row: "row = new_remediation_row now (RemediationId fresh_remediation) event_id
         (EpisodeId (evr_episode_id event)) host prin job a" by auto
  have old: "mr_state old \<noteq> ''active'' \<and> int cooldown \<le> as_second now - as_second (mr_started_at old)"
    if "old \<in> set (st_remediations s)" "mr_episode_id old = evr_episode_id event" for old
  proof
    show "mr_state old \<noteq> ''active''"
      using lease(1) that by (auto simp: count_where_def filter_empty_conv)
    from that obtain t where
      "last_started_at ts_text (filter (\<lambda>r. mr_episode_id r = evr_episode_id event) (st_remediations s)) = Some t"
      "as_second (mr_started_at old) \<le> as_second t"
      using last_started_bound[of ts_text as_second old
          "filter (\<lambda>r. mr_episode_id r = evr_episode_id event) (st_remediations s)"] assms(5) by auto
    with lease(5) show "int cooldown \<le> as_second now - as_second (mr_started_at old)" by simp
  qed
  show ?thesis using lease(4) old by (simp add: row new_remediation_row_def)
qed (use assms(3,4) in simp_all)

lemma ex_text_orders: "ex_text a \<le> ex_text b \<Longrightarrow> ex_second a \<le> ex_second b"
proof -
  have rep: "replicate m (CHR ''x'') \<le> replicate n (CHR ''x'') \<Longrightarrow> m \<le> n" for m n
  proof (induction m arbitrary: n)
    case (Suc m)
    then show ?case by (cases n) auto
  qed simp
  have "0 \<le> ex_second b" for b by (simp add: ex_second_def pos_imp_zdiv_nonneg_iff)
  then show "ex_text a \<le> ex_text b \<Longrightarrow> ex_second a \<le> ex_second b"
    using rep[of "nat (ex_second a)" "nat (ex_second b)"] unfolding ex_text_def by (metis nat_le_eq_zle nat_0_le)
qed

theorem remediation_budget_witness:
  "mr_attempt (hd (st_remediations ex10)) \<le> 2 \<and> mr_host (hd (st_remediations ex10)) = ''web1''"
proof -
  have row: "hd (st_remediations ex10) \<in> set (st_remediations ex10)" "st_remediations ex9 = []"
    by code_simp+
  have run: "begin_remediation ex_text ex_second 10 (ex_uuid (CHR ''7'')) (ex_uuid (CHR ''8'')) ex_event
     ''web1'' ''alice'' ex_job 2 60 ex9 = (ex10, snd (begin_remediation ex_text ex_second 10 (ex_uuid (CHR ''7''))
     (ex_uuid (CHR ''8'')) ex_event ''web1'' ''alice'' ex_job 2 60 ex9))"
    by (simp add: ex10_def)
  from remediation_budget[OF ex_reachable_9 run row(1) _ ex_text_orders] row(2) show ?thesis by simp
qed

section \<open>Outcome\<close>

text \<open>
  A remediation is finished exactly once: when its outcome is recorded, the row leaves the
  active state with the next revision, and every later attempt to finish it is refused without
  effect.
\<close>

theorem remediation_finished_once:
  assumes "reachable digest ts_text as_second ts_add s"
    and "finish_remediation now fresh_event rid prin c s = (s1, Ok rec)" and "completion_ids_ok c"
    and "finish_remediation now2 fresh_event2 rid prin2 c2 s1 = (s2, r)"
  shows "(\<exists>row \<in> set (st_remediations s1). mr_id row = remediation_id_str rid \<and>
      mr_state row = RemediationState_as_str (rc_outcome c) \<and> mr_revision row = int (rc_expected_revision c) + 1)
    \<and> (\<exists>e. r = Err e) \<and> s2 = s1"
proof -
  note parts = store_inv_parts[OF reachable_store_inv[OF assms(1)]]
  from assms(2) obtain row where row: "row \<in> set (st_remediations s)" "mr_id row = remediation_id_str rid"
      "mr_principal row = prin" "mr_revision row = int (rc_expected_revision c)" "rc_outcome c \<noteq> RmActive"
      "st_remediations s1 = update_where
               (\<lambda>r. mr_id r = remediation_id_str rid \<and> mr_principal r = prin \<and> mr_revision r = int (rc_expected_revision c))
               (finished_row now c) (st_remediations s)"
  proof (cases rule: finish_remediation_cases)
    case (finished row event s0 n)
    from that[OF finished(1-4,6)] show ?thesis by (simp add: insert_fleet_event_Ok(1)[OF finished(11)] finished(10))
  qed simp
  have mem: "finished_row now c row \<in> set (st_remediations s1)"
    using row(1-4) unfolding row(6) set_update_where by force
  have inv1: "remediations_inv s1"
    using finish_preserves_remediations_inv(1)[OF assms(2) parts(9) parts(6) assms(3)] .
  have closed: "RemediationState_as_str (rc_outcome c) \<noteq> ''active''" using row(5) by (cases "rc_outcome c") auto
  have "\<not> is_active x" if "x \<in> set (st_remediations s1)" "mr_id x = remediation_id_str rid" for x
    using remediations_t.key_unique[OF remediations_inv_distinct[OF inv1] that(1) mem] that(2) row(2) closed by simp
  with assms(4) have "(\<exists>e. r = Err e) \<and> s2 = s1"
    by (cases rule: finish_remediation_cases) auto
  moreover have "mr_id (finished_row now c row) = remediation_id_str rid"
    "mr_revision (finished_row now c row) = int (rc_expected_revision c) + 1" using row(2,4) by simp_all
  ultimately show ?thesis using mem finished_row_simps(9) by blast
qed

definition ex_completion :: RemediationCompletion where
  "ex_completion = \<lparr>rc_expected_revision = 1, rc_outcome = RmSucceeded, rc_related_job_id = None,
     rc_related_change_id = None, rc_summary = ''fixed''\<rparr>"

theorem remediation_finished_once_witness:
  "\<not> is_ok (snd (finish_remediation 12 (ex_uuid (CHR ''b'')) (RemediationId (ex_uuid (CHR ''7''))) ''alice'' ex_completion
     (fst (finish_remediation 11 (ex_uuid (CHR ''a'')) (RemediationId (ex_uuid (CHR ''7''))) ''alice'' ex_completion ex10))))"
proof -
  let ?f = "finish_remediation 11 (ex_uuid (CHR ''a'')) (RemediationId (ex_uuid (CHR ''7''))) ''alice'' ex_completion ex10"
  have ok: "is_ok (snd ?f)" "completion_ids_ok ex_completion" by code_simp+
  from remediation_finished_once[OF ex_reachable_10 ok_run[OF ok(1)] ok(2) prod.collapse[symmetric],
    of 12 "ex_uuid (CHR ''b'')" "''alice''" ex_completion]
  show ?thesis by (metis is_ok_simps(1))
qed

text \<open>
  Beginning a remediation is idempotent per job: once a remediation is recorded for a job, the
  same principal's next request for that job answers with the recorded one and writes nothing.
\<close>

theorem begin_remediation_idempotent:
  assumes "reachable digest ts_text as_second ts_add s" and "row \<in> set (st_remediations s)"
    and "mr_related_job_id row = Some (job_id_str job)" and "mr_principal row = prin"
    and "0 < max_attempts" and "uuid_text fresh_remediation"
  shows "\<exists>row' \<in> set (st_remediations s). mr_related_job_id row' = Some (job_id_str job) \<and>
    begin_remediation ts_text as_second now fresh_remediation fresh_event event_id host prin job
      max_attempts cooldown s = (s, row_to_remediation row')"
proof -
  note inv = store_inv_parts(9)[OF reachable_store_inv[OF assms(1)]]
  let ?p = "\<lambda>r. mr_related_job_id r = Some (job_id_str job) \<and> mr_principal r = prin"
  have "select_one ?p (st_remediations s) \<noteq> None"
    using assms(2-4) by (auto simp: select_one_def find_None_iff)
  then obtain row' where sel: "select_one ?p (st_remediations s) = Some row'" by blast
  have row': "row' \<in> set (st_remediations s)" "?p row'" using select_one_Some_iff[OF sel] by simp_all
  have "uuid_text (mr_id row')"
    using remediations_inv_row[OF inv row'(1)] by (simp add: remediation_row_ok_def)
  then have "begin_remediation ts_text as_second now fresh_remediation fresh_event event_id host prin job
      max_attempts cooldown s = (s, get_remediation (RemediationId (mr_id row')) prin s)"
    using sel assms(5,6)
    by (simp add: begin_remediation_def begin_remediation_body_def transact_def RemediationId_parse_def)
  moreover have "get_remediation (RemediationId (mr_id row')) prin s = row_to_remediation row'"
    using get_remediation_found[OF inv row'(1)] row'(2) by simp
  ultimately show ?thesis using row' by auto
qed

theorem begin_remediation_idempotent_witness:
  "\<exists>row' \<in> set (st_remediations ex10).
    begin_remediation ex_text ex_second 20 (ex_uuid (CHR ''9'')) (ex_uuid (CHR ''a'')) ex_event ''web1'' ''alice'' ex_job 2 60 ex10
     = (ex10, row_to_remediation row')"
proof -
  let ?row = "hd (st_remediations ex10)"
  have row: "?row \<in> set (st_remediations ex10)" "mr_related_job_id ?row = Some (job_id_str ex_job)"
    "mr_principal ?row = ''alice''" "uuid_text (ex_uuid (CHR ''9''))" by code_simp+
  from begin_remediation_idempotent[OF ex_reachable_10 row(1-3) _ row(4), of 2 20 "ex_uuid (CHR ''a'')" ex_event
      "''web1''" 60] show ?thesis by auto
qed

end
