(* ===== verification/Properties_Listings.thy ===== *)
theory Properties_Listings
  imports Example_Run
begin

text \<open>Properties of the listings: what restart recovery sees and how the change history pages.\<close>

section \<open>Restart recovery\<close>

lemma list_jobs_all:
  assumes "jobs_inv s"
  shows "list_jobs ts_text None None [] 200 s
    = Ok (map decoded_job (take 200 (order_by_desc (\<lambda>r. ts_text (jr_created_at r)) (st_jobs s))))"
proof -
  let ?ord = "order_by_desc (\<lambda>r. ts_text (jr_created_at r)) (st_jobs s)"
  have rows: "map row_to_job rows = map Ok (map decoded_job rows)" if "set rows \<subseteq> set (st_jobs s)" for rows
    using that row_to_job_ok[OF jobs_inv_row_ok[OF assms]] by auto
  have sub: "set (take 1000 ?ord) \<subseteq> set (st_jobs s)"
    using set_take_subset[of 1000 ?ord] by (simp add: order_by_desc_def)
  have all: "rmap (\<lambda>x. x) (map Ok ys) = Ok ys" for ys :: "JobRecord list"
    by (induction ys) simp_all
  have "rmap (\<lambda>x. x) (take 200 (map row_to_job (take 1000 ?ord))) = Ok (map decoded_job (take 200 ?ord))"
    unfolding rows[OF sub] take_map all by simp
  then show ?thesis by (simp add: list_jobs_def Let_def)
qed

text \<open>
  Restart recovery asks for the jobs that have not ended and gets exactly those among the 200
  newest: with at most 200 jobs stored it sees all of them, with more it sees none of the older ones.
\<close>

theorem nonterminal_jobs_exact:
  assumes "reachable digest ts_text as_second ts_add s"
  shows "nonterminal_jobs ts_text s = Ok (filter (\<lambda>job. \<not> JobState_is_terminal (h_state (job_handle job)))
        (map decoded_job (take 200 (order_by_desc (\<lambda>r. ts_text (jr_created_at r)) (st_jobs s)))))
    \<and> (length (st_jobs s) \<le> 200 \<longrightarrow> (\<exists>jobs. nonterminal_jobs ts_text s = Ok jobs \<and>
        set jobs = decoded_job ` {j \<in> set (st_jobs s). \<not> JobState_is_terminal (row_state j)}))"
proof -
  have inv: "jobs_inv s" using store_inv_parts(1)[OF reachable_store_inv[OF assms]] .
  have mem: "st \<notin> {Succeeded, Failed, Cancelled, TimedOut, OutcomeUnknown} \<longleftrightarrow> \<not> JobState_is_terminal st" for st
    by (cases st) (auto simp: JobState_is_terminal_def)
  have exact: "nonterminal_jobs ts_text s = Ok (filter (\<lambda>job. \<not> JobState_is_terminal (h_state (job_handle job)))
        (map decoded_job (take 200 (order_by_desc (\<lambda>r. ts_text (jr_created_at r)) (st_jobs s)))))"
    unfolding nonterminal_jobs_def list_jobs_all[OF inv] mem by simp
  have "h_state (job_handle (decoded_job j)) = row_state j" for j by (simp add: decoded_job_def)
  then show ?thesis using exact by (auto simp: order_by_desc_def)
qed

theorem nonterminal_jobs_exact_witness:
  "\<exists>jobs. nonterminal_jobs ex_text ex3 = Ok jobs \<and>
     set jobs = decoded_job ` {j \<in> set (st_jobs ex3). \<not> JobState_is_terminal (row_state j)}"
proof -
  have "length (st_jobs ex3) = 1" by code_simp
  with nonterminal_jobs_exact[OF ex_reachable_3] show ?thesis by (metis one_le_numeral)
qed

section \<open>The change history\<close>

definition ex_change2 :: ChangeId where "ex_change2 = ChangeId (ex_uuid (CHR ''9''))"

definition ex_history :: store where
  "ex_history = fst (create_change 10000000000 ex_plan ''alice'' ex_job
     (fst (create_change 5000000000 (ex_plan\<lparr>pl_change_id := ex_change2\<rparr>) ''alice'' ex_job ex4)))"

definition ex_history_ids :: "ChangeId option \<Rightarrow> ChangeId list" where
  "ex_history_ids cursor =
     map (\<lambda>c. pl_change_id (ch_plan c))
       (projr (list_visible_changes ex_text ''alice'' {''web1''} {''system''}
         \<lparr>hi_cursor = cursor, hi_host = None, hi_limit = 1\<rparr> ex_history))"

text \<open>
  Paging through the change history can skip a change: the page is ordered by the time a change
  was stored, but the cursor stands for the earlier time its plan was made, so a change stored in
  between appears after the cursor's change on no page. Here a second change is visible, follows the
  first on the first page, and is missing from the page that continues after it.
\<close>

theorem change_history_skips:
  "ex_reachable ex_history \<and> ex_history_ids None = [ex_change, ex_change2] \<and> ex_history_ids (Some ex_change) = []"
proof (intro conjI)
  have "ex_reachable ex4"
    by (rule ex_step[OF ex_reachable_3]) (unfold ex4_def, rule store_step.create_workspace[OF prod.collapse[symmetric] ex_ids(3)])
  then have "ex_reachable (fst (create_change 5000000000 (ex_plan\<lparr>pl_change_id := ex_change2\<rparr>) ''alice'' ex_job ex4))"
    by (rule ex_step) (rule store_step.create_change[OF prod.collapse[symmetric]])
  then show "ex_reachable ex_history"
    by (rule ex_step) (unfold ex_history_def, rule store_step.create_change[OF prod.collapse[symmetric]])
  show "ex_history_ids None = [ex_change, ex_change2]" by code_simp
  show "ex_history_ids (Some ex_change) = []" by code_simp
qed

end
