(* ===== verification/Transport.thy ===== *)
theory Transport
  imports Proto_Events
begin

text \<open>
  \<open>maxops-proto/src/transport.rs\<close>: bearer tokens, the public error vocabulary of every HTTP
  answer, and the filter that a client applies to the body of a failed upstream answer.  The
  constant-time comparison of the \<open>subtle\<close> crate is the parameter \<open>ct_eq\<close>.
\<close>

definition MAX_BODY :: nat where "MAX_BODY = 2 * 1024 * 1024"

section \<open>Tokens\<close>

datatype Token = Token (token_text: string)

definition trim_end_newlines :: "string \<Rightarrow> string" where
  "trim_end_newlines s = rev (dropWhile (\<lambda>c. c = CHR 0x0D \<or> c = CHR 0x0A) (rev s))"

definition Token_parse :: "string \<Rightarrow> (Token, string) result" where
  "Token_parse value =
     (let value = trim_end_newlines value in
      if length value \<ge> 32 \<and> length value \<le> 512 \<and> list_all is_ascii_graphic value
      then Ok (Token value)
      else Err ''token must contain 32..512 printable ASCII characters without spaces'')"

text \<open>A header map: names are lower case, a name may have several values.\<close>

type_synonym headers = "(string \<times> string) list"

definition get_all :: "string \<Rightarrow> headers \<Rightarrow> string list" where
  "get_all name hs = map snd (filter (\<lambda>(n, _). n = name) hs)"

text \<open>\<open>HeaderValue::to_str\<close> accepts visible ASCII, space and tab.\<close>

definition header_to_str :: "string \<Rightarrow> string option" where
  "header_to_str v =
     (if list_all (\<lambda>c. 32 \<le> byte c \<and> byte c \<le> 126 \<or> byte c = 9) v then Some v else None)"

definition strip_prefix :: "string \<Rightarrow> string \<Rightarrow> string option" where
  "strip_prefix p s = (if take (length p) s = p then Some (drop (length p) s) else None)"

definition Token_matches :: "(string \<Rightarrow> string \<Rightarrow> bool) \<Rightarrow> Token \<Rightarrow> headers \<Rightarrow> bool" where
  "Token_matches ct_eq token hs =
     (if length (get_all ''authorization'' hs) \<noteq> 1 then False
      else case get_all ''authorization'' hs of
        [] \<Rightarrow> False
      | v # _ \<Rightarrow>
          (case Option.bind (header_to_str v) (strip_prefix ''Bearer '') of
             None \<Rightarrow> False
           | Some credential \<Rightarrow> ct_eq (token_text token) credential))"

definition Token_same_as :: "(string \<Rightarrow> string \<Rightarrow> bool) \<Rightarrow> Token \<Rightarrow> Token \<Rightarrow> bool" where
  "Token_same_as ct_eq a b = ct_eq (token_text a) (token_text b)"

section \<open>Public errors\<close>

type_synonym status_code = nat

datatype ApiError = ApiError (api_status: status_code) (api_message: string)

definition message_code :: "string \<Rightarrow> (string \<times> string) option" where
  "message_code m =
     (if m = ''unsupported operation'' then Some (''unsupported_operation'', ''refresh_catalog'')
      else if m = ''capability not permitted'' then Some (''capability_not_permitted'', ''never'')
      else if m \<in> {''host not permitted'', ''job targets another host''}
      then Some (''host_not_permitted'', ''never'')
      else if m \<in> {''unit not permitted'', ''service not permitted''}
      then Some (''unit_not_readable'', ''never'')
      else if m \<in> {''unit is not manageable'', ''service is not manageable''}
      then Some (''unit_not_manageable'', ''never'')
      else if m = ''unit kind is not manageable; mutations require .service''
      then Some (''unit_kind_not_manageable'', ''never'')
      else if m = ''logs not permitted'' then Some (''logs_not_permitted'', ''never'')
      else if m = ''repository not permitted'' then Some (''repository_not_permitted'', ''never'')
      else if m = ''deployment not permitted'' then Some (''deployment_not_permitted'', ''never'')
      else if m = ''execution profiles require a host''
      then Some (''execution_profile_host_required'', ''never'')
      else if m = ''invalid observation unit name'' then Some (''invalid_unit_name'', ''never'')
      else if m = ''idempotency key conflicts with another request''
      then Some (''idempotency_conflict'', ''never'')
      else if m \<in> {''job revision changed'', ''change revision changed''}
      then Some (''revision_conflict'', ''refresh'')
      else if m \<in> {''deployment baseline changed'', ''deployment plan expired''}
      then Some (''stale_baseline'', ''replan'')
      else if m \<in> {''catalog revision changed'', ''invalid cursor''}
      then Some (''cursor_invalid'', ''restart_listing'')
      else if m = ''change is owned by a deployment workflow''
      then Some (''workflow_conflict'', ''observe'')
      else None)"

definition status_code_class :: "status_code \<Rightarrow> string \<times> string" where
  "status_code_class s =
     (if s = 401 then (''unauthenticated'', ''never'')
      else if s = 403 then (''forbidden'', ''never'')
      else if s = 404 then (''not_found'', ''never'')
      else if s = 409 then (''state_conflict'', ''refresh'')
      else if s = 410 then (''cursor_expired'', ''restart_listing'')
      else if s = 429 then (''busy'', ''backoff'')
      else if s = 400 \<or> s = 422 then (''invalid_request'', ''never'')
      else (''unavailable'', ''observe_before_retry''))"

text \<open>\<open>ApiError::into_response\<close>: the status and the JSON body.\<close>

definition ApiError_code :: "ApiError \<Rightarrow> string \<times> string" where
  "ApiError_code e =
     (case message_code (api_message e) of
        Some cr \<Rightarrow> cr
      | None \<Rightarrow> status_code_class (api_status e))"

definition ApiError_into_response :: "ApiError \<Rightarrow> status_code \<times> json" where
  "ApiError_into_response e =
     (case ApiError_code e of (code, retry) \<Rightarrow>
        (api_status e,
         JObject [(''error'', JString (api_message e)), (''code'', JString code),
                  (''retry'', JString retry)]))"

section \<open>Upstream errors\<close>

record UpstreamHttpError =
  up_status :: status_code
  up_code :: "string option"
  up_retry :: "string option"

definition UpstreamHttpError_new :: "status_code \<Rightarrow> UpstreamHttpError" where
  "UpstreamHttpError_new status = \<lparr>up_status = status, up_code = None, up_retry = None\<rparr>"

definition public_codes :: "string list" where
  "public_codes =
     [''unsupported_operation'', ''idempotency_conflict'', ''revision_conflict'',
      ''stale_baseline'', ''cursor_invalid'', ''workflow_conflict'', ''unauthenticated'',
      ''forbidden'', ''not_found'', ''state_conflict'', ''cursor_expired'', ''busy'',
      ''invalid_request'', ''unit_kind_not_manageable'', ''unavailable'']"

definition public_retries :: "string list" where
  "public_retries =
     [''refresh_catalog'', ''never'', ''refresh'', ''replan'', ''restart_listing'', ''observe'',
      ''backoff'', ''observe_before_retry'']"

text \<open>
  The body has already gone through \<open>serde_json::from_slice\<close>: \<open>None\<close> when it was not JSON.
\<close>

definition with_public_body :: "UpstreamHttpError \<Rightarrow> json option \<Rightarrow> UpstreamHttpError" where
  "with_public_body self body =
     (case body of
        None \<Rightarrow> self
      | Some value \<Rightarrow>
          (case (Option.bind (json_get ''code'' value) json_as_str,
                 Option.bind (json_get ''retry'' value) json_as_str) of
             (Some code, Some retry) \<Rightarrow>
               if code \<in> set public_codes \<and> retry \<in> set public_retries
               then self\<lparr>up_code := Some code, up_retry := Some retry\<rparr>
               else self
           | _ \<Rightarrow> self))"

text \<open>
  The chunk loop of \<open>read_json\<close> on a failed answer: more than 4096 bytes and the body is ignored.
\<close>

fun collect_bounded :: "nat \<Rightarrow> string \<Rightarrow> string list \<Rightarrow> string option" where
  "collect_bounded limit bytes [] = Some bytes"
| "collect_bounded limit bytes (chunk # chunks) =
     (if length bytes + length chunk > limit then None
      else collect_bounded limit (bytes @ chunk) chunks)"

datatype read_error = UpstreamFailed UpstreamHttpError | TooLarge string | NotJson

definition is_success :: "status_code \<Rightarrow> bool" where
  "is_success s \<longleftrightarrow> 200 \<le> s \<and> s < 300"

definition read_json ::
  "(string \<Rightarrow> json option) \<Rightarrow> status_code \<Rightarrow> string list \<Rightarrow> (json, read_error) result" where
  "read_json from_slice status chunks =
     (if \<not> is_success status then
        (case collect_bounded 4096 [] chunks of
           None \<Rightarrow> Err (UpstreamFailed (UpstreamHttpError_new status))
         | Some bytes \<Rightarrow>
             Err (UpstreamFailed (with_public_body (UpstreamHttpError_new status) (from_slice bytes))))
      else
        (case collect_bounded MAX_BODY [] chunks of
           None \<Rightarrow> Err (TooLarge ''upstream response too large'')
         | Some bytes \<Rightarrow> ok_or NotJson (from_slice bytes)))"

section \<open>Facts\<close>

lemma get_all_single_iff:
  "length (get_all n hs) = 1 \<Longrightarrow> \<exists>v. get_all n hs = [v]"
  by (cases "get_all n hs") auto

lemma strip_prefix_Some: "strip_prefix p s = Some r \<longleftrightarrow> s = p @ r"
  by (auto simp: strip_prefix_def) (metis append_take_drop_id)

lemma graphic_header: "list_all is_ascii_graphic t \<Longrightarrow> header_to_str (''Bearer '' @ t) = Some (''Bearer '' @ t)"
  by (auto simp: header_to_str_def list_all_iff byte_simps)

lemma Token_parse_Ok:
  "Token_parse value = Ok t \<longleftrightarrow>
     token_text t = trim_end_newlines value \<and> 32 \<le> length (token_text t) \<and>
     length (token_text t) \<le> 512 \<and> list_all is_ascii_graphic (token_text t)"
  by (cases t) (auto simp: Token_parse_def Let_def)

lemma collect_bounded_Some:
  "collect_bounded limit bytes chunks = Some r \<longleftrightarrow>
     r = bytes @ concat chunks \<and> (chunks \<noteq> [] \<longrightarrow> length r \<le> limit)"
proof (induction chunks arbitrary: bytes)
  case (Cons c chunks)
  show ?case
  proof (cases "length bytes + length c > limit")
    case True
    then show ?thesis by auto
  next
    case False
    then show ?thesis using Cons.IH[of "bytes @ c"] by (cases chunks) auto
  qed
qed auto

lemma with_public_body_code:
  "up_code (with_public_body (UpstreamHttpError_new s) b) = Some c \<Longrightarrow> c \<in> set public_codes"
  by (auto simp: with_public_body_def UpstreamHttpError_new_def split: option.splits if_splits)

lemma with_public_body_retry:
  "up_retry (with_public_body (UpstreamHttpError_new s) b) = Some c \<Longrightarrow> c \<in> set public_retries"
  by (auto simp: with_public_body_def UpstreamHttpError_new_def split: option.splits if_splits)

lemma with_public_body_status [simp]: "up_status (with_public_body e b) = up_status e"
  by (auto simp: with_public_body_def split: option.splits)

lemma ApiError_retry_public: "snd (ApiError_code e) \<in> set public_retries"
  by (auto simp: ApiError_code_def message_code_def status_code_class_def public_retries_def
      split: option.splits if_splits)

end
