(* ===== verification/Properties_Proto.thy ===== *)
theory Properties_Proto
  imports Example_Run Transport
begin

text \<open>Properties of the wire types: names, tokens, errors, edits and the job fingerprint.\<close>

section \<open>Fingerprints\<close>

text \<open>
  (C38) The job fingerprint sees exactly what identifies the work: two submissions have the same
  fingerprint when and only when host, operation, version and canonical specification agree, and the
  canonical form does not depend on the order in which a client writes object entries, at any depth.
\<close>

theorem fingerprint_identifies:
  "(job_fingerprint a = job_fingerprint b \<longleftrightarrow>
      nj_host a = nj_host b \<and> nj_operation a = nj_operation b \<and> nj_spec_version a = nj_spec_version b
      \<and> canonical_json (nj_spec a) = canonical_json (nj_spec b))
   \<and> (json_sim v w \<longrightarrow> canonical_json v = canonical_json w)"
proof
  have order: "sort_key fst [(''host'', h), (''operation'', op), (''spec_version'', n), (''spec'', sp)]
      = [(''host'', h), (''operation'', op), (''spec'', sp), (''spec_version'', n :: json)]" for h op n sp
    by simp
  show "job_fingerprint a = job_fingerprint b \<longleftrightarrow>
      nj_host a = nj_host b \<and> nj_operation a = nj_operation b \<and> nj_spec_version a = nj_spec_version b
      \<and> canonical_json (nj_spec a) = canonical_json (nj_spec b)"
    unfolding job_fingerprint_def canonical_json.simps order by auto
  show "json_sim v w \<longrightarrow> canonical_json v = canonical_json w" using json_sim_canonical by blast
qed

theorem fingerprint_identifies_witness:
  "canonical_json (JObject [(''b'', JNull), (''a'', JBool True)])
     = canonical_json (JObject [(''a'', JBool True), (''b'', JNull)])"
proof -
  let ?a = "[(''b'', JNull), (''a'', JBool True)]" and ?b = "[(''a'', JBool True), (''b'', JNull)]"
  have "json_sim JNull JNull" "json_sim (JBool True) (JBool True)" by (auto intro: json_sim.atom)
  then have "json_sim (JObject ?a) (JObject ?b)"
    by (intro json_sim.object[of ?a ?a ?a ?b]) simp_all
  with fingerprint_identifies[of undefined undefined "JObject ?a" "JObject ?b"] show ?thesis by blast
qed

section \<open>Names\<close>

text \<open>
  A unit that may be managed may also be observed, and its name is safe as an argument and as a
  path component: it has a stem before \<open>.service\<close>, is bounded, and holds only letters, digits and
  \<open>_-.:@\<close>, so no slash, space, backslash or option separator.
\<close>

theorem managed_units_observable:
  assumes "valid_unit name"
  shows "valid_observation_unit name \<and> length name \<le> 255
    \<and> (\<forall>c \<in> set name. is_ascii_alphanumeric c \<or> c \<in> set ''_-.:@'')
    \<and> (\<exists>stem. stem \<noteq> [] \<and> name = stem @ ''.service'')"
proof -
  obtain stem where "name = stem @ ''.service''" "stem \<noteq> []" "length name \<le> 255"
    by (rule valid_unit_shape[OF assms])
  moreover have "\<forall>c \<in> set name. unit_byte c" using assms by (simp add: valid_unit_def list_all_iff)
  ultimately show ?thesis using valid_unit_observable[OF assms] by (auto simp: unit_byte_def)
qed

theorem managed_units_observable_witness: "valid_observation_unit ''nginx.service''"
proof -
  have "valid_unit ''nginx.service''" by code_simp
  from managed_units_observable[OF this] show ?thesis by blast
qed

text \<open>
  A job identifier round-trips through its text, only canonical identifiers parse, and a parsed
  identifier is safe as a file name: it has no slash and no dot.
\<close>

theorem job_id_roundtrip:
  "(JobId_parse v = Ok i \<longleftrightarrow> uuid_text v \<and> job_id_str i = v)
   \<and> (JobId_parse v = Ok i \<longrightarrow> JobId_parse (job_id_str i) = Ok i
        \<and> CHR ''/'' \<notin> set (job_id_str i) \<and> CHR ''.'' \<notin> set (job_id_str i))"
  using job_id.parse_iff uuid_text_no_slash by metis

theorem job_id_roundtrip_witness: "CHR ''/'' \<notin> set (job_id_str ex_job)"
proof -
  have "JobId_parse (ex_uuid (CHR ''1'')) = Ok ex_job" by code_simp
  with job_id_roundtrip[of "ex_uuid (CHR ''1'')" ex_job] show ?thesis by blast
qed

section \<open>Registry\<close>



section \<open>Authentication\<close>

text \<open>
  A bearer token authenticates exactly the requests that carry one authorization header whose
  value is the scheme followed by the token, when the constant-time comparison decides equality.
\<close>

theorem token_matches_iff:
  assumes "\<And>x y. ct_eq x y \<longleftrightarrow> x = y" and "Token_parse v = Ok token"
  shows "Token_matches ct_eq token hs \<longleftrightarrow> get_all ''authorization'' hs = [''Bearer '' @ token_text token]"
proof -
  have graphic: "list_all is_ascii_graphic (token_text token)" using assms(2) unfolding Token_parse_Ok by blast
  show ?thesis
  proof (cases "length (get_all ''authorization'' hs) = 1")
    case True
    then obtain w where w: "get_all ''authorization'' hs = [w]" using get_all_single_iff by blast
    have "(\<exists>c. Option.bind (header_to_str w) (strip_prefix ''Bearer '') = Some c \<and> ct_eq (token_text token) c)
        \<longleftrightarrow> w = ''Bearer '' @ token_text token"
      using graphic_header[OF graphic]
      by (auto simp: assms(1) bind_eq_Some_conv strip_prefix_Some header_to_str_def split: if_splits)
    then show ?thesis using w by (auto simp: Token_matches_def split: option.splits)
  next
    case False
    then show ?thesis by (auto simp: Token_matches_def)
  qed
qed

theorem token_matches_iff_witness:
  "Token_matches (=) (Token (replicate 32 (CHR ''t''))) [(''authorization'', ''Bearer '' @ replicate 32 (CHR ''t''))]"
proof -
  have "Token_parse (replicate 32 (CHR ''t'')) = Ok (Token (replicate 32 (CHR ''t'')))" by code_simp
  from token_matches_iff[of "(=)", OF refl this] show ?thesis by (simp add: get_all_def)
qed

section \<open>Errors\<close>

text \<open>
  A failed upstream answer leaks nothing: whatever bytes the upstream sends, the error that
  \<open>read_json\<close> reports carries the answer's status and only codes and retry advice of the fixed public
  vocabulary, and a body over 4096 bytes is ignored.
\<close>

theorem upstream_error_public:
  assumes "\<not> is_success status"
  shows "\<exists>e. read_json from_slice status chunks = Err (UpstreamFailed e) \<and> up_status e = status
    \<and> set_option (up_code e) \<subseteq> set public_codes \<and> set_option (up_retry e) \<subseteq> set public_retries
    \<and> (4096 < length (concat chunks) \<longrightarrow> up_code e = None \<and> up_retry e = None)"
proof (cases "collect_bounded 4096 [] chunks")
  case None
  with assms show ?thesis by (simp add: read_json_def UpstreamHttpError_new_def)
next
  case (Some bytes)
  then have "bytes = concat chunks \<and> (chunks \<noteq> [] \<longrightarrow> length bytes \<le> 4096)"
    by (auto simp: collect_bounded_Some)
  then have small: "length (concat chunks) \<le> 4096" by (cases chunks) auto
  let ?e = "with_public_body (UpstreamHttpError_new status) (from_slice bytes)"
  have "set_option (up_code ?e) \<subseteq> set public_codes" "set_option (up_retry ?e) \<subseteq> set public_retries"
    using with_public_body_code with_public_body_retry by (auto simp: elem_set)
  with assms Some small show ?thesis by (simp add: read_json_def UpstreamHttpError_new_def)
qed

theorem upstream_error_public_witness:
  "\<exists>e. read_json (\<lambda>_. Some (JObject [(''code'', JString ''root:secret''), (''retry'', JString ''never'')])) 500 [''x'']
     = Err (UpstreamFailed e) \<and> up_status e = 500 \<and> set_option (up_code e) \<subseteq> set public_codes"
proof -
  have "\<not> is_success 500" by code_simp
  from upstream_error_public[OF this] show ?thesis by blast
qed

section \<open>Workspace edits\<close>

text \<open>
  The validation of a workspace edit batch accepts exactly the batches that name a valid
  repository and a positive revision, hold 1 to 128 edits with pairwise distinct, bounded, NUL-free
  paths, and write at most one mebibyte in total.
\<close>

theorem apply_params_valid_iff:
  "WorkspaceApplyParams_validate p = Ok () \<longleftrightarrow>
     validate_revision (wa_repository p) (wa_expected_revision p) = Ok () \<and>
     1 \<le> length (wa_edits p) \<and> length (wa_edits p) \<le> 128 \<and>
     list_all edit_path_ok (wa_edits p) \<and> distinct (map we_path (wa_edits p)) \<and>
     sum_list (map edit_bytes (wa_edits p)) \<le> MAX_WORKSPACE_APPLY_BYTES"
proof -
  have "MAX_WORKSPACE_APPLY_BYTES \<le> u64_max" by (simp add: MAX_WORKSPACE_APPLY_BYTES_def)
  then have "(\<exists>b. validate_edits {} 0 es = Ok b \<and> b \<le> MAX_WORKSPACE_APPLY_BYTES) \<longleftrightarrow>
      list_all edit_path_ok es \<and> distinct (map we_path es) \<and> sum_list (map edit_bytes es) \<le> MAX_WORKSPACE_APPLY_BYTES" for es
    by (auto simp: validate_edits_Ok)
  moreover have "WorkspaceApplyParams_validate p = Ok () \<longleftrightarrow>
     validate_revision (wa_repository p) (wa_expected_revision p) = Ok () \<and>
     1 \<le> length (wa_edits p) \<and> length (wa_edits p) \<le> 128 \<and>
     (\<exists>b. validate_edits {} 0 (wa_edits p) = Ok b \<and> b \<le> MAX_WORKSPACE_APPLY_BYTES)"
    by (cases "validate_revision (wa_repository p) (wa_expected_revision p)";
        cases "validate_edits {} 0 (wa_edits p)")
      (auto simp: WorkspaceApplyParams_validate_def Suc_le_eq)
  ultimately show ?thesis by blast
qed

end
