(* ===== verification/Proto_Executor.thy ===== *)
theory Proto_Executor
  imports Proto_Jobs Proto_Changes Proto_Workspaces Proto_Events
begin

text \<open>
  The requests that the hub sends to executors and their answers (\<open>maxops-proto/src/jobs.rs\<close> and
  \<open>workspaces.rs\<close>), and the parameters of the hub's job operations (\<open>client_api.rs\<close>, \<open>events.rs\<close>).
\<close>

section \<open>Workspaces\<close>

record WorkspaceStatusParams =
  wst_repository :: string
  wst_workspace_id :: WorkspaceId

record WorkspaceRevisionParams =
  wv_repository :: string
  wv_workspace_id :: WorkspaceId
  wv_expected_revision :: nat

record WorkspaceFile =
  wf_workspace_id :: WorkspaceId
  wf_revision :: nat
  wf_path :: string
  wf_encoding :: string
  wf_content :: string
  wf_digest :: string

record WorkspaceDiff =
  wd_workspace_id :: WorkspaceId
  wd_revision :: nat
  wd_against_commit :: string
  wd_patch :: string

datatype WorkspaceTargetRequest =
    WtStatus WorkspaceStatusParams
  | WtRead WorkspaceReadParams
  | WtApply WorkspaceApplyParams
  | WtDiff WorkspaceRevisionParams
  | WtCommit WorkspaceCommitParams

datatype WorkspaceTargetResponse =
    WtRecord WorkspaceRecord
  | WtFile WorkspaceFile
  | WtDiffOf WorkspaceDiff

section \<open>Jobs, sources and runtimes\<close>

record JobLogsResponse =
  jlr_job_id :: JobId
  jlr_encoding :: string
  jlr_stdout_base64 :: string
  jlr_stderr_base64 :: string
  jlr_next_stdout_offset :: nat
  jlr_next_stderr_offset :: nat
  jlr_complete :: bool
  jlr_truncated :: bool

record ExecutionProfileInfo =
  xi_name :: string
  xi_max_timeout_seconds :: nat
  xi_output_limit_bytes :: nat
  xi_user :: string
  xi_privileged :: bool
  xi_interpreter :: string
  xi_working_roots :: "string list"
  xi_path :: "string option"

record RepositoryHeadResponse =
  hd_repository :: string
  hd_reference :: string
  hd_commit :: string
  hd_observed_at :: timestamp

text \<open>
  \<open>ReqStatus\<close> carries the one field of \<open>JobIdParams\<close>, \<open>ReqRepositoryHead\<close> the principal, repository
  and reference, \<open>ReqRuntimeState\<close> the principal and the deployment profile.
\<close>

datatype ExecutorRequest =
    ReqExecutionProfiles
  | ReqSubmit JobId NewJob
  | ReqStatus JobId
  | ReqLogs JobLogsParams
  | ReqCancel JobCancelParams
  | ReqWorkspace string WorkspaceTargetRequest
  | ReqRepositoryHead string string string
  | ReqRuntimeState string string

datatype ExecutorResponse =
    RespExecutionProfiles "ExecutionProfileInfo list"
  | RespJob JobRecord
  | RespLogs JobLogsResponse
  | RespWorkspace WorkspaceTargetResponse
  | RespRepositoryHead RepositoryHeadResponse
  | RespRuntimeState RuntimeStateResponse

section \<open>Parameters of the hub\<close>

record JobWaitParams =
  jw_job_id :: "JobId option"
  jw_idempotency_key :: "string option"
  jw_after_revision :: "nat option"
  jw_timeout_seconds :: nat

record JobEventsParams =
  jp_job_id :: JobId
  jp_after_sequence :: nat
  jp_limit :: nat

record JobResultParams =
  jx_job_id :: "JobId option"
  jx_idempotency_key :: "string option"
  jx_pointer :: string
  jx_offset :: nat
  jx_limit :: nat

record JobLookupParams =
  jk_job_id :: "JobId option"
  jk_idempotency_key :: "string option"

record JobOutputParams =
  jo_job_id :: "JobId option"
  jo_idempotency_key :: "string option"
  jo_stdout_offset :: nat
  jo_stderr_offset :: nat
  jo_limit :: nat

record RemediationBeginParams =
  rbp_event_id :: EventId
  rbp_host :: string

definition WorkspaceStatusParams_validate :: "WorkspaceStatusParams \<Rightarrow> (unit, string) result" where
  "WorkspaceStatusParams_validate p = validate_repository (wst_repository p)"

definition WorkspaceRevisionParams_validate :: "WorkspaceRevisionParams \<Rightarrow> (unit, string) result" where
  "WorkspaceRevisionParams_validate p = validate_revision (wv_repository p) (wv_expected_revision p)"

section \<open>The deployment workflow\<close>

datatype DeployUntil = UntilBuilt | UntilVerified

record DeployRunParams =
  dn_change_id :: ChangeId
  dn_expected_revision :: nat
  dn_until :: DeployUntil

end
