(* ===== verification/Rust_Str.thy ===== *)
theory Rust_Str
  imports Prelude
begin

text \<open>
  What the hub and the executor use of Rust's \<open>str\<close>: texts are lists of UTF-8 bytes.
\<close>

section \<open>Searching and splitting\<close>

text \<open>\<open>str::starts_with\<close> and \<open>str::contains\<close>.\<close>

definition starts_with :: "string \<Rightarrow> string \<Rightarrow> bool" where
  "starts_with s p \<longleftrightarrow> take (length p) s = p"

fun str_contains :: "string \<Rightarrow> string \<Rightarrow> bool" where
  "str_contains [] p = (p = [])"
| "str_contains (c # s) p = (take (length p) (c # s) = p \<or> str_contains s p)"

text \<open>\<open>str::split_once\<close> at a character, \<open>str::rsplit_once\<close> at a pattern (its last occurrence).\<close>

fun split_once :: "char \<Rightarrow> string \<Rightarrow> (string \<times> string) option" where
  "split_once d [] = None"
| "split_once d (c # cs) =
     (if c = d then Some ([], cs) else map_option (\<lambda>(a, b). (c # a, b)) (split_once d cs))"

fun rsplit_once_str :: "string \<Rightarrow> string \<Rightarrow> (string \<times> string) option" where
  "rsplit_once_str p [] = (if p = [] then Some ([], []) else None)"
| "rsplit_once_str p (c # cs) =
     (case rsplit_once_str p cs of
        Some (a, b) \<Rightarrow> Some (c # a, b)
      | None \<Rightarrow> if starts_with (c # cs) p then Some ([], drop (length p) (c # cs)) else None)"

text \<open>\<open>str::split\<close> at a character.\<close>

fun split_at_char :: "char \<Rightarrow> string \<Rightarrow> string list" where
  "split_at_char d [] = [[]]"
| "split_at_char d (c # cs) =
     (if c = d then [] # split_at_char d cs
      else case split_at_char d cs of p # ps \<Rightarrow> (c # p) # ps | [] \<Rightarrow> [[c]])"

section \<open>Numbers\<close>

text \<open>\<open>str::parse\<close> for \<open>usize\<close> and \<open>u64\<close>: an optional plus sign and decimal digits, within 64 bits.\<close>

fun parse_digits :: "nat \<Rightarrow> string \<Rightarrow> nat option" where
  "parse_digits acc [] = Some acc"
| "parse_digits acc (c # cs) =
     (if is_ascii_digit c \<and> acc * 10 + (byte c - 48) \<le> u64_max
      then parse_digits (acc * 10 + (byte c - 48)) cs else None)"

definition parse_usize :: "string \<Rightarrow> nat option" where
  "parse_usize s =
     (let digits = (case s of c # cs \<Rightarrow> if c = CHR ''+'' then cs else s | [] \<Rightarrow> []) in
      if digits = [] then None else parse_digits 0 digits)"

section \<open>UTF-8\<close>

definition is_continuation :: "char \<Rightarrow> bool" where
  "is_continuation c \<longleftrightarrow> 128 \<le> byte c \<and> byte c < 192"

text \<open>\<open>String::from_utf8\<close> accepts exactly these byte sequences (the table of well-formed UTF-8).\<close>

fun utf8_valid :: "string \<Rightarrow> bool" where
  "utf8_valid [] = True"
| "utf8_valid (b # bs) =
     (if byte b < 128 then utf8_valid bs
      else if 194 \<le> byte b \<and> byte b \<le> 223 then
        (case bs of c1 # r \<Rightarrow> is_continuation c1 \<and> utf8_valid r | _ \<Rightarrow> False)
      else if 224 \<le> byte b \<and> byte b \<le> 239 then
        (case bs of
           c1 # c2 # r \<Rightarrow> is_continuation c1 \<and> is_continuation c2
             \<and> (byte b = 224 \<longrightarrow> 160 \<le> byte c1) \<and> (byte b = 237 \<longrightarrow> byte c1 \<le> 159) \<and> utf8_valid r
         | _ \<Rightarrow> False)
      else if 240 \<le> byte b \<and> byte b \<le> 244 then
        (case bs of
           c1 # c2 # c3 # r \<Rightarrow> is_continuation c1 \<and> is_continuation c2 \<and> is_continuation c3
             \<and> (byte b = 240 \<longrightarrow> 144 \<le> byte c1) \<and> (byte b = 244 \<longrightarrow> byte c1 \<le> 143) \<and> utf8_valid r
         | _ \<Rightarrow> False)
      else False)"

text \<open>The characters with the property White\_Space, by their encodings.\<close>

definition whitespace1 :: "nat \<Rightarrow> bool" where
  "whitespace1 b \<longleftrightarrow> 9 \<le> b \<and> b \<le> 13 \<or> b = 32"

definition whitespace2 :: "nat \<Rightarrow> nat \<Rightarrow> bool" where
  "whitespace2 b c \<longleftrightarrow> b = 194 \<and> (c = 133 \<or> c = 160)"

definition whitespace3 :: "nat \<Rightarrow> nat \<Rightarrow> nat \<Rightarrow> bool" where
  "whitespace3 b c d \<longleftrightarrow>
     b = 225 \<and> c = 154 \<and> d = 128
     \<or> b = 226 \<and> c = 128 \<and> (128 \<le> d \<and> d \<le> 138 \<or> d = 168 \<or> d = 169 \<or> d = 175)
     \<or> b = 226 \<and> c = 129 \<and> d = 159
     \<or> b = 227 \<and> c = 128 \<and> d = 128"

fun trim_start :: "string \<Rightarrow> string" where
  "trim_start [] = []"
| "trim_start (b # bs) =
     (if whitespace1 (byte b) then trim_start bs
      else case bs of
        c # cs \<Rightarrow>
          if whitespace2 (byte b) (byte c) then trim_start cs
          else (case cs of
                  d # ds \<Rightarrow> if whitespace3 (byte b) (byte c) (byte d) then trim_start ds else b # bs
                | [] \<Rightarrow> b # bs)
      | [] \<Rightarrow> b # bs)"

text \<open>\<open>trim_end\<close> on the reversed text.\<close>

fun trim_reversed :: "string \<Rightarrow> string" where
  "trim_reversed [] = []"
| "trim_reversed (b # bs) =
     (if whitespace1 (byte b) then trim_reversed bs
      else case bs of
        c # cs \<Rightarrow>
          if whitespace2 (byte c) (byte b) then trim_reversed cs
          else (case cs of
                  d # ds \<Rightarrow> if whitespace3 (byte d) (byte c) (byte b) then trim_reversed ds else b # bs
                | [] \<Rightarrow> b # bs)
      | [] \<Rightarrow> b # bs)"

definition trim :: "string \<Rightarrow> string" where
  "trim s = rev (trim_reversed (rev (trim_start s)))"

section \<open>Paths\<close>

definition path_is_absolute :: "string \<Rightarrow> bool" where
  "path_is_absolute p \<longleftrightarrow> starts_with p ''/''"

text \<open>
  Every component of a relative path is \<open>Component::Normal\<close>: no parent directory, and no leading
  current directory (elsewhere \<open>.\<close> and repeated separators disappear).
\<close>

definition path_normal_components :: "string \<Rightarrow> bool" where
  "path_normal_components p \<longleftrightarrow>
     \<not> path_is_absolute p \<and> ''..'' \<notin> set (split_at_char (CHR ''/'') p)
     \<and> hd (split_at_char (CHR ''/'') p) \<noteq> ''.''"

text \<open>\<open>Path::file_name\<close>: the last component if it is normal.\<close>

definition path_file_name :: "string \<Rightarrow> string option" where
  "path_file_name p =
     (let parts = filter (\<lambda>c. c \<noteq> [] \<and> c \<noteq> ''.'') (split_at_char (CHR ''/'') p) in
      if parts = [] \<or> last parts = ''..'' then None else Some (last parts))"

text \<open>\<open>Path::join\<close> with a relative path.\<close>

definition path_join :: "string \<Rightarrow> string \<Rightarrow> string" where
  "path_join base rel = (if path_is_absolute rel then rel else if base \<noteq> [] \<and> last base \<noteq> CHR ''/'' then base @ ''/'' @ rel else base @ rel)"

section \<open>Facts\<close>

lemma starts_with_append: "starts_with s p \<longleftrightarrow> (\<exists>r. s = p @ r)"
  unfolding starts_with_def by (metis append_eq_conv_conj append_take_drop_id)

lemma split_once_append: "d \<notin> set xs \<Longrightarrow> split_once d (xs @ d # ys) = Some (xs, ys)"
  by (induction xs) auto

lemma byte_digit: "k < 10 \<Longrightarrow> byte (char_of (48 + k)) = 48 + (k :: nat)"
  by simp

lemma is_digit_char: "(k :: nat) < 10 \<Longrightarrow> is_ascii_digit (char_of (48 + k))"
  by (simp add: is_ascii_digit_def byte_digit)

lemma parse_digits_append:
  "parse_digits acc (xs @ ys) = Option.bind (parse_digits acc xs) (\<lambda>n. parse_digits n ys)"
  by (induction xs arbitrary: acc) auto

lemma parse_digits_nat_to_string: "n \<le> u64_max \<Longrightarrow> parse_digits 0 (nat_to_string n) = Some n"
proof (induction n rule: nat_to_string.induct)
  case (1 n)
  show ?case
  proof (cases "n < 10")
    case True
    then show ?thesis using 1(2) by (subst nat_to_string.simps) (simp add: byte_digit is_digit_char)
  next
    case False
    have "parse_digits 0 (nat_to_string (n div 10)) = Some (n div 10)"
      by (rule 1(1)[OF False]) (use 1(2) in linarith)
    moreover have "n div 10 * 10 + n mod 10 = n" by simp
    ultimately show ?thesis using 1(2) False
      by (subst nat_to_string.simps) (simp add: parse_digits_append byte_digit is_digit_char)
  qed
qed

lemma nat_to_string_digit: "\<exists>c cs. nat_to_string n = c # cs \<and> is_ascii_digit c"
proof (induction n rule: nat_to_string.induct)
  case (1 n)
  show ?case
  proof (cases "n < 10")
    case True
    then show ?thesis by (subst nat_to_string.simps) (simp add: is_digit_char)
  next
    case False
    from 1[OF False] show ?thesis using False by (subst nat_to_string.simps) auto
  qed
qed

lemma parse_usize_nat_to_string: "n \<le> u64_max \<Longrightarrow> parse_usize (nat_to_string n) = Some n"
  using nat_to_string_digit[of n] parse_digits_nat_to_string[of n]
  by (auto simp: parse_usize_def byte_simps)

text \<open>
  The bytes of a character: one that starts it and up to three that continue it. Valid text is a
  sequence of such groups.
\<close>

definition utf8_char :: "string \<Rightarrow> bool" where
  "utf8_char bs \<longleftrightarrow> bs \<noteq> [] \<and> length bs \<le> 4 \<and> \<not> is_continuation (hd bs)"

lemma utf8_step:
  assumes "utf8_valid (b # bs)"
  obtains xs r where "bs = xs @ r" and "length xs \<le> 3" and "\<not> is_continuation b" and "utf8_valid r"
proof -
  consider (one) "byte b < 128" | (two) "194 \<le> byte b" "byte b \<le> 223"
    | (three) "224 \<le> byte b" "byte b \<le> 239" | (four) "240 \<le> byte b" "byte b \<le> 244"
    using assms by (auto simp del: utf8_valid.simps simp add: utf8_valid.simps(2)[of b bs] split: if_splits)
  then show thesis
  proof cases
    case one
    then show thesis using that[of "[]" bs] assms by (simp add: is_continuation_def)
  next
    case two
    then obtain c r where "bs = [c] @ r" "utf8_valid r"
      using assms by (cases bs) simp_all
    then show thesis using that[of "[c]" r] two by (simp add: is_continuation_def)
  next
    case three
    then obtain c d r where "bs = [c, d] @ r" "utf8_valid r"
      using assms by (cases bs; cases "tl bs") simp_all
    then show thesis using that[of "[c, d]" r] three by (simp add: is_continuation_def)
  next
    case four
    then obtain c d e r where "bs = [c, d, e] @ r" "utf8_valid r"
      using assms by (cases bs; cases "tl bs"; cases "tl (tl bs)") simp_all
    then show thesis using that[of "[c, d, e]" r] four by (simp add: is_continuation_def)
  qed
qed

lemma utf8_groups: "utf8_valid s \<Longrightarrow> \<exists>cs. s = concat cs \<and> list_all utf8_char cs"
proof (induction s rule: length_induct)
  case (1 s)
  show ?case
  proof (cases s)
    case Nil
    then show ?thesis by (intro exI[of _ "[]"]) simp
  next
    case (Cons b bs)
    with 1(2) obtain xs r where "bs = xs @ r" "length xs \<le> 3" "\<not> is_continuation b" "utf8_valid r"
      using utf8_step by blast
    moreover have "length r < length s" using Cons \<open>bs = xs @ r\<close> by simp
    with 1(1) \<open>utf8_valid r\<close> obtain cs where "r = concat cs" "list_all utf8_char cs" by blast
    ultimately show ?thesis using Cons by (intro exI[of _ "(b # xs) # cs"]) (simp add: utf8_char_def[of "b # xs"])
  qed
qed

end
