(* ===== verification/Hub_Config.thy ===== *)
theory Hub_Config
  imports Store_History Transport Proto_Executor Rust_Str
begin

text \<open>
  \<open>maxops-hub/src/lib.rs\<close>, the decisions that need no store: the configuration and the principals,
  authentication and authorization, idempotency keys, the mapping of store errors to public errors,
  and the wire values the hub exchanges with executors.

  The derived JSON codecs (serde) are the fields of \<open>serde\<close>; the constant-time comparison is
  \<open>ct_eq\<close>.
\<close>

section \<open>Configuration\<close>

datatype Access = ObserveAccess | ManageAccess

record Host =
  hc_name :: string
  hc_readable_units :: "string set"
  hc_read_all_units :: bool
  hc_manageable_units :: "string set"
  hc_diagnostic_probes :: "string \<rightharpoonup> string list"
  host_execution_token :: "Token option"

record Principal =
  pr_name :: string
  pr_token :: Token
  pr_hosts :: "string set"
  pr_capabilities :: "string set"
  pr_access :: Access
  pr_repositories :: "string set"
  pr_deployments :: "string set"

record DeploymentConfig =
  df_name :: string
  df_repository :: string
  df_builder_host :: string
  df_target_host :: string
  df_kind :: DeploymentKind
  df_flake_attribute :: string
  df_source_reference :: string
  df_plan_ttl_seconds :: nat

text \<open>\<open>App\<close> without its clients, counters and locks; \<open>app_store\<close> tells whether a store is configured.\<close>

record App =
  app_hosts :: "string \<rightharpoonup> Host"
  app_clients :: "Principal list"
  app_store :: bool
  app_repositories :: "string \<rightharpoonup> string"
  app_deployments :: "string \<rightharpoonup> DeploymentConfig"
  app_max_attempts_per_episode :: nat
  app_cooldown_seconds :: nat

section \<open>Codecs and executors\<close>

record serde =
  sd_job_spec :: "DeploymentJobSpec \<Rightarrow> json"
  sd_job_spec_of :: "json \<Rightarrow> DeploymentJobSpec option"
  sd_report_of :: "json \<Rightarrow> DeploymentReport option"
  sd_run :: "DeployRunParams \<Rightarrow> json"
  sd_run_of :: "json \<Rightarrow> DeployRunParams option"
  sd_unit_action :: "UnitActionParams \<Rightarrow> json"
  sd_unit_action_of :: "json \<Rightarrow> UnitActionParams option"
  sd_exec_run :: "ExecRunParams \<Rightarrow> json"
  sd_workspace_create :: "WorkspaceCreateParams \<Rightarrow> json"
  sd_workspace_check :: "WorkspaceCheckParams \<Rightarrow> json"
  sd_workspace_publish :: "WorkspacePublishParams \<Rightarrow> json"
  sd_diagnostic :: "DiagnosticCollectParams \<Rightarrow> json"
  sd_remediation_begin :: "RemediationBeginParams \<Rightarrow> json"
  sd_remediation_begin_of :: "json \<Rightarrow> RemediationBeginParams option"

text \<open>
  What the executor of a host answers to a request: a response, or an error with the HTTP status if
  there was an answer at all.
\<close>

type_synonym agent = "string \<Rightarrow> ExecutorRequest \<Rightarrow> (ExecutorResponse, status_code option) result"

section \<open>Authorization\<close>

definition authenticate :: "(string \<Rightarrow> string \<Rightarrow> bool) \<Rightarrow> App \<Rightarrow> headers \<Rightarrow> (Principal, ApiError) result" where
  "authenticate ct_eq app hs =
     ok_or (ApiError 401 ''unauthorized'') (find (\<lambda>p. Token_matches ct_eq (pr_token p) hs) (app_clients app))"

definition host_for :: "App \<Rightarrow> Principal \<Rightarrow> string \<Rightarrow> (Host, ApiError) result" where
  "host_for app prin name =
     (if name \<notin> pr_hosts prin then Err (ApiError 403 ''host not permitted'')
      else ok_or (ApiError 403 ''host not permitted'') (app_hosts app name))"

definition repository_host :: "App \<Rightarrow> Principal \<Rightarrow> string \<Rightarrow> (string, ApiError) result" where
  "repository_host app prin repository =
     (if repository \<notin> pr_repositories prin then Err (ApiError 403 ''repository not permitted'')
      else rbind (ok_or (ApiError 403 ''repository not permitted'') (app_repositories app repository)) (\<lambda>host.
        rbind (host_for app prin host) (\<lambda>_. Ok host)))"

definition deployment_for :: "App \<Rightarrow> Principal \<Rightarrow> string \<Rightarrow> (DeploymentConfig, ApiError) result" where
  "deployment_for app prin name =
     (if name \<notin> pr_deployments prin then Err (ApiError 403 ''deployment profile not permitted'')
      else rbind (ok_or (ApiError 403 ''deployment profile not permitted'') (app_deployments app name)) (\<lambda>deployment.
        rbind (repository_host app prin (df_repository deployment)) (\<lambda>_.
        rbind (host_for app prin (df_target_host deployment)) (\<lambda>_. Ok deployment))))"

definition unit_allowed :: "Host \<Rightarrow> string \<Rightarrow> (unit, ApiError) result" where
  "unit_allowed host unit =
     (if \<not> valid_observation_unit unit then Err (ApiError 400 ''invalid observation unit name'')
      else if \<not> hc_read_all_units host \<and> unit \<notin> hc_readable_units host
      then Err (ApiError 403 ''unit not permitted'')
      else Ok ())"

definition unit_manageable :: "Host \<Rightarrow> string \<Rightarrow> (unit, ApiError) result" where
  "unit_manageable host unit =
     (if unit \<notin> hc_manageable_units host then Err (ApiError 403 ''unit is not manageable'') else Ok ())"

definition idempotency_key :: "headers \<Rightarrow> (string, ApiError) result" where
  "idempotency_key hs =
     (if length (get_all ''idempotency-key'' hs) \<noteq> 1
      then Err (ApiError 400 ''one Idempotency-Key header is required'')
      else rbind (ok_or (ApiError 400 ''invalid Idempotency-Key'')
             (header_to_str (hd (get_all ''idempotency-key'' hs)))) (\<lambda>key.
        if key = [] \<or> length key > 128 \<or> \<not> list_all is_ascii_graphic key
        then Err (ApiError 400 ''invalid Idempotency-Key'')
        else Ok key))"

definition durable_store :: "App \<Rightarrow> (unit, ApiError) result" where
  "durable_store app =
     (if app_store app then Ok () else Err (ApiError 503 ''durable job storage is disabled''))"

section \<open>Store errors\<close>

text \<open>The text of a store error; a violated constraint is reported by the database driver.\<close>

definition error_text :: "store_error \<Rightarrow> string" where
  "error_text e =
     (case e of Report m \<Rightarrow> m | Constraint m \<Rightarrow> ''error returned from database: '' @ m)"

definition map_store_error :: "store_error \<Rightarrow> ApiError" where
  "map_store_error e =
     (let message = error_text e in
      if str_contains message ''event cursor expired'' then ApiError 410 ''event cursor expired''
      else if str_contains message ''remediation already active''
           \<or> str_contains message ''remediation attempt budget exhausted''
           \<or> str_contains message ''remediation cooldown active''
           \<or> str_contains message ''remediation is terminal''
      then ApiError 409 ''remediation policy conflict''
      else if str_contains message ''idempotency key''
      then ApiError 409 ''idempotency key conflicts with another request''
      else if str_contains message ''revision changed'' then ApiError 409 ''change revision changed''
      else if str_contains message ''workflow'' then ApiError 409 ''change is owned by a deployment workflow''
      else if str_contains message ''change not found'' then ApiError 404 ''change not found''
      else if str_contains message ''workspace not found'' then ApiError 404 ''workspace not found''
      else if str_contains message ''event not found'' then ApiError 404 ''event not found''
      else if str_contains message ''remediation not found'' then ApiError 404 ''remediation not found''
      else if str_contains message ''not found'' then ApiError 404 ''job not found''
      else ApiError 500 ''durable job storage failed'')"

definition map_workspace_upstream_error :: "status_code option \<Rightarrow> ApiError" where
  "map_workspace_upstream_error e =
     (if e = Some 409 then ApiError 409 ''workspace revision changed''
      else if e = Some 404 then ApiError 404 ''workspace not found''
      else if e = Some 400 \<or> e = Some 422 then ApiError 422 ''workspace request rejected''
      else if e = Some 403 then ApiError 403 ''workspace not permitted''
      else ApiError 503 ''executor unavailable'')"

definition is_server_error :: "status_code \<Rightarrow> bool" where
  "is_server_error s \<longleftrightarrow> 500 \<le> s \<and> s < 600"

section \<open>Admission of a request\<close>

text \<open>
  The checks of \<open>execute\<close> between the parsed request and its handler; \<open>slot\<close> tells whether the
  semaphore of the request's class has a permit left, \<open>representation\<close> is the outcome of the
  validation of the representation query.
\<close>

definition execute_admission ::
  "(string \<Rightarrow> string \<Rightarrow> bool) \<Rightarrow> App \<Rightarrow> headers \<Rightarrow> RequestTag \<Rightarrow> bool \<Rightarrow> (unit, ApiError) result \<Rightarrow>
   (Principal, ApiError) result" where
  "execute_admission ct_eq app hs request slot representation =
     rbind (authenticate ct_eq app hs) (\<lambda>prin.
     if Request_capability request \<notin> pr_capabilities prin then Err (ApiError 403 ''capability not permitted'')
     else if \<not> slot then Err (ApiError 429 ''hub busy'')
     else rbind representation (\<lambda>_.
       if operation_kind request \<noteq> Observation \<and> pr_access prin \<noteq> ManageAccess
       then Err (ApiError 403 ''management access required'')
       else if operation_idempotency request = NoKey \<and> get_all ''idempotency-key'' hs \<noteq> []
       then Err (ApiError 400 ''Idempotency-Key is not used by this operation'')
       else Ok prin))"

section \<open>Dispatch\<close>

definition agent_request ::
  "App \<Rightarrow> agent \<Rightarrow> string \<Rightarrow> ExecutorRequest \<Rightarrow> (ExecutorResponse, status_code option) result" where
  "agent_request app agent host_name request =
     rbind (ok_or None (app_hosts app host_name)) (\<lambda>host.
     rbind (ok_or None (host_execution_token host)) (\<lambda>_. agent host_name request))"

definition is_local :: "string \<Rightarrow> bool" where
  "is_local operation \<longleftrightarrow> operation \<in> {''deploy.run'', ''diagnostics.collect'', ''remediations.begin''}"

primrec operation_for_deployment :: "DeploymentAction \<Rightarrow> string" where
  "operation_for_deployment Prepare = ''deploy.prepare''"
| "operation_for_deployment Build = ''deploy.build''"
| "operation_for_deployment Activate = ''deploy.activate''"
| "operation_for_deployment Verify = ''deploy.verify''"
| "operation_for_deployment Rollback = ''deploy.rollback''"

text \<open>Whether a unit, workspace or deployment job still targets what the configuration allows.\<close>

definition unit_target_allowed :: "serde \<Rightarrow> App \<Rightarrow> JobRecord \<Rightarrow> bool" where
  "unit_target_allowed serde app job =
     (case (sd_unit_action_of serde (job_spec job), app_hosts app (h_host (job_handle job))) of
        (Some params, Some host) \<Rightarrow> ua_unit params \<in> hc_manageable_units host
      | _ \<Rightarrow> False)"

definition repository_target_allowed :: "App \<Rightarrow> Principal \<Rightarrow> JobRecord \<Rightarrow> bool" where
  "repository_target_allowed app prin job =
     (case Option.bind (json_get ''repository'' (job_spec job)) json_as_str of
        None \<Rightarrow> False
      | Some repository \<Rightarrow> repository \<in> pr_repositories prin
          \<and> app_repositories app repository = Some (h_host (job_handle job)))"

definition deployment_target_allowed :: "serde \<Rightarrow> App \<Rightarrow> Principal \<Rightarrow> JobRecord \<Rightarrow> bool" where
  "deployment_target_allowed serde app prin job =
     (case sd_job_spec_of serde (job_spec job) of
        None \<Rightarrow> False
      | Some spec \<Rightarrow>
          (case app_deployments app (pl_deployment_profile (dj_plan spec)) of
             None \<Rightarrow> False
           | Some deployment \<Rightarrow>
               let expected_host = (case dj_action spec of
                     Prepare \<Rightarrow> df_builder_host deployment | Build \<Rightarrow> df_builder_host deployment
                   | _ \<Rightarrow> df_target_host deployment) in
               df_name deployment \<in> pr_deployments prin \<and> df_repository deployment \<in> pr_repositories prin
               \<and> df_repository deployment = pl_repository (dj_plan spec)
               \<and> df_target_host deployment = pl_target_host (dj_plan spec)
               \<and> df_kind deployment = pl_kind (dj_plan spec)
               \<and> df_flake_attribute deployment = pl_flake_attribute (dj_plan spec)
               \<and> expected_host = h_host (job_handle job)))"

definition dispatch_authorized :: "serde \<Rightarrow> App \<Rightarrow> JobRecord \<Rightarrow> bool" where
  "dispatch_authorized serde app job \<longleftrightarrow>
     (\<exists>prin \<in> set (app_clients app).
        pr_name prin = job_principal job \<and> pr_access prin = ManageAccess
        \<and> (case find (\<lambda>operation. op_name operation = h_operation (job_handle job)) operations of
             None \<Rightarrow> False
           | Some operation \<Rightarrow> op_capability operation \<in> pr_capabilities prin)
        \<and> h_host (job_handle job) \<in> pr_hosts prin
        \<and> (starts_with (h_operation (job_handle job)) ''units.'' \<longrightarrow> unit_target_allowed serde app job)
        \<and> (starts_with (h_operation (job_handle job)) ''workspace.'' \<longrightarrow> repository_target_allowed app prin job)
        \<and> (starts_with (h_operation (job_handle job)) ''deploy.'' \<longrightarrow> deployment_target_allowed serde app prin job))"

definition submit_request :: "JobRecord \<Rightarrow> ExecutorRequest" where
  "submit_request job =
     ReqSubmit (h_job_id (job_handle job))
       \<lparr>nj_principal = job_principal job, nj_host = h_host (job_handle job),
        nj_operation = h_operation (job_handle job), nj_spec_version = job_spec_version job,
        nj_spec = job_spec job, nj_policy_version = job_policy_version job, nj_deadline = job_deadline job\<rparr>"

text \<open>
  The identifier of a workflow's child: a hash of the parent and the stage, cut into the shape of a
  UUID. \<open>hex_digest\<close> is the hexadecimal blake3 digest.
\<close>

definition stable_child_job_id :: "(string \<Rightarrow> string) \<Rightarrow> JobId \<Rightarrow> string \<Rightarrow> (JobId, string) result" where
  "stable_child_job_id hex_digest parent key =
     (let digest = hex_digest (job_id_str parent @ [CHR 0x00] @ key) in
      JobId_parse (take 8 digest @ ''-'' @ take 4 (drop 8 digest) @ ''-'' @ take 4 (drop 12 digest)
        @ ''-'' @ take 4 (drop 16 digest) @ ''-'' @ take 12 (drop 20 digest)))"

definition runtime_matches_plan :: "RuntimeStateResponse \<Rightarrow> ChangePlan \<Rightarrow> bool" where
  "runtime_matches_plan runtime plan \<longleftrightarrow>
     rs_host runtime = rb_host (pl_runtime_baseline plan)
     \<and> rs_deployment_profile runtime = rb_profile (pl_runtime_baseline plan)
     \<and> rs_running_closure runtime = rb_running_closure (pl_runtime_baseline plan)
     \<and> rs_persistent_profile runtime = rb_persistent_profile (pl_runtime_baseline plan)
     \<and> rs_generation runtime = rb_generation (pl_runtime_baseline plan)
     \<and> rs_boot_id runtime = rb_boot_id (pl_runtime_baseline plan)"

section \<open>Facts\<close>

lemma host_for_Ok: "host_for app prin name = Ok h \<longleftrightarrow> name \<in> pr_hosts prin \<and> app_hosts app name = Some h"
  by (cases "app_hosts app name") (auto simp: host_for_def)

lemma repository_host_Ok:
  "repository_host app prin repo = Ok h \<longleftrightarrow>
     repo \<in> pr_repositories prin \<and> app_repositories app repo = Some h \<and> h \<in> pr_hosts prin \<and> app_hosts app h \<noteq> None"
proof (cases "app_repositories app repo")
  case (Some x)
  have "(\<exists>y. host_for app prin x = Ok y) \<longleftrightarrow> x \<in> pr_hosts prin \<and> app_hosts app x \<noteq> None"
    by (auto simp: host_for_Ok)
  then show ?thesis using Some by (cases "host_for app prin x") (auto simp: repository_host_def)
qed (simp add: repository_host_def)

lemma deployment_for_Ok:
  "deployment_for app prin name = Ok d \<longleftrightarrow>
     name \<in> pr_deployments prin \<and> app_deployments app name = Some d
     \<and> (\<exists>h. repository_host app prin (df_repository d) = Ok h)
     \<and> df_target_host d \<in> pr_hosts prin \<and> app_hosts app (df_target_host d) \<noteq> None"
proof (cases "app_deployments app name")
  case (Some x)
  have t: "(\<exists>y. host_for app prin (df_target_host x) = Ok y) \<longleftrightarrow>
      df_target_host x \<in> pr_hosts prin \<and> app_hosts app (df_target_host x) \<noteq> None"
    by (auto simp: host_for_Ok)
  show ?thesis using Some t
    by (cases "repository_host app prin (df_repository x)"; cases "host_for app prin (df_target_host x)")
      (auto simp: deployment_for_def)
qed (simp add: deployment_for_def)

lemma idempotency_key_Ok:
  "idempotency_key hs = Ok key \<Longrightarrow>
     get_all ''idempotency-key'' hs = [key] \<and> key \<noteq> [] \<and> length key \<le> 128 \<and> list_all is_ascii_graphic key"
  by (cases "get_all ''idempotency-key'' hs")
    (auto simp: idempotency_key_def header_to_str_def split: if_splits)

end
