(* ===== verification/Hub_Jobs.thy ===== *)
theory Hub_Jobs
  imports Hub_Config
begin

text \<open>
  \<open>maxops-hub/src/lib.rs\<close>, jobs: the projection of executor reports onto the hub's job rows, jobs
  that the hub runs itself, dispatch to an executor and the monitoring loop.

  A handler is a function from the store to a store and a result. Handlers are written with
  \<open>sbind\<close>, the \<open>?\<close> operator on them; what happened before an error stays in the store.
\<close>

section \<open>Handlers\<close>

type_synonym ('a, 'e) handler = "store \<Rightarrow> store \<times> ('a, 'e) result"

definition sret :: "'a \<Rightarrow> ('a, 'e) handler" where
  "sret x = (\<lambda>s. (s, Ok x))"

definition sfail :: "'e \<Rightarrow> ('a, 'e) handler" where
  "sfail e = (\<lambda>s. (s, Err e))"

definition slift :: "('a, 'e) result \<Rightarrow> ('a, 'e) handler" where
  "slift r = (\<lambda>s. (s, r))"

definition sread :: "(store \<Rightarrow> ('a, 'e) result) \<Rightarrow> ('a, 'e) handler" where
  "sread f = (\<lambda>s. (s, f s))"

definition sbind :: "('a, 'e) handler \<Rightarrow> ('a \<Rightarrow> ('b, 'e) handler) \<Rightarrow> ('b, 'e) handler" where
  "sbind m f = (\<lambda>s. case m s of (s', Inl e) \<Rightarrow> (s', Inl e) | (s', Inr x) \<Rightarrow> f x s')"

definition smap_err :: "('e \<Rightarrow> 'f) \<Rightarrow> ('a, 'e) handler \<Rightarrow> ('a, 'f) handler" where
  "smap_err g m = (\<lambda>s. case m s of (s', r) \<Rightarrow> (s', map_err g r))"

text \<open>\<open>if let Ok(updated) = ...\<close>: a failure keeps the old value.\<close>

definition skeep :: "'a \<Rightarrow> ('a, 'e) handler \<Rightarrow> ('a, 'e) handler" where
  "skeep old m = (\<lambda>s. case m s of (s', Inr x) \<Rightarrow> (s', Ok x) | (s', Inl _) \<Rightarrow> (s', Ok old))"

section \<open>Projection of an executor's report\<close>

definition projection_payload :: "JobRecord \<Rightarrow> json" where
  "projection_payload target =
     JObject [(''source'', JString ''executor''), (''target_revision'', JNumber (PosInt (h_revision (job_handle target))))]"

definition same_target :: "JobRecord \<Rightarrow> JobRecord \<Rightarrow> bool" where
  "same_target current target \<longleftrightarrow>
     h_job_id (job_handle current) = h_job_id (job_handle target)
     \<and> h_host (job_handle current) = h_host (job_handle target)
     \<and> job_spec_hash current = job_spec_hash target"

definition project_to ::
  "timestamp \<Rightarrow> JobRecord \<Rightarrow> JobState \<Rightarrow> JobRecord \<Rightarrow> (JobRecord, store_error) handler" where
  "project_to now current st target =
     transition_job now (h_job_id (job_handle current)) (h_revision (job_handle current)) st
       (projection_payload target) (job_result target)"

definition project_target_job :: "timestamp \<Rightarrow> JobRecord \<Rightarrow> JobRecord \<Rightarrow> (JobRecord, store_error) handler" where
  "project_target_job now current target =
     (if \<not> same_target current target then sfail (Report ''executor job identity mismatch'')
      else if h_state (job_handle current) = h_state (job_handle target) then sret current
      else sbind
        (if h_state (job_handle target) = OutcomeUnknown
            \<and> \<not> JobState_can_transition_to (h_state (job_handle current)) OutcomeUnknown
            \<and> JobState_can_transition_to (h_state (job_handle current)) Reconciling
         then project_to now current Reconciling target
         else sret current) (\<lambda>current.
        if \<not> JobState_can_transition_to (h_state (job_handle current)) (h_state (job_handle target))
        then sret current
        else project_to now current (h_state (job_handle target)) target))"

section \<open>Local jobs\<close>

definition hub_payload :: json where
  "hub_payload = JObject [(''executor'', JString ''hub'')]"

definition local_step :: "timestamp \<Rightarrow> JobState \<Rightarrow> JobState \<Rightarrow> JobRecord \<Rightarrow> (JobRecord, store_error) handler" where
  "local_step now from next job =
     (if h_state (job_handle job) = from
      then transition_job now (h_job_id (job_handle job)) (h_revision (job_handle job)) next hub_payload None
      else sret job)"

definition enter_local_job :: "timestamp \<Rightarrow> JobRecord \<Rightarrow> (JobRecord, store_error) handler" where
  "enter_local_job now job =
     sbind (local_step now Queued Dispatching job) (\<lambda>job.
     sbind (local_step now Dispatching Running job) (\<lambda>job.
     if h_state (job_handle job) = Running then sret job
     else sfail (Report ''local job is not runnable'')))"

definition fail_local_job :: "timestamp \<Rightarrow> App \<Rightarrow> JobId \<Rightarrow> string \<Rightarrow> store \<Rightarrow> store" where
  "fail_local_job now app jid code s =
     (if \<not> app_store app then s
      else case get_job jid s of
        Inl _ \<Rightarrow> s
      | Inr job \<Rightarrow>
          if \<not> JobState_is_terminal (h_state (job_handle job))
             \<and> JobState_can_transition_to (h_state (job_handle job)) Failed
          then fst (transition_job now jid (h_revision (job_handle job)) Failed
                 (JObject [(''code'', JString code)]) (Some (JObject [(''error'', JString code)])) s)
          else s)"

text \<open>\<open>remediation_json\<close> writes the answer (serde).\<close>

definition run_remediation_begin ::
  "(timestamp \<Rightarrow> string) \<Rightarrow> (timestamp \<Rightarrow> int) \<Rightarrow> serde \<Rightarrow>
   (RemediationRecord \<Rightarrow> json) \<Rightarrow> timestamp \<Rightarrow> string \<Rightarrow> string \<Rightarrow> App \<Rightarrow> JobRecord \<Rightarrow>
   (unit, store_error) handler" where
  "run_remediation_begin ts_text as_second serde remediation_json now fresh_remediation fresh_event app job =
     (if \<not> dispatch_authorized serde app job then sfail (Report ''authorization removed'')
      else if \<not> app_store app then sfail (Report ''store disabled'')
      else sbind (enter_local_job now job) (\<lambda>job.
        sbind (slift (ok_or (Report ''invalid remediation claim'') (sd_remediation_begin_of serde (job_spec job)))) (\<lambda>params.
        sbind (begin_remediation ts_text as_second now fresh_remediation fresh_event (rbp_event_id params) (rbp_host params)
                (job_principal job) (h_job_id (job_handle job))
                (app_max_attempts_per_episode app) (app_cooldown_seconds app)) (\<lambda>remediation.
        sbind (transition_job now (h_job_id (job_handle job)) (h_revision (job_handle job)) Succeeded
                (JObject [(''remediation_id'', JString (remediation_id_str (rm_remediation_id remediation)))])
                (Some (JObject [(''remediation'', remediation_json remediation)]))) (\<lambda>_.
        sret ())))))"

section \<open>Dispatch\<close>

definition settled_for_monitor :: "JobRecord \<Rightarrow> bool" where
  "settled_for_monitor job \<longleftrightarrow>
     JobState_is_terminal (h_state (job_handle job))
     \<and> (h_state (job_handle job) \<noteq> OutcomeUnknown \<or> starts_with (h_operation (job_handle job)) ''units.'')"

text \<open>
  One round of \<open>monitor_target\<close>: \<open>True\<close> when the loop returns, \<open>False\<close> when it sleeps and goes on.
  A round whose status query fails sends the submission again.
\<close>

definition monitor_round :: "serde \<Rightarrow> timestamp \<Rightarrow> App \<Rightarrow> agent \<Rightarrow> JobId \<Rightarrow> (bool, store_error) handler" where
  "monitor_round serde now app agent jid =
     (if \<not> app_store app then sfail (Report ''store disabled'')
      else sbind (sread (get_job jid)) (\<lambda>current.
        if settled_for_monitor current then sret True
        else case agent_request app agent (h_host (job_handle current)) (ReqStatus jid) of
          Inr (RespJob target) \<Rightarrow>
            sbind (project_target_job now current target) (\<lambda>updated. sret (settled_for_monitor updated))
        | Inr _ \<Rightarrow> sfail (Report ''invalid executor response'')
        | Inl _ \<Rightarrow>
            if h_state (job_handle current) \<in> {Dispatching, Reconciling} \<and> dispatch_authorized serde app current
            then case agent_request app agent (h_host (job_handle current)) (submit_request current) of
              Inr (RespJob target) \<Rightarrow>
                sbind (project_target_job now current target) (\<lambda>updated. sret (settled_for_monitor updated))
            | Inr _ \<Rightarrow> sfail (Report ''invalid executor response'')
            | Inl _ \<Rightarrow> sret False
            else sret False))"

text \<open>
  \<open>dispatch\<close> up to the monitoring loop: \<open>True\<close> when the loop is entered.
\<close>

definition dispatch :: "serde \<Rightarrow> timestamp \<Rightarrow> App \<Rightarrow> agent \<Rightarrow> JobId \<Rightarrow> (bool, store_error) handler" where
  "dispatch serde now app agent jid =
     (if \<not> app_store app then sfail (Report ''store disabled'')
      else sbind (sread (get_job jid)) (\<lambda>job.
        if \<not> dispatch_authorized serde app job then
          (if h_state (job_handle job) = Queued
           then sbind (transition_job now jid (h_revision (job_handle job)) Cancelled
                  (JObject [(''reason'', JString ''authorization no longer permits dispatch'')])
                  (Some (JObject [(''started'', JBool False), (''cancelled'', JBool True)]))) (\<lambda>_. sret False)
           else sret False)
        else if h_state (job_handle job) = Running then sret True
        else sbind
          (if h_state (job_handle job) = Queued
           then transition_job now jid (h_revision (job_handle job)) Dispatching
                  (JObject [(''target'', JString (h_host (job_handle job)))]) None
           else sret job) (\<lambda>job.
          sbind
            (case agent_request app agent (h_host (job_handle job)) (submit_request job) of
               Inr (RespJob target) \<Rightarrow> project_target_job now job target
             | Inr _ \<Rightarrow> sfail (Report ''invalid executor response'')
             | Inl _ \<Rightarrow>
                 if h_state (job_handle job) \<noteq> Reconciling
                    \<and> JobState_can_transition_to (h_state (job_handle job)) Reconciling
                 then skeep job (transition_job now jid (h_revision (job_handle job)) Reconciling
                        (JObject [(''reason'', JString ''dispatch acknowledgement unavailable'')]) None)
                 else sret job) (\<lambda>job.
          sret (\<not> JobState_is_terminal (h_state (job_handle job)))))))"

section \<open>Handlers and what they keep\<close>

text \<open>
  A relation between the store before and after, reflexive and transitive, holds for a handler as
  soon as it holds for the operations the handler calls.
\<close>

named_theorems handler_intros \<open>handlers keep a relation that their operations keep\<close>

locale handler_frame =
  fixes R :: "store \<Rightarrow> store \<Rightarrow> bool"
  assumes R_refl: "R s s"
    and R_trans: "R s s' \<Longrightarrow> R s' s'' \<Longrightarrow> R s s''"
begin

definition keeps :: "('a, 'e) handler \<Rightarrow> bool" where
  "keeps m \<longleftrightarrow> (\<forall>s. R s (fst (m s)))"

lemma keepsD: "keeps m \<Longrightarrow> m s = (s', r) \<Longrightarrow> R s s'"
  unfolding keeps_def by (metis fst_conv)

lemma keepsI: "(\<And>s s' r. m s = (s', r) \<Longrightarrow> R s s') \<Longrightarrow> keeps m"
  unfolding keeps_def by (metis prod.collapse)

lemma keeps_pure [handler_intros]: "keeps (sret x)" "keeps (sfail e)" "keeps (slift r)" "keeps (sread f)"
  by (simp_all add: keeps_def sret_def sfail_def slift_def sread_def R_refl)

lemma keeps_sbind [handler_intros]:
  assumes "keeps m" and "\<And>x. keeps (f x)"
  shows "keeps (sbind m f)"
proof (rule keepsI)
  fix s s' r assume "sbind m f s = (s', r)"
  moreover obtain s1 r1 where m: "m s = (s1, r1)" by fastforce
  moreover have "R s s1" using keepsD[OF assms(1) m] .
  ultimately show "R s s'"
    by (cases r1) (auto simp: sbind_def dest: keepsD[OF assms(2)] intro: R_trans)
qed

lemma keeps_sbind_slift:
  "(\<And>x. r = Ok x \<Longrightarrow> keeps (f x)) \<Longrightarrow> keeps (sbind (slift r) f)"
  by (cases r) (simp_all add: keeps_def sbind_def slift_def R_refl)

lemma keeps_smap_err [handler_intros]: "keeps m \<Longrightarrow> keeps (smap_err g m)"
  by (simp add: keeps_def smap_err_def case_prod_beta)

lemma keeps_skeep [handler_intros]: "keeps m \<Longrightarrow> keeps (skeep x m)"
  by (auto simp: skeep_def intro!: keepsI split: prod.splits sum.splits dest: keepsD)

lemma keeps_if [handler_intros]: "keeps m \<Longrightarrow> keeps m' \<Longrightarrow> keeps (if b then m else m')"
  by simp

lemma keeps_option [handler_intros]: "keeps m \<Longrightarrow> (\<And>x. keeps (f x)) \<Longrightarrow> keeps (case_option m f r)"
  by (cases r) simp_all

lemma keeps_sum [handler_intros]: "(\<And>e. keeps (f e)) \<Longrightarrow> (\<And>x. keeps (g x)) \<Longrightarrow> keeps (case_sum f g r)"
  by (cases r) simp_all

lemma keeps_prod [handler_intros]: "(\<And>x y. keeps (f x y)) \<Longrightarrow> keeps (case_prod f p)"
  by (cases p) simp

lemma keeps_response [handler_intros]:
  "(\<And>x. keeps (f x)) \<Longrightarrow> (\<And>x. keeps (g x)) \<Longrightarrow> (\<And>x. keeps (h x)) \<Longrightarrow> (\<And>x. keeps (k x)) \<Longrightarrow> (\<And>x. keeps (m x)) \<Longrightarrow> (\<And>x. keeps (n x)) \<Longrightarrow>
   keeps (case_ExecutorResponse f g h k m n r)"
  by (cases r) simp_all

text \<open>A handler that looks at the result of another one, and only answers.\<close>

lemma keeps_answer [handler_intros]:
  "keeps m \<Longrightarrow> keeps (\<lambda>s. case m s of (s', Inr x) \<Rightarrow> (s', f s' x) | (s', Inl e) \<Rightarrow> (s', g s' e))"
  by (auto intro!: keepsI split: prod.splits sum.splits dest: keepsD)

end

text \<open>
  Every handler only calls operations of the store: whatever it does is a run, so everything that
  holds along the runs of the store holds for the hub.
\<close>

lemma steps_refl [simp, intro]: "steps digest ts_text as_second ts_add s s"
  by (simp add: steps_def)

lemma steps_trans:
  "steps digest ts_text as_second ts_add s s' \<Longrightarrow> steps digest ts_text as_second ts_add s' s'' \<Longrightarrow>
   steps digest ts_text as_second ts_add s s''"
  by (simp add: steps_def)

lemma step_steps: "store_step digest ts_text as_second ts_add s s' \<Longrightarrow> steps digest ts_text as_second ts_add s s'"
  by (simp add: steps_def)

interpretation run: handler_frame "steps digest ts_text as_second ts_add" for digest ts_text as_second ts_add
  by unfold_locales (auto intro: steps_trans)

lemma run_transition [handler_intros]: "run.keeps digest ts_text as_second ts_add (transition_job now jid n nx p r)"
  by (intro run.keepsI step_steps) (rule store_step.transition)

lemma run_cancel [handler_intros]: "run.keeps digest ts_text as_second ts_add (request_cancel now jid n r)"
  by (intro run.keepsI step_steps) (rule store_step.cancel)

lemma run_transition_change [handler_intros]: "run.keeps digest ts_text as_second ts_add (transition_change now cid c u)"
  by (intro run.keepsI step_steps) (rule store_step.transition_change)

lemma run_submit [handler_intros]:
  "nj_spec_version new \<le> u32_max \<Longrightarrow> uuid_text (job_id_str jid) \<Longrightarrow>
   run.keeps digest ts_text as_second ts_add (submit_linked_job digest now key jid new link)"
  by (intro run.keepsI step_steps) (rule store_step.submit)

lemma run_begin_remediation [handler_intros]:
  "max_attempts \<le> u16_max \<Longrightarrow> uuid_text (job_id_str jid) \<Longrightarrow>
   run.keeps digest ts_text as_second ts_add
     (begin_remediation ts_text as_second now fresh_remediation fresh_event eid host prin jid max_attempts cooldown)"
  by (intro run.keepsI step_steps) (rule store_step.begin_remediation)

text \<open>Handlers that only move jobs that exist: they create none and touch no change.\<close>

definition jobs_moved :: "store \<Rightarrow> store \<Rightarrow> bool" where
  "jobs_moved s s' \<longleftrightarrow> (jobs_inv s \<longrightarrow>
     jobs_inv s' \<and> st_changes s' = st_changes s \<and> map jr_id (st_jobs s') = map jr_id (st_jobs s))"

interpretation moved: handler_frame jobs_moved
  by unfold_locales (auto simp: jobs_moved_def)

lemma moved_transition [handler_intros]: "moved.keeps (transition_job now jid n nx p r)"
proof (rule moved.keepsI)
  fix s s' res assume run: "transition_job now jid n nx p r s = (s', res)"
  show "jobs_moved s s'"
    unfolding jobs_moved_def
  proof
    assume inv: "jobs_inv s"
    have "st_changes s' = st_changes s \<and> map jr_id (st_jobs s') = map jr_id (st_jobs s)"
      using run inv
    proof (cases rule: transition_cases)
      case (step row cur)
      then show ?thesis by (simp add: append_job_event_def update_where_def transitioned_row_def)
    qed simp
    with transition_preserves_jobs_inv[OF run inv]
    show "jobs_inv s' \<and> st_changes s' = st_changes s \<and> map jr_id (st_jobs s') = map jr_id (st_jobs s)" by simp
  qed
qed

lemma moved_project [handler_intros]: "moved.keeps (project_target_job now current target)"
  unfolding project_target_job_def project_to_def by (intro handler_intros)

lemma run_project [handler_intros]: "run.keeps digest ts_text as_second ts_add (project_target_job now current target)"
  unfolding project_target_job_def project_to_def by (intro handler_intros)

lemma run_enter_local [handler_intros]: "run.keeps digest ts_text as_second ts_add (enter_local_job now job)"
  unfolding enter_local_job_def local_step_def by (intro handler_intros)

lemma moved_enter_local [handler_intros]: "moved.keeps (enter_local_job now job)"
  unfolding enter_local_job_def local_step_def by (intro handler_intros)

lemma run_monitor: "run.keeps digest ts_text as_second ts_add (monitor_round serde now app agent jid)"
  unfolding monitor_round_def by (intro handler_intros)

lemma moved_monitor: "moved.keeps (monitor_round serde now app agent jid)"
  unfolding monitor_round_def by (intro handler_intros)

lemma run_dispatch: "run.keeps digest ts_text as_second ts_add (dispatch serde now app agent jid)"
  unfolding dispatch_def by (intro handler_intros)

lemma moved_dispatch: "moved.keeps (dispatch serde now app agent jid)"
  unfolding dispatch_def by (intro handler_intros)

end
