(* ===== verification/Hub_Changes.thy ===== *)
theory Hub_Changes
  imports Hub_Jobs
begin

text \<open>
  \<open>maxops-hub/src/lib.rs\<close>, deployment changes: what the hub asks executors about source and runtime,
  the projection of stage reports onto a change, the submission of stages, and the preparation of a
  change. The time is read once per handler (\<open>now\<close>).
\<close>

section \<open>Questions to executors\<close>

definition repository_head ::
  "App \<Rightarrow> agent \<Rightarrow> Principal \<Rightarrow> string \<Rightarrow> string \<Rightarrow> (RepositoryHeadResponse, ApiError) result" where
  "repository_head app agent prin repository reference =
     rbind (repository_host app prin repository) (\<lambda>host.
     rbind (map_err (\<lambda>_. ApiError 503 ''repository executor unavailable'')
             (agent_request app agent host (ReqRepositoryHead (pr_name prin) repository reference))) (\<lambda>response.
     case response of
       RespRepositoryHead r \<Rightarrow>
         if hd_repository r \<noteq> repository \<or> hd_reference r \<noteq> reference
         then Err (ApiError 502 ''repository observation identity mismatch'')
         else Ok r
     | _ \<Rightarrow> Err (ApiError 502 ''invalid executor response'')))"

definition runtime_state ::
  "(timestamp \<Rightarrow> int) \<Rightarrow> timestamp \<Rightarrow> App \<Rightarrow> agent \<Rightarrow> Principal \<Rightarrow> DeploymentConfig \<Rightarrow>
   (RuntimeStateResponse, ApiError) result" where
  "runtime_state as_second now app agent prin deployment =
     rbind (host_for app prin (df_target_host deployment)) (\<lambda>_.
     rbind (map_err (\<lambda>_. ApiError 503 ''target executor unavailable'')
             (agent_request app agent (df_target_host deployment)
               (ReqRuntimeState (pr_name prin) (df_name deployment)))) (\<lambda>response.
     case response of
       RespRuntimeState r \<Rightarrow>
         if rs_host r \<noteq> df_target_host deployment \<or> rs_deployment_profile r \<noteq> df_name deployment
            \<or> as_second (rs_observed_at r) > as_second now + 30
            \<or> as_second now - as_second (rs_observed_at r) > 90
         then Err (ApiError 502 ''runtime observation identity mismatch'')
         else Ok r
     | _ \<Rightarrow> Err (ApiError 502 ''invalid executor response'')))"

definition forward_workspace ::
  "App \<Rightarrow> agent \<Rightarrow> Principal \<Rightarrow> string \<Rightarrow> WorkspaceTargetRequest \<Rightarrow> (WorkspaceTargetResponse, ApiError) result" where
  "forward_workspace app agent prin repository request =
     rbind (repository_host app prin repository) (\<lambda>host.
     rbind (map_err map_workspace_upstream_error
             (agent_request app agent host (ReqWorkspace (pr_name prin) request))) (\<lambda>response.
     case response of
       RespWorkspace r \<Rightarrow> Ok r
     | _ \<Rightarrow> Err (ApiError 502 ''invalid executor response'')))"

section \<open>Projection of stage reports\<close>

definition change_update :: "ChangeRecord \<Rightarrow> ChangeState \<Rightarrow> string option \<Rightarrow> ChangeTransition" where
  "change_update change next recovery =
     \<lparr>ct_expected_revision = ch_revision change, ct_next = next, ct_plan = ch_plan change,
      ct_artifact = ch_artifact change, ct_jobs = ch_jobs change,
      ct_recovery_state = (case recovery of None \<Rightarrow> ch_recovery_state change | Some r \<Rightarrow> Some r)\<rparr>"

definition transition_change_state ::
  "timestamp \<Rightarrow> ChangeRecord \<Rightarrow> ChangeState \<Rightarrow> string option \<Rightarrow> (ChangeRecord, ApiError) handler" where
  "transition_change_state now change next recovery =
     smap_err map_store_error
       (transition_change now (pl_change_id (ch_plan change)) (ch_creator change) (change_update change next recovery))"

text \<open>The job of the stage a change is in, and the action its report must name.\<close>

definition stage_job :: "ChangeRecord \<Rightarrow> JobId option" where
  "stage_job change =
     (case ch_state change of
        Checking \<Rightarrow> cj_prepare (ch_jobs change)
      | Building \<Rightarrow> cj_build (ch_jobs change)
      | Publishing \<Rightarrow> cj_build (ch_jobs change)
      | Activating \<Rightarrow> cj_activate (ch_jobs change)
      | Verifying \<Rightarrow> cj_verify (ch_jobs change)
      | Recovering \<Rightarrow> cj_rollback (ch_jobs change)
      | _ \<Rightarrow> None)"

definition expected_action :: "ChangeState \<Rightarrow> DeploymentAction option" where
  "expected_action st =
     (case st of
        Checking \<Rightarrow> Some Prepare
      | Building \<Rightarrow> Some Build
      | Publishing \<Rightarrow> Some Build
      | Activating \<Rightarrow> Some Activate
      | Verifying \<Rightarrow> Some Verify
      | Recovering \<Rightarrow> Some Rollback
      | _ \<Rightarrow> None)"

definition job_report :: "serde \<Rightarrow> JobRecord \<Rightarrow> DeploymentReport option" where
  "job_report serde job =
     Option.bind (job_result job) (\<lambda>value.
     Option.bind (json_get ''deployment'' value) (\<lambda>d.
     if d = JNull then None else sd_report_of serde d))"

text \<open>
  The state a report leads to, together with the change as the report completes it: the derivation
  and lock of a prepared plan, the artifact of a build.
\<close>

definition apply_report :: "JobRecord \<Rightarrow> DeploymentReport \<Rightarrow> ChangeRecord \<Rightarrow> ChangeRecord \<times> ChangeState" where
  "apply_report job report change =
     (case rp_status report of
        RPrepared \<Rightarrow>
          (let change' = change\<lparr>ch_plan := (ch_plan change)
                 \<lparr>pl_drv_path := rp_drv_path report, pl_lock_digest := rp_lock_digest report\<rparr>\<rparr> in
           (change', if rp_drv_path report = None \<or> rp_lock_digest report = None then ChFailed else Prepared))
      | RBuilt \<Rightarrow>
          (case (rp_out_path report, pl_drv_path (ch_plan change), pl_lock_digest (ch_plan change)) of
             (Some out_path, Some drv_path, Some lock_digest) \<Rightarrow>
               (change\<lparr>ch_artifact := Some
                  \<lparr>ar_builder_host = h_host (job_handle job), ar_source_commit = pl_source_commit (ch_plan change),
                   ar_tree_hash = pl_tree_hash (ch_plan change), ar_lock_digest = lock_digest,
                   ar_drv_path = drv_path, ar_out_path = out_path, ar_built_at = rp_completed_at report\<rparr>\<rparr>, Ready)
           | _ \<Rightarrow> (change, ChFailed))
      | RActivated \<Rightarrow> (change, Verifying)
      | RVerified \<Rightarrow> (change, ChSucceeded)
      | RRolledBack \<Rightarrow> (change, RolledBack)
      | RStale \<Rightarrow> (change, Stale)
      | RSuperseded \<Rightarrow> (change, Superseded)
      | RRecoveryFailed \<Rightarrow> (change, RecoveryFailed)
      | ROutcomeUnknown \<Rightarrow> (change, ChOutcomeUnknown)
      | RFailed \<Rightarrow> (change, if ch_state change = Recovering then RecoveryFailed else ChFailed))"

definition report_recovery :: "DeploymentReport \<Rightarrow> string option" where
  "report_recovery report =
     (if rp_status report \<in> {RRolledBack, RRecoveryFailed, RSuperseded} then Some (rp_detail report) else None)"

text \<open>The state of a change whose stage ended without a usable report.\<close>

definition missing_report_state :: "JobRecord \<Rightarrow> ChangeRecord \<Rightarrow> ChangeState" where
  "missing_report_state job change =
     (if h_state (job_handle job) = OutcomeUnknown then ChOutcomeUnknown
      else if ch_state change = Recovering then RecoveryFailed
      else ChFailed)"

definition store_report ::
  "timestamp \<Rightarrow> Principal \<Rightarrow> ChangeRecord \<Rightarrow> ChangeState \<Rightarrow> DeploymentReport \<Rightarrow> (ChangeRecord, ApiError) handler" where
  "store_report now prin change next report = (\<lambda>s.
     case transition_change now (pl_change_id (ch_plan change)) (pr_name prin)
            (change_update change next (report_recovery report)) s of
       (s', Inr updated) \<Rightarrow> (s', Ok updated)
     | (s', Inl e) \<Rightarrow>
         (s', if str_contains (error_text e) ''revision changed'' then Ok change else Err (map_store_error e)))"

definition finish_stage ::
  "serde \<Rightarrow> timestamp \<Rightarrow> Principal \<Rightarrow> ChangeRecord \<Rightarrow> JobRecord \<Rightarrow> (ChangeRecord, ApiError) handler" where
  "finish_stage serde now prin change job =
     (if \<not> JobState_is_terminal (h_state (job_handle job)) then sret change
      else case expected_action (ch_state change) of
        None \<Rightarrow> sret change
      | Some action \<Rightarrow>
          (case job_report serde job of
             Some report \<Rightarrow>
               if rp_action report = action
               then (case apply_report job report change of (change', next) \<Rightarrow> store_report now prin change' next report)
               else transition_change_state now change (missing_report_state job change)
                      (Some ''stage ended without a deployment report'')
           | None \<Rightarrow> transition_change_state now change (missing_report_state job change)
                      (Some ''stage ended without a deployment report'')))"

definition refresh_change ::
  "serde \<Rightarrow> timestamp \<Rightarrow> App \<Rightarrow> agent \<Rightarrow> Principal \<Rightarrow> ChangeId \<Rightarrow> (ChangeRecord, ApiError) handler" where
  "refresh_change serde now app agent prin cid =
     sbind (slift (durable_store app)) (\<lambda>_.
     sbind (smap_err map_store_error (sread (get_owned_change (pr_name prin) cid))) (\<lambda>change.
     sbind (slift (deployment_for app prin (pl_deployment_profile (ch_plan change)))) (\<lambda>_.
     case stage_job change of
       None \<Rightarrow> sret change
     | Some job_id \<Rightarrow>
         sbind (smap_err map_store_error (sread (get_owned_job (pr_name prin) job_id))) (\<lambda>job.
         sbind
           (if \<not> JobState_is_terminal (h_state (job_handle job)) \<or> h_state (job_handle job) = OutcomeUnknown
            then case agent_request app agent (h_host (job_handle job)) (ReqStatus job_id) of
              Inr (RespJob target) \<Rightarrow> smap_err map_store_error (project_target_job now job target)
            | _ \<Rightarrow> sret job
            else sret job) (\<lambda>job.
         finish_stage serde now prin change job)))))"

section \<open>Stages\<close>

text \<open>The states that allow a stage, the state it leads to, its operation, host and time limit.\<close>

definition stage_rule ::
  "DeploymentConfig \<Rightarrow> DeploymentAction \<Rightarrow> (ChangeState list \<times> ChangeState \<times> string \<times> string \<times> nat, ApiError) result" where
  "stage_rule deployment action =
     (case action of
        Build \<Rightarrow> Ok ([Prepared], Building, ''deploy.build'', df_builder_host deployment, 7200)
      | Activate \<Rightarrow> Ok ([Ready], Activating, ''deploy.activate'', df_target_host deployment, 900)
      | Verify \<Rightarrow> Ok ([Verifying], Verifying, ''deploy.verify'', df_target_host deployment, 900)
      | Rollback \<Rightarrow> Ok ([Verifying, ChSucceeded], Recovering, ''deploy.rollback'', df_target_host deployment, 900)
      | Prepare \<Rightarrow> Err (ApiError 400 ''invalid deployment stage''))"

text \<open>The last look before activation: the plan is fresh, and source and runtime are as planned.\<close>

definition check_activation ::
  "(timestamp \<Rightarrow> int) \<Rightarrow> timestamp \<Rightarrow> App \<Rightarrow> agent \<Rightarrow> Principal \<Rightarrow> DeploymentConfig \<Rightarrow> ChangeRecord \<Rightarrow>
   (unit, ApiError) handler" where
  "check_activation as_second now app agent prin deployment change =
     (if as_second (pl_expires_at (ch_plan change)) < as_second now
      then sbind (transition_change_state now change Stale (Some ''deployment plan expired'')) (\<lambda>_.
             sfail (ApiError 409 ''deployment plan expired''))
      else
        sbind (slift (repository_head app agent prin (pl_repository (ch_plan change))
                (pl_source_reference (ch_plan change)))) (\<lambda>source.
        sbind (slift (runtime_state as_second now app agent prin deployment)) (\<lambda>runtime.
        if hd_commit source \<noteq> pl_source_remote_head (ch_plan change) \<or> \<not> runtime_matches_plan runtime (ch_plan change)
        then sbind (transition_change_state now change Stale
                 (Some ''source or runtime baseline changed before activation'')) (\<lambda>_.
               sfail (ApiError 409 ''deployment baseline changed''))
        else sret ())))"

text \<open>A retry under a used key answers with the job it belongs to, or refuses it.\<close>

definition replay_stage ::
  "serde \<Rightarrow> JobRecord \<Rightarrow> DeployChangeParams \<Rightarrow> DeploymentAction \<Rightarrow> (JobHandle, ApiError) result" where
  "replay_stage serde existing params action =
     (case sd_job_spec_of serde (job_spec existing) of
        None \<Rightarrow> Err (ApiError 409 ''idempotency key belongs to another request'')
      | Some spec \<Rightarrow>
          if h_operation (job_handle existing) \<noteq> operation_for_deployment action
             \<or> dj_action spec \<noteq> action \<or> pl_change_id (dj_plan spec) \<noteq> dc_change_id params
          then Err (ApiError 409 ''idempotency key belongs to another request'')
          else Ok (job_handle existing))"

definition submit_change_stage_owned ::
  "(json \<Rightarrow> string) \<Rightarrow> (string \<Rightarrow> string) \<Rightarrow> (timestamp \<Rightarrow> int) \<Rightarrow> (timestamp \<Rightarrow> nat \<Rightarrow> timestamp option) \<Rightarrow> serde \<Rightarrow>
   timestamp \<Rightarrow> JobId \<Rightarrow> App \<Rightarrow> agent \<Rightarrow> Principal \<Rightarrow> headers \<Rightarrow> DeployChangeParams \<Rightarrow> DeploymentAction \<Rightarrow> JobId option \<Rightarrow>
   (JobHandle, ApiError) handler" where
  "submit_change_stage_owned digest hex_digest as_second ts_add serde now fresh app agent prin hs params action workflow =
     sbind (slift (idempotency_key hs)) (\<lambda>key.
     sbind (slift (durable_store app)) (\<lambda>_.
     sbind (smap_err map_store_error (sread (get_idempotent_job (pr_name prin) key))) (\<lambda>found.
     case found of
       Some existing \<Rightarrow> slift (replay_stage serde existing params action)
     | None \<Rightarrow>
         sbind (refresh_change serde now app agent prin (dc_change_id params)) (\<lambda>change.
         if ch_revision change \<noteq> dc_expected_revision params then sfail (ApiError 409 ''change revision changed'')
         else
           sbind (slift (deployment_for app prin (pl_deployment_profile (ch_plan change)))) (\<lambda>deployment.
           sbind (slift (stage_rule deployment action)) (\<lambda>(required, next, operation, host, timeout).
           if ch_state change \<notin> set required then sfail (ApiError 409 ''change is not ready for this stage'')
           else
             sbind (if action = Activate then check_activation as_second now app agent prin deployment change
                    else sret ()) (\<lambda>_.
             sbind (slift (ok_or (ApiError 400 ''invalid job deadline'') (ts_add now timeout))) (\<lambda>deadline.
             sbind (slift (map_err (\<lambda>_. ApiError 500 ''digest produces a valid job ID'')
                     (case workflow of None \<Rightarrow> Ok fresh | Some parent \<Rightarrow> stable_child_job_id hex_digest parent operation))) (\<lambda>jid.
             sbind (smap_err map_store_error (submit_linked_job digest now key jid
                     \<lparr>nj_principal = pr_name prin, nj_host = host, nj_operation = operation, nj_spec_version = 1,
                      nj_spec = sd_job_spec serde \<lparr>dj_action = action, dj_plan = ch_plan change, dj_artifact = ch_artifact change\<rparr>,
                      nj_policy_version = pl_policy_version (ch_plan change), nj_deadline = Some deadline\<rparr>
                     (Some \<lparr>ln_change = change, ln_next = next, ln_action = Some action, ln_workflow = workflow\<rparr>))) (\<lambda>submitted.
             sret (job_handle (sub_job submitted))))))))))))"

definition submit_change_stage ::
  "(json \<Rightarrow> string) \<Rightarrow> (string \<Rightarrow> string) \<Rightarrow> (timestamp \<Rightarrow> int) \<Rightarrow> (timestamp \<Rightarrow> nat \<Rightarrow> timestamp option) \<Rightarrow> serde \<Rightarrow>
   timestamp \<Rightarrow> JobId \<Rightarrow> App \<Rightarrow> agent \<Rightarrow> Principal \<Rightarrow> headers \<Rightarrow> DeployChangeParams \<Rightarrow> DeploymentAction \<Rightarrow>
   (JobHandle, ApiError) handler" where
  "submit_change_stage digest hex_digest as_second ts_add serde now fresh app agent prin hs params action =
     submit_change_stage_owned digest hex_digest as_second ts_add serde now fresh app agent prin hs params action None"

end
