(* ===== verification/Hub_Workflow.thy ===== *)
theory Hub_Workflow
  imports Hub_Changes
begin

text \<open>
  \<open>maxops-hub/src/deployment_workflow.rs\<close>: the durable workflow \<open>deploy.run\<close> over the deployment
  stages. Its loops sleep between rounds, and other requests run in between; a round is one handler,
  and a run of the workflow is a sequence of rounds with any steps of the store between them.
\<close>

section \<open>Submission\<close>

definition workflow_submit ::
  "(json \<Rightarrow> string) \<Rightarrow> (timestamp \<Rightarrow> nat \<Rightarrow> timestamp option) \<Rightarrow> serde \<Rightarrow> timestamp \<Rightarrow> JobId \<Rightarrow> App \<Rightarrow> agent \<Rightarrow>
   Principal \<Rightarrow> headers \<Rightarrow> DeployRunParams \<Rightarrow> (JobHandle, ApiError) handler" where
  "workflow_submit digest ts_add serde now fresh app agent prin hs params =
     sbind (slift (durable_store app)) (\<lambda>_.
     sbind (slift (idempotency_key hs)) (\<lambda>key.
     sbind (smap_err map_store_error (sread (get_idempotent_job (pr_name prin) key))) (\<lambda>found.
     case found of
       Some job \<Rightarrow>
         if h_operation (job_handle job) \<noteq> ''deploy.run'' \<or> job_spec job \<noteq> sd_run serde params
         then sfail (ApiError 409 ''idempotency key conflicts with another request'')
         else sbind (slift (host_for app prin (h_host (job_handle job)))) (\<lambda>_. sret (job_handle job))
     | None \<Rightarrow>
         sbind (refresh_change serde now app agent prin (dn_change_id params)) (\<lambda>change.
         if ch_revision change \<noteq> dn_expected_revision params then sfail (ApiError 409 ''change revision changed'')
         else if ch_state change \<notin> {Prepared, Ready} then sfail (ApiError 409 ''change is not ready for this stage'')
         else
           sbind (slift (deployment_for app prin (pl_deployment_profile (ch_plan change)))) (\<lambda>deployment.
           sbind (slift (ok_or (ApiError 500 ''bounded deadline'') (ts_add now 12000))) (\<lambda>deadline.
           sbind (smap_err map_store_error (submit_linked_job digest now key fresh
                   \<lparr>nj_principal = pr_name prin, nj_host = df_target_host deployment, nj_operation = ''deploy.run'',
                    nj_spec_version = 1, nj_spec = sd_run serde params,
                    nj_policy_version = pl_policy_version (ch_plan change), nj_deadline = Some deadline\<rparr>
                   (Some \<lparr>ln_change = change, ln_next = ch_state change, ln_action = None, ln_workflow = None\<rparr>))) (\<lambda>submitted.
           sret (job_handle (sub_job submitted)))))))))"

section \<open>Finishing\<close>

definition active_child :: "ChangeRecord \<Rightarrow> JobId option" where
  "active_child change =
     (case ch_state change of
        Building \<Rightarrow> cj_build (ch_jobs change)
      | Publishing \<Rightarrow> cj_build (ch_jobs change)
      | Activating \<Rightarrow> cj_activate (ch_jobs change)
      | Verifying \<Rightarrow> cj_verify (ch_jobs change)
      | Recovering \<Rightarrow> cj_rollback (ch_jobs change)
      | _ \<Rightarrow> None)"

text \<open>
  One round of the loop of \<open>finish\<close>: \<open>True\<close> when it returns. An unknown outcome is reached through
  reconciliation; a queued workflow has done nothing and fails instead.
\<close>

definition finish_round :: "timestamp \<Rightarrow> JobId \<Rightarrow> JobState \<Rightarrow> json \<Rightarrow> (bool, store_error) handler" where
  "finish_round now jid state result =
     sbind (sread (get_job jid)) (\<lambda>job.
     if JobState_is_terminal (h_state (job_handle job)) then sret True
     else
       let state = (if state = OutcomeUnknown \<and> h_state (job_handle job) = Queued then Failed else state);
           next = (if state = OutcomeUnknown \<and> h_state (job_handle job) \<noteq> Reconciling then Reconciling else state) in
       (\<lambda>s. case transition_job now jid (h_revision (job_handle job)) next hub_payload
                  (if next = state then Some result else None) s of
              (s', Inr _) \<Rightarrow> (s', Ok (next = state))
            | (s', Inl e) \<Rightarrow>
                (s', if error_text e = ''job revision changed'' then Ok False else Err e)))"

text \<open>The loop; the first argument bounds its rounds, and two are enough (see below).\<close>

primrec finish :: "nat \<Rightarrow> timestamp \<Rightarrow> JobId \<Rightarrow> JobState \<Rightarrow> json \<Rightarrow> (unit, store_error) handler" where
  "finish 0 now jid state result = sfail (Report ''finish did not return'')"
| "finish (Suc n) now jid state result =
     sbind (finish_round now jid state result) (\<lambda>ended. if ended then sret () else finish n now jid state result)"

section \<open>The workflow\<close>

datatype round = Again | Finished

definition run_admission :: "App \<Rightarrow> JobRecord \<Rightarrow> (Principal, store_error) result" where
  "run_admission app job =
     rbind (ok_or (Report ''workflow principal revoked'')
             (find (\<lambda>p. pr_name p = job_principal job) (app_clients app))) (\<lambda>prin.
     if pr_access prin = ManageAccess \<and> ''deploy:manage'' \<in> pr_capabilities prin then Ok prin
     else Err (Report ''workflow capability revoked''))"

definition change_result :: "ChangeId \<Rightarrow> (string \<times> json) list \<Rightarrow> json" where
  "change_result cid extra = JObject ((''change_id'', JString (change_id_str cid)) # extra)"

text \<open>
  One round of the first loop, until the workflow is running: \<open>None\<close> when the whole run returns,
  \<open>Some Finished\<close> when the second loop starts.
\<close>

definition enter_round ::
  "timestamp \<Rightarrow> bool \<Rightarrow> JobId \<Rightarrow> DeployRunParams \<Rightarrow> (round option, store_error) handler" where
  "enter_round now expired jid params =
     sbind (sread (get_job jid)) (\<lambda>current.
     if JobState_is_terminal (h_state (job_handle current)) then sret None
     else if h_state (job_handle current) \<in> {Queued, Dispatching} \<and> (job_cancel_requested current \<or> expired)
     then sbind (finish 2 now jid (if job_cancel_requested current then Cancelled else TimedOut)
                  (change_result (dn_change_id params) [(''reversed'', JBool False)])) (\<lambda>_. sret None)
     else (\<lambda>s. case enter_local_job now current s of
                 (s', Inr _) \<Rightarrow> (s', Ok (Some Finished))
               | (s', Inl e) \<Rightarrow>
                   (s', if error_text e = ''job revision changed'' then Ok (Some Again) else Err e)))"

text \<open>The stage that the state of the change asks for.\<close>

definition next_stage :: "ChangeRecord \<Rightarrow> DeploymentAction option" where
  "next_stage change =
     (case ch_state change of
        Prepared \<Rightarrow> Some Build
      | Ready \<Rightarrow> Some Activate
      | Verifying \<Rightarrow> if cj_verify (ch_jobs change) = None then Some Verify else None
      | _ \<Rightarrow> None)"

text \<open>Stopping the child of a cancelled or expired workflow: \<open>Some\<close> ends the round.\<close>

definition stop_child ::
  "timestamp \<Rightarrow> bool \<Rightarrow> App \<Rightarrow> agent \<Rightarrow> Principal \<Rightarrow> JobId \<Rightarrow> DeployRunParams \<Rightarrow> JobId \<Rightarrow>
   (round option, store_error) handler" where
  "stop_child now expired app agent prin jid params child_id =
     sbind (sread (get_owned_job (pr_name prin) child_id)) (\<lambda>child.
     if JobState_is_terminal (h_state (job_handle child)) then sret None
     else
       sbind
         (case agent_request app agent (h_host (job_handle child)) (ReqStatus child_id) of
            Inr (RespJob target) \<Rightarrow>
              if \<not> JobState_is_terminal (h_state (job_handle target))
              then (case agent_request app agent (h_host (job_handle child))
                      (ReqCancel \<lparr>jc_job_id = child_id, jc_expected_revision = h_revision (job_handle target),
                         jc_reason = ''deployment workflow stopped''\<rparr>) of
                      Inr (RespJob target') \<Rightarrow> sbind (project_target_job now child target') (\<lambda>_. sret ())
                    | _ \<Rightarrow> sret ())
              else sbind (project_target_job now child target) (\<lambda>_. sret ())
          | _ \<Rightarrow> sret ()) (\<lambda>_.
       sbind (sread (get_job child_id)) (\<lambda>child.
       if \<not> JobState_is_terminal (h_state (job_handle child)) then
         (if expired
          then sbind (finish 2 now jid OutcomeUnknown
                 (change_result (dn_change_id params)
                   [(''child_job_id'', JString (job_id_str child_id)),
                    (''error'', JString ''child_cancellation_unconfirmed'')])) (\<lambda>_. sret (Some Finished))
          else sret (Some Again))
       else if h_state (job_handle child) = OutcomeUnknown
       then sbind (finish 2 now jid OutcomeUnknown
              (change_result (dn_change_id params) [(''child_job_id'', JString (job_id_str child_id))])) (\<lambda>_.
              sret (Some Finished))
       else sret None)))"

definition workflow_headers :: "JobId \<Rightarrow> DeploymentAction \<Rightarrow> headers" where
  "workflow_headers jid action =
     [(''idempotency-key'', ''workflow:'' @ job_id_str jid @ '':'' @ operation_for_deployment action)]"

text \<open>
  The submission of the next stage: a conflict or an unavailable executor is retried in the next
  round, any other refusal stops the workflow.
\<close>

definition submit_next_stage ::
  "(json \<Rightarrow> string) \<Rightarrow> (string \<Rightarrow> string) \<Rightarrow> (timestamp \<Rightarrow> int) \<Rightarrow> (timestamp \<Rightarrow> nat \<Rightarrow> timestamp option) \<Rightarrow> serde \<Rightarrow>
   timestamp \<Rightarrow> JobId \<Rightarrow> App \<Rightarrow> agent \<Rightarrow> Principal \<Rightarrow> JobId \<Rightarrow> DeployRunParams \<Rightarrow> ChangeRecord \<Rightarrow>
   (round, store_error) handler" where
  "submit_next_stage digest hex_digest as_second ts_add serde now fresh app agent prin jid params change =
     (case next_stage change of
        None \<Rightarrow> sret Again
      | Some action \<Rightarrow> (\<lambda>s.
          case submit_change_stage_owned digest hex_digest as_second ts_add serde now fresh app agent prin
                 (workflow_headers jid action)
                 \<lparr>dc_change_id = dn_change_id params, dc_expected_revision = ch_revision change\<rparr> action (Some jid) s of
            (s', Inr _) \<Rightarrow> (s', Ok Again)
          | (s', Inl e) \<Rightarrow>
              (s', if api_status e = 409 \<or> is_server_error (api_status e) then Ok Again
                   else Err (Report ''workflow stage rejected''))))"

text \<open>What a round does once it has the change: \<open>change_json\<close> writes the evidence fields (serde).\<close>

definition decide_round ::
  "(json \<Rightarrow> string) \<Rightarrow> (string \<Rightarrow> string) \<Rightarrow> (timestamp \<Rightarrow> int) \<Rightarrow> (timestamp \<Rightarrow> nat \<Rightarrow> timestamp option) \<Rightarrow> serde \<Rightarrow>
   (ChangeRecord \<Rightarrow> (string \<times> json) list) \<Rightarrow> timestamp \<Rightarrow> bool \<Rightarrow> JobId \<Rightarrow> App \<Rightarrow> agent \<Rightarrow> Principal \<Rightarrow> JobId \<Rightarrow>
   DeployRunParams \<Rightarrow> JobRecord \<Rightarrow> ChangeRecord \<Rightarrow> (round, store_error) handler" where
  "decide_round digest hex_digest as_second ts_add serde change_json now expired fresh app agent prin jid params job change =
     (if job_cancel_requested job \<or> expired then
        sbind (case active_child change of
                 None \<Rightarrow> sret None
               | Some child_id \<Rightarrow> stop_child now expired app agent prin jid params child_id) (\<lambda>ended.
        case ended of
          Some r \<Rightarrow> sret r
        | None \<Rightarrow>
            sbind (finish 2 now jid (if expired then TimedOut else Cancelled)
              (change_result (dn_change_id params) (change_json change @ [(''reversed'', JBool False)]))) (\<lambda>_.
            sret Finished))
      else if (dn_until params = UntilBuilt \<and> ch_state change = Ready) \<or> ch_state change = ChSucceeded
      then sbind (finish 2 now jid Succeeded (change_result (dn_change_id params) (change_json change))) (\<lambda>_. sret Finished)
      else if ChangeState_is_terminal (ch_state change)
      then sbind (finish 2 now jid (if ch_state change = ChOutcomeUnknown then OutcomeUnknown else Failed)
             (change_result (dn_change_id params) (change_json change))) (\<lambda>_. sret Finished)
      else submit_next_stage digest hex_digest as_second ts_add serde now fresh app agent prin jid params change)"

definition run_round ::
  "(json \<Rightarrow> string) \<Rightarrow> (string \<Rightarrow> string) \<Rightarrow> (timestamp \<Rightarrow> int) \<Rightarrow> (timestamp \<Rightarrow> nat \<Rightarrow> timestamp option) \<Rightarrow> serde \<Rightarrow>
   (ChangeRecord \<Rightarrow> (string \<times> json) list) \<Rightarrow> timestamp \<Rightarrow> bool \<Rightarrow> JobId \<Rightarrow> App \<Rightarrow> agent \<Rightarrow> Principal \<Rightarrow> JobId \<Rightarrow>
   DeployRunParams \<Rightarrow> (round, store_error) handler" where
  "run_round digest hex_digest as_second ts_add serde change_json now expired fresh app agent prin jid params =
     sbind (sread (get_job jid)) (\<lambda>job.
     if JobState_is_terminal (h_state (job_handle job)) then sret Finished
     else (\<lambda>s. case refresh_change serde now app agent prin (dn_change_id params) s of
                 (s', Inr change) \<Rightarrow>
                   decide_round digest hex_digest as_second ts_add serde change_json now expired fresh app agent prin
                     jid params job change s'
               | (s', Inl e) \<Rightarrow>
                   (s', if \<not> expired \<and> (is_server_error (api_status e) \<or> api_status e = 409) then Ok Again
                        else Err (Report ''cannot observe owned change''))))"

section \<open>Reconciliation\<close>

text \<open>The children of a change, brought up to date; \<open>None\<close> when one of them is not settled.\<close>

fun reconcile_children ::
  "timestamp \<Rightarrow> App \<Rightarrow> agent \<Rightarrow> Principal \<Rightarrow> JobId list \<Rightarrow> (JobRecord list option, ApiError) handler" where
  "reconcile_children now app agent prin [] = sret (Some [])"
| "reconcile_children now app agent prin (jid # jids) =
     sbind (smap_err map_store_error (sread (get_owned_job (pr_name prin) jid))) (\<lambda>child.
     sbind (slift (host_for app prin (h_host (job_handle child)))) (\<lambda>_.
     sbind
       (if \<not> JobState_is_terminal (h_state (job_handle child)) \<or> h_state (job_handle child) = OutcomeUnknown
        then case agent_request app agent (h_host (job_handle child)) (ReqStatus jid) of
          Inr (RespJob target) \<Rightarrow> smap_err map_store_error (project_target_job now child target)
        | _ \<Rightarrow> sret child
        else sret child) (\<lambda>child.
     if \<not> JobState_is_terminal (h_state (job_handle child)) \<or> h_state (job_handle child) = OutcomeUnknown
     then sret None
     else sbind (reconcile_children now app agent prin jids) (\<lambda>rest. sret (map_option ((#) child) rest)))))"

definition option_list :: "'a option \<Rightarrow> 'a list" where
  "option_list x = (case x of None \<Rightarrow> [] | Some y \<Rightarrow> [y])"

definition change_children :: "ChangeRecord \<Rightarrow> JobId list" where
  "change_children change =
     option_list (cj_build (ch_jobs change)) @ option_list (cj_activate (ch_jobs change))
     @ option_list (cj_verify (ch_jobs change)) @ option_list (cj_rollback (ch_jobs change))"

definition reconcile_outcome :: "DeployRunParams \<Rightarrow> JobRecord \<Rightarrow> ChangeRecord \<Rightarrow> JobState" where
  "reconcile_outcome params job change =
     (if ch_state change = ChSucceeded \<or> (dn_until params = UntilBuilt \<and> ch_state change = Ready) then Succeeded
      else if job_cancel_requested job then Cancelled
      else Failed)"

text \<open>\<open>evidence\<close> writes the result that is stored with the outcome (serde).\<close>

definition reconcile ::
  "serde \<Rightarrow> (DeployRunParams \<Rightarrow> ChangeRecord \<Rightarrow> JobRecord list \<Rightarrow> json) \<Rightarrow> timestamp \<Rightarrow> App \<Rightarrow> agent \<Rightarrow> Principal \<Rightarrow>
   JobRecord \<Rightarrow> (JobRecord, ApiError) handler" where
  "reconcile serde evidence now app agent prin job =
     (if h_state (job_handle job) \<noteq> OutcomeUnknown \<or> h_operation (job_handle job) \<noteq> ''deploy.run'' then sret job
      else
        sbind (slift (ok_or (ApiError 409 ''invalid workflow record'') (sd_run_of serde (job_spec job)))) (\<lambda>params.
        sbind (refresh_change serde now app agent prin (dn_change_id params)) (\<lambda>change.
        sbind (slift (durable_store app)) (\<lambda>_.
        sbind (reconcile_children now app agent prin (change_children change)) (\<lambda>children.
        case children of
          None \<Rightarrow> sret job
        | Some evidence_jobs \<Rightarrow> (\<lambda>s.
            case transition_job now (h_job_id (job_handle job)) (h_revision (job_handle job))
                   (reconcile_outcome params job change)
                   (JObject [(''executor'', JString ''hub''), (''observation_only'', JBool True)])
                   (Some (evidence params change evidence_jobs)) s of
              (s', Inr updated) \<Rightarrow> (s', Ok updated)
            | (s', Inl e) \<Rightarrow>
                if error_text e = ''job revision changed''
                then (s', map_err map_store_error (get_job (h_job_id (job_handle job)) s'))
                else (s', Err (map_store_error e))))))))"

end
