(* ===== verification/Hub_Facts.thy ===== *)
theory Hub_Facts
  imports Hub_Workflow
begin

text \<open>How the hub's handlers behave: elimination rules for handlers, projections, finishing and stages.\<close>

section \<open>Handlers\<close>

lemma sbind_Ok:
  "sbind m f s = (s', Ok y) \<longleftrightarrow> (\<exists>s1 x. m s = (s1, Ok x) \<and> f x s1 = (s', Ok y))"
  by (auto simp: sbind_def split: prod.splits sum.splits)

lemma handler_Ok [simp]:
  "sret x s = (s', Ok y) \<longleftrightarrow> s' = s \<and> y = x"
  "sfail e s = (s', Ok y) \<longleftrightarrow> False"
  "slift r s = (s', Ok y) \<longleftrightarrow> s' = s \<and> r = Ok y"
  "sread g s = (s', Ok y) \<longleftrightarrow> s' = s \<and> g s = Ok y"
  "smap_err h m s = (s', Ok y) \<longleftrightarrow> m s = (s', Ok y)"
  by (auto simp: sret_def sfail_def slift_def sread_def smap_err_def map_err_def split: prod.splits sum.splits)

section \<open>Projections\<close>

lemma transition_job_Ok:
  assumes "transition_job now jid n nx payload result s = (s', Ok job)" and "jobs_inv s"
  shows "h_state (job_handle job) = nx" and "h_job_id (job_handle job) = jid"
    and "\<exists>row \<in> set (st_jobs s). jr_id row = job_id_str jid \<and> jr_revision row = int n
           \<and> JobState_can_transition_to (row_state row) nx"
    and "st_changes s' = st_changes s" and "map jr_id (st_jobs s') = map jr_id (st_jobs s)"
    and "get_job jid s' = Ok job"
proof -
  from assms have "h_state (job_handle job) = nx \<and> h_job_id (job_handle job) = jid \<and>
      (\<exists>row \<in> set (st_jobs s). jr_id row = job_id_str jid \<and> jr_revision row = int n
           \<and> JobState_can_transition_to (row_state row) nx)
      \<and> st_changes s' = st_changes s \<and> map jr_id (st_jobs s') = map jr_id (st_jobs s) \<and> get_job jid s' = Ok job"
  proof (cases rule: transition_cases)
    case (step row cur)
    have row: "row \<in> set (st_jobs s)" "jr_id row = job_id_str jid" using jobs_t.found[OF step(1)] by simp_all
    have tab: "st_jobs s' = update_where (\<lambda>r. jr_id r = job_id_str jid) (transitioned_row now nx result) (st_jobs s)"
      by (simp add: step(6) append_job_event_def)
    have "get_job jid s' = Ok (decoded_job (transitioned_row now nx result row))"
      by (rule get_job_after_update[OF transition_preserves_jobs_inv[OF assms] step(1) tab])
        (simp add: transitioned_row_def)
    then have job: "job = decoded_job (transitioned_row now nx result row)" using step(7) by simp
    have "row_state (transitioned_row now nx result row) = nx"
      by (rule row_state_as_str) (simp add: transitioned_row_def)
    then have "h_state (job_handle job) = nx" by (simp add: job decoded_job_def)
    moreover have "h_job_id (job_handle job) = jid"
      using row(2) by (simp add: job decoded_job_def transitioned_row_def)
    moreover have "map jr_id (st_jobs s') = map jr_id (st_jobs s)"
      by (simp add: tab update_where_def transitioned_row_def)
    ultimately show ?thesis
      using row step(3,4) row_state_as_str[OF step(2)] step(7) by (auto simp: step(6) append_job_event_def)
  qed simp
  then show "h_state (job_handle job) = nx" and "h_job_id (job_handle job) = jid"
    and "\<exists>row \<in> set (st_jobs s). jr_id row = job_id_str jid \<and> jr_revision row = int n
           \<and> JobState_can_transition_to (row_state row) nx"
    and "st_changes s' = st_changes s" and "map jr_id (st_jobs s') = map jr_id (st_jobs s)"
    and "get_job jid s' = Ok job"
    by blast+
qed

text \<open>What a projection may answer.\<close>

lemma project_target_job_Ok:
  assumes "project_target_job now current target s = (s', Ok job)" and "jobs_inv s"
  shows "same_target current target"
    and "job = current \<and> s' = s
      \<or> h_state (job_handle job) \<in> {h_state (job_handle target), Reconciling}
        \<and> h_job_id (job_handle job) = h_job_id (job_handle current)
        \<and> \<not> JobState_definitive (h_state (job_handle current))"
proof -
  show same: "same_target current target"
    using assms(1) by (cases "same_target current target") (simp_all add: project_target_job_def)
  show "job = current \<and> s' = s
      \<or> h_state (job_handle job) \<in> {h_state (job_handle target), Reconciling}
        \<and> h_job_id (job_handle job) = h_job_id (job_handle current)
        \<and> \<not> JobState_definitive (h_state (job_handle current))"
  proof (cases "h_state (job_handle current) = h_state (job_handle target)")
    case True
    then show ?thesis using assms(1) same by (simp add: project_target_job_def)
  next
    case False
    let ?via = "h_state (job_handle target) = OutcomeUnknown
            \<and> \<not> JobState_can_transition_to (h_state (job_handle current)) OutcomeUnknown
            \<and> JobState_can_transition_to (h_state (job_handle current)) Reconciling"
    from assms(1) same False obtain s1 mid where
      mid: "(if ?via then project_to now current Reconciling target else sret current) s = (s1, Ok mid)"
      and last: "(if \<not> JobState_can_transition_to (h_state (job_handle mid)) (h_state (job_handle target))
        then sret mid else project_to now mid (h_state (job_handle target)) target) s1 = (s', Ok job)"
      unfolding project_target_job_def by (auto simp: sbind_Ok)
    show ?thesis
    proof (cases ?via)
      case True
      with mid have tr: "transition_job now (h_job_id (job_handle current)) (h_revision (job_handle current)) Reconciling
          (projection_payload target) (job_result target) s = (s1, Ok mid)"
        by (simp add: project_to_def)
      have m: "h_state (job_handle mid) = Reconciling" "h_job_id (job_handle mid) = h_job_id (job_handle current)" "jobs_inv s1"
        using transition_job_Ok[OF tr assms(2)] transition_preserves_jobs_inv[OF tr assms(2)] by simp_all
      have nd: "\<not> JobState_definitive (h_state (job_handle current))" using True definitive_final by blast
      show ?thesis
      proof (cases "JobState_can_transition_to (h_state (job_handle mid)) (h_state (job_handle target))")
        case False
        then show ?thesis using last m nd by auto
      next
        case True
        with last have "transition_job now (h_job_id (job_handle mid)) (h_revision (job_handle mid)) (h_state (job_handle target))
            (projection_payload target) (job_result target) s1 = (s', Ok job)" by (simp add: project_to_def)
        from transition_job_Ok(1,2)[OF this m(3)] m nd show ?thesis by auto
      qed
    next
      case via: False
      with mid have m: "mid = current" "s1 = s" by auto
      show ?thesis
      proof (cases "JobState_can_transition_to (h_state (job_handle current)) (h_state (job_handle target))")
        case False
        then show ?thesis using last m by auto
      next
        case True
        with last m have "transition_job now (h_job_id (job_handle current)) (h_revision (job_handle current)) (h_state (job_handle target))
            (projection_payload target) (job_result target) s = (s', Ok job)" by (simp add: project_to_def)
        from transition_job_Ok(1,2)[OF this assms(2)] True definitive_final show ?thesis by blast
      qed
    qed
  qed
qed

section \<open>Handlers that submit no jobs\<close>

definition no_new_jobs :: "store \<Rightarrow> store \<Rightarrow> bool" where
  "no_new_jobs s s' \<longleftrightarrow> (store_inv s \<longrightarrow> store_inv s' \<and> map jr_id (st_jobs s') = map jr_id (st_jobs s))"

interpretation quiet: handler_frame no_new_jobs
  by unfold_locales (auto simp: no_new_jobs_def)

lemma quiet_transition [handler_intros]: "quiet.keeps (transition_job now jid n nx p r)"
proof (rule quiet.keepsI)
  fix s s' res assume run: "transition_job now jid n nx p r s = (s', res)"
  have "jobs_moved s s'" by (rule moved.keepsD[OF moved_transition run])
  then show "no_new_jobs s s'"
    using transition_store_inv[OF run] store_inv_parts(1)[of s] by (simp add: no_new_jobs_def jobs_moved_def)
qed

lemma quiet_transition_change [handler_intros]: "quiet.keeps (transition_change now cid c u)"
proof (rule quiet.keepsI)
  fix s s' res assume run: "transition_change now cid c u s = (s', res)"
  show "no_new_jobs s s'"
    unfolding no_new_jobs_def
    using transition_change_store_inv[OF run] transition_change_writes[OF run store_inv_parts(5)]
    by (auto simp: same_jobs_def)
qed

lemma quiet_project [handler_intros]: "quiet.keeps (project_target_job now current target)"
  unfolding project_target_job_def project_to_def by (intro handler_intros)

lemmas change_handlers =
  refresh_change_def finish_stage_def store_report_def transition_change_state_def

lemma run_transition_change_state [handler_intros]:
  "run.keeps digest ts_text as_second ts_add (transition_change_state now change next recovery)"
  unfolding transition_change_state_def by (intro handler_intros)

lemma quiet_transition_change_state [handler_intros]: "quiet.keeps (transition_change_state now change next recovery)"
  unfolding transition_change_state_def by (intro handler_intros)

lemma run_refresh_change [handler_intros]:
  "run.keeps digest ts_text as_second ts_add (refresh_change serde now app agent prin cid)"
  unfolding refresh_change_def finish_stage_def store_report_def by (intro handler_intros)

lemma quiet_refresh_change [handler_intros]: "quiet.keeps (refresh_change serde now app agent prin cid)"
  unfolding refresh_change_def finish_stage_def store_report_def by (intro handler_intros)

lemma quiet_reconcile_children [handler_intros]: "quiet.keeps (reconcile_children now app agent prin jids)"
proof (induction jids)
  case (Cons jid jids)
  show ?case unfolding reconcile_children.simps by (intro handler_intros Cons)
qed (simp add: quiet.keeps_pure)

lemma quiet_check_activation [handler_intros]:
  "quiet.keeps (check_activation as_second now app agent prin deployment change)"
  unfolding check_activation_def by (intro handler_intros)

lemma run_check_activation [handler_intros]:
  "run.keeps digest ts_text as_second' ts_add (check_activation as_second now app agent prin deployment change)"
  unfolding check_activation_def by (intro handler_intros)

section \<open>Children of a workflow\<close>

text \<open>A hexadecimal digest of at least 32 digits has the shape of an identifier.\<close>

lemma hex_segment:
  "list_all is_ascii_hexdigit xs \<Longrightarrow> {n..<n + length xs} \<inter> {8, 13, 18, 23} = {} \<Longrightarrow>
   list_all (\<lambda>(i, c). uuid_byte_ok i c) (enumerate n xs)"
proof (induction xs arbitrary: n)
  case (Cons x xs)
  then have "uuid_byte_ok n x" by (auto simp: uuid_byte_ok_def)
  moreover have "{Suc n..<Suc n + length xs} \<inter> {8, 13, 18, 23} = {}" using Cons.prems(2) by fastforce
  ultimately show ?case using Cons by simp
qed simp

lemma list_all_take_drop:
  assumes "list_all P xs"
  shows "list_all P (take n xs)" and "list_all P (drop n xs)"
  using assms by (auto simp: list_all_iff dest: in_set_takeD in_set_dropD)

lemma uuid_segments:
  assumes "length a = 8" "length b = 4" "length c = 4" "length d = 4" "length e = 12"
    and "list_all is_ascii_hexdigit a" "list_all is_ascii_hexdigit b" "list_all is_ascii_hexdigit c"
      "list_all is_ascii_hexdigit d" "list_all is_ascii_hexdigit e"
  shows "uuid_text (a @ ''-'' @ b @ ''-'' @ c @ ''-'' @ d @ ''-'' @ e)"
proof -
  have dash: "uuid_byte_ok i (CHR ''-'')" if "i \<in> {8, 13, 18, 23}" for i
    using that by (simp add: uuid_byte_ok_def)
  show ?thesis
    using assms by (auto simp: uuid_text_def enumerate_append_eq dash intro!: hex_segment)
qed

lemma stable_child_job_id_Ok:
  assumes "32 \<le> length (hex_digest (job_id_str parent @ [CHR 0x00] @ key))"
    and "list_all is_ascii_hexdigit (hex_digest (job_id_str parent @ [CHR 0x00] @ key))"
  obtains jid where "stable_child_job_id hex_digest parent key = Ok jid" and "uuid_text (job_id_str jid)"
proof -
  define d where "d = hex_digest (job_id_str parent @ [CHR 0x00] @ key)"
  have "uuid_text (take 8 d @ ''-'' @ take 4 (drop 8 d) @ ''-'' @ take 4 (drop 12 d) @ ''-''
      @ take 4 (drop 16 d) @ ''-'' @ take 12 (drop 20 d))"
    using assms by (intro uuid_segments) (auto simp: d_def intro: list_all_take_drop)
  then show thesis
    using that unfolding stable_child_job_id_def d_def[symmetric] Let_def by (simp add: JobId_parse_def)
qed

section \<open>Finishing a workflow\<close>

text \<open>A legal transition from the current revision is carried out.\<close>

lemma transition_succeeds:
  assumes "jobs_inv s" and "get_job jid s = Ok job" and "JobState_can_transition_to (h_state (job_handle job)) nx"
    and "int (h_revision (job_handle job)) + 1 \<le> i64_max"
  obtains s' job' where
    "transition_job now jid (h_revision (job_handle job)) nx payload result s = (s', Ok job')"
    and "h_state (job_handle job') = nx" and "h_revision (job_handle job') = h_revision (job_handle job) + 1"
    and "get_job jid s' = Ok job'" and "jobs_inv s'"
proof -
  let ?n = "h_revision (job_handle job)"
  from assms(2) obtain row where sel: "select_one (\<lambda>r. jr_id r = job_id_str jid) (st_jobs s) = Some row"
    and job: "job = decoded_job row"
    unfolding get_job_iff[OF assms(1)] by (auto split: option.splits)
  have ok: "job_row_ok row" using jobs_inv_row_ok[OF assms(1)] jobs_t.found[OF sel] by simp
  define s1 where "s1 = append_job_event (job_id_str jid) (JobEventKind_as_str (transition_event_kind (row_state row)))
      (JobState_as_str nx) now (canonical_json payload)
      (s\<lparr>st_jobs := update_where (\<lambda>r. jr_id r = job_id_str jid) (transitioned_row now nx result) (st_jobs s)\<rparr>)"
  have rv: "jr_revision row = int ?n" using ok by (simp add: job decoded_job_def job_row_ok_def)
  have can: "JobState_can_transition_to (row_state row) nx" using assms(3) by (simp add: job decoded_job_def)
  have "transition_body now jid ?n nx payload result s = Ok (s1, ())"
    unfolding transition_body_iff[OF jobs_inv_distinct[OF assms(1)]] s1_def
    using sel row_state_text[OF ok] rv can assms(4) by blast
  then have run: "transition_job now jid ?n nx payload result s = (s1, get_job jid s1)"
    by (simp add: transition_job_def transact_def then_get_job_def)
  have inv: "jobs_inv s1" by (rule transition_preserves_jobs_inv[OF run assms(1)])
  have got: "get_job jid s1 = Ok (decoded_job (transitioned_row now nx result row))"
    by (rule get_job_after_update[OF inv sel, where f = "transitioned_row now nx result"])
      (simp add: s1_def append_job_event_def, simp add: transitioned_row_def)
  show thesis
  proof (rule that)
    show "transition_job now jid ?n nx payload result s = (s1, Ok (decoded_job (transitioned_row now nx result row)))"
      using run got by simp
    show "h_state (job_handle (decoded_job (transitioned_row now nx result row))) = nx"
      by (simp add: decoded_job_def transitioned_row_def row_state_def)
    show "h_revision (job_handle (decoded_job (transitioned_row now nx result row))) = ?n + 1"
      using rv by (simp add: decoded_job_def transitioned_row_def)
  qed (rule got, rule inv)
qed

definition finish_state :: "JobState \<Rightarrow> JobState \<Rightarrow> JobState" where
  "finish_state current st =
     (if JobState_is_terminal current then current
      else if st = OutcomeUnknown \<and> current = Queued then Failed
      else st)"

lemma finish_completes:
  assumes "jobs_inv s" and "get_job jid s = Ok job" and "JobState_is_terminal st"
    and "h_state (job_handle job) = Queued \<Longrightarrow> st \<noteq> Succeeded"
    and "int (h_revision (job_handle job)) + 2 \<le> i64_max"
  shows "\<exists>s' job'. finish (Suc (Suc n)) now jid st result s = (s', Ok ()) \<and> get_job jid s' = Ok job'
    \<and> h_state (job_handle job') = finish_state (h_state (job_handle job)) st"
proof -
  let ?cur = "h_state (job_handle job)"
  have room: "int (h_revision (job_handle job)) + 1 \<le> i64_max" using assms(5) by simp
  consider (ended) "JobState_is_terminal ?cur"
    | (two) "\<not> JobState_is_terminal ?cur" "st = OutcomeUnknown" "?cur \<noteq> Queued" "?cur \<noteq> Reconciling"
    | (one) nx where "\<not> JobState_is_terminal ?cur" "nx = finish_state ?cur st" "?cur = Queued \<or> ?cur = Reconciling \<or> st \<noteq> OutcomeUnknown"
    by blast
  then show ?thesis
  proof cases
    case ended
    with assms(2) show ?thesis
      by (auto simp: finish_round_def sbind_def sread_def sret_def finish_state_def)
  next
    case one
    have "JobState_can_transition_to ?cur nx"
      using one assms(3,4) by (cases ?cur; cases st) (auto simp: finish_state_def JobState_can_transition_to_def JobState_is_terminal_def)
    then obtain s1 job1 where
      t: "transition_job now jid (h_revision (job_handle job)) nx hub_payload (Some result) s = (s1, Ok job1)"
      and j: "h_state (job_handle job1) = nx" "get_job jid s1 = Ok job1"
      by (rule transition_succeeds[OF assms(1,2) _ room])
    have "finish_round now jid st result s = (s1, Ok True)"
      using one assms(2) t by (auto simp: finish_round_def sbind_def sread_def finish_state_def)
    with j one(2) show ?thesis by (simp add: sbind_def sret_def)
  next
    case two
    have "JobState_can_transition_to ?cur Reconciling"
      using two by (cases ?cur) (auto simp: JobState_can_transition_to_def JobState_is_terminal_def)
    then obtain s1 job1 where
      t: "transition_job now jid (h_revision (job_handle job)) Reconciling hub_payload None s = (s1, Ok job1)"
      and j: "h_state (job_handle job1) = Reconciling" "h_revision (job_handle job1) = h_revision (job_handle job) + 1"
        "get_job jid s1 = Ok job1" "jobs_inv s1"
      by (rule transition_succeeds[OF assms(1,2) _ room])
    have room2: "int (h_revision (job_handle job1)) + 1 \<le> i64_max" using assms(5) j(2) by simp
    have first: "finish_round now jid st result s = (s1, Ok False)"
      using two assms(2) t by (simp add: finish_round_def sbind_def sread_def)
    have "JobState_can_transition_to (h_state (job_handle job1)) OutcomeUnknown"
      by (simp add: j JobState_can_transition_to_def)
    then obtain s2 job2 where
      t2: "transition_job now jid (h_revision (job_handle job1)) OutcomeUnknown hub_payload (Some result) s1 = (s2, Ok job2)"
      and j2: "h_state (job_handle job2) = OutcomeUnknown" "get_job jid s2 = Ok job2"
      by (rule transition_succeeds[OF j(4,3) _ room2])
    have "finish_round now jid st result s1 = (s2, Ok True)"
      using two j t2 by (simp add: finish_round_def sbind_def sread_def JobState_is_terminal_def)
    with first j2 two show ?thesis by (simp add: sbind_def sret_def finish_state_def)
  qed
qed

end
