(* ===== verification/Hub_Client.thy ===== *)
theory Hub_Client
  imports Hub_Jobs
begin

text \<open>
  \<open>maxops-hub/src/client_api.rs\<close>: the lookup of a job, pages over listings, fragments of stored
  JSON, waiting for a job, and the compaction of schemas and changes.
\<close>

section \<open>Lookup\<close>

definition lookup_job ::
  "App \<Rightarrow> Principal \<Rightarrow> JobId option \<Rightarrow> string option \<Rightarrow> store \<Rightarrow> (JobRecord, ApiError) result" where
  "lookup_job app prin job_id key s =
     rbind (durable_store app) (\<lambda>_.
     rbind
       (case (job_id, key) of
          (Some jid, None) \<Rightarrow> map_err map_store_error (get_owned_job (pr_name prin) jid s)
        | (None, Some key) \<Rightarrow>
            if key \<noteq> [] \<and> length key \<le> 128 \<and> list_all is_ascii_graphic key
            then rbind (map_err map_store_error (get_idempotent_job (pr_name prin) key s))
                   (ok_or (ApiError 404 ''job not found''))
            else Err (ApiError 400 ''supply exactly one job UUID or submission idempotency_key'')
        | _ \<Rightarrow> Err (ApiError 400 ''supply exactly one job UUID or submission idempotency_key'')) (\<lambda>job.
     rbind (host_for app prin (h_host (job_handle job))) (\<lambda>_. Ok job)))"

section \<open>Pages\<close>

record 'v page_value =
  pg_values :: "'v list"
  pg_revision :: string
  pg_total :: nat
  pg_next_cursor :: "string option"

definition page_offset :: "string \<Rightarrow> nat \<Rightarrow> string option \<Rightarrow> (nat, ApiError) result" where
  "page_offset revision len cursor =
     (case cursor of
        None \<Rightarrow> Ok 0
      | Some cursor \<Rightarrow>
          rbind (ok_or (ApiError 400 ''invalid cursor'') (split_once (CHR '':'') cursor)) (\<lambda>(version, offset).
          if version \<noteq> revision then Err (ApiError 409 ''catalog revision changed'')
          else ok_or (ApiError 400 ''invalid cursor'')
                 (case parse_usize offset of
                    Some n \<Rightarrow> if n \<le> len then Some n else None
                  | None \<Rightarrow> None)))"

text \<open>
  \<open>hash\<close> is the hexadecimal blake3 digest of the serialized values; the object of the answer is the
  record \<open>page_value\<close>.
\<close>

definition page :: "('v list \<Rightarrow> string) \<Rightarrow> 'v list \<Rightarrow> nat \<Rightarrow> string option \<Rightarrow> ('v page_value, ApiError) result" where
  "page hash values limit cursor =
     (if \<not> (1 \<le> limit \<and> limit \<le> 200) then Err (ApiError 400 ''list limit must be 1..200'')
      else
        let revision = hash values in
        rbind (page_offset revision (length values) cursor) (\<lambda>offset.
        let stop = min (offset + limit) (length values) in
        Ok \<lparr>pg_values = take (stop - offset) (drop offset values), pg_revision = revision,
            pg_total = length values,
            pg_next_cursor =
              (if stop < length values then Some (revision @ '':'' @ nat_to_string stop) else None)\<rparr>))"

text \<open>A client that follows the cursors, with a bound on the number of requests.\<close>

fun walk_pages ::
  "nat \<Rightarrow> ('v list \<Rightarrow> string) \<Rightarrow> 'v list \<Rightarrow> nat \<Rightarrow> string option \<Rightarrow> ('v list, ApiError) result" where
  "walk_pages 0 hash values limit cursor = Ok []"
| "walk_pages (Suc n) hash values limit cursor =
     rbind (page hash values limit cursor) (\<lambda>p.
     case pg_next_cursor p of
       None \<Rightarrow> Ok (pg_values p)
     | Some next \<Rightarrow> rbind (walk_pages n hash values limit (Some next)) (\<lambda>rest. Ok (pg_values p @ rest)))"

section \<open>Fragments\<close>

text \<open>\<open>str::is_char_boundary\<close> on the UTF-8 bytes.\<close>

definition is_char_boundary :: "string \<Rightarrow> nat \<Rightarrow> bool" where
  "is_char_boundary text i \<longleftrightarrow>
     i = 0 \<or> i = length text \<or> (i < length text \<and> \<not> is_continuation (text ! i))"

text \<open>\<open>while !text.is_char_boundary(end) { end -= 1; }\<close>; index 0 is a boundary.\<close>

primrec floor_boundary :: "string \<Rightarrow> nat \<Rightarrow> nat" where
  "floor_boundary text 0 = 0"
| "floor_boundary text (Suc n) = (if is_char_boundary text (Suc n) then Suc n else floor_boundary text n)"

record fragment =
  fg_text :: string
  fg_next_offset :: nat
  fg_total_bytes :: nat
  fg_complete :: bool

text \<open>\<open>pointer_of\<close> is \<open>Value::pointer\<close>, \<open>to_string\<close> the serializer; the object of the answer is \<open>fragment\<close>.\<close>

definition json_fragment ::
  "(string \<Rightarrow> json \<Rightarrow> json option) \<Rightarrow> (json \<Rightarrow> string) \<Rightarrow> json \<Rightarrow> string \<Rightarrow> nat \<Rightarrow> nat \<Rightarrow> (fragment, ApiError) result" where
  "json_fragment pointer_of to_string value pointer offset limit =
     (if \<not> (1 \<le> limit \<and> limit \<le> 32768) \<or> length pointer > 1024
      then Err (ApiError 400 ''invalid result bounds'')
      else
        rbind (ok_or (ApiError 404 ''result pointer not found'') (pointer_of pointer value)) (\<lambda>selected.
        let text = to_string selected in
        if \<not> (offset \<le> length text \<and> is_char_boundary text offset)
        then Err (ApiError 400 ''invalid result offset'')
        else
          let stop = floor_boundary text (min (offset + limit) (length text)) in
          if stop = offset \<and> stop < length text
          then Err (ApiError 400 ''result limit is smaller than a UTF-8 character'')
          else Ok \<lparr>fg_text = take (stop - offset) (drop offset text), fg_next_offset = stop,
                   fg_total_bytes = length text, fg_complete = (stop = length text)\<rparr>))"

text \<open>A client that reads a result from an offset to its end.\<close>

fun walk_fragments ::
  "nat \<Rightarrow> (string \<Rightarrow> json \<Rightarrow> json option) \<Rightarrow> (json \<Rightarrow> string) \<Rightarrow> json \<Rightarrow> string \<Rightarrow> nat \<Rightarrow> nat \<Rightarrow>
   (string, ApiError) result" where
  "walk_fragments 0 pointer_of to_string value pointer offset limit = Ok []"
| "walk_fragments (Suc n) pointer_of to_string value pointer offset limit =
     rbind (json_fragment pointer_of to_string value pointer offset limit) (\<lambda>f.
     if fg_complete f then Ok (fg_text f)
     else rbind (walk_fragments n pointer_of to_string value pointer (fg_next_offset f) limit) (\<lambda>rest.
       Ok (fg_text f @ rest)))"

section \<open>Reading a job\<close>

text \<open>
  One round of the loop of \<open>wait\<close>: the answer, or the revision to compare with in the next round.
  \<open>timed_out\<close> tells whether the deadline has passed.
\<close>

record wait_answer =
  wa_job :: JobRecord
  wa_timed_out :: bool

definition wait_round ::
  "App \<Rightarrow> Principal \<Rightarrow> JobId \<Rightarrow> nat option \<Rightarrow> bool \<Rightarrow> store \<Rightarrow> (nat + wait_answer, ApiError) result" where
  "wait_round app prin jid revision timed_out s =
     rbind (map_err map_store_error (get_owned_job (pr_name prin) jid s)) (\<lambda>job.
     rbind (host_for app prin (h_host (job_handle job))) (\<lambda>_.
     let previous = (case revision of None \<Rightarrow> h_revision (job_handle job) | Some r \<Rightarrow> r);
         ended = JobState_is_terminal (h_state (job_handle job));
         changed = (h_revision (job_handle job) \<noteq> previous) in
     if ended \<or> changed \<or> timed_out
     then Ok (Inr \<lparr>wa_job = job, wa_timed_out = (timed_out \<and> \<not> ended \<and> \<not> changed)\<rparr>)
     else Ok (Inl previous)))"

text \<open>
  The loop over the stores that the rounds see, each with the clock; \<open>None\<close> when the observations
  end before the loop does.
\<close>

fun wait_rounds ::
  "App \<Rightarrow> Principal \<Rightarrow> JobId \<Rightarrow> nat option \<Rightarrow> (store \<times> bool) list \<Rightarrow> (wait_answer option, ApiError) result" where
  "wait_rounds app prin jid revision [] = Ok None"
| "wait_rounds app prin jid revision ((s, timed_out) # rounds) =
     rbind (wait_round app prin jid revision timed_out s) (\<lambda>r.
     case r of Inr answer \<Rightarrow> Ok (Some answer) | Inl previous \<Rightarrow> wait_rounds app prin jid (Some previous) rounds)"

definition wait_start :: "App \<Rightarrow> Principal \<Rightarrow> JobWaitParams \<Rightarrow> store \<Rightarrow> (JobId, ApiError) result" where
  "wait_start app prin params s =
     (if jw_timeout_seconds params > 10 then Err (ApiError 400 ''wait timeout must be 0..10 seconds'')
      else rbind (durable_store app) (\<lambda>_.
        rbind (lookup_job app prin (jw_job_id params) (jw_idempotency_key params) s) (\<lambda>job.
        Ok (h_job_id (job_handle job)))))"

record job_events_answer =
  ja_next_sequence :: nat
  ja_events :: "JobEvent list"
  ja_terminal :: bool

definition client_events :: "App \<Rightarrow> Principal \<Rightarrow> JobEventsParams \<Rightarrow> store \<Rightarrow> (job_events_answer, ApiError) result" where
  "client_events app prin params s =
     (if \<not> (1 \<le> jp_limit params \<and> jp_limit params \<le> 200) then Err (ApiError 400 ''event limit must be 1..200'')
      else rbind (durable_store app) (\<lambda>_.
        rbind (map_err map_store_error (get_owned_job (pr_name prin) (jp_job_id params) s)) (\<lambda>job.
        rbind (host_for app prin (h_host (job_handle job))) (\<lambda>_.
        rbind (map_err map_store_error (job_events_page (jp_job_id params) (jp_after_sequence params) (jp_limit params) s)) (\<lambda>evs.
        Ok \<lparr>ja_next_sequence = (if evs = [] then jp_after_sequence params else je_sequence (last evs)),
            ja_events = evs, ja_terminal = JobState_is_terminal (h_state (job_handle job))\<rparr>)))))"

text \<open>\<open>None\<close> when the job has no result yet.\<close>

definition client_result ::
  "(string \<Rightarrow> json \<Rightarrow> json option) \<Rightarrow> (json \<Rightarrow> string) \<Rightarrow> App \<Rightarrow> Principal \<Rightarrow> JobResultParams \<Rightarrow> store \<Rightarrow>
   (JobHandle \<times> fragment option, ApiError) result" where
  "client_result pointer_of to_string app prin params s =
     (if \<not> (1 \<le> jx_limit params \<and> jx_limit params \<le> 32768) \<or> length (jx_pointer params) > 1024
      then Err (ApiError 400 ''invalid result bounds'')
      else rbind (lookup_job app prin (jx_job_id params) (jx_idempotency_key params) s) (\<lambda>job.
        rbind (host_for app prin (h_host (job_handle job))) (\<lambda>_.
        case job_result job of
          None \<Rightarrow> Ok (job_handle job, None)
        | Some value \<Rightarrow>
            rbind (json_fragment pointer_of to_string value (jx_pointer params) (jx_offset params) (jx_limit params)) (\<lambda>f.
            Ok (job_handle job, Some f)))))"

section \<open>Representations\<close>

text \<open>\<open>compact_schema\<close> walks the positions of a JSON schema that hold schemas.\<close>

definition schema_maps :: "string set" where
  "schema_maps = {''properties'', ''patternProperties'', ''$defs'', ''definitions'', ''dependentSchemas''}"

definition schema_lists :: "string set" where
  "schema_lists = {''allOf'', ''anyOf'', ''oneOf'', ''prefixItems''}"

definition schema_single :: "string set" where
  "schema_single = {''items'', ''additionalProperties'', ''contains'', ''not'', ''if'', ''then'', ''else'', ''unevaluatedProperties''}"

fun compact_schema :: "json \<Rightarrow> json" and compact_field :: "string \<Rightarrow> json \<Rightarrow> json" where
  "compact_schema (JObject kvs) =
     JObject (map (\<lambda>(k, v). (k, compact_field k v)) (filter (\<lambda>(k, _). k \<noteq> ''$schema'' \<and> k \<noteq> ''title'') kvs))"
| "compact_schema v = v"
| "compact_field k (JObject kvs) =
     (if k \<in> schema_maps then JObject (map (\<lambda>(name, v). (name, compact_schema v)) kvs)
      else if k \<in> schema_single then compact_schema (JObject kvs)
      else JObject kvs)"
| "compact_field k (JArray vs) = (if k \<in> schema_lists then JArray (map compact_schema vs) else JArray vs)"
| "compact_field k v = v"

record Representation =
  rq_view :: "string option"
  rq_encoding :: "string option"

definition Representation_is_summary :: "Representation \<Rightarrow> bool" where
  "Representation_is_summary q \<longleftrightarrow> rq_view q = Some ''summary''"

definition Representation_validate :: "Representation \<Rightarrow> (unit, ApiError) result" where
  "Representation_validate q =
     (if (case rq_view q of None \<Rightarrow> False | Some view \<Rightarrow> view \<notin> {''full'', ''summary''})
         \<or> (case rq_encoding q of None \<Rightarrow> False | Some encoding \<Rightarrow> encoding \<notin> {''base64'', ''text''})
      then Err (ApiError 400 ''invalid representation'') else Ok ())"

text \<open>\<open>Map::insert\<close>: an existing key keeps its place and gets the new value.\<close>

definition json_insert :: "string \<Rightarrow> json \<Rightarrow> (string \<times> json) list \<Rightarrow> (string \<times> json) list" where
  "json_insert k v kvs =
     (if k \<in> fst ` set kvs then map (\<lambda>(k', v'). if k' = k then (k', v) else (k', v')) kvs
      else kvs @ [(k, v)])"

definition compact_change :: "json \<Rightarrow> json" where
  "compact_change value =
     (case value of
        JObject kvs \<Rightarrow>
          let rest = filter (\<lambda>(k, _). k \<noteq> ''plan'') kvs;
              lifted = (case map_of kvs ''plan'' of
                  None \<Rightarrow> rest
                | Some plan \<Rightarrow> fold (\<lambda>name fs. case json_get name plan of None \<Rightarrow> fs | Some v \<Rightarrow> json_insert name v fs)
                    [''change_id'', ''target_host'', ''deployment_profile'', ''source_commit'', ''expires_at''] rest) in
          JObject (filter (\<lambda>(k, _). k \<noteq> ''artifact'') lifted)
      | _ \<Rightarrow> value)"

end
