(* ===== verification/Hub_Submit.thy ===== *)
theory Hub_Submit
  imports Hub_Workflow Hub_Client
begin

text \<open>
  \<open>maxops-hub/src/lib.rs\<close>, the job operations: \<open>run_job_operation\<close> with one handler per request.
  The job that a request spawns (\<open>spawn_dispatch\<close> and the like) runs after the answer; it is a handler
  of its own (\<open>dispatch\<close>, \<open>run_remediation_begin\<close>, \<open>run_round\<close>).
\<close>

section \<open>Submission\<close>

definition bad_request :: "(unit, string) result \<Rightarrow> (unit, ApiError) handler" where
  "bad_request r = slift (map_err (ApiError 400) r)"

definition hub_job :: "Principal \<Rightarrow> string \<Rightarrow> string \<Rightarrow> json \<Rightarrow> timestamp \<Rightarrow> NewJob" where
  "hub_job prin host operation spec deadline =
     \<lparr>nj_principal = pr_name prin, nj_host = host, nj_operation = operation, nj_spec_version = 1, nj_spec = spec,
      nj_policy_version = ''hub-config-v1'', nj_deadline = Some deadline\<rparr>"

text \<open>The common end of the submitting requests.\<close>

definition submit_hub_job ::
  "(json \<Rightarrow> string) \<Rightarrow> (timestamp \<Rightarrow> nat \<Rightarrow> timestamp option) \<Rightarrow> timestamp \<Rightarrow> JobId \<Rightarrow> App \<Rightarrow> Principal \<Rightarrow> headers \<Rightarrow>
   string \<Rightarrow> string \<Rightarrow> json \<Rightarrow> nat \<Rightarrow> (JobHandle, ApiError) handler" where
  "submit_hub_job digest ts_add now fresh app prin hs operation host spec timeout =
     sbind (slift (idempotency_key hs)) (\<lambda>key.
     sbind (slift (ok_or (ApiError 400 ''invalid job deadline'') (ts_add now timeout))) (\<lambda>deadline.
     sbind (slift (durable_store app)) (\<lambda>_.
     sbind (smap_err map_store_error (submit_job_with_id digest now key fresh
             (hub_job prin host operation spec deadline))) (\<lambda>submitted.
     sret (job_handle (sub_job submitted))))))"

definition execution_enabled :: "Host \<Rightarrow> (unit, ApiError) result" where
  "execution_enabled host =
     (if host_execution_token host = None then Err (ApiError 503 ''host execution disabled'') else Ok ())"

definition exec_run ::
  "(json \<Rightarrow> string) \<Rightarrow> (timestamp \<Rightarrow> nat \<Rightarrow> timestamp option) \<Rightarrow> serde \<Rightarrow> timestamp \<Rightarrow> JobId \<Rightarrow> App \<Rightarrow> Principal \<Rightarrow>
   headers \<Rightarrow> ExecRunParams \<Rightarrow> (JobHandle, ApiError) handler" where
  "exec_run digest ts_add serde now fresh app prin hs params =
     sbind (bad_request (ExecRunParams_validate params)) (\<lambda>_.
     sbind (slift (host_for app prin (er_host params))) (\<lambda>host.
     sbind (slift (execution_enabled host)) (\<lambda>_.
     submit_hub_job digest ts_add now fresh app prin hs ''exec.run'' (er_host params) (sd_exec_run serde params)
       (case er_timeout_seconds params of None \<Rightarrow> 300 | Some t \<Rightarrow> t))))"

definition submit_unit_action ::
  "(json \<Rightarrow> string) \<Rightarrow> (timestamp \<Rightarrow> nat \<Rightarrow> timestamp option) \<Rightarrow> serde \<Rightarrow> timestamp \<Rightarrow> JobId \<Rightarrow> App \<Rightarrow> Principal \<Rightarrow>
   headers \<Rightarrow> string \<Rightarrow> UnitActionParams \<Rightarrow> (JobHandle, ApiError) handler" where
  "submit_unit_action digest ts_add serde now fresh app prin hs operation params =
     sbind (bad_request (UnitActionParams_validate params)) (\<lambda>_.
     sbind (slift (host_for app prin (ua_host params))) (\<lambda>host.
     sbind (slift (unit_manageable host (ua_unit params))) (\<lambda>_.
     sbind (slift (execution_enabled host)) (\<lambda>_.
     submit_hub_job digest ts_add now fresh app prin hs operation (ua_host params) (sd_unit_action serde params) 60))))"

definition submit_workspace_job ::
  "(json \<Rightarrow> string) \<Rightarrow> (timestamp \<Rightarrow> nat \<Rightarrow> timestamp option) \<Rightarrow> timestamp \<Rightarrow> JobId \<Rightarrow> App \<Rightarrow> Principal \<Rightarrow>
   headers \<Rightarrow> string \<Rightarrow> string \<Rightarrow> json \<Rightarrow> nat \<Rightarrow> (JobHandle, ApiError) handler" where
  "submit_workspace_job digest ts_add now fresh app prin hs operation repository spec timeout =
     sbind (slift (repository_host app prin repository)) (\<lambda>host.
     submit_hub_job digest ts_add now fresh app prin hs operation host spec timeout)"

definition diagnostics_collect ::
  "(json \<Rightarrow> string) \<Rightarrow> (timestamp \<Rightarrow> nat \<Rightarrow> timestamp option) \<Rightarrow> serde \<Rightarrow> timestamp \<Rightarrow> JobId \<Rightarrow> App \<Rightarrow> Principal \<Rightarrow>
   headers \<Rightarrow> DiagnosticCollectParams \<Rightarrow> (JobHandle, ApiError) handler" where
  "diagnostics_collect digest ts_add serde now fresh app prin hs params =
     sbind (bad_request (DiagnosticCollectParams_validate params)) (\<lambda>_.
     sbind (slift (host_for app prin (di_host params))) (\<lambda>host.
     sbind (slift (case di_unit params of None \<Rightarrow> Ok () | Some unit \<Rightarrow> unit_allowed host unit)) (\<lambda>_.
     if list_ex (\<lambda>probe. hc_diagnostic_probes host probe = None) (di_probes params)
     then sfail (ApiError 403 ''diagnostic probe not permitted'')
     else
       sbind (slift (if di_probes params \<noteq> [] then execution_enabled host else Ok ())) (\<lambda>_.
       sbind (case di_event_id params of
                None \<Rightarrow> sret ()
              | Some event_id \<Rightarrow> sbind (smap_err map_store_error (sread (event_for_host event_id (di_host params)))) (\<lambda>_. sret ())) (\<lambda>_.
       submit_hub_job digest ts_add now fresh app prin hs ''diagnostics.collect'' (di_host params) (sd_diagnostic serde params) 300)))))"

definition remediations_begin ::
  "(json \<Rightarrow> string) \<Rightarrow> (timestamp \<Rightarrow> nat \<Rightarrow> timestamp option) \<Rightarrow> serde \<Rightarrow> timestamp \<Rightarrow> JobId \<Rightarrow> App \<Rightarrow> Principal \<Rightarrow>
   headers \<Rightarrow> RemediationBeginParams \<Rightarrow> (JobHandle, ApiError) handler" where
  "remediations_begin digest ts_add serde now fresh app prin hs params =
     sbind (slift (host_for app prin (rbp_host params))) (\<lambda>host.
     sbind (slift (execution_enabled host)) (\<lambda>_.
     sbind (smap_err map_store_error (sread (event_for_host (rbp_event_id params) (rbp_host params)))) (\<lambda>_.
     submit_hub_job digest ts_add now fresh app prin hs ''remediations.begin'' (rbp_host params)
       (sd_remediation_begin serde params) 60)))"

section \<open>Preparation of a change\<close>

definition replay_prepare :: "serde \<Rightarrow> JobRecord \<Rightarrow> DeployPrepareParams \<Rightarrow> (JobHandle, ApiError) result" where
  "replay_prepare serde existing params =
     (case sd_job_spec_of serde (job_spec existing) of
        None \<Rightarrow> Err (ApiError 409 ''idempotency key belongs to another request'')
      | Some spec \<Rightarrow>
          if h_operation (job_handle existing) \<noteq> ''deploy.prepare''
             \<or> pl_repository (dj_plan spec) \<noteq> dp_repository params
             \<or> pl_workspace_id (dj_plan spec) \<noteq> dp_workspace_id params
             \<or> pl_workspace_revision (dj_plan spec) \<noteq> dp_expected_revision params
             \<or> pl_target_host (dj_plan spec) \<noteq> dp_target_host params
             \<or> pl_deployment_profile (dj_plan spec) \<noteq> dp_profile params
          then Err (ApiError 409 ''idempotency key belongs to another request'')
          else Ok (job_handle existing))"

definition change_plan ::
  "timestamp \<Rightarrow> timestamp \<Rightarrow> ChangeId \<Rightarrow> DeploymentConfig \<Rightarrow> WorkspaceRecord \<Rightarrow> string \<Rightarrow> RepositoryHeadResponse \<Rightarrow>
   RuntimeStateResponse \<Rightarrow> ChangePlan" where
  "change_plan created_at expires_at change_id deployment workspace source_commit source runtime =
     \<lparr>pl_change_id = change_id, pl_repository = df_repository deployment,
      pl_workspace_id = ws_workspace_id workspace, pl_workspace_revision = ws_revision workspace,
      pl_tree_hash = ws_tree_hash workspace, pl_source_commit = source_commit,
      pl_source_reference = df_source_reference deployment, pl_source_remote_head = hd_commit source,
      pl_target_host = df_target_host deployment, pl_deployment_profile = df_name deployment,
      pl_kind = df_kind deployment, pl_flake_attribute = df_flake_attribute deployment,
      pl_drv_path = None, pl_lock_digest = None,
      pl_source_baseline =
        \<lparr>sb_repository_id = df_repository deployment, sb_reference = df_source_reference deployment,
         sb_commit = Some (hd_commit source), sb_observed_at = hd_observed_at source,
         sb_evidence = ''configured Git remote fetched by repository executor''\<rparr>,
      pl_runtime_baseline =
        \<lparr>rb_host = rs_host runtime, rb_profile = rs_deployment_profile runtime,
         rb_running_closure = rs_running_closure runtime, rb_persistent_profile = rs_persistent_profile runtime,
         rb_generation = rs_generation runtime, rb_boot_id = rs_boot_id runtime, rb_source_commit = None,
         rb_observed_at = rs_observed_at runtime,
         rb_evidence = ''target executor read configured running and persistent profile paths''\<rparr>,
      pl_policy_version = ''hub-config-v1'', pl_created_at = created_at, pl_expires_at = expires_at\<rparr>"

text \<open>What the preparation asks the executors: the workspace, its commit, the remote head, the runtime.\<close>

definition prepare_observations ::
  "(timestamp \<Rightarrow> int) \<Rightarrow> timestamp \<Rightarrow> App \<Rightarrow> agent \<Rightarrow> Principal \<Rightarrow> DeploymentConfig \<Rightarrow> DeployPrepareParams \<Rightarrow>
   (WorkspaceRecord \<times> string \<times> RepositoryHeadResponse \<times> RuntimeStateResponse, ApiError) result" where
  "prepare_observations as_second now app agent prin deployment params =
     rbind (forward_workspace app agent prin (dp_repository params)
             (WtStatus \<lparr>wst_repository = dp_repository params, wst_workspace_id = dp_workspace_id params\<rparr>)) (\<lambda>response.
     case response of
       WtRecord workspace \<Rightarrow>
         if ws_revision workspace \<noteq> dp_expected_revision params then Err (ApiError 409 ''workspace revision changed'')
         else
           rbind (ok_or (ApiError 409 ''workspace is not committed'') (ws_commit_hash workspace)) (\<lambda>source_commit.
           rbind (repository_head app agent prin (df_repository deployment) (df_source_reference deployment)) (\<lambda>source.
           rbind (runtime_state as_second now app agent prin deployment) (\<lambda>runtime.
           Ok (workspace, source_commit, source, runtime))))
     | _ \<Rightarrow> Err (ApiError 502 ''invalid executor response''))"

definition prepare_change ::
  "(json \<Rightarrow> string) \<Rightarrow> (timestamp \<Rightarrow> int) \<Rightarrow> (timestamp \<Rightarrow> nat \<Rightarrow> timestamp option) \<Rightarrow> serde \<Rightarrow> timestamp \<Rightarrow> JobId \<Rightarrow>
   App \<Rightarrow> agent \<Rightarrow> Principal \<Rightarrow> headers \<Rightarrow> DeployPrepareParams \<Rightarrow> (JobHandle, ApiError) handler" where
  "prepare_change digest as_second ts_add serde now fresh app agent prin hs params =
     sbind (slift (idempotency_key hs)) (\<lambda>key.
     sbind (slift (durable_store app)) (\<lambda>_.
     sbind (smap_err map_store_error (sread (get_idempotent_job (pr_name prin) key))) (\<lambda>found.
     case found of
       Some existing \<Rightarrow> slift (replay_prepare serde existing params)
     | None \<Rightarrow>
         sbind (slift (deployment_for app prin (dp_profile params))) (\<lambda>deployment.
         if df_repository deployment \<noteq> dp_repository params \<or> df_target_host deployment \<noteq> dp_target_host params
         then sfail (ApiError 422 ''deployment request does not match profile'')
         else
           sbind (slift (prepare_observations as_second now app agent prin deployment params)) (\<lambda>(workspace, source_commit, source, runtime).
           sbind (slift (ok_or (ApiError 400 ''invalid deployment plan lifetime'') (ts_add now (df_plan_ttl_seconds deployment)))) (\<lambda>expires_at.
           let plan = change_plan now expires_at (ChangeId (job_id_str fresh)) deployment workspace source_commit source runtime in
           sbind (slift (ok_or (ApiError 400 ''invalid job deadline'') (ts_add now 900))) (\<lambda>deadline.
           sbind (smap_err map_store_error (submit_job_with_id digest now key fresh
                   \<lparr>nj_principal = pr_name prin, nj_host = df_builder_host deployment, nj_operation = ''deploy.prepare'',
                    nj_spec_version = 1, nj_spec = sd_job_spec serde \<lparr>dj_action = Prepare, dj_plan = plan, dj_artifact = None\<rparr>,
                    nj_policy_version = pl_policy_version plan, nj_deadline = Some deadline\<rparr>)) (\<lambda>submitted.
           sbind (if sub_created submitted
                  then sbind (smap_err map_store_error (record_workspace workspace)) (\<lambda>_.
                       sbind (smap_err map_store_error (create_change now plan (pr_name prin) fresh)) (\<lambda>_. sret ()))
                  else sret ()) (\<lambda>_.
           sret (job_handle (sub_job submitted)))))))))))"

end
