(* ===== verification/Hub_Requests.thy ===== *)
theory Hub_Requests
  imports Hub_Submit
begin

text \<open>
  \<open>maxops-hub/src/lib.rs\<close>, the job operations that read, cancel and complete, and
  \<open>run_job_operation\<close> over all of them.
\<close>

section \<open>Listings\<close>

text \<open>The store returns one row more than the page; its presence makes a cursor.\<close>

definition cut_page :: "nat \<Rightarrow> ('r \<Rightarrow> 'c) \<Rightarrow> 'r list \<Rightarrow> 'r list \<times> 'c option" where
  "cut_page limit key_of rows =
     (let shown = take limit rows in
      (shown, if length rows > limit \<and> shown \<noteq> [] then Some (key_of (last shown)) else None))"

definition jobs_list ::
  "(timestamp \<Rightarrow> string) \<Rightarrow> App \<Rightarrow> Principal \<Rightarrow> JobsListParams \<Rightarrow> store \<Rightarrow>
   (JobRecord list \<times> JobId option, ApiError) result" where
  "jobs_list ts_text app prin params s =
     rbind (case jl_host params of None \<Rightarrow> Ok () | Some host \<Rightarrow> rbind (host_for app prin host) (\<lambda>_. Ok ())) (\<lambda>_.
     if \<not> (1 \<le> jl_limit params \<and> jl_limit params \<le> 200) then Err (ApiError 400 ''job list limit must be 1..200'')
     else rbind (map_err map_store_error (list_visible_jobs ts_text (pr_name prin) (pr_hosts prin) params s)) (\<lambda>jobs.
       Ok (cut_page (jl_limit params) (\<lambda>job. h_job_id (job_handle job)) jobs)))"

definition changes_history ::
  "(timestamp \<Rightarrow> string) \<Rightarrow> App \<Rightarrow> Principal \<Rightarrow> ChangeHistoryParams \<Rightarrow> store \<Rightarrow>
   (ChangeRecord list \<times> ChangeId option, ApiError) result" where
  "changes_history ts_text app prin params s =
     rbind (map_err (ApiError 400) (ChangeHistoryParams_validate params)) (\<lambda>_.
     rbind (case hi_host params of None \<Rightarrow> Ok () | Some host \<Rightarrow> rbind (host_for app prin host) (\<lambda>_. Ok ())) (\<lambda>_.
     rbind (map_err map_store_error
             (list_visible_changes ts_text (pr_name prin) (pr_hosts prin) (pr_deployments prin) params s)) (\<lambda>changes.
     Ok (cut_page (hi_limit params) (\<lambda>change. pl_change_id (ch_plan change)) changes))))"

section \<open>Jobs\<close>

definition jobs_status ::
  "serde \<Rightarrow> (DeployRunParams \<Rightarrow> ChangeRecord \<Rightarrow> JobRecord list \<Rightarrow> json) \<Rightarrow> timestamp \<Rightarrow> App \<Rightarrow> agent \<Rightarrow> Principal \<Rightarrow>
   JobLookupParams \<Rightarrow> (JobRecord, ApiError) handler" where
  "jobs_status serde evidence now app agent prin params =
     sbind (sread (lookup_job app prin (jk_job_id params) (jk_idempotency_key params))) (\<lambda>job.
     sbind (slift (host_for app prin (h_host (job_handle job)))) (\<lambda>_.
     sbind (reconcile serde evidence now app agent prin job) (\<lambda>job.
     if \<not> is_local (h_operation (job_handle job))
        \<and> (\<not> JobState_is_terminal (h_state (job_handle job)) \<or> h_state (job_handle job) = OutcomeUnknown)
     then (case agent_request app agent (h_host (job_handle job)) (ReqStatus (h_job_id (job_handle job))) of
             Inr (RespJob target) \<Rightarrow> smap_err map_store_error (project_target_job now job target)
           | _ \<Rightarrow> sret job)
     else sret job)))"

definition jobs_logs ::
  "App \<Rightarrow> agent \<Rightarrow> Principal \<Rightarrow> JobOutputParams \<Rightarrow> store \<Rightarrow> (JobLogsResponse, ApiError) result" where
  "jobs_logs app agent prin params s =
     rbind (lookup_job app prin (jo_job_id params) (jo_idempotency_key params) s) (\<lambda>job.
     rbind (host_for app prin (h_host (job_handle job))) (\<lambda>_.
     rbind (map_err (\<lambda>_. ApiError 503 ''executor unavailable'')
             (agent_request app agent (h_host (job_handle job))
               (ReqLogs \<lparr>jlog_job_id = h_job_id (job_handle job), jlog_stdout_offset = jo_stdout_offset params,
                         jlog_stderr_offset = jo_stderr_offset params, jlog_limit = jo_limit params\<rparr>))) (\<lambda>response.
     case response of RespLogs logs \<Rightarrow> Ok logs | _ \<Rightarrow> Err (ApiError 502 ''invalid executor response''))))"

text \<open>
  Cancellation at the executor, with the revision the executor reports, before it is recorded in the
  hub and the executor's new state is projected.
\<close>

definition cancel_target :: "App \<Rightarrow> agent \<Rightarrow> JobRecord \<Rightarrow> JobCancelParams \<Rightarrow> (JobRecord, ApiError) result" where
  "cancel_target app agent job params =
     rbind (map_err (\<lambda>_. ApiError 503 ''executor unavailable'')
             (agent_request app agent (h_host (job_handle job)) (ReqStatus (jc_job_id params)))) (\<lambda>response.
     case response of
       RespJob target \<Rightarrow>
         rbind (map_err (\<lambda>_. ApiError 503 ''executor unavailable'')
                 (agent_request app agent (h_host (job_handle job))
                   (ReqCancel \<lparr>jc_job_id = jc_job_id params, jc_expected_revision = h_revision (job_handle target),
                               jc_reason = jc_reason params\<rparr>))) (\<lambda>response.
         case response of RespJob target \<Rightarrow> Ok target | _ \<Rightarrow> Err (ApiError 502 ''invalid executor response''))
     | _ \<Rightarrow> Err (ApiError 502 ''invalid executor response''))"

definition jobs_cancel ::
  "timestamp \<Rightarrow> App \<Rightarrow> agent \<Rightarrow> Principal \<Rightarrow> JobCancelParams \<Rightarrow> (JobRecord, ApiError) handler" where
  "jobs_cancel now app agent prin params =
     (if jc_reason params = [] \<or> length (jc_reason params) > 1024
      then sfail (ApiError 400 ''cancellation reason must contain 1..1024 bytes'')
      else
        sbind (smap_err map_store_error (sread (get_owned_job (pr_name prin) (jc_job_id params)))) (\<lambda>job.
        sbind (slift (host_for app prin (h_host (job_handle job)))) (\<lambda>_.
        if h_revision (job_handle job) \<noteq> jc_expected_revision params then sfail (ApiError 409 ''job revision changed'')
        else if is_local (h_operation (job_handle job))
        then smap_err map_store_error (request_cancel now (jc_job_id params) (h_revision (job_handle job)) (jc_reason params))
        else
          sbind (slift (cancel_target app agent job params)) (\<lambda>target.
          sbind (smap_err map_store_error
                  (request_cancel now (jc_job_id params) (h_revision (job_handle job)) (jc_reason params))) (\<lambda>requested.
          smap_err map_store_error (project_target_job now requested target))))))"

section \<open>Remediations\<close>

definition related_job_permitted ::
  "Principal \<Rightarrow> RemediationRecord \<Rightarrow> JobId option \<Rightarrow> store \<Rightarrow> (unit, ApiError) result" where
  "related_job_permitted prin remediation related s =
     (case related of
        None \<Rightarrow> Ok ()
      | Some job_id \<Rightarrow>
          rbind (map_err map_store_error (get_owned_job (pr_name prin) job_id s)) (\<lambda>job.
          if h_host (job_handle job) \<noteq> rm_host remediation then Err (ApiError 403 ''related job not permitted'') else Ok ()))"

definition related_change_permitted ::
  "Principal \<Rightarrow> RemediationRecord \<Rightarrow> ChangeId option \<Rightarrow> store \<Rightarrow> (unit, ApiError) result" where
  "related_change_permitted prin remediation related s =
     (case related of
        None \<Rightarrow> Ok ()
      | Some change_id \<Rightarrow>
          rbind (map_err map_store_error (get_owned_change (pr_name prin) change_id s)) (\<lambda>change.
          if pl_target_host (ch_plan change) \<noteq> rm_host remediation then Err (ApiError 403 ''related change not permitted'')
          else Ok ()))"

definition remediations_finish ::
  "timestamp \<Rightarrow> string \<Rightarrow> App \<Rightarrow> Principal \<Rightarrow> RemediationFinishParams \<Rightarrow> (RemediationRecord, ApiError) handler" where
  "remediations_finish now fresh_event app prin params =
     sbind (bad_request (RemediationFinishParams_validate params)) (\<lambda>_.
     sbind (smap_err map_store_error (sread (get_remediation (rf_remediation_id params) (pr_name prin)))) (\<lambda>remediation.
     sbind (slift (host_for app prin (rm_host remediation))) (\<lambda>_.
     sbind (sread (related_job_permitted prin remediation (rf_related_job_id params))) (\<lambda>_.
     sbind (sread (related_change_permitted prin remediation (rf_related_change_id params))) (\<lambda>_.
     smap_err map_store_error
       (finish_remediation now fresh_event (rf_remediation_id params) (pr_name prin)
         \<lparr>rc_expected_revision = rf_expected_revision params, rc_outcome = rf_outcome params,
          rc_related_job_id = rf_related_job_id params, rc_related_change_id = rf_related_change_id params,
          rc_summary = rf_summary params\<rparr>))))))"

section \<open>Workspaces\<close>

definition workspace_record ::
  "App \<Rightarrow> agent \<Rightarrow> Principal \<Rightarrow> string \<Rightarrow> WorkspaceTargetRequest \<Rightarrow> (WorkspaceRecord, ApiError) result" where
  "workspace_record app agent prin repository request =
     rbind (forward_workspace app agent prin repository request) (\<lambda>response.
     case response of WtRecord record \<Rightarrow> Ok record | _ \<Rightarrow> Err (ApiError 502 ''invalid executor response''))"

definition workspace_status ::
  "App \<Rightarrow> agent \<Rightarrow> Principal \<Rightarrow> WorkspaceStatusParams \<Rightarrow> (WorkspaceRecord, ApiError) result" where
  "workspace_status app agent prin params =
     rbind (map_err (ApiError 400) (WorkspaceStatusParams_validate params)) (\<lambda>_.
     workspace_record app agent prin (wst_repository params) (WtStatus params))"

definition workspace_read ::
  "App \<Rightarrow> agent \<Rightarrow> Principal \<Rightarrow> WorkspaceReadParams \<Rightarrow> (WorkspaceFile, ApiError) result" where
  "workspace_read app agent prin params =
     rbind (map_err (ApiError 400) (WorkspaceReadParams_validate params)) (\<lambda>_.
     rbind (forward_workspace app agent prin (wr_repository params) (WtRead params)) (\<lambda>response.
     case response of WtFile file \<Rightarrow> Ok file | _ \<Rightarrow> Err (ApiError 502 ''invalid executor response'')))"

definition workspace_apply ::
  "App \<Rightarrow> agent \<Rightarrow> Principal \<Rightarrow> WorkspaceApplyParams \<Rightarrow> (WorkspaceRecord, ApiError) result" where
  "workspace_apply app agent prin params =
     rbind (map_err (ApiError 400) (WorkspaceApplyParams_validate params)) (\<lambda>_.
     workspace_record app agent prin (wa_repository params) (WtApply params))"

definition workspace_diff ::
  "App \<Rightarrow> agent \<Rightarrow> Principal \<Rightarrow> WorkspaceRevisionParams \<Rightarrow> (WorkspaceDiff, ApiError) result" where
  "workspace_diff app agent prin params =
     rbind (map_err (ApiError 400) (WorkspaceRevisionParams_validate params)) (\<lambda>_.
     rbind (forward_workspace app agent prin (wv_repository params) (WtDiff params)) (\<lambda>response.
     case response of WtDiffOf diff \<Rightarrow> Ok diff | _ \<Rightarrow> Err (ApiError 502 ''invalid executor response'')))"

definition workspace_commit ::
  "App \<Rightarrow> agent \<Rightarrow> Principal \<Rightarrow> WorkspaceCommitParams \<Rightarrow> (WorkspaceRecord, ApiError) result" where
  "workspace_commit app agent prin params =
     rbind (map_err (ApiError 400) (WorkspaceCommitParams_validate params)) (\<lambda>_.
     workspace_record app agent prin (wm_repository params) (WtCommit params))"

section \<open>The operations\<close>

text \<open>The requests that are not observations, with their parameters, and the values of the answers.\<close>

datatype JobRequest =
    RqExecRun ExecRunParams
  | RqUnitsStart UnitActionParams
  | RqUnitsStop UnitActionParams
  | RqUnitsRestart UnitActionParams
  | RqUnitsReload UnitActionParams
  | RqWorkspaceCreate WorkspaceCreateParams
  | RqWorkspaceCheck WorkspaceCheckParams
  | RqWorkspacePublish WorkspacePublishParams
  | RqDeployPrepare DeployPrepareParams
  | RqDeployBuild DeployChangeParams
  | RqDeployActivate DeployChangeParams
  | RqDeployVerify DeployChangeParams
  | RqDeployRollback DeployChangeParams
  | RqChangesStatus ChangeId
  | RqChangesHistory ChangeHistoryParams
  | RqWorkspaceStatus WorkspaceStatusParams
  | RqWorkspaceRead WorkspaceReadParams
  | RqWorkspaceApply WorkspaceApplyParams
  | RqWorkspaceDiff WorkspaceRevisionParams
  | RqWorkspaceCommit WorkspaceCommitParams
  | RqDiagnosticsCollect DiagnosticCollectParams
  | RqRemediationsBegin RemediationBeginParams
  | RqRemediationsFinish RemediationFinishParams
  | RqJobsEvents JobEventsParams
  | RqJobsResult JobResultParams
  | RqDeployRun DeployRunParams
  | RqJobsList JobsListParams
  | RqJobsStatus JobLookupParams
  | RqJobsLogs JobOutputParams
  | RqJobsCancel JobCancelParams

text \<open>The operation of a request.\<close>

primrec request_tag :: "JobRequest \<Rightarrow> RequestTag" where
  "request_tag (RqExecRun _) = ExecRun"
| "request_tag (RqUnitsStart _) = UnitsStart"
| "request_tag (RqUnitsStop _) = UnitsStop"
| "request_tag (RqUnitsRestart _) = UnitsRestart"
| "request_tag (RqUnitsReload _) = UnitsReload"
| "request_tag (RqWorkspaceCreate _) = WorkspaceCreate"
| "request_tag (RqWorkspaceCheck _) = WorkspaceCheck"
| "request_tag (RqWorkspacePublish _) = WorkspacePublish"
| "request_tag (RqDeployPrepare _) = DeployPrepare"
| "request_tag (RqDeployBuild _) = DeployBuild"
| "request_tag (RqDeployActivate _) = DeployActivate"
| "request_tag (RqDeployVerify _) = DeployVerify"
| "request_tag (RqDeployRollback _) = DeployRollback"
| "request_tag (RqChangesStatus _) = ChangesStatus"
| "request_tag (RqChangesHistory _) = ChangesHistory"
| "request_tag (RqWorkspaceStatus _) = WorkspaceStatus"
| "request_tag (RqWorkspaceRead _) = WorkspaceRead"
| "request_tag (RqWorkspaceApply _) = WorkspaceApply"
| "request_tag (RqWorkspaceDiff _) = WorkspaceDiff"
| "request_tag (RqWorkspaceCommit _) = WorkspaceCommit"
| "request_tag (RqDiagnosticsCollect _) = DiagnosticsCollect"
| "request_tag (RqRemediationsBegin _) = RemediationsBegin"
| "request_tag (RqRemediationsFinish _) = RemediationsFinish"
| "request_tag (RqJobsEvents _) = JobsEvents"
| "request_tag (RqJobsResult _) = JobsResult"
| "request_tag (RqDeployRun _) = DeployRun"
| "request_tag (RqJobsList _) = JobsList"
| "request_tag (RqJobsStatus _) = JobsStatus"
| "request_tag (RqJobsLogs _) = JobsLogs"
| "request_tag (RqJobsCancel _) = JobsCancel"

datatype Answer =
    AnswerHandle JobHandle
  | AnswerJob JobRecord
  | AnswerJobs "JobRecord list" "JobId option"
  | AnswerChange ChangeRecord
  | AnswerChanges "ChangeRecord list" "ChangeId option"
  | AnswerWorkspace WorkspaceRecord
  | AnswerFile WorkspaceFile
  | AnswerDiff WorkspaceDiff
  | AnswerLogs JobLogsResponse
  | AnswerRemediation RemediationRecord
  | AnswerEvents job_events_answer
  | AnswerResult JobHandle "fragment option"

definition answer :: "('a \<Rightarrow> 'b) \<Rightarrow> ('a, 'e) handler \<Rightarrow> ('b, 'e) handler" where
  "answer f m = sbind m (\<lambda>x. sret (f x))"

text \<open>What the operations need from the outside: hashes, the clock, fresh identifiers, codecs.\<close>

record outside =
  o_digest :: "json \<Rightarrow> string"
  o_hex_digest :: "string \<Rightarrow> string"
  o_ts_text :: "timestamp \<Rightarrow> string"
  o_as_second :: "timestamp \<Rightarrow> int"
  o_ts_add :: "timestamp \<Rightarrow> nat \<Rightarrow> timestamp option"
  o_serde :: serde
  o_evidence :: "DeployRunParams \<Rightarrow> ChangeRecord \<Rightarrow> JobRecord list \<Rightarrow> json"
  o_pointer :: "string \<Rightarrow> json \<Rightarrow> json option"
  o_to_string :: "json \<Rightarrow> string"
  o_now :: timestamp
  o_fresh :: JobId
  o_fresh_event :: string
  o_agent :: agent

definition unit_request :: "outside \<Rightarrow> App \<Rightarrow> Principal \<Rightarrow> headers \<Rightarrow> string \<Rightarrow> UnitActionParams \<Rightarrow> (Answer, ApiError) handler" where
  "unit_request env app prin hs operation params =
     answer AnswerHandle (submit_unit_action (o_digest env) (o_ts_add env) (o_serde env) (o_now env) (o_fresh env)
       app prin hs operation params)"

definition workspace_request ::
  "outside \<Rightarrow> App \<Rightarrow> Principal \<Rightarrow> headers \<Rightarrow> (unit, string) result \<Rightarrow> string \<Rightarrow> string \<Rightarrow> json \<Rightarrow> nat \<Rightarrow>
   (Answer, ApiError) handler" where
  "workspace_request env app prin hs valid operation repository spec timeout =
     sbind (bad_request valid) (\<lambda>_.
     answer AnswerHandle (submit_workspace_job (o_digest env) (o_ts_add env) (o_now env) (o_fresh env)
       app prin hs operation repository spec timeout))"

definition stage_request ::
  "outside \<Rightarrow> App \<Rightarrow> Principal \<Rightarrow> headers \<Rightarrow> DeployChangeParams \<Rightarrow> DeploymentAction \<Rightarrow> (Answer, ApiError) handler" where
  "stage_request env app prin hs params action =
     sbind (bad_request (DeployChangeParams_validate params)) (\<lambda>_.
     answer AnswerHandle (submit_change_stage (o_digest env) (o_hex_digest env) (o_as_second env) (o_ts_add env)
       (o_serde env) (o_now env) (o_fresh env) app (o_agent env) prin hs params action))"

text \<open>The submitting half of \<open>run_job_operation\<close>.\<close>

definition run_submission ::
  "outside \<Rightarrow> App \<Rightarrow> Principal \<Rightarrow> headers \<Rightarrow> JobRequest \<Rightarrow> (Answer, ApiError) handler option" where
  "run_submission env app prin hs request =
     (case request of
        RqExecRun p \<Rightarrow> Some (answer AnswerHandle (exec_run (o_digest env) (o_ts_add env) (o_serde env) (o_now env) (o_fresh env) app prin hs p))
      | RqUnitsStart p \<Rightarrow> Some (unit_request env app prin hs ''units.start'' p)
      | RqUnitsStop p \<Rightarrow> Some (unit_request env app prin hs ''units.stop'' p)
      | RqUnitsRestart p \<Rightarrow> Some (unit_request env app prin hs ''units.restart'' p)
      | RqUnitsReload p \<Rightarrow> Some (unit_request env app prin hs ''units.reload'' p)
      | RqWorkspaceCreate p \<Rightarrow>
          Some (workspace_request env app prin hs (WorkspaceCreateParams_validate p) ''workspace.create''
            (wc_repository p) (sd_workspace_create (o_serde env) p) 300)
      | RqWorkspaceCheck p \<Rightarrow>
          Some (workspace_request env app prin hs (WorkspaceCheckParams_validate p) ''workspace.check''
            (wk_repository p) (sd_workspace_check (o_serde env) p) 3600)
      | RqWorkspacePublish p \<Rightarrow>
          Some (workspace_request env app prin hs (WorkspacePublishParams_validate p) ''workspace.publish''
            (wp_repository p) (sd_workspace_publish (o_serde env) p) 300)
      | RqDeployPrepare p \<Rightarrow>
          Some (sbind (bad_request (DeployPrepareParams_validate p)) (\<lambda>_.
            answer AnswerHandle (prepare_change (o_digest env) (o_as_second env) (o_ts_add env) (o_serde env) (o_now env)
              (o_fresh env) app (o_agent env) prin hs p)))
      | RqDeployBuild p \<Rightarrow> Some (stage_request env app prin hs p Build)
      | RqDeployActivate p \<Rightarrow> Some (stage_request env app prin hs p Activate)
      | RqDeployVerify p \<Rightarrow> Some (stage_request env app prin hs p Verify)
      | RqDeployRollback p \<Rightarrow> Some (stage_request env app prin hs p Rollback)
      | RqDiagnosticsCollect p \<Rightarrow>
          Some (answer AnswerHandle (diagnostics_collect (o_digest env) (o_ts_add env) (o_serde env) (o_now env) (o_fresh env)
            app prin hs p))
      | RqRemediationsBegin p \<Rightarrow>
          Some (answer AnswerHandle (remediations_begin (o_digest env) (o_ts_add env) (o_serde env) (o_now env) (o_fresh env)
            app prin hs p))
      | RqDeployRun p \<Rightarrow>
          Some (answer AnswerHandle (workflow_submit (o_digest env) (o_ts_add env) (o_serde env) (o_now env) (o_fresh env)
            app (o_agent env) prin hs p))
      | _ \<Rightarrow> None)"

text \<open>The other half; \<open>jobs.wait\<close> is \<open>wait_start\<close> and \<open>wait_rounds\<close>.\<close>

definition run_reading ::
  "outside \<Rightarrow> App \<Rightarrow> Principal \<Rightarrow> JobRequest \<Rightarrow> (Answer, ApiError) handler" where
  "run_reading env app prin request =
     (case request of
        RqChangesStatus cid \<Rightarrow> answer AnswerChange (refresh_change (o_serde env) (o_now env) app (o_agent env) prin cid)
      | RqChangesHistory p \<Rightarrow> answer (\<lambda>(cs, c). AnswerChanges cs c) (sread (changes_history (o_ts_text env) app prin p))
      | RqWorkspaceStatus p \<Rightarrow> answer AnswerWorkspace (slift (workspace_status app (o_agent env) prin p))
      | RqWorkspaceRead p \<Rightarrow> answer AnswerFile (slift (workspace_read app (o_agent env) prin p))
      | RqWorkspaceApply p \<Rightarrow> answer AnswerWorkspace (slift (workspace_apply app (o_agent env) prin p))
      | RqWorkspaceDiff p \<Rightarrow> answer AnswerDiff (slift (workspace_diff app (o_agent env) prin p))
      | RqWorkspaceCommit p \<Rightarrow> answer AnswerWorkspace (slift (workspace_commit app (o_agent env) prin p))
      | RqRemediationsFinish p \<Rightarrow> answer AnswerRemediation (remediations_finish (o_now env) (o_fresh_event env) app prin p)
      | RqJobsEvents p \<Rightarrow> answer AnswerEvents (sread (client_events app prin p))
      | RqJobsResult p \<Rightarrow> answer (\<lambda>(h, f). AnswerResult h f) (sread (client_result (o_pointer env) (o_to_string env) app prin p))
      | RqJobsList p \<Rightarrow> answer (\<lambda>(js, c). AnswerJobs js c) (sread (jobs_list (o_ts_text env) app prin p))
      | RqJobsStatus p \<Rightarrow> answer AnswerJob (jobs_status (o_serde env) (o_evidence env) (o_now env) app (o_agent env) prin p)
      | RqJobsLogs p \<Rightarrow> answer AnswerLogs (sread (jobs_logs app (o_agent env) prin p))
      | RqJobsCancel p \<Rightarrow> answer AnswerJob (jobs_cancel (o_now env) app (o_agent env) prin p)
      | _ \<Rightarrow> sfail (ApiError 500 ''observation routed as job operation''))"

definition run_job_operation ::
  "outside \<Rightarrow> App \<Rightarrow> Principal \<Rightarrow> headers \<Rightarrow> JobRequest \<Rightarrow> (Answer, ApiError) handler" where
  "run_job_operation env app prin hs request =
     sbind (slift (durable_store app)) (\<lambda>_.
     case run_submission env app prin hs request of
       Some handler \<Rightarrow> handler
     | None \<Rightarrow> run_reading env app prin request)"

text \<open>
  \<open>execute\<close> for these requests. In the source a request whose operation is registered as an
  observation is answered by \<open>run\<close>; those are not requests of this type.
\<close>

definition execute ::
  "outside \<Rightarrow> (string \<Rightarrow> string \<Rightarrow> bool) \<Rightarrow> App \<Rightarrow> headers \<Rightarrow> Representation \<Rightarrow> bool \<Rightarrow> JobRequest \<Rightarrow> (Answer, ApiError) handler" where
  "execute env ct_eq app hs representation slot request =
     sbind (slift (execute_admission ct_eq app hs (request_tag request) slot (Representation_validate representation))) (\<lambda>prin.
     run_job_operation env app prin hs request)"

end
