(* ===== verification/Hub_Runs.thy ===== *)
theory Hub_Runs
  imports Hub_Requests Hub_Facts
begin

text \<open>
  Whatever a request does to the store is a run of store operations: the invariants and properties
  of all reachable stores hold in the hub.
\<close>

section \<open>Operations\<close>

text \<open>Identifiers in requests and answers were parsed when they were read.\<close>

definition agent_ids_ok :: "agent \<Rightarrow> bool" where
  "agent_ids_ok agent \<longleftrightarrow>
     (\<forall>host request w. agent host request = Ok (RespWorkspace (WtRecord w)) \<longrightarrow>
        uuid_text (workspace_id_str (ws_workspace_id w)))"

definition request_ids_ok :: "JobRequest \<Rightarrow> bool" where
  "request_ids_ok request =
     (case request of
        RqRemediationsFinish p \<Rightarrow>
          pred_option (\<lambda>j. uuid_text (job_id_str j)) (rf_related_job_id p)
          \<and> pred_option (\<lambda>c. uuid_text (change_id_str c)) (rf_related_change_id p)
      | _ \<Rightarrow> True)"

lemma forward_workspace_ids:
  assumes "agent_ids_ok agent" and "forward_workspace app agent prin repository request = Ok (WtRecord w)"
  shows "uuid_text (workspace_id_str (ws_workspace_id w))"
proof -
  from assms(2) obtain host where "agent_request app agent host (ReqWorkspace (pr_name prin) request) = Ok (RespWorkspace (WtRecord w))"
    by (cases "repository_host app prin repository")
      (auto simp: forward_workspace_def map_err_def split: sum.splits ExecutorResponse.splits)
  then have "agent host (ReqWorkspace (pr_name prin) request) = Ok (RespWorkspace (WtRecord w))"
    by (cases "app_hosts app host"; cases "host_execution_token (the (app_hosts app host))")
      (simp_all add: agent_request_def)
  with assms(1) show ?thesis by (auto simp: agent_ids_ok_def)
qed

lemma prepare_observations_ids:
  assumes "agent_ids_ok agent" and "prepare_observations as_second now app agent prin deployment params = Ok (w, c, h, r)"
  shows "uuid_text (workspace_id_str (ws_workspace_id w))"
proof -
  obtain response where fw: "forward_workspace app agent prin (dp_repository params)
      (WtStatus \<lparr>wst_repository = dp_repository params, wst_workspace_id = dp_workspace_id params\<rparr>) = Ok response"
    using assms(2) by (cases "forward_workspace app agent prin (dp_repository params)
      (WtStatus \<lparr>wst_repository = dp_repository params, wst_workspace_id = dp_workspace_id params\<rparr>)")
      (auto simp: prepare_observations_def)
  have "response = WtRecord w"
  proof (cases response)
    case (WtRecord w')
    then show ?thesis using assms(2) fw
      by (cases "ws_commit_hash w'"; cases "repository_head app agent prin (df_repository deployment) (df_source_reference deployment)";
          cases "runtime_state as_second now app agent prin deployment")
        (auto simp: prepare_observations_def split: if_splits)
  qed (use assms(2) fw in \<open>simp_all add: prepare_observations_def\<close>)
  with fw forward_workspace_ids[OF assms(1)] show ?thesis by blast
qed

lemma run_submit_with_id [handler_intros]:
  "nj_spec_version new \<le> u32_max \<Longrightarrow> uuid_text (job_id_str jid) \<Longrightarrow>
   run.keeps digest ts_text as_second ts_add (submit_job_with_id digest now key jid new)"
  by (intro run.keepsI step_steps) (rule store_step.submit, simp add: submit_job_with_id_def)

lemma run_record_workspace [handler_intros]:
  "uuid_text (workspace_id_str (ws_workspace_id w)) \<Longrightarrow>
   run.keeps digest ts_text as_second ts_add (record_workspace w)"
  by (intro run.keepsI step_steps) (rule store_step.record_workspace)

lemma run_create_change [handler_intros]:
  "run.keeps digest ts_text as_second ts_add (create_change now plan creator jid)"
  by (intro run.keepsI step_steps) (rule store_step.create_change)

lemma run_finish_remediation [handler_intros]:
  "completion_ids_ok c \<Longrightarrow> run.keeps digest ts_text as_second ts_add (finish_remediation now fresh_event rid prin c)"
  by (intro run.keepsI step_steps) (rule store_step.finish_remediation)

section \<open>Handlers\<close>

context handler_frame
begin

lemma keeps_answer_of [handler_intros]: "keeps m \<Longrightarrow> keeps (answer f m)"
  unfolding answer_def by (intro handler_intros)

lemma keeps_bad_request [handler_intros]: "keeps (bad_request r)"
  unfolding bad_request_def by (intro handler_intros)

lemma keeps_prod_eq: "(\<And>x y. p = (x, y) \<Longrightarrow> keeps (f x y)) \<Longrightarrow> keeps (case_prod f p)"
  by (cases p) simp

end

lemma run_submit_hub_job [handler_intros]:
  "uuid_text (job_id_str fresh) \<Longrightarrow>
   run.keeps digest ts_text as_second ts_add (submit_hub_job digest ts_add' now fresh app prin hs operation host spec timeout)"
  unfolding submit_hub_job_def by (intro handler_intros) (simp_all add: hub_job_def)

lemma stable_child_job_id_uuid: "stable_child_job_id hex_digest parent key = Ok jid \<Longrightarrow> uuid_text (job_id_str jid)"
  by (auto simp: stable_child_job_id_def JobId_parse_def Let_def split: if_splits)

lemma run_submit_stage [handler_intros]:
  assumes "uuid_text (job_id_str fresh)"
  shows "run.keeps digest ts_text as_second' ts_add' (submit_change_stage_owned digest hex_digest as_second ts_add serde now fresh
     app agent prin hs params action workflow)"
proof -
  have child: "uuid_text (job_id_str jid)"
    if "map_err (\<lambda>_. ApiError 500 ''digest produces a valid job ID'')
      (case workflow of None \<Rightarrow> Ok fresh | Some parent \<Rightarrow> stable_child_job_id hex_digest parent operation) = Ok jid" for operation jid
    using that assms by (auto simp: map_err_def stable_child_job_id_uuid split: option.splits sum.splits)
  show ?thesis
    unfolding submit_change_stage_owned_def
    by (rule run.keeps_sbind_slift handler_intros child | assumption | simp)+
qed

lemma run_submitting [handler_intros]:
  assumes "uuid_text (job_id_str fresh)"
  shows "run.keeps digest ts_text as_second ts_add (exec_run digest ts_add' serde now fresh app prin hs p1)"
    and "run.keeps digest ts_text as_second ts_add (submit_unit_action digest ts_add' serde now fresh app prin hs operation p2)"
    and "run.keeps digest ts_text as_second ts_add
      (submit_workspace_job digest ts_add' now fresh app prin hs operation repository spec timeout)"
    and "run.keeps digest ts_text as_second ts_add (diagnostics_collect digest ts_add' serde now fresh app prin hs p3)"
    and "run.keeps digest ts_text as_second ts_add (remediations_begin digest ts_add' serde now fresh app prin hs p4)"
  unfolding exec_run_def submit_unit_action_def submit_workspace_job_def diagnostics_collect_def remediations_begin_def
  by (intro handler_intros assms)+

lemma run_workflow_submit [handler_intros]:
  "uuid_text (job_id_str fresh) \<Longrightarrow>
   run.keeps digest ts_text as_second ts_add (workflow_submit digest ts_add' serde now fresh app agent prin hs params)"
  unfolding workflow_submit_def by (intro handler_intros) simp_all

lemma run_prepare_change [handler_intros]:
  assumes "uuid_text (job_id_str fresh)" and "agent_ids_ok agent"
  shows "run.keeps digest ts_text as_second' ts_add' (prepare_change digest as_second ts_add serde now fresh app agent prin hs params)"
  unfolding prepare_change_def Let_def
  by (rule run.keeps_sbind_slift run.keeps_prod_eq handler_intros assms(1)
      | (hypsubst, erule prepare_observations_ids[OF assms(2)]) | simp)+

lemma run_reconcile_children [handler_intros]:
  "run.keeps digest ts_text as_second ts_add (reconcile_children now app agent prin jids)"
proof (induction jids)
  case (Cons jid jids)
  show ?case unfolding reconcile_children.simps by (intro handler_intros Cons)
qed (simp add: run.keeps_pure)

text \<open>A transition whose failure is answered with another read.\<close>

context handler_frame
begin

lemma keeps_retry:
  "keeps m \<Longrightarrow> keeps (\<lambda>s. case m s of (s', Inr x) \<Rightarrow> (s', f s' x) | (s', Inl e) \<Rightarrow> if b e then (s', g s' e) else (s', h s' e))"
  by (auto intro!: keepsI split: prod.splits sum.splits if_splits dest: keepsD)

end

lemma run_reconcile [handler_intros]:
  "run.keeps digest ts_text as_second ts_add (reconcile serde evidence now app agent prin job)"
  unfolding reconcile_def by (rule run.keeps_retry handler_intros)+

lemma run_reading_handlers [handler_intros]:
  shows "run.keeps digest ts_text as_second ts_add (jobs_status serde evidence now app agent prin p1)"
    and "run.keeps digest ts_text as_second ts_add (jobs_cancel now app agent prin p2)"
  unfolding jobs_status_def jobs_cancel_def by (intro handler_intros)+

lemma run_remediations_finish [handler_intros]:
  "request_ids_ok (RqRemediationsFinish p) \<Longrightarrow>
   run.keeps digest ts_text as_second ts_add (remediations_finish now fresh_event app prin p)"
  unfolding remediations_finish_def
  by (intro handler_intros) (auto simp: completion_ids_ok_def request_ids_ok_def split: option.splits)

lemma run_requests:
  assumes "uuid_text (job_id_str (o_fresh env))"
  shows "run.keeps (o_digest env) ts_text as_second ts_add (unit_request env app prin hs operation p1)"
    and "run.keeps (o_digest env) ts_text as_second ts_add (workspace_request env app prin hs valid operation repository spec timeout)"
    and "run.keeps (o_digest env) ts_text as_second ts_add (stage_request env app prin hs p2 action)"
  unfolding unit_request_def workspace_request_def stage_request_def submit_change_stage_def
  by (intro handler_intros assms)+

lemma run_submission_keeps:
  assumes "uuid_text (job_id_str (o_fresh env))" and "agent_ids_ok (o_agent env)"
  shows "pred_option (run.keeps (o_digest env) ts_text as_second ts_add) (run_submission env app prin hs request)"
  by (cases request) (simp_all add: run_submission_def, (intro run_requests handler_intros assms)+)

lemma run_reading_keeps:
  assumes "request_ids_ok request"
  shows "run.keeps (o_digest env) ts_text as_second ts_add (run_reading env app prin request)"
proof (cases request)
  case (RqRemediationsFinish p)
  with assms have "request_ids_ok (RqRemediationsFinish p)" by simp
  then show ?thesis unfolding run_reading_def RqRemediationsFinish JobRequest.case by (intro handler_intros)
qed (simp_all add: run_reading_def, (intro handler_intros)+)

lemma run_execute:
  assumes "uuid_text (job_id_str (o_fresh env))" and "agent_ids_ok (o_agent env)" and "request_ids_ok request"
  shows "run.keeps (o_digest env) ts_text as_second ts_add (execute env ct_eq app hs representation slot request)"
proof -
  have "run.keeps (o_digest env) ts_text as_second ts_add
      (case run_submission env app prin hs request of Some handler \<Rightarrow> handler | None \<Rightarrow> run_reading env app prin request)" for prin
    using run_reading_keeps[OF assms(3)]
      run_submission_keeps[OF assms(1,2), of ts_text as_second ts_add app prin hs request]
    by (cases "run_submission env app prin hs request") simp_all
  then show ?thesis
    unfolding execute_def run_job_operation_def by (intro run.keeps_sbind run.keeps_pure)
qed

lemma steps_reachable:
  assumes "steps digest ts_text as_second ts_add s s'" and "reachable digest ts_text as_second ts_add s"
  shows "reachable digest ts_text as_second ts_add s'"
  using assms unfolding steps_def by (induction rule: rtranclp_induct) (auto intro: reachable.step)

end
