(* ===== verification/Hub_Change_Facts.thy ===== *)
theory Hub_Change_Facts
  imports Hub_Facts Hub_Runs
begin

text \<open>What the hub's change handlers establish: projections, refreshes, stages and preparation.\<close>

section \<open>Projections are stored\<close>

lemma project_to_stored:
  assumes "project_to now current st target s = (s', Ok job)" and "jobs_inv s"
  shows "get_job (h_job_id (job_handle current)) s' = Ok job" and "h_job_id (job_handle job) = h_job_id (job_handle current)"
    and "jobs_inv s'"
  using transition_job_Ok[OF assms(1)[unfolded project_to_def] assms(2)]
    transition_preserves_jobs_inv[OF assms(1)[unfolded project_to_def] assms(2)] by simp_all

lemma project_target_job_stored:
  assumes "project_target_job now current target s = (s', Ok job)" and "jobs_inv s"
    and "get_job (h_job_id (job_handle current)) s = Ok current"
  shows "get_job (h_job_id (job_handle current)) s' = Ok job" and "jobs_inv s'" and "st_changes s' = st_changes s"
proof -
  have "jobs_moved s s'" by (rule moved.keepsD[OF moved_project assms(1)])
  with assms(2) show "jobs_inv s'" and "st_changes s' = st_changes s" by (simp_all add: jobs_moved_def)
  have same: "same_target current target" using project_target_job_Ok(1)[OF assms(1,2)] .
  show "get_job (h_job_id (job_handle current)) s' = Ok job"
  proof (cases "h_state (job_handle current) = h_state (job_handle target)")
    case True
    then show ?thesis using assms(1,3) same by (simp add: project_target_job_def)
  next
    case False
    then obtain s1 mid where
      mid: "(if h_state (job_handle target) = OutcomeUnknown
            \<and> \<not> JobState_can_transition_to (h_state (job_handle current)) OutcomeUnknown
            \<and> JobState_can_transition_to (h_state (job_handle current)) Reconciling
         then project_to now current Reconciling target else sret current) s = (s1, Ok mid)"
      and last: "(if \<not> JobState_can_transition_to (h_state (job_handle mid)) (h_state (job_handle target))
        then sret mid else project_to now mid (h_state (job_handle target)) target) s1 = (s', Ok job)"
      using assms(1) same unfolding project_target_job_def by (auto simp: sbind_Ok)
    have m: "get_job (h_job_id (job_handle current)) s1 = Ok mid" "h_job_id (job_handle mid) = h_job_id (job_handle current)" "jobs_inv s1"
      using mid assms(2,3) project_to_stored[OF _ assms(2)] by (auto split: if_splits)
    show ?thesis
      using last m project_to_stored(1)[OF _ m(3), of now mid] by (auto split: if_splits)
  qed
qed

section \<open>Transitions of a change\<close>

lemma transition_change_Ok:
  assumes "transition_change now cid creator u s = (s', Ok c')" and "changes_inv s"
  shows "ch_state c' = ct_next u" and "st_jobs s' = st_jobs s" and "get_change cid s' = Ok c'"
    and "\<exists>c. get_change cid s = Ok c \<and> ch_creator c = creator \<and> ch_revision c = ct_expected_revision u
      \<and> (ch_state c = ct_next u \<or> ChangeState_can_transition_to (ch_state c) (ct_next u))"
proof -
  from assms have "ch_state c' = ct_next u \<and> st_jobs s' = st_jobs s \<and> get_change cid s' = Ok c'
      \<and> (\<exists>c. get_change cid s = Ok c \<and> ch_creator c = creator \<and> ch_revision c = ct_expected_revision u
      \<and> (ch_state c = ct_next u \<or> ChangeState_can_transition_to (ch_state c) (ct_next u)))"
  proof (cases rule: transition_change_cases)
    case (step row)
    let ?f = "moved_change now u (cr_revision row + 1)"
    have f: "cr_id (?f x) = cr_id x" for x by (simp add: moved_change_def)
    have tab: "st_changes s' = update_where (\<lambda>r. cr_id r = change_id_str cid) ?f (st_changes s)"
      by (simp add: step(6))
    have "?f row \<in> set (st_changes s')" using step(1,2) by (force simp: tab set_update_where)
    then have got: "get_change cid s' = Ok (decoded_change (?f row))"
      unfolding get_change_iff[OF transition_preserves_changes_inv[OF assms]] using f step(2) by metis
    have "row_change_state (?f row) = ct_next u" by (rule row_change_state_as_str) (simp add: moved_change_def)
    moreover have "get_change cid s = Ok (decoded_change row)"
      unfolding get_change_iff[OF assms(2)] using step(1,2) by blast
    ultimately show ?thesis using got step(3,4,5,6,7) by (simp add: decoded_change_def)
  qed simp
  then show "ch_state c' = ct_next u" and "st_jobs s' = st_jobs s" and "get_change cid s' = Ok c'"
    and "\<exists>c. get_change cid s = Ok c \<and> ch_creator c = creator \<and> ch_revision c = ct_expected_revision u
      \<and> (ch_state c = ct_next u \<or> ChangeState_can_transition_to (ch_state c) (ct_next u))"
    by blast+
qed

lemma get_job_frame: "st_jobs s' = st_jobs s \<Longrightarrow> get_job jid s' = get_job jid s"
  by (simp add: get_job_def get_job_by_text_def)

section \<open>Refreshing a change\<close>

lemma apply_report_state: "ch_state (fst (apply_report job report change)) = ch_state change"
  by (simp add: apply_report_def Let_def split: DeploymentReportStatus.splits option.splits)

lemma apply_report_succeeded: "snd (apply_report job report change) = ChSucceeded \<longleftrightarrow> rp_status report = RVerified"
  by (auto simp: apply_report_def Let_def split: DeploymentReportStatus.splits option.splits)

text \<open>A stage that makes the change succeed has ended with a report of a verification.\<close>

lemma finish_stage_succeeded:
  assumes "finish_stage serde now prin change job s = (s', Ok c')" and "changes_inv s"
    and "ch_state c' = ChSucceeded" and "ch_state change \<noteq> ChSucceeded"
  obtains report where "JobState_is_terminal (h_state (job_handle job))" and "job_report serde job = Some report"
    and "rp_status report = RVerified" and "expected_action (ch_state change) = Some (rp_action report)"
    and "st_jobs s' = st_jobs s"
    and "\<exists>c. get_change (pl_change_id (ch_plan (fst (apply_report job report change)))) s = Ok c
      \<and> ch_revision c = ch_revision (fst (apply_report job report change)) \<and> ch_state c \<in> {Verifying, ChSucceeded}"
proof -
  have ended: "JobState_is_terminal (h_state (job_handle job))"
    using assms(1,3,4) by (cases "JobState_is_terminal (h_state (job_handle job))") (simp_all add: finish_stage_def)
  then obtain act where act: "expected_action (ch_state change) = Some act"
    using assms(1,3,4) by (cases "expected_action (ch_state change)") (simp_all add: finish_stage_def)
  have missing: False if "transition_change_state now change (missing_report_state job change) r s = (s', Ok c')" for r
    using that assms(2,3) transition_change_Ok(1)[OF _ assms(2)]
    by (auto simp: transition_change_state_def change_update_def missing_report_state_def split: if_splits)
  obtain report where rep: "job_report serde job = Some report" "rp_action report = act"
    using assms(1) ended act missing
    by (cases "job_report serde job"; cases "rp_action (the (job_report serde job)) = act") (auto simp: finish_stage_def)
  obtain c1 nx where ap: "apply_report job report change = (c1, nx)" by fastforce
  have st: "store_report now prin c1 nx report s = (s', Ok c')"
    using assms(1) ended act rep ap by (simp add: finish_stage_def)
  have c1: "ch_state c1 \<noteq> ChSucceeded" using apply_report_state[of job report change] ap assms(4) by simp
  obtain r where tr: "transition_change now (pl_change_id (ch_plan c1)) (pr_name prin) (change_update c1 nx (report_recovery report)) s = (s', r)"
    and r: "r = Ok c'"
  proof -
    obtain s2 r where tr: "transition_change now (pl_change_id (ch_plan c1)) (pr_name prin)
        (change_update c1 nx (report_recovery report)) s = (s2, r)" by fastforce
    with st c1 assms(3) have "s2 = s' \<and> r = Ok c'"
      by (cases r) (auto simp: store_report_def split: if_splits)
    with tr that show thesis by blast
  qed
  note ok = transition_change_Ok[OF tr[unfolded r] assms(2)]
  have "nx = ChSucceeded" using ok(1) assms(3) by (simp add: change_update_def)
  then have "rp_status report = RVerified" using apply_report_succeeded[of job report change] ap by simp
  moreover have "\<exists>c. get_change (pl_change_id (ch_plan c1)) s = Ok c \<and> ch_revision c = ch_revision c1 \<and> ch_state c \<in> {Verifying, ChSucceeded}"
  proof -
    from ok(4) \<open>nx = ChSucceeded\<close> obtain c where c: "get_change (pl_change_id (ch_plan c1)) s = Ok c" "ch_revision c = ch_revision c1"
      "ch_state c = ChSucceeded \<or> ChangeState_can_transition_to (ch_state c) ChSucceeded"
      by (auto simp: change_update_def)
    then show ?thesis by (cases "ch_state c") (auto simp: ChangeState_can_transition_to_def)
  qed
  ultimately show thesis using that[OF ended rep(1)] act rep(2) ok(2) ap by simp
qed

lemma apply_report_id: "pl_change_id (ch_plan (fst (apply_report job report change))) = pl_change_id (ch_plan change)"
  by (simp add: apply_report_def Let_def split: DeploymentReportStatus.splits option.splits)

lemma get_owned_job_Ok: "get_owned_job prin jid s = Ok job \<longleftrightarrow> get_job jid s = Ok job \<and> job_principal job = prin"
  by (cases "get_job jid s") (auto simp: get_owned_job_def)

lemma get_owned_change_Ok: "get_owned_change creator cid s = Ok c \<longleftrightarrow> get_change cid s = Ok c \<and> ch_creator c = creator"
  by (cases "get_change cid s") (auto simp: get_owned_change_def)

lemma get_job_id: "jobs_inv s \<Longrightarrow> get_job jid s = Ok job \<Longrightarrow> h_job_id (job_handle job) = jid"
  unfolding get_job_iff by (auto simp: decoded_job_def dest: jobs_t.found split: option.splits)

text \<open>What a refresh reads and projects before it finishes the stage.\<close>

lemma refresh_change_Ok:
  assumes "refresh_change serde now app agent prin cid s = (s', Ok c')" and "store_inv s"
  obtains (idle) "s' = s" "get_owned_change (pr_name prin) cid s = Ok c'" "stage_job c' = None"
  | (stage) c jid job s1 where "get_owned_change (pr_name prin) cid s = Ok c" "stage_job c = Some jid"
      "get_job jid s1 = Ok job" "st_changes s1 = st_changes s" "store_inv s1"
      "finish_stage serde now prin c job s1 = (s', Ok c')"
proof -
  note jobs = store_inv_parts(1)[OF assms(2)]
  from assms(1) obtain c where c: "get_owned_change (pr_name prin) cid s = Ok c"
    and rest: "(case stage_job c of None \<Rightarrow> sret c
     | Some job_id \<Rightarrow>
         sbind (smap_err map_store_error (sread (get_owned_job (pr_name prin) job_id))) (\<lambda>job.
         sbind
           (if \<not> JobState_is_terminal (h_state (job_handle job)) \<or> h_state (job_handle job) = OutcomeUnknown
            then case agent_request app agent (h_host (job_handle job)) (ReqStatus job_id) of
              Inr (RespJob target) \<Rightarrow> smap_err map_store_error (project_target_job now job target)
            | _ \<Rightarrow> sret job
            else sret job) (\<lambda>job.
         finish_stage serde now prin c job))) s = (s', Ok c')"
    unfolding refresh_change_def by (auto simp: sbind_Ok)
  show thesis
  proof (cases "stage_job c")
    case None
    with rest c idle show thesis by auto
  next
    case (Some jid)
    with rest obtain job0 s1 job where j: "get_owned_job (pr_name prin) jid s = Ok job0"
      and p: "(if \<not> JobState_is_terminal (h_state (job_handle job0)) \<or> h_state (job_handle job0) = OutcomeUnknown
            then case agent_request app agent (h_host (job_handle job0)) (ReqStatus jid) of
              Inr (RespJob target) \<Rightarrow> smap_err map_store_error (project_target_job now job0 target)
            | _ \<Rightarrow> sret job0
            else sret job0) s = (s1, Ok job)"
      and f: "finish_stage serde now prin c job s1 = (s', Ok c')"
      by (auto simp: sbind_Ok)
    have got: "get_job jid s = Ok job0" using j by (simp add: get_owned_job_Ok)
    have "get_job jid s1 = Ok job \<and> st_changes s1 = st_changes s \<and> store_inv s1"
    proof (cases "\<exists>target. project_target_job now job0 target s = (s1, Ok job)")
      case True
      then obtain target where "project_target_job now job0 target s = (s1, Ok job)" by blast
      from project_target_job_stored[OF this jobs] quiet.keepsD[OF quiet_project this] get_job_id[OF jobs got] got assms(2)
      show ?thesis by (simp add: no_new_jobs_def)
    next
      case False
      with p have "s1 = s \<and> job = job0"
        by (auto split: if_splits sum.splits ExecutorResponse.splits)
      with got assms(2) show ?thesis by simp
    qed
    with stage[OF c Some _ _ _ f] show thesis by blast
  qed
qed

text \<open>The projection of reports makes a change succeed only after a verification.\<close>

lemma refresh_change_succeeded:
  assumes "refresh_change serde now app agent prin cid s = (s', Ok c')" and "store_inv s"
    and "get_owned_change (pr_name prin) cid s = Ok c" and "pl_change_id (ch_plan c) = cid"
    and "ch_state c' = ChSucceeded" and "ch_state c \<noteq> ChSucceeded"
  shows "ch_state c = Verifying \<and> (\<exists>jid job report. cj_verify (ch_jobs c) = Some jid \<and> get_job jid s' = Ok job
    \<and> JobState_is_terminal (h_state (job_handle job)) \<and> job_report serde job = Some report
    \<and> rp_action report = Verify \<and> rp_status report = RVerified)"
  using assms(1,2)
proof (cases rule: refresh_change_Ok)
  case idle
  with assms(3,5,6) show ?thesis by simp
next
  case (stage c0 jid job s1)
  have c0: "c0 = c" using stage(1) assms(3) by simp
  from finish_stage_succeeded[OF stage(6) store_inv_parts(5)[OF stage(5)] assms(5)] assms(6) c0 obtain report where
    rep: "JobState_is_terminal (h_state (job_handle job))" "job_report serde job = Some report" "rp_status report = RVerified"
      "expected_action (ch_state c) = Some (rp_action report)" "st_jobs s' = st_jobs s1"
    and cur: "\<exists>x. get_change cid s1 = Ok x \<and> ch_state x \<in> {Verifying, ChSucceeded}"
    by (metis apply_report_id assms(4))
  have "get_change cid s1 = get_change cid s" by (simp add: get_change_def stage(4))
  with cur assms(3,6) have ver: "ch_state c = Verifying" by (auto simp: get_owned_change_Ok)
  then have "rp_action report = Verify" "cj_verify (ch_jobs c) = Some jid"
    using rep(4) stage(2) c0 by (simp_all add: expected_action_def stage_job_def)
  moreover have "get_job jid s' = Ok job" using stage(3) get_job_frame[OF rep(5)] by simp
  ultimately show ?thesis using ver rep(1-3) by blast
qed

section \<open>Stages\<close>

text \<open>An accepted activation has just seen the planned source and the planned runtime.\<close>

lemma activation_checked:
  assumes "submit_change_stage_owned digest hex_digest as_second ts_add serde now fresh app agent prin hs params Activate workflow s
      = (s', Ok h)"
    and "idempotency_key hs = Ok key" and "get_idempotent_job (pr_name prin) key s = Ok None"
  shows "\<exists>s1 change deployment source runtime.
    refresh_change serde now app agent prin (dc_change_id params) s = (s1, Ok change)
    \<and> ch_state change = Ready \<and> ch_revision change = dc_expected_revision params
    \<and> as_second now \<le> as_second (pl_expires_at (ch_plan change))
    \<and> deployment_for app prin (pl_deployment_profile (ch_plan change)) = Ok deployment
    \<and> repository_head app agent prin (pl_repository (ch_plan change)) (pl_source_reference (ch_plan change)) = Ok source
    \<and> hd_commit source = pl_source_remote_head (ch_plan change)
    \<and> runtime_state as_second now app agent prin deployment = Ok runtime
    \<and> runtime_matches_plan runtime (ch_plan change)"
proof -
  from assms obtain s1 change where ref: "refresh_change serde now app agent prin (dc_change_id params) s = (s1, Ok change)"
    and rev: "ch_revision change = dc_expected_revision params"
    and rest: "sbind (slift (deployment_for app prin (pl_deployment_profile (ch_plan change)))) (\<lambda>deployment.
           sbind (slift (stage_rule deployment Activate)) (\<lambda>(required, next, operation, host, timeout).
           if ch_state change \<notin> set required then sfail (ApiError 409 ''change is not ready for this stage'')
           else
             sbind (if Activate = Activate then check_activation as_second now app agent prin deployment change
                    else sret ()) (\<lambda>_.
             sbind (slift (ok_or (ApiError 400 ''invalid job deadline'') (ts_add now timeout))) (\<lambda>deadline.
             sbind (slift (map_err (\<lambda>_. ApiError 500 ''digest produces a valid job ID'')
                     (case workflow of None \<Rightarrow> Ok fresh | Some parent \<Rightarrow> stable_child_job_id hex_digest parent operation))) (\<lambda>jid.
             sbind (smap_err map_store_error (submit_linked_job digest now key jid
                     \<lparr>nj_principal = pr_name prin, nj_host = host, nj_operation = operation, nj_spec_version = 1,
                      nj_spec = sd_job_spec serde \<lparr>dj_action = Activate, dj_plan = ch_plan change, dj_artifact = ch_artifact change\<rparr>,
                      nj_policy_version = pl_policy_version (ch_plan change), nj_deadline = Some deadline\<rparr>
                     (Some \<lparr>ln_change = change, ln_next = next, ln_action = Some Activate, ln_workflow = workflow\<rparr>))) (\<lambda>submitted.
             sret (job_handle (sub_job submitted)))))))) s1 = (s', Ok h)"
    unfolding submit_change_stage_owned_def
    by (auto simp: sbind_Ok split: if_splits option.splits)
  then obtain deployment s2 where d: "deployment_for app prin (pl_deployment_profile (ch_plan change)) = Ok deployment"
    and ready: "ch_state change = Ready"
    and chk: "check_activation as_second now app agent prin deployment change s1 = (s2, Ok ())"
    by (auto simp: sbind_Ok stage_rule_def split: if_splits)
  show ?thesis
    using ref rev d ready chk unfolding check_activation_def
    by (auto simp: sbind_Ok split: if_splits)
qed

section \<open>Preparation\<close>

lemma unused_key:
  assumes "get_idempotent_job prin key s = Ok None"
  shows "select_one (\<lambda>r. (ir_principal r, ir_key r) = (prin, key)) (st_idempotency s) = None"
  using assms by (auto simp: get_idempotent_job_def rbind_def split: option.splits sum.splits)

lemma submit_fresh:
  assumes "submit_job_with_id digest now key jid new s = (s', Ok sub)"
    and "get_idempotent_job (nj_principal new) key s = Ok None"
  shows "sub_created sub" and "get_job jid s' = Ok (sub_job sub)" and "st_changes s' = st_changes s"
proof -
  obtain t c where body: "submit_body digest now key jid new None s = Ok (s', t, c)"
    and sub: "get_job_by_text t s' = Ok (sub_job sub)" "sub_created sub = c"
    using assms(1)
    by (auto simp: submit_job_with_id_def submit_linked_job_def finish_submit_def transact_def rbind_def
        split: sum.splits prod.splits)
  from body have "sub_created sub \<and> get_job jid s' = Ok (sub_job sub) \<and> st_changes s' = st_changes s"
  proof (cases rule: submit_body_cases)
    case (replayed row)
    with unused_key[OF assms(2)] show ?thesis by simp
  next
    case (fresh cs)
    with sub show ?thesis by (simp add: get_job_def fresh_submission_def append_job_event_def)
  qed
  then show "sub_created sub" and "get_job jid s' = Ok (sub_job sub)" and "st_changes s' = st_changes s" by blast+
qed

lemma create_change_Ok:
  assumes "create_change now plan creator jid s = (s', Ok c)" and "changes_inv s"
  shows "c = decoded_change (new_change_row now plan creator jid)" and "get_change (pl_change_id plan) s' = Ok c"
    and "st_jobs s' = st_jobs s"
proof -
  from assms(1) have "c = decoded_change (new_change_row now plan creator jid) \<and> get_change (pl_change_id plan) s' = Ok c
      \<and> st_jobs s' = st_jobs s"
  proof (cases rule: create_change_cases)
    case created
    have "new_change_row now plan creator jid \<in> set (st_changes s')" by (simp add: created(3))
    moreover have "cr_id (new_change_row now plan creator jid) = change_id_str (pl_change_id plan)"
      by (simp add: new_change_row_def)
    ultimately have "get_change (pl_change_id plan) s' = Ok (decoded_change (new_change_row now plan creator jid))"
      unfolding get_change_iff[OF create_preserves_changes_inv[OF assms]] by blast
    with created(3,4) show ?thesis by simp
  qed simp
  then show "c = decoded_change (new_change_row now plan creator jid)" and "get_change (pl_change_id plan) s' = Ok c"
    and "st_jobs s' = st_jobs s" by blast+
qed

lemma record_workspace_frame: "record_workspace w s = (s', r) \<Longrightarrow> st_jobs s' = st_jobs s \<and> st_changes s' = st_changes s"
  by (cases "int (ws_revision w) \<le> i64_max")
    (auto simp: record_workspace_def to_i64_def Let_def split: option.splits if_splits)

text \<open>A first preparation leaves a queued job and a change whose plan freezes what was observed.\<close>

lemma prepare_change_creates:
  assumes "prepare_change digest as_second ts_add serde now fresh app agent prin hs params s = (s', Ok h)"
    and "idempotency_key hs = Ok key" and "get_idempotent_job (pr_name prin) key s = Ok None"
    and "store_inv s" and "uuid_text (job_id_str fresh)" and "agent_ids_ok agent"
  shows "\<exists>change job deployment w commit source runtime.
    deployment_for app prin (dp_profile params) = Ok deployment
    \<and> prepare_observations as_second now app agent prin deployment params = Ok (w, commit, source, runtime)
    \<and> get_change (ChangeId (job_id_str fresh)) s' = Ok change \<and> ch_state change = Checking
    \<and> ch_creator change = pr_name prin \<and> cj_prepare (ch_jobs change) = Some fresh
    \<and> get_job fresh s' = Ok job \<and> h = job_handle job
    \<and> runtime_matches_plan runtime (ch_plan change) \<and> pl_source_remote_head (ch_plan change) = hd_commit source
    \<and> pl_source_commit (ch_plan change) = commit \<and> pl_tree_hash (ch_plan change) = ws_tree_hash w"
proof -
  from assms(1-3) obtain deployment w commit source runtime expires_at deadline s1 sub s2 x s3 change where
    d: "deployment_for app prin (dp_profile params) = Ok deployment"
    and obs: "prepare_observations as_second now app agent prin deployment params = Ok (w, commit, source, runtime)"
    and sub: "submit_job_with_id digest now key fresh
        \<lparr>nj_principal = pr_name prin, nj_host = df_builder_host deployment, nj_operation = ''deploy.prepare'',
         nj_spec_version = 1, nj_spec = sd_job_spec serde \<lparr>dj_action = Prepare,
           dj_plan = change_plan now expires_at (ChangeId (job_id_str fresh)) deployment w commit source runtime, dj_artifact = None\<rparr>,
         nj_policy_version = pl_policy_version (change_plan now expires_at (ChangeId (job_id_str fresh)) deployment w commit source runtime),
         nj_deadline = Some deadline\<rparr> s = (s1, Ok sub)"
    and rest: "(if sub_created sub
                  then sbind (smap_err map_store_error (record_workspace w)) (\<lambda>_.
                       sbind (smap_err map_store_error (create_change now
                         (change_plan now expires_at (ChangeId (job_id_str fresh)) deployment w commit source runtime) (pr_name prin) fresh)) (\<lambda>_. sret ()))
                  else sret ()) s1 = (s', Ok ())"
    and h: "h = job_handle (sub_job sub)"
    unfolding prepare_change_def Let_def
    by (auto simp: sbind_Ok split: if_splits option.splits)
  let ?plan = "change_plan now expires_at (ChangeId (job_id_str fresh)) deployment w commit source runtime"
  note fr = submit_fresh[OF sub, simplified, OF assms(3)]
  have inv1: "store_inv s1"
    using sub[unfolded submit_job_with_id_def] assms(4) by (rule submit_store_inv) (simp_all add: assms(5))
  from rest fr(1) obtain s2 y c where rw: "record_workspace w s1 = (s2, Ok y)"
    and cc: "create_change now ?plan (pr_name prin) fresh s2 = (s', Ok c)"
    by (auto simp: sbind_Ok)
  have inv2: "store_inv s2"
    by (rule record_workspace_store_inv[OF rw inv1]) (rule prepare_observations_ids[OF assms(6) obs])
  note ch = create_change_Ok[OF cc store_inv_parts(5)[OF inv2]]
  have "get_job fresh s' = Ok (sub_job sub)"
    using fr(2) get_job_frame[of s' s2 fresh] get_job_frame[of s2 s1 fresh] ch(3) record_workspace_frame[OF rw] by simp
  moreover have "get_change (ChangeId (job_id_str fresh)) s' = Ok c" using ch(2) by (simp add: change_plan_def)
  moreover have "ch_state c = Checking \<and> ch_creator c = pr_name prin \<and> cj_prepare (ch_jobs c) = Some fresh \<and> ch_plan c = ?plan"
    unfolding ch(1) by (simp add: decoded_change_def new_change_row_def row_change_state_def ChangeState_from_str_def)
  ultimately show ?thesis using d obs h
    by (intro exI[of _ c] exI[of _ "sub_job sub"] exI[of _ deployment] exI[of _ w] exI[of _ commit] exI[of _ source] exI[of _ runtime])
      (simp add: change_plan_def runtime_matches_plan_def)
qed

text \<open>A retry never repairs a preparation that stopped half way.\<close>

lemma prepare_retry_writes_nothing:
  assumes "idempotency_key hs = Ok key" and "get_idempotent_job (pr_name prin) key s = Ok (Some existing)"
  shows "fst (prepare_change digest as_second ts_add serde now fresh app agent prin hs params s) = s"
  using assms
  by (cases "app_store app") (simp_all add: prepare_change_def sbind_def slift_def sread_def smap_err_def durable_store_def map_err_def)

end
