(* ===== verification/Hub_Delivery.thy ===== *)
theory Hub_Delivery
  imports Hub_Jobs
begin

text \<open>
  \<open>maxops-hub/src/lib.rs\<close>, events: delivery to the configured sinks and ingestion of alerts. What a
  sink answers to an event, the hash and the parsers of the standard and serde libraries are
  parameters.
\<close>

section \<open>Delivery\<close>

record EventSink =
  sk_id :: string
  sk_hosts :: "string set"
  sk_kinds :: "EventKind set"
  sk_retry_seconds :: nat

definition sink_matches :: "EventSink \<Rightarrow> EventRecord \<Rightarrow> bool" where
  "sink_matches sink event \<longleftrightarrow>
     (sk_hosts sink = {} \<or> ev_host event \<in> sk_hosts sink) \<and> (sk_kinds sink = {} \<or> ev_kind event \<in> sk_kinds sink)"

text \<open>The loop over the chunks of the answer; a chunk may fail to arrive.\<close>

fun read_body :: "string \<Rightarrow> (string, string) result list \<Rightarrow> (string, store_error) result" where
  "read_body body [] = Ok body"
| "read_body body (Inl e # chunks) = Err (Report e)"
| "read_body body (Inr chunk # chunks) =
     (if length body + length chunk \<le> 4096 then read_body (body @ chunk) chunks
      else Err (Report ''event sink response too large''))"

text \<open>A sink's answer: an error of the connection, or a status and the chunks of the body.\<close>

type_synonym sink_answer = "(status_code \<times> (string, string) result list, string) result"

definition delivery_stage :: "(string \<Rightarrow> json option) \<Rightarrow> sink_answer \<Rightarrow> (status_code \<times> DeliveryStage, store_error) result" where
  "delivery_stage from_slice ans =
     rbind (map_err Report ans) (\<lambda>(status, chunks).
     if \<not> is_success status then Err (Report ''event sink rejected delivery'')
     else rbind (read_body [] chunks) (\<lambda>body.
       let explicit_stage =
             Option.bind (from_slice body) (\<lambda>value.
             Option.bind (json_get ''stage'' value) (\<lambda>stage.
             Option.bind (json_as_str stage) (\<lambda>text.
             case DeliveryStage_parse text of Inr stage \<Rightarrow> Some stage | Inl _ \<Rightarrow> None))) in
       Ok (status, case explicit_stage of
             Some stage \<Rightarrow> stage
           | None \<Rightarrow> if status = 202 then DlAccepted else DlConfirmed)))"

definition deliver_next_event ::
  "(timestamp \<Rightarrow> nat \<Rightarrow> timestamp option) \<Rightarrow> (string \<Rightarrow> json option) \<Rightarrow> timestamp \<Rightarrow> App \<Rightarrow> EventSink \<Rightarrow>
   (EventRecord \<Rightarrow> sink_answer) \<Rightarrow> (unit, store_error) handler" where
  "deliver_next_event ts_add from_slice now app sink post =
     (if \<not> app_store app then sfail (Report ''store disabled'')
      else
        sbind (sread (subscription_cursor (sk_id sink))) (\<lambda>cursor.
        sbind (sread (next_event (sc_cursor cursor))) (\<lambda>found.
        case found of
          None \<Rightarrow> sret ()
        | Some event \<Rightarrow>
            if \<not> sink_matches sink event then skip_subscription_event (sk_id sink) (ev_sequence event)
            else
              sbind (begin_delivery ts_add now (sk_id sink) (ev_sequence event) (sk_retry_seconds sink)) (\<lambda>begun.
              case begun of
                None \<Rightarrow> sret ()
              | Some _ \<Rightarrow>
                  sbind (slift (delivery_stage from_slice (post event))) (\<lambda>(status, stage).
                  if stage \<noteq> DlQueued
                  then acknowledge_delivery now (sk_id sink) (ev_sequence event) stage (Some status)
                  else sret ())))))"

section \<open>Alerts\<close>

text \<open>\<open>value[key]\<close>: a missing field reads as null.\<close>

definition json_index :: "json \<Rightarrow> string \<Rightarrow> json" where
  "json_index value k = (case json_get k value of Some v \<Rightarrow> v | None \<Rightarrow> JNull)"

definition alert_time :: "(string \<Rightarrow> timestamp option) \<Rightarrow> timestamp \<Rightarrow> json \<Rightarrow> bool \<Rightarrow> timestamp" where
  "alert_time ts_parse now alert firing =
     (case Option.bind (Option.bind (json_get (if firing then ''startsAt'' else ''endsAt'') alert) json_as_str) ts_parse of
        Some t \<Rightarrow> t | None \<Rightarrow> now)"

definition alert_fingerprint :: "(json \<Rightarrow> string) \<Rightarrow> json \<Rightarrow> string" where
  "alert_fingerprint alert_hash alert =
     (let supplied = (case json_as_str (json_index alert ''fingerprint'') of Some s \<Rightarrow> s | None \<Rightarrow> []) in
      if supplied = [] \<or> length supplied > 512 then alert_hash alert else supplied)"

definition alert_input ::
  "(string \<Rightarrow> timestamp option) \<Rightarrow> (json \<Rightarrow> string) \<Rightarrow> timestamp \<Rightarrow> bool \<Rightarrow> string \<Rightarrow> json \<Rightarrow> AlertEventInput" where
  "alert_input ts_parse alert_hash now envelope_firing host alert =
     (let firing = (case json_as_str (json_index alert ''status'') of
            Some status \<Rightarrow> status = ''firing'' | None \<Rightarrow> envelope_firing) in
      \<lparr>ai_source = ''alertmanager'', ai_fingerprint = alert_fingerprint alert_hash alert, ai_host = host,
       ai_firing = firing, ai_occurred_at = alert_time ts_parse now alert firing, ai_payload = alert\<rparr>)"

text \<open>The loop over the alerts, with the identifiers it draws and the number it has persisted.\<close>

fun persist_alerts ::
  "(string \<Rightarrow> timestamp option) \<Rightarrow> (json \<Rightarrow> string) \<Rightarrow> timestamp \<Rightarrow> App \<Rightarrow> bool \<Rightarrow> (nat \<Rightarrow> string \<times> string) \<Rightarrow> nat \<Rightarrow> json list \<Rightarrow>
   (nat, ApiError) handler" where
  "persist_alerts ts_parse alert_hash now app envelope_firing fresh persisted [] = sret persisted"
| "persist_alerts ts_parse alert_hash now app envelope_firing fresh persisted (alert # alerts) =
     (case json_as_str (json_index (json_index alert ''labels'') ''instance'') of
        None \<Rightarrow> persist_alerts ts_parse alert_hash now app envelope_firing fresh persisted alerts
      | Some host \<Rightarrow>
          if app_hosts app host = None
          then persist_alerts ts_parse alert_hash now app envelope_firing fresh persisted alerts
          else
            sbind (smap_err map_store_error (ingest_alert now (fst (fresh persisted)) (snd (fresh persisted))
                    (alert_input ts_parse alert_hash now envelope_firing host alert))) (\<lambda>_.
            persist_alerts ts_parse alert_hash now app envelope_firing fresh (persisted + 1) alerts))"

definition persist_alert_events ::
  "(string \<Rightarrow> timestamp option) \<Rightarrow> (json \<Rightarrow> string) \<Rightarrow> timestamp \<Rightarrow> App \<Rightarrow> (nat \<Rightarrow> string \<times> string) \<Rightarrow> json \<Rightarrow>
   (nat, ApiError) handler" where
  "persist_alert_events ts_parse alert_hash now app fresh payload =
     (if \<not> app_store app then sret 0
      else case json_index payload ''alerts'' of
        JArray alerts \<Rightarrow>
          persist_alerts ts_parse alert_hash now app (json_index payload ''status'' = JString ''firing'') fresh 0 alerts
      | _ \<Rightarrow> sfail (ApiError 400 ''expected Alertmanager webhook v4''))"

text \<open>
  The webhook; \<open>ingress\<close> is the token of the configured ingress, \<open>slot\<close> whether a permit is left,
  \<open>forwarded\<close> whether the configured sink acknowledged the notification.
\<close>

definition alerts ::
  "(string \<Rightarrow> string \<Rightarrow> bool) \<Rightarrow> (string \<Rightarrow> timestamp option) \<Rightarrow> (json \<Rightarrow> string) \<Rightarrow> timestamp \<Rightarrow> App \<Rightarrow> Token option \<Rightarrow>
   (nat \<Rightarrow> string \<times> string) \<Rightarrow> bool \<Rightarrow> (json \<Rightarrow> bool) \<Rightarrow> headers \<Rightarrow> json \<Rightarrow> (nat, ApiError) handler" where
  "alerts ct_eq ts_parse alert_hash now app ingress fresh slot forwarded hs payload =
     (case ingress of
        None \<Rightarrow> sfail (ApiError 404 ''alert ingress disabled'')
      | Some token \<Rightarrow>
          if \<not> Token_matches ct_eq token hs then sfail (ApiError 401 ''unauthorized'')
          else if json_index payload ''version'' \<noteq> JString ''4''
               \<or> (case json_index payload ''alerts'' of JArray _ \<Rightarrow> False | _ \<Rightarrow> True)
               \<or> json_as_str (json_index payload ''status'') \<notin> {Some ''firing'', Some ''resolved''}
          then sfail (ApiError 400 ''expected Alertmanager webhook v4'')
          else if \<not> slot then sfail (ApiError 503 ''hub busy; retry notification'')
          else sbind (persist_alert_events ts_parse alert_hash now app fresh payload) (\<lambda>persisted.
            if forwarded payload then sret persisted
            else sfail (ApiError 503 ''notification not acknowledged; retry'')))"

section \<open>Runs\<close>

lemma run_skip [handler_intros]: "run.keeps digest ts_text as_second ts_add (skip_subscription_event sid n)"
  by (intro run.keepsI step_steps) (rule store_step.skip)

lemma run_begin_delivery [handler_intros]: "run.keeps digest ts_text as_second ts_add (begin_delivery ts_add now sid n retry)"
  by (intro run.keepsI step_steps) (rule store_step.deliver)

lemma run_acknowledge [handler_intros]:
  "run.keeps digest ts_text as_second ts_add (acknowledge_delivery now sid n stage status)"
  by (intro run.keepsI step_steps) (rule store_step.acknowledge)

lemma run_ingest [handler_intros]: "run.keeps digest ts_text as_second ts_add (ingest_alert now e f input)"
  by (intro run.keepsI step_steps) (rule store_step.alert)

lemma run_deliver: "run.keeps digest ts_text as_second ts_add (deliver_next_event ts_add from_slice now app sink post)"
  unfolding deliver_next_event_def by (intro handler_intros)

lemma run_persist_alerts [handler_intros]:
  "run.keeps digest ts_text as_second ts_add (persist_alerts ts_parse alert_hash now app firing fresh n rest)"
proof (induction rest arbitrary: n)
  case (Cons alert rest)
  show ?case unfolding persist_alerts.simps by (intro handler_intros Cons)
qed (simp add: run.keeps_pure)

lemma run_alerts:
  "run.keeps digest ts_text as_second ts_add (alerts ct_eq ts_parse alert_hash now app ingress fresh slot forwarded hs payload)"
  unfolding alerts_def persist_alert_events_def
  by (intro handler_intros) (auto split: json.split intro!: handler_intros)

section \<open>Cursors\<close>

lemma cursor_after_update:
  assumes "st_subscriptions s' = update_where (\<lambda>r. sr_id r = sid) f (st_subscriptions s)"
    and "\<And>r. sr_id (f r) = sr_id r" and "\<And>r. sr_cursor (f r) = max (sr_cursor r) n"
  shows "cursor_of sid s' = map_option (\<lambda>c. max c n) (cursor_of sid s)"
proof -
  have "select_one (\<lambda>r. sr_id r = sid) (st_subscriptions s')
      = map_option (\<lambda>r. if sr_id r = sid then f r else r) (select_one (\<lambda>r. sr_id r = sid) (st_subscriptions s))"
    unfolding assms(1) using assms(2) by (rule subscriptions_t.found_after_update)
  then show ?thesis
    by (cases "select_one (\<lambda>r. sr_id r = sid) (st_subscriptions s)")
      (auto simp: cursor_of_def assms(3) dest: subscriptions_t.found)
qed

lemma skip_cursor:
  assumes "skip_subscription_event sid n s = (s', r)"
  shows "cursor_of sid s' = cursor_of sid s \<or> cursor_of sid s' = map_option (\<lambda>c. max c (int n)) (cursor_of sid s)"
proof (cases "int n \<le> i64_max")
  case True
  then have "st_subscriptions s' = update_where (\<lambda>r. sr_id r = sid) (\<lambda>r. r\<lparr>sr_cursor := max (sr_cursor r) (int n)\<rparr>) (st_subscriptions s)"
    using assms by (auto simp: skip_subscription_event_def to_i64_def)
  from cursor_after_update[OF this] show ?thesis by simp
qed (use assms in \<open>auto simp: skip_subscription_event_def to_i64_def\<close>)

lemma begin_cursor:
  assumes "begin_delivery ts_add now sid n retry s = (s', r)" and "deliveries_inv s"
  shows "cursor_of k s' = cursor_of k s"
  using assms
proof (cases rule: begin_delivery_cases)
  case (attempt retry_at)
  then show ?thesis using upsert_delivery_facts(2)[OF _ assms(2)] by (simp add: cursor_of_def)
qed simp_all

lemma acknowledge_cursor:
  assumes "acknowledge_delivery now sid n stage status s = (s', r)"
  shows "cursor_of sid s' = cursor_of sid s \<or> cursor_of sid s' = map_option (\<lambda>c. max c (int n)) (cursor_of sid s)"
  using assms
proof (cases rule: acknowledge_cases)
  case acked
  then have "st_subscriptions s' = update_where (\<lambda>r. sr_id r = sid) (acknowledged_subscription now (int n)) (st_subscriptions s)"
    by simp
  from cursor_after_update[OF this, of "int n"] show ?thesis by (simp add: acknowledged_subscription_def)
qed simp

text \<open>The event that a subscription sees next is the first one after its cursor.\<close>

lemma next_event_first:
  assumes "events_inv s" and "next_event c s = Ok (Some event)"
  obtains r where "r \<in> set (st_events s)" and "event = decoded_event r" and "int c < evr_sequence r"
    and "\<And>r'. r' \<in> set (st_events s) \<Longrightarrow> int c < evr_sequence r' \<Longrightarrow> evr_sequence r \<le> evr_sequence r'"
proof -
  let ?rows = "filter (\<lambda>r. int c < evr_sequence r) (st_events s)"
  have "decode_first row_to_event ?rows = Ok (Some event)"
    using assms(2) sort_events[OF assms(1), of "\<lambda>r. int c < evr_sequence r"]
    by (cases "int c \<le> i64_max") (simp_all add: next_event_def to_i64_def)
  then obtain r rest where rows: "?rows = r # rest" and dec: "row_to_event r = Ok event"
    by (cases ?rows) (auto simp: decode_first_def rbind_def split: sum.splits)
  have mem: "r \<in> set (st_events s)" "int c < evr_sequence r"
    using arg_cong[OF rows, of "\<lambda>xs. r \<in> set xs"] by auto
  have "sorted_wrt (\<lambda>a b. evr_sequence a < evr_sequence b) ?rows"
    using assms(1) by (intro sorted_wrt_filter) (simp add: events_inv_def sorted_wrt_map)
  then have first: "evr_sequence r \<le> evr_sequence r'" if "r' \<in> set ?rows" for r'
    using that unfolding rows by auto
  show thesis
    by (rule that[OF mem(1) _ mem(2)]) (use decode_member[OF assms(1) mem(1)] dec first in auto)
qed

text \<open>What moves a cursor: an event that the sink does not want, or one it has acknowledged.\<close>

lemma deliver_cursor_cases:
  assumes "deliver_next_event ts_add from_slice now app sink post s = (s', r)"
    and "events_inv s" and "deliveries_inv s" and "cursor_of (sk_id sink) s = Some c"
    and "cursor_of (sk_id sink) s' = Some c'" and "c < c'"
  obtains e where "e \<in> set (st_events s)" and "c' = evr_sequence e" and "c < evr_sequence e"
    and "\<And>e'. e' \<in> set (st_events s) \<Longrightarrow> c < evr_sequence e' \<Longrightarrow> evr_sequence e \<le> evr_sequence e'"
    and "\<not> sink_matches sink (decoded_event e)
      \<or> (\<exists>status stage. delivery_stage from_slice (post (decoded_event e)) = Ok (status, stage) \<and> stage \<noteq> DlQueued)"
proof -
  let ?sid = "sk_id sink"
  from assms(4) obtain row where row: "select_one (\<lambda>r. sr_id r = ?sid) (st_subscriptions s) = Some row" "sr_cursor row = c"
    by (auto simp: cursor_of_def)
  have moved: "s' \<noteq> s" using assms(4-6) by auto
  with assms(1) have store: "app_store app" by (cases "app_store app") (simp_all add: deliver_next_event_def sfail_def)
  have nonneg: "0 \<le> c" and cur: "subscription_cursor ?sid s = Ok \<lparr>sc_id = sr_id row, sc_cursor = nat c\<rparr>"
    using row assms(1) moved store
    by (cases "0 \<le> c"; auto simp: deliver_next_event_def subscription_cursor_def sbind_def sread_def to_u64_def)+
  obtain event where ev: "next_event (nat c) s = Ok (Some event)"
    using assms(1) moved store cur
    by (cases "next_event (nat c) s")
      (auto simp: deliver_next_event_def sbind_def sread_def sret_def split: option.splits)
  obtain e where e: "e \<in> set (st_events s)" "event = decoded_event e" "int (nat c) < evr_sequence e"
    "\<And>e'. e' \<in> set (st_events s) \<Longrightarrow> int (nat c) < evr_sequence e' \<Longrightarrow> evr_sequence e \<le> evr_sequence e'"
    using next_event_first[OF assms(2) ev] by blast
  have n: "int (ev_sequence event) = evr_sequence e" using e(3) nonneg by (simp add: e(2))
  have here: "c' = evr_sequence e" if "cursor_of ?sid s' = map_option (\<lambda>c. max c (int (ev_sequence event))) (cursor_of ?sid s)"
    using that assms(4,5) n e(3) nonneg by simp
  have here': "c' = evr_sequence e"
    if "cursor_of ?sid s' = cursor_of ?sid s \<or> cursor_of ?sid s' = map_option (\<lambda>c. max c (int (ev_sequence event))) (cursor_of ?sid s)"
    using that here assms(4-6) by auto
  show thesis
  proof (cases "sink_matches sink event")
    case False
    then have "skip_subscription_event ?sid (ev_sequence event) s = (s', r)"
      using assms(1) store cur ev by (simp add: deliver_next_event_def sbind_def sread_def)
    from here'[OF skip_cursor[OF this]] show thesis
      using that[OF e(1)] e nonneg False by simp
  next
    case True
    obtain s1 begun where bg: "begin_delivery ts_add now ?sid (ev_sequence event) (sk_retry_seconds sink) s = (s1, begun)"
      by fastforce
    have same: "cursor_of ?sid s1 = cursor_of ?sid s" by (rule begin_cursor[OF bg assms(3)])
    have rest: "(case begun of Inl e \<Rightarrow> (s1, Inl e)
        | Inr b \<Rightarrow> (case b of None \<Rightarrow> sret ()
            | Some _ \<Rightarrow> sbind (slift (delivery_stage from_slice (post event))) (\<lambda>(status, stage).
                if stage \<noteq> DlQueued then acknowledge_delivery now ?sid (ev_sequence event) stage (Some status) else sret ())) s1) = (s', r)"
      using assms(1) store cur ev True bg by (cases begun) (simp_all add: deliver_next_event_def sbind_def sread_def split: option.splits)
    have "s' \<noteq> s1" using same assms(4-6) by auto
    with rest obtain status stage where ack: "delivery_stage from_slice (post event) = Ok (status, stage)" "stage \<noteq> DlQueued"
      "acknowledge_delivery now ?sid (ev_sequence event) stage (Some status) s1 = (s', r)"
      by (cases "delivery_stage from_slice (post event)")
        (auto simp: sret_def sbind_def slift_def split: sum.splits option.splits if_splits)
    from here'[OF acknowledge_cursor[OF ack(3), unfolded same]] show thesis
      using that[OF e(1)] e nonneg ack(1,2) by simp
  qed
qed

end
