(* ===== verification/Example_Hub.thy ===== *)
theory Example_Hub
  imports Example_Run Hub_Change_Facts Hub_Delivery
begin

text \<open>
  A hub over the worked run: one host with an executor, one manager, one repository and one
  deployment profile, and an executor that reports the planned source and runtime.
\<close>

definition ex_host_config :: Host where
  "ex_host_config = \<lparr>hc_name = ''web1'', hc_readable_units = {}, hc_read_all_units = True, hc_manageable_units = {},
     hc_diagnostic_probes = (\<lambda>_. None), host_execution_token = Some (Token (replicate 32 (CHR ''x'')))\<rparr>"

definition ex_prin :: Principal where
  "ex_prin = \<lparr>pr_name = ''alice'', pr_token = Token (replicate 32 (CHR ''t'')), pr_hosts = {''web1''},
     pr_capabilities = {''exec:run'', ''deploy:manage''}, pr_access = ManageAccess, pr_repositories = {''infra''},
     pr_deployments = {''system''}\<rparr>"

definition ex_deployment :: DeploymentConfig where
  "ex_deployment = \<lparr>df_name = ''system'', df_repository = ''infra'', df_builder_host = ''web1'', df_target_host = ''web1'',
     df_kind = SystemKind, df_flake_attribute = ''web1'', df_source_reference = ''main'', df_plan_ttl_seconds = 3600\<rparr>"

definition ex_app :: App where
  "ex_app = \<lparr>app_hosts = (\<lambda>h. if h = ''web1'' then Some ex_host_config else None), app_clients = [ex_prin],
     app_store = True, app_repositories = (\<lambda>r. if r = ''infra'' then Some ''web1'' else None),
     app_deployments = (\<lambda>d. if d = ''system'' then Some ex_deployment else None),
     app_max_attempts_per_episode = 3, app_cooldown_seconds = 60\<rparr>"

definition ex_workspace_record :: WorkspaceRecord where
  "ex_workspace_record = \<lparr>ws_workspace_id = ex_workspace, ws_repository = ''infra'', ws_executor = ''web1'',
     ws_base_commit = ex_oid, ws_revision = 1, ws_tree_hash = ex_oid, ws_commit_hash = Some ex_oid, ws_state = Committed,
     ws_creator = ''alice'', ws_created_at = 4, ws_retain_until = None\<rparr>"

definition ex_agent :: agent where
  "ex_agent host request =
     (case request of
        ReqRepositoryHead _ repository reference \<Rightarrow>
          Ok (RespRepositoryHead \<lparr>hd_repository = repository, hd_reference = reference, hd_commit = ex_oid, hd_observed_at = 0\<rparr>)
      | ReqRuntimeState _ profile \<Rightarrow>
          Ok (RespRuntimeState \<lparr>rs_host = host, rs_deployment_profile = profile, rs_running_closure = None,
            rs_persistent_profile = None, rs_generation = None, rs_boot_id = None, rs_observed_at = 0\<rparr>)
      | ReqWorkspace _ (WtStatus _) \<Rightarrow> Ok (RespWorkspace (WtRecord ex_workspace_record))
      | _ \<Rightarrow> Err None)"

definition ex_report :: DeploymentReport where
  "ex_report = \<lparr>rp_action = Verify, rp_status = RVerified, rp_drv_path = None, rp_out_path = None, rp_lock_digest = None,
     rp_observed_running = None, rp_observed_profile = None, rp_detail = [], rp_completed_at = 0\<rparr>"

text \<open>Codecs that are enough for the examples.\<close>

definition ex_serde :: serde where
  "ex_serde = \<lparr>sd_job_spec = (\<lambda>spec. JObject [(''action'', JString (operation_for_deployment (dj_action spec)))]),
     sd_job_spec_of = (\<lambda>_. Some \<lparr>dj_action = Prepare, dj_plan = ex_plan, dj_artifact = None\<rparr>),
     sd_report_of = (\<lambda>_. Some ex_report), sd_run = (\<lambda>_. JObject []), sd_run_of = (\<lambda>_. None),
     sd_unit_action = (\<lambda>_. JObject []), sd_unit_action_of = (\<lambda>_. None), sd_exec_run = (\<lambda>_. JObject []),
     sd_workspace_create = (\<lambda>_. JObject []), sd_workspace_check = (\<lambda>_. JObject []),
     sd_workspace_publish = (\<lambda>_. JObject []), sd_diagnostic = (\<lambda>_. JObject []),
     sd_remediation_begin = (\<lambda>_. JObject []), sd_remediation_begin_of = (\<lambda>_. None)\<rparr>"

definition ex_hex :: "string \<Rightarrow> string" where
  "ex_hex _ = replicate 64 (CHR ''a'')"

definition ex_env :: outside where
  "ex_env = \<lparr>o_digest = ex_digest, o_hex_digest = ex_hex, o_ts_text = ex_text, o_as_second = ex_second, o_ts_add = ex_add,
     o_serde = ex_serde, o_evidence = (\<lambda>_ _ _. JNull), o_pointer = (\<lambda>_ _. None), o_to_string = (\<lambda>_. []),
     o_now = 20, o_fresh = ex_job2, o_fresh_event = ex_uuid (CHR ''9''), o_agent = ex_agent\<rparr>"

definition ex_headers :: headers where
  "ex_headers = [(''authorization'', ''Bearer '' @ replicate 32 (CHR ''t'')), (''idempotency-key'', ''k1'')]"

definition ex_request :: JobRequest where
  "ex_request = RqExecRun \<lparr>er_host = ''web1'', er_profile = ''ops'', er_command = Argv [''/bin/true''], er_cwd = None,
     er_env = [], er_credential_refs = [], er_timeout_seconds = Some 30\<rparr>"

definition ex_view :: Representation where
  "ex_view = \<lparr>rq_view = None, rq_encoding = None\<rparr>"

text \<open>The change of the worked run, moved to the state before its activation, and to its verification.\<close>

definition ex_move :: "nat \<Rightarrow> ChangeState \<Rightarrow> ChangeJobs \<Rightarrow> store \<Rightarrow> store" where
  "ex_move n st jobs s = fst (transition_change 11 ex_change ''alice''
     \<lparr>ct_expected_revision = n, ct_next = st, ct_plan = ex_plan, ct_artifact = None, ct_jobs = jobs, ct_recovery_state = None\<rparr> s)"

definition ex_ready :: store where
  "ex_ready = ex_move 3 Ready ChangeJobs_default (ex_move 2 Building ChangeJobs_default (ex_move 1 Prepared ChangeJobs_default ex5))"

definition ex_verify_jobs :: ChangeJobs where
  "ex_verify_jobs = ChangeJobs_default\<lparr>cj_verify := Some ex_job\<rparr>"

definition ex_verifying :: store where
  "ex_verifying = fst (transition_job 12 ex_job 3 Succeeded JNull (Some (JObject [(''deployment'', JString ''report'')]))
     (ex_move 5 Verifying ex_verify_jobs (ex_move 4 Activating ex_verify_jobs ex_ready)))"

lemma ex_move_reachable: "ex_reachable s \<Longrightarrow> ex_reachable (ex_move n st jobs s)"
  by (erule ex_step) (unfold ex_move_def, rule store_step.transition_change[OF prod.collapse[symmetric]])

lemma ex_ready_reachable: "ex_reachable ex_ready"
  unfolding ex_ready_def by (intro ex_move_reachable ex_reachable_5)

lemma ex_verifying_reachable: "ex_reachable ex_verifying"
  unfolding ex_verifying_def
  by (rule ex_step[OF ex_move_reachable[OF ex_move_reachable[OF ex_ready_reachable]]])
    (rule store_step.transition[OF prod.collapse[symmetric]])

lemma ex_agent_ids: "agent_ids_ok ex_agent"
  unfolding agent_ids_ok_def ex_agent_def
  using ex_ids(3) by (auto simp: ex_workspace_record_def split: ExecutorRequest.splits WorkspaceTargetRequest.splits)

lemma ex_states:
  "map_option row_change_state (select_one (\<lambda>r. cr_id r = change_id_str ex_change) (st_changes ex_ready)) = Some Ready"
  "map_option row_change_state (select_one (\<lambda>r. cr_id r = change_id_str ex_change) (st_changes ex_verifying)) = Some Verifying"
  by code_simp+

definition ex_executed :: "store \<times> (Answer, ApiError) result" where
  "ex_executed = execute ex_env (=) ex_app ex_headers ex_view True ex_request ex3"

lemma ex_executed_ok: "is_ok (snd ex_executed)"
  by code_simp

definition ex_stage_params :: DeployChangeParams where
  "ex_stage_params = \<lparr>dc_change_id = ex_change, dc_expected_revision = 4\<rparr>"

definition ex_activation :: "store \<times> (JobHandle, ApiError) result" where
  "ex_activation = submit_change_stage_owned ex_digest ex_hex ex_second ex_add ex_serde 20 ex_job2 ex_app ex_agent ex_prin
     ex_headers ex_stage_params Activate None ex_ready"

lemma ex_activation_ok: "is_ok (snd ex_activation)"
  by code_simp

definition ex_refreshed :: "store \<times> (ChangeRecord, ApiError) result" where
  "ex_refreshed = refresh_change ex_serde 20 ex_app ex_agent ex_prin ex_change ex_verifying"

lemma ex_refreshed_ok: "is_ok (snd ex_refreshed)" "ch_state (projr (snd ex_refreshed)) = ChSucceeded"
  by code_simp+

definition ex_prepare_params :: DeployPrepareParams where
  "ex_prepare_params = \<lparr>dp_repository = ''infra'', dp_workspace_id = ex_workspace, dp_expected_revision = 1,
     dp_target_host = ''web1'', dp_profile = ''system''\<rparr>"

definition ex_prepared :: "store \<times> (JobHandle, ApiError) result" where
  "ex_prepared = prepare_change ex_digest ex_second ex_add ex_serde 20 ex_job2 ex_app ex_agent ex_prin ex_headers ex_prepare_params ex4"

lemma ex_prepared_ok: "is_ok (snd ex_prepared)"
  by code_simp

lemma ex_key: "idempotency_key ex_headers = Ok ''k1''"
  by code_simp

end
