(* ===== verification/Hub_Client_Facts.thy ===== *)
theory Hub_Client_Facts
  imports Hub_Client
begin

text \<open>Cursors and offsets: a client that follows them sees every value and every byte exactly once.\<close>

section \<open>Pages\<close>

lemma page_offset_next:
  assumes "CHR '':'' \<notin> set revision" and "n \<le> len" and "len \<le> u64_max"
  shows "page_offset revision len (Some (revision @ '':'' @ nat_to_string n)) = Ok n"
  using assms split_once_append[OF assms(1), of "nat_to_string n"] parse_usize_nat_to_string[of n]
  by (simp add: page_offset_def)

text \<open>The cursor that stands for an offset.\<close>

definition cursor_at :: "('v list \<Rightarrow> string) \<Rightarrow> 'v list \<Rightarrow> nat \<Rightarrow> string option" where
  "cursor_at hash values n = (if n = 0 then None else Some (hash values @ '':'' @ nat_to_string n))"

lemma page_at:
  assumes "CHR '':'' \<notin> set (hash values)" and "n \<le> length values" and "length values \<le> u64_max"
    and "1 \<le> limit" and "limit \<le> 200"
  shows "page hash values limit (cursor_at hash values n) =
    Ok \<lparr>pg_values = take limit (drop n values), pg_revision = hash values, pg_total = length values,
        pg_next_cursor = (if n + limit < length values then cursor_at hash values (n + limit) else None)\<rparr>"
proof -
  have "page_offset (hash values) (length values) (cursor_at hash values n) = Ok n"
    using page_offset_next[OF assms(1,2,3)] by (simp add: cursor_at_def page_offset_def)
  then show ?thesis
    using assms(4,5) by (auto simp: page_def cursor_at_def min_def Let_def)
qed

lemma walk_pages_at:
  assumes "CHR '':'' \<notin> set (hash values)" and "length values \<le> u64_max" and "1 \<le> limit" and "limit \<le> 200"
  shows "n \<le> length values \<Longrightarrow> length values - n < fuel \<Longrightarrow>
    walk_pages fuel hash values limit (cursor_at hash values n) = Ok (drop n values)"
proof (induction fuel arbitrary: n)
  case (Suc fuel)
  note here = page_at[of hash "values" n limit, OF assms(1) Suc.prems(1) assms(2,3,4)]
  show ?case
  proof (cases "n + limit < length values")
    case True
    have pos: "cursor_at hash values (n + limit) = Some (hash values @ '':'' @ nat_to_string (n + limit))"
      using assms(3) by (simp add: cursor_at_def)
    have "walk_pages fuel hash values limit (cursor_at hash values (n + limit)) = Ok (drop (n + limit) values)"
      using True Suc.prems assms(3) by (intro Suc.IH) auto
    moreover have "take limit (drop n values) @ drop (n + limit) values = drop n values"
      by (metis add.commute append_take_drop_id drop_drop)
    ultimately show ?thesis using True here pos by simp
  next
    case False
    then show ?thesis using here by simp
  qed
qed simp

section \<open>Fragments\<close>

lemma floor_boundary_le: "floor_boundary text n \<le> n"
  by (induction n) auto

lemma floor_boundary_is: "is_char_boundary text (floor_boundary text n)"
  by (induction n) (auto simp: is_char_boundary_def)

lemma floor_boundary_ge: "is_char_boundary text m \<Longrightarrow> m \<le> n \<Longrightarrow> m \<le> floor_boundary text n"
  by (induction n) (auto simp: le_Suc_eq)

text \<open>From a position inside the text there is a boundary at most four bytes ahead.\<close>

lemma next_boundary:
  assumes "list_all utf8_char cs"
  shows "n < length (concat cs) \<Longrightarrow> \<exists>m. n < m \<and> m \<le> n + 4 \<and> is_char_boundary (concat cs) m"
  using assms
proof (induction cs arbitrary: n)
  case (Cons c cs)
  let ?text = "c @ concat cs"
  have c: "c \<noteq> []" "length c \<le> 4" and cs: "list_all utf8_char cs"
    using Cons.prems(2) by (simp_all add: utf8_char_def[of c])
  show ?case
  proof (cases "n < length c")
    case True
    have "is_char_boundary ?text (length c)"
    proof (cases cs)
      case (Cons d ds)
      then have "d \<noteq> []" "\<not> is_continuation (hd d)" using cs by (auto simp: utf8_char_def)
      then show ?thesis using Cons by (auto simp: is_char_boundary_def nth_append hd_conv_nth)
    qed (simp add: is_char_boundary_def)
    with True c show ?thesis by auto
  next
    case False
    with Cons.prems have "n - length c < length (concat cs)" by simp
    from Cons.IH[OF this cs] obtain m where m: "n - length c < m" "m \<le> n - length c + 4" "is_char_boundary (concat cs) m"
      by blast
    then have "is_char_boundary ?text (length c + m)" by (auto simp: is_char_boundary_def nth_append)
    with m False show ?thesis by (intro exI[of _ "length c + m"]) auto
  qed
qed simp

lemma fragment_at:
  assumes "pointer_of pointer value = Some selected" and "to_string selected = concat cs" and "list_all utf8_char cs"
    and "length pointer \<le> 1024" and "4 \<le> limit" and "limit \<le> 32768"
    and "offset \<le> length (concat cs)" and "is_char_boundary (concat cs) offset"
  obtains stop where "json_fragment pointer_of to_string value pointer offset limit =
      Ok \<lparr>fg_text = take (stop - offset) (drop offset (concat cs)), fg_next_offset = stop,
          fg_total_bytes = length (concat cs), fg_complete = (stop = length (concat cs))\<rparr>"
    and "stop \<le> length (concat cs)" and "is_char_boundary (concat cs) stop" and "offset \<le> stop"
    and "offset < length (concat cs) \<Longrightarrow> offset < stop" and "stop \<le> offset + limit"
proof -
  define stop where "stop = floor_boundary (concat cs) (min (offset + limit) (length (concat cs)))"
  have le: "stop \<le> min (offset + limit) (length (concat cs))" by (simp only: stop_def floor_boundary_le)
  have ge: "offset \<le> stop" unfolding stop_def by (rule floor_boundary_ge[OF assms(8)]) (use assms(7) in simp)
  have more: "offset < stop" if "offset < length (concat cs)"
  proof -
    from next_boundary[OF assms(3) that] obtain m where m: "offset < m" "m \<le> offset + 4" "is_char_boundary (concat cs) m"
      by blast
    have "m \<le> length (concat cs)" using m(3) by (auto simp: is_char_boundary_def)
    then have "m \<le> stop" unfolding stop_def using m(2) assms(5) by (intro floor_boundary_ge[OF m(3)]) simp
    with m(1) show ?thesis by simp
  qed
  have stuck: "\<not> (stop = offset \<and> stop < length (concat cs))" using more by fastforce
  have "json_fragment pointer_of to_string value pointer offset limit =
      Ok \<lparr>fg_text = take (stop - offset) (drop offset (concat cs)), fg_next_offset = stop,
          fg_total_bytes = length (concat cs), fg_complete = (stop = length (concat cs))\<rparr>"
    using assms(1,2,4,5,6,7,8) stuck
    unfolding json_fragment_def by (auto simp: stop_def[symmetric] Let_def)
  with le ge more show thesis
    by (intro that) (auto simp: stop_def floor_boundary_is)
qed

lemma walk_fragments_at:
  assumes "pointer_of pointer value = Some selected" and "to_string selected = concat cs" and "list_all utf8_char cs"
    and "length pointer \<le> 1024" and "4 \<le> limit" and "limit \<le> 32768"
  shows "offset \<le> length (concat cs) \<Longrightarrow> is_char_boundary (concat cs) offset \<Longrightarrow> length (concat cs) - offset < fuel \<Longrightarrow>
    walk_fragments fuel pointer_of to_string value pointer offset limit = Ok (drop offset (concat cs))"
proof (induction fuel arbitrary: offset)
  case (Suc fuel)
  from fragment_at[of pointer_of pointer "value" selected to_string cs limit offset, OF assms Suc.prems(1,2)] obtain stop where
    f: "json_fragment pointer_of to_string value pointer offset limit =
      Ok \<lparr>fg_text = take (stop - offset) (drop offset (concat cs)), fg_next_offset = stop,
          fg_total_bytes = length (concat cs), fg_complete = (stop = length (concat cs))\<rparr>"
    and stop: "stop \<le> length (concat cs)" "is_char_boundary (concat cs) stop" "offset \<le> stop"
      "offset < length (concat cs) \<Longrightarrow> offset < stop" by metis
  show ?case
  proof (cases "stop = length (concat cs)")
    case True
    then show ?thesis using f by simp
  next
    case False
    then have "walk_fragments fuel pointer_of to_string value pointer stop limit = Ok (drop stop (concat cs))"
      using stop Suc.prems by (intro Suc.IH) auto
    moreover have "take (stop - offset) (drop offset (concat cs)) @ drop stop (concat cs) = drop offset (concat cs)"
      using stop(3) by (metis append_take_drop_id drop_drop le_add_diff_inverse2)
    ultimately show ?thesis using f False by simp
  qed
qed simp

end
