(* ===== verification/Properties_Hub.thy ===== *)
theory Properties_Hub
  imports Example_Hub Hub_Client_Facts
begin

text \<open>What the hub's API guarantees: authorization, runs of the store, dispatch, workflows, listings.\<close>

section \<open>Requests\<close>

text \<open>
  (C16) Nothing changes without authority: a job request that changes the store, or is answered, was
  sent with the token of a configured client that has the capability of the operation and management
  access.
\<close>

theorem requests_authorized:
  assumes "execute env ct_eq app hs representation slot request s = (s', r)" and "s' \<noteq> s \<or> is_ok r"
  shows "\<exists>prin \<in> set (app_clients app). Token_matches ct_eq (pr_token prin) hs
    \<and> Request_capability (request_tag request) \<in> pr_capabilities prin \<and> pr_access prin = ManageAccess"
proof (cases "execute_admission ct_eq app hs (request_tag request) slot (Representation_validate representation)")
  case (Inl e)
  with assms show ?thesis by (auto simp: execute_def sbind_def slift_def is_ok_def)
next
  case (Inr prin)
  have kind: "operation_kind (request_tag request) \<noteq> Observation" by (cases request) simp_all
  from Inr kind have auth: "authenticate ct_eq app hs = Ok prin"
    and rest: "Request_capability (request_tag request) \<in> pr_capabilities prin" "pr_access prin = ManageAccess"
    by (auto simp: execute_admission_def rbind_def split: sum.splits if_splits)
  from auth have "find (\<lambda>p. Token_matches ct_eq (pr_token p) hs) (app_clients app) = Some prin"
    by (simp add: authenticate_def ok_or_def split: option.splits)
  then have "prin \<in> set (app_clients app)" "Token_matches ct_eq (pr_token prin) hs"
    by (auto simp: find_Some_iff)
  with rest show ?thesis by blast
qed

theorem requests_authorized_witness:
  "\<exists>prin \<in> set (app_clients ex_app). Token_matches (=) (pr_token prin) ex_headers
    \<and> Request_capability (request_tag ex_request) \<in> pr_capabilities prin \<and> pr_access prin = ManageAccess"
  using requests_authorized[of ex_env "(=)" ex_app ex_headers ex_view True ex_request ex3 "fst ex_executed" "snd ex_executed"]
    ex_executed_ok by (simp add: ex_executed_def)



section \<open>Dispatch\<close>

text \<open>
  (C24) A revoked authorization stops a job before it reaches a host: when the configuration no longer
  authorizes a job, its dispatch asks no executor anything (the executors' answers do not matter) and
  only cancels the job if it is still queued.
\<close>

theorem unauthorized_never_dispatched:
  assumes "reachable digest ts_text as_second ts_add s" and "get_job jid s = Ok job" and "\<not> dispatch_authorized serde app job"
  shows "dispatch serde now app agent jid s = dispatch serde now app agent' jid s
    \<and> (h_state (job_handle job) \<noteq> Queued \<longrightarrow> fst (dispatch serde now app agent jid s) = s)
    \<and> (app_store app \<and> h_state (job_handle job) = Queued \<and> int (h_revision (job_handle job)) + 1 \<le> i64_max \<longrightarrow>
        (\<exists>job'. get_job jid (fst (dispatch serde now app agent jid s)) = Ok job' \<and> h_state (job_handle job') = Cancelled))"
proof -
  let ?cancel = "transition_job now jid (h_revision (job_handle job)) Cancelled
       (JObject [(''reason'', JString ''authorization no longer permits dispatch'')])
       (Some (JObject [(''started'', JBool False), (''cancelled'', JBool True)]))"
  have run: "dispatch serde now app a jid s =
      (if \<not> app_store app then (s, Err (Report ''store disabled''))
       else if h_state (job_handle job) = Queued then sbind ?cancel (\<lambda>_. sret False) s else (s, Ok False))" for a
    using assms(2,3) by (simp add: dispatch_def sbind_def sread_def sfail_def sret_def)
  have "\<exists>job'. get_job jid (fst (dispatch serde now app agent jid s)) = Ok job' \<and> h_state (job_handle job') = Cancelled"
    if "app_store app" and "h_state (job_handle job) = Queued" and "int (h_revision (job_handle job)) + 1 \<le> i64_max"
  proof -
    have "JobState_can_transition_to (h_state (job_handle job)) Cancelled"
      using that(2) by (simp add: JobState_can_transition_to_def)
    from transition_succeeds[OF store_inv_parts(1)[OF reachable_store_inv[OF assms(1)]] assms(2) this that(3)]
    obtain s' job' where "?cancel s = (s', Ok job')" "h_state (job_handle job') = Cancelled" "get_job jid s' = Ok job'" by metis
    then show ?thesis using that run by (simp add: sbind_def sret_def)
  qed
  then show ?thesis using run by simp
qed

theorem unauthorized_never_dispatched_witness:
  "\<exists>job'. get_job ex_job (fst (dispatch ex_serde 9 (ex_app\<lparr>app_clients := []\<rparr>) ex_agent ex_job ex1)) = Ok job'
     \<and> h_state (job_handle job') = Cancelled"
proof -
  obtain job where job: "get_job ex_job ex1 = Ok job" "h_state (job_handle job) = Queued" "h_revision (job_handle job) = 1"
  proof -
    have "is_ok (get_job ex_job ex1) \<and> h_state (job_handle (projr (get_job ex_job ex1))) = Queued
        \<and> h_revision (job_handle (projr (get_job ex_job ex1))) = 1" by code_simp
    then show thesis using that[of "projr (get_job ex_job ex1)"] by (cases "get_job ex_job ex1") (auto simp: is_ok_def)
  qed
  from unauthorized_never_dispatched[OF ex_reachable_1 job(1), of ex_serde "ex_app\<lparr>app_clients := []\<rparr>" 9 ex_agent] job(2,3)
  show ?thesis by (simp add: dispatch_authorized_def ex_app_def)
qed

section \<open>Workflows\<close>

text \<open>
  (C23) A workflow that is finished gets its outcome: two rounds of the loop are enough, also for an
  unknown outcome, which goes through reconciliation; a workflow that already has an outcome keeps it,
  and one that never started fails instead of being unknown.
\<close>

theorem finish_gives_outcome:
  assumes "reachable digest ts_text as_second ts_add s" and "get_job jid s = Ok job" and "JobState_is_terminal st"
    and "h_state (job_handle job) = Queued \<Longrightarrow> st \<noteq> Succeeded" and "int (h_revision (job_handle job)) + 2 \<le> i64_max"
    and "2 \<le> rounds"
  shows "\<exists>s' job'. finish rounds now jid st result s = (s', Ok ()) \<and> get_job jid s' = Ok job'
    \<and> h_state (job_handle job') =
        (if JobState_is_terminal (h_state (job_handle job)) then h_state (job_handle job)
         else if st = OutcomeUnknown \<and> h_state (job_handle job) = Queued then Failed else st)"
proof -
  obtain n where n: "rounds = Suc (Suc n)" using assms(6) by (metis Suc_le_D numeral_2_eq_2 Suc_le_mono)
  show ?thesis
    using finish_completes[OF store_inv_parts(1)[OF reachable_store_inv[OF assms(1)]] assms(2-5), of n now result]
    unfolding n finish_state_def .
qed

theorem finish_gives_outcome_witness:
  "\<exists>s' job'. finish 2 9 ex_job OutcomeUnknown JNull ex3 = (s', Ok ()) \<and> get_job ex_job s' = Ok job'
     \<and> h_state (job_handle job') = OutcomeUnknown"
proof -
  obtain job where job: "get_job ex_job ex3 = Ok job" "h_state (job_handle job) = Running" "h_revision (job_handle job) = 3"
  proof -
    have "is_ok (get_job ex_job ex3) \<and> h_state (job_handle (projr (get_job ex_job ex3))) = Running
        \<and> h_revision (job_handle (projr (get_job ex_job ex3))) = 3" by code_simp
    then show thesis using that[of "projr (get_job ex_job ex3)"] by (cases "get_job ex_job ex3") (auto simp: is_ok_def)
  qed
  from finish_gives_outcome[OF ex_reachable_3 job(1), of OutcomeUnknown 2 9 JNull] job(2,3)
  show ?thesis by (simp add: JobState_is_terminal_def)
qed

section \<open>Listings\<close>

text \<open>
  (C35) A client that follows the cursors of a listing sees every value exactly once and in order,
  whatever the page size, in at most one request more than there are values; the digest in the cursor
  has no colon.
\<close>

theorem pages_tile:
  assumes "CHR '':'' \<notin> set (hash values)" and "length values \<le> u64_max" and "1 \<le> limit" and "limit \<le> 200"
  shows "walk_pages (length values + 1) hash values limit None = Ok values"
  using walk_pages_at[of hash "values" limit 0 "length values + 1", OF assms] by (simp add: cursor_at_def)

theorem pages_tile_witness:
  "walk_pages 6 (\<lambda>_. ''abc'') [1, 2, 3, 4, 5 :: nat] 2 None = Ok [1, 2, 3, 4, 5]"
proof -
  have "length [1, 2, 3, 4, 5 :: nat] + 1 = 6" by simp
  with pages_tile[of "\<lambda>_. ''abc''" "[1, 2, 3, 4, 5 :: nat]" 2] show ?thesis by (simp only:) simp
qed

text \<open>
  A client that reads a stored result in fragments of at least four bytes gets the whole text,
  without cutting a character: the offsets that the hub returns are accepted, every fragment makes
  progress, and the fragments concatenate to the serialized value.
\<close>

theorem fragments_tile:
  assumes "pointer_of pointer value = Some selected" and "utf8_valid (to_string selected)"
    and "length pointer \<le> 1024" and "4 \<le> limit" and "limit \<le> 32768"
  shows "walk_fragments (length (to_string selected) + 1) pointer_of to_string value pointer 0 limit = Ok (to_string selected)"
proof -
  obtain cs where cs: "to_string selected = concat cs" "list_all utf8_char cs" using utf8_groups[OF assms(2)] by blast
  show ?thesis
    using walk_fragments_at[of pointer_of pointer "value" selected to_string cs limit 0 "length (to_string selected) + 1",
        OF assms(1) cs assms(3-5)] cs(1)
    by (simp add: is_char_boundary_def)
qed

definition ex_euro :: string where
  "ex_euro = [CHR 0x22, CHR 0xE2, CHR 0x82, CHR 0xAC, CHR 0x22]"

theorem fragments_tile_witness:
  "walk_fragments 6 (\<lambda>_ v. Some v) (\<lambda>_. ex_euro) JNull [] 0 4 = Ok ex_euro"
proof -
  have "utf8_valid ex_euro" "length ex_euro + 1 = 6" by code_simp+
  with fragments_tile[of "\<lambda>_ v. Some v" "[]" JNull JNull "\<lambda>_. ex_euro" 4] show ?thesis by (simp only:) simp
qed

end
