(* ===== verification/Properties_Deploy.thy ===== *)
theory Properties_Deploy
  imports Example_Hub
begin

text \<open>
  What the hub guarantees of deployments and of event deliveries: the checks before an activation,
  what a successful change rests on, what a preparation freezes and how it is retried, and the order
  in which a sink sees the events.
\<close>

section \<open>Deployments\<close>

lemma answered: "is_ok (snd p) \<Longrightarrow> p = (fst p, Ok (projr (snd p)))"
  by (cases p) (auto simp: is_ok_def split: sum.splits)

text \<open>
  (C19) Compare before activate: a first request for an activation is accepted only for the caller's
  refreshed change in state ready at the revision he names, before the plan expires, while the branch
  on the remote still is at the planned head and the host still runs what the plan was made against.
\<close>

theorem activation_needs_agreement:
  assumes "submit_change_stage_owned digest hex_digest as_second ts_add serde now fresh app agent prin hs params Activate workflow s
      = (s', Ok h)"
    and "idempotency_key hs = Ok key" and "get_idempotent_job (pr_name prin) key s = Ok None"
  shows "\<exists>s1 change deployment source runtime.
    refresh_change serde now app agent prin (dc_change_id params) s = (s1, Ok change)
    \<and> ch_state change = Ready \<and> ch_revision change = dc_expected_revision params
    \<and> as_second now \<le> as_second (pl_expires_at (ch_plan change))
    \<and> deployment_for app prin (pl_deployment_profile (ch_plan change)) = Ok deployment
    \<and> repository_head app agent prin (pl_repository (ch_plan change)) (pl_source_reference (ch_plan change)) = Ok source
    \<and> hd_commit source = pl_source_remote_head (ch_plan change)
    \<and> runtime_state as_second now app agent prin deployment = Ok runtime
    \<and> runtime_matches_plan runtime (ch_plan change)"
  by (rule activation_checked[OF assms])

theorem activation_needs_agreement_witness:
  "\<exists>s1 change source. refresh_change ex_serde 20 ex_app ex_agent ex_prin ex_change ex_ready = (s1, Ok change)
    \<and> ch_state change = Ready
    \<and> repository_head ex_app ex_agent ex_prin (pl_repository (ch_plan change)) (pl_source_reference (ch_plan change)) = Ok source
    \<and> hd_commit source = pl_source_remote_head (ch_plan change)"
proof -
  note run = answered[OF ex_activation_ok, unfolded ex_activation_def]
  have unused: "get_idempotent_job (pr_name ex_prin) ''k1'' ex_ready = Ok None" by code_simp
  from activation_needs_agreement[OF run ex_key unused] show ?thesis by (auto simp: ex_stage_params_def)
qed

text \<open>
  (C20) A change succeeds only by a verification: a refresh that turns a change into a succeeded one
  found it verifying, with the job of its verification ended and the job's report saying that the
  intended closure runs.
\<close>

theorem success_needs_verification:
  assumes "reachable digest ts_text as_second2 ts_add s"
    and "refresh_change serde now app agent prin cid s = (s', Ok c')"
    and "get_owned_change (pr_name prin) cid s = Ok c" and "pl_change_id (ch_plan c) = cid"
    and "ch_state c' = ChSucceeded" and "ch_state c \<noteq> ChSucceeded"
  shows "ch_state c = Verifying \<and> (\<exists>jid job report. cj_verify (ch_jobs c) = Some jid \<and> get_job jid s' = Ok job
    \<and> JobState_is_terminal (h_state (job_handle job)) \<and> job_report serde job = Some report
    \<and> rp_action report = Verify \<and> rp_status report = RVerified)"
  by (rule refresh_change_succeeded[OF assms(2) reachable_store_inv[OF assms(1)] assms(3-6)])

theorem success_needs_verification_witness:
  "\<exists>job report. get_job ex_job (fst ex_refreshed) = Ok job \<and> JobState_is_terminal (h_state (job_handle job))
     \<and> job_report ex_serde job = Some report \<and> rp_action report = Verify \<and> rp_status report = RVerified"
proof -
  let ?c = "projr (get_owned_change (pr_name ex_prin) ex_change ex_verifying)"
  have facts: "is_ok (get_owned_change (pr_name ex_prin) ex_change ex_verifying)" "pl_change_id (ch_plan ?c) = ex_change"
    "ch_state ?c \<noteq> ChSucceeded" "cj_verify (ch_jobs ?c) = Some ex_job" by code_simp+
  then have c: "get_owned_change (pr_name ex_prin) ex_change ex_verifying = Ok ?c"
    by (cases "get_owned_change (pr_name ex_prin) ex_change ex_verifying") (simp_all add: is_ok_def)
  have run: "refresh_change ex_serde 20 ex_app ex_agent ex_prin ex_change ex_verifying
      = (fst ex_refreshed, Ok (projr (snd ex_refreshed)))"
    using answered[OF ex_refreshed_ok(1)] by (simp add: ex_refreshed_def)
  from success_needs_verification[OF ex_verifying_reachable run c facts(2) ex_refreshed_ok(2) facts(3)] facts(4)
  show ?thesis by auto
qed

text \<open>
  A preparation freezes what it observed: a first request that is accepted leaves a change in
  state checking, owned by the caller, with the accepted job as its preparation, and its plan carries
  the commit and tree of the workspace, the remote head and the runtime that the executors reported.
\<close>

theorem prepare_freezes_observation:
  assumes "reachable digest2 ts_text as_second2 ts_add2 s"
    and "prepare_change digest as_second ts_add serde now fresh app agent prin hs params s = (s', Ok h)"
    and "idempotency_key hs = Ok key" and "get_idempotent_job (pr_name prin) key s = Ok None"
    and "uuid_text (job_id_str fresh)" and "agent_ids_ok agent"
  shows "\<exists>change job deployment w commit source runtime.
    deployment_for app prin (dp_profile params) = Ok deployment
    \<and> prepare_observations as_second now app agent prin deployment params = Ok (w, commit, source, runtime)
    \<and> get_change (ChangeId (job_id_str fresh)) s' = Ok change \<and> ch_state change = Checking
    \<and> ch_creator change = pr_name prin \<and> cj_prepare (ch_jobs change) = Some fresh
    \<and> get_job fresh s' = Ok job \<and> h = job_handle job
    \<and> runtime_matches_plan runtime (ch_plan change) \<and> pl_source_remote_head (ch_plan change) = hd_commit source
    \<and> pl_source_commit (ch_plan change) = commit \<and> pl_tree_hash (ch_plan change) = ws_tree_hash w"
  by (rule prepare_change_creates[OF assms(2-4) reachable_store_inv[OF assms(1)] assms(5,6)])

theorem prepare_freezes_observation_witness:
  "\<exists>change job. get_change (ChangeId (job_id_str ex_job2)) (fst ex_prepared) = Ok change \<and> ch_state change = Checking
     \<and> cj_prepare (ch_jobs change) = Some ex_job2 \<and> get_job ex_job2 (fst ex_prepared) = Ok job"
proof -
  have run: "prepare_change ex_digest ex_second ex_add ex_serde 20 ex_job2 ex_app ex_agent ex_prin ex_headers ex_prepare_params ex4
      = (fst ex_prepared, Ok (projr (snd ex_prepared)))"
    using answered[OF ex_prepared_ok] by (simp add: ex_prepared_def)
  have unused: "get_idempotent_job (pr_name ex_prin) ''k1'' ex4 = Ok None" by code_simp
  from prepare_freezes_observation[OF ex_reachable_4 run ex_key unused] ex_ids ex_agent_ids
  show ?thesis by auto
qed






section \<open>Deliveries\<close>

text \<open>
  (C25) A sink misses no event: one round of the delivery moves the cursor of a sink at most to the
  first event behind it, and only when the sink does not want that event or has answered it with
  success and a stage other than queued.
\<close>

theorem deliveries_in_order:
  assumes "reachable digest ts_text as_second ts_add2 s"
    and "deliver_next_event ts_add from_slice now app sink post s = (s', r)"
    and "cursor_of (sk_id sink) s = Some c" and "cursor_of (sk_id sink) s' = Some c'" and "c < c'"
  shows "\<exists>e \<in> set (st_events s). c' = evr_sequence e \<and> c < evr_sequence e
    \<and> (\<forall>e' \<in> set (st_events s). c < evr_sequence e' \<longrightarrow> evr_sequence e \<le> evr_sequence e')
    \<and> (\<not> sink_matches sink (decoded_event e)
      \<or> (\<exists>status stage. delivery_stage from_slice (post (decoded_event e)) = Ok (status, stage) \<and> stage \<noteq> DlQueued))"
proof -
  note inv = reachable_store_inv[OF assms(1)]
  show ?thesis
    by (rule deliver_cursor_cases[OF assms(2) store_inv_parts(6)[OF inv] store_inv_parts(8)[OF inv] assms(3-5)]) blast
qed

definition ex_sink :: EventSink where
  "ex_sink = \<lparr>sk_id = ''hook'', sk_hosts = {}, sk_kinds = {}, sk_retry_seconds = 60\<rparr>"

definition ex_delivered :: "store \<times> (unit, store_error) result" where
  "ex_delivered = deliver_next_event ex_add (\<lambda>_. None) 9 ex_app ex_sink (\<lambda>_. Ok (200, [])) ex7"

theorem deliveries_in_order_witness:
  "\<exists>e \<in> set (st_events ex7). evr_sequence e = 1
    \<and> (\<not> sink_matches ex_sink (decoded_event e)
      \<or> (\<exists>status stage. delivery_stage (\<lambda>_. None) (Ok (200, [])) = Ok (status, stage) \<and> stage \<noteq> DlQueued))"
proof -
  have cur: "cursor_of (sk_id ex_sink) ex7 = Some 0" "cursor_of (sk_id ex_sink) (fst ex_delivered) = Some 1" by code_simp+
  have "deliver_next_event ex_add (\<lambda>_. None) 9 ex_app ex_sink (\<lambda>_. Ok (200, [])) ex7 = (fst ex_delivered, snd ex_delivered)"
    by (simp add: ex_delivered_def)
  from deliveries_in_order[OF ex_reachable_7 this cur] show ?thesis by auto
qed

end
