(* ===== verification/Deploy_Runner.thy ===== *)
theory Deploy_Runner
  imports Rust_Str Proto_Changes
begin

text \<open>
  \<open>maxops-executor/src/bin/maxops-deploy-runner.rs\<close>: the program that carries out one deployment
  stage on the target host.

  The host is a value of an arbitrary type that commands, and the passing of time, change; what the
  runner can do to it and see of it is the record \<open>machine\<close>. A function of the runner returns the
  host as it leaves it, and its result.
\<close>

section \<open>The host\<close>

text \<open>
  \<open>CleanEnv\<close> is \<open>env_clear()\<close>, \<open>NixEnv\<close> the environment of \<open>deployment_command\<close>. A command
  that does not start is an error.
\<close>

datatype environment = CleanEnv | NixEnv

record command_output =
  out_success :: bool
  out_stdout :: string
  out_stderr :: string

record 'w machine =
  mc_command :: "environment \<Rightarrow> string \<Rightarrow> string list \<Rightarrow> 'w \<Rightarrow> 'w \<times> (command_output, string) result"
  mc_read_link :: "string \<Rightarrow> 'w \<Rightarrow> string option"
  mc_canonicalize :: "string \<Rightarrow> 'w \<Rightarrow> string option"
  mc_exists :: "string \<Rightarrow> 'w \<Rightarrow> bool"
  mc_read_file :: "string \<Rightarrow> 'w \<Rightarrow> (string, string) result"
  mc_sleep :: "nat \<Rightarrow> 'w \<Rightarrow> 'w"
  mc_now :: "'w \<Rightarrow> timestamp"
  mc_hash :: "string \<Rightarrow> string"
  mc_failure :: "command_output \<Rightarrow> string"

type_synonym ('w, 'a) action = "'w \<Rightarrow> 'w \<times> ('a, string) result"

definition wret :: "'a \<Rightarrow> ('w, 'a) action" where
  "wret x = (\<lambda>w. (w, Ok x))"

definition wlift :: "('a, string) result \<Rightarrow> ('w, 'a) action" where
  "wlift r = (\<lambda>w. (w, r))"

definition wread :: "('w \<Rightarrow> 'a) \<Rightarrow> ('w, 'a) action" where
  "wread f = (\<lambda>w. (w, Ok (f w)))"

definition wbind :: "('w, 'a) action \<Rightarrow> ('a \<Rightarrow> ('w, 'b) action) \<Rightarrow> ('w, 'b) action" where
  "wbind m f = (\<lambda>w. case m w of (w', Inl e) \<Rightarrow> (w', Inl e) | (w', Inr x) \<Rightarrow> f x w')"

text \<open>\<open>wrap_err\<close> under \<open>{:#}\<close>, and \<open>if let Err(error)\<close> or \<open>match\<close> on an action.\<close>

definition wwrap :: "string \<Rightarrow> ('w, 'a) action \<Rightarrow> ('w, 'a) action" where
  "wwrap context m = (\<lambda>w. case m w of (w', r) \<Rightarrow> (w', map_err (\<lambda>e. context @ '': '' @ e) r))"

definition wcatch :: "('w, 'a) action \<Rightarrow> (string \<Rightarrow> ('w, 'b) action) \<Rightarrow> ('a \<Rightarrow> ('w, 'b) action) \<Rightarrow> ('w, 'b) action" where
  "wcatch m h f = (\<lambda>w. case m w of (w', Inl e) \<Rightarrow> h e w' | (w', Inr x) \<Rightarrow> f x w')"

section \<open>Checks\<close>

definition validate :: "DeploymentRunnerSpec \<Rightarrow> (unit, string) result" where
  "validate spec =
     (if \<not> list_all path_is_absolute [dr_nix spec, dr_nix_env spec, dr_profile_path spec, dr_running_link spec]
      then Err ''deployment paths must be absolute''
      else if \<not> path_normal_components (dr_activation_program spec)
      then Err ''activation program must be a relative path''
      else if dr_verify_attempts spec = 0 then Err ''verify attempts must be positive''
      else if \<not> list_all (\<lambda>argv. argv \<noteq> []) (dr_verify_commands spec)
      then Err ''verification commands must have a program''
      else Ok ())"

definition ensure_store_path :: "string \<Rightarrow> (unit, string) result" where
  "ensure_store_path value =
     (if starts_with value ''/nix/store/'' \<and> CHR 0x0A \<notin> set value \<and> CHR 0x0D \<notin> set value \<and> path_is_absolute value
      then Ok () else Err ''deployment result is not a Nix store path'')"

definition ensure_command_succeeded :: "'w machine \<Rightarrow> command_output \<Rightarrow> (unit, string) result" where
  "ensure_command_succeeded m result =
     (if length (out_stderr result) > 64 * 1024 then Err ''deployment command stderr is oversized''
      else if out_success result then Ok ()
      else Err (mc_failure m result))"

definition command_text :: "'w machine \<Rightarrow> string \<Rightarrow> string list \<Rightarrow> ('w, string) action" where
  "command_text m program arguments =
     wbind (mc_command m NixEnv program arguments) (\<lambda>result.
     wbind (wlift (ensure_command_succeeded m result)) (\<lambda>_.
     if length (out_stdout result) > 4096 then wlift (Err ''deployment command output is oversized'')
     else if \<not> utf8_valid (out_stdout result) then wlift (Err ''invalid utf-8 sequence'')
     else
       let text = trim (out_stdout result) in
       if text = [] \<or> CHR 0x0A \<in> set text then wlift (Err ''invalid deployment command output'')
       else wret text))"

definition command_status :: "'w machine \<Rightarrow> string \<Rightarrow> string list \<Rightarrow> ('w, unit) action" where
  "command_status m program arguments =
     wbind (mc_command m NixEnv program arguments) (\<lambda>result. wlift (ensure_command_succeeded m result))"

definition lock_digest :: "'w machine \<Rightarrow> ('w, string) action" where
  "lock_digest m = (\<lambda>w.
     case mc_read_file m ''flake.lock'' w of
       Inl e \<Rightarrow> (w, Err (''read frozen flake.lock: '' @ e))
     | Inr bytes \<Rightarrow> (w, Ok (mc_hash m bytes)))"

section \<open>Observation\<close>

definition observe :: "'w machine \<Rightarrow> DeploymentRunnerSpec \<Rightarrow> 'w \<Rightarrow> string option \<times> string option" where
  "observe m spec w = (mc_read_link m (dr_running_link spec) w, mc_canonicalize m (dr_profile_path spec) w)"

definition read_boot_id :: "'w machine \<Rightarrow> 'w \<Rightarrow> string option" where
  "read_boot_id m w =
     (case mc_read_file m ''/proc/sys/kernel/random/boot_id'' w of
        Inl _ \<Rightarrow> None
      | Inr value \<Rightarrow> if utf8_valid value \<and> trim value \<noteq> [] then Some (trim value) else None)"

definition profile_generation :: "'w machine \<Rightarrow> string \<Rightarrow> 'w \<Rightarrow> nat option" where
  "profile_generation m path w =
     Option.bind (mc_read_link m path w) (\<lambda>link.
     Option.bind (path_file_name link) (\<lambda>name.
     if \<not> utf8_valid name then None
     else Option.bind (rsplit_once_str ''-link'' name) (\<lambda>(prefix, _).
       Option.bind (rsplit_once_str ''-'' prefix) (\<lambda>(_, generation). parse_usize generation))))"

definition optional_matches :: "string option \<Rightarrow> string option \<Rightarrow> bool" where
  "optional_matches expected observed = (case expected of None \<Rightarrow> True | Some e \<Rightarrow> observed = Some e)"

definition spec_baseline :: "DeploymentRunnerSpec \<Rightarrow> RuntimeBaseline" where
  "spec_baseline spec = pl_runtime_baseline (dj_plan (dr_job spec))"

definition restored_baseline_matches ::
  "'w machine \<Rightarrow> DeploymentRunnerSpec \<Rightarrow> string option \<Rightarrow> string option \<Rightarrow> 'w \<Rightarrow> bool" where
  "restored_baseline_matches m spec running profile w \<longleftrightarrow>
     optional_matches (rb_running_closure (spec_baseline spec)) running
     \<and> optional_matches (rb_persistent_profile (spec_baseline spec)) profile
     \<and> (case rb_boot_id (spec_baseline spec) of None \<Rightarrow> True | Some expected \<Rightarrow> read_boot_id m w = Some expected)"

definition baseline_matches ::
  "'w machine \<Rightarrow> DeploymentRunnerSpec \<Rightarrow> string option \<Rightarrow> string option \<Rightarrow> 'w \<Rightarrow> bool" where
  "baseline_matches m spec running profile w \<longleftrightarrow>
     optional_matches (rb_running_closure (spec_baseline spec)) running
     \<and> optional_matches (rb_persistent_profile (spec_baseline spec)) profile
     \<and> (case rb_boot_id (spec_baseline spec) of None \<Rightarrow> True | Some expected \<Rightarrow> read_boot_id m w = Some expected)
     \<and> (case rb_generation (spec_baseline spec) of
          None \<Rightarrow> True | Some expected \<Rightarrow> profile_generation m (dr_profile_path spec) w = Some expected)"

definition current_is_intended :: "DeploymentArtifact \<Rightarrow> string option \<Rightarrow> string option \<Rightarrow> bool" where
  "current_is_intended art running profile \<longleftrightarrow>
     running = Some (ar_out_path art) \<and> profile = Some (ar_out_path art)"

definition current_is_owned ::
  "DeploymentArtifact \<Rightarrow> string option \<Rightarrow> string option \<Rightarrow> string option \<Rightarrow> bool" where
  "current_is_owned art baseline_running running profile \<longleftrightarrow>
     profile = Some (ar_out_path art) \<and> (running = Some (ar_out_path art) \<or> running = baseline_running)"

definition artifact :: "DeploymentRunnerSpec \<Rightarrow> (DeploymentArtifact, string) result" where
  "artifact spec = ok_or ''deployment stage requires a built artifact'' (dj_artifact (dr_job spec))"

section \<open>Reports\<close>

definition report ::
  "'w machine \<Rightarrow> DeploymentAction \<Rightarrow> DeploymentReportStatus \<Rightarrow> string option \<Rightarrow> string option \<Rightarrow> string option \<Rightarrow> string \<Rightarrow>
   'w \<Rightarrow> DeploymentReport" where
  "report m act status drv_path out_path digest detail w =
     \<lparr>rp_action = act, rp_status = status, rp_drv_path = drv_path, rp_out_path = out_path,
      rp_lock_digest = digest, rp_observed_running = None, rp_observed_profile = None, rp_detail = detail,
      rp_completed_at = mc_now m w\<rparr>"

definition observed_report ::
  "'w machine \<Rightarrow> DeploymentAction \<Rightarrow> DeploymentReportStatus \<Rightarrow> string option \<times> string option \<Rightarrow> string \<Rightarrow> 'w \<Rightarrow> DeploymentReport" where
  "observed_report m act status observed detail w =
     \<lparr>rp_action = act, rp_status = status, rp_drv_path = None, rp_out_path = None,
      rp_lock_digest = None, rp_observed_running = fst observed, rp_observed_profile = snd observed,
      rp_detail = detail, rp_completed_at = mc_now m w\<rparr>"

section \<open>Stages\<close>

definition prepare :: "'w machine \<Rightarrow> DeploymentRunnerSpec \<Rightarrow> ('w, DeploymentReport) action" where
  "prepare m spec =
     wbind (lock_digest m) (\<lambda>digest.
     wbind (command_text m (dr_nix spec)
             [''eval'', ''--raw'', ''.#'' @ pl_flake_attribute (dj_plan (dr_job spec)) @ ''.drvPath'']) (\<lambda>drv_path.
     wbind (wlift (ensure_store_path drv_path)) (\<lambda>_.
     wread (report m Prepare RPrepared (Some drv_path) None (Some digest) ''prepared exact derivation and lock digest''))))"

definition build :: "'w machine \<Rightarrow> DeploymentRunnerSpec \<Rightarrow> ('w, DeploymentReport) action" where
  "build m spec =
     wbind (lock_digest m) (\<lambda>digest.
     if pl_lock_digest (dj_plan (dr_job spec)) \<noteq> Some digest
     then wlift (Err ''workspace lock digest changed after preparation'')
     else
       wbind (command_text m (dr_nix spec)
               [''build'', ''--no-link'', ''--print-out-paths'', ''.#'' @ pl_flake_attribute (dj_plan (dr_job spec))]) (\<lambda>out_path.
       wbind (wlift (ensure_store_path out_path)) (\<lambda>_.
       wbind (command_text m (dr_nix spec) [''path-info'', ''--derivation'', out_path]) (\<lambda>drv_path.
       wbind (wlift (ensure_store_path drv_path)) (\<lambda>_.
       if pl_drv_path (dj_plan (dr_job spec)) \<noteq> Some drv_path
       then wlift (Err ''built derivation differs from prepared plan'')
       else wread (report m Build RBuilt (Some drv_path) (Some out_path) (Some digest) ''built exact prepared derivation''))))))"

definition ensure_artifact :: "'w machine \<Rightarrow> DeploymentRunnerSpec \<Rightarrow> DeploymentArtifact \<Rightarrow> ('w, unit) action" where
  "ensure_artifact m spec art = (\<lambda>w.
     if mc_exists m (ar_out_path art) w then (w, Ok ())
     else case dr_artifact_source spec of
       None \<Rightarrow> (w, Err ''artifact is absent on target and no source is configured'')
     | Some source \<Rightarrow> command_status m (dr_nix spec) [''copy'', ''--from'', source, ar_out_path art] w)"

definition set_and_activate :: "'w machine \<Rightarrow> DeploymentRunnerSpec \<Rightarrow> string \<Rightarrow> ('w, unit) action" where
  "set_and_activate m spec out_path =
     wbind (wlift (ensure_store_path out_path)) (\<lambda>_.
     wbind (wwrap ''set persistent deployment profile''
             (command_status m (dr_nix_env spec) [''-p'', dr_profile_path spec, ''--set'', out_path])) (\<lambda>_.
     wbind (wwrap ''start activation program''
             (mc_command m CleanEnv (path_join out_path (dr_activation_program spec)) (dr_activation_arguments spec))) (\<lambda>result.
     if out_success result then wret () else wlift (Err ''activation program failed''))))"

fun run_verification_commands :: "'w machine \<Rightarrow> string list list \<Rightarrow> ('w, unit) action" where
  "run_verification_commands m [] = wret ()"
| "run_verification_commands m (argv # commands) =
     (case argv of
        [] \<Rightarrow> wlift (Err ''empty check'')
      | program # arguments \<Rightarrow>
          wbind (mc_command m CleanEnv program arguments) (\<lambda>result.
          if out_success result then run_verification_commands m commands
          else wlift (Err ''target verification command failed'')))"

text \<open>The attempts that are left, and the error of the last one.\<close>

fun verify_attempts ::
  "'w machine \<Rightarrow> DeploymentRunnerSpec \<Rightarrow> DeploymentArtifact \<Rightarrow> nat \<Rightarrow> string option \<Rightarrow> ('w, unit) action" where
  "verify_attempts m spec art 0 last_error =
     wlift (Err (case last_error of Some e \<Rightarrow> e | None \<Rightarrow> ''verification did not run''))"
| "verify_attempts m spec art (Suc n) last_error =
     wbind (wread (observe m spec)) (\<lambda>(running, profile).
     let again = (\<lambda>e w. verify_attempts m spec art n (Some e)
           (if n > 0 then mc_sleep m (dr_verify_interval_seconds spec) w else w)) in
     if current_is_intended art running profile
     then wcatch (run_verification_commands m (dr_verify_commands spec)) again wret
     else again ''running or persistent closure differs from artifact'')"

definition verify_intended :: "'w machine \<Rightarrow> DeploymentRunnerSpec \<Rightarrow> DeploymentArtifact \<Rightarrow> ('w, unit) action" where
  "verify_intended m spec art = verify_attempts m spec art (dr_verify_attempts spec) None"

definition recover_after_failure ::
  "'w machine \<Rightarrow> DeploymentRunnerSpec \<Rightarrow> DeploymentAction \<Rightarrow> string \<Rightarrow> ('w, DeploymentReport \<times> nat) action" where
  "recover_after_failure m spec act failure =
     wbind (wlift (artifact spec)) (\<lambda>art.
     wbind (wread (observe m spec)) (\<lambda>observed.
     if \<not> current_is_owned art (rb_running_closure (spec_baseline spec)) (fst observed) (snd observed)
     then wread (\<lambda>w. (observed_report m act RSuperseded observed
            (failure @ ''; a different runtime state now owns the host'') w, 21))
     else if \<not> dr_automatic_rollback spec \<and> act \<noteq> Rollback
     then wread (\<lambda>w. (observed_report m act RFailed observed (failure @ ''; automatic rollback is disabled'') w, 22))
     else
       wbind (wlift (ok_or ''plan has no restorable runtime baseline''
               (case rb_persistent_profile (spec_baseline spec) of
                  Some p \<Rightarrow> Some p | None \<Rightarrow> rb_running_closure (spec_baseline spec)))) (\<lambda>baseline.
       wcatch (set_and_activate m spec baseline)
         (\<lambda>e. wread (\<lambda>w. (observed_report m act RRecoveryFailed (observe m spec w) (failure @ ''; recovery failed: '' @ e) w, 23)))
         (\<lambda>_. wread (\<lambda>w.
            let (running, profile) = observe m spec w in
            if \<not> restored_baseline_matches m spec running profile w
            then (observed_report m act RRecoveryFailed (running, profile)
                   (failure @ ''; recovery completed but baseline was not restored'') w, 23)
            else (observed_report m act RRolledBack (running, profile)
                   (failure @ ''; original runtime baseline restored'') w, 24))))))"

definition activate :: "'w machine \<Rightarrow> DeploymentRunnerSpec \<Rightarrow> ('w, DeploymentReport \<times> nat) action" where
  "activate m spec =
     wbind (wlift (artifact spec)) (\<lambda>art.
     wbind (wread (\<lambda>w. (observe m spec w, baseline_matches m spec (fst (observe m spec w)) (snd (observe m spec w)) w)))
       (\<lambda>(observed, matches).
     if \<not> matches
     then wread (\<lambda>w. (observed_report m Activate RStale observed ''runtime baseline changed before activation'' w, 20))
     else
       wbind (ensure_artifact m spec art) (\<lambda>_.
       wcatch (set_and_activate m spec (ar_out_path art))
         (\<lambda>e. recover_after_failure m spec Activate (''activation failed: '' @ e))
         (\<lambda>_. wcatch (verify_intended m spec art)
            (\<lambda>e. recover_after_failure m spec Activate (''activation verification failed: '' @ e))
            (\<lambda>_. wread (\<lambda>w. (observed_report m Activate RActivated (observe m spec w)
                   ''artifact activated and target-local checks passed'' w, 0)))))))"

definition verify :: "'w machine \<Rightarrow> DeploymentRunnerSpec \<Rightarrow> ('w, DeploymentReport \<times> nat) action" where
  "verify m spec =
     wbind (wlift (artifact spec)) (\<lambda>art.
     wcatch (verify_intended m spec art)
       (\<lambda>e. recover_after_failure m spec Verify (''acceptance failed: '' @ e))
       (\<lambda>_. wread (\<lambda>w. (observed_report m Verify RVerified (observe m spec w)
              ''activated artifact passed target acceptance'' w, 0))))"

definition rollback :: "'w machine \<Rightarrow> DeploymentRunnerSpec \<Rightarrow> ('w, DeploymentReport \<times> nat) action" where
  "rollback m spec = recover_after_failure m spec Rollback ''rollback requested''"

text \<open>\<open>main\<close> after the specification has been read: the report it prints and its exit code.\<close>

definition runner_main :: "'w machine \<Rightarrow> DeploymentRunnerSpec \<Rightarrow> ('w, DeploymentReport \<times> nat) action" where
  "runner_main m spec =
     wbind (wlift (validate spec)) (\<lambda>_.
     case dj_action (dr_job spec) of
       Prepare \<Rightarrow> wbind (prepare m spec) (\<lambda>r. wret (r, 0))
     | Build \<Rightarrow> wbind (build m spec) (\<lambda>r. wret (r, 0))
     | Activate \<Rightarrow> activate m spec
     | Verify \<Rightarrow> verify m spec
     | Rollback \<Rightarrow> rollback m spec)"

section \<open>Facts about actions\<close>

lemma wbind_Ok:
  "wbind m f w = (w', Ok y) \<longleftrightarrow> (\<exists>w1 x. m w = (w1, Ok x) \<and> f x w1 = (w', Ok y))"
  by (auto simp: wbind_def split: prod.splits sum.splits)

lemma wcatch_Ok:
  "wcatch m h f w = (w', Ok y) \<longleftrightarrow>
     (\<exists>w1 e. m w = (w1, Err e) \<and> h e w1 = (w', Ok y)) \<or> (\<exists>w1 x. m w = (w1, Ok x) \<and> f x w1 = (w', Ok y))"
  by (auto simp: wcatch_def split: prod.splits sum.splits)

lemma action_Ok [simp]:
  "wret x w = (w', Ok y) \<longleftrightarrow> w' = w \<and> y = x"
  "wlift r w = (w', Ok y) \<longleftrightarrow> w' = w \<and> r = Ok y"
  "wread g w = (w', Ok y) \<longleftrightarrow> w' = w \<and> y = g w"
  by (auto simp: wret_def wlift_def wread_def)

end
