(* ===== verification/Properties_Runner.thy ===== *)
theory Properties_Runner
  imports Deploy_Runner Hub_Changes Example_Run
begin

text \<open>
  What the deployment runner does to the host and what its reports mean, for any host and any
  behaviour of the commands it runs; and that the hub accepts every report it can print.
\<close>

section \<open>Lemmas\<close>

text \<open>The outcomes of a recovery.\<close>

lemma recover_cases:
  assumes "recover_after_failure m spec act failure w = (w', Ok (rep, code))"
  obtains
    (superseded) art where "artifact spec = Ok art" "w' = w" "rp_status rep = RSuperseded" "code = 21"
      "\<not> current_is_owned art (rb_running_closure (spec_baseline spec)) (fst (observe m spec w)) (snd (observe m spec w))"
  | (failed) "w' = w" "rp_status rep = RFailed" "code = 22" "act \<noteq> Rollback"
  | (unrecovered) "rp_status rep = RRecoveryFailed" "code = 23"
  | (restored) "rp_status rep = RRolledBack" "code = 24"
      "restored_baseline_matches m spec (fst (observe m spec w')) (snd (observe m spec w')) w'"
proof -
  from assms obtain art where art: "artifact spec = Ok art"
    unfolding recover_after_failure_def by (auto simp: wbind_Ok)
  show thesis
  proof (cases "current_is_owned art (rb_running_closure (spec_baseline spec)) (fst (observe m spec w)) (snd (observe m spec w))")
    case False
    then have "w' = w \<and> rp_status rep = RSuperseded \<and> code = 21"
      using assms art unfolding recover_after_failure_def by (auto simp: wbind_Ok observed_report_def)
    with art False superseded show thesis by blast
  next
    case owned: True
    show thesis
    proof (cases "\<not> dr_automatic_rollback spec \<and> act \<noteq> Rollback")
      case True
      with owned have "w' = w \<and> rp_status rep = RFailed \<and> code = 22 \<and> act \<noteq> Rollback"
        using assms art unfolding recover_after_failure_def by (auto simp: wbind_Ok observed_report_def)
      with failed show thesis by blast
    next
      case False
      have "rp_status rep = RRecoveryFailed \<and> code = 23
          \<or> rp_status rep = RRolledBack \<and> code = 24
            \<and> restored_baseline_matches m spec (fst (observe m spec w')) (snd (observe m spec w')) w'"
        using assms art owned False unfolding recover_after_failure_def
        by (auto simp: wbind_Ok wcatch_Ok observed_report_def observe_def split: if_splits)
      with unrecovered restored show thesis by blast
    qed
  qed
qed

lemma recover_action:
  "recover_after_failure m spec act failure w = (w', Ok (rep, code)) \<Longrightarrow> rp_action rep = act"
  unfolding recover_after_failure_def
  by (auto simp: wbind_Ok wcatch_Ok observed_report_def split: if_splits prod.splits)

text \<open>An accepted verification has seen the artifact in place and then passed every command.\<close>

lemma verify_attempts_Ok:
  "verify_attempts m spec art n e w = (w', Ok ()) \<Longrightarrow>
     \<exists>w1. current_is_intended art (fst (observe m spec w1)) (snd (observe m spec w1))
       \<and> run_verification_commands m (dr_verify_commands spec) w1 = (w', Ok ())"
proof (induction n arbitrary: e w)
  case (Suc n)
  show ?case
  proof (cases "current_is_intended art (fst (observe m spec w)) (snd (observe m spec w))")
    case True
    with Suc.prems have "(\<exists>w1 e'. verify_attempts m spec art n (Some e') w1 = (w', Ok ()))
        \<or> run_verification_commands m (dr_verify_commands spec) w = (w', Ok ())"
      by (auto simp: wbind_Ok wcatch_Ok Let_def split: prod.splits)
    with True Suc.IH show ?thesis by blast
  next
    case False
    with Suc.prems have "\<exists>e' w1. verify_attempts m spec art n (Some e') w1 = (w', Ok ())"
      by (auto simp: wbind_Ok Let_def split: prod.splits)
    with Suc.IH show ?thesis by blast
  qed
qed simp

text \<open>What a report claims about the host.\<close>

definition report_true :: "'w machine \<Rightarrow> DeploymentRunnerSpec \<Rightarrow> DeploymentReport \<Rightarrow> 'w \<Rightarrow> bool" where
  "report_true m spec rep w \<longleftrightarrow>
     (case rp_status rep of
        RRolledBack \<Rightarrow> restored_baseline_matches m spec (fst (observe m spec w)) (snd (observe m spec w)) w
      | RActivated \<Rightarrow> \<exists>art w1. dj_artifact (dr_job spec) = Some art
          \<and> current_is_intended art (fst (observe m spec w1)) (snd (observe m spec w1))
          \<and> run_verification_commands m (dr_verify_commands spec) w1 = (w, Ok ())
      | RVerified \<Rightarrow> \<exists>art w1. dj_artifact (dr_job spec) = Some art
          \<and> current_is_intended art (fst (observe m spec w1)) (snd (observe m spec w1))
          \<and> run_verification_commands m (dr_verify_commands spec) w1 = (w, Ok ())
      | RPrepared \<Rightarrow> (\<exists>d l. rp_drv_path rep = Some d \<and> rp_lock_digest rep = Some l \<and> ensure_store_path d = Ok ())
      | RBuilt \<Rightarrow> (\<exists>p. rp_out_path rep = Some p \<and> ensure_store_path p = Ok ())
          \<and> rp_drv_path rep = pl_drv_path (dj_plan (dr_job spec)) \<and> rp_drv_path rep \<noteq> None
          \<and> rp_lock_digest rep = pl_lock_digest (dj_plan (dr_job spec)) \<and> rp_lock_digest rep \<noteq> None
      | _ \<Rightarrow> True)"

text \<open>The statuses of an action, with the exit codes.\<close>

definition status_code_of :: "DeploymentReportStatus \<Rightarrow> nat" where
  "status_code_of status =
     (case status of RStale \<Rightarrow> 20 | RSuperseded \<Rightarrow> 21 | RFailed \<Rightarrow> 22 | RRecoveryFailed \<Rightarrow> 23 | RRolledBack \<Rightarrow> 24 | _ \<Rightarrow> 0)"

definition possible_statuses :: "DeploymentAction \<Rightarrow> DeploymentReportStatus set" where
  "possible_statuses act =
     (case act of
        Prepare \<Rightarrow> {RPrepared}
      | Build \<Rightarrow> {RBuilt}
      | Activate \<Rightarrow> {RActivated, RStale, RSuperseded, RFailed, RRecoveryFailed, RRolledBack}
      | Verify \<Rightarrow> {RVerified, RSuperseded, RFailed, RRecoveryFailed, RRolledBack}
      | Rollback \<Rightarrow> {RSuperseded, RRecoveryFailed, RRolledBack})"

definition good_outcome :: "'w machine \<Rightarrow> DeploymentRunnerSpec \<Rightarrow> DeploymentAction \<Rightarrow> 'w \<Rightarrow> DeploymentReport \<times> nat \<Rightarrow> bool" where
  "good_outcome m spec act w = (\<lambda>(rep, code).
     rp_action rep = act \<and> rp_status rep \<in> possible_statuses act \<and> code = status_code_of (rp_status rep)
     \<and> report_true m spec rep w)"

lemma recover_good:
  assumes "recover_after_failure m spec act failure w = (w', Ok (rep, code))" and "act \<in> {Activate, Verify, Rollback}"
  shows "good_outcome m spec act w' (rep, code)"
  using assms(1)
proof (cases rule: recover_cases)
  case superseded
  then show ?thesis using assms(2) recover_action[OF assms(1)]
    by (auto simp: good_outcome_def possible_statuses_def status_code_of_def report_true_def)
next
  case failed
  then show ?thesis using assms(2) recover_action[OF assms(1)]
    by (auto simp: good_outcome_def possible_statuses_def status_code_of_def report_true_def)
next
  case unrecovered
  then show ?thesis using assms(2) recover_action[OF assms(1)]
    by (auto simp: good_outcome_def possible_statuses_def status_code_of_def report_true_def)
next
  case restored
  then show ?thesis using assms(2) recover_action[OF assms(1)]
    by (auto simp: good_outcome_def possible_statuses_def status_code_of_def report_true_def)
qed

lemma artifact_Ok: "artifact spec = Ok art \<longleftrightarrow> dj_artifact (dr_job spec) = Some art"
  by (cases "dj_artifact (dr_job spec)") (auto simp: artifact_def)

lemma verified_good:
  assumes "verify_intended m spec art w = (w1, Ok ())" and "artifact spec = Ok art"
  shows "good_outcome m spec Verify w1 (observed_report m Verify RVerified obs d w2, 0)"
    and "good_outcome m spec Activate w1 (observed_report m Activate RActivated obs d w2, 0)"
proof -
  from verify_attempts_Ok[OF assms(1)[unfolded verify_intended_def]] assms(2)
  have "\<exists>art w2. dj_artifact (dr_job spec) = Some art
      \<and> current_is_intended art (fst (observe m spec w2)) (snd (observe m spec w2))
      \<and> run_verification_commands m (dr_verify_commands spec) w2 = (w1, Ok ())"
    by (auto simp: artifact_Ok)
  then show "good_outcome m spec Verify w1 (observed_report m Verify RVerified obs d w2, 0)"
    and "good_outcome m spec Activate w1 (observed_report m Activate RActivated obs d w2, 0)"
    by (simp_all add: good_outcome_def possible_statuses_def status_code_of_def report_true_def observed_report_def)
qed

lemma verify_good:
  assumes "verify m spec w = (w', Ok (rep, code))"
  shows "good_outcome m spec Verify w' (rep, code)"
proof -
  from assms obtain art where art: "artifact spec = Ok art"
    and "wcatch (verify_intended m spec art)
       (\<lambda>e. recover_after_failure m spec Verify (''acceptance failed: '' @ e))
       (\<lambda>_. wread (\<lambda>w. (observed_report m Verify RVerified (observe m spec w)
              ''activated artifact passed target acceptance'' w, 0))) w = (w', Ok (rep, code))"
    by (auto simp: verify_def wbind_Ok)
  then show ?thesis
    unfolding wcatch_Ok by (auto intro: recover_good verified_good(1)[OF _ art])
qed

lemma activate_good:
  assumes "activate m spec w = (w', Ok (rep, code))"
  shows "good_outcome m spec Activate w' (rep, code)"
proof -
  from assms obtain art where art: "artifact spec = Ok art" unfolding activate_def by (auto simp: wbind_Ok)
  show ?thesis
  proof (cases "baseline_matches m spec (fst (observe m spec w)) (snd (observe m spec w)) w")
    case False
    with assms art show ?thesis
      by (auto simp: activate_def wbind_Ok good_outcome_def possible_statuses_def status_code_of_def
          report_true_def observed_report_def)
  next
    case True
    with assms art obtain w1 where
      "wcatch (set_and_activate m spec (ar_out_path art))
         (\<lambda>e. recover_after_failure m spec Activate (''activation failed: '' @ e))
         (\<lambda>_. wcatch (verify_intended m spec art)
            (\<lambda>e. recover_after_failure m spec Activate (''activation verification failed: '' @ e))
            (\<lambda>_. wread (\<lambda>w. (observed_report m Activate RActivated (observe m spec w)
                   ''artifact activated and target-local checks passed'' w, 0)))) w1 = (w', Ok (rep, code))"
      by (auto simp: activate_def wbind_Ok)
    then show ?thesis
      unfolding wcatch_Ok by (auto intro: recover_good verified_good(2)[OF _ art])
  qed
qed

lemma prepare_good:
  "prepare m spec w = (w', Ok rep) \<Longrightarrow> good_outcome m spec Prepare w' (rep, 0)"
  by (auto simp: prepare_def wbind_Ok report_def good_outcome_def possible_statuses_def status_code_of_def report_true_def)

lemma build_good:
  "build m spec w = (w', Ok rep) \<Longrightarrow> good_outcome m spec Build w' (rep, 0)"
  by (auto simp: build_def wbind_Ok report_def good_outcome_def possible_statuses_def status_code_of_def report_true_def
      split: if_splits)

lemma runner_good:
  assumes "runner_main m spec w = (w', Ok (rep, code))"
  shows "good_outcome m spec (dj_action (dr_job spec)) w' (rep, code)"
  using assms
  by (cases "dj_action (dr_job spec)")
    (auto simp: runner_main_def wbind_Ok rollback_def intro: prepare_good build_good activate_good verify_good
      recover_good[where act = Rollback])

section \<open>A worked host\<close>

text \<open>A host as its running and its persistent system; the commands do what they say.\<close>

definition ex_command ::
  "environment \<Rightarrow> string \<Rightarrow> string list \<Rightarrow> string option \<times> string option \<Rightarrow>
   (string option \<times> string option) \<times> (command_output, string) result" where
  "ex_command env program arguments w =
     ((case arguments of
         [_, _, c, d] \<Rightarrow> if c = ''--set'' then (fst w, Some d) else w
       | [] \<Rightarrow> (snd w, snd w)
       | _ \<Rightarrow> w), Ok \<lparr>out_success = True, out_stdout = [], out_stderr = []\<rparr>)"

definition ex_host :: "(string option \<times> string option) machine" where
  "ex_host = \<lparr>mc_command = ex_command, mc_read_link = (\<lambda>_ w. fst w), mc_canonicalize = (\<lambda>_ w. snd w),
     mc_exists = (\<lambda>_ _. True), mc_read_file = (\<lambda>_ _. Err ''absent''), mc_sleep = (\<lambda>_ w. w), mc_now = (\<lambda>_. 0),
     mc_hash = (\<lambda>s. s), mc_failure = (\<lambda>_. ''failed'')\<rparr>"

definition ex_artifact :: DeploymentArtifact where
  "ex_artifact = \<lparr>ar_builder_host = ''web1'', ar_source_commit = ex_oid, ar_tree_hash = ex_oid, ar_lock_digest = ''l'',
     ar_drv_path = ''/nix/store/new.drv'', ar_out_path = ''/nix/store/new'', ar_built_at = 0\<rparr>"

definition ex_based_plan :: ChangePlan where
  "ex_based_plan = ex_plan\<lparr>pl_runtime_baseline := (pl_runtime_baseline ex_plan)
     \<lparr>rb_running_closure := Some ''/nix/store/old'', rb_persistent_profile := Some ''/nix/store/old''\<rparr>\<rparr>"

definition ex_runner :: "DeploymentAction \<Rightarrow> DeploymentRunnerSpec" where
  "ex_runner act = \<lparr>dr_job = \<lparr>dj_action = act, dj_plan = ex_based_plan, dj_artifact = Some ex_artifact\<rparr>,
     dr_nix = ''/bin/nix'', dr_nix_env = ''/bin/nix-env'', dr_profile_path = ''/profile'', dr_running_link = ''/running'',
     dr_activation_program = ''activate'', dr_activation_arguments = [], dr_artifact_source = None,
     dr_verify_commands = [[''check'', ''it'']], dr_verify_attempts = 2, dr_verify_interval_seconds = 1,
     dr_automatic_rollback = True\<rparr>"

definition ex_old :: "string option \<times> string option" where
  "ex_old = (Some ''/nix/store/old'', Some ''/nix/store/old'')"

definition ex_foreign :: "string option \<times> string option" where
  "ex_foreign = (Some ''/nix/store/other'', Some ''/nix/store/other'')"

definition ex_activated_run :: "(string option \<times> string option) \<times> (DeploymentReport \<times> nat, string) result" where
  "ex_activated_run = runner_main ex_host (ex_runner Activate) ex_old"

lemma ex_activated: "is_ok (snd ex_activated_run) \<and> rp_status (fst (projr (snd ex_activated_run))) = RActivated"
  by code_simp

lemma ex_activated_eq:
  "runner_main ex_host (ex_runner Activate) ex_old =
     (fst ex_activated_run, Ok (fst (projr (snd ex_activated_run)), snd (projr (snd ex_activated_run))))"
  using ok_run[of ex_activated_run] ex_activated by (simp add: ex_activated_run_def)

section \<open>Properties\<close>

text \<open>
  (C21) The runner's reports are true, whatever the host and its commands do: a report names the
  action that ran, its status is one that the action can end with and fixes the exit code; \<open>activated\<close>
  and \<open>verified\<close> mean that the artifact was seen both running and persistent and that every check then
  succeeded, \<open>rolled_back\<close> that the planned baseline is in place again, \<open>built\<close> that the derivation
  and the lock are the prepared ones.
\<close>

theorem runner_reports_truthfully:
  assumes "runner_main m spec w = (w', Ok (rep, code))"
  shows "rp_action rep = dj_action (dr_job spec) \<and> rp_status rep \<in> possible_statuses (dj_action (dr_job spec))
    \<and> code = status_code_of (rp_status rep) \<and> report_true m spec rep w'"
  using runner_good[OF assms] by (simp add: good_outcome_def)

theorem runner_reports_truthfully_witness:
  "report_true ex_host (ex_runner Activate) (fst (projr (snd ex_activated_run))) (fst ex_activated_run)
   \<and> rp_status (fst (projr (snd ex_activated_run))) = RActivated"
  using runner_reports_truthfully[OF ex_activated_eq] ex_activated by simp

text \<open>
  (C22) The runner never overwrites a state that is not its own: activation touches the host only
  when the planned baseline is what it finds, and recovery, whichever stage asks for it, only when
  the persistent system is the artifact and the running one is the artifact or the baseline.
\<close>

theorem runner_spares_foreign_state:
  "(\<not> baseline_matches m spec (fst (observe m spec w)) (snd (observe m spec w)) w \<longrightarrow> fst (activate m spec w) = w)
   \<and> (\<not> current_is_owned art (rb_running_closure (spec_baseline spec)) (fst (observe m spec w)) (snd (observe m spec w)) \<longrightarrow>
      dj_artifact (dr_job spec) = Some art \<longrightarrow> fst (recover_after_failure m spec act failure w) = w)"
proof -
  have "fst (activate m spec w) = w"
    if "\<not> baseline_matches m spec (fst (observe m spec w)) (snd (observe m spec w)) w"
    using that by (cases "artifact spec") (simp_all add: activate_def wbind_def wlift_def wread_def)
  moreover have "fst (recover_after_failure m spec act failure w) = w"
    if "\<not> current_is_owned art (rb_running_closure (spec_baseline spec)) (fst (observe m spec w)) (snd (observe m spec w))"
      and "dj_artifact (dr_job spec) = Some art"
    using that by (simp add: recover_after_failure_def artifact_def wbind_def wlift_def wread_def)
  ultimately show ?thesis by blast
qed

theorem runner_spares_foreign_state_witness:
  "fst (activate ex_host (ex_runner Activate) ex_foreign) = ex_foreign
   \<and> fst (recover_after_failure ex_host (ex_runner Rollback) Rollback ''rollback requested'' ex_foreign) = ex_foreign"
proof -
  have "\<not> baseline_matches ex_host (ex_runner Activate) (fst (observe ex_host (ex_runner Activate) ex_foreign))
      (snd (observe ex_host (ex_runner Activate) ex_foreign)) ex_foreign"
    "\<not> current_is_owned ex_artifact (rb_running_closure (spec_baseline (ex_runner Rollback)))
      (fst (observe ex_host (ex_runner Rollback) ex_foreign)) (snd (observe ex_host (ex_runner Rollback) ex_foreign))"
    by code_simp+
  moreover have "dj_artifact (dr_job (ex_runner Rollback)) = Some ex_artifact" by (simp add: ex_runner_def)
  ultimately show ?thesis
    using runner_spares_foreign_state[of ex_host "ex_runner Activate" ex_foreign ex_artifact]
      runner_spares_foreign_state[of ex_host "ex_runner Rollback" ex_foreign ex_artifact Rollback "''rollback requested''"]
    by blast
qed

text \<open>
  The hub accepts every report the runner can print: for a change in the stage whose action
  ran, with the plan that the runner was given, the state that the report leads to is a legal
  successor, and a report with exit code 0 leads to the next stage.
\<close>

theorem runner_reports_accepted:
  assumes "runner_main m spec w = (w', Ok (rep, code))" and "dj_plan (dr_job spec) = ch_plan change"
    and "expected_action (ch_state change) = Some (dj_action (dr_job spec))"
  shows "ChangeState_can_transition_to (ch_state change) (snd (apply_report job rep change))
    \<and> (code = 0 \<longrightarrow> snd (apply_report job rep change) =
         (case dj_action (dr_job spec) of
            Prepare \<Rightarrow> Prepared | Build \<Rightarrow> Ready | Activate \<Rightarrow> Verifying | Verify \<Rightarrow> ChSucceeded | Rollback \<Rightarrow> RolledBack))"
proof -
  from runner_good[OF assms(1)] have
    st: "rp_status rep \<in> possible_statuses (dj_action (dr_job spec))" "code = status_code_of (rp_status rep)"
    and true: "report_true m spec rep w'" by (simp_all add: good_outcome_def)
  have built: "rp_status rep = RBuilt \<Longrightarrow> \<exists>d p l. rp_out_path rep = Some p \<and> pl_drv_path (ch_plan change) = Some d
      \<and> pl_lock_digest (ch_plan change) = Some l"
    and prepared: "rp_status rep = RPrepared \<Longrightarrow> \<exists>d l. rp_drv_path rep = Some d \<and> rp_lock_digest rep = Some l"
    using true assms(2)
    by (cases "pl_drv_path (ch_plan change)"; cases "pl_lock_digest (ch_plan change)"; auto simp: report_true_def)+
  have stage: "dj_action (dr_job spec) = Prepare \<longrightarrow> ch_state change = Checking"
    "dj_action (dr_job spec) = Build \<longrightarrow> ch_state change \<in> {Building, Publishing}"
    "dj_action (dr_job spec) = Activate \<longrightarrow> ch_state change = Activating"
    "dj_action (dr_job spec) = Verify \<longrightarrow> ch_state change = Verifying"
    "dj_action (dr_job spec) = Rollback \<longrightarrow> ch_state change = Recovering"
    using assms(3) by (cases "ch_state change"; simp add: expected_action_def)+
  show ?thesis
  proof (cases "dj_action (dr_job spec)")
    case Prepare
    with st prepared stage(1) show ?thesis
      by (auto simp: possible_statuses_def apply_report_def ChangeState_can_transition_to_def)
  next
    case Build
    with st built stage(2) show ?thesis
      by (auto simp: possible_statuses_def apply_report_def ChangeState_can_transition_to_def)
  next
    case Activate
    with st stage(3) show ?thesis
      by (auto simp: possible_statuses_def apply_report_def ChangeState_can_transition_to_def status_code_of_def)
  next
    case Verify
    with st stage(4) show ?thesis
      by (auto simp: possible_statuses_def apply_report_def ChangeState_can_transition_to_def status_code_of_def)
  next
    case Rollback
    with st stage(5) show ?thesis
      by (auto simp: possible_statuses_def apply_report_def ChangeState_can_transition_to_def status_code_of_def)
  qed
qed

definition ex_activating :: ChangeRecord where
  "ex_activating = \<lparr>ch_plan = ex_based_plan, ch_creator = ''alice'', ch_revision = 5, ch_state = Activating,
     ch_artifact = Some ex_artifact, ch_jobs = ChangeJobs_default, ch_recovery_state = None, ch_updated_at = 0\<rparr>"

theorem runner_reports_accepted_witness:
  "\<forall>job. ChangeState_can_transition_to Activating
     (snd (apply_report job (fst (projr (snd ex_activated_run))) ex_activating))"
  using runner_reports_accepted[OF ex_activated_eq, of ex_activating]
  by (simp add: ex_activating_def ex_runner_def expected_action_def)

end
