(* ===== verification/Rust_Path.thy ===== *)
theory Rust_Path
  imports Rust_Str
begin

text \<open>
  What the executor uses of Rust's \<open>Path\<close>: a path is compared by its components. \<open>RootDir\<close> is the
  component \<open>/\<close>; empty components and, except in front, \<open>.\<close> disappear.
\<close>

definition path_parts :: "string \<Rightarrow> string list" where
  "path_parts p =
     (let raw = split_at_char (CHR ''/'') p in
      (if path_is_absolute p then [''/''] else if hd raw = ''.'' then [''.''] else [])
      @ filter (\<lambda>c. c \<noteq> [] \<and> c \<noteq> ''.'') raw)"

definition path_eq :: "string \<Rightarrow> string \<Rightarrow> bool" where
  "path_eq p q \<longleftrightarrow> path_parts p = path_parts q"

definition path_starts_with :: "string \<Rightarrow> string \<Rightarrow> bool" where
  "path_starts_with p base \<longleftrightarrow> take (length (path_parts base)) (path_parts p) = path_parts base"

text \<open>\<open>Component::Normal\<close>.\<close>

definition normal_part :: "string \<Rightarrow> bool" where
  "normal_part c \<longleftrightarrow> c \<noteq> ''/'' \<and> c \<noteq> ''.'' \<and> c \<noteq> ''..''"

lemma path_starts_with_refl: "path_starts_with p p"
  by (simp add: path_starts_with_def)

lemma path_starts_with_trans:
  assumes "path_starts_with p q" and "path_starts_with q r"
  shows "path_starts_with p r"
proof -
  have "length (path_parts r) \<le> length (path_parts q)"
    using arg_cong[OF assms(2)[unfolded path_starts_with_def], of length] by simp
  then show ?thesis using assms unfolding path_starts_with_def by (metis min.absorb1 take_take)
qed

end
