(* ===== verification/Executor_Config.thy ===== *)
theory Executor_Config
  imports Proto_Executor Proto_Operations Rust_Path Store_Tables
begin

text \<open>
  The configuration of an executor (\<open>maxops-executor/src/main.rs\<close>), its validation at start-up, the
  classes of operations, and what a profile allows a command to be: the specification of its runner
  and the arguments of its systemd unit.
\<close>

section \<open>Configuration\<close>

record Profile =
  pf_user :: string
  pf_interpreter :: string
  pf_timeout_seconds :: nat
  pf_output_limit_bytes :: nat
  pf_working_roots :: "string list"
  pf_environment :: "(string \<times> string) list"
  pf_allowed_credentials :: "string list"
  pf_privileged :: bool
  pf_tasks_max :: nat
  pf_memory_max_bytes :: "nat option"

record RepositoryConfig =
  rc_url :: string
  rc_default_ref :: string
  rc_publish_refs :: "string list"
  rc_check_profile :: string
  rc_checks :: "(string \<times> string list) list"
  rc_author_name :: string
  rc_author_email :: string

record DeploymentProfileConfig =
  dx_repository :: string
  dx_target_host :: string
  dx_kind :: DeploymentKind
  dx_flake_attribute :: string
  dx_build_profile :: string
  dx_activate_profile :: string
  dx_verify_profile :: string
  dx_profile_path :: string
  dx_running_link :: string
  dx_activation_program :: string
  dx_activation_arguments :: "string list"
  dx_artifact_source :: "string option"
  dx_verify_commands :: "string list list"
  dx_verify_attempts :: nat
  dx_verify_interval_seconds :: nat
  dx_automatic_rollback :: bool

text \<open>A \<open>BTreeMap\<close> is the list of its entries in key order.\<close>

record Config =
  cf_host :: string
  cf_socket_path :: string
  cf_state_file :: string
  cf_spec_directory :: string
  cf_spool_root :: string
  cf_systemd_run :: string
  cf_systemctl :: string
  cf_runner :: string
  cf_deploy_runner :: string
  cf_git :: string
  cf_nix :: string
  cf_nix_env :: string
  cf_workspace_root :: string
  cf_repository_root :: string
  cf_manageable_units :: "string list"
  cf_credential_sources :: "(string \<times> string) list"
  cf_profiles :: "(string \<times> Profile) list"
  cf_repositories :: "(string \<times> RepositoryConfig) list"
  cf_deployment_profiles :: "(string \<times> DeploymentProfileConfig) list"

definition default_timeout :: nat where "default_timeout = 300"
definition default_output_limit :: nat where "default_output_limit = 16 * 1024 * 1024"
definition default_tasks_max :: nat where "default_tasks_max = 256"

definition contains_key :: "(string \<times> 'a) list \<Rightarrow> string \<Rightarrow> bool" where
  "contains_key m k \<longleftrightarrow> map_of m k \<noteq> None"

text \<open>\<open>value.contains(['\0', '\n', '\r'])\<close>.\<close>

definition has_control :: "string \<Rightarrow> bool" where
  "has_control v \<longleftrightarrow> CHR 0x00 \<in> set v \<or> CHR 0x0A \<in> set v \<or> CHR 0x0D \<in> set v"

definition valid_git_ref :: "string \<Rightarrow> bool" where
  "valid_git_ref reference \<longleftrightarrow>
     starts_with reference ''refs/'' \<and> length reference \<le> 512 \<and> \<not> str_contains reference ''..''
     \<and> \<not> str_contains reference [CHR ''@'', CHR 0x7B]
     \<and> \<not> (reference \<noteq> [] \<and> (last reference = CHR ''/'' \<or> last reference = CHR ''.''))
     \<and> \<not> list_ex (\<lambda>b. byte b \<le> 32 \<or> b \<in> set [CHR ''~'', CHR ''^'', CHR '':'', CHR ''?'', CHR ''*'', CHR ''['', CHR 0x5C]) reference"

definition valid_credential_name :: "string \<Rightarrow> bool" where
  "valid_credential_name v \<longleftrightarrow> v \<noteq> [] \<and> v \<noteq> ''spec'' \<and> length v \<le> 128 \<and> list_all ident_byte v"

section \<open>Validation\<close>

text \<open>Each list is a sequence of \<open>ensure!\<close>: the first condition that fails gives the error.\<close>

fun ensure_all :: "(bool \<times> string) list \<Rightarrow> (unit, string) result" where
  "ensure_all [] = Ok ()"
| "ensure_all ((b, e) # checks) = (if b then ensure_all checks else Err e)"

definition check_paths :: "Config \<Rightarrow> (bool \<times> string) list" where
  "check_paths c =
     [(valid_host (cf_host c), ''invalid executor host''),
      (list_all path_is_absolute
         [cf_socket_path c, cf_state_file c, cf_spec_directory c, cf_spool_root c, cf_systemd_run c, cf_systemctl c,
          cf_runner c, cf_deploy_runner c, cf_git c, cf_nix c, cf_nix_env c, cf_workspace_root c, cf_repository_root c],
       ''executor paths must be absolute''),
      (cf_profiles c \<noteq> [], ''at least one execution profile is required''),
      (\<not> path_eq (cf_workspace_root c) (cf_repository_root c)
         \<and> \<not> path_starts_with (cf_workspace_root c) (cf_repository_root c)
         \<and> \<not> path_starts_with (cf_repository_root c) (cf_workspace_root c),
       ''workspace and repository roots must be separate''),
      (path_eq (cf_spool_root c) ''/var/lib/maxops-jobs'',
       ''spool_root must match systemd StateDirectory root /var/lib/maxops-jobs''),
      (list_all valid_unit (cf_manageable_units c), ''manageable_units must contain exact service names'')]"

definition check_credential :: "string \<times> string \<Rightarrow> (bool \<times> string) list" where
  "check_credential = (\<lambda>(name, path).
     [(valid_credential_name name, ''invalid credential source name''),
      (path_is_absolute path, ''credential source paths must be absolute''),
      (\<not> (CHR 0x0A \<in> set path \<or> CHR 0x0D \<in> set path \<or> CHR '':'' \<in> set path),
       ''credential source paths contain unsupported characters'')])"

definition check_profile :: "Config \<Rightarrow> string \<times> Profile \<Rightarrow> (bool \<times> string) list" where
  "check_profile c = (\<lambda>(name, profile).
     [(name \<noteq> [] \<and> list_all ident_byte name, ''invalid profile name''),
      (pf_user profile \<noteq> [] \<and> length (pf_user profile) \<le> 64 \<and> list_all ident_byte (pf_user profile), ''invalid profile user''),
      (path_is_absolute (pf_interpreter profile), ''profile interpreter must be absolute''),
      (pf_timeout_seconds profile > 0, ''profile timeout must be positive''),
      (pf_output_limit_bytes profile > 0, ''profile output limit must be positive''),
      (pf_tasks_max profile > 0, ''profile tasks_max must be positive''),
      (list_all (\<lambda>cr. valid_credential_name cr \<and> contains_key (cf_credential_sources c) cr) (pf_allowed_credentials profile),
       ''profile references an unknown credential source''),
      (list_all path_is_absolute (pf_working_roots profile), ''working roots must be absolute'')])"

definition check_repository :: "Config \<Rightarrow> string \<times> RepositoryConfig \<Rightarrow> (bool \<times> string) list" where
  "check_repository c = (\<lambda>(name, repository).
     [(valid_repository_id name, ''invalid repository ID''),
      (rc_url repository \<noteq> [] \<and> length (rc_url repository) \<le> 4096 \<and> \<not> has_control (rc_url repository),
       ''invalid repository URL''),
      (valid_git_ref (rc_default_ref repository)
         \<and> list_all (\<lambda>r. valid_git_ref r \<and> starts_with r ''refs/heads/'') (rc_publish_refs repository),
       ''invalid repository ref''),
      (contains_key (cf_profiles c) (rc_check_profile repository), ''repository references an unknown check profile''),
      (trim (rc_author_name repository) \<noteq> [] \<and> trim (rc_author_email repository) \<noteq> []
         \<and> \<not> has_control (rc_author_name repository) \<and> \<not> has_control (rc_author_email repository),
       ''invalid configured Git author''),
      (list_all (\<lambda>(check, argv). valid_check_id check \<and> argv \<noteq> [] \<and> length argv \<le> 256
           \<and> list_all (\<lambda>a. length a \<le> 16 * 1024 \<and> CHR 0x00 \<notin> set a) argv) (rc_checks repository),
       ''invalid configured repository check'')])"

definition check_deployment :: "Config \<Rightarrow> string \<times> DeploymentProfileConfig \<Rightarrow> (bool \<times> string) list" where
  "check_deployment c = (\<lambda>(name, d).
     [(valid_check_id name, ''invalid deployment profile name''),
      (valid_repository_id (dx_repository d), ''deployment profile has an invalid repository ID''),
      (valid_host (dx_target_host d), ''deployment profile has an invalid target host''),
      (dx_flake_attribute d \<noteq> [] \<and> length (dx_flake_attribute d) \<le> 512 \<and> \<not> has_control (dx_flake_attribute d),
       ''deployment profile has an invalid flake attribute''),
      (list_all (contains_key (cf_profiles c)) [dx_build_profile d, dx_activate_profile d, dx_verify_profile d],
       ''deployment profile references an unknown execution profile''),
      (path_is_absolute (dx_profile_path d) \<and> path_is_absolute (dx_running_link d),
       ''deployment runtime paths must be absolute''),
      (path_normal_components (dx_activation_program d), ''activation program must be a relative store path''),
      (length (dx_activation_arguments d) \<le> 64
         \<and> list_all (\<lambda>a. length a \<le> 16 * 1024 \<and> \<not> has_control a) (dx_activation_arguments d),
       ''invalid activation arguments''),
      (dx_verify_attempts d > 0 \<and> dx_verify_interval_seconds d > 0, ''deployment verification policy must be positive''),
      (list_all (\<lambda>argv. argv \<noteq> [] \<and> length argv \<le> 64 \<and> path_is_absolute (hd argv)
           \<and> list_all (\<lambda>a. length a \<le> 16 * 1024 \<and> CHR 0x00 \<notin> set a) argv) (dx_verify_commands d),
       ''invalid deployment verification command''),
      (dx_kind d = SystemKind \<longrightarrow>
         (case map_of (cf_profiles c) (dx_activate_profile d) of None \<Rightarrow> False | Some p \<Rightarrow> pf_privileged p),
       ''system deployment activation profile must be privileged'')])"

definition validate_config :: "Config \<Rightarrow> (unit, string) result" where
  "validate_config c =
     ensure_all (check_paths c
       @ concat (map check_credential (cf_credential_sources c))
       @ concat (map (check_profile c) (cf_profiles c))
       @ concat (map (check_repository c) (cf_repositories c))
       @ concat (map (check_deployment c) (cf_deployment_profiles c)))"

section \<open>Operations\<close>

definition executor_error_code :: "string \<Rightarrow> string" where
  "executor_error_code message =
     (if str_contains message ''workspace revision changed'' then ''workspace_revision_conflict''
      else if str_contains message ''workspace not found'' then ''workspace_not_found''
      else if str_contains message ''workspace path'' \<or> str_contains message ''workspace target''
        \<or> str_contains message ''workspace ancestor'' \<or> str_contains message ''workspace file exceeds''
      then ''invalid_workspace_path''
      else ''executor_request_failed'')"

definition profile_info :: "string \<Rightarrow> Profile \<Rightarrow> ExecutionProfileInfo" where
  "profile_info name profile =
     \<lparr>xi_name = name, xi_max_timeout_seconds = pf_timeout_seconds profile,
      xi_output_limit_bytes = pf_output_limit_bytes profile, xi_user = pf_user profile,
      xi_privileged = pf_privileged profile, xi_interpreter = pf_interpreter profile,
      xi_working_roots = pf_working_roots profile, xi_path = map_of (pf_environment profile) ''PATH''\<rparr>"

definition is_deployment_job :: "string \<Rightarrow> bool" where
  "is_deployment_job operation \<longleftrightarrow>
     operation \<in> {''deploy.prepare'', ''deploy.build'', ''deploy.activate'', ''deploy.verify'', ''deploy.rollback''}"

definition serializes_host_changes :: "string \<Rightarrow> bool" where
  "serializes_host_changes operation \<longleftrightarrow> operation \<in> {''deploy.activate'', ''deploy.verify'', ''deploy.rollback''}"

definition is_workspace_job :: "string \<Rightarrow> bool" where
  "is_workspace_job operation \<longleftrightarrow> operation \<in> {''workspace.create'', ''workspace.check'', ''workspace.publish''}"

definition is_runner_job :: "string \<Rightarrow> bool" where
  "is_runner_job operation \<longleftrightarrow> operation \<in> {''exec.run'', ''workspace.check''} \<or> is_deployment_job operation"

definition operation_for :: "DeploymentAction \<Rightarrow> string" where
  "operation_for action =
     (case action of
        Prepare \<Rightarrow> ''deploy.prepare''
      | Build \<Rightarrow> ''deploy.build''
      | Activate \<Rightarrow> ''deploy.activate''
      | Verify \<Rightarrow> ''deploy.verify''
      | Rollback \<Rightarrow> ''deploy.rollback'')"

definition operation_from_action :: "string \<Rightarrow> string option" where
  "operation_from_action action =
     (if action = ''prepare'' then Some ''deploy.prepare''
      else if action = ''build'' then Some ''deploy.build''
      else if action = ''activate'' then Some ''deploy.activate''
      else if action = ''verify'' then Some ''deploy.verify''
      else if action = ''rollback'' then Some ''deploy.rollback''
      else None)"

definition unit_name :: "JobId \<Rightarrow> string" where
  "unit_name jid = ''maxops-job-'' @ job_id_str jid @ ''.service''"

definition spec_path :: "Config \<Rightarrow> JobId \<Rightarrow> string" where
  "spec_path c jid = path_join (cf_spec_directory c) (job_id_str jid @ ''.json'')"

definition deployment_spec_path :: "Config \<Rightarrow> JobId \<Rightarrow> string" where
  "deployment_spec_path c jid = path_join (cf_spec_directory c) (job_id_str jid @ ''.deployment.json'')"

end
