(* ===== verification/Executor_Actions.thy ===== *)
theory Executor_Actions
  imports Store_History Executor_Config
begin

text \<open>
  The workers of the executor are asynchronous tasks: at every \<open>await\<close> other tasks may use the store
  and the host may change, and the process may be killed. A worker is a function from a state to a
  state and a result; the state carries the schedule of its awaits.
\<close>

section \<open>Schedules\<close>

text \<open>
  What has happened when an await returns: the clocks (wall clock, and the monotonic one in
  nanoseconds), what other tasks did to the store, and how the host changed. When the schedule is used up the process is gone: no later await has an effect.
\<close>

record 'w move =
  mv_now :: timestamp
  mv_instant :: nat
  mv_store :: "store \<Rightarrow> store"
  mv_world :: "'w \<Rightarrow> 'w"

text \<open>
  \<open>x_calls\<close> records the requests to the service manager with the store at that moment; no
  definition of the code reads it.
\<close>

record ('w, 'c) exec =
  x_store :: store
  x_world :: 'w
  x_now :: timestamp
  x_instant :: nat
  x_moves :: "'w move list"
  x_calls :: "(store \<times> 'c) list"

type_synonym ('w, 'c, 'a) xact = "('w, 'c) exec \<Rightarrow> ('w, 'c) exec \<times> ('a, store_error) result"

definition crashed :: store_error where
  "crashed = Report ''the process was killed''"

definition xret :: "'a \<Rightarrow> ('w, 'c, 'a) xact" where
  "xret v = (\<lambda>x. (x, Ok v))"

definition xfail :: "string \<Rightarrow> ('w, 'c, 'a) xact" where
  "xfail m = (\<lambda>x. (x, Err (Report m)))"

definition xlift :: "('a, string) result \<Rightarrow> ('w, 'c, 'a) xact" where
  "xlift r = (\<lambda>x. (x, map_err Report r))"

definition xbind :: "('w, 'c, 'a) xact \<Rightarrow> ('a \<Rightarrow> ('w, 'c, 'b) xact) \<Rightarrow> ('w, 'c, 'b) xact" where
  "xbind m f = (\<lambda>x. case m x of (x', Inl e) \<Rightarrow> (x', Inl e) | (x', Inr v) \<Rightarrow> f v x')"

text \<open>\<open>match\<close> on the result of an await, \<open>maxops_proto::now()\<close> and \<open>Instant::now()\<close>.\<close>

definition xtry :: "('w, 'c, 'a) xact \<Rightarrow> (('a, store_error) result \<Rightarrow> ('w, 'c, 'b) xact) \<Rightarrow> ('w, 'c, 'b) xact" where
  "xtry m f = (\<lambda>x. case m x of (x', r) \<Rightarrow> f r x')"

definition xclock :: "('w, 'c, timestamp) xact" where
  "xclock = (\<lambda>x. (x, Ok (x_now x)))"

definition xinstant :: "('w, 'c, nat) xact" where
  "xinstant = (\<lambda>x. (x, Ok (x_instant x)))"

text \<open>An operation of the store, an operation of the host, and a request to the service manager.\<close>

definition xstore :: "(timestamp \<Rightarrow> store \<Rightarrow> store \<times> ('a, store_error) result) \<Rightarrow> ('w, 'c, 'a) xact" where
  "xstore op = (\<lambda>x.
     case x_moves x of
       [] \<Rightarrow> (x, Err crashed)
     | m # ms \<Rightarrow>
         (case op (mv_now m) (mv_store m (x_store x)) of
            (s', r) \<Rightarrow> (x\<lparr>x_store := s', x_world := mv_world m (x_world x), x_now := mv_now m, x_instant := mv_instant m, x_moves := ms\<rparr>, r)))"

definition xread :: "(store \<Rightarrow> ('a, store_error) result) \<Rightarrow> ('w, 'c, 'a) xact" where
  "xread q = xstore (\<lambda>_ s. (s, q s))"

definition xworld :: "('w \<Rightarrow> 'w \<times> ('a, string) result) \<Rightarrow> ('w, 'c, 'a) xact" where
  "xworld f = (\<lambda>x.
     case x_moves x of
       [] \<Rightarrow> (x, Err crashed)
     | m # ms \<Rightarrow>
         (case f (mv_world m (x_world x)) of
            (w', r) \<Rightarrow>
              (x\<lparr>x_store := mv_store m (x_store x), x_now := mv_now m, x_instant := mv_instant m, x_moves := ms, x_world := w'\<rparr>, map_err Report r)))"

text \<open>The request reaches the manager before its answer is awaited, so a killed process may have sent it.\<close>

definition xcall :: "'c \<Rightarrow> ('w \<Rightarrow> 'w \<times> ('a, string) result) \<Rightarrow> ('w, 'c, 'a) xact" where
  "xcall c f = (\<lambda>x. xworld f (x\<lparr>x_calls := x_calls x @ [(x_store x, c)]\<rparr>))"

text \<open>\<open>tokio::time::sleep\<close>.\<close>

definition xsleep :: "('w, 'c, unit) xact" where
  "xsleep = xworld (\<lambda>w. (w, Ok ()))"

definition xignore :: "('w, 'c, 'a) xact \<Rightarrow> ('w, 'c, unit) xact" where
  "xignore m = xtry m (\<lambda>_. xret ())"

text \<open>Looking at the host without an await, and a sequence of \<open>ensure!\<close>.\<close>

definition xpeek :: "('w \<Rightarrow> 'a) \<Rightarrow> ('w, 'c, 'a) xact" where
  "xpeek f = (\<lambda>x. (x, Ok (f (x_world x))))"

definition xensure :: "(bool \<times> string) list \<Rightarrow> ('w, 'c, unit) xact" where
  "xensure checks = xlift (ensure_all checks)"

definition xdecode :: "'a option \<Rightarrow> ('w, 'c, 'a) xact" where
  "xdecode v = xlift (ok_or ''invalid value'' v)"

definition report_text :: "store_error \<Rightarrow> string" where
  "report_text e = (case e of Report m \<Rightarrow> m | Constraint m \<Rightarrow> ''error returned from database: '' @ m)"

section \<open>Invariants of workers\<close>

text \<open>
  An invariant of states that the awaits keep is kept by everything composed of them. The awaits of
  the store are those of the operations in \<open>ops\<close>.
\<close>

named_theorems exec_intros \<open>what workers keep\<close>

locale worker_invariant =
  fixes I :: "('w, 'c) exec \<Rightarrow> bool"
    and ops :: "(timestamp \<Rightarrow> store \<Rightarrow> store) set"
  assumes store_await: "\<And>x m ms op. I x \<Longrightarrow> x_moves x = m # ms \<Longrightarrow> op \<in> ops \<Longrightarrow>
      I (x\<lparr>x_store := op (mv_now m) (mv_store m (x_store x)), x_world := mv_world m (x_world x),
           x_now := mv_now m, x_instant := mv_instant m, x_moves := ms\<rparr>)"
    and read_op: "(\<lambda>_ s. s) \<in> ops"
    and world_any: "\<And>x w. I x \<Longrightarrow> I (x\<lparr>x_world := w\<rparr>)"
begin

definition keeps :: "('w, 'c, 'a) xact \<Rightarrow> bool" where
  "keeps m \<longleftrightarrow> (\<forall>x. I x \<longrightarrow> I (fst (m x)))"

lemma keepsI: "(\<And>x. I x \<Longrightarrow> I (fst (m x))) \<Longrightarrow> keeps m"
  by (simp add: keeps_def)

lemma keepsD: "keeps m \<Longrightarrow> I x \<Longrightarrow> I (fst (m x))"
  by (simp add: keeps_def)

lemma keeps_pure: "keeps (xret v)" "keeps (xfail e)" "keeps (xlift r)" "keeps xclock" "keeps xinstant"
    "keeps (xpeek p)" "keeps (xensure checks)" "keeps (xdecode d)"
  by (simp_all add: keeps_def xret_def xfail_def xlift_def xclock_def xinstant_def xpeek_def xensure_def xdecode_def)

lemma keeps_xbind: "keeps m \<Longrightarrow> (\<And>v. keeps (f v)) \<Longrightarrow> keeps (xbind m f)"
  unfolding keeps_def xbind_def by (fastforce split: prod.splits sum.splits)

lemma keeps_xtry: "keeps m \<Longrightarrow> (\<And>r. keeps (f r)) \<Longrightarrow> keeps (xtry m f)"
  unfolding keeps_def xtry_def by (fastforce split: prod.splits)

lemma keeps_xstore:
  assumes "(\<lambda>now s. fst (op now s)) \<in> ops"
  shows "keeps (xstore op)"
proof (rule keepsI)
  fix x assume I: "I x"
  show "I (fst (xstore op x))"
  proof (cases "x_moves x")
    case (Cons m ms)
    from store_await[OF I Cons assms] show ?thesis
      by (cases "op (mv_now m) (mv_store m (x_store x))") (simp add: xstore_def Cons)
  qed (simp add: xstore_def I)
qed

lemma keeps_xread: "keeps (xread q)"
  unfolding xread_def by (rule keeps_xstore) (simp add: read_op)

lemma keeps_xworld: "keeps (xworld f)"
proof (rule keepsI)
  fix x assume I: "I x"
  show "I (fst (xworld f x))"
  proof (cases "x_moves x")
    case (Cons m ms)
    obtain w' r where "f (mv_world m (x_world x)) = (w', r)" by fastforce
    with world_any[OF store_await[OF I Cons read_op], of w'] show ?thesis by (simp add: xworld_def Cons)
  qed (simp add: xworld_def I)
qed

lemma keeps_xsleep: "keeps xsleep"
  unfolding xsleep_def by (rule keeps_xworld)

lemma keeps_xignore: "keeps m \<Longrightarrow> keeps (xignore m)"
  unfolding xignore_def by (intro keeps_xtry keeps_pure)

lemma keeps_if: "(b \<Longrightarrow> keeps m) \<Longrightarrow> (\<not> b \<Longrightarrow> keeps m') \<Longrightarrow> keeps (if b then m else m')"
  by simp

lemma keeps_option: "(x = None \<Longrightarrow> keeps m) \<Longrightarrow> (\<And>v. x = Some v \<Longrightarrow> keeps (f v)) \<Longrightarrow>
    keeps (case x of None \<Rightarrow> m | Some v \<Rightarrow> f v)"
  by (cases x) simp_all

lemma keeps_sum: "(\<And>e. r = Inl e \<Longrightarrow> keeps (f e)) \<Longrightarrow> (\<And>v. r = Inr v \<Longrightarrow> keeps (g v)) \<Longrightarrow>
    keeps (case r of Inl e \<Rightarrow> f e | Inr v \<Rightarrow> g v)"
  by (cases r) simp_all

lemma keeps_prod: "(\<And>a b. p = (a, b) \<Longrightarrow> keeps (f a b)) \<Longrightarrow> keeps (case p of (a, b) \<Rightarrow> f a b)"
  by (cases p) simp

lemma keeps_Let: "keeps (f v) \<Longrightarrow> keeps (let x = v in f x)"
  by simp

lemmas keeps_rules = keeps_pure keeps_xbind keeps_xtry keeps_xread keeps_xworld keeps_xsleep keeps_xignore
  keeps_if keeps_option keeps_sum keeps_prod keeps_Let

end

end
