(* ===== verification/Executor_Services.thy ===== *)
theory Executor_Services
  imports Executor_Actions
begin

text \<open>
  \<open>maxops-executor/src/main.rs\<close>, service jobs: start, stop, restart and reload of units through the
  service manager, one at a time per host, with recovery after a restart of the executor.
\<close>

section \<open>Types\<close>

datatype ServiceAction = StartUnit | StopUnit | RestartUnit | ReloadUnit

definition ServiceAction_from_operation :: "string \<Rightarrow> ServiceAction option" where
  "ServiceAction_from_operation operation =
     (if operation = ''units.start'' then Some StartUnit
      else if operation = ''units.stop'' then Some StopUnit
      else if operation = ''units.restart'' then Some RestartUnit
      else if operation = ''units.reload'' then Some ReloadUnit
      else None)"

record ServiceUnitState =
  us_active_state :: string
  us_sub_state :: string
  us_invocation_id :: "string option"
  us_service_result :: "string option"
  us_reload_result :: "string option"

record ServiceProgress =
  sp_action :: ServiceAction
  sp_unit :: string
  sp_before :: ServiceUnitState
  sp_manager_job :: "string option"

text \<open>The service manager as the executor sees it over D-Bus; errors are their texts.\<close>

record 'w service_host =
  sh_connect :: "'w \<Rightarrow> 'w \<times> (unit, string) result"
  sh_manager :: "ServiceAction \<Rightarrow> string \<Rightarrow> 'w \<Rightarrow> 'w \<times> (string, string) result"
  sh_get_job :: "nat \<Rightarrow> 'w \<Rightarrow> 'w \<times> (unit, string) result"
  sh_get_unit :: "string \<Rightarrow> 'w \<Rightarrow> 'w \<times> (string, string) result"
  sh_unit_proxy :: "string \<Rightarrow> 'w \<Rightarrow> 'w \<times> (unit, string) result"
  sh_service_proxy :: "string \<Rightarrow> 'w \<Rightarrow> 'w \<times> (unit, string) result"
  sh_invocation_id :: "string \<Rightarrow> 'w \<Rightarrow> 'w \<times> (string, string) result"
  sh_active_state :: "string \<Rightarrow> 'w \<Rightarrow> 'w \<times> (string, string) result"
  sh_sub_state :: "string \<Rightarrow> 'w \<Rightarrow> 'w \<times> (string, string) result"
  sh_service_result :: "string \<Rightarrow> 'w \<Rightarrow> 'w \<times> (string, string) result"
  sh_reload_result :: "string \<Rightarrow> 'w \<Rightarrow> 'w \<times> (string, string) result"

text \<open>The codecs that serde derives.\<close>

record service_serde =
  sv_params_of :: "json \<Rightarrow> UnitActionParams option"
  sv_progress :: "ServiceProgress \<Rightarrow> json"
  sv_progress_of :: "json \<Rightarrow> ServiceProgress option"
  sv_unit_state :: "ServiceUnitState \<Rightarrow> json"
  sv_action :: "ServiceAction \<Rightarrow> json"

type_synonym service_call = "ServiceAction \<times> string"
type_synonym ('w, 'a) service_act = "('w, service_call, 'a) xact"

definition jopt :: "('a \<Rightarrow> json) \<Rightarrow> 'a option \<Rightarrow> json" where
  "jopt f v = (case v of None \<Rightarrow> JNull | Some x \<Rightarrow> f x)"

definition phase :: "string \<Rightarrow> (string \<times> json) list \<Rightarrow> json" where
  "phase name extra = JObject ((''phase'', JString name) # extra)"

definition not_started :: json where
  "not_started = JObject [(''cancelled'', JBool True), (''effect'', JString ''not_started'')]"

definition move_job :: "JobId \<Rightarrow> JobRecord \<Rightarrow> JobState \<Rightarrow> json \<Rightarrow> json option \<Rightarrow> ('w, 'c, JobRecord) xact" where
  "move_job jid job st payload result =
     xstore (\<lambda>now. transition_job now jid (h_revision (job_handle job)) st payload result)"

definition release_manager :: "Config \<Rightarrow> JobId \<Rightarrow> ('w, 'c, unit) xact" where
  "release_manager c jid = xbind (xstore (\<lambda>_. release_resource ''systemd_manager'' (cf_host c) jid)) (\<lambda>_. xret ())"

definition deadline_passed :: "JobRecord \<Rightarrow> timestamp \<Rightarrow> bool" where
  "deadline_passed job now \<longleftrightarrow> (case job_deadline job of None \<Rightarrow> False | Some d \<Rightarrow> d \<le> now)"

section \<open>The service manager\<close>

definition explicit_systemd_rejection :: "string \<Rightarrow> bool" where
  "explicit_systemd_rejection error \<longleftrightarrow>
     list_ex (str_contains (to_ascii_lowercase error))
       [''not applicable'', ''not supported'', ''not loaded'', ''not found'', ''no such unit'', ''invalid name'']"

definition systemd_job_finished :: "string \<Rightarrow> bool" where
  "systemd_job_finished error \<longleftrightarrow>
     (let message = to_ascii_lowercase error in
      str_contains message ''nosuchjob'' \<or> str_contains message ''no such job''
      \<or> str_contains message ''no job'' \<and> str_contains message ''known'')"

definition hex_char :: "nat \<Rightarrow> char" where
  "hex_char n = ''0123456789abcdef'' ! n"

definition bytes_to_hex :: "string \<Rightarrow> string" where
  "bytes_to_hex bytes = concat (map (\<lambda>b. [hex_char (byte b div 16), hex_char (byte b mod 16)]) bytes)"

definition not_loaded :: ServiceUnitState where
  "not_loaded = \<lparr>us_active_state = ''not_loaded'', us_sub_state = ''not_loaded'', us_invocation_id = None,
     us_service_result = None, us_reload_result = None\<rparr>"

definition result_ok :: "('a, 'e) result \<Rightarrow> 'a option" where
  "result_ok r = (case r of Inl _ \<Rightarrow> None | Inr v \<Rightarrow> Some v)"

definition observe_service_unit :: "'w service_host \<Rightarrow> string \<Rightarrow> ('w, 'c, ServiceUnitState) xact" where
  "observe_service_unit h unit =
     xbind (xworld (sh_connect h)) (\<lambda>_.
     xtry (xworld (sh_get_unit h unit)) (\<lambda>found.
     case found of
       Inl e \<Rightarrow> if explicit_systemd_rejection (report_text e) then xret not_loaded else (\<lambda>x. (x, Err e))
     | Inr path \<Rightarrow>
         xbind (xworld (sh_unit_proxy h path)) (\<lambda>_.
         xbind (xworld (sh_service_proxy h path)) (\<lambda>_.
         xbind (xworld (sh_invocation_id h path)) (\<lambda>bytes.
         xbind (xworld (sh_active_state h path)) (\<lambda>active.
         xbind (xworld (sh_sub_state h path)) (\<lambda>sub.
         xtry (xworld (sh_service_result h path)) (\<lambda>res.
         xtry (xworld (sh_reload_result h path)) (\<lambda>reload.
         xret \<lparr>us_active_state = active, us_sub_state = sub,
               us_invocation_id = (if bytes = [] then None else Some (bytes_to_hex bytes)),
               us_service_result = result_ok res, us_reload_result = result_ok reload\<rparr>)))))))))"

section \<open>Carrying out an action\<close>

definition transition_service_unknown ::
  "service_serde \<Rightarrow> Config \<Rightarrow> JobId \<Rightarrow> JobRecord \<Rightarrow> ServiceProgress \<Rightarrow> string \<Rightarrow> ('w, unit) service_act" where
  "transition_service_unknown sv c jid job progress reason =
     xbind (move_job jid job OutcomeUnknown (phase ''recovery'' [(''reason'', JString reason)])
       (Some (JObject [(''action'', sv_action sv (sp_action progress)), (''unit'', JString (sp_unit progress)),
          (''before'', sv_unit_state sv (sp_before progress)), (''manager_job'', jopt JString (sp_manager_job progress)),
          (''effect'', JString ''unknown''), (''reason'', JString reason)]))) (\<lambda>_.
     release_manager c jid)"

text \<open>The effect that an action has when it succeeds, and the one that shows after a lost answer.\<close>

definition action_succeeded :: "ServiceProgress \<Rightarrow> ServiceUnitState \<Rightarrow> bool" where
  "action_succeeded progress after =
     (case sp_action progress of
        StartUnit \<Rightarrow> us_active_state after = ''active''
      | StopUnit \<Rightarrow> us_active_state after = ''inactive''
      | RestartUnit \<Rightarrow> us_active_state after = ''active'' \<and> us_invocation_id after \<noteq> None
          \<and> us_invocation_id after \<noteq> us_invocation_id (sp_before progress)
      | ReloadUnit \<Rightarrow> us_active_state after = ''active'' \<and> us_reload_result after = Some ''success'')"

definition effect_observed :: "ServiceProgress \<Rightarrow> ServiceUnitState \<Rightarrow> bool" where
  "effect_observed progress after =
     (case sp_action progress of
        StartUnit \<Rightarrow> us_active_state (sp_before progress) \<noteq> ''active'' \<and> us_active_state after = ''active''
      | StopUnit \<Rightarrow> us_active_state (sp_before progress) \<noteq> ''inactive'' \<and> us_active_state after = ''inactive''
      | RestartUnit \<Rightarrow> us_active_state after = ''active'' \<and> us_invocation_id after \<noteq> None
          \<and> us_invocation_id after \<noteq> us_invocation_id (sp_before progress)
      | ReloadUnit \<Rightarrow> False)"

text \<open>
  Waiting for the manager's job: \<open>None\<close> when it has ended, otherwise why its outcome is unknown. The
  argument bounds the rounds; a round uses up at least one await.
\<close>

primrec wait_manager_job :: "nat \<Rightarrow> 'w service_host \<Rightarrow> nat \<Rightarrow> nat \<Rightarrow> ('w, 'c, string option) xact" where
  "wait_manager_job 0 h deadline n = (\<lambda>x. (x, Err crashed))"
| "wait_manager_job (Suc rounds) h deadline n =
     xbind xinstant (\<lambda>instant.
     if instant \<ge> deadline then xret (Some ''systemd_job_timeout'')
     else
       xtry (xworld (sh_get_job h n)) (\<lambda>r.
       case r of
         Inr _ \<Rightarrow> xbind xsleep (\<lambda>_. wait_manager_job rounds h deadline n)
       | Inl e \<Rightarrow>
           if systemd_job_finished (report_text e) then xret None
           else xret (Some ''systemd_job_observation_unavailable'')))"

text \<open>\<open>rsplit('/').next()\<close> and \<open>parse::<u32>()\<close>.\<close>

definition manager_job_number :: "string \<Rightarrow> nat option" where
  "manager_job_number path =
     Option.bind (parse_usize (last (split_at_char (CHR ''/'') path))) (\<lambda>n. if n \<le> u32_max then Some n else None)"

definition finish_accepted_service_action ::
  "service_serde \<Rightarrow> 'w service_host \<Rightarrow> Config \<Rightarrow> JobId \<Rightarrow> JobRecord \<Rightarrow> ServiceProgress \<Rightarrow> ('w, unit) service_act" where
  "finish_accepted_service_action sv h c jid job progress =
     (case sp_manager_job progress of
        None \<Rightarrow> transition_service_unknown sv c jid job progress ''manager_job_missing''
      | Some path \<Rightarrow>
          (case manager_job_number path of
             None \<Rightarrow> transition_service_unknown sv c jid job progress ''invalid_manager_job_path''
           | Some n \<Rightarrow>
               xbind (xworld (sh_connect h)) (\<lambda>_.
               xbind xinstant (\<lambda>instant.
               xbind (\<lambda>x. wait_manager_job (length (x_moves x)) h (instant + 30000000000) n x) (\<lambda>unknown.
               case unknown of
                 Some reason \<Rightarrow> transition_service_unknown sv c jid job progress reason
               | None \<Rightarrow>
                   xbind xsleep (\<lambda>_.
                   xbind (observe_service_unit h (sp_unit progress)) (\<lambda>after.
                   let succeeded = action_succeeded progress after in
                   xbind (move_job jid job (if succeeded then Succeeded else Failed)
                     (phase ''systemd_job_completed'' [(''observed_state'', JString (us_active_state after))])
                     (Some (JObject [(''action'', sv_action sv (sp_action progress)), (''unit'', JString (sp_unit progress)),
                        (''before'', sv_unit_state sv (sp_before progress)), (''after'', sv_unit_state sv after),
                        (''manager_job'', jopt JString (sp_manager_job progress)),
                        (''attribution'', JString ''systemd_job_accepted_and_target_observed''),
                        (''success'', JBool succeeded)]))) (\<lambda>_.
                   release_manager c jid))))))))"

definition start_service_action ::
  "service_serde \<Rightarrow> 'w service_host \<Rightarrow> Config \<Rightarrow> JobId \<Rightarrow> JobRecord \<Rightarrow> ServiceProgress \<Rightarrow> ('w, unit) service_act" where
  "start_service_action sv h c jid job progress =
     xbind (move_job jid job Running (phase ''systemd_call_may_have_started'' []) (Some (sv_progress sv progress))) (\<lambda>running.
     xbind (xworld (sh_connect h)) (\<lambda>_.
     xtry (xcall (sp_action progress, sp_unit progress) (sh_manager h (sp_action progress) (sp_unit progress))) (\<lambda>called.
     case called of
       Inr path \<Rightarrow>
         let progress = progress\<lparr>sp_manager_job := Some path\<rparr> in
         xbind (move_job jid running Reconciling (phase ''systemd_job_accepted'' []) (Some (sv_progress sv progress))) (\<lambda>reconciling.
         finish_accepted_service_action sv h c jid reconciling progress)
     | Inl e \<Rightarrow>
         if explicit_systemd_rejection (report_text e)
         then
           xbind (move_job jid running Failed (phase ''systemd_call'' [(''rejected'', JBool True)])
             (Some (JObject [(''action'', sv_action sv (sp_action progress)), (''unit'', JString (sp_unit progress)),
                (''before'', sv_unit_state sv (sp_before progress)), (''error'', JString ''systemd_rejected_action'')]))) (\<lambda>_.
           release_manager c jid)
         else
           xbind (move_job jid running Reconciling (phase ''systemd_call'' [(''acknowledgement'', JString ''unavailable'')])
             (Some (sv_progress sv progress))) (\<lambda>reconciling.
           transition_service_unknown sv c jid reconciling progress ''systemd_acknowledgement_unavailable''))))"

definition service_progress :: "service_serde \<Rightarrow> JobRecord \<Rightarrow> string \<Rightarrow> (ServiceProgress, string) result" where
  "service_progress sv job missing =
     rbind (ok_or missing (job_result job)) (\<lambda>value. ok_or ''invalid service progress'' (sv_progress_of sv value))"

definition recover_uncertain_service_action ::
  "service_serde \<Rightarrow> 'w service_host \<Rightarrow> Config \<Rightarrow> JobId \<Rightarrow> JobRecord \<Rightarrow> ('w, unit) service_act" where
  "recover_uncertain_service_action sv h c jid job =
     xbind (xlift (service_progress sv job ''service progress is missing'')) (\<lambda>progress.
     xbind (observe_service_unit h (sp_unit progress)) (\<lambda>after.
     if effect_observed progress after
     then
       xbind (move_job jid job Succeeded (phase ''recovered_by_observation'' [])
         (Some (JObject [(''action'', sv_action sv (sp_action progress)), (''unit'', JString (sp_unit progress)),
            (''before'', sv_unit_state sv (sp_before progress)), (''after'', sv_unit_state sv after),
            (''attribution'', JString ''observed_after_executor_restart_external_change_not_excluded''),
            (''success'', JBool True)]))) (\<lambda>_.
       release_manager c jid)
     else
       xbind (move_job jid job Reconciling (phase ''recovery'' [(''effect'', JString ''not_attributable'')])
         (Some (sv_progress sv progress))) (\<lambda>reconciling.
       transition_service_unknown sv c jid reconciling progress ''effect_not_attributable'')))"

section \<open>The worker\<close>

text \<open>
  Waiting for the host's lock: \<open>False\<close> when the job has ended meanwhile. The argument bounds the
  rounds; a round uses up at least one await.
\<close>

primrec wait_service_lock :: "nat \<Rightarrow> Config \<Rightarrow> JobId \<Rightarrow> ('w, bool) service_act" where
  "wait_service_lock 0 c jid = (\<lambda>x. (x, Err crashed))"
| "wait_service_lock (Suc rounds) c jid =
     xbind (xstore (\<lambda>now. try_acquire_resource now ''systemd_manager'' (cf_host c) jid)) (\<lambda>acquired.
     if acquired then xret True
     else
       xbind (xread (get_job jid)) (\<lambda>job.
       if JobState_is_terminal (h_state (job_handle job)) then xret False
       else
         xbind xclock (\<lambda>now.
         if h_state (job_handle job) \<in> {Queued, Dispatching} \<and> deadline_passed job now
         then xbind (move_job jid job TimedOut (phase ''host_queue'' [])
                (Some (JObject [(''error'', JString ''deadline_expired_before_systemd_action'')]))) (\<lambda>_. xret False)
         else if job_cancel_requested job
         then xbind (move_job jid job Cancelled (phase ''resource_queue'' []) (Some not_started)) (\<lambda>_. xret False)
         else xbind xsleep (\<lambda>_. wait_service_lock rounds c jid))))"

definition stale_invocation :: "UnitActionParams \<Rightarrow> ServiceUnitState \<Rightarrow> bool" where
  "stale_invocation params before =
     (case ua_expected_invocation_id params of
        None \<Rightarrow> False
      | Some expected \<Rightarrow>
          (case us_invocation_id before of
             None \<Rightarrow> True
           | Some observed \<Rightarrow> to_ascii_lowercase expected \<noteq> to_ascii_lowercase observed))"

definition begin_service_action ::
  "service_serde \<Rightarrow> 'w service_host \<Rightarrow> Config \<Rightarrow> JobId \<Rightarrow> ServiceAction \<Rightarrow> UnitActionParams \<Rightarrow> JobRecord \<Rightarrow> ('w, unit) service_act" where
  "begin_service_action sv h c jid action params job =
     xbind (observe_service_unit h (ua_unit params)) (\<lambda>before.
     if stale_invocation params before
     then
       xbind (move_job jid job Failed (phase ''baseline'' [(''reason'', JString ''stale_baseline'')])
         (Some (JObject [(''error'', JString ''stale_baseline''),
            (''expected_invocation_id'', jopt JString (ua_expected_invocation_id params)),
            (''observed'', sv_unit_state sv before)]))) (\<lambda>_.
       release_manager c jid)
     else
       let progress = \<lparr>sp_action = action, sp_unit = ua_unit params, sp_before = before, sp_manager_job = None\<rparr> in
       xbind (move_job jid job Dispatching
         (JObject [(''resource'', JString ''systemd_manager''), (''host'', JString (cf_host c)), (''unit'', JString (ua_unit params))])
         (Some (sv_progress sv progress))) (\<lambda>job.
       start_service_action sv h c jid job progress))"

text \<open>Where a job is taken up, by its stored state.\<close>

definition service_stage ::
  "service_serde \<Rightarrow> 'w service_host \<Rightarrow> Config \<Rightarrow> JobId \<Rightarrow> ServiceAction \<Rightarrow> UnitActionParams \<Rightarrow> JobRecord \<Rightarrow> ('w, unit) service_act" where
  "service_stage sv h c jid action params job =
     (case h_state (job_handle job) of
        Queued \<Rightarrow> begin_service_action sv h c jid action params job
      | Dispatching \<Rightarrow>
          xbind (xlift (service_progress sv job ''service baseline is missing'')) (start_service_action sv h c jid job)
      | Running \<Rightarrow> recover_uncertain_service_action sv h c jid job
      | Reconciling \<Rightarrow>
          xbind (xlift (service_progress sv job ''service progress is missing'')) (finish_accepted_service_action sv h c jid job)
      | _ \<Rightarrow> xret ())"

definition locked_service_job ::
  "service_serde \<Rightarrow> 'w service_host \<Rightarrow> Config \<Rightarrow> JobId \<Rightarrow> ServiceAction \<Rightarrow> UnitActionParams \<Rightarrow> ('w, unit) service_act" where
  "locked_service_job sv h c jid action params =
     xbind (xread (get_job jid)) (\<lambda>job.
     if JobState_is_terminal (h_state (job_handle job)) then release_manager c jid
     else
       xbind xclock (\<lambda>now.
       if h_state (job_handle job) \<in> {Queued, Dispatching} \<and> deadline_passed job now
       then xbind (move_job jid job TimedOut (phase ''before_systemd_action'' [])
              (Some (JObject [(''error'', JString ''deadline_expired_before_systemd_action'')]))) (\<lambda>_. release_manager c jid)
       else if job_cancel_requested job \<and> h_state (job_handle job) \<in> {Queued, Dispatching}
       then xbind (move_job jid job Cancelled (phase ''before_systemd_action'' []) (Some not_started)) (\<lambda>_. release_manager c jid)
       else service_stage sv h c jid action params job))"

definition run_service_job :: "service_serde \<Rightarrow> 'w service_host \<Rightarrow> Config \<Rightarrow> JobId \<Rightarrow> ('w, unit) service_act" where
  "run_service_job sv h c jid =
     xbind (xread (get_job jid)) (\<lambda>job.
     xbind (xlift (ok_or ''unsupported service operation'' (ServiceAction_from_operation (h_operation (job_handle job))))) (\<lambda>action.
     xbind (xlift (ok_or ''invalid service parameters'' (sv_params_of sv (job_spec job)))) (\<lambda>params.
     xbind (xlift (UnitActionParams_validate params)) (\<lambda>_.
     if ua_unit params \<notin> set (cf_manageable_units c) then xfail ''service is no longer manageable''
     else
       xbind (\<lambda>x. wait_service_lock (length (x_moves x)) c jid x) (\<lambda>locked.
       if locked then locked_service_job sv h c jid action params else xret ())))))"

definition record_service_worker_error :: "Config \<Rightarrow> JobId \<Rightarrow> ('w, unit) service_act" where
  "record_service_worker_error c jid =
     xbind (xread (get_job jid)) (\<lambda>job.
     if JobState_is_terminal (h_state (job_handle job)) then release_manager c jid
     else
       xbind (if h_state (job_handle job) = Running
              then move_job jid job Reconciling
                     (phase ''executor_error'' [(''effect'', JString ''may_have_started'')]) (job_result job)
              else xret job) (\<lambda>job.
       let st = (if h_state (job_handle job) = Reconciling then OutcomeUnknown else Failed);
           effect = (if h_state (job_handle job) = Reconciling then ''unknown'' else ''not_started'') in
       xbind (move_job jid job st (phase ''executor_error'' [(''effect'', JString effect)])
         (Some (JObject [(''error'', JString ''service_worker_failed''), (''effect'', JString effect),
            (''previous'', jopt (\<lambda>v. v) (job_result job))]))) (\<lambda>_.
       release_manager c jid)))"

text \<open>The task of a job: it runs again until its failure is recorded.\<close>

primrec service_worker :: "nat \<Rightarrow> service_serde \<Rightarrow> 'w service_host \<Rightarrow> Config \<Rightarrow> JobId \<Rightarrow> ('w, unit) service_act" where
  "service_worker 0 sv h c jid = (\<lambda>x. (x, Err crashed))"
| "service_worker (Suc rounds) sv h c jid =
     xtry (run_service_job sv h c jid) (\<lambda>r.
     case r of
       Inr _ \<Rightarrow> xret ()
     | Inl _ \<Rightarrow>
         xtry (record_service_worker_error c jid) (\<lambda>recorded.
         case recorded of
           Inr _ \<Rightarrow> xret ()
         | Inl _ \<Rightarrow> xbind xsleep (\<lambda>_. service_worker rounds sv h c jid)))"

definition cancel_service_job :: "Config \<Rightarrow> JobCancelParams \<Rightarrow> ('w, JobRecord) service_act" where
  "cancel_service_job c params =
     xbind (xstore (\<lambda>now. request_cancel now (jc_job_id params) (jc_expected_revision params) (jc_reason params))) (\<lambda>requested.
     if h_state (job_handle requested) \<in> {Queued, Dispatching}
     then
       xbind (move_job (jc_job_id params) requested Cancelled (phase ''before_systemd_action'' []) (Some not_started)) (\<lambda>cancelled.
       xbind (xignore (release_manager c (jc_job_id params))) (\<lambda>_. xret cancelled))
     else xret requested)"

end
