(* ===== verification/Executor_Facts.thy ===== *)
theory Executor_Facts
  imports Executor_Services Hub_Facts
begin

text \<open>
  What the service workers keep, whatever other tasks and the host do between their awaits and
  wherever they are killed.
\<close>

section \<open>Started jobs\<close>

text \<open>A job in one of a set of states that no transition leaves.\<close>

definition job_in :: "JobState set \<Rightarrow> JobId \<Rightarrow> store \<Rightarrow> bool" where
  "job_in A jid s \<longleftrightarrow> (\<exists>r \<in> set (st_jobs s). jr_id r = job_id_str jid \<and> row_state r \<in> A)"

lemma job_in_steps:
  assumes "steps digest ts_text as_second ts_add s s'" and "store_inv s" and "job_in A jid s"
    and closed: "\<And>a b. a \<in> A \<Longrightarrow> JobState_can_transition_to a b \<Longrightarrow> b \<in> A"
  shows "job_in A jid s'"
proof -
  have row: "jr_id j' = jr_id j \<and> row_state j' \<in> A" if "job_row_step j j'" "row_state j \<in> A" for j j'
    using that closed by (auto simp: job_row_step_def transitioned_row_def cancelled_row_def row_state_def)
  have "(job_in A jid s \<longrightarrow> job_in A jid s') \<and> store_inv s'"
  proof (rule steps_invariant[OF assms(1,2)])
    show "job_in A jid x \<longrightarrow> job_in A jid y" if "store_step digest ts_text as_second ts_add x y" "store_inv x" for x y
      using step_job_rows[OF that] row unfolding job_in_def by metis
  qed auto
  with assms(3) show ?thesis by simp
qed

lemma get_job_in:
  assumes "jobs_inv s" and "get_job jid s = Ok job" and "h_state (job_handle job) \<in> A"
  shows "job_in A jid s"
proof -
  obtain r where r: "select_one (\<lambda>r. jr_id r = job_id_str jid) (st_jobs s) = Some r" and job: "job = decoded_job r"
    using assms(2) unfolding get_job_iff[OF assms(1)] by (auto split: option.splits)
  with jobs_t.found[OF r] assms(3) show ?thesis unfolding job_in_def by (auto simp: decoded_job_def)
qed

text \<open>A job that has been started: no operation of the store brings it back.\<close>

definition started :: "JobId \<Rightarrow> store \<Rightarrow> bool" where
  "started jid s \<longleftrightarrow> job_in (- {Queued, Dispatching}) jid s"

lemma started_steps:
  assumes "steps digest ts_text as_second ts_add s s'" and "store_inv s" and "started jid s"
  shows "started jid s'"
  using assms unfolding started_def
proof (rule job_in_steps)
  show "b \<in> - {Queued, Dispatching}" if "a \<in> - {Queued, Dispatching}" "JobState_can_transition_to a b" for a b
    using that by (cases a) (auto simp: JobState_can_transition_to_def)
qed

text \<open>A reader's job was dispatching at the revision he read, and has moved on if its revision has.\<close>

definition seen_dispatching :: "JobId \<Rightarrow> JobRecord \<Rightarrow> store \<Rightarrow> bool" where
  "seen_dispatching jid job s \<longleftrightarrow> (\<exists>r \<in> set (st_jobs s). jr_id r = job_id_str jid
     \<and> (int (h_revision (job_handle job)) < jr_revision r
        \<or> jr_revision r = int (h_revision (job_handle job)) \<and> row_state r = Dispatching))"

lemma seen_dispatching_steps:
  assumes "steps digest ts_text as_second ts_add s s'" and "store_inv s" and "seen_dispatching jid job s"
  shows "seen_dispatching jid job s'"
proof -
  from assms(3) obtain r where r: "r \<in> set (st_jobs s)" "jr_id r = job_id_str jid"
    "int (h_revision (job_handle job)) < jr_revision r
       \<or> jr_revision r = int (h_revision (job_handle job)) \<and> row_state r = Dispatching"
    unfolding seen_dispatching_def by blast
  from steps_jobs[OF assms(1,2)] r(1) obtain r' where r': "r' \<in> set (st_jobs s')" "job_row_evolved r r'" by blast
  from r' r show ?thesis unfolding seen_dispatching_def job_row_evolved_def same_identity_def
    by (cases "jr_revision r' = jr_revision r") (auto intro!: bexI[of _ r'])
qed

lemma decoded_revision:
  assumes "jobs_inv s" and "get_job jid s = Ok job" and "h_state (job_handle job) = Dispatching"
  shows "seen_dispatching jid job s"
proof -
  obtain r where r: "select_one (\<lambda>r. jr_id r = job_id_str jid) (st_jobs s) = Some r" and job: "job = decoded_job r"
    using assms(2) unfolding get_job_iff[OF assms(1)] by (auto split: option.splits)
  note mem = jobs_t.found[OF r]
  have "job_row_ok r" using jobs_inv_row_ok[OF assms(1)] mem by blast
  then have "jr_revision r = int (h_revision (job_handle job)) \<and> row_state r = Dispatching"
    using assms(3) by (auto simp: job decoded_job_def job_row_ok_def)
  with mem show ?thesis unfolding seen_dispatching_def by auto
qed

section \<open>The invariant of a service worker\<close>

definition moves_ok ::
  "(json \<Rightarrow> string) \<Rightarrow> (timestamp \<Rightarrow> string) \<Rightarrow> (timestamp \<Rightarrow> int) \<Rightarrow> (timestamp \<Rightarrow> nat \<Rightarrow> timestamp option) \<Rightarrow>
   'w move list \<Rightarrow> bool" where
  "moves_ok digest ts_text as_second ts_add ms \<longleftrightarrow>
     (\<forall>m \<in> set ms. \<forall>s. steps digest ts_text as_second ts_add s (mv_store m s))"

definition worker_ops ::
  "(json \<Rightarrow> string) \<Rightarrow> (timestamp \<Rightarrow> string) \<Rightarrow> (timestamp \<Rightarrow> int) \<Rightarrow> (timestamp \<Rightarrow> nat \<Rightarrow> timestamp option) \<Rightarrow>
   (timestamp \<Rightarrow> store \<Rightarrow> store) set" where
  "worker_ops digest ts_text as_second ts_add = {op. \<forall>now s. steps digest ts_text as_second ts_add s (op now s)}"

definition called_once ::
  "(json \<Rightarrow> string) \<Rightarrow> (timestamp \<Rightarrow> string) \<Rightarrow> (timestamp \<Rightarrow> int) \<Rightarrow> (timestamp \<Rightarrow> nat \<Rightarrow> timestamp option) \<Rightarrow>
   JobId \<Rightarrow> ('w, 'c) exec \<Rightarrow> bool" where
  "called_once digest ts_text as_second ts_add jid x \<longleftrightarrow>
     moves_ok digest ts_text as_second ts_add (x_moves x) \<and> store_inv (x_store x)
     \<and> (x_calls x = [] \<or> (\<exists>s c. x_calls x = [(s, c)] \<and> started jid s \<and> started jid (x_store x)))"

interpretation once: worker_invariant "called_once digest ts_text as_second ts_add jid" "worker_ops digest ts_text as_second ts_add"
  for digest ts_text as_second ts_add jid
proof
  fix x :: "('w, 'c) exec" and m ms op
  assume I: "called_once digest ts_text as_second ts_add jid x" and ms: "x_moves x = m # ms"
    and op: "op \<in> worker_ops digest ts_text as_second ts_add"
  let ?s = "op (mv_now m) (mv_store m (x_store x))"
  from I ms have "steps digest ts_text as_second ts_add (x_store x) (mv_store m (x_store x))"
    by (simp add: called_once_def moves_ok_def)
  moreover from op have "steps digest ts_text as_second ts_add (mv_store m (x_store x)) ?s" by (simp add: worker_ops_def)
  ultimately have st: "steps digest ts_text as_second ts_add (x_store x) ?s" by (rule run.R_trans)
  have inv: "store_inv (x_store x)" using I by (simp add: called_once_def)
  show "called_once digest ts_text as_second ts_add jid
      (x\<lparr>x_store := ?s, x_world := mv_world m (x_world x), x_now := mv_now m, x_instant := mv_instant m, x_moves := ms\<rparr>)"
    using I ms steps_store_inv[OF st inv] started_steps[OF st inv] by (auto simp: called_once_def moves_ok_def)
next
  show "(\<lambda>_ s. s) \<in> worker_ops digest ts_text as_second ts_add" by (simp add: worker_ops_def run.R_refl)
next
  show "called_once digest ts_text as_second ts_add jid x \<Longrightarrow> called_once digest ts_text as_second ts_add jid (x\<lparr>x_world := w\<rparr>)"
    for x :: "('w, 'c) exec" and w
    by (simp add: called_once_def)
qed

lemma transition_op: "(\<lambda>now s. fst (transition_job now jid n st payload result s)) \<in> worker_ops digest ts_text as_second ts_add"
  and acquire_op: "(\<lambda>now s. fst (try_acquire_resource now kind rkey jid s)) \<in> worker_ops digest ts_text as_second ts_add"
  and release_op: "(\<lambda>now s. fst (release_resource kind rkey jid s)) \<in> worker_ops digest ts_text as_second ts_add"
  and cancel_op: "(\<lambda>now s. fst (request_cancel now jid n reason s)) \<in> worker_ops digest ts_text as_second ts_add"
  unfolding worker_ops_def steps_def
  by (auto intro!: r_into_rtranclp store_step.transition[OF prod.collapse[symmetric]]
      store_step.acquire[OF prod.collapse[symmetric]] store_step.release[OF prod.collapse[symmetric]]
      store_step.cancel[OF prod.collapse[symmetric]])

lemma once_move_job [exec_intros]: "once.keeps digest ts_text as_second ts_add jid (move_job jid' job st payload result)"
  unfolding move_job_def by (rule once.keeps_xstore[OF transition_op])

lemma once_release [exec_intros]: "once.keeps digest ts_text as_second ts_add jid (release_manager c jid')"
  unfolding release_manager_def by (intro once.keeps_rules once.keeps_xstore[OF release_op])

lemma once_observe [exec_intros]: "once.keeps digest ts_text as_second ts_add jid (observe_service_unit h unit)"
  unfolding observe_service_unit_def
  by (intro once.keeps_rules once.keepsI) auto

lemma once_unknown [exec_intros]: "once.keeps digest ts_text as_second ts_add jid (transition_service_unknown sv c jid' job progress reason)"
  unfolding transition_service_unknown_def by (intro once.keeps_rules exec_intros)

lemma once_wait_manager [exec_intros]: "once.keeps digest ts_text as_second ts_add jid (wait_manager_job rounds h deadline n)"
proof (induction rounds)
  case 0
  then show ?case by (simp add: once.keeps_def)
next
  case (Suc rounds)
  then show ?case unfolding wait_manager_job.simps by (intro once.keeps_rules)
qed

lemma once_finish [exec_intros]:
  "once.keeps digest ts_text as_second ts_add jid (finish_accepted_service_action sv h c jid' job progress)"
proof -
  have wait: "once.keeps digest ts_text as_second ts_add jid (\<lambda>x. wait_manager_job (length (x_moves x)) h d n x)" for d n
    using once_wait_manager unfolding once.keeps_def by blast
  show ?thesis
    unfolding finish_accepted_service_action_def by (intro once.keeps_rules exec_intros wait)
qed


section \<open>Starting an action\<close>

text \<open>An await of the store, spelled out.\<close>

lemma xstore_Ok:
  assumes "xstore op x = (x', Ok v)"
  obtains m ms where "x_moves x = m # ms" and "op (mv_now m) (mv_store m (x_store x)) = (x_store x', Ok v)"
    and "x_calls x' = x_calls x" and "x_moves x' = ms"
  using assms by (cases "x_moves x") (auto simp: xstore_def split: prod.splits)

lemma moved_job:
  assumes "move_job jid job st payload result x = (x', Ok job')"
    and "moves_ok digest ts_text as_second ts_add (x_moves x)" and "store_inv (x_store x)"
  shows "get_job jid (x_store x') = Ok job'" and "h_state (job_handle job') = st" and "x_calls x' = x_calls x"
    and "\<exists>s. steps digest ts_text as_second ts_add (x_store x) s \<and> store_inv s
      \<and> (\<exists>row \<in> set (st_jobs s). jr_id row = job_id_str jid \<and> jr_revision row = int (h_revision (job_handle job))
        \<and> JobState_can_transition_to (row_state row) st)"
proof -
  obtain m ms where m: "x_moves x = m # ms"
    and t: "transition_job (mv_now m) jid (h_revision (job_handle job)) st payload result (mv_store m (x_store x)) = (x_store x', Ok job')"
    and calls: "x_calls x' = x_calls x"
    using xstore_Ok[OF assms(1)[unfolded move_job_def]] by blast
  have st: "steps digest ts_text as_second ts_add (x_store x) (mv_store m (x_store x))"
    using assms(2) m by (simp add: moves_ok_def)
  have inv: "store_inv (mv_store m (x_store x))" using steps_store_inv[OF st assms(3)] .
  note ok = transition_job_Ok[OF t store_inv_parts(1)[OF inv]]
  show "get_job jid (x_store x') = Ok job'" "h_state (job_handle job') = st" "x_calls x' = x_calls x"
    using ok calls by simp_all
  show "\<exists>s. steps digest ts_text as_second ts_add (x_store x) s \<and> store_inv s
      \<and> (\<exists>row \<in> set (st_jobs s). jr_id row = job_id_str jid \<and> jr_revision row = int (h_revision (job_handle job))
        \<and> JobState_can_transition_to (row_state row) st)"
    using st inv ok(3) by blast
qed

lemma move_job_Ok:
  assumes "move_job jid job st payload result x = (x', Ok job')" and "called_once digest ts_text as_second ts_add jid x"
  shows "called_once digest ts_text as_second ts_add jid x'" and "get_job jid (x_store x') = Ok job'"
    and "h_state (job_handle job') = st" and "x_calls x' = x_calls x"
    and "\<exists>s. steps digest ts_text as_second ts_add (x_store x) s \<and> store_inv s
      \<and> (\<exists>row \<in> set (st_jobs s). jr_id row = job_id_str jid \<and> jr_revision row = int (h_revision (job_handle job))
        \<and> JobState_can_transition_to (row_state row) st)"
proof -
  show "called_once digest ts_text as_second ts_add jid x'"
    using once.keepsD[OF once_move_job assms(2)] assms(1) by (metis fst_conv)
qed (use moved_job[OF assms(1)] assms(2) in \<open>auto simp: called_once_def\<close>)

text \<open>No call was made while the job could still be dispatching.\<close>

lemma dispatching_not_called:
  assumes "called_once digest ts_text as_second ts_add jid x" and "seen_dispatching jid job (x_store x)"
    and "move_job jid job Running payload result x = (x', Ok job')"
  shows "x_calls x = []"
proof (rule ccontr)
  assume "x_calls x \<noteq> []"
  then have "started jid (x_store x)" using assms(1) by (auto simp: called_once_def)
  moreover obtain s row where st: "steps digest ts_text as_second ts_add (x_store x) s" and inv: "store_inv s"
    and row: "row \<in> set (st_jobs s)" "jr_id row = job_id_str jid" "jr_revision row = int (h_revision (job_handle job))"
    using move_job_Ok(5)[OF assms(3,1)] by blast
  have inv0: "store_inv (x_store x)" using assms(1) by (simp add: called_once_def)
  ultimately have "started jid s" using started_steps[OF st] by blast
  moreover have "seen_dispatching jid job s" using seen_dispatching_steps[OF st inv0 assms(2)] .
  moreover have "r = row" if "r \<in> set (st_jobs s)" "jr_id r = job_id_str jid" for r
    using jobs_t.key_unique[OF jobs_inv_distinct[OF store_inv_parts(1)[OF inv]] that(1) row(1)] that(2) row(2) by simp
  ultimately show False using row(3) unfolding started_def job_in_def seen_dispatching_def by (metis ComplD insertCI less_irrefl)
qed

lemma start_keeps_once:
  assumes "called_once digest ts_text as_second ts_add jid x" and "seen_dispatching jid job (x_store x)"
  shows "called_once digest ts_text as_second ts_add jid (fst (start_service_action sv h c jid job progress x))"
proof -
  let ?I = "called_once digest ts_text as_second ts_add jid"
  let ?call = "xcall (sp_action progress, sp_unit progress) (sh_manager h (sp_action progress) (sp_unit progress))"
  define rest where "rest running called =
     (case called of
       Inr path \<Rightarrow>
         let progress = progress\<lparr>sp_manager_job := Some path\<rparr> in
         xbind (move_job jid running Reconciling (phase ''systemd_job_accepted'' []) (Some (sv_progress sv progress))) (\<lambda>reconciling.
         finish_accepted_service_action sv h c jid reconciling progress)
     | Inl e \<Rightarrow>
         if explicit_systemd_rejection (report_text e)
         then
           xbind (move_job jid running Failed (phase ''systemd_call'' [(''rejected'', JBool True)])
             (Some (JObject [(''action'', sv_action sv (sp_action progress)), (''unit'', JString (sp_unit progress)),
                (''before'', sv_unit_state sv (sp_before progress)), (''error'', JString ''systemd_rejected_action'')]))) (\<lambda>_.
           release_manager c jid)
         else
           xbind (move_job jid running Reconciling (phase ''systemd_call'' [(''acknowledgement'', JString ''unavailable'')])
             (Some (sv_progress sv progress))) (\<lambda>reconciling.
           transition_service_unknown sv c jid reconciling progress ''systemd_acknowledgement_unavailable''))"
    for running :: JobRecord and called :: "(string, store_error) result"
  have rest: "once.keeps digest ts_text as_second ts_add jid (rest running called)" for running called
    unfolding rest_def by (intro once.keeps_rules exec_intros)
  have unfold: "start_service_action sv h c jid job progress =
      xbind (move_job jid job Running (phase ''systemd_call_may_have_started'' []) (Some (sv_progress sv progress))) (\<lambda>running.
      xbind (xworld (sh_connect h)) (\<lambda>_. xtry ?call (rest running)))"
    unfolding start_service_action_def rest_def ..
  have after: "?I (fst (xtry ?call (rest running) x2))"
    if "?I x2" and "x_calls x2 = []" and "started jid (x_store x2)" for running x2
  proof -
    have "?I (x2\<lparr>x_calls := [(x_store x2, (sp_action progress, sp_unit progress))]\<rparr>)"
      using that by (auto simp: called_once_def)
    then have "?I (fst (?call x2))" using once.keepsD[OF once.keeps_xworld] that(2) by (simp add: xcall_def)
    then show ?thesis using once.keepsD[OF rest] by (auto simp: xtry_def split: prod.splits)
  qed
  obtain x1 r1 where m: "move_job jid job Running (phase ''systemd_call_may_have_started'' []) (Some (sv_progress sv progress)) x = (x1, r1)"
    by fastforce
  show ?thesis
  proof (cases r1)
    case (Inl e)
    have "?I x1" using once.keepsD[OF once_move_job assms(1)] m by (metis fst_conv)
    with m Inl show ?thesis unfolding unfold by (simp add: xbind_def)
  next
    case (Inr running)
    note ok = move_job_Ok[OF m[unfolded Inr] assms(1)]
    have none: "x_calls x1 = []" using dispatching_not_called[OF assms m[unfolded Inr]] ok(4) by simp
    have st: "started jid (x_store x1)"
      unfolding started_def by (rule get_job_in[OF store_inv_parts(1) ok(2)]) (use ok(1,3) in \<open>auto simp: called_once_def\<close>)
    obtain x2 r2 where w: "xworld (sh_connect h) x1 = (x2, r2)" by fastforce
    have x2: "?I x2" using once.keepsD[OF once.keeps_xworld ok(1)] w by (metis fst_conv)
    have none2: "x_calls x2 = []" and st2: "started jid (x_store x2)"
    proof -
      show "x_calls x2 = []" using w none by (auto simp: xworld_def split: list.splits prod.splits)
      have "x_store x2 = x_store x1 \<or> (\<exists>mv \<in> set (x_moves x1). x_store x2 = mv_store mv (x_store x1))"
        using w by (auto simp: xworld_def split: list.splits prod.splits)
      then show "started jid (x_store x2)"
        using st ok(1) started_steps[of digest ts_text as_second ts_add "x_store x1"] by (auto simp: called_once_def moves_ok_def)
    qed
    show ?thesis
    proof (cases r2)
      case (Inl e)
      with m w Inr x2 show ?thesis unfolding unfold by (simp add: xbind_def \<open>r1 = Ok running\<close>)
    next
      case (Inr u)
      with m w after[OF x2 none2 st2] show ?thesis unfolding unfold by (simp add: xbind_def \<open>r1 = Ok running\<close>)
    qed
  qed
qed


section \<open>The worker\<close>

text \<open>Reading the result of an await: what holds of the state it leaves.\<close>

lemma xbind_cases:
  assumes "\<And>x1 e. m x = (x1, Err e) \<Longrightarrow> P x1" and "\<And>x1 v. m x = (x1, Ok v) \<Longrightarrow> P (fst (f v x1))"
  shows "P (fst (xbind m f x))"
  using assms by (cases "m x"; cases "snd (m x)") (auto simp: xbind_def)

lemma xread_Ok: "xread q x = (x', Ok v) \<Longrightarrow> q (x_store x') = Ok v"
  unfolding xread_def by (erule xstore_Ok) auto

lemma once_begin [exec_intros]:
  fixes h :: "'w service_host"
  shows "once.keeps digest ts_text as_second ts_add jid (begin_service_action sv h c jid action params job)"
proof -
  let ?I = "called_once digest ts_text as_second ts_add jid :: ('w, service_call) exec \<Rightarrow> bool"
  have start: "once.keeps digest ts_text as_second ts_add jid
      (xbind (move_job jid job Dispatching payload result) (\<lambda>job. start_service_action sv h c jid job progress))" for payload result progress
  proof (rule once.keepsI, rule xbind_cases)
    fix x x1 e assume "?I x" "move_job jid job Dispatching payload result x = (x1, Err e)"
    then show "?I x1" using once.keepsD[OF once_move_job] by (metis fst_conv)
  next
    fix x x1 job' assume I: "?I x" and m: "move_job jid job Dispatching payload result x = (x1, Ok job')"
    note ok = move_job_Ok[OF m I]
    have "jobs_inv (x_store x1)" using ok(1) by (simp add: called_once_def store_inv_parts)
    then show "?I (fst (start_service_action sv h c jid job' progress x1))"
      using start_keeps_once[OF ok(1) decoded_revision[OF _ ok(2,3)]] by blast
  qed
  show ?thesis unfolding begin_service_action_def by (intro once.keeps_rules exec_intros start)
qed

lemma once_recover [exec_intros]:
  "once.keeps digest ts_text as_second ts_add jid (recover_uncertain_service_action sv h c jid' job)"
  unfolding recover_uncertain_service_action_def by (intro once.keeps_rules exec_intros)

lemma service_stage_keeps_once:
  fixes h :: "'w service_host"
  assumes "called_once digest ts_text as_second ts_add jid x" and "get_job jid (x_store x) = Ok job"
  shows "called_once digest ts_text as_second ts_add jid (fst (service_stage sv h c jid action params job x))"
proof -
  have jinv: "jobs_inv (x_store x)" using assms(1) by (simp add: called_once_def store_inv_parts)
  have lifted: "called_once digest ts_text as_second ts_add jid (fst (xbind (xlift r) f x))"
    if "\<And>p. called_once digest ts_text as_second ts_add jid (fst (f p x))"
    for r and f :: "ServiceProgress \<Rightarrow> ('w, unit) service_act"
    using that assms(1) by (cases r) (simp_all add: xbind_def xlift_def)
  note start = start_keeps_once[OF assms(1) decoded_revision[OF jinv assms(2)]]
  note keeps = once.keepsD[OF once_begin assms(1)] once.keepsD[OF once_recover assms(1)] once.keepsD[OF once_finish assms(1)]
  show ?thesis
  proof (cases "h_state (job_handle job)")
    case Dispatching
    then show ?thesis using lifted[of "start_service_action sv h c jid job"] start by (simp add: service_stage_def)
  next
    case Reconciling
    then show ?thesis using lifted[of "finish_accepted_service_action sv h c jid job"] keeps(3) by (simp add: service_stage_def)
  qed (simp_all add: service_stage_def keeps assms(1) xret_def)
qed

lemma once_locked [exec_intros]:
  fixes h :: "'w service_host"
  shows "once.keeps digest ts_text as_second ts_add jid (locked_service_job sv h c jid action params)"
proof -
  let ?I = "called_once digest ts_text as_second ts_add jid :: ('w, service_call) exec \<Rightarrow> bool"
  show ?thesis
  proof (rule once.keepsI, unfold locked_service_job_def, rule xbind_cases)
    fix x x1 e assume "?I x" "xread (get_job jid) x = (x1, Err e)"
    then show "?I x1" using once.keepsD[OF once.keeps_xread] by (metis fst_conv)
  next
    fix x x1 job assume I: "?I x" and rd: "xread (get_job jid) x = (x1, Ok job)"
    have I1: "?I x1" using once.keepsD[OF once.keeps_xread I] rd by (metis fst_conv)
    have ended: "?I (fst (xbind (move_job jid job st payload result) (\<lambda>_. release_manager c jid) x1))" for st payload result
      by (rule once.keepsD[OF _ I1]) (intro once.keeps_rules exec_intros)
    show "?I (fst ((if JobState_is_terminal (h_state (job_handle job)) then release_manager c jid
       else xbind xclock (\<lambda>now.
         if h_state (job_handle job) \<in> {Queued, Dispatching} \<and> deadline_passed job now
         then xbind (move_job jid job TimedOut (phase ''before_systemd_action'' [])
              (Some (JObject [(''error'', JString ''deadline_expired_before_systemd_action'')]))) (\<lambda>_. release_manager c jid)
         else if job_cancel_requested job \<and> h_state (job_handle job) \<in> {Queued, Dispatching}
         then xbind (move_job jid job Cancelled (phase ''before_systemd_action'' []) (Some not_started)) (\<lambda>_. release_manager c jid)
         else service_stage sv h c jid action params job)) x1))"
      using once.keepsD[OF once_release I1] service_stage_keeps_once[OF I1 xread_Ok[OF rd]] ended
      unfolding xbind_def[of xclock] by (simp add: xclock_def)
  qed
qed

lemma once_wait_lock [exec_intros]: "once.keeps digest ts_text as_second ts_add jid (wait_service_lock rounds c jid')"
proof (induction rounds)
  case 0
  then show ?case by (simp add: once.keeps_def)
next
  case (Suc rounds)
  then show ?case unfolding wait_service_lock.simps
    by (intro once.keeps_rules exec_intros once.keeps_xstore[OF acquire_op])
qed

lemma once_run [exec_intros]: "once.keeps digest ts_text as_second ts_add jid (run_service_job sv h c jid)"
proof -
  have wait: "once.keeps digest ts_text as_second ts_add jid (\<lambda>x. wait_service_lock (length (x_moves x)) c jid x)"
    using once_wait_lock unfolding once.keeps_def by blast
  show ?thesis unfolding run_service_job_def by (intro once.keeps_rules exec_intros wait)
qed

lemma once_record [exec_intros]: "once.keeps digest ts_text as_second ts_add jid (record_service_worker_error c jid')"
  unfolding record_service_worker_error_def by (intro once.keeps_rules exec_intros)

lemma once_worker: "once.keeps digest ts_text as_second ts_add jid (service_worker rounds sv h c jid)"
proof (induction rounds)
  case 0
  then show ?case by (simp add: once.keeps_def)
next
  case (Suc rounds)
  then show ?case unfolding service_worker.simps by (intro once.keeps_rules exec_intros)
qed

end
