(* ===== verification/Job_Runner.thy ===== *)
theory Job_Runner
  imports Executor_Config
begin

text \<open>
  How a command is run on a host: the specification that a profile allows and the arguments of the
  transient unit (\<open>maxops-executor/src/main.rs\<close>), and the wrapper that runs inside the unit, with its
  bounded output and its completion record (\<open>lib.rs\<close> and \<open>bin/maxops-job-runner.rs\<close>).
\<close>

section \<open>Specifications\<close>

record RunnerSpec =
  rn_command :: CommandSpec
  rn_interpreter :: string
  rn_cwd :: "string option"
  rn_env :: "(string \<times> string) list"
  rn_credential_refs :: "string list"
  rn_pass_credentials_directory :: bool
  rn_output_limit_bytes :: nat

record RunnerResult =
  rr_success :: bool
  rr_exit_code :: "int option"
  rr_signal :: "int option"
  rr_stdout_bytes :: nat
  rr_stderr_bytes :: nat
  rr_stdout_discarded_bytes :: nat
  rr_stderr_discarded_bytes :: nat
  rr_completed_at :: timestamp

text \<open>\<open>BTreeMap::insert\<close> and \<open>extend\<close>.\<close>

fun btree_insert :: "string \<Rightarrow> 'a \<Rightarrow> (string \<times> 'a) list \<Rightarrow> (string \<times> 'a) list" where
  "btree_insert k v [] = [(k, v)]"
| "btree_insert k v ((k', v') # m) =
     (if k = k' then (k, v) # m else if k < k' then (k, v) # (k', v') # m else (k', v') # btree_insert k v m)"

definition btree_extend :: "(string \<times> 'a) list \<Rightarrow> (string \<times> 'a) list \<Rightarrow> (string \<times> 'a) list" where
  "btree_extend m entries = fold (\<lambda>(k, v). btree_insert k v) entries m"

text \<open>\<open>canonicalize\<close> is the file system's resolution of links; it fails for a missing path.\<close>

definition cwd_permitted :: "(string \<Rightarrow> string option) \<Rightarrow> Profile \<Rightarrow> string option \<Rightarrow> (unit, string) result" where
  "cwd_permitted canonicalize profile cwd =
     (case cwd of
        None \<Rightarrow> Ok ()
      | Some cwd \<Rightarrow>
          if \<not> path_is_absolute cwd then Err ''working directory must be absolute''
          else case canonicalize cwd of
            None \<Rightarrow> Err ''resolve working directory''
          | Some canonical \<Rightarrow>
              if list_ex (path_starts_with canonical) (List.map_filter canonicalize (pf_working_roots profile))
              then Ok () else Err ''working directory is outside configured roots'')"

definition prepare_runner_spec ::
  "(string \<Rightarrow> string option) \<Rightarrow> Config \<Rightarrow> ExecRunParams \<Rightarrow> (RunnerSpec, string) result" where
  "prepare_runner_spec canonicalize c params =
     rbind (ok_or ''execution profile is not configured'' (map_of (cf_profiles c) (er_profile params))) (\<lambda>profile.
     if \<not> list_all (\<lambda>r. r \<in> set (pf_allowed_credentials profile)) (er_credential_refs params)
     then Err ''credential is not permitted by the execution profile''
     else if \<not> (case er_timeout_seconds params of None \<Rightarrow> pf_timeout_seconds profile | Some t \<Rightarrow> t) \<le> pf_timeout_seconds profile
     then Err ''requested timeout exceeds profile limit''
     else rbind (cwd_permitted canonicalize profile (er_cwd params)) (\<lambda>_.
       Ok \<lparr>rn_command = er_command params, rn_interpreter = pf_interpreter profile, rn_cwd = er_cwd params,
           rn_env = btree_extend (pf_environment profile) (er_env params),
           rn_credential_refs = er_credential_refs params, rn_pass_credentials_directory = False,
           rn_output_limit_bytes = pf_output_limit_bytes profile\<rparr>))"

section \<open>The transient unit\<close>

definition launch_timeout ::
  "(timestamp \<Rightarrow> int) \<Rightarrow> timestamp \<Rightarrow> Profile \<Rightarrow> ExecRunParams \<Rightarrow> timestamp option \<Rightarrow> (nat, string) result" where
  "launch_timeout as_second now profile params deadline =
     (let requested = (case er_timeout_seconds params of None \<Rightarrow> pf_timeout_seconds profile | Some t \<Rightarrow> t) in
      case deadline of
        None \<Rightarrow> Ok requested
      | Some d \<Rightarrow>
          let remaining = as_second d - as_second now in
          if \<not> remaining > 0 then Err ''job deadline already expired''
          else Ok (min requested (if remaining \<le> int u32_max then nat remaining else u32_max)))"

definition sandbox_properties :: "string list" where
  "sandbox_properties =
     [''--property=NoNewPrivileges=yes'', ''--property=ProtectSystem=strict'', ''--property=ProtectHome=yes'',
      ''--property=PrivateTmp=yes'', ''--property=PrivateDevices=yes'', ''--property=ProtectKernelTunables=yes'',
      ''--property=ProtectKernelModules=yes'', ''--property=ProtectControlGroups=yes'',
      ''--property=RestrictSUIDSGID=yes'', ''--property=CapabilityBoundingSet='']"

definition unit_options ::
  "Config \<Rightarrow> JobId \<Rightarrow> Profile \<Rightarrow> bool \<Rightarrow> nat \<Rightarrow> string list \<Rightarrow> (string list, string) result" where
  "unit_options c jid profile deployment timeout references =
     rbind (rmap (\<lambda>r. rbind (ok_or ''no entry found for key'' (map_of (cf_credential_sources c) r)) (\<lambda>source.
              Ok (''--property=LoadCredential='' @ r @ '':'' @ source))) references) (\<lambda>credentials.
     Ok ([''--unit'', unit_name jid, ''--property=Type=exec'', ''--property=ExitType=cgroup'',
          ''--property=KillMode=control-group'', ''--property=SendSIGKILL=yes'',
          ''--property=RuntimeMaxSec='' @ nat_to_string timeout @ ''s'',
          ''--property=TasksMax='' @ nat_to_string (pf_tasks_max profile),
          ''--property=User='' @ pf_user profile,
          ''--property=StateDirectory=maxops-jobs/'' @ job_id_str jid,
          ''--property=LoadCredential=spec:'' @ spec_path c jid]
         @ (if deployment then [''--property=LoadCredential=deployment:'' @ deployment_spec_path c jid] else [])
         @ (case pf_memory_max_bytes profile of None \<Rightarrow> [] | Some bytes \<Rightarrow> [''--property=MemoryMax='' @ nat_to_string bytes])
         @ credentials
         @ (if pf_privileged profile then [] else sandbox_properties)))"

text \<open>The command line of \<open>systemd-run\<close>; \<open>deployment\<close> says whether a deployment specification exists.\<close>

definition launch_arguments ::
  "(timestamp \<Rightarrow> int) \<Rightarrow> timestamp \<Rightarrow> Config \<Rightarrow> JobId \<Rightarrow> ExecRunParams \<Rightarrow> bool \<Rightarrow> timestamp option \<Rightarrow>
   (string list, string) result" where
  "launch_arguments as_second now c jid params deployment deadline =
     rbind (ok_or ''no entry found for key'' (map_of (cf_profiles c) (er_profile params))) (\<lambda>profile.
     rbind (launch_timeout as_second now profile params deadline) (\<lambda>timeout.
     rbind (unit_options c jid profile deployment timeout (er_credential_refs params)) (\<lambda>options.
     Ok (options @ [''--no-block'', ''--'', cf_runner c, ''--credential'', ''spec'', ''--output-directory'',
                    path_join (cf_spool_root c) (job_id_str jid)]))))"

section \<open>Bounded output\<close>

text \<open>
  The loop over what the pipe delivers: a read error, or a chunk, empty at the end. The result is the
  file, and the numbers of bytes kept and discarded.
\<close>

fun copy_bounded ::
  "nat \<Rightarrow> string \<Rightarrow> nat \<Rightarrow> nat \<Rightarrow> (string, string) result list \<Rightarrow> (string \<times> nat \<times> nat, string) result" where
  "copy_bounded limit file written discarded [] = Ok (file, written, discarded)"
| "copy_bounded limit file written discarded (Inl e # reads) = Err e"
| "copy_bounded limit file written discarded (Inr chunk # reads) =
     (if chunk = [] then Ok (file, written, discarded)
      else
        let keep = min (limit - written) (length chunk) in
        copy_bounded limit (file @ take keep chunk) (written + keep) (discarded + (length chunk - keep)) reads)"

section \<open>The wrapper\<close>

record exit_status =
  xs_code :: "int option"
  xs_signal :: "int option"

definition status_success :: "exit_status \<Rightarrow> bool" where
  "status_success st \<longleftrightarrow> xs_code st = Some 0"

record child_process =
  cp_stdout :: "(string, string) result list"
  cp_stderr :: "(string, string) result list"
  cp_wait :: "(exit_status, string) result"

text \<open>What a run needs of its surroundings: directories, the environment, processes and files.\<close>

record runner_env =
  re_create_dir :: "string \<Rightarrow> (unit, string) result"
  re_var :: "string \<Rightarrow> string option"
  re_spawn :: "string \<Rightarrow> string list \<Rightarrow> (string \<times> string) list \<Rightarrow> string option \<Rightarrow> (child_process, string) result"
  re_file :: "string \<Rightarrow> string \<Rightarrow> (unit, string) result"
  re_now :: timestamp

definition runner_argv :: "RunnerSpec \<Rightarrow> (string \<times> string list, string) result" where
  "runner_argv spec =
     (case rn_command spec of
        Argv [] \<Rightarrow> Err ''empty argv''
      | Argv (program # arguments) \<Rightarrow> Ok (program, arguments)
      | Script script \<Rightarrow> Ok (rn_interpreter spec, [''-c'', script]))"

definition runner_environment :: "runner_env \<Rightarrow> RunnerSpec \<Rightarrow> ((string \<times> string) list, string) result" where
  "runner_environment e spec =
     (if rn_credential_refs spec \<noteq> [] \<or> rn_pass_credentials_directory spec
      then rbind (ok_or ''credential directory is unavailable'' (re_var e ''CREDENTIALS_DIRECTORY'')) (\<lambda>directory.
           Ok (btree_insert ''CREDENTIALS_DIRECTORY'' directory (rn_env spec)))
      else Ok (rn_env spec))"

definition bounded_output :: "runner_env \<Rightarrow> nat \<Rightarrow> string \<Rightarrow> (string, string) result list \<Rightarrow> (nat \<times> nat, string) result" where
  "bounded_output e limit path reads =
     rbind (copy_bounded limit [] 0 0 reads) (\<lambda>(file, written, discarded).
     rbind (re_file e path file) (\<lambda>_. Ok (written, discarded)))"

definition run_spec :: "runner_env \<Rightarrow> RunnerSpec \<Rightarrow> string \<Rightarrow> (RunnerResult, string) result" where
  "run_spec e spec output_directory =
     (if \<not> rn_output_limit_bytes spec > 0 then Err ''output limit must be positive''
      else
        rbind (re_create_dir e output_directory) (\<lambda>_.
        rbind (runner_argv spec) (\<lambda>(program, arguments).
        rbind (runner_environment e spec) (\<lambda>env.
        rbind (map_err (\<lambda>m. ''start job command: '' @ m) (re_spawn e program arguments env (rn_cwd spec))) (\<lambda>child.
        rbind (map_err (\<lambda>m. ''wait for job command: '' @ m) (cp_wait child)) (\<lambda>status.
        rbind (bounded_output e (rn_output_limit_bytes spec) (path_join output_directory ''stdout.bin'') (cp_stdout child)) (\<lambda>(ob, od).
        rbind (bounded_output e (rn_output_limit_bytes spec) (path_join output_directory ''stderr.bin'') (cp_stderr child)) (\<lambda>(eb, ed).
        Ok \<lparr>rr_success = status_success status, rr_exit_code = xs_code status, rr_signal = xs_signal status,
            rr_stdout_bytes = ob, rr_stderr_bytes = eb, rr_stdout_discarded_bytes = od, rr_stderr_discarded_bytes = ed,
            rr_completed_at = re_now e\<rparr>))))))))"

section \<open>Completion records\<close>

text \<open>
  A file is replaced through a temporary file. The operations on the file system, one at a time; a
  write may be cut short by a crash.
\<close>

datatype file_op = CreateFile string | WriteAll string string | SyncFile string | RenameFile string string | SyncDirectory string

type_synonym files = "string \<rightharpoonup> string"

fun file_step :: "file_op \<Rightarrow> files \<Rightarrow> files" where
  "file_step (CreateFile p) fs = fs(p \<mapsto> [])"
| "file_step (WriteAll p bytes) fs = fs(p \<mapsto> bytes)"
| "file_step (SyncFile p) fs = fs"
| "file_step (RenameFile p q) fs = (case fs p of None \<Rightarrow> fs | Some bytes \<Rightarrow> (fs(q \<mapsto> bytes))(p := None))"
| "file_step (SyncDirectory p) fs = fs"

text \<open>The operations before a crash; the interrupted one leaves the first \<open>torn\<close> bytes of a write.\<close>

definition crash_step :: "nat \<Rightarrow> file_op \<Rightarrow> files \<Rightarrow> files" where
  "crash_step torn op fs = (case op of WriteAll p bytes \<Rightarrow> fs(p \<mapsto> take torn bytes) | _ \<Rightarrow> fs)"

definition crashed_files :: "nat \<Rightarrow> nat \<Rightarrow> file_op list \<Rightarrow> files \<Rightarrow> files" where
  "crashed_files n torn ops fs =
     (let fs' = fold file_step (take n ops) fs in
      if n < length ops then crash_step torn (ops ! n) fs' else fs')"

text \<open>\<open>Path::with_extension\<close> on a path whose file name has an extension.\<close>

definition with_extension :: "string \<Rightarrow> string \<Rightarrow> string" where
  "with_extension path extension =
     (case rsplit_once_str ''.'' path of None \<Rightarrow> path @ ''.'' @ extension | Some (stem, _) \<Rightarrow> stem @ ''.'' @ extension)"

definition write_result_atomic :: "string \<Rightarrow> string \<Rightarrow> string \<Rightarrow> file_op list" where
  "write_result_atomic parent path bytes =
     (let temporary = with_extension path ''json.tmp'' in
      [CreateFile temporary, WriteAll temporary bytes, SyncFile temporary, RenameFile temporary path, SyncDirectory parent])"

definition persist_runner_spec :: "Config \<Rightarrow> JobId \<Rightarrow> string \<Rightarrow> file_op list" where
  "persist_runner_spec c jid bytes =
     (let path = spec_path c jid; temporary = with_extension path ''json.tmp'' in
      [CreateFile temporary, WriteAll temporary bytes, SyncFile temporary, RenameFile temporary path])"

text \<open>The exit code of the wrapper, when it has one: \<open>None\<close> when it fails with an error.\<close>

definition job_runner_main ::
  "runner_env \<Rightarrow> (string \<Rightarrow> (RunnerSpec, string) result) \<Rightarrow> string option \<Rightarrow> string option \<Rightarrow> string \<Rightarrow>
   (RunnerResult \<times> int, string) result" where
  "job_runner_main e read_spec spec credential output_directory =
     rbind (case (spec, credential) of
              (Some path, None) \<Rightarrow> Ok path
            | (None, Some name) \<Rightarrow>
                rbind (ok_or ''missing CREDENTIALS_DIRECTORY'' (re_var e ''CREDENTIALS_DIRECTORY'')) (\<lambda>directory.
                Ok (path_join directory name))
            | _ \<Rightarrow> Err ''one spec source is required'') (\<lambda>path.
     rbind (read_spec path) (\<lambda>spec.
     rbind (run_spec e spec output_directory) (\<lambda>r.
     Ok (r, if rr_success r then 0 else (case rr_exit_code r of None \<Rightarrow> 1 | Some code \<Rightarrow> code)))))"

end
