(* ===== verification/Job_Runner_Facts.thy ===== *)
theory Job_Runner_Facts
  imports Job_Runner "HOL-Library.Sublist"
begin

text \<open>What a profile guarantees of the units it launches, and the wrapper of the results it leaves.\<close>

section \<open>Output\<close>

text \<open>What a pipe delivers before its end.\<close>

definition delivered :: "(string, string) result list \<Rightarrow> string" where
  "delivered reads = concat (map projr (takeWhile (\<lambda>r. r \<noteq> Inr []) reads))"

lemma copy_bounded_delivered:
  assumes "copy_bounded limit kept (length kept) discarded reads = Ok (content, written, lost)" and "length kept \<le> limit"
  shows "content = kept @ take (limit - length kept) (delivered reads) \<and> written = length content
    \<and> written + lost = length kept + discarded + length (delivered reads)"
  using assms
proof (induction reads arbitrary: kept discarded)
  case (Cons r reads)
  show ?case
  proof (cases "\<exists>chunk. r = Inr chunk \<and> chunk \<noteq> []")
    case False
    with Cons.prems show ?thesis by (cases r) (auto simp: delivered_def)
  next
    case True
    then obtain chunk where r: "r = Inr chunk" "chunk \<noteq> []" by blast
    let ?kept = "kept @ take (min (limit - length kept) (length chunk)) chunk"
    have "copy_bounded limit ?kept (length ?kept) (discarded + (length chunk - min (limit - length kept) (length chunk))) reads
        = Ok (content, written, lost)"
      using Cons.prems r by (simp add: Let_def)
    moreover have "length ?kept \<le> limit" using Cons.prems(2) by simp
    ultimately have ih: "content = ?kept @ take (limit - length ?kept) (delivered reads)" "written = length content"
      "written + lost = length ?kept + (discarded + (length chunk - min (limit - length kept) (length chunk))) + length (delivered reads)"
      using Cons.IH by blast+
    have d: "delivered (r # reads) = chunk @ delivered reads" using r by (simp add: delivered_def)
    show ?thesis
    proof (cases "length chunk \<le> limit - length kept")
      case True
      with ih d show ?thesis by (simp add: min_def)
    next
      case False
      with ih d show ?thesis by (simp add: min_def)
    qed
  qed
qed (simp add: delivered_def)

section \<open>Units\<close>

text \<open>An option of a unit that sets a property.\<close>

abbreviation sets :: "string \<Rightarrow> string \<Rightarrow> bool" where
  "sets property option \<equiv> prefix (''--property='' @ property @ ''='') option"

lemma list_all2_member: "list_all2 P xs ys \<Longrightarrow> y \<in> set ys \<Longrightarrow> \<exists>x \<in> set xs. P x y"
  by (induction rule: list_all2_induct) auto

lemma credential_options:
  assumes "rmap (\<lambda>r. rbind (ok_or e (m r)) (\<lambda>source. Ok (''--property=LoadCredential='' @ r @ '':'' @ source))) references = Ok credentials"
    and "opt \<in> set credentials"
  shows "\<exists>r source. r \<in> set references \<and> m r = Some source \<and> opt = ''--property=LoadCredential='' @ r @ '':'' @ source"
proof -
  from assms(1) have all: "list_all2 (\<lambda>r y. rbind (ok_or e (m r)) (\<lambda>source. Ok (''--property=LoadCredential='' @ r @ '':'' @ source)) = Ok y)
      references credentials" unfolding rmap_eq_Inr .
  obtain r where r: "r \<in> set references"
    and y: "rbind (ok_or e (m r)) (\<lambda>source. Ok (''--property=LoadCredential='' @ r @ '':'' @ source)) = Ok opt"
    by (rule bexE[OF list_all2_member[OF all assms(2)]])
  from y obtain source where "m r = Some source" "opt = ''--property=LoadCredential='' @ r @ '':'' @ source"
    by (cases "m r") (auto simp: rbind_def ok_or_def)
  with r show ?thesis by blast
qed

lemma unit_options_set:
  assumes "unit_options c jid profile deployment timeout references = Ok options"
  shows "opt \<in> set options \<Longrightarrow> sets ''User'' opt \<Longrightarrow> opt = ''--property=User='' @ pf_user profile"
    and "opt \<in> set options \<Longrightarrow> sets ''RuntimeMaxSec'' opt \<Longrightarrow> opt = ''--property=RuntimeMaxSec='' @ nat_to_string timeout @ ''s''"
    and "''--property=User='' @ pf_user profile \<in> set options"
    and "''--property=RuntimeMaxSec='' @ nat_to_string timeout @ ''s'' \<in> set options"
    and "\<not> pf_privileged profile \<Longrightarrow> set sandbox_properties \<subseteq> set options"
proof -
  let ?first = "[''--unit'', unit_name jid, ''--property=Type=exec'', ''--property=ExitType=cgroup'',
    ''--property=KillMode=control-group'', ''--property=SendSIGKILL=yes'',
    ''--property=RuntimeMaxSec='' @ nat_to_string timeout @ ''s'',
    ''--property=TasksMax='' @ nat_to_string (pf_tasks_max profile),
    ''--property=User='' @ pf_user profile,
    ''--property=StateDirectory=maxops-jobs/'' @ job_id_str jid,
    ''--property=LoadCredential=spec:'' @ spec_path c jid]"
  let ?deployment = "if deployment then [''--property=LoadCredential=deployment:'' @ deployment_spec_path c jid] else []"
  let ?memory = "case pf_memory_max_bytes profile of None \<Rightarrow> [] | Some bytes \<Rightarrow> [''--property=MemoryMax='' @ nat_to_string bytes]"
  from assms obtain credentials where cs: "rmap (\<lambda>r. rbind (ok_or ''no entry found for key'' (map_of (cf_credential_sources c) r)) (\<lambda>source.
        Ok (''--property=LoadCredential='' @ r @ '':'' @ source))) references = Ok credentials"
    and o: "options = ?first @ ?deployment @ ?memory @ credentials @ (if pf_privileged profile then [] else sandbox_properties)"
    unfolding unit_options_def rbind_def by (auto simp del: append_Cons split: sum.splits)
  have load: "prefix ''--property=LoadCredential='' opt" if "opt \<in> set credentials" for opt
    using credential_options[OF cs that] by auto
  have other: "list_all Q (?deployment @ ?memory @ credentials @ (if pf_privileged profile then [] else sandbox_properties))"
    if "Q = (\<lambda>opt. \<not> sets ''User'' opt) \<or> Q = (\<lambda>opt. \<not> sets ''RuntimeMaxSec'' opt)" for Q
  proof -
    have "list_all Q credentials"
      using load that unfolding list_all_iff by (auto simp: prefix_def)
    moreover have "list_all Q ?deployment" "list_all Q sandbox_properties"
      using that by (auto simp: sandbox_properties_def)
    moreover have "list_all Q ?memory" using that by (cases "pf_memory_max_bytes profile") auto
    ultimately show ?thesis by simp
  qed
  have split: "opt \<in> set ?first" if "opt \<in> set options" "sets ''User'' opt \<or> sets ''RuntimeMaxSec'' opt" for opt
    using that other unfolding o set_append list_all_iff by blast
  have mem: "x \<in> set xs \<Longrightarrow> list_all P xs \<Longrightarrow> P x" for P xs and x :: string by (simp add: list_all_iff)
  show "''--property=User='' @ pf_user profile \<in> set options"
    "''--property=RuntimeMaxSec='' @ nat_to_string timeout @ ''s'' \<in> set options"
    unfolding o by simp_all
  show "set sandbox_properties \<subseteq> set options" if "\<not> pf_privileged profile"
    unfolding o using that by (intro subsetI) simp
  show "opt = ''--property=User='' @ pf_user profile" if "opt \<in> set options" "sets ''User'' opt"
    using mem[OF split[OF that(1)], of "\<lambda>opt. sets ''User'' opt \<longrightarrow> opt = ''--property=User='' @ pf_user profile"] that(2)
    by (simp add: unit_name_def)
  show "opt = ''--property=RuntimeMaxSec='' @ nat_to_string timeout @ ''s''" if "opt \<in> set options" "sets ''RuntimeMaxSec'' opt"
    using mem[OF split[OF that(1)], of "\<lambda>opt. sets ''RuntimeMaxSec'' opt \<longrightarrow> opt = ''--property=RuntimeMaxSec='' @ nat_to_string timeout @ ''s''"] that(2)
    by (simp add: unit_name_def)
qed

lemma ensure_all_iff: "ensure_all checks = Ok () \<longleftrightarrow> list_all fst checks"
  by (induction checks) (auto split: if_splits)

text \<open>A validated configuration has a source for every credential that a profile allows.\<close>

lemma validated_credentials:
  assumes "validate_config c = Ok ()" and "map_of (cf_profiles c) name = Some profile" and "r \<in> set (pf_allowed_credentials profile)"
  shows "\<exists>source. map_of (cf_credential_sources c) r = Some source"
proof -
  have "(name, profile) \<in> set (cf_profiles c)" using assms(2) by (rule map_of_SomeD)
  with assms(1) have "list_all fst (check_profile c (name, profile))"
    unfolding validate_config_def ensure_all_iff list_all_append by (auto simp: list_all_iff)
  with assms(3) show ?thesis by (auto simp: check_profile_def list_all_iff contains_key_def)
qed

lemma unit_options_total:
  assumes "\<And>r. r \<in> set references \<Longrightarrow> \<exists>source. map_of (cf_credential_sources c) r = Some source"
  shows "\<exists>options. unit_options c jid profile deployment timeout references = Ok options"
proof -
  have "rmap (\<lambda>r. rbind (ok_or ''no entry found for key'' (map_of (cf_credential_sources c) r)) (\<lambda>source.
      Ok (''--property=LoadCredential='' @ r @ '':'' @ source))) references
    = Ok (map (\<lambda>r. ''--property=LoadCredential='' @ r @ '':'' @ the (map_of (cf_credential_sources c) r)) references)"
    by (rule rmap_Ok) (use assms in \<open>force simp: ok_or_def rbind_def\<close>)
  then show ?thesis by (simp add: unit_options_def rbind_def)
qed

lemma launch_timeout_bounds:
  assumes "launch_timeout as_second now profile params deadline = Ok timeout"
  shows "er_timeout_seconds params = None \<Longrightarrow> timeout \<le> pf_timeout_seconds profile"
    and "er_timeout_seconds params = Some t \<Longrightarrow> timeout \<le> t"
    and "deadline = Some d \<Longrightarrow> int timeout \<le> as_second d - as_second now"
  using assms by (auto simp: launch_timeout_def Let_def split: option.splits if_splits)

lemma launch_arguments_ok:
  assumes "launch_arguments as_second now c jid params deployment deadline = Ok arguments"
  obtains profile timeout options where "map_of (cf_profiles c) (er_profile params) = Some profile"
    "launch_timeout as_second now profile params deadline = Ok timeout"
    "unit_options c jid profile deployment timeout (er_credential_refs params) = Ok options"
    "arguments = options @ [''--no-block'', ''--'', cf_runner c, ''--credential'', ''spec'', ''--output-directory'',
       path_join (cf_spool_root c) (job_id_str jid)]"
  using assms unfolding launch_arguments_def
  by (auto simp: rbind_def ok_or_def split: option.splits sum.splits)

lemma cwd_permitted_ok:
  assumes "cwd_permitted canonicalize profile (Some cwd) = Ok ()"
  shows "\<exists>canonical. canonicalize cwd = Some canonical
      \<and> (\<exists>base \<in> set (pf_working_roots profile). \<exists>b. canonicalize base = Some b \<and> path_starts_with canonical b)"
proof -
  from assms obtain canonical where c: "canonicalize cwd = Some canonical"
    and "\<exists>b \<in> set (List.map_filter canonicalize (pf_working_roots profile)). path_starts_with canonical b"
    by (auto simp: cwd_permitted_def list_ex_iff split: if_splits option.splits)
  then obtain base b where "base \<in> set (pf_working_roots profile)" "canonicalize base = Some b" "path_starts_with canonical b"
    by (auto simp: map_filter_def)
  with c show ?thesis by blast
qed

lemma accepted_spec:
  assumes "prepare_runner_spec canonicalize c params = Ok spec" and "map_of (cf_profiles c) (er_profile params) = Some profile"
  shows "er_timeout_seconds params = Some t \<Longrightarrow> t \<le> pf_timeout_seconds profile"
    and "set (rn_credential_refs spec) \<subseteq> set (pf_allowed_credentials profile)"
    and "rn_output_limit_bytes spec = pf_output_limit_bytes profile"
    and "rn_cwd spec = Some cwd \<Longrightarrow> \<exists>canonical. canonicalize cwd = Some canonical
      \<and> (\<exists>base \<in> set (pf_working_roots profile). \<exists>b. canonicalize base = Some b \<and> path_starts_with canonical b)"
  using assms cwd_permitted_ok[of canonicalize profile cwd]
  by (auto simp: prepare_runner_spec_def rbind_def ok_or_def list_all_iff split: sum.splits if_splits)

section \<open>Runs\<close>

lemma bounded_output_ok:
  assumes "bounded_output e limit path reads = Ok (kept, lost)"
  shows "re_file e path (take limit (delivered reads)) = Ok () \<and> kept \<le> limit \<and> kept + lost = length (delivered reads)"
proof -
  from assms obtain content where c: "copy_bounded limit [] 0 0 reads = Ok (content, kept, lost)" and f: "re_file e path content = Ok ()"
    by (auto simp: bounded_output_def rbind_def split: sum.splits prod.splits)
  from copy_bounded_delivered[of limit "[]" 0 reads content kept lost] c f show ?thesis by auto
qed

lemma run_spec_ok:
  assumes "run_spec e spec directory = Ok r"
  obtains program arguments env child status ob od eb ed where
    "re_spawn e program arguments env (rn_cwd spec) = Ok child" "cp_wait child = Ok status"
    "bounded_output e (rn_output_limit_bytes spec) (path_join directory ''stdout.bin'') (cp_stdout child) = Ok (ob, od)"
    "bounded_output e (rn_output_limit_bytes spec) (path_join directory ''stderr.bin'') (cp_stderr child) = Ok (eb, ed)"
    "r = \<lparr>rr_success = status_success status, rr_exit_code = xs_code status, rr_signal = xs_signal status,
      rr_stdout_bytes = ob, rr_stderr_bytes = eb, rr_stdout_discarded_bytes = od, rr_stderr_discarded_bytes = ed,
      rr_completed_at = re_now e\<rparr>"
  using assms unfolding run_spec_def
  by (auto simp: rbind_def map_err_def split: if_splits sum.splits prod.splits)

section \<open>Files\<close>

lemma rsplit_dot: "rsplit_once_str ''.'' path = Some (a, b) \<Longrightarrow> path = a @ CHR ''.'' # b \<and> CHR ''.'' \<notin> set b"
proof (induction path arbitrary: a)
  case (Cons c cs)
  have none: "rsplit_once_str ''.'' xs = None \<Longrightarrow> CHR ''.'' \<notin> set xs" for xs
    by (induction xs) (auto simp: starts_with_def split: option.splits if_splits)
  from Cons show ?case
    by (auto simp: starts_with_def split: option.splits if_splits dest: none)
qed simp

lemma with_extension_other: "with_extension path ''json.tmp'' \<noteq> path"
proof (cases "rsplit_once_str ''.'' path")
  case (Some p)
  then obtain a b where p: "rsplit_once_str ''.'' path = Some (a, b)" by (cases p) auto
  have "with_extension path ''json.tmp'' = a @ CHR ''.'' # ''json.tmp''" by (simp add: with_extension_def p)
  moreover have "path = a @ CHR ''.'' # b" "b \<noteq> ''json.tmp''" using rsplit_dot[OF p] by auto
  ultimately show ?thesis by simp
qed (simp add: with_extension_def)

text \<open>A file written through a temporary one has its old content or all of the new one, wherever the writer stops.\<close>

lemma replace_atomic:
  assumes "ops = [CreateFile tmp, WriteAll tmp bytes, SyncFile tmp, RenameFile tmp path] @ after"
    and "after = [] \<or> after = [SyncDirectory parent]" and "tmp \<noteq> path"
  shows "crashed_files n torn ops fs path = (if n \<le> 3 then fs path else Some bytes)"
    and "q \<noteq> tmp \<Longrightarrow> q \<noteq> path \<Longrightarrow> crashed_files n torn ops fs q = fs q"
proof -
  have n: "n = 0 \<or> n = 1 \<or> n = 2 \<or> n = 3 \<or> n = 4 \<or> 5 \<le> n" by arith
  show "crashed_files n torn ops fs path = (if n \<le> 3 then fs path else Some bytes)"
    "q \<noteq> tmp \<Longrightarrow> q \<noteq> path \<Longrightarrow> crashed_files n torn ops fs q = fs q"
    using n assms by (auto simp: crashed_files_def crash_step_def numeral_2_eq_2 numeral_3_eq_3 eval_nat_numeral)
qed

end
