(* ===== verification/Workspace_Files.thy ===== *)
theory Workspace_Files
  imports Rust_Path Proto_Workspaces
begin

text \<open>
  The files of workspaces (\<open>maxops-executor/src/workspace.rs\<close>): how a path of a request becomes a
  path below a revision, how a batch of edits is applied, and how a revision is copied.
\<close>

section \<open>A tree of files\<close>

text \<open>
  The tree below the workspace root: regular files with content and mode, symbolic links, directories
  and special files. A path is its list of components from that root.
\<close>

datatype node = FileNode string nat | LinkNode string | DirNode "(string \<times> node) list" | SpecialNode

fun node_at :: "node \<Rightarrow> string list \<Rightarrow> node option" where
  "node_at n [] = Some n"
| "node_at (DirNode es) (c # cs) = (case map_of es c of None \<Rightarrow> None | Some n \<Rightarrow> node_at n cs)"
| "node_at _ (c # cs) = None"

definition is_link :: "node option \<Rightarrow> bool" where
  "is_link n \<longleftrightarrow> (case n of Some (LinkNode _) \<Rightarrow> True | _ \<Rightarrow> False)"

definition is_directory :: "node option \<Rightarrow> bool" where
  "is_directory n \<longleftrightarrow> (case n of Some (DirNode _) \<Rightarrow> True | _ \<Rightarrow> False)"

definition is_file :: "node option \<Rightarrow> bool" where
  "is_file n \<longleftrightarrow> (case n of Some (FileNode _ _) \<Rightarrow> True | _ \<Rightarrow> False)"

text \<open>The operating system follows a link at an inner component, to wherever it points.\<close>

definition through_link :: "node \<Rightarrow> string list \<Rightarrow> bool" where
  "through_link root p \<longleftrightarrow> list_ex (\<lambda>k. is_link (node_at root (take k p))) [0..<length p]"

text \<open>\<open>Ok None\<close> is the error kind \<open>NotFound\<close>.\<close>

fun lstat_node :: "node \<Rightarrow> string list \<Rightarrow> (node option, string) result" where
  "lstat_node n [] = Ok (Some n)"
| "lstat_node (DirNode es) (c # cs) = (case map_of es c of None \<Rightarrow> Ok None | Some n \<Rightarrow> lstat_node n cs)"
| "lstat_node _ (c # cs) = Err ''Not a directory (os error 20)''"

fun entries_set :: "string \<Rightarrow> node option \<Rightarrow> (string \<times> node) list \<Rightarrow> (string \<times> node) list" where
  "entries_set c None es = filter (\<lambda>(k, _). k \<noteq> c) es"
| "entries_set c (Some n) es = (c, n) # filter (\<lambda>(k, _). k \<noteq> c) es"

fun put_node :: "string list \<Rightarrow> node option \<Rightarrow> node \<Rightarrow> node" where
  "put_node [] v n = n"
| "put_node [c] v (DirNode es) = DirNode (entries_set c v es)"
| "put_node (c # d # cs) v (DirNode es) =
     (case map_of es c of
        None \<Rightarrow> DirNode es
      | Some n \<Rightarrow> DirNode (entries_set c (Some (put_node (d # cs) v n)) es))"
| "put_node (c # cs) v n = n"

section \<open>Operations\<close>

text \<open>
  Every operation may fail for a reason of the file system (the head of \<open>ts_faults\<close>). An operation on
  a path that leads through a link acts outside of the tree: it is recorded, and its effect there is
  not modelled.
\<close>

record tree_state =
  ts_root :: node
  ts_faults :: "bool list"
  ts_escapes :: "string list list"

type_synonym 'a tact = "tree_state \<Rightarrow> tree_state \<times> ('a, string) result"

definition tret :: "'a \<Rightarrow> 'a tact" where
  "tret v = (\<lambda>st. (st, Ok v))"

definition tfail :: "string \<Rightarrow> 'a tact" where
  "tfail e = (\<lambda>st. (st, Err e))"

definition tbind :: "'a tact \<Rightarrow> ('a \<Rightarrow> 'b tact) \<Rightarrow> 'b tact" where
  "tbind m f = (\<lambda>st. case m st of (st', Inl e) \<Rightarrow> (st', Inl e) | (st', Inr v) \<Rightarrow> f v st')"

definition ttry :: "'a tact \<Rightarrow> (('a, string) result \<Rightarrow> 'b tact) \<Rightarrow> 'b tact" where
  "ttry m f = (\<lambda>st. case m st of (st', r) \<Rightarrow> f r st')"

definition twrap :: "string \<Rightarrow> 'a tact \<Rightarrow> 'a tact" where
  "twrap context m = (\<lambda>st. case m st of (st', r) \<Rightarrow> (st', map_err (\<lambda>e. context @ '': '' @ e) r))"

definition file_action :: "string list \<Rightarrow> (node \<Rightarrow> (node \<times> 'a, string) result) \<Rightarrow> 'a tact" where
  "file_action p f = (\<lambda>st.
     if through_link (ts_root st) p then (st\<lparr>ts_escapes := p # ts_escapes st\<rparr>, Err ''outside of the tree'')
     else
       let st' = st\<lparr>ts_faults := tl (ts_faults st)\<rparr> in
       if ts_faults st \<noteq> [] \<and> hd (ts_faults st) then (st', Err ''Input/output error (os error 5)'')
       else case f (ts_root st) of
         Inl e \<Rightarrow> (st', Err e)
       | Inr (root', v) \<Rightarrow> (st'\<lparr>ts_root := root'\<rparr>, Ok v))"

definition fs_lstat :: "string list \<Rightarrow> node option tact" where
  "fs_lstat p = file_action p (\<lambda>root. rbind (lstat_node root p) (\<lambda>n. Ok (root, n)))"

definition parent_is_directory :: "node \<Rightarrow> string list \<Rightarrow> bool" where
  "parent_is_directory root p \<longleftrightarrow> p \<noteq> [] \<and> is_directory (node_at root (butlast p))"

definition fs_create :: "string list \<Rightarrow> node \<Rightarrow> unit tact" where
  "fs_create p n = file_action p (\<lambda>root.
     if \<not> parent_is_directory root p then Err ''No such file or directory (os error 2)''
     else if node_at root p \<noteq> None then Err ''File exists (os error 17)''
     else Ok (put_node p (Some n) root, ()))"

definition fs_write :: "string list \<Rightarrow> (string \<Rightarrow> nat \<Rightarrow> node) \<Rightarrow> unit tact" where
  "fs_write p f = file_action p (\<lambda>root.
     case node_at root p of
       Some (FileNode content mode) \<Rightarrow> Ok (put_node p (Some (f content mode)) root, ())
     | _ \<Rightarrow> Err ''No such file or directory (os error 2)'')"

definition fs_remove_file :: "string list \<Rightarrow> unit tact" where
  "fs_remove_file p = file_action p (\<lambda>root.
     case node_at root p of
       None \<Rightarrow> Err ''No such file or directory (os error 2)''
     | Some (DirNode _) \<Rightarrow> Err ''Is a directory (os error 21)''
     | Some _ \<Rightarrow> Ok (put_node p None root, ()))"

definition fs_remove_dir_all :: "string list \<Rightarrow> unit tact" where
  "fs_remove_dir_all p = file_action p (\<lambda>root.
     case node_at root p of
       Some (DirNode _) \<Rightarrow> Ok (put_node p None root, ())
     | _ \<Rightarrow> Err ''No such file or directory (os error 2)'')"

definition fs_sync :: "string list \<Rightarrow> unit tact" where
  "fs_sync p = file_action p (\<lambda>root. Ok (root, ()))"

definition fs_open :: "string list \<Rightarrow> unit tact" where
  "fs_open p = file_action p (\<lambda>root.
     if node_at root p = None then Err ''No such file or directory (os error 2)'' else Ok (root, ()))"

text \<open>\<open>create_dir_all\<close> of a directory that exists.\<close>

definition fs_create_dir_all :: "string list \<Rightarrow> unit tact" where
  "fs_create_dir_all p = file_action p (\<lambda>root.
     if is_directory (node_at root p) then Ok (root, ()) else Err ''Not a directory (os error 20)'')"

text \<open>\<open>rename\<close> of a file over a file or into a free name, of a directory into a free name.\<close>

definition fs_rename :: "string list \<Rightarrow> string list \<Rightarrow> unit tact" where
  "fs_rename p q = (\<lambda>st.
     if through_link (ts_root st) p then (st\<lparr>ts_escapes := p # ts_escapes st\<rparr>, Err ''outside of the tree'')
     else file_action q (\<lambda>root.
       case node_at root p of
         None \<Rightarrow> Err ''No such file or directory (os error 2)''
       | Some n \<Rightarrow>
           if \<not> parent_is_directory root q then Err ''No such file or directory (os error 2)''
           else if node_at root q = None \<or> is_file (Some n) \<and> is_file (node_at root q)
           then Ok (put_node q (Some n) (put_node p None root), ())
           else Err ''File exists (os error 17)'') st)"

section \<open>Safe paths\<close>

fun safe_parents :: "bool \<Rightarrow> string list \<Rightarrow> string list \<Rightarrow> unit tact" where
  "safe_parents create_parents current [] = tret ()"
| "safe_parents create_parents current (c # cs) =
     ttry (fs_lstat (current @ [c])) (\<lambda>r.
     case r of
       Inr (Some n) \<Rightarrow>
         if is_directory (Some n) then safe_parents create_parents (current @ [c]) cs
         else tfail ''workspace ancestor is not a directory''
     | Inr None \<Rightarrow>
         if create_parents
         then tbind (fs_create (current @ [c]) (DirNode [])) (\<lambda>_. safe_parents create_parents (current @ [c]) cs)
         else tfail ''No such file or directory (os error 2)''
     | Inl e \<Rightarrow> tfail e)"

definition safe_components :: "string \<Rightarrow> (string list, string) result" where
  "safe_components relative =
     (if path_is_absolute relative then Err ''workspace path must be relative''
      else
        let components = path_parts relative in
        if components = [] then Err ''workspace path must not be empty''
        else if \<not> list_all normal_part components then Err ''workspace path contains traversal or platform components''
        else if ''.git'' \<in> set components then Err ''workspace path may not modify Git administrative names''
        else Ok components)"

definition safe_target :: "string list \<Rightarrow> string \<Rightarrow> bool \<Rightarrow> (string list) tact" where
  "safe_target root relative create_parents =
     (case safe_components relative of
        Inl e \<Rightarrow> tfail e
      | Inr components \<Rightarrow>
          tbind (safe_parents create_parents root (butlast components)) (\<lambda>_.
          let current = root @ components in
          ttry (fs_lstat current) (\<lambda>r.
          case r of
            Inr (Some n) \<Rightarrow> if is_file (Some n) then tret current else tfail ''workspace target is not a regular file''
          | _ \<Rightarrow> tret current)))"

definition safe_existing_file :: "string list \<Rightarrow> string \<Rightarrow> (string list) tact" where
  "safe_existing_file root relative =
     tbind (safe_target root relative False) (\<lambda>path.
     tbind (fs_lstat path) (\<lambda>n.
     if n = None then tfail ''No such file or directory (os error 2)''
     else if is_file n then tret path else tfail ''workspace path is not a regular file''))"

section \<open>Edits\<close>

definition temporary_path :: "string \<Rightarrow> string list \<Rightarrow> string list" where
  "temporary_path uuid path = butlast path @ [''.maxops-'' @ uuid @ ''.tmp'']"

text \<open>The mode of a new file is \<open>0o644\<close>; one that is replaced keeps its own.\<close>

definition edit_mode :: "(node option, string) result \<Rightarrow> nat" where
  "edit_mode r = (case r of Inr (Some (FileNode _ mode)) \<Rightarrow> mode | _ \<Rightarrow> 420)"

text \<open>
  One edit; \<open>uuid\<close> is the fresh name of its temporary file, and \<open>used\<close> the temporary paths so far. A
  file is created empty, with mode \<open>0o666\<close> less the process mask, and then written.
\<close>

definition apply_edit :: "string list \<Rightarrow> string \<Rightarrow> string list set \<Rightarrow> WorkspaceEdit \<Rightarrow> unit tact" where
  "apply_edit root uuid used edit =
     tbind (safe_target root (we_path edit) (we_content edit \<noteq> None)) (\<lambda>path.
     case we_content edit of
       Some content \<Rightarrow>
         let temporary = temporary_path uuid path in
         if temporary \<in> used then tfail ''temporary path collision''
         else
           ttry (fs_lstat path) (\<lambda>metadata.
           tbind (twrap ''create temporary workspace edit'' (fs_create temporary (FileNode [] 438))) (\<lambda>_.
           tbind (twrap ''write temporary workspace edit'' (fs_write temporary (\<lambda>_ mode. FileNode content mode))) (\<lambda>_.
           tbind (twrap ''sync temporary workspace edit'' (fs_sync temporary)) (\<lambda>_.
           tbind (twrap ''set workspace edit permissions''
             (fs_write temporary (\<lambda>bytes _. FileNode bytes (edit_mode metadata)))) (\<lambda>_.
           tbind (twrap ''publish workspace file edit'' (fs_rename temporary path)) (\<lambda>_.
           tbind (twrap ''open workspace edit parent for sync'' (fs_open (butlast path))) (\<lambda>_.
           twrap ''sync workspace edit parent'' (fs_sync (butlast path)))))))))
     | None \<Rightarrow>
         tbind (twrap ''workspace delete target does not exist'' (fs_lstat path)) (\<lambda>n.
         if n = None then tfail ''workspace delete target does not exist''
         else if is_file n then fs_remove_file path
         else tfail ''workspace delete target is not a regular file''))"

fun apply_edits :: "string list \<Rightarrow> string list set \<Rightarrow> (WorkspaceEdit \<times> string) list \<Rightarrow> unit tact" where
  "apply_edits root used [] = tret ()"
| "apply_edits root used ((edit, uuid) # edits) =
     tbind (apply_edit root uuid used edit) (\<lambda>_.
     apply_edits root
       (if we_content edit = None then used
        else insert (temporary_path uuid (root @ path_parts (we_path edit))) used) edits)"

section \<open>Revisions\<close>

text \<open>
  \<open>copy_path\<close>: the walk over what the source holds. \<open>std::fs::copy\<close> is one operation here; a partial
  copy would lie below a temporary directory.
\<close>

fun copy_node :: "node \<Rightarrow> string list \<Rightarrow> string list \<Rightarrow> unit tact"
and copy_entries :: "(string \<times> node) list \<Rightarrow> string list \<Rightarrow> string list \<Rightarrow> unit tact" where
  "copy_node (DirNode es) source destination =
     tbind (fs_lstat source) (\<lambda>_.
     tbind (twrap ''create copied workspace directory'' (fs_create destination (DirNode []))) (\<lambda>_.
     copy_entries es source destination))"
| "copy_node (FileNode content mode) source destination =
     tbind (fs_lstat source) (\<lambda>_. twrap ''copy workspace regular file'' (fs_create destination (FileNode content mode)))"
| "copy_node (LinkNode target) source destination =
     tbind (fs_lstat source) (\<lambda>_. twrap ''copy workspace symbolic link'' (fs_create destination (LinkNode target)))"
| "copy_node SpecialNode source destination =
     tbind (fs_lstat source) (\<lambda>_. tfail ''workspace contains an unsupported special file'')"
| "copy_entries [] source destination = tret ()"
| "copy_entries ((name, n) # es) source destination =
     tbind (copy_node n (source @ [name]) (destination @ [name])) (\<lambda>_. copy_entries es source destination)"

definition copy_path :: "string list \<Rightarrow> string list \<Rightarrow> unit tact" where
  "copy_path source destination = (\<lambda>st.
     case node_at (ts_root st) source of
       None \<Rightarrow> (st, Err ''No such file or directory (os error 2)'')
     | Some n \<Rightarrow> copy_node n source destination st)"

text \<open>
  \<open>revisions\<close> is the directory that holds the revisions of a workspace. The directories of revisions
  are made by the executor, so \<open>is_dir\<close> and \<open>exists\<close> meet no link there; their parent holds the source.
\<close>

definition copy_revision :: "string list \<Rightarrow> nat \<Rightarrow> nat \<Rightarrow> unit tact" where
  "copy_revision revisions from to = (\<lambda>st.
     let source = revisions @ [nat_to_string from]; destination = revisions @ [nat_to_string to];
         temporary = revisions @ [''.'' @ nat_to_string to @ ''.tmp''] in
     if \<not> is_directory (node_at (ts_root st) source) then (st, Err ''workspace source revision is unavailable'')
     else
       tbind (if node_at (ts_root st) destination \<noteq> None
              then twrap ''remove orphan workspace revision directory'' (fs_remove_dir_all destination)
              else tret ()) (\<lambda>_.
       tbind (twrap ''create workspace revision parent'' (fs_create_dir_all revisions)) (\<lambda>_.
       ttry (fs_remove_dir_all temporary) (\<lambda>_.
       tbind (twrap ''copy immutable workspace revision'' (copy_path source temporary)) (\<lambda>_.
       twrap ''publish workspace revision directory'' (fs_rename temporary destination))))) st)"

end
