(* ===== verification/Workspace_Facts.thy ===== *)
theory Workspace_Facts
  imports Workspace_Files "HOL-Library.Sublist"
begin

text \<open>
  Which paths the operations on workspace files can change: edits stay below their revision and pass
  no link, and a copied revision appears complete or not at all.
\<close>

section \<open>What a path shows\<close>

text \<open>What is at a path, without what lies below it.\<close>

definition view_at :: "node \<Rightarrow> string list \<Rightarrow> node option" where
  "view_at root q = map_option (\<lambda>n. case n of DirNode _ \<Rightarrow> DirNode [] | _ \<Rightarrow> n) (node_at root q)"

lemma view_kinds [simp]:
  "is_directory (view_at root q) = is_directory (node_at root q)"
  "is_link (view_at root q) = is_link (node_at root q)"
  "is_file (view_at root q) = is_file (node_at root q)"
  "view_at root q = None \<longleftrightarrow> node_at root q = None"
  by (auto simp: view_at_def is_directory_def is_link_def is_file_def split: option.splits node.splits)

lemma map_of_filter_ne: "c \<noteq> d \<Longrightarrow> map_of (filter (\<lambda>(k, _). k \<noteq> c) es) d = map_of es d"
  by (induction es) auto

lemma map_of_filter_eq: "map_of (filter (\<lambda>(k, _). k \<noteq> c) es) c = None"
  by (induction es) auto

lemma map_of_entries_set [simp]:
  "map_of (entries_set c v es) d = (if d = c then v else map_of es d)"
  by (cases v) (auto simp: map_of_filter_ne map_of_filter_eq)

declare entries_set.simps [simp del]

lemma directory_no_link: "is_directory n \<Longrightarrow> \<not> is_link n"
  by (auto simp: is_directory_def is_link_def split: option.splits node.splits)

text \<open>An update shows at its own path and nowhere above or beside it.\<close>

lemma view_at_put:
  assumes "\<not> prefix p q"
  shows "view_at (put_node p v n) q = view_at n q"
  using assms
proof (induction p v n arbitrary: q rule: put_node.induct)
  case (2 c v es)
  then show ?case by (cases q) (auto simp: view_at_def)
next
  case (3 c d cs v es)
  show ?case
  proof (cases "map_of es c")
    case (Some n)
    show ?thesis
    proof (cases q)
      case (Cons x xs)
      then show ?thesis using 3(1)[OF Some, of xs] 3(2) Some by (auto simp: view_at_def)
    qed (simp add: view_at_def Some)
  qed simp
qed auto

lemma node_at_put_below:
  assumes "parent_is_directory root p"
  shows "node_at (put_node p v root) (p @ r) = (case v of None \<Rightarrow> None | Some m \<Rightarrow> node_at m r)"
  using assms
proof (induction p v root rule: put_node.induct)
  case (1 v n)
  then show ?case by (simp add: parent_is_directory_def)
next
  case (2 c v es)
  then show ?case by (cases v) (simp_all add: parent_is_directory_def)
next
  case (3 c d cs v es)
  from 3(2) obtain n where n: "map_of es c = Some n" and "parent_is_directory n (d # cs)"
    by (auto simp: parent_is_directory_def is_directory_def split: option.splits)
  with 3(1)[OF n] show ?case by simp
qed (auto simp: parent_is_directory_def is_directory_def split: option.splits if_splits)

lemma node_at_append: "node_at root (p @ q) = Option.bind (node_at root p) (\<lambda>n. node_at n q)"
  by (induction root p rule: node_at.induct) (auto split: option.splits)

section \<open>Operations at a path without links\<close>

text \<open>All inner components are directories.\<close>

definition dirs_above :: "node \<Rightarrow> string list \<Rightarrow> bool" where
  "dirs_above root p \<longleftrightarrow> (\<forall>k < length p. is_directory (node_at root (take k p)))"

lemma dirs_above_no_link: "dirs_above root p \<Longrightarrow> \<not> through_link root p"
  unfolding dirs_above_def through_link_def list_ex_iff
  using directory_no_link by auto

lemma dirs_above_view:
  assumes "dirs_above root p" and "\<And>k. k < length p \<Longrightarrow> view_at root' (take k p) = view_at root (take k p)"
  shows "dirs_above root' p"
  using assms unfolding dirs_above_def by (metis view_kinds(1))

lemma dirs_above_parent: "dirs_above root p \<Longrightarrow> p \<noteq> [] \<Longrightarrow> parent_is_directory root p"
  unfolding dirs_above_def parent_is_directory_def by (simp add: butlast_conv_take)

text \<open>An operation whose effect shows only at its own path.\<close>

definition local_at :: "string list \<Rightarrow> (node \<Rightarrow> (node \<times> 'a, string) result) \<Rightarrow> bool" where
  "local_at p f \<longleftrightarrow> (\<forall>root root' v. f root = Ok (root', v) \<longrightarrow> (\<forall>q. q \<noteq> p \<longrightarrow> view_at root' q = view_at root q))"

lemma view_below_leaf:
  assumes "node_at root p = None \<or> \<not> is_directory (node_at root p)" and "r \<noteq> []"
  shows "node_at root (p @ r) = None"
proof (cases "node_at root p")
  case (Some n)
  with assms show ?thesis by (cases n; cases r) (auto simp: node_at_append is_directory_def)
qed (simp add: node_at_append)

lemma put_local:
  assumes "parent_is_directory root p" and "node_at root p = None \<or> \<not> is_directory (node_at root p)"
    and "case v of None \<Rightarrow> True | Some n \<Rightarrow> n = DirNode [] \<or> \<not> is_directory (Some n)" and "q \<noteq> p"
  shows "view_at (put_node p v root) q = view_at root q"
proof (cases "prefix p q")
  case True
  then obtain r where r: "q = p @ r" "r \<noteq> []" using assms(4) unfolding prefix_def by auto
  have "node_at root q = None" using view_below_leaf[OF assms(2) r(2)] r(1) by simp
  moreover have "node_at (put_node p v root) q = None"
    unfolding r(1) node_at_put_below[OF assms(1)] using assms(3) r(2)
    by (cases v; cases r) (auto simp: is_directory_def split: node.splits)
  ultimately show ?thesis by (simp add: view_at_def)
next
  case False
  then show ?thesis by (rule view_at_put)
qed

lemma file_action_local:
  assumes "local_at p f" and "dirs_above (ts_root st) p" and "file_action p f st = (st', r)"
  shows "ts_escapes st' = ts_escapes st" and "q \<noteq> p \<Longrightarrow> view_at (ts_root st') q = view_at (ts_root st) q"
  using assms dirs_above_no_link[OF assms(2)]
  by (auto simp: file_action_def local_at_def Let_def split: if_splits sum.splits prod.splits)


lemma leaf_parent:
  assumes "node_at root p = Some n" and "p \<noteq> []"
  shows "parent_is_directory root p"
proof -
  from assms obtain d where d: "node_at root (butlast p) = Some d" "node_at d [last p] = Some n"
    using node_at_append[of root "butlast p" "[last p]"] by (cases "node_at root (butlast p)") auto
  then show ?thesis using assms(2) by (cases d) (auto simp: parent_is_directory_def is_directory_def)
qed

lemma local_lstat: "local_at p (\<lambda>root. rbind (lstat_node root p) (\<lambda>n. Ok (root, n)))"
  by (auto simp: local_at_def)

lemma local_sync: "local_at p (\<lambda>root. Ok (root, ()))"
  by (auto simp: local_at_def)

lemma local_create: "n = DirNode [] \<or> \<not> is_directory (Some n) \<Longrightarrow> local_at p (\<lambda>root.
     if \<not> parent_is_directory root p then Err ''No such file or directory (os error 2)''
     else if node_at root p \<noteq> None then Err ''File exists (os error 17)''
     else Ok (put_node p (Some n) root, ()))"
  using put_local[of _ p "Some n"] by (auto simp: local_at_def)

lemma local_write:
  assumes "p \<noteq> []" and "\<And>content mode. \<not> is_directory (Some (f content mode))"
  shows "local_at p (\<lambda>root. case node_at root p of
       Some (FileNode content mode) \<Rightarrow> Ok (put_node p (Some (f content mode)) root, ())
     | _ \<Rightarrow> Err ''No such file or directory (os error 2)'')"
  unfolding local_at_def
proof (intro allI impI)
  fix root root' v q
  assume "(case node_at root p of
       Some (FileNode content mode) \<Rightarrow> Ok (put_node p (Some (f content mode)) root, ())
     | _ \<Rightarrow> Err ''No such file or directory (os error 2)'') = Ok (root', v)" and q: "q \<noteq> p"
  then obtain content mode where n: "node_at root p = Some (FileNode content mode)"
    and r: "root' = put_node p (Some (f content mode)) root" by (auto split: option.splits node.splits)
  show "view_at root' q = view_at root q"
    unfolding r by (rule put_local[OF leaf_parent[OF n assms(1)] _ _ q]) (use n assms(2) in \<open>auto simp: is_directory_def\<close>)
qed

lemma local_remove:
  assumes "p \<noteq> []"
  shows "local_at p (\<lambda>root. case node_at root p of
       None \<Rightarrow> Err ''No such file or directory (os error 2)''
     | Some (DirNode _) \<Rightarrow> Err ''Is a directory (os error 21)''
     | Some _ \<Rightarrow> Ok (put_node p None root, ()))"
  unfolding local_at_def
proof (intro allI impI)
  fix root root' v q
  assume "(case node_at root p of
       None \<Rightarrow> Err ''No such file or directory (os error 2)''
     | Some (DirNode _) \<Rightarrow> Err ''Is a directory (os error 21)''
     | Some _ \<Rightarrow> Ok (put_node p None root, ())) = Ok (root', v)" and q: "q \<noteq> p"
  then obtain n where n: "node_at root p = Some n" "\<not> is_directory (Some n)" and r: "root' = put_node p None root"
    by (auto simp: is_directory_def split: option.splits node.splits)
  show "view_at root' q = view_at root q"
    unfolding r by (rule put_local[OF leaf_parent[OF n(1) assms] _ _ q]) (use n in simp_all)
qed

section \<open>A logic of effects\<close>

text \<open>
  From a tree with \<open>P\<close>, the action passes no link and shows an effect only in \<open>S\<close>; when it succeeds, \<open>Q\<close>
  holds of its value and the tree it leaves.
\<close>

definition triple :: "string list set \<Rightarrow> (node \<Rightarrow> bool) \<Rightarrow> 'a tact \<Rightarrow> ('a \<Rightarrow> node \<Rightarrow> bool) \<Rightarrow> bool" where
  "triple S P m Q \<longleftrightarrow> (\<forall>st st' r. m st = (st', r) \<longrightarrow> P (ts_root st) \<longrightarrow>
     ts_escapes st' = ts_escapes st \<and> (\<forall>q. q \<notin> S \<longrightarrow> view_at (ts_root st') q = view_at (ts_root st) q)
     \<and> (\<forall>v. r = Ok v \<longrightarrow> Q v (ts_root st')))"

lemma tripleD:
  assumes "triple S P m Q" and "m st = (st', r)" and "P (ts_root st)"
  shows "ts_escapes st' = ts_escapes st" and "q \<notin> S \<Longrightarrow> view_at (ts_root st') q = view_at (ts_root st) q"
    and "r = Ok v \<Longrightarrow> Q v (ts_root st')"
  using assms unfolding triple_def by blast+

lemma triple_conseq: "triple S P m Q \<Longrightarrow> (\<And>root. P' root \<Longrightarrow> P root) \<Longrightarrow> (\<And>v root. Q v root \<Longrightarrow> Q' v root) \<Longrightarrow> triple S P' m Q'"
  unfolding triple_def by blast

lemma triple_tret: "(\<And>root. P root \<Longrightarrow> Q v root) \<Longrightarrow> triple S P (tret v) Q"
  by (simp add: triple_def tret_def)

lemma triple_tfail: "triple S P (tfail e) Q"
  by (simp add: triple_def tfail_def)

lemma triple_tbind:
  assumes "triple S P m Q" and "\<And>v. triple S (Q v) (f v) R"
  shows "triple S P (tbind m f) R"
  unfolding triple_def
proof (intro allI impI)
  fix st st' r assume b: "tbind m f st = (st', r)" and P: "P (ts_root st)"
  obtain st1 r1 where m: "m st = (st1, r1)" by fastforce
  note one = tripleD[OF assms(1) m P]
  show "ts_escapes st' = ts_escapes st \<and> (\<forall>q. q \<notin> S \<longrightarrow> view_at (ts_root st') q = view_at (ts_root st) q)
     \<and> (\<forall>v. r = Ok v \<longrightarrow> R v (ts_root st'))"
  proof (cases r1)
    case (Inl e)
    with b m one show ?thesis by (auto simp: tbind_def)
  next
    case (Inr v)
    with b m have "f v st1 = (st', r)" by (simp add: tbind_def)
    from tripleD[OF assms(2) this one(3)[OF Inr]] one show ?thesis by auto
  qed
qed

lemma triple_twrap: "triple S P m Q \<Longrightarrow> triple S P (twrap e m) Q"
  unfolding triple_def twrap_def by (auto split: prod.splits simp: map_err_def split: sum.splits)

text \<open>An operation whose result only says what is there.\<close>

lemma triple_ttry_look:
  assumes "\<And>root. P root \<Longrightarrow> dirs_above root p"
    and "\<And>r. triple S (\<lambda>root. P root \<and> (\<forall>n. r = Ok n \<longrightarrow> lstat_node root p = Ok n)) (f r) Q"
  shows "triple S P (ttry (fs_lstat p) f) Q"
  unfolding triple_def
proof (intro allI impI)
  fix st st' r assume b: "ttry (fs_lstat p) f st = (st', r)" and P: "P (ts_root st)"
  obtain st1 r1 where m: "fs_lstat p st = (st1, r1)" by fastforce
  have st1: "ts_root st1 = ts_root st" "ts_escapes st1 = ts_escapes st" "\<forall>n. r1 = Ok n \<longrightarrow> lstat_node (ts_root st) p = Ok n"
    using m dirs_above_no_link[OF assms(1)[OF P]]
    by (auto simp: fs_lstat_def file_action_def Let_def split: if_splits sum.splits prod.splits)
  from b m have "f r1 st1 = (st', r)" by (simp add: ttry_def)
  moreover have "P (ts_root st1) \<and> (\<forall>n. r1 = Ok n \<longrightarrow> lstat_node (ts_root st1) p = Ok n)" using st1 P by simp
  ultimately show "ts_escapes st' = ts_escapes st \<and> (\<forall>q. q \<notin> S \<longrightarrow> view_at (ts_root st') q = view_at (ts_root st) q)
     \<and> (\<forall>v. r = Ok v \<longrightarrow> Q v (ts_root st'))"
    using assms(2)[of r1] st1(1,2) unfolding triple_def by (metis (no_types, lifting))
qed

lemma triple_action:
  assumes "local_at p f" and "\<And>root. P root \<Longrightarrow> dirs_above root p" and "p \<in> S"
    and "\<And>root root' v. P root \<Longrightarrow> f root = Ok (root', v) \<Longrightarrow> (\<And>q. q \<noteq> p \<Longrightarrow> view_at root' q = view_at root q) \<Longrightarrow> Q v root'"
  shows "triple S P (file_action p f) Q"
  unfolding triple_def
proof (intro allI impI)
  fix st st' r assume m: "file_action p f st = (st', r)" and P: "P (ts_root st)"
  note loc = file_action_local[OF assms(1) assms(2)[OF P] m]
  have "Q v (ts_root st')" if "r = Ok v" for v
  proof (rule assms(4)[OF P _ loc(2)])
    show "f (ts_root st) = Ok (ts_root st', v)"
      using m that by (auto simp: file_action_def Let_def split: if_splits sum.splits prod.splits)
  qed
  moreover have "view_at (ts_root st') q = view_at (ts_root st) q" if "q \<notin> S" for q
    by (rule loc(2)) (use that assms(3) in auto)
  ultimately show "ts_escapes st' = ts_escapes st \<and> (\<forall>q. q \<notin> S \<longrightarrow> view_at (ts_root st') q = view_at (ts_root st) q)
     \<and> (\<forall>v. r = Ok v \<longrightarrow> Q v (ts_root st'))"
    using loc(1) by simp
qed

lemma triple_look:
  assumes "\<And>root. P root \<Longrightarrow> dirs_above root p" and "\<And>root root' v. f root = Ok (root', v) \<Longrightarrow> root' = root"
    and "\<And>root v. P root \<Longrightarrow> f root = Ok (root, v) \<Longrightarrow> Q v root"
  shows "triple S P (file_action p f) Q"
  unfolding triple_def
proof (intro allI impI)
  fix st st' r assume m: "file_action p f st = (st', r)" and P: "P (ts_root st)"
  have link: "\<not> through_link (ts_root st) p" by (rule dirs_above_no_link[OF assms(1)[OF P]])
  have root: "ts_root st' = ts_root st"
  proof (cases "f (ts_root st)")
    case (Inl e)
    with m link show ?thesis by (auto simp: file_action_def Let_def split: if_splits)
  next
    case (Inr b)
    obtain root' v where b: "b = (root', v)" by fastforce
    then have "root' = ts_root st" using assms(2) Inr by blast
    with m link Inr b show ?thesis by (auto simp: file_action_def Let_def split: if_splits)
  qed
  have esc: "ts_escapes st' = ts_escapes st"
    using m link by (auto simp: file_action_def Let_def split: if_splits sum.splits prod.splits)
  have "f (ts_root st) = Ok (ts_root st', v)" if "r = Ok v" for v
    using m link that by (auto simp: file_action_def Let_def split: if_splits sum.splits prod.splits)
  then have "Q v (ts_root st')" if "r = Ok v" for v using assms(3)[OF P] that root by simp
  with root esc show "ts_escapes st' = ts_escapes st \<and> (\<forall>q. q \<notin> S \<longrightarrow> view_at (ts_root st') q = view_at (ts_root st) q)
     \<and> (\<forall>v. r = Ok v \<longrightarrow> Q v (ts_root st'))" by simp
qed

section \<open>Edits\<close>

text \<open>The paths below the root of a revision that an edit may show at.\<close>

definition below_root :: "string list \<Rightarrow> string list set" where
  "below_root base = {base @ r | r. r \<noteq> [] \<and> list_all (\<lambda>c. normal_part c \<and> c \<noteq> ''.git'') r}"

text \<open>A directory without links above it.\<close>

definition real_dir :: "string list \<Rightarrow> node \<Rightarrow> bool" where
  "real_dir p root \<longleftrightarrow> dirs_above root p \<and> is_directory (node_at root p)"

lemma real_dir_child: "real_dir p root \<longleftrightarrow> dirs_above root (p @ [c])"
  unfolding real_dir_def dirs_above_def by (auto simp: less_Suc_eq)

lemma lstat_node_at: "lstat_node root p = Ok n \<Longrightarrow> node_at root p = n"
  by (induction root p rule: lstat_node.induct) (auto split: option.splits)

text \<open>The content of the regular files.\<close>

definition contents :: "node \<Rightarrow> string list \<Rightarrow> string option" where
  "contents root q = (case view_at root q of Some (FileNode content _) \<Rightarrow> Some content | _ \<Rightarrow> None)"

lemma contents_update:
  assumes "\<And>q. q \<noteq> p \<Longrightarrow> view_at root' q = view_at root q"
  shows "contents root' = (contents root)(p := contents root' p)"
  using assms by (auto simp: contents_def fun_eq_iff)

lemma contents_file: "contents root p = Some content \<longleftrightarrow> (\<exists>mode. node_at root p = Some (FileNode content mode))"
  by (auto simp: contents_def view_at_def split: option.splits node.splits)

lemma contents_none [simp]: "\<not> is_file (node_at root p) \<Longrightarrow> contents root p = None"
  by (auto simp: contents_def view_at_def is_file_def split: option.splits node.splits)

lemma dirs_above_far:
  assumes "dirs_above root p" and "\<And>q. q \<noteq> c \<Longrightarrow> view_at root' q = view_at root q" and "length p \<le> length c"
  shows "dirs_above root' p"
  by (rule dirs_above_view[OF assms(1)], rule assms(2)) (use assms(3) in auto)

lemma triple_create:
  assumes "n = DirNode [] \<or> \<not> is_directory (Some n)" and "p \<in> S"
    and "\<And>root. P root \<Longrightarrow> dirs_above root p"
    and "\<And>root root'. P root \<Longrightarrow> dirs_above root' p \<Longrightarrow> node_at root p = None \<Longrightarrow> node_at root' p = Some n
      \<Longrightarrow> (\<And>q. q \<noteq> p \<Longrightarrow> view_at root' q = view_at root q) \<Longrightarrow> Q () root'"
  shows "triple S P (fs_create p n) Q"
  unfolding fs_create_def
proof (rule triple_action[OF local_create[OF assms(1)] assms(3) assms(2)])
  fix root root' and v :: unit
  assume P: "P root" and same: "\<And>q. q \<noteq> p \<Longrightarrow> view_at root' q = view_at root q"
    and ok: "(if \<not> parent_is_directory root p then Err ''No such file or directory (os error 2)''
       else if node_at root p \<noteq> None then Err ''File exists (os error 17)''
       else Ok (put_node p (Some n) root, ())) = Ok (root', v)"
  have "node_at root' p = Some n" "node_at root p = None"
    using ok node_at_put_below[of root p "Some n" "[]"] by (auto split: if_splits)
  with assms(4)[OF P dirs_above_far[OF assms(3)[OF P] same]] same show "Q v root'" by simp
qed

lemma triple_safe_parents:
  assumes "list_all (\<lambda>c. normal_part c \<and> c \<noteq> ''.git'') cs" and "current = base \<or> current \<in> below_root base"
  shows "triple (below_root base) (\<lambda>root. real_dir current root \<and> contents root = F) (safe_parents create_parents current cs)
    (\<lambda>_ root. real_dir (current @ cs) root \<and> contents root = F)"
  using assms
proof (induction cs arbitrary: current)
  case Nil
  then show ?case by (auto intro: triple_tret)
next
  case (Cons c cs)
  let ?at = "\<lambda>p root. real_dir p root \<and> contents root = F"
  have mem: "current @ [c] \<in> below_root base" using Cons.prems by (auto simp: below_root_def)
  have up: "?at current root \<Longrightarrow> dirs_above root (current @ [c])" for root using real_dir_child by blast
  have create: "triple (below_root base) (?at current) (fs_create (current @ [c]) (DirNode [])) (\<lambda>_. ?at (current @ [c]))"
  proof (rule triple_create[OF _ mem up])
    fix root root'
    assume at: "?at current root" and d: "dirs_above root' (current @ [c])" and n: "node_at root (current @ [c]) = None"
      "node_at root' (current @ [c]) = Some (DirNode [])"
      and same: "\<And>q. q \<noteq> current @ [c] \<Longrightarrow> view_at root' q = view_at root q"
    have "contents root' (current @ [c]) = contents root (current @ [c])"
      using n by (simp add: contents_def view_at_def)
    with contents_update[OF same] at have "contents root' = F" by (metis fun_upd_triv)
    with d n show "?at (current @ [c]) root'" by (simp add: real_dir_def is_directory_def)
  qed simp_all
  have rest: "triple (below_root base) (?at (current @ [c])) (safe_parents create_parents (current @ [c]) cs)
      (\<lambda>_. ?at (current @ c # cs))"
    using Cons.IH[of "current @ [c]"] Cons.prems(1) mem by simp
  show ?case
    unfolding safe_parents.simps
  proof (rule triple_ttry_look[OF up])
    fix r :: "(node option, string) result"
    have dir: "?at (current @ [c]) root"
      if "?at current root" "lstat_node root (current @ [c]) = Ok (Some n)" "is_directory (Some n)" for root n
      using that up lstat_node_at[OF that(2)] by (auto simp: real_dir_def)
    show "triple (below_root base) (\<lambda>root. ?at current root \<and> (\<forall>n. r = Ok n \<longrightarrow> lstat_node root (current @ [c]) = Ok n))
        (case r of Inl e \<Rightarrow> tfail e
         | Inr None \<Rightarrow> if create_parents then tbind (fs_create (current @ [c]) (DirNode [])) (\<lambda>_. safe_parents create_parents (current @ [c]) cs)
             else tfail ''No such file or directory (os error 2)''
         | Inr (Some n) \<Rightarrow> if is_directory (Some n) then safe_parents create_parents (current @ [c]) cs
             else tfail ''workspace ancestor is not a directory'')
        (\<lambda>_. ?at (current @ c # cs))"
    proof (cases r)
      case (Inl e)
      then show ?thesis by (simp add: triple_tfail)
    next
      case r: (Inr found)
      show ?thesis
      proof (cases found)
        case None
        have "triple (below_root base) (\<lambda>root. ?at current root \<and> (\<forall>n. r = Ok n \<longrightarrow> lstat_node root (current @ [c]) = Ok n))
          (tbind (fs_create (current @ [c]) (DirNode [])) (\<lambda>_. safe_parents create_parents (current @ [c]) cs))
          (\<lambda>_. ?at (current @ c # cs))"
          by (rule triple_conseq[OF triple_tbind[OF create rest]]) simp_all
        with r None show ?thesis by (cases create_parents) (simp_all add: triple_tfail)
      next
        case (Some n)
        have "triple (below_root base) (\<lambda>root. ?at current root \<and> (\<forall>n. r = Ok n \<longrightarrow> lstat_node root (current @ [c]) = Ok n))
          (safe_parents create_parents (current @ [c]) cs) (\<lambda>_. ?at (current @ c # cs))" if "is_directory (Some n)"
          by (rule triple_conseq[OF rest]) (use r Some that dir in auto)
        with r Some show ?thesis by (simp add: triple_tfail)
      qed
    qed
  qed
qed

lemma safe_components_ok:
  assumes "safe_components relative = Ok cs"
  shows "cs = path_parts relative" and "cs \<noteq> []" and "list_all (\<lambda>c. normal_part c \<and> c \<noteq> ''.git'') cs"
  using assms by (auto simp: safe_components_def Let_def list_all_iff split: if_splits)

text \<open>A path that \<open>safe_target\<close> returns lies below the root, behind directories only.\<close>

definition target_at :: "string list \<Rightarrow> string \<Rightarrow> (string list \<Rightarrow> string option) \<Rightarrow> string list \<Rightarrow> node \<Rightarrow> bool" where
  "target_at base relative F path root \<longleftrightarrow> path = base @ path_parts relative \<and> path_parts relative \<noteq> []
     \<and> list_all (\<lambda>c. normal_part c \<and> c \<noteq> ''.git'') (path_parts relative) \<and> dirs_above root path \<and> contents root = F"

lemma triple_safe_target:
  "triple (below_root base) (\<lambda>root. real_dir base root \<and> contents root = F) (safe_target base relative create_parents)
     (target_at base relative F)"
proof (cases "safe_components relative")
  case (Inl e)
  then show ?thesis by (simp add: safe_target_def triple_tfail)
next
  case (Inr cs)
  note cs = safe_components_ok[OF Inr]
  have cs_split: "base @ butlast cs @ [last cs] = base @ cs" using cs(2) by simp
  have front: "list_all (\<lambda>c. normal_part c \<and> c \<noteq> ''.git'') (butlast cs)"
    using cs(3) by (auto simp: list_all_iff dest: in_set_butlastD)
  have up: "dirs_above root (base @ cs)" if "real_dir (base @ butlast cs) root" for root
    using that real_dir_child[of "base @ butlast cs" root "last cs"] cs_split by simp
  have at: "target_at base relative F (base @ cs) root" if "real_dir (base @ butlast cs) root \<and> contents root = F" for root
    using that up cs by (simp add: target_at_def)
  have look: "triple (below_root base) (\<lambda>root. real_dir (base @ butlast cs) root \<and> contents root = F)
      (ttry (fs_lstat (base @ cs)) (\<lambda>r. case r of
         Inl a \<Rightarrow> tret (base @ cs)
       | Inr None \<Rightarrow> tret (base @ cs)
       | Inr (Some n) \<Rightarrow> if is_file (Some n) then tret (base @ cs) else tfail ''workspace target is not a regular file''))
      (target_at base relative F)"
    by (rule triple_ttry_look) (auto intro!: triple_tret triple_tfail at up split: sum.splits option.splits)
  show ?thesis
    unfolding safe_target_def Inr sum.case Let_def
    by (rule triple_tbind[OF triple_safe_parents[OF front] look]) simp
qed

lemma triple_write:
  assumes "p \<noteq> []" and "p \<in> S" and "\<And>root. P root \<Longrightarrow> dirs_above root p"
    and "\<And>root root' content mode. P root \<Longrightarrow> dirs_above root' p \<Longrightarrow> node_at root p = Some (FileNode content mode)
      \<Longrightarrow> node_at root' p = Some (FileNode (f content) (g mode))
      \<Longrightarrow> (\<And>q. q \<noteq> p \<Longrightarrow> view_at root' q = view_at root q) \<Longrightarrow> Q () root'"
  shows "triple S P (fs_write p (\<lambda>content mode. FileNode (f content) (g mode))) Q"
  unfolding fs_write_def
proof (rule triple_action[OF local_write[OF assms(1)] assms(3) assms(2)])
  fix root root' and v :: unit
  assume P: "P root" and same: "\<And>q. q \<noteq> p \<Longrightarrow> view_at root' q = view_at root q"
    and ok: "(case node_at root p of
       Some (FileNode content mode) \<Rightarrow> Ok (put_node p (Some (FileNode (f content) (g mode))) root, ())
     | _ \<Rightarrow> Err ''No such file or directory (os error 2)'') = Ok (root', v)"
  from ok obtain content mode where n: "node_at root p = Some (FileNode content mode)"
    and r: "root' = put_node p (Some (FileNode (f content) (g mode))) root" by (auto split: option.splits node.splits)
  have "node_at root' p = Some (FileNode (f content) (g mode))"
    using node_at_put_below[OF leaf_parent[OF n assms(1)], of _ "[]"] r by simp
  from assms(4)[OF P dirs_above_far[OF assms(3)[OF P] same] n this same] show "Q v root'" by simp
qed (simp_all add: is_directory_def)

lemma triple_remove:
  assumes "p \<noteq> []" and "p \<in> S" and "\<And>root. P root \<Longrightarrow> dirs_above root p"
    and "\<And>root root'. P root \<Longrightarrow> dirs_above root' p \<Longrightarrow> node_at root' p = None
      \<Longrightarrow> (\<And>q. q \<noteq> p \<Longrightarrow> view_at root' q = view_at root q) \<Longrightarrow> Q () root'"
  shows "triple S P (fs_remove_file p) Q"
  unfolding fs_remove_file_def
proof (rule triple_action[OF local_remove[OF assms(1)] assms(3) assms(2)])
  fix root root' and v :: unit
  assume P: "P root" and same: "\<And>q. q \<noteq> p \<Longrightarrow> view_at root' q = view_at root q"
    and ok: "(case node_at root p of
       None \<Rightarrow> Err ''No such file or directory (os error 2)''
     | Some (DirNode _) \<Rightarrow> Err ''Is a directory (os error 21)''
     | Some _ \<Rightarrow> Ok (put_node p None root, ())) = Ok (root', v)"
  then have "root' = put_node p None root" by (auto split: option.splits node.splits)
  then have "node_at root' p = None"
    using node_at_put_below[OF dirs_above_parent[OF assms(3)[OF P] assms(1)], of None "[]"] by simp
  from assms(4)[OF P dirs_above_far[OF assms(3)[OF P] same] this same] show "Q v root'" by simp
qed

text \<open>A file is renamed within its directory.\<close>

lemma put_rename:
  assumes "dirs_above root p" "dirs_above root q" "p \<noteq> []" "length p = length q"
    and n: "node_at root p = Some n" "is_file (Some n)" and q: "node_at root q = None \<or> is_file (node_at root q)"
  defines "root' \<equiv> put_node q (Some n) (put_node p None root)"
  shows "\<And>s. s \<noteq> p \<Longrightarrow> s \<noteq> q \<Longrightarrow> view_at root' s = view_at root s"
    and "node_at root' q = Some n" and "p \<noteq> q \<Longrightarrow> view_at root' p = None"
proof -
  have leaf: "\<not> is_directory (Some n)" "\<not> is_directory (node_at root q)"
    using n(2) q by (auto simp: is_file_def is_directory_def split: option.splits node.splits)
  let ?mid = "put_node p None root"
  have mid: "view_at ?mid s = view_at root s" if "s \<noteq> p" for s
    by (rule put_local[OF dirs_above_parent[OF assms(1,3)] _ _ that]) (use n leaf in simp_all)
  have gone: "node_at ?mid p = None"
    using node_at_put_below[OF dirs_above_parent[OF assms(1,3)], of None "[]"] by simp
  have up: "dirs_above ?mid q" by (rule dirs_above_far[of _ _ p, OF assms(2) mid]) (use assms(4) in simp_all)
  have q': "\<not> is_directory (node_at ?mid q)"
  proof (cases "q = p")
    case False
    with leaf(2) mid[of q] show ?thesis by (metis view_kinds(1))
  qed (simp add: gone is_directory_def)
  have par: "parent_is_directory ?mid q" using dirs_above_parent[OF up] assms(3,4) by (metis length_0_conv)
  have local: "view_at root' s = view_at ?mid s" if "s \<noteq> q" for s
    unfolding root'_def by (rule put_local[OF par _ _ that]) (use q' leaf in simp_all)
  show "view_at root' s = view_at root s" if "s \<noteq> p" "s \<noteq> q" for s using local mid that by simp
  show "node_at root' q = Some n" unfolding root'_def using node_at_put_below[OF par, of "Some n" "[]"] by simp
  show "view_at root' p = None" if "p \<noteq> q" using local[OF that] gone by (simp add: view_at_def)
qed

lemma triple_rename:
  assumes "p \<in> S" "q \<in> S" "p \<noteq> []" "length p = length q"
    and P: "\<And>root. P root \<Longrightarrow> dirs_above root p \<and> dirs_above root q \<and> contents root = F(p := Some content)"
  shows "triple S P (fs_rename p q) (\<lambda>_ root. dirs_above root q \<and> contents root = F(p := None, q := Some content))"
  unfolding triple_def
proof (intro allI impI)
  fix st st' r assume m: "fs_rename p q st = (st', r)" and "P (ts_root st)"
  note P = P[OF this(2)]
  from P have "contents (ts_root st) p = Some content" by simp
  then obtain mode where n: "node_at (ts_root st) p = Some (FileNode content mode)" by (auto simp: contents_file)
  have link: "\<not> through_link (ts_root st) p" "\<not> through_link (ts_root st) q" using P dirs_above_no_link by blast+
  have cases_: "ts_escapes st' = ts_escapes st" "(\<exists>e. r = Err e) \<and> ts_root st' = ts_root st \<or>
      r = Ok () \<and> (node_at (ts_root st) q = None \<or> is_file (node_at (ts_root st) q))
      \<and> ts_root st' = put_node q (Some (FileNode content mode)) (put_node p None (ts_root st))"
    using m link n by (auto simp: fs_rename_def file_action_def Let_def is_file_def split: if_splits)
  have good: "(\<forall>s. s \<notin> S \<longrightarrow> view_at (ts_root st') s = view_at (ts_root st) s)
      \<and> dirs_above (ts_root st') q \<and> contents (ts_root st') = F(p := None, q := Some content)" if "r = Ok ()"
  proof -
    from that cases_(2) have q: "node_at (ts_root st) q = None \<or> is_file (node_at (ts_root st) q)"
      and r: "ts_root st' = put_node q (Some (FileNode content mode)) (put_node p None (ts_root st))" by auto
    note put = put_rename[OF _ _ assms(3,4) n _ q, folded r]
    have same: "view_at (ts_root st') s = view_at (ts_root st) s" if "s \<noteq> p" "s \<noteq> q" for s
      using put(1)[of s] that P by (simp add: is_file_def)
    have "contents (ts_root st') q = Some content" using put(2) P by (auto simp: contents_file is_file_def)
    moreover have "p \<noteq> q \<Longrightarrow> contents (ts_root st') p = None" using put(3) P by (simp add: is_file_def)
    moreover have "contents (ts_root st') s = F s" if "s \<noteq> p" "s \<noteq> q" for s
      using same[OF that] P that by (metis contents_def fun_upd_other)
    ultimately have "contents (ts_root st') = F(p := None, q := Some content)" by (auto simp: fun_eq_iff)
    moreover have "dirs_above (ts_root st') q"
      by (rule dirs_above_view, use P in blast, rule same) (use assms(4) in auto)
    moreover have "view_at (ts_root st') s = view_at (ts_root st) s" if "s \<notin> S" for s
      by (rule same) (use that assms(1,2) in auto)
    ultimately show ?thesis by simp
  qed
  then show "ts_escapes st' = ts_escapes st \<and> (\<forall>s. s \<notin> S \<longrightarrow> view_at (ts_root st') s = view_at (ts_root st) s)
     \<and> (\<forall>v. r = Ok v \<longrightarrow> dirs_above (ts_root st') q \<and> contents (ts_root st') = F(p := None, q := Some content))"
    using cases_ by (cases r) auto
qed

lemma real_dir_prefix:
  assumes "dirs_above root (base @ cs)" and "cs \<noteq> []"
  shows "real_dir base root"
proof -
  have dir: "is_directory (node_at root (take k (base @ cs)))" if "k < length base + length cs" for k
    using assms(1) that by (simp add: dirs_above_def)
  have "is_directory (node_at root base)" using dir[of "length base"] assms(2) by simp
  moreover have "is_directory (node_at root (take k base))" if "k < length base" for k using dir[of k] that by simp
  ultimately show ?thesis by (simp add: real_dir_def dirs_above_def)
qed

lemma dirs_above_sibling: "dirs_above root p \<Longrightarrow> p \<noteq> [] \<Longrightarrow> dirs_above root (butlast p @ [c])"
  unfolding dirs_above_def by (auto simp: butlast_conv_take less_Suc_eq min_def)

lemma dirs_above_butlast: "dirs_above root p \<Longrightarrow> dirs_above root (butlast p)"
  unfolding dirs_above_def by (auto simp: butlast_conv_take min_def)

lemma triple_seq: "triple S P m (\<lambda>_. Q) \<Longrightarrow> triple S Q (f ()) R \<Longrightarrow> triple S P (tbind m f) R"
  by (rule triple_tbind) auto

lemma triple_fs_sync: "(\<And>root. P root \<Longrightarrow> dirs_above root p) \<Longrightarrow> triple S P (fs_sync p) (\<lambda>_. P)"
  unfolding fs_sync_def by (rule triple_look) auto

lemma triple_fs_open: "(\<And>root. P root \<Longrightarrow> dirs_above root p) \<Longrightarrow> triple S P (fs_open p) (\<lambda>_. P)"
  unfolding fs_open_def by (rule triple_look) (auto split: if_splits)

lemma triple_fs_lstat: "(\<And>root. P root \<Longrightarrow> dirs_above root p) \<Longrightarrow> triple S P (fs_lstat p) (\<lambda>_. P)"
  unfolding fs_lstat_def
  by (rule triple_look) (auto split: sum.splits simp: rbind_def)

text \<open>What the edits leave is what a map of paths to contents would hold.\<close>

definition edit_contents :: "string list \<Rightarrow> WorkspaceEdit \<Rightarrow> (string list \<Rightarrow> string option) \<Rightarrow> string list \<Rightarrow> string option" where
  "edit_contents base edit F = F(base @ path_parts (we_path edit) := we_content edit)"

text \<open>\<open>at_target\<close>: behind directories at the target, with known contents.\<close>

definition at_target :: "string list \<Rightarrow> (string list \<Rightarrow> string option) \<Rightarrow> node \<Rightarrow> bool" where
  "at_target path F root \<longleftrightarrow> dirs_above root path \<and> contents root = F"

lemma temporary_below:
  assumes "path \<in> below_root base"
  shows "temporary_path uuid path \<in> below_root base" and "path \<noteq> []" and "length (temporary_path uuid path) = length path"
proof -
  from assms obtain r where r: "path = base @ r" "r \<noteq> []" "list_all (\<lambda>c. normal_part c \<and> c \<noteq> ''.git'') r"
    by (auto simp: below_root_def)
  then have "temporary_path uuid path = base @ (butlast r @ [''.maxops-'' @ uuid @ ''.tmp''])"
    by (simp add: temporary_path_def butlast_append)
  moreover have "list_all (\<lambda>c. normal_part c \<and> c \<noteq> ''.git'') (butlast r @ [''.maxops-'' @ uuid @ ''.tmp''])"
    using r(3) by (auto simp: list_all_iff normal_part_def dest: in_set_butlastD)
  ultimately show "temporary_path uuid path \<in> below_root base" by (auto simp: below_root_def)
  show "path \<noteq> []" "length (temporary_path uuid path) = length path"
    using r by (simp_all add: temporary_path_def butlast_append)
qed

lemma temporary_dirs:
  assumes "path \<in> below_root base" and "at_target path F root"
  shows "dirs_above root (temporary_path uuid path)"
  unfolding temporary_path_def
  by (rule dirs_above_sibling) (use assms temporary_below(2) in \<open>auto simp: at_target_def\<close>)

lemma at_target_update:
  assumes "at_target path F root" and "length path \<le> length p" and "\<And>q. q \<noteq> p \<Longrightarrow> view_at root' q = view_at root q"
  shows "at_target path (F(p := contents root' p)) root'"
  using contents_update[OF assms(3)] dirs_above_far[OF _ assms(3,2)] assms(1) by (auto simp: at_target_def)

lemma triple_edit_file:
  assumes "path \<in> below_root base" and "tmp = temporary_path uuid path"
  shows "triple (below_root base) (at_target path F)
     (tbind (twrap e1 (fs_create tmp (FileNode [] 438))) (\<lambda>_.
      tbind (twrap e2 (fs_write tmp (\<lambda>_ mode. FileNode content mode))) (\<lambda>_.
      tbind (twrap e3 (fs_sync tmp)) (\<lambda>_.
      tbind (twrap e4 (fs_write tmp (\<lambda>bytes _. FileNode bytes mode'))) (\<lambda>_.
      tbind (twrap e5 (fs_rename tmp path)) (\<lambda>_.
      tbind (twrap e6 (fs_open (butlast path))) (\<lambda>_.
      twrap e7 (fs_sync (butlast path)))))))))
     (\<lambda>_. at_target path (F(path := Some content)))"
proof -
  note tmp = temporary_below(1)[OF assms(1), of uuid, folded assms(2)] temporary_below(2)[OF assms(1)]
    temporary_below(3)[OF assms(1), of uuid, folded assms(2)]
  have up: "at_target path G root \<Longrightarrow> dirs_above root tmp" for G root
    using temporary_dirs[OF assms(1)] assms(2) by blast
  have tmp_ne: "tmp \<noteq> []" using tmp(2,3) by auto
  let ?with = "\<lambda>c root. F tmp = None \<and> at_target path (F(tmp := Some c)) root"
  have create: "triple (below_root base) (at_target path F) (fs_create tmp (FileNode [] 438)) (\<lambda>_. ?with [])"
  proof (rule triple_create[OF _ tmp(1) up])
    fix root root' assume at: "at_target path F root" and n: "node_at root tmp = None" "node_at root' tmp = Some (FileNode [] 438)"
      and same: "\<And>q. q \<noteq> tmp \<Longrightarrow> view_at root' q = view_at root q"
    have "F tmp = None" using at n by (auto simp: at_target_def is_file_def)
    moreover have "contents root' tmp = Some []" using n contents_file by blast
    ultimately show "?with [] root'" using at_target_update[of path _ root tmp, OF at _ same] tmp(3) by simp
  qed (simp_all add: is_directory_def)
  have set_content: "triple (below_root base) (?with c) (fs_write tmp (\<lambda>content mode. FileNode (f content) (g mode))) (\<lambda>_. ?with (f c))"
    for c f g
  proof (rule triple_write[OF tmp_ne tmp(1)])
    fix root root' c' mode assume at: "?with c root" and n: "node_at root tmp = Some (FileNode c' mode)"
      "node_at root' tmp = Some (FileNode (f c') (g mode))" and same: "\<And>q. q \<noteq> tmp \<Longrightarrow> view_at root' q = view_at root q"
    have "c' = c" using at n(1) contents_file[of root tmp c'] by (auto simp: at_target_def)
    moreover have "contents root' tmp = Some (f c')" using n contents_file by blast
    ultimately show "?with (f c) root'" using at_target_update[of path _ root tmp, OF conjunct2[OF at] _ same] at tmp(3) by simp
  qed (use up in blast)
  have sync: "triple (below_root base) (?with c) (fs_sync tmp) (\<lambda>_. ?with c)" for c
    by (rule triple_fs_sync) (use up in blast)
  have rename: "triple (below_root base) (?with c) (fs_rename tmp path) (\<lambda>_. at_target path (F(path := Some c)))" for c
  proof (cases "F tmp = None")
    case True
    then have F: "F(tmp := None, path := Some c) = F(path := Some c)" by (metis fun_upd_triv)
    show ?thesis
      unfolding at_target_def F[symmetric] by (rule triple_rename[OF tmp(1) assms(1) tmp_ne tmp(3)])
        (use up in \<open>auto simp: at_target_def\<close>)
  qed (auto simp: triple_def)
  have parent: "at_target path G root \<Longrightarrow> dirs_above root (butlast path)" for G root
    using dirs_above_butlast by (auto simp: at_target_def)
  show ?thesis
    by (intro triple_seq[OF triple_twrap[OF create]] triple_seq[OF triple_twrap[OF set_content[of "[]" "\<lambda>_. content" "\<lambda>m. m"]]]
        triple_seq[OF triple_twrap[OF sync]] triple_seq[OF triple_twrap[OF set_content[of content "\<lambda>b. b" "\<lambda>_. mode'"]]]
        triple_seq[OF triple_twrap[OF rename]] triple_seq[OF triple_twrap[OF triple_fs_open]]
        triple_twrap[OF triple_fs_sync]) (use parent in blast)+
qed

lemma triple_apply_edit:
  "triple (below_root base) (\<lambda>root. real_dir base root \<and> contents root = F) (apply_edit base uuid used edit)
     (\<lambda>_ root. real_dir base root \<and> contents root = edit_contents base edit F)"
  unfolding apply_edit_def Let_def
proof (rule triple_tbind[OF triple_safe_target])
  fix path
  let ?parts = "path_parts (we_path edit)" and ?S = "below_root base" and ?tmp = "temporary_path uuid path"
  let ?Q = "\<lambda>_ :: unit. \<lambda>root. real_dir base root \<and> contents root = edit_contents base edit F"
  let ?store = "\<lambda>content. if ?tmp \<in> used then tfail ''temporary path collision'' else
      ttry (fs_lstat path) (\<lambda>metadata.
      tbind (twrap ''create temporary workspace edit'' (fs_create ?tmp (FileNode [] 438))) (\<lambda>_.
      tbind (twrap ''write temporary workspace edit'' (fs_write ?tmp (\<lambda>_ mode. FileNode content mode))) (\<lambda>_.
      tbind (twrap ''sync temporary workspace edit'' (fs_sync ?tmp)) (\<lambda>_.
      tbind (twrap ''set workspace edit permissions'' (fs_write ?tmp (\<lambda>bytes _. FileNode bytes (edit_mode metadata)))) (\<lambda>_.
      tbind (twrap ''publish workspace file edit'' (fs_rename ?tmp path)) (\<lambda>_.
      tbind (twrap ''open workspace edit parent for sync'' (fs_open (butlast path))) (\<lambda>_.
      twrap ''sync workspace edit parent'' (fs_sync (butlast path)))))))))"
  let ?delete = "tbind (twrap ''workspace delete target does not exist'' (fs_lstat path)) (\<lambda>n.
      if n = None then tfail ''workspace delete target does not exist''
      else if is_file n then fs_remove_file path
      else tfail ''workspace delete target is not a regular file'')"
  show "triple ?S (target_at base (we_path edit) F path) (case we_content edit of None \<Rightarrow> ?delete | Some content \<Rightarrow> ?store content) ?Q"
  proof (cases "path = base @ ?parts \<and> ?parts \<noteq> [] \<and> list_all (\<lambda>c. normal_part c \<and> c \<noteq> ''.git'') ?parts")
    case False
    then show ?thesis by (auto simp: target_at_def triple_def)
  next
    case path: True
    then have mem: "path \<in> ?S" by (auto simp: below_root_def)
    have pre: "at_target path F root" if "target_at base (we_path edit) F path root" for root
      using that by (auto simp: target_at_def at_target_def)
    have post: "?Q () root" if "at_target path (F(path := we_content edit)) root" for root
      using that path real_dir_prefix[of root base ?parts] by (simp add: at_target_def edit_contents_def)
    show ?thesis
    proof (cases "we_content edit")
      case None
      have "triple ?S (at_target path F) (fs_remove_file path) ?Q"
      proof (rule triple_remove[OF temporary_below(2)[OF mem] mem])
        fix root root' assume at: "at_target path F root" and "node_at root' path = None"
          and "\<And>q. q \<noteq> path \<Longrightarrow> view_at root' q = view_at root q"
        with at_target_update[of path F root path root'] have "at_target path (F(path := None)) root'"
          by (simp add: is_file_def)
        with post None show "?Q () root'" by simp
      qed (simp add: at_target_def)
      then have "triple ?S (at_target path F) ?delete ?Q"
        by (intro triple_tbind[OF triple_twrap[OF triple_fs_lstat]]) (auto simp: at_target_def triple_tfail)
      with None show ?thesis by (auto intro: triple_conseq pre)
    next
      case (Some content)
      have "triple ?S (at_target path F) (?store content) ?Q"
      proof (cases "?tmp \<in> used")
        case False
        show ?thesis unfolding if_not_P[OF False]
        proof (rule triple_ttry_look)
          fix r :: "(node option, string) result"
          show "triple ?S (\<lambda>root. at_target path F root \<and> (\<forall>n. r = Ok n \<longrightarrow> lstat_node root path = Ok n))
             (tbind (twrap ''create temporary workspace edit'' (fs_create ?tmp (FileNode [] 438))) (\<lambda>_.
      tbind (twrap ''write temporary workspace edit'' (fs_write ?tmp (\<lambda>_ mode. FileNode content mode))) (\<lambda>_.
      tbind (twrap ''sync temporary workspace edit'' (fs_sync ?tmp)) (\<lambda>_.
      tbind (twrap ''set workspace edit permissions'' (fs_write ?tmp (\<lambda>bytes _. FileNode bytes (edit_mode r)))) (\<lambda>_.
      tbind (twrap ''publish workspace file edit'' (fs_rename ?tmp path)) (\<lambda>_.
      tbind (twrap ''open workspace edit parent for sync'' (fs_open (butlast path))) (\<lambda>_.
      twrap ''sync workspace edit parent'' (fs_sync (butlast path))))))))) ?Q"
            by (rule triple_conseq[OF triple_edit_file[OF mem refl]]) (use post Some in auto)
        qed (simp add: at_target_def)
      qed (simp add: triple_tfail)
      with Some show ?thesis by (auto intro: triple_conseq pre)
    qed
  qed
qed

lemma triple_apply_edits:
  "triple (below_root base) (\<lambda>root. real_dir base root \<and> contents root = F) (apply_edits base used edits)
     (\<lambda>_ root. real_dir base root \<and> contents root = fold (edit_contents base) (map fst edits) F)"
proof (induction edits arbitrary: used F)
  case Nil
  show ?case by (simp add: triple_tret)
next
  case (Cons e edits)
  obtain edit uuid where e: "e = (edit, uuid)" by fastforce
  show ?case unfolding e apply_edits.simps
    by (rule triple_seq[OF triple_apply_edit]) (use Cons.IH in simp)
qed

end
