(* ===== verification/Workspace_Copies.thy ===== *)
theory Workspace_Copies
  imports Workspace_Facts
begin

text \<open>
  Copies of revisions: a copy shows what its source shows, and a new revision appears complete or not
  at all.
\<close>

section \<open>Trees by what they show\<close>

type_synonym shown = "string list \<Rightarrow> node option"

definition shown_dirs :: "shown \<Rightarrow> string list \<Rightarrow> bool" where
  "shown_dirs V p \<longleftrightarrow> (\<forall>k < length p. is_directory (V (take k p)))"

lemma shown_dirs_above [simp]: "shown_dirs (view_at root) p = dirs_above root p"
  by (simp add: shown_dirs_def dirs_above_def)

text \<open>A subtree is replaced, or removed.\<close>

definition graft :: "string list \<Rightarrow> node \<Rightarrow> shown \<Rightarrow> shown" where
  "graft p n V = (\<lambda>q. if prefix p q then view_at n (drop (length p) q) else V q)"

definition prune :: "string list \<Rightarrow> shown \<Rightarrow> shown" where
  "prune p V = (\<lambda>q. if prefix p q then None else V q)"

lemma view_at_put_some: "parent_is_directory root p \<Longrightarrow> view_at (put_node p (Some n) root) = graft p n (view_at root)"
proof (rule ext)
  fix q assume p: "parent_is_directory root p"
  show "view_at (put_node p (Some n) root) q = graft p n (view_at root) q"
  proof (cases "prefix p q")
    case True
    then obtain r where "q = p @ r" unfolding prefix_def by blast
    then show ?thesis using node_at_put_below[OF p, of "Some n" r] by (simp add: graft_def view_at_def)
  qed (simp add: graft_def view_at_put)
qed

lemma view_at_put_none: "parent_is_directory root p \<Longrightarrow> view_at (put_node p None root) = prune p (view_at root)"
proof (rule ext)
  fix q assume p: "parent_is_directory root p"
  show "view_at (put_node p None root) q = prune p (view_at root) q"
  proof (cases "prefix p q")
    case True
    then obtain r where "q = p @ r" unfolding prefix_def by blast
    then show ?thesis using node_at_put_below[OF p, of None r] by (simp add: prune_def view_at_def)
  qed (simp add: prune_def view_at_put)
qed

lemma shown_dirs_near:
  assumes "shown_dirs V q" and "\<not> strict_prefix p q" and "\<And>s. \<not> prefix p s \<Longrightarrow> V' s = V s"
  shows "shown_dirs V' q"
proof -
  have "\<not> prefix p (take k q)" if "k < length q" for k
    using assms(2) that
    by (metis length_take min.absorb4 nat_neq_iff prefix_order.le_less_trans strict_prefixI take_is_prefix)
  then show ?thesis using assms(1,3) by (simp add: shown_dirs_def)
qed

lemma shown_dirs_graft:
  assumes "shown_dirs V q" and "\<not> strict_prefix p q"
  shows "shown_dirs (graft p n V) q" and "shown_dirs (prune p V) q"
  by (rule shown_dirs_near[OF assms], simp add: graft_def prune_def)+

section \<open>Copying a tree\<close>

text \<open>Known views before and after.\<close>

abbreviation shows_as :: "shown \<Rightarrow> node \<Rightarrow> bool" where
  "shows_as V \<equiv> (\<lambda>root. view_at root = V)"

lemma triple_absurd: "(\<And>root. \<not> P root) \<Longrightarrow> triple S P m Q"
  by (simp add: triple_def)

lemma triple_create_view:
  assumes "shown_dirs V p" and "p \<noteq> []" and "n = DirNode [] \<or> \<not> is_directory (Some n)"
  shows "triple {q. prefix p q} (shows_as V) (fs_create p n) (\<lambda>_ root. (\<forall>r. V (p @ r) = None) \<and> view_at root = graft p n V)"
proof (rule triple_create[OF assms(3)])
  fix root root' assume V: "view_at root = V" and none: "node_at root p = None" and n: "node_at root' p = Some n"
    and same: "\<And>q. q \<noteq> p \<Longrightarrow> view_at root' q = view_at root q"
  have *: "node_at root (p @ r) = None" for r
    using view_below_leaf[of root p r] none by (cases r) simp_all
  have "view_at root' q = graft p n V q" for q
  proof (cases "prefix p q")
    case True
    then obtain r where q: "q = p @ r" unfolding prefix_def by blast
    show ?thesis
    proof (cases r)
      case Nil
      then show ?thesis using n q by (simp add: graft_def view_at_def)
    next
      case (Cons c cs)
      have "view_at n r = None" using assms(3) Cons by (cases n) (auto simp: view_at_def is_directory_def)
      moreover have "view_at root' q = None" using same[of q] *[of r] q Cons by (simp add: view_at_def)
      ultimately show ?thesis using q by (simp add: graft_def view_at_def)
    qed
  next
    case False
    then show ?thesis using same[of q] V by (auto simp: graft_def)
  qed
  moreover have "V (p @ r) = None" for r using * V by (auto simp: view_at_def)
  ultimately show "(\<forall>r. V (p @ r) = None) \<and> view_at root' = graft p n V" by auto
qed (use assms in auto)

fun graft_entries :: "string list \<Rightarrow> (string \<times> node) list \<Rightarrow> shown \<Rightarrow> shown" where
  "graft_entries p [] V = V"
| "graft_entries p ((name, n) # es) V = graft_entries p es (graft (p @ [name]) n V)"

fun fresh_entries :: "string list \<Rightarrow> (string \<times> node) list \<Rightarrow> shown \<Rightarrow> bool" where
  "fresh_entries p [] V = True"
| "fresh_entries p ((name, n) # es) V \<longleftrightarrow> V (p @ [name]) = None \<and> fresh_entries p es (graft (p @ [name]) n V)"

lemma fresh_distinct:
  "fresh_entries p es V \<Longrightarrow> name \<in> fst ` set es \<Longrightarrow> V (p @ [name]) = None"
proof (induction p es V rule: fresh_entries.induct)
  case (2 p name' n es V)
  show ?case
  proof (cases "name = name'")
    case False
    with 2 have "graft (p @ [name']) n V (p @ [name]) = None" by auto
    with False show ?thesis by (simp add: graft_def)
  qed (use 2 in simp)
qed simp

lemma graft_entries_at:
  assumes "fresh_entries p es V"
  shows "graft_entries p es V (p @ name # r) = (case map_of es name of Some n \<Rightarrow> view_at n r | None \<Rightarrow> V (p @ name # r))"
  using assms
proof (induction p es V rule: fresh_entries.induct)
  case (2 p name' n es V)
  have "name' \<notin> fst ` set es"
  proof
    assume "name' \<in> fst ` set es"
    with 2(2) have "graft (p @ [name']) n V (p @ [name']) = None" by (intro fresh_distinct) simp_all
    then show False by (simp add: graft_def)
  qed
  then have "map_of es name' = None" by (simp add: map_of_eq_None_iff)
  moreover have "graft (p @ [name']) n V (p @ name # r) = (if name = name' then view_at n r else V (p @ name # r))"
    by (simp add: graft_def)
  ultimately show ?case using 2 by (auto split: option.splits)
qed simp

lemma graft_entries_other: "\<not> strict_prefix p q \<Longrightarrow> graft_entries p es V q = V q"
proof (induction p es V rule: graft_entries.induct)
  case (2 p name n es V)
  then have "\<not> prefix (p @ [name]) q" by (auto simp: strict_prefix_def prefix_def)
  with 2 show ?case by (simp add: graft_def)
qed simp

lemma graft_directory:
  assumes "\<forall>r. V (p @ r) = None" and "fresh_entries p es (graft p (DirNode []) V)"
  shows "graft_entries p es (graft p (DirNode []) V) = graft p (DirNode es) V"
proof (rule ext)
  fix q
  show "graft_entries p es (graft p (DirNode []) V) q = graft p (DirNode es) V q"
  proof (cases "strict_prefix p q")
    case True
    then obtain name r where q: "q = p @ name # r" by (auto elim: strict_prefixE')
    show ?thesis unfolding q graft_entries_at[OF assms(2)] using assms(1)
      by (auto simp: graft_def view_at_def split: option.splits)
  next
    case False
    then show ?thesis
      unfolding graft_entries_other[OF False] by (auto simp: graft_def view_at_def strict_prefix_def prefix_def)
  qed
qed

text \<open>The source lies beside the destination, both behind directories.\<close>

definition copy_ready :: "shown \<Rightarrow> string list \<Rightarrow> string list \<Rightarrow> bool" where
  "copy_ready V src dst \<longleftrightarrow> shown_dirs V src \<and> shown_dirs V dst \<and> parallel dst src"

lemma triple_superset: "triple S P m Q \<Longrightarrow> S \<subseteq> T \<Longrightarrow> triple T P m Q"
  unfolding triple_def by blast

lemma triple_lstat_then:
  assumes "shown_dirs V p" and "triple S (shows_as V) m Q"
  shows "triple S (shows_as V) (tbind (fs_lstat p) (\<lambda>_. m)) Q"
  by (rule triple_tbind[OF triple_fs_lstat assms(2)]) (use assms(1) in auto)

lemma shown_dirs_child: "shown_dirs V (p @ [c]) \<longleftrightarrow> shown_dirs V p \<and> is_directory (V p)"
  unfolding shown_dirs_def by (auto simp: less_Suc_eq)

lemma parallel_not_prefix: "parallel dst src \<Longrightarrow> \<not> prefix (dst @ r) (src @ r')"
  using parallel_append[of dst src r r'] by (simp add: parallel_def)

lemma parallel_ne: "parallel dst src \<Longrightarrow> dst \<noteq> []"
  by (auto simp: parallel_def)

lemma copy_ready_child:
  assumes "copy_ready V src dst" and "is_directory (V src)" and "is_directory (V dst)"
  shows "copy_ready V (src @ [name]) (dst @ [name])"
  using assms parallel_append[of dst src] by (simp add: copy_ready_def shown_dirs_child)

lemma graft_source: "copy_ready V src dst \<Longrightarrow> graft (dst @ r) n V (src @ r') = V (src @ r')"
  using parallel_not_prefix by (auto simp: copy_ready_def graft_def)

lemma copy_ready_graft:
  assumes "copy_ready V src dst"
  shows "copy_ready (graft (dst @ r) n V) src dst"
proof -
  have "\<not> strict_prefix (dst @ r) dst" by (auto simp: strict_prefix_def prefix_def)
  moreover have "\<not> strict_prefix (dst @ r) src"
    using assms parallel_not_prefix[of dst src r "[]"] by (auto simp: copy_ready_def strict_prefix_def)
  ultimately show ?thesis using assms shown_dirs_graft(1) by (auto simp: copy_ready_def)
qed

text \<open>What is copied is what the source shows, unless its name is taken at the destination.\<close>

lemma triple_copy_directory:
  assumes "copy_ready V src dst" and "\<forall>r. V (dst @ r) = None"
    and "\<And>r. V (src @ r) = view_at (DirNode es) r"
    and "\<And>V. copy_ready V src dst \<Longrightarrow> is_directory (V src) \<Longrightarrow> is_directory (V dst) \<Longrightarrow>
     (\<And>name m. map_of es name = Some m \<Longrightarrow> V (dst @ [name]) = None \<Longrightarrow> \<forall>r. V (src @ name # r) = view_at m r) \<Longrightarrow>
     triple S (shows_as V) (copy_entries es src dst) (\<lambda>_ root. fresh_entries dst es V \<and> view_at root = graft_entries dst es V)"
  shows "triple S (shows_as (graft dst (DirNode []) V)) (copy_entries es src dst) (\<lambda>_ root. view_at root = graft dst (DirNode es) V)"
proof -
  let ?V = "graft dst (DirNode []) V"
  have src: "?V (src @ r) = view_at (DirNode es) r" for r
    using graft_source[OF assms(1), of "[]"] assms(3) by simp
  have "triple S (shows_as ?V) (copy_entries es src dst) (\<lambda>_ root. fresh_entries dst es ?V \<and> view_at root = graft_entries dst es ?V)"
  proof (rule assms(4))
    show "copy_ready ?V src dst" using copy_ready_graft[OF assms(1), of "[]"] by simp
    show "is_directory (?V src)" using src[of "[]"] by (simp add: view_at_def is_directory_def)
    show "is_directory (?V dst)" by (simp add: graft_def view_at_def is_directory_def)
    show "\<forall>r. ?V (src @ name # r) = view_at m r" if "map_of es name = Some m" for name m
      using src that by (simp add: view_at_def)
  qed
  then show ?thesis by (rule triple_conseq) (use graft_directory[OF assms(2)] in auto)
qed

lemma triple_copy:
  "copy_ready V src dst \<Longrightarrow> (V dst = None \<Longrightarrow> \<forall>r. V (src @ r) = view_at n r) \<Longrightarrow>
     triple {q. prefix dst q} (shows_as V) (copy_node n src dst)
     (\<lambda>_ root. (\<forall>r. V (dst @ r) = None) \<and> view_at root = graft dst n V)"
  "copy_ready V src dst \<Longrightarrow> is_directory (V src) \<Longrightarrow> is_directory (V dst) \<Longrightarrow>
     (\<And>name m. map_of es name = Some m \<Longrightarrow> V (dst @ [name]) = None \<Longrightarrow> \<forall>r. V (src @ name # r) = view_at m r) \<Longrightarrow>
     triple {q. prefix dst q} (shows_as V) (copy_entries es src dst)
     (\<lambda>_ root. fresh_entries dst es V \<and> view_at root = graft_entries dst es V)"
proof (induction n src dst and es src dst arbitrary: V and V rule: copy_node_copy_entries.induct)
  case (1 es src dst)
  from 1(2) have ready: "shown_dirs V src" "shown_dirs V dst" "dst \<noteq> []" by (auto simp: copy_ready_def parallel_ne)
  have entries: "triple {q. prefix dst q} (\<lambda>root. (\<forall>r. V (dst @ r) = None) \<and> view_at root = graft dst (DirNode []) V)
     (copy_entries es src dst) (\<lambda>_ root. (\<forall>r. V (dst @ r) = None) \<and> view_at root = graft dst (DirNode es) V)"
  proof (cases "\<forall>r. V (dst @ r) = None")
    case True
    then have src: "V (src @ r) = view_at (DirNode es) r" for r using 1(3) by (metis append_Nil2)
    show ?thesis by (rule triple_conseq[OF triple_copy_directory[OF 1(2) True src 1(1)]]) (use True in blast)+
  qed (auto intro: triple_absurd)
  show ?case unfolding copy_node.simps
    by (rule triple_lstat_then[OF ready(1)], rule triple_tbind[OF triple_twrap[OF triple_create_view]])
      (use ready entries in auto)
next
  case (2 content mode src dst)
  then show ?case unfolding copy_node.simps copy_ready_def
    by (intro triple_lstat_then triple_twrap triple_create_view) (auto simp: is_directory_def parallel_ne)
next
  case (3 target src dst)
  then show ?case unfolding copy_node.simps copy_ready_def
    by (intro triple_lstat_then triple_twrap triple_create_view) (auto simp: is_directory_def parallel_ne)
next
  case (4 src dst)
  then show ?case unfolding copy_node.simps copy_ready_def by (intro triple_lstat_then triple_tfail) auto
next
  case (5 src dst)
  show ?case by (simp add: triple_tret)
next
  case (6 name n es src dst)
  let ?V = "graft (dst @ [name]) n V"
  have "triple {q. prefix (dst @ [name]) q} (shows_as V) (copy_node n (src @ [name]) (dst @ [name]))
     (\<lambda>_ root. (\<forall>r. V ((dst @ [name]) @ r) = None) \<and> view_at root = ?V)"
    by (rule 6(1)[OF copy_ready_child[OF 6(3-5)]]) (use 6(6)[of name n] in simp)
  then have one: "triple {q. prefix dst q} (shows_as V) (copy_node n (src @ [name]) (dst @ [name]))
     (\<lambda>_ root. V (dst @ [name]) = None \<and> view_at root = ?V)"
  proof (rule triple_superset[OF triple_conseq])
    show "{q. prefix (dst @ [name]) q} \<subseteq> {q. prefix dst q}" by (auto dest: append_prefixD)
  qed (blast, metis append_Nil2)
  have rest: "triple {q. prefix dst q} (shows_as ?V) (copy_entries es src dst)
     (\<lambda>_ root. fresh_entries dst es ?V \<and> view_at root = graft_entries dst es ?V)"
  proof (rule 6(2)[OF copy_ready_graft[OF 6(3)]])
    show "is_directory (?V src)" using graft_source[OF 6(3), of "[name]" n "[]"] 6(4) by simp
    show "is_directory (?V dst)" using 6(5) by (simp add: graft_def)
    fix name' m assume m: "map_of es name' = Some m" "?V (dst @ [name']) = None"
    then have "V (dst @ [name']) = None" "name' \<noteq> name" by (auto simp: graft_def view_at_def split: if_splits)
    with 6(6)[of name' m] m show "\<forall>r. ?V (src @ name' # r) = view_at m r" using graft_source[OF 6(3)] by simp
  qed
  show ?case unfolding copy_entries.simps
  proof (rule triple_tbind[OF one])
    show "triple {q. prefix dst q} (\<lambda>root. V (dst @ [name]) = None \<and> view_at root = ?V) (copy_entries es src dst)
       (\<lambda>_ root. fresh_entries dst ((name, n) # es) V \<and> view_at root = graft_entries dst ((name, n) # es) V)"
    proof (cases "V (dst @ [name]) = None")
      case True
      with rest show ?thesis by simp
    qed (auto intro: triple_absurd)
  qed
qed

section \<open>A new revision\<close>

lemma triple_remove_dir:
  assumes "shown_dirs V p" and "p \<noteq> []"
  shows "triple {q. prefix p q} (shows_as V) (fs_remove_dir_all p) (\<lambda>_. shows_as (prune p V))"
  unfolding triple_def
proof (intro allI impI)
  fix st st' r assume m: "fs_remove_dir_all p st = (st', r)" and V: "shows_as V (ts_root st)"
  have up: "dirs_above (ts_root st) p" using assms(1) V by auto
  have same: "view_at (put_node p None (ts_root st)) = prune p V"
    using view_at_put_none[OF dirs_above_parent[OF up assms(2)]] V by simp
  have "ts_escapes st' = ts_escapes st \<and>
     ((\<exists>e. r = Err e) \<and> ts_root st' = ts_root st \<or> r = Ok () \<and> ts_root st' = put_node p None (ts_root st))"
    using m dirs_above_no_link[OF up]
    by (auto simp: fs_remove_dir_all_def file_action_def Let_def split: if_splits option.splits node.splits)
  then show "ts_escapes st' = ts_escapes st \<and> (\<forall>q. q \<notin> {q. prefix p q} \<longrightarrow> view_at (ts_root st') q = view_at (ts_root st) q)
     \<and> (\<forall>v. r = Ok v \<longrightarrow> shows_as (prune p V) (ts_root st'))"
    using same V by (auto simp: prune_def)
qed

text \<open>An outcome of a copy: the source stays, the destination is complete, or as it was, or gone.\<close>

definition copied_or_not :: "string list \<Rightarrow> string list \<Rightarrow> string list \<Rightarrow> node \<Rightarrow> node \<Rightarrow> bool \<Rightarrow> bool" where
  "copied_or_not src dst tmp root root' ok \<longleftrightarrow>
     (\<forall>q. \<not> prefix dst q \<and> \<not> prefix tmp q \<longrightarrow> view_at root' q = view_at root q)
     \<and> (if ok then \<forall>r. view_at root' (dst @ r) = view_at root (src @ r)
        else (\<forall>r. view_at root' (dst @ r) = view_at root (dst @ r)) \<or> (\<forall>r. view_at root' (dst @ r) = None))"

lemma rename_dir:
  assumes m: "fs_rename p q st = (st', r)" and "dirs_above (ts_root st) p" "dirs_above (ts_root st) q" "parallel p q"
    and n: "view_at (ts_root st) p = Some (DirNode [])" and "node_at (ts_root st) q = None"
  shows "ts_escapes st' = ts_escapes st" and "r = Err e \<Longrightarrow> ts_root st' = ts_root st"
    and "r = Ok v \<Longrightarrow> view_at (ts_root st') (q @ x) = view_at (ts_root st) (p @ x)"
    and "r = Ok v \<Longrightarrow> \<not> prefix p s \<Longrightarrow> \<not> prefix q s \<Longrightarrow> view_at (ts_root st') s = view_at (ts_root st) s"
proof -
  obtain m' where n: "node_at (ts_root st) p = Some m'" using n by (auto simp: view_at_def)
  have link: "\<not> through_link (ts_root st) p" "\<not> through_link (ts_root st) q" using assms(2,3) dirs_above_no_link by blast+
  have either: "ts_escapes st' = ts_escapes st \<and> ((\<exists>e. r = Err e) \<and> ts_root st' = ts_root st \<or>
      r = Ok () \<and> ts_root st' = put_node q (Some m') (put_node p None (ts_root st)))"
    using m link n assms(6) by (auto simp: fs_rename_def file_action_def Let_def split: if_splits)
  then show "ts_escapes st' = ts_escapes st" "r = Err e \<Longrightarrow> ts_root st' = ts_root st" by auto
  have ne: "p \<noteq> []" "q \<noteq> []" using assms(4) by (auto simp: parallel_def)
  have par: "parent_is_directory (ts_root st) p" using dirs_above_parent assms(2) ne by blast
  have "\<not> strict_prefix p q" using assms(4) by (simp add: parallel_def strict_prefix_def)
  then have "dirs_above (put_node p None (ts_root st)) q"
    using shown_dirs_graft(2)[of "view_at (ts_root st)" q p] assms(3) view_at_put_none[OF par] by (metis shown_dirs_above)
  then have par': "parent_is_directory (put_node p None (ts_root st)) q" using dirs_above_parent ne by blast
  have root': "view_at (ts_root st') = graft q m' (prune p (view_at (ts_root st)))" if "r = Ok v" for v
    using either that view_at_put_some[OF par'] view_at_put_none[OF par] by auto
  show "view_at (ts_root st') (q @ x) = view_at (ts_root st) (p @ x)" if "r = Ok v"
    unfolding root'[OF that] using n by (simp add: graft_def view_at_def node_at_append)
  show "view_at (ts_root st') s = view_at (ts_root st) s" if "r = Ok v" "\<not> prefix p s" "\<not> prefix q s"
    unfolding root'[OF that(1)] using that by (simp add: graft_def prune_def)
qed

lemma tbindE:
  assumes "tbind m f st = (st', r)"
  obtains (err) e where "m st = (st', Err e)" "r = Err e"
  | (ok) v st1 where "m st = (st1, Ok v)" "f v st1 = (st', r)"
  using assms by (auto simp: tbind_def split: prod.splits sum.splits)

lemma twrapE:
  assumes "twrap c m st = (st', r)"
  obtains r0 where "m st = (st', r0)" "(\<exists>e. r0 = Err e) = (\<exists>e. r = Err e)" "\<And>v. r = Ok v \<Longrightarrow> r0 = Ok v"
  using assms by (cases "m st"; cases "snd (m st)") (auto simp: twrap_def map_err_def)

text \<open>The copy is made beside the destination and renamed last.\<close>

lemma publish_copy:
  assumes dirs: "shown_dirs V src" "shown_dirs V dst" "shown_dirs V tmp"
    and apart: "parallel dst src" "parallel tmp src" "parallel tmp dst"
    and V: "view_at (ts_root st) = V" and gone: "\<And>x. V (dst @ x) = None" and src: "is_directory (V src)"
    and m: "ttry (fs_remove_dir_all tmp) (\<lambda>_. tbind (twrap e1 (copy_path src tmp)) (\<lambda>_. twrap e2 (fs_rename tmp dst))) st = (st', r)"
  shows "ts_escapes st' = ts_escapes st \<and> copied_or_not src dst tmp (ts_root st) (ts_root st') (\<not> isl r)"
proof -
  have ne: "tmp \<noteq> []" using apart by (auto simp: parallel_def)
  obtain st1 r1 where rm: "fs_remove_dir_all tmp st = (st1, r1)" by fastforce
  with m have m: "tbind (twrap e1 (copy_path src tmp)) (\<lambda>_. twrap e2 (fs_rename tmp dst)) st1 = (st', r)" by (simp add: ttry_def)
  note one = tripleD[OF triple_remove_dir[OF dirs(3) ne] rm V]
  let ?V1 = "view_at (ts_root st1)"
  have V1: "?V1 q = V q" if "\<not> prefix tmp q" for q using one(2) that V by simp
  have shown1: "shown_dirs ?V1 p" if "shown_dirs V p" "\<not> strict_prefix tmp p" for p
    by (rule shown_dirs_near[OF that V1])
  have side: "\<not> strict_prefix tmp src" "\<not> strict_prefix tmp dst" "\<not> strict_prefix tmp tmp"
    using apart by (auto simp: parallel_def strict_prefix_def)
  have ready: "copy_ready ?V1 src tmp" using shown1 dirs side apart by (simp add: copy_ready_def)
  obtain n where n: "node_at (ts_root st1) src = Some n"
    using V1[of src] src apart by (cases "node_at (ts_root st1) src") (auto simp: parallel_def is_directory_def view_at_def)
  have srcV: "\<forall>r. ?V1 (src @ r) = view_at n r" using n by (simp add: view_at_def node_at_append)
  note copy = triple_copy(1)[OF ready, OF srcV]
  have copy_is: "copy_path src tmp st1 = copy_node n src tmp st1" using n by (simp add: copy_path_def)
  have off_dst: "\<not> prefix tmp (dst @ x)" for x using parallel_not_prefix[OF apart(3), of "[]"] by simp
  from m show ?thesis
  proof (cases rule: tbindE)
    case (err e)
    from twrapE[OF err(1)] copy_is obtain r0 where "copy_node n src tmp st1 = (st', r0)" by metis
    from tripleD[OF copy this refl] have kept: "ts_escapes st' = ts_escapes st1"
      "\<And>q. \<not> prefix tmp q \<Longrightarrow> view_at (ts_root st') q = ?V1 q" by simp_all
    then have "\<not> prefix tmp q \<Longrightarrow> view_at (ts_root st') q = view_at (ts_root st) q" for q using V1 V by simp
    then show ?thesis using kept(1) one(1) off_dst err(2) by (simp add: copied_or_not_def)
  next
    case (ok v st2)
    from twrapE[OF ok(1)] copy_is have c: "copy_node n src tmp st1 = (st2, Ok ())" by (metis (full_types) unit.exhaust)
    note two = tripleD[OF copy c refl]
    have st2: "view_at (ts_root st2) = graft tmp n ?V1" using two(3)[of "()"] by simp
    have off: "view_at (ts_root st2) q = V q" if "\<not> prefix tmp q" for q using st2 V1 that by (simp add: graft_def)
    have dirs2: "dirs_above (ts_root st2) tmp" "dirs_above (ts_root st2) dst"
      using shown_dirs_near[OF dirs(3) side(3) off] shown_dirs_near[OF dirs(2) side(2) off] by simp_all
    have "is_directory (Some n)" using V1[of src] src apart(2) n by (metis parallel_def view_kinds(1))
    then have dir: "view_at (ts_root st2) tmp = Some (DirNode [])"
      unfolding st2 by (cases n) (auto simp: graft_def view_at_def is_directory_def)
    have free: "node_at (ts_root st2) dst = None" using off[of dst] off_dst[of "[]"] gone[of "[]"] by simp
    obtain r0 where ren: "fs_rename tmp dst st2 = (st', r0)" and r0: "(\<exists>e. r0 = Err e) = (\<exists>e. r = Err e)"
      using twrapE[OF ok(2)] by metis
    note three = rename_dir[OF ren dirs2 apart(3) dir free]
    show ?thesis
    proof (cases r0)
      case (Inl e)
      then have "ts_root st' = ts_root st2" using three(2) by blast
      moreover have "isl r" using r0 Inl by (cases r) auto
      ultimately show ?thesis using three(1) two(1) one(1) off off_dst V by (simp add: copied_or_not_def)
    next
      case (Inr v)
      have "view_at (ts_root st') (dst @ x) = view_at (ts_root st) (src @ x)" for x
        using three(3)[OF Inr] st2 srcV V1[of "src @ x"] V parallel_not_prefix[OF apart(2), of "[]" x] by (simp add: graft_def)
      moreover have "view_at (ts_root st') q = view_at (ts_root st) q" if "\<not> prefix dst q" "\<not> prefix tmp q" for q
        using three(4)[OF Inr that(2,1)] off[OF that(2)] V by simp
      moreover have "\<not> isl r" using r0 Inr by (cases r) auto
      ultimately show ?thesis using three(1) two(1) one(1) by (simp add: copied_or_not_def)
    qed
  qed
qed

lemma parallel_siblings: "c \<noteq> d \<Longrightarrow> parallel (p @ [c]) (p @ [d])"
  by (simp add: parallel_def)

lemma revision_names:
  "nat_to_string a \<noteq> CHR ''.'' # s" "a \<noteq> b \<Longrightarrow> a \<le> u64_max \<Longrightarrow> b \<le> u64_max \<Longrightarrow> nat_to_string a \<noteq> nat_to_string b"
  using nat_to_string_digit[of a] parse_usize_nat_to_string[of a] parse_usize_nat_to_string[of b]
  by (auto simp: is_ascii_digit_def)

lemma file_action_err: "file_action p f st = (st', Err e) \<Longrightarrow> ts_root st' = ts_root st"
  by (auto simp: file_action_def Let_def split: if_splits sum.splits prod.splits)

lemma copy_revision_outcome:
  assumes base: "real_dir revisions (ts_root st)" and versions: "from \<noteq> to" "from \<le> u64_max" "to \<le> u64_max"
    and m: "copy_revision revisions from to st = (st', r)"
  defines "src \<equiv> revisions @ [nat_to_string from]" and "dst \<equiv> revisions @ [nat_to_string to]"
    and "tmp \<equiv> revisions @ [''.'' @ nat_to_string to @ ''.tmp'']"
  shows "ts_escapes st' = ts_escapes st \<and> copied_or_not src dst tmp (ts_root st) (ts_root st') (\<not> isl r)"
proof -
  let ?V = "view_at (ts_root st)"
  note names = src_def dst_def tmp_def
  have apart: "parallel dst src" "parallel tmp src" "parallel tmp dst"
    unfolding names using versions revision_names by (auto intro!: parallel_siblings dest: not_sym)
  have up: "shown_dirs ?V (revisions @ [c])" for c using base by (simp add: real_dir_child[symmetric])
  show ?thesis
  proof (cases "is_directory (node_at (ts_root st) src)")
    case False
    with m have "st' = st" "isl r" by (auto simp: copy_revision_def Let_def names)
    then show ?thesis by (simp add: copied_or_not_def)
  next
    case src: True
    let ?clear = "if node_at (ts_root st) dst \<noteq> None
      then twrap ''remove orphan workspace revision directory'' (fs_remove_dir_all dst) else tret ()"
    let ?make = "twrap ''create workspace revision parent'' (fs_create_dir_all revisions)"
    let ?rest = "ttry (fs_remove_dir_all tmp) (\<lambda>_. tbind (twrap ''copy immutable workspace revision'' (copy_path src tmp))
      (\<lambda>_. twrap ''publish workspace revision directory'' (fs_rename tmp dst)))"
    from m src have m: "tbind ?clear (\<lambda>_. tbind ?make (\<lambda>_. ?rest)) st = (st', r)"
      unfolding names by (simp add: copy_revision_def Let_def split del: if_split)
    have clear: "triple {q. prefix dst q} (shows_as ?V) ?clear (\<lambda>_. shows_as (prune dst ?V))"
    proof (cases "node_at (ts_root st) dst = None")
      case True
      have "node_at (ts_root st) (dst @ x) = None" for x using view_below_leaf[of "ts_root st" dst x] True by (cases x) auto
      then have "prune dst ?V = ?V" by (auto simp: prune_def view_at_def prefix_def fun_eq_iff)
      with True show ?thesis by (simp add: triple_tret)
    qed (use up in \<open>simp add: triple_twrap triple_remove_dir dst_def\<close>)
    have base': "shown_dirs (prune dst ?V) (revisions @ [c])" for c
      by (rule shown_dirs_graft(2)[OF up]) (simp add: dst_def strict_prefix_def)
    have make: "triple {} (shows_as (prune dst ?V)) ?make (\<lambda>_. shows_as (prune dst ?V))"
      unfolding fs_create_dir_all_def
      by (intro triple_twrap triple_look) (use base' in \<open>auto simp: shown_dirs_child shown_dirs_above[symmetric] simp del: shown_dirs_above split: if_splits\<close>)
    have gone: "prune dst ?V (dst @ x) = None" for x by (simp add: prune_def)
    have kept: "prune dst ?V (src @ x) = ?V (src @ x)" for x
      using parallel_not_prefix[OF apart(1), of "[]" x] by (simp add: prune_def)
    from m show ?thesis
    proof (cases rule: tbindE)
      case (err e)
      from tripleD(1)[OF clear err(1) refl] have "ts_escapes st' = ts_escapes st" .
      moreover have "ts_root st' = ts_root st"
        using err(1) by (auto simp: fs_remove_dir_all_def tret_def elim!: twrapE dest!: file_action_err split: if_splits)
      ultimately show ?thesis using err(2) by (simp add: copied_or_not_def)
    next
      case (ok v st1)
      note one = tripleD[OF clear ok(1) refl]
      have V1: "view_at (ts_root st1) = prune dst ?V" using one(3) by blast
      from ok(2) show ?thesis
      proof (cases rule: tbindE)
        case (err e)
        note two = tripleD(1,2)[OF make err(1) V1]
        have "view_at (ts_root st') = prune dst ?V" using two(2) V1 by auto
        then show ?thesis using two(1) one(1) err(2) gone by (simp add: copied_or_not_def prune_def)
      next
        case (ok v st2)
        note two = tripleD[OF make ok(1) V1]
        have V2: "view_at (ts_root st2) = prune dst ?V" using two(3) by blast
        have "is_directory (prune dst ?V src)" using src kept[of "[]"] by simp
        from publish_copy[OF _ _ _ apart V2 gone this ok(2)] base'
        have "ts_escapes st' = ts_escapes st2 \<and> copied_or_not src dst tmp (ts_root st2) (ts_root st') (\<not> isl r)"
          by (simp add: names)
        then show ?thesis using two(1) one(1) kept V2 by (auto simp: copied_or_not_def prune_def)
      qed
    qed
  qed
qed

end
