(* ===== verification/Example_Executor.thy ===== *)
theory Example_Executor
  imports Executor_Facts Job_Runner_Facts Workspace_Copies Example_Run
begin

text \<open>
  A worked executor: one manageable unit on an obedient service manager, one unprivileged profile, and
  a workspace with a file and a link that leads out of it.
\<close>

section \<open>Configuration and host\<close>

definition ex_profile :: Profile where
  "ex_profile = \<lparr>pf_user = ''maxops'', pf_interpreter = ''/bin/sh'', pf_timeout_seconds = 300,
     pf_output_limit_bytes = 4, pf_working_roots = [''/srv''], pf_environment = [(''A'', ''1'')],
     pf_allowed_credentials = [''token''], pf_privileged = False, pf_tasks_max = 256, pf_memory_max_bytes = None\<rparr>"

definition ex_config :: Config where
  "ex_config = \<lparr>cf_host = ''web1'', cf_socket_path = ''/run/m.sock'', cf_state_file = ''/var/m.db'',
     cf_spec_directory = ''/run/specs'', cf_spool_root = ''/var/lib/maxops-jobs'', cf_systemd_run = ''/bin/systemd-run'',
     cf_systemctl = ''/bin/systemctl'', cf_runner = ''/bin/runner'', cf_deploy_runner = ''/bin/deploy'',
     cf_git = ''/bin/git'', cf_nix = ''/bin/nix'', cf_nix_env = ''/bin/nix-env'', cf_workspace_root = ''/var/ws'',
     cf_repository_root = ''/var/repos'', cf_manageable_units = [''nginx.service''],
     cf_credential_sources = [(''token'', ''/etc/token'')], cf_profiles = [(''default'', ex_profile)],
     cf_repositories = [], cf_deployment_profiles = []\<rparr>"

definition ex_unit_params :: UnitActionParams where
  "ex_unit_params = \<lparr>ua_host = ''web1'', ua_unit = ''nginx.service'', ua_expected_invocation_id = None\<rparr>"

definition ex_before :: ServiceUnitState where
  "ex_before = \<lparr>us_active_state = ''inactive'', us_sub_state = ''dead'', us_invocation_id = None,
     us_service_result = None, us_reload_result = None\<rparr>"

definition ex_service_serde :: service_serde where
  "ex_service_serde = \<lparr>sv_params_of = (\<lambda>_. Some ex_unit_params), sv_progress = (\<lambda>_. JNull),
     sv_progress_of = (\<lambda>_. Some \<lparr>sp_action = StartUnit, sp_unit = ''nginx.service'', sp_before = ex_before,
       sp_manager_job = Some ''/job/7''\<rparr>),
     sv_unit_state = (\<lambda>_. JNull), sv_action = (\<lambda>_. JNull)\<rparr>"

text \<open>The world is whether the unit is active.\<close>

definition ex_host :: "bool service_host" where
  "ex_host = \<lparr>sh_connect = (\<lambda>w. (w, Ok ())), sh_manager = (\<lambda>_ _ _. (True, Ok ''/job/7'')),
     sh_get_job = (\<lambda>_ w. (w, Err ''no such job'')), sh_get_unit = (\<lambda>_ w. (w, Ok ''/unit'')),
     sh_unit_proxy = (\<lambda>_ w. (w, Ok ())), sh_service_proxy = (\<lambda>_ w. (w, Ok ())),
     sh_invocation_id = (\<lambda>_ w. (w, Ok '''')), sh_active_state = (\<lambda>_ w. (w, Ok (if w then ''active'' else ''inactive''))),
     sh_sub_state = (\<lambda>_ w. (w, Ok ''running'')), sh_service_result = (\<lambda>_ w. (w, Ok ''success'')),
     sh_reload_result = (\<lambda>_ w. (w, Ok ''success''))\<rparr>"

definition ex_start :: store where
  "ex_start = fst (submit_linked_job ex_digest 1 ''key'' ex_job (ex_new\<lparr>nj_operation := ''units.start''\<rparr>) None empty_store)"

lemma ex_start_reachable: "ex_reachable ex_start"
proof (rule ex_step[OF reachable.initial])
  show "store_step ex_digest ex_text ex_second ex_add empty_store ex_start"
    unfolding ex_start_def
    by (rule store_step.submit[OF prod.collapse[symmetric]]) (use ex_ids in \<open>simp_all add: ex_new_def\<close>)
qed

text \<open>A schedule in which nothing else happens.\<close>

definition ex_quiet :: "nat \<Rightarrow> bool move list" where
  "ex_quiet n = replicate n \<lparr>mv_now = 10, mv_instant = 0, mv_store = (\<lambda>s. s), mv_world = (\<lambda>w. w)\<rparr>"

definition ex_exec :: "(bool, service_call) exec" where
  "ex_exec = \<lparr>x_store = ex_start, x_world = False, x_now = 10, x_instant = 0, x_moves = [], x_calls = []\<rparr>"

definition ex_params :: ExecRunParams where
  "ex_params = \<lparr>er_host = ''web1'', er_profile = ''default'', er_command = Script ''id'', er_cwd = Some ''/srv/app'',
     er_env = [(''B'', ''2'')], er_credential_refs = [''token''], er_timeout_seconds = Some 60\<rparr>"

definition ex_tree :: node where
  "ex_tree = DirNode [(''ws'', DirNode [(''1'', DirNode [(''a'', FileNode ''old'' 420), (''l'', LinkNode ''/etc'')])])]"

definition ex_state :: tree_state where
  "ex_state = \<lparr>ts_root = ex_tree, ts_faults = [], ts_escapes = []\<rparr>"

end
