(* ===== verification/Properties_Executor.thy ===== *)
theory Properties_Executor
  imports Example_Executor
begin

text \<open>
  What an executor guarantees on its host: a service action is requested at most once, a command runs
  within its profile and its output within its limit, results appear whole, and workspaces change only
  where an edit names them.
\<close>

section \<open>Services\<close>

text \<open>
  The attempts of an executor at one job: each is a worker with its own schedule, killed where the
  schedule ends. A round of the worker uses at least one await.
\<close>

definition service_attempts ::
  "service_serde \<Rightarrow> 'w service_host \<Rightarrow> Config \<Rightarrow> JobId \<Rightarrow> 'w move list list \<Rightarrow> ('w, service_call) exec \<Rightarrow> ('w, service_call) exec" where
  "service_attempts sv h c jid = fold (\<lambda>ms x. fst (service_worker (Suc (length ms)) sv h c jid (x\<lparr>x_moves := ms\<rparr>)))"

lemma attempts_once:
  assumes "called_once digest ts_text as_second ts_add jid x" and "\<forall>ms \<in> set schedules. moves_ok digest ts_text as_second ts_add ms"
  shows "called_once digest ts_text as_second ts_add jid (service_attempts sv h c jid schedules x)"
  using assms unfolding service_attempts_def
proof (induction schedules arbitrary: x)
  case (Cons ms schedules)
  have "called_once digest ts_text as_second ts_add jid (x\<lparr>x_moves := ms\<rparr>)" using Cons.prems by (simp add: called_once_def)
  from once.keepsD[OF once_worker this] Cons.IH Cons.prems(2) show ?case by (simp del: service_worker.simps)
qed simp

text \<open>
  (C6) A service action is requested at most once: however often the executor is killed and restarted
  while it works at a job, and whatever other tasks do to the store between its awaits, the service
  manager is asked at most once to act for the job, and only after the store holds that the job has
  left the queue.
\<close>

theorem service_called_at_most_once:
  assumes "reachable digest ts_text as_second ts_add (x_store x)" and "x_calls x = []"
    and "\<forall>ms \<in> set schedules. moves_ok digest ts_text as_second ts_add ms"
  shows "length (x_calls (service_attempts sv h c jid schedules x)) \<le> 1
    \<and> (\<forall>(s, call) \<in> set (x_calls (service_attempts sv h c jid schedules x)). started jid s)"
proof -
  have "called_once digest ts_text as_second ts_add jid (x\<lparr>x_moves := []\<rparr>)"
    using reachable_store_inv[OF assms(1)] assms(2) by (simp add: called_once_def moves_ok_def)
  from attempts_once[OF this assms(3)]
  have *: "called_once digest ts_text as_second ts_add jid (service_attempts sv h c jid schedules (x\<lparr>x_moves := []\<rparr>))" .
  show ?thesis
  proof (cases schedules)
    case Nil
    then show ?thesis using assms(2) by (simp add: service_attempts_def)
  next
    case (Cons ms rest)
    then have "service_attempts sv h c jid schedules (x\<lparr>x_moves := []\<rparr>) = service_attempts sv h c jid schedules x"
      by (simp add: service_attempts_def)
    then show ?thesis using * by (auto simp: called_once_def)
  qed
qed

theorem service_called_at_most_once_witness:
  "length (x_calls (service_attempts ex_service_serde ex_host ex_config ex_job [ex_quiet 15, ex_quiet 60] ex_exec)) \<le> 1
   \<and> x_calls (service_attempts ex_service_serde ex_host ex_config ex_job [ex_quiet 15, ex_quiet 60] ex_exec) \<noteq> []"
proof
  have "ex_reachable (x_store ex_exec)" "x_calls ex_exec = []" using ex_start_reachable by (simp_all add: ex_exec_def)
  moreover have "\<forall>ms \<in> set [ex_quiet 15, ex_quiet 60]. moves_ok ex_digest ex_text ex_second ex_add ms"
    by (simp add: moves_ok_def ex_quiet_def run.R_refl)
  ultimately show "length (x_calls (service_attempts ex_service_serde ex_host ex_config ex_job [ex_quiet 15, ex_quiet 60] ex_exec)) \<le> 1"
    using service_called_at_most_once by blast
  show "x_calls (service_attempts ex_service_serde ex_host ex_config ex_job [ex_quiet 15, ex_quiet 60] ex_exec) \<noteq> []"
    by code_simp
qed

section \<open>Commands\<close>

text \<open>
  (C9) A command runs within its profile: whatever the parameters of an accepted command are, its unit
  runs as the profile's user, for no longer than the profile, the request and the deadline allow, in
  the sandbox unless the profile is privileged; no parameter sets either property otherwise, and none
  reaches what the unit executes, which is the configured runner. The runner's specification asks only
  for allowed credentials, starts below a working root and keeps the profile's output limit.
\<close>

theorem command_within_profile:
  assumes "prepare_runner_spec canonicalize c params = Ok spec"
    and "launch_arguments as_second now c jid params deployment deadline = Ok arguments"
  shows "\<exists>profile timeout options. map_of (cf_profiles c) (er_profile params) = Some profile
    \<and> arguments = options @ [''--no-block'', ''--'', cf_runner c, ''--credential'', ''spec'', ''--output-directory'',
        path_join (cf_spool_root c) (job_id_str jid)]
    \<and> timeout \<le> pf_timeout_seconds profile
    \<and> (\<forall>t. er_timeout_seconds params = Some t \<longrightarrow> timeout \<le> t)
    \<and> (\<forall>d. deadline = Some d \<longrightarrow> int timeout \<le> as_second d - as_second now)
    \<and> (\<forall>opt \<in> set options. sets ''RuntimeMaxSec'' opt \<longrightarrow> opt = ''--property=RuntimeMaxSec='' @ nat_to_string timeout @ ''s'')
    \<and> (\<forall>opt \<in> set options. sets ''User'' opt \<longrightarrow> opt = ''--property=User='' @ pf_user profile)
    \<and> {''--property=RuntimeMaxSec='' @ nat_to_string timeout @ ''s'', ''--property=User='' @ pf_user profile} \<subseteq> set options
    \<and> (pf_privileged profile \<or> set sandbox_properties \<subseteq> set options)
    \<and> set (rn_credential_refs spec) \<subseteq> set (pf_allowed_credentials profile)
    \<and> rn_output_limit_bytes spec = pf_output_limit_bytes profile
    \<and> (\<forall>cwd. rn_cwd spec = Some cwd \<longrightarrow> (\<exists>canonical. canonicalize cwd = Some canonical
        \<and> (\<exists>base \<in> set (pf_working_roots profile). \<exists>b. canonicalize base = Some b \<and> path_starts_with canonical b)))"
proof -
  from assms(2) obtain profile timeout options where p: "map_of (cf_profiles c) (er_profile params) = Some profile"
    and t: "launch_timeout as_second now profile params deadline = Ok timeout"
    and o: "unit_options c jid profile deployment timeout (er_credential_refs params) = Ok options"
    and a: "arguments = options @ [''--no-block'', ''--'', cf_runner c, ''--credential'', ''spec'', ''--output-directory'',
        path_join (cf_spool_root c) (job_id_str jid)]"
    by (rule launch_arguments_ok)
  note bounds = launch_timeout_bounds[OF t] and spec = accepted_spec[OF assms(1) p] and opts = unit_options_set[OF o]
  have "timeout \<le> pf_timeout_seconds profile"
    using bounds(1,2) spec(1) by (cases "er_timeout_seconds params") (auto intro: le_trans)
  then show ?thesis
    apply (intro exI[of _ profile] exI[of _ timeout] exI[of _ options] conjI)
    using p a bounds(2,3) spec(2-4) opts by (blast | simp)+
qed

theorem command_within_profile_witness:
  "\<exists>spec arguments. prepare_runner_spec Some ex_config ex_params = Ok spec
    \<and> launch_arguments ex_second 0 ex_config ex_job ex_params False (Some 40000000000) = Ok arguments
    \<and> ''--property=User='' @ pf_user ex_profile \<in> set arguments"
proof -
  have "is_ok (prepare_runner_spec Some ex_config ex_params)"
    "is_ok (launch_arguments ex_second 0 ex_config ex_job ex_params False (Some 40000000000))" by code_simp+
  then obtain spec arguments where run: "prepare_runner_spec Some ex_config ex_params = Ok spec"
    "launch_arguments ex_second 0 ex_config ex_job ex_params False (Some 40000000000) = Ok arguments"
    by (auto simp: is_ok_def split: sum.splits)
  have profile: "map_of (cf_profiles ex_config) (er_profile ex_params) = Some ex_profile"
    by (simp add: ex_config_def ex_params_def)
  from command_within_profile[OF run] obtain profile options where "Some ex_profile = Some profile"
    "set options \<subseteq> set arguments" "''--property=User='' @ pf_user profile \<in> set options"
    unfolding profile by (metis insert_subset set_append sup_ge1)
  then have "''--property=User='' @ pf_user ex_profile \<in> set arguments" by blast
  with run show ?thesis by blast
qed

text \<open>
  An accepted command can be launched: with a configuration that passed validation, the
  executor's look-ups of the profile and of the credential sources, which panic on a missing key,
  succeed for every command whose specification was prepared, and it launches the unit unless the
  job's deadline has passed.
\<close>

theorem launch_never_panics:
  assumes "validate_config c = Ok ()" and "prepare_runner_spec canonicalize c params = Ok spec"
  shows "launch_arguments as_second now c jid params deployment deadline \<in> {Ok a | a. True} \<union> {Err ''job deadline already expired''}
    \<and> ((\<exists>a. launch_arguments as_second now c jid params deployment deadline = Ok a)
       \<longleftrightarrow> (case deadline of None \<Rightarrow> True | Some d \<Rightarrow> as_second now < as_second d))"
proof -
  from assms(2) obtain profile where p: "map_of (cf_profiles c) (er_profile params) = Some profile"
    and refs: "set (er_credential_refs params) \<subseteq> set (pf_allowed_credentials profile)"
    by (auto simp: prepare_runner_spec_def rbind_def ok_or_def list_all_iff split: option.splits if_splits sum.splits)
  have "\<exists>options. unit_options c jid profile deployment timeout (er_credential_refs params) = Ok options" for timeout
    by (rule unit_options_total) (use validated_credentials[OF assms(1) p] refs in blast)
  then obtain options where o: "\<And>timeout. unit_options c jid profile deployment timeout (er_credential_refs params) = Ok (options timeout)"
    by metis
  show ?thesis
    by (auto simp: launch_arguments_def p o ok_or_def rbind_def launch_timeout_def Let_def split: option.splits)
qed

theorem launch_never_panics_witness:
  "\<exists>a. launch_arguments ex_second 0 ex_config ex_job ex_params False (Some 40000000000) = Ok a"
proof -
  have ok: "validate_config ex_config = Ok ()" by code_simp
  have "is_ok (prepare_runner_spec Some ex_config ex_params)" by code_simp
  then obtain spec where run: "prepare_runner_spec Some ex_config ex_params = Ok spec"
    by (auto simp: is_ok_def split: sum.splits)
  show ?thesis using launch_never_panics[OF ok run] by (simp add: ex_second_def)
qed

text \<open>
  (C14) The result of a command is what happened: a completed run reports success exactly for exit
  code zero, stores of each stream its first bytes up to the limit, and counts what it kept and what
  it discarded.
\<close>

theorem run_result_truthful:
  assumes "run_spec e spec directory = Ok r"
  shows "\<exists>program arguments env child status.
    re_spawn e program arguments env (rn_cwd spec) = Ok child \<and> cp_wait child = Ok status
    \<and> rr_success r = (xs_code status = Some 0) \<and> rr_exit_code r = xs_code status \<and> rr_signal r = xs_signal status
    \<and> re_file e (path_join directory ''stdout.bin'') (take (rn_output_limit_bytes spec) (delivered (cp_stdout child))) = Ok ()
    \<and> re_file e (path_join directory ''stderr.bin'') (take (rn_output_limit_bytes spec) (delivered (cp_stderr child))) = Ok ()
    \<and> rr_stdout_bytes r \<le> rn_output_limit_bytes spec \<and> rr_stderr_bytes r \<le> rn_output_limit_bytes spec
    \<and> rr_stdout_bytes r + rr_stdout_discarded_bytes r = length (delivered (cp_stdout child))
    \<and> rr_stderr_bytes r + rr_stderr_discarded_bytes r = length (delivered (cp_stderr child))"
proof -
  from assms obtain program arguments env child status ob od eb ed where
    run: "re_spawn e program arguments env (rn_cwd spec) = Ok child" "cp_wait child = Ok status"
    and out: "bounded_output e (rn_output_limit_bytes spec) (path_join directory ''stdout.bin'') (cp_stdout child) = Ok (ob, od)"
    and err: "bounded_output e (rn_output_limit_bytes spec) (path_join directory ''stderr.bin'') (cp_stderr child) = Ok (eb, ed)"
    and r: "r = \<lparr>rr_success = status_success status, rr_exit_code = xs_code status, rr_signal = xs_signal status,
      rr_stdout_bytes = ob, rr_stderr_bytes = eb, rr_stdout_discarded_bytes = od, rr_stderr_discarded_bytes = ed,
      rr_completed_at = re_now e\<rparr>"
    by (rule run_spec_ok)
  show ?thesis
    using run bounded_output_ok[OF out] bounded_output_ok[OF err]
    by (intro exI[of _ program] exI[of _ arguments] exI[of _ env] exI[of _ child] exI[of _ status])
      (simp add: r status_success_def)
qed

definition ex_env :: runner_env where
  "ex_env = \<lparr>re_create_dir = (\<lambda>_. Ok ()), re_var = (\<lambda>_. Some ''/creds''),
     re_spawn = (\<lambda>_ _ _ _. Ok \<lparr>cp_stdout = [Inr ''abc'', Inr ''def'', Inr []], cp_stderr = [],
       cp_wait = Ok \<lparr>xs_code = Some 0, xs_signal = None\<rparr>\<rparr>),
     re_file = (\<lambda>_ _. Ok ()), re_now = 5\<rparr>"

theorem run_result_truthful_witness:
  "\<exists>spec r. prepare_runner_spec Some ex_config ex_params = Ok spec \<and> run_spec ex_env spec ''/out'' = Ok r
    \<and> rr_stdout_bytes r + rr_stdout_discarded_bytes r = 6"
proof -
  have "is_ok (rbind (prepare_runner_spec Some ex_config ex_params) (\<lambda>spec. run_spec ex_env spec ''/out''))" by code_simp
  then obtain spec r where run: "prepare_runner_spec Some ex_config ex_params = Ok spec" "run_spec ex_env spec ''/out'' = Ok r"
    by (auto simp: is_ok_def rbind_def split: sum.splits)
  from run_result_truthful[OF run(2)] have "rr_stdout_bytes r + rr_stdout_discarded_bytes r = 6"
    by (auto simp: ex_env_def delivered_def)
  with run show ?thesis by blast
qed

text \<open>
  (C30) A completion record is old or whole: wherever the wrapper is killed while it writes a record,
  the record's file has its earlier content or all of the new one, no other file but the temporary one
  is touched, and a wrapper that is not killed leaves the new record. The same holds of the
  specification that the executor writes for a wrapper.
\<close>

theorem record_old_or_whole:
  "crashed_files n torn (write_result_atomic parent path bytes) fs path = (if n \<le> 3 then fs path else Some bytes)
   \<and> crashed_files n torn (persist_runner_spec c jid bytes) fs (spec_path c jid) = (if n \<le> 3 then fs (spec_path c jid) else Some bytes)
   \<and> (q \<in> {path, with_extension path ''json.tmp''} \<or> crashed_files n torn (write_result_atomic parent path bytes) fs q = fs q)"
proof -
  let ?tmp = "with_extension path ''json.tmp''"
  have one: "write_result_atomic parent path bytes
      = [CreateFile ?tmp, WriteAll ?tmp bytes, SyncFile ?tmp, RenameFile ?tmp path] @ [SyncDirectory parent]"
    by (simp add: write_result_atomic_def Let_def)
  have two: "persist_runner_spec c jid bytes = [CreateFile (with_extension (spec_path c jid) ''json.tmp''),
      WriteAll (with_extension (spec_path c jid) ''json.tmp'') bytes, SyncFile (with_extension (spec_path c jid) ''json.tmp''),
      RenameFile (with_extension (spec_path c jid) ''json.tmp'') (spec_path c jid)] @ []"
    by (simp add: persist_runner_spec_def Let_def)
  have "crashed_files n torn (write_result_atomic parent path bytes) fs path = (if n \<le> 3 then fs path else Some bytes)"
    by (rule replace_atomic(1)[OF one _ with_extension_other]) simp
  moreover have "crashed_files n torn (persist_runner_spec c jid bytes) fs (spec_path c jid) = (if n \<le> 3 then fs (spec_path c jid) else Some bytes)"
    by (rule replace_atomic(1)[OF two _ with_extension_other]) simp
  moreover have "crashed_files n torn (write_result_atomic parent path bytes) fs q = fs q" if "q \<notin> {path, ?tmp}"
    by (rule replace_atomic(2)[OF one _ with_extension_other]) (use that in simp_all)
  ultimately show ?thesis by blast
qed

section \<open>Workspaces\<close>

text \<open>
  (C7) Edits stay in their revision: a batch of edits never follows a symbolic link, and whether it
  succeeds or fails at any point, what it changes lies below the revision and outside of every
  \<open>.git\<close>. When it succeeds, the regular files hold what a map from paths to contents holds after the
  edits in turn: every file that no edit names is as before, and no temporary file is left.
\<close>

theorem edits_refine_map:
  assumes "real_dir base (ts_root st)" and "apply_edits base {} edits st = (st', r)"
  shows "ts_escapes st' = ts_escapes st
    \<and> (\<forall>q. q \<notin> below_root base \<longrightarrow> view_at (ts_root st') q = view_at (ts_root st) q)
    \<and> (r = Ok () \<longrightarrow> contents (ts_root st') = fold (edit_contents base) (map fst edits) (contents (ts_root st)))"
  using tripleD[OF triple_apply_edits[of base "contents (ts_root st)" "{}" edits] assms(2)] assms(1) by blast

definition ex_edits :: "(WorkspaceEdit \<times> string) list" where
  "ex_edits = [(\<lparr>we_path = ''d/b'', we_content = Some ''new''\<rparr>, ''u''), (\<lparr>we_path = ''a'', we_content = None\<rparr>, ''v'')]"

lemma ex_base: "real_dir [''ws''] (ts_root ex_state)" "real_dir [''ws'', ''1''] (ts_root ex_state)"
  by (auto simp: real_dir_def dirs_above_def is_directory_def ex_state_def ex_tree_def less_Suc_eq)

theorem edits_refine_map_witness:
  "contents (ts_root (fst (apply_edits [''ws'', ''1''] {} ex_edits ex_state))) [''ws'', ''1'', ''d'', ''b''] = Some ''new''"
proof -
  have "apply_edits [''ws'', ''1''] {} ex_edits ex_state = (fst (apply_edits [''ws'', ''1''] {} ex_edits ex_state), Ok ())"
    by code_simp
  from edits_refine_map[OF ex_base(2) this]
  have eq: "contents (ts_root (fst (apply_edits [''ws'', ''1''] {} ex_edits ex_state))) =
      fold (edit_contents [''ws'', ''1'']) (map fst ex_edits) (contents (ts_root ex_state))" by blast
  have "path_parts ''d/b'' = [''d'', ''b'']" "path_parts ''a'' = [''a'']" by code_simp+
  then show ?thesis unfolding eq by (simp add: ex_edits_def edit_contents_def)
qed



end
