(* ===== verification/Executor_Params.thy ===== *)
theory Executor_Params
  imports Executor_Actions Job_Runner
begin

text \<open>
  What an executor accepts: the checks of deployment and workspace jobs against the store and the
  host, and the command that each kind of job runs (\<open>maxops-executor/src/deployment.rs\<close>, \<open>workspace.rs\<close>
  and \<open>main.rs\<close>).
\<close>

section \<open>The host\<close>

text \<open>
  What workers ask of the host. Predicates are answered without an await; \<open>None\<close> stands for any error
  that the code does not look at.
\<close>

record 'w target_host =
  th_is_dir :: "string \<Rightarrow> 'w \<Rightarrow> bool"
  th_exists :: "string \<Rightarrow> 'w \<Rightarrow> bool"
  th_canonicalize :: "string \<Rightarrow> 'w \<Rightarrow> string option"
  th_read_link :: "string \<Rightarrow> 'w \<Rightarrow> string option"
  th_read_text :: "string \<Rightarrow> 'w \<Rightarrow> string option"
  th_file :: "file_op \<Rightarrow> 'w \<Rightarrow> 'w \<times> (unit, string) result"
  th_read :: "string \<Rightarrow> 'w \<Rightarrow> 'w \<times> (string, string) result"
  th_read_at :: "string \<Rightarrow> nat \<Rightarrow> nat \<Rightarrow> 'w \<Rightarrow> 'w \<times> (string option, string) result"
  th_systemd_run :: "string list \<Rightarrow> 'w \<Rightarrow> 'w \<times> (bool, string) result"
  th_show :: "string list \<Rightarrow> 'w \<Rightarrow> 'w \<times> (bool \<times> string \<times> string, string) result"
  th_stop :: "string list \<Rightarrow> 'w \<Rightarrow> 'w \<times> (bool, string) result"

text \<open>The codecs that serde derives.\<close>

record target_serde =
  tv_exec :: "json \<Rightarrow> ExecRunParams option"
  tv_unit :: "json \<Rightarrow> UnitActionParams option"
  tv_create :: "json \<Rightarrow> WorkspaceCreateParams option"
  tv_check :: "json \<Rightarrow> WorkspaceCheckParams option"
  tv_publish :: "json \<Rightarrow> WorkspacePublishParams option"
  tv_deploy :: "json \<Rightarrow> DeploymentJobSpec option"
  tv_spec_bytes :: "RunnerSpec \<Rightarrow> string"
  tv_deploy_bytes :: "DeploymentRunnerSpec \<Rightarrow> string"
  tv_result_of :: "string \<Rightarrow> RunnerResult option"
  tv_result :: "RunnerResult \<Rightarrow> json"
  tv_report_of :: "string \<Rightarrow> DeploymentReport option"
  tv_report :: "DeploymentReport \<Rightarrow> json"

section \<open>Deployments\<close>

definition deployment_revision_tree :: "Config \<Rightarrow> DeploymentJobSpec \<Rightarrow> string" where
  "deployment_revision_tree c spec =
     path_join (path_join (path_join (path_join (cf_workspace_root c) (workspace_id_str (pl_workspace_id (dj_plan spec)))) ''revisions'')
       (nat_to_string (pl_workspace_revision (dj_plan spec)))) ''tree''"

definition generation_of_link :: "string \<Rightarrow> nat option" where
  "generation_of_link link =
     Option.bind (path_file_name link) (\<lambda>name.
     Option.bind (rsplit_once_str ''-link'' name) (\<lambda>(prefix, _).
     Option.bind (rsplit_once_str ''-'' prefix) (\<lambda>(_, generation). parse_usize generation)))"

definition observe_runtime ::
  "'w target_host \<Rightarrow> Config \<Rightarrow> string \<Rightarrow> string \<Rightarrow> ('w, 'c, RuntimeStateResponse) xact" where
  "observe_runtime h c who name =
     xbind (xensure [(who \<noteq> [], ''empty runtime observer identity'')]) (\<lambda>_.
     xbind (xlift (ok_or ''deployment profile is not configured'' (map_of (cf_deployment_profiles c) name))) (\<lambda>profile.
     xbind (xensure [(dx_target_host profile = cf_host c, ''deployment profile targets another host'')]) (\<lambda>_.
     xbind (xpeek (th_read_link h (dx_running_link profile))) (\<lambda>running.
     xbind (xpeek (th_read_link h (dx_profile_path profile))) (\<lambda>link.
     xbind (xpeek (th_canonicalize h (dx_profile_path profile))) (\<lambda>persistent.
     xbind (xpeek (th_read_text h ''/proc/sys/kernel/random/boot_id'')) (\<lambda>boot.
     xbind xclock (\<lambda>now.
     xret \<lparr>rs_host = cf_host c, rs_deployment_profile = name, rs_running_closure = running, rs_persistent_profile = persistent,
           rs_generation = Option.bind link generation_of_link,
           rs_boot_id = Option.bind boot (\<lambda>v. if trim v = [] then None else Some (trim v)), rs_observed_at = now\<rparr>))))))))"

definition validate_build_source ::
  "'w target_host \<Rightarrow> Config \<Rightarrow> NewJob \<Rightarrow> DeploymentJobSpec \<Rightarrow> ('w, 'c, unit) xact" where
  "validate_build_source h c job spec =
     (let plan = dj_plan spec in
      xbind (xensure [(contains_key (cf_repositories c) (pl_repository plan), ''deployment repository is not configured on builder''),
                      (nj_host job = cf_host c, ''deployment build targets another executor'')]) (\<lambda>_.
      xbind (xread (get_owned_workspace (nj_principal job) (pl_repository plan) (pl_workspace_id plan))) (\<lambda>workspace.
      xbind (xensure
        [(ws_executor workspace = cf_host c, ''workspace belongs to another executor''),
         (ws_revision workspace = pl_workspace_revision plan, ''workspace revision changed''),
         (ws_tree_hash workspace = pl_tree_hash plan, ''workspace tree changed''),
         (ws_commit_hash workspace = Some (pl_source_commit plan), ''workspace commit changed''),
         (ws_state workspace \<in> {Committed, Published}, ''workspace must be committed before deployment'')]) (\<lambda>_.
      xbind (xpeek (th_is_dir h (deployment_revision_tree c spec))) (\<lambda>present.
      xensure [(present, ''immutable workspace revision is unavailable'')])))))"

definition validate_artifact :: "Config \<Rightarrow> NewJob \<Rightarrow> DeploymentJobSpec \<Rightarrow> ('w, 'c, unit) xact" where
  "validate_artifact c job spec =
     (let plan = dj_plan spec in
      xbind (xensure [(nj_host job = cf_host c \<and> cf_host c = pl_target_host plan, ''deployment stage targets another host'')]) (\<lambda>_.
      xbind (xlift (ok_or ''deployment artifact is required'' (dj_artifact spec))) (\<lambda>artifact.
      xensure
        [(ar_source_commit artifact = pl_source_commit plan, ''artifact source changed''),
         (ar_tree_hash artifact = pl_tree_hash plan, ''artifact tree changed''),
         (pl_lock_digest plan = Some (ar_lock_digest artifact) \<and> pl_drv_path plan = Some (ar_drv_path artifact),
          ''artifact does not match prepared plan'')])))"

definition validate_deployment_job ::
  "'w target_host \<Rightarrow> target_serde \<Rightarrow> (timestamp \<Rightarrow> int) \<Rightarrow> Config \<Rightarrow> NewJob \<Rightarrow> ('w, 'c, DeploymentJobSpec) xact" where
  "validate_deployment_job h se as_second c job =
     xbind (xdecode (tv_deploy se (nj_spec job))) (\<lambda>spec.
     let plan = dj_plan spec in
     xbind (xensure [(operation_for (dj_action spec) = nj_operation job, ''deployment action does not match operation'')]) (\<lambda>_.
     xbind xclock (\<lambda>now.
     xbind (xensure [(as_second (pl_expires_at plan) \<ge> as_second now, ''deployment plan expired'')]) (\<lambda>_.
     xbind (xlift (ok_or ''deployment profile is not configured''
       (map_of (cf_deployment_profiles c) (pl_deployment_profile plan)))) (\<lambda>configured.
     xbind (xensure
       [(dx_repository configured = pl_repository plan, ''deployment repository changed''),
        (dx_target_host configured = pl_target_host plan, ''deployment target changed''),
        (dx_kind configured = pl_kind plan, ''deployment kind changed''),
        (dx_flake_attribute configured = pl_flake_attribute plan, ''deployment flake attribute changed'')]) (\<lambda>_.
     xbind (if dj_action spec \<in> {Prepare, Build} then validate_build_source h c job spec
            else validate_artifact c job spec) (\<lambda>_.
     xret spec)))))))"

definition stage_profile :: "DeploymentProfileConfig \<Rightarrow> DeploymentAction \<Rightarrow> string" where
  "stage_profile configured action =
     (case action of
        Prepare \<Rightarrow> dx_build_profile configured
      | Build \<Rightarrow> dx_build_profile configured
      | Activate \<Rightarrow> dx_activate_profile configured
      | Rollback \<Rightarrow> dx_activate_profile configured
      | Verify \<Rightarrow> dx_verify_profile configured)"

text \<open>The index \<open>deployment_profiles[..]\<close> panics on a missing key; validation has found it.\<close>

definition deployment_runner_params ::
  "'w target_host \<Rightarrow> target_serde \<Rightarrow> (timestamp \<Rightarrow> int) \<Rightarrow> Config \<Rightarrow> string \<Rightarrow> json \<Rightarrow> ('w, 'c, ExecRunParams) xact" where
  "deployment_runner_params h se as_second c who spec_value =
     xbind (xlift (ok_or ''invalid deployment action''
       (Option.bind (Option.bind (json_get ''action'' spec_value) json_as_str) operation_from_action))) (\<lambda>operation.
     xbind (validate_deployment_job h se as_second c
       \<lparr>nj_principal = who, nj_host = cf_host c, nj_operation = operation, nj_spec_version = 1, nj_spec = spec_value,
        nj_policy_version = [], nj_deadline = None\<rparr>) (\<lambda>spec.
     xbind (xlift (ok_or ''no entry found for key''
       (map_of (cf_deployment_profiles c) (pl_deployment_profile (dj_plan spec))))) (\<lambda>configured.
     xret \<lparr>er_host = cf_host c, er_profile = stage_profile configured (dj_action spec),
           er_command = Argv [cf_deploy_runner c, ''--credential'', ''deployment''],
           er_cwd = (if dj_action spec \<in> {Prepare, Build} then Some (deployment_revision_tree c spec) else None),
           er_env = [], er_credential_refs = [], er_timeout_seconds = None\<rparr>)))"

definition deployment_runner_spec :: "Config \<Rightarrow> DeploymentProfileConfig \<Rightarrow> DeploymentJobSpec \<Rightarrow> DeploymentRunnerSpec" where
  "deployment_runner_spec c configured spec =
     \<lparr>dr_job = spec, dr_nix = cf_nix c, dr_nix_env = cf_nix_env c, dr_profile_path = dx_profile_path configured,
      dr_running_link = dx_running_link configured, dr_activation_program = dx_activation_program configured,
      dr_activation_arguments = dx_activation_arguments configured, dr_artifact_source = dx_artifact_source configured,
      dr_verify_commands = dx_verify_commands configured, dr_verify_attempts = dx_verify_attempts configured,
      dr_verify_interval_seconds = dx_verify_interval_seconds configured, dr_automatic_rollback = dx_automatic_rollback configured\<rparr>"

text \<open>The operations on a file, one await each.\<close>

fun xfiles :: "'w target_host \<Rightarrow> file_op list \<Rightarrow> ('w, 'c, unit) xact" where
  "xfiles h [] = xret ()"
| "xfiles h (op # ops) = xbind (xworld (th_file h op)) (\<lambda>_. xfiles h ops)"

definition persist_deployment_spec :: "'w target_host \<Rightarrow> target_serde \<Rightarrow> Config \<Rightarrow> JobId \<Rightarrow> json \<Rightarrow> ('w, 'c, unit) xact" where
  "persist_deployment_spec h se c jid spec_value =
     xbind (xdecode (tv_deploy se spec_value)) (\<lambda>spec.
     xbind (xlift (ok_or ''deployment profile is not configured''
       (map_of (cf_deployment_profiles c) (pl_deployment_profile (dj_plan spec))))) (\<lambda>configured.
     let path = deployment_spec_path c jid; temporary = with_extension path ''json.tmp'' in
     xfiles h [CreateFile temporary, WriteAll temporary (tv_deploy_bytes se (deployment_runner_spec c configured spec)),
       SyncFile temporary, RenameFile temporary path]))"

section \<open>Workspace jobs\<close>

definition repository_config :: "Config \<Rightarrow> string \<Rightarrow> (RepositoryConfig, string) result" where
  "repository_config c name = ok_or ''repository is not configured'' (map_of (cf_repositories c) name)"

definition workspace_revision_directory :: "Config \<Rightarrow> WorkspaceId \<Rightarrow> nat \<Rightarrow> string" where
  "workspace_revision_directory c wid revision =
     path_join (path_join (path_join (cf_workspace_root c) (workspace_id_str wid)) ''revisions'') (nat_to_string revision)"

definition workspace_revision_tree :: "Config \<Rightarrow> WorkspaceId \<Rightarrow> nat \<Rightarrow> string" where
  "workspace_revision_tree c wid revision = path_join (workspace_revision_directory c wid revision) ''tree''"

definition validate_workspace_job :: "target_serde \<Rightarrow> Config \<Rightarrow> NewJob \<Rightarrow> ('w, 'c, unit) xact" where
  "validate_workspace_job se c job =
     (if nj_operation job = ''workspace.create'' then
        xbind (xdecode (tv_create se (nj_spec job))) (\<lambda>params.
        xbind (xlift (WorkspaceCreateParams_validate params)) (\<lambda>_.
        xbind (xlift (repository_config c (wc_repository params))) (\<lambda>_. xret ())))
      else if nj_operation job = ''workspace.check'' then
        xbind (xdecode (tv_check se (nj_spec job))) (\<lambda>params.
        xbind (xlift (WorkspaceCheckParams_validate params)) (\<lambda>_.
        xbind (xlift (repository_config c (wk_repository params))) (\<lambda>repository.
        xbind (xensure [(contains_key (rc_checks repository) (wk_check params), ''workspace check is not configured'')]) (\<lambda>_.
        xbind (xread (get_owned_workspace (nj_principal job) (wk_repository params) (wk_workspace_id params))) (\<lambda>workspace.
        xensure [(ws_revision workspace = wk_expected_revision params, ''workspace revision changed'')])))))
      else if nj_operation job = ''workspace.publish'' then
        xbind (xdecode (tv_publish se (nj_spec job))) (\<lambda>params.
        xbind (xlift (WorkspacePublishParams_validate params)) (\<lambda>_.
        xbind (xlift (repository_config c (wp_repository params))) (\<lambda>repository.
        xbind (xensure [(wp_reference params \<in> set (rc_publish_refs repository), ''publish ref is not configured'')]) (\<lambda>_.
        xbind (xread (get_owned_workspace (nj_principal job) (wp_repository params) (wp_workspace_id params))) (\<lambda>workspace.
        xensure [(ws_revision workspace = wp_expected_revision params, ''workspace revision changed''),
                 (ws_commit_hash workspace \<noteq> None, ''workspace has no commit to publish'')])))))
      else xfail ''unsupported workspace job'')"

definition check_exec_params ::
  "'w target_host \<Rightarrow> target_serde \<Rightarrow> Config \<Rightarrow> string \<Rightarrow> json \<Rightarrow> ('w, 'c, ExecRunParams) xact" where
  "check_exec_params h se c who spec =
     xbind (xdecode (tv_check se spec)) (\<lambda>params.
     xbind (xlift (WorkspaceCheckParams_validate params)) (\<lambda>_.
     xbind (xlift (repository_config c (wk_repository params))) (\<lambda>repository.
     xbind (xread (get_owned_workspace who (wk_repository params) (wk_workspace_id params))) (\<lambda>workspace.
     xbind (xensure [(ws_revision workspace = wk_expected_revision params, ''workspace revision changed'')]) (\<lambda>_.
     xbind (xlift (ok_or ''workspace check is not configured'' (map_of (rc_checks repository) (wk_check params)))) (\<lambda>argv.
     xbind (xpeek (th_canonicalize h (workspace_revision_tree c (wk_workspace_id params) (wk_expected_revision params)))) (\<lambda>found.
     xbind (xlift (ok_or ''No such file or directory (os error 2)'' found)) (\<lambda>canonical.
     xbind (xpeek (th_canonicalize h (cf_workspace_root c))) (\<lambda>found.
     xbind (xlift (ok_or ''No such file or directory (os error 2)'' found)) (\<lambda>root.
     xbind (xensure [(path_starts_with canonical root, ''workspace check path escaped workspace root'')]) (\<lambda>_.
     xret \<lparr>er_host = cf_host c, er_profile = rc_check_profile repository, er_command = Argv argv, er_cwd = Some canonical,
           er_env = [], er_credential_refs = [], er_timeout_seconds = None\<rparr>)))))))))))"

section \<open>The command of a job\<close>

definition runner_params ::
  "'w target_host \<Rightarrow> target_serde \<Rightarrow> (timestamp \<Rightarrow> int) \<Rightarrow> Config \<Rightarrow> string \<Rightarrow> string \<Rightarrow> json \<Rightarrow> ('w, 'c, ExecRunParams) xact" where
  "runner_params h se as_second c who operation spec =
     (if operation = ''workspace.check'' then check_exec_params h se c who spec
      else if is_deployment_job operation then deployment_runner_params h se as_second c who spec
      else
        xbind (xensure [(operation = ''exec.run'', ''unsupported runner job'')]) (\<lambda>_.
        xbind (xdecode (tv_exec se spec)) (\<lambda>params.
        xbind (xlift (ExecRunParams_validate params)) (\<lambda>_.
        xbind (xensure [(er_host params = cf_host c, ''command targets another host'')]) (\<lambda>_.
        xret params)))))"

text \<open>
  The specification that is stored for the wrapper: deployments get the credentials directory and a
  home in their spool directory.
\<close>

definition spec_for_job :: "Config \<Rightarrow> JobId \<Rightarrow> string \<Rightarrow> RunnerSpec \<Rightarrow> RunnerSpec" where
  "spec_for_job c jid operation prepared =
     (if is_deployment_job operation
      then prepared\<lparr>rn_pass_credentials_directory := True,
             rn_env := btree_insert ''HOME'' (path_join (cf_spool_root c) (job_id_str jid)) (rn_env prepared)\<rparr>
      else prepared\<lparr>rn_pass_credentials_directory := False\<rparr>)"

definition prepare_command ::
  "'w target_host \<Rightarrow> target_serde \<Rightarrow> (timestamp \<Rightarrow> int) \<Rightarrow> Config \<Rightarrow> JobId \<Rightarrow> string \<Rightarrow> string \<Rightarrow> json \<Rightarrow>
   ('w, 'c, ExecRunParams \<times> RunnerSpec) xact" where
  "prepare_command h se as_second c jid who operation spec =
     xbind (runner_params h se as_second c who operation spec) (\<lambda>params.
     xbind (xpeek (\<lambda>w. prepare_runner_spec (\<lambda>p. th_canonicalize h p w) c params)) (\<lambda>prepared.
     xbind (xlift prepared) (\<lambda>prepared.
     xret (params, spec_for_job c jid operation prepared))))"

definition persist_command ::
  "'w target_host \<Rightarrow> target_serde \<Rightarrow> Config \<Rightarrow> JobId \<Rightarrow> string \<Rightarrow> json \<Rightarrow> RunnerSpec \<Rightarrow> ('w, 'c, unit) xact" where
  "persist_command h se c jid operation spec prepared =
     xbind (xfiles h (persist_runner_spec c jid (tv_spec_bytes se prepared))) (\<lambda>_.
     if is_deployment_job operation then persist_deployment_spec h se c jid spec else xret ())"

end
