(* ===== verification/Executor_Commands.thy ===== *)
theory Executor_Commands
  imports Executor_Params Executor_Services
begin

text \<open>
  Command jobs (\<open>maxops-executor/src/main.rs\<close>): their submission, the launch of their transient units,
  the reconciliation of stored states with units and completion records, and their recovery after a
  restart.
\<close>

section \<open>Units\<close>

datatype command_call = LaunchUnit JobId "string list"

type_synonym ('w, 'a) command_act = "('w, command_call, 'a) xact"

definition launch :: "'w target_host \<Rightarrow> (timestamp \<Rightarrow> int) \<Rightarrow> Config \<Rightarrow> JobId \<Rightarrow> ExecRunParams \<Rightarrow> timestamp option \<Rightarrow> ('w, unit) command_act" where
  "launch h as_second c jid params deadline =
     xbind xclock (\<lambda>now.
     xbind (xpeek (th_exists h (deployment_spec_path c jid))) (\<lambda>deployment.
     xbind (xlift (launch_arguments as_second now c jid params deployment deadline)) (\<lambda>arguments.
     xbind (xcall (LaunchUnit jid arguments) (th_systemd_run h arguments)) (\<lambda>success.
     xensure [(success, ''systemd-run failed'')]))))"

record UnitState =
  un_active_state :: string
  un_result :: string
  un_invocation_id :: string

text \<open>\<open>str::lines\<close>.\<close>

definition strip_return :: "string \<Rightarrow> string" where
  "strip_return l = (if l \<noteq> [] \<and> last l = CHR 0x0D then butlast l else l)"

definition str_lines :: "string \<Rightarrow> string list" where
  "str_lines s =
     (let parts = split_at_char (CHR 0x0A) s in
      map strip_return (if parts \<noteq> [] \<and> last parts = [] then butlast parts else parts))"

definition unit_state_of_text :: "string \<Rightarrow> UnitState" where
  "unit_state_of_text text =
     (let properties = map_of (rev (List.map_filter (split_once (CHR ''='')) (str_lines text)));
          get = (\<lambda>k d. case properties k of None \<Rightarrow> d | Some v \<Rightarrow> v) in
      \<lparr>un_active_state = get ''ActiveState'' ''unknown'', un_result = get ''Result'' ''unknown'',
       un_invocation_id = get ''InvocationID'' []\<rparr>)"

definition systemd_state :: "'w target_host \<Rightarrow> JobId \<Rightarrow> ('w, 'c, UnitState option) xact" where
  "systemd_state h jid =
     xbind (xworld (th_show h [''show'', unit_name jid, ''--no-pager'', ''--property=ActiveState'',
              ''--property=Result'', ''--property=InvocationID''])) (\<lambda>(success, stdout, stderr).
     if \<not> success
     then
       if str_contains (to_ascii_lowercase stderr) ''not found'' \<or> str_contains (to_ascii_lowercase stderr) ''could not be found''
       then xret None else xfail ''systemd unit state unavailable''
     else if \<not> utf8_valid stdout then xfail ''invalid utf-8 sequence''
     else xret (Some (unit_state_of_text stdout)))"

section \<open>Reconciliation\<close>

definition spool_path :: "Config \<Rightarrow> JobId \<Rightarrow> string \<Rightarrow> string" where
  "spool_path c jid name = path_join (path_join (cf_spool_root c) (job_id_str jid)) name"

definition finish_from_record ::
  "'w target_host \<Rightarrow> target_serde \<Rightarrow> Config \<Rightarrow> JobId \<Rightarrow> JobRecord \<Rightarrow> string \<Rightarrow> ('w, 'c, JobRecord) xact" where
  "finish_from_record h se c jid job bytes =
     xbind (xdecode (tv_result_of se bytes)) (\<lambda>result.
     xbind (if is_deployment_job (h_operation (job_handle job))
            then xtry (xworld (th_read h (spool_path c jid ''stdout.bin''))) (\<lambda>out.
              xret (JObject [(''runner'', tv_result se result),
                (''deployment'', jopt (tv_report se)
                   (case out of
                      Inl _ \<Rightarrow> None
                    | Inr b \<Rightarrow> if length b \<le> 64 * 1024 then tv_report_of se b else None))]))
            else xret (tv_result se result)) (\<lambda>value.
     move_job jid job (if rr_success result then Succeeded else Failed)
       (JObject [(''completion'', JString ''runner_result'')]) (Some value)))"

definition reconcile_unit :: "JobId \<Rightarrow> JobRecord \<Rightarrow> UnitState \<Rightarrow> ('w, 'c, JobRecord) xact" where
  "reconcile_unit jid job unit =
     (let unit_result = JObject [(''unit_result'', JString (un_result unit))] in
      if un_active_state unit \<in> {''active'', ''activating'', ''reloading''} then xret job
      else if un_active_state unit = ''failed''
      then move_job jid job (if un_result unit = ''timeout'' then TimedOut else Failed)
             (JObject [(''unit_result'', JString (un_result unit)), (''invocation_id'', JString (un_invocation_id unit))])
             (Some unit_result)
      else if un_active_state unit = ''inactive'' \<and> job_cancel_requested job
      then move_job jid job Cancelled unit_result (Some (JObject [(''cancelled'', JBool True)]))
      else if un_active_state unit = ''inactive'' \<and> h_state (job_handle job) = Reconciling
      then move_job jid job OutcomeUnknown unit_result (Some (JObject [(''effect'', JString ''unknown'')]))
      else if un_active_state unit = ''inactive'' \<and> h_state (job_handle job) \<in> {Running, Dispatching}
      then move_job jid job Reconciling unit_result None
      else xret job)"

definition reconcile_missing :: "JobId \<Rightarrow> JobRecord \<Rightarrow> ('w, 'c, JobRecord) xact" where
  "reconcile_missing jid job =
     (if h_state (job_handle job) = Reconciling
      then move_job jid job OutcomeUnknown (JObject [(''reason'', JString ''unit and completion record unavailable'')])
             (Some (JObject [(''effect'', JString ''unknown'')]))
      else if h_state (job_handle job) \<in> {Running, Dispatching}
      then move_job jid job Reconciling (JObject [(''reason'', JString ''unit temporarily unavailable'')]) None
      else xret job)"

definition reconcile_runner_state ::
  "'w target_host \<Rightarrow> target_serde \<Rightarrow> Config \<Rightarrow> JobId \<Rightarrow> ('w, 'c, JobRecord) xact" where
  "reconcile_runner_state h se c jid =
     xbind (xread (get_job jid)) (\<lambda>job.
     if JobState_is_terminal (h_state (job_handle job)) \<and> h_state (job_handle job) \<noteq> OutcomeUnknown then xret job
     else
       xtry (xworld (th_read h (spool_path c jid ''result.json''))) (\<lambda>record.
       case record of
         Inr bytes \<Rightarrow> finish_from_record h se c jid job bytes
       | Inl _ \<Rightarrow>
           xbind (systemd_state h jid) (\<lambda>unit.
           case unit of Some unit \<Rightarrow> reconcile_unit jid job unit | None \<Rightarrow> reconcile_missing jid job)))"

definition release_if_serialized :: "Config \<Rightarrow> JobId \<Rightarrow> JobRecord \<Rightarrow> ('w, 'c, unit) xact" where
  "release_if_serialized c jid job =
     (if serializes_host_changes (h_operation (job_handle job)) then release_manager c jid else xret ())"

definition reconcile_once :: "'w target_host \<Rightarrow> target_serde \<Rightarrow> Config \<Rightarrow> JobId \<Rightarrow> ('w, 'c, JobRecord) xact" where
  "reconcile_once h se c jid =
     xbind (xtry (reconcile_runner_state h se c jid) (\<lambda>r.
       case r of
         Inr job \<Rightarrow> xret job
       | Inl e \<Rightarrow> if str_contains (report_text e) ''job revision changed'' then xread (get_job jid) else (\<lambda>x. (x, Err e)))) (\<lambda>job.
     xbind (if JobState_is_terminal (h_state (job_handle job)) then release_if_serialized c jid job else xret ()) (\<lambda>_.
     xret job))"

text \<open>The argument bounds the rounds; a round uses up at least one await.\<close>

primrec monitor_loop :: "nat \<Rightarrow> 'w target_host \<Rightarrow> target_serde \<Rightarrow> Config \<Rightarrow> JobId \<Rightarrow> ('w, 'c, unit) xact" where
  "monitor_loop 0 h se c jid = (\<lambda>x. (x, Err crashed))"
| "monitor_loop (Suc rounds) h se c jid =
     xtry (reconcile_once h se c jid) (\<lambda>r.
     if (case r of Inr job \<Rightarrow> JobState_is_terminal (h_state (job_handle job)) | Inl _ \<Rightarrow> False) then xret ()
     else xbind xsleep (\<lambda>_. monitor_loop rounds h se c jid))"

definition monitor :: "'w target_host \<Rightarrow> target_serde \<Rightarrow> Config \<Rightarrow> JobId \<Rightarrow> ('w, 'c, unit) xact" where
  "monitor h se c jid = (\<lambda>x. monitor_loop (length (x_moves x)) h se c jid x)"

section \<open>Recovery\<close>

primrec wait_host_lock :: "nat \<Rightarrow> Config \<Rightarrow> JobId \<Rightarrow> ('w, 'c, JobRecord) xact" where
  "wait_host_lock 0 c jid = (\<lambda>x. (x, Err crashed))"
| "wait_host_lock (Suc rounds) c jid =
     xbind (xstore (\<lambda>now. try_acquire_resource now ''systemd_manager'' (cf_host c) jid)) (\<lambda>acquired.
     xbind (xread (get_job jid)) (\<lambda>job.
     let release = (if acquired then release_manager c jid else xret ()) in
     if JobState_is_terminal (h_state (job_handle job)) then xbind release (\<lambda>_. xret job)
     else
       xbind xclock (\<lambda>now.
       if h_state (job_handle job) = Queued \<and> deadline_passed job now
       then xbind (move_job jid job TimedOut (phase ''host_queue'' [])
              (Some (JObject [(''error'', JString ''deadline_expired_before_deployment'')]))) (\<lambda>ended.
            xbind release (\<lambda>_. xret ended))
       else if h_state (job_handle job) = Queued \<and> job_cancel_requested job
       then xbind (move_job jid job Cancelled (phase ''host_queue'' []) (Some not_started)) (\<lambda>ended.
            xbind release (\<lambda>_. xret ended))
       else if acquired then xret job
       else xbind xsleep (\<lambda>_. wait_host_lock rounds c jid))))"

definition wait_for_command_resource :: "Config \<Rightarrow> JobId \<Rightarrow> ('w, 'c, JobRecord) xact" where
  "wait_for_command_resource c jid =
     xbind (xread (get_job jid)) (\<lambda>job.
     if \<not> serializes_host_changes (h_operation (job_handle job)) then xret job
     else (\<lambda>x. wait_host_lock (length (x_moves x)) c jid x))"

definition record_command_worker_error :: "Config \<Rightarrow> JobId \<Rightarrow> ('w, 'c, unit) xact" where
  "record_command_worker_error c jid =
     xbind (xread (get_job jid)) (\<lambda>job.
     if JobState_is_terminal (h_state (job_handle job)) then release_if_serialized c jid job
     else
       xbind (if h_state (job_handle job) \<in> {Dispatching, Running}
              then move_job jid job Reconciling
                     (phase ''executor_error'' [(''effect'', JString ''may_have_started'')]) (job_result job)
              else xret job) (\<lambda>job.
       let uncertain = h_state (job_handle job) = Reconciling;
           effect = (if uncertain then ''unknown'' else ''not_started'') in
       xbind (move_job jid job (if uncertain then OutcomeUnknown else Failed) (phase ''executor_error'' [(''effect'', JString effect)])
         (Some (JObject [(''error'', JString ''command_worker_failed''), (''effect'', JString effect)]))) (\<lambda>ended.
       release_if_serialized c jid ended)))"

definition recovered_unit :: "JobId \<Rightarrow> json" where
  "recovered_unit jid = JObject [(''unit'', JString (unit_name jid)), (''recovered'', JBool True)]"

definition recover_queued ::
  "'w target_host \<Rightarrow> target_serde \<Rightarrow> (timestamp \<Rightarrow> int) \<Rightarrow> Config \<Rightarrow> JobId \<Rightarrow> JobRecord \<Rightarrow> ('w, unit) command_act" where
  "recover_queued h se as_second c jid job =
     xbind (prepare_command h se as_second c jid (job_principal job) (h_operation (job_handle job)) (job_spec job)) (\<lambda>(params, prepared).
     xbind (persist_command h se c jid (h_operation (job_handle job)) (job_spec job) prepared) (\<lambda>_.
     xbind (move_job jid job Dispatching (JObject [(''recovered'', JBool True), (''launcher'', JString ''systemd'')]) None) (\<lambda>dispatching.
     xbind (launch h as_second c jid params (job_deadline job)) (\<lambda>_.
     xbind (move_job jid dispatching Running (recovered_unit jid) None) (\<lambda>_. xret ())))))"

definition recover_dispatching ::
  "'w target_host \<Rightarrow> target_serde \<Rightarrow> (timestamp \<Rightarrow> int) \<Rightarrow> Config \<Rightarrow> JobId \<Rightarrow> JobRecord \<Rightarrow> ('w, unit) command_act" where
  "recover_dispatching h se as_second c jid job =
     xbind (systemd_state h jid) (\<lambda>unit.
     case unit of
       Some unit \<Rightarrow>
         if un_active_state unit \<in> {''active'', ''activating'', ''reloading''}
         then xbind (move_job jid job Running (recovered_unit jid) None) (\<lambda>_. xret ())
         else xbind (reconcile_once h se c jid) (\<lambda>_. xret ())
     | None \<Rightarrow>
         xbind (prepare_command h se as_second c jid (job_principal job) (h_operation (job_handle job)) (job_spec job)) (\<lambda>(params, prepared).
         xbind (persist_command h se c jid (h_operation (job_handle job)) (job_spec job) prepared) (\<lambda>_.
         xbind (launch h as_second c jid params (job_deadline job)) (\<lambda>_.
         xbind (move_job jid job Running (recovered_unit jid) None) (\<lambda>_. xret ())))))"

text \<open>The task that \<open>recover_job\<close> spawns for a command job.\<close>

definition command_worker ::
  "'w target_host \<Rightarrow> target_serde \<Rightarrow> (timestamp \<Rightarrow> int) \<Rightarrow> Config \<Rightarrow> JobId \<Rightarrow> ('w, unit) command_act" where
  "command_worker h se as_second c jid =
     xtry (wait_for_command_resource c jid) (\<lambda>r.
     case r of
       Inl _ \<Rightarrow> xignore (record_command_worker_error c jid)
     | Inr job \<Rightarrow>
         if JobState_is_terminal (h_state (job_handle job)) then xret ()
         else
           xtry (if h_state (job_handle job) = Queued then recover_queued h se as_second c jid job
                 else if h_state (job_handle job) = Dispatching then recover_dispatching h se as_second c jid job
                 else xret ()) (\<lambda>recovered.
           case recovered of
             Inl _ \<Rightarrow> xignore (record_command_worker_error c jid)
           | Inr _ \<Rightarrow> monitor h se c jid))"

section \<open>Submission\<close>

text \<open>The task that a request leaves behind.\<close>

datatype spawned = NoTask | ServiceTask | WorkspaceTask | CommandTask | MonitorTask

definition recover_task :: "string \<Rightarrow> spawned" where
  "recover_task operation =
     (if ServiceAction_from_operation operation \<noteq> None then ServiceTask
      else if is_workspace_job operation \<and> operation \<noteq> ''workspace.check'' then WorkspaceTask
      else CommandTask)"

definition fail_job :: "JobId \<Rightarrow> JobRecord \<Rightarrow> json \<Rightarrow> json \<Rightarrow> ('w, 'c, ExecutorResponse \<times> spawned) xact" where
  "fail_job jid job payload result =
     xbind (move_job jid job Failed payload (Some result)) (\<lambda>failed. xret (RespJob failed, NoTask))"

definition start_submitted ::
  "'w target_host \<Rightarrow> (timestamp \<Rightarrow> int) \<Rightarrow> Config \<Rightarrow> JobId \<Rightarrow> NewJob \<Rightarrow> ExecRunParams \<Rightarrow> JobRecord \<Rightarrow>
   ('w, ExecutorResponse \<times> spawned) command_act" where
  "start_submitted h as_second c jid new params dispatching =
     xtry (launch h as_second c jid params (nj_deadline new)) (\<lambda>r.
     case r of
       Inl _ \<Rightarrow> fail_job jid dispatching (phase ''launch'' []) (phase ''launch'' [(''error'', JString ''executor launch failed'')])
     | Inr _ \<Rightarrow>
         xbind (move_job jid dispatching Running (JObject [(''unit'', JString (unit_name jid))]) None) (\<lambda>running.
         xret (RespJob running, MonitorTask)))"

definition dispatch_submitted ::
  "'w target_host \<Rightarrow> target_serde \<Rightarrow> (timestamp \<Rightarrow> int) \<Rightarrow> Config \<Rightarrow> JobId \<Rightarrow> NewJob \<Rightarrow> JobRecord \<Rightarrow> ExecRunParams \<Rightarrow> RunnerSpec \<Rightarrow>
   ('w, ExecutorResponse \<times> spawned) command_act" where
  "dispatch_submitted h se as_second c jid new job params prepared =
     xtry (persist_command h se c jid (nj_operation new) (nj_spec new) prepared) (\<lambda>r.
     case r of
       Inl _ \<Rightarrow> fail_job jid job (phase ''prepare'' [])
                   (phase ''prepare'' [(''error'', JString ''target could not persist the job specification'')])
     | Inr _ \<Rightarrow>
         if serializes_host_changes (nj_operation new) then xret (RespJob job, recover_task (h_operation (job_handle job)))
         else
           xbind (move_job jid job Dispatching (JObject [(''launcher'', JString ''systemd'')]) None)
             (start_submitted h as_second c jid new params))"

definition submit_command_job ::
  "'w target_host \<Rightarrow> target_serde \<Rightarrow> (timestamp \<Rightarrow> int) \<Rightarrow> Config \<Rightarrow> JobId \<Rightarrow> NewJob \<Rightarrow> SubmitResult \<Rightarrow>
   ('w, ExecutorResponse \<times> spawned) command_act" where
  "submit_command_job h se as_second c jid new accepted =
     (let job = sub_job accepted in
      if \<not> sub_created accepted then xret (RespJob job, recover_task (h_operation (job_handle job)))
      else
        xtry (prepare_command h se as_second c jid (nj_principal new) (nj_operation new) (nj_spec new)) (\<lambda>r.
        case r of
          Inl _ \<Rightarrow> fail_job jid job (phase ''validation'' [])
                      (phase ''validation'' [(''error'', JString ''job is not permitted by the target profile'')])
        | Inr (params, prepared) \<Rightarrow> dispatch_submitted h se as_second c jid new job params prepared))"

definition service_job_permitted :: "target_serde \<Rightarrow> Config \<Rightarrow> NewJob \<Rightarrow> (unit, string) result" where
  "service_job_permitted se c new =
     rbind (ok_or ''invalid value'' (tv_unit se (nj_spec new))) (\<lambda>params.
     rbind (UnitActionParams_validate params) (\<lambda>_.
     ensure_all [(ua_host params = cf_host c, ''service action targets another host''),
                 (ua_unit params \<in> set (cf_manageable_units c), ''service is not manageable'')]))"

definition submit_job ::
  "'w target_host \<Rightarrow> target_serde \<Rightarrow> (json \<Rightarrow> string) \<Rightarrow> (timestamp \<Rightarrow> int) \<Rightarrow> Config \<Rightarrow> JobId \<Rightarrow> NewJob \<Rightarrow>
   ('w, ExecutorResponse \<times> spawned) command_act" where
  "submit_job h se digest as_second c jid new =
     (let operation = nj_operation new in
      xbind (xensure [(nj_host new = cf_host c, ''job targets another host''),
        (operation = ''exec.run'' \<or> ServiceAction_from_operation operation \<noteq> None \<or> is_workspace_job operation
           \<or> is_deployment_job operation, ''unsupported executor operation'')]) (\<lambda>_.
      xbind (xstore (\<lambda>now. accept_job digest now jid new)) (\<lambda>accepted.
      let job = sub_job accepted;
          task = (\<lambda>t. if JobState_is_terminal (h_state (job_handle job)) then NoTask else t) in
      if ServiceAction_from_operation operation \<noteq> None then
        if sub_created accepted \<and> isl (service_job_permitted se c new)
        then fail_job jid job (phase ''validation'' [])
               (phase ''validation'' [(''error'', JString ''service action is not permitted by the target'')])
        else xret (RespJob job, task ServiceTask)
      else if is_workspace_job operation then
        xtry (if sub_created accepted then validate_workspace_job se c new else xret ()) (\<lambda>r.
        case r of
          Inl _ \<Rightarrow> fail_job jid job (phase ''validation'' [])
                      (JObject [(''error'', JString ''workspace job is not permitted by the target'')])
        | Inr _ \<Rightarrow>
            if operation = ''workspace.check'' then submit_command_job h se as_second c jid new accepted
            else xret (RespJob job, task WorkspaceTask))
      else if is_deployment_job operation then
        xtry (if sub_created accepted
              then xbind (validate_deployment_job h se as_second c new) (\<lambda>_. xret ()) else xret ()) (\<lambda>r.
        case r of
          Inl _ \<Rightarrow> fail_job jid job (phase ''validation'' [])
                      (JObject [(''error'', JString ''deployment job is not permitted by the target'')])
        | Inr _ \<Rightarrow> submit_command_job h se as_second c jid new accepted)
      else submit_command_job h se as_second c jid new accepted)))"

section \<open>Cancellation and output\<close>

definition cancel_command_job :: "'w target_host \<Rightarrow> Config \<Rightarrow> JobRecord \<Rightarrow> JobCancelParams \<Rightarrow> ('w, 'c, JobRecord) xact" where
  "cancel_command_job h c existing params =
     (let jid = jc_job_id params;
          request = xstore (\<lambda>now. request_cancel now jid (jc_expected_revision params) (jc_reason params)) in
      if serializes_host_changes (h_operation (job_handle existing))
      then
        xbind (xensure [(h_state (job_handle existing) = Queued,
          ''active deployment cancellation requires an explicit recovery or rollback'')]) (\<lambda>_.
        xbind request (\<lambda>requested.
        xbind (move_job jid requested Cancelled (phase ''host_queue'' []) (Some not_started)) (\<lambda>cancelled.
        xbind (xignore (release_manager c jid)) (\<lambda>_. xret cancelled))))
      else
        xbind request (\<lambda>requested.
        xbind (xworld (th_stop h [''stop'', unit_name jid])) (\<lambda>success.
        xbind (xensure [(success, ''systemd did not accept cancellation'')]) (\<lambda>_.
        move_job jid requested Cancelled (JObject [(''unit'', JString (unit_name jid))])
          (Some (JObject [(''cancelled'', JBool True)]))))))"

text \<open>\<open>base64\<close> is the encoder of another crate; \<open>th_read_at\<close> gives \<open>None\<close> for a missing file.\<close>

definition discarded_bytes :: "JobRecord \<Rightarrow> string \<Rightarrow> nat" where
  "discarded_bytes job k =
     (case Option.bind (job_result job) (json_get k) of Some (JNumber (PosInt n)) \<Rightarrow> n | _ \<Rightarrow> 0)"

definition read_logs ::
  "(string \<Rightarrow> string) \<Rightarrow> 'w target_host \<Rightarrow> Config \<Rightarrow> JobRecord \<Rightarrow> JobLogsParams \<Rightarrow> ('w, 'c, JobLogsResponse) xact" where
  "read_logs base64 h c job params =
     (let path = spool_path c (jlog_job_id params);
          read = (\<lambda>name offset. xbind (xworld (th_read_at h (path name) offset (jlog_limit params))) (\<lambda>found.
            xret (case found of None \<Rightarrow> [] | Some bytes \<Rightarrow> bytes))) in
      xbind (xensure [(1 \<le> jlog_limit params \<and> jlog_limit params \<le> 64 * 1024, ''invalid output read limit'')]) (\<lambda>_.
      xbind (read ''stdout.bin'' (jlog_stdout_offset params)) (\<lambda>stdout.
      xbind (read ''stderr.bin'' (jlog_stderr_offset params)) (\<lambda>stderr.
      xret \<lparr>jlr_job_id = jlog_job_id params, jlr_encoding = ''base64'', jlr_stdout_base64 = base64 stdout,
            jlr_stderr_base64 = base64 stderr, jlr_next_stdout_offset = jlog_stdout_offset params + length stdout,
            jlr_next_stderr_offset = jlog_stderr_offset params + length stderr,
            jlr_complete = JobState_is_terminal (h_state (job_handle job)),
            jlr_truncated = (discarded_bytes job ''stdout_discarded_bytes'' > 0 \<or> discarded_bytes job ''stderr_discarded_bytes'' > 0)\<rparr>))))"

end
