(* ===== verification/Executor_Command_Facts.thy ===== *)
theory Executor_Command_Facts
  imports Executor_Commands Executor_Facts Job_Runner_Facts
begin

text \<open>
  What the command workers keep, whatever other tasks and the host do between their awaits: a unit is
  launched only for a job that is durably dispatched, and only within its profile.
\<close>

section \<open>Launches\<close>

definition unit_within :: "Config \<Rightarrow> JobId \<Rightarrow> string list \<Rightarrow> bool" where
  "unit_within c jid arguments \<longleftrightarrow> (\<exists>name profile timeout options.
     map_of (cf_profiles c) name = Some profile \<and> timeout \<le> pf_timeout_seconds profile
     \<and> arguments = options @ [''--no-block'', ''--'', cf_runner c, ''--credential'', ''spec'', ''--output-directory'',
         path_join (cf_spool_root c) (job_id_str jid)]
     \<and> ''--property=RuntimeMaxSec='' @ nat_to_string timeout @ ''s'' \<in> set options
     \<and> ''--property=User='' @ pf_user profile \<in> set options
     \<and> (pf_privileged profile \<or> set sandbox_properties \<subseteq> set options))"

lemma launch_within:
  assumes "prepare_runner_spec canonicalize c params = Ok spec"
    and "launch_arguments as_second now c jid params deployment deadline = Ok arguments"
  shows "unit_within c jid arguments"
proof -
  from assms(2) obtain profile timeout options where p: "map_of (cf_profiles c) (er_profile params) = Some profile"
    and t: "launch_timeout as_second now profile params deadline = Ok timeout"
    and o: "unit_options c jid profile deployment timeout (er_credential_refs params) = Ok options"
    and a: "arguments = options @ [''--no-block'', ''--'', cf_runner c, ''--credential'', ''spec'', ''--output-directory'',
        path_join (cf_spool_root c) (job_id_str jid)]"
    by (rule launch_arguments_ok)
  have "timeout \<le> pf_timeout_seconds profile"
    using launch_timeout_bounds[OF t] accepted_spec(1)[OF assms(1) p]
    by (cases "er_timeout_seconds params") (auto intro: le_trans)
  with p a unit_options_set(3,4,5)[OF o] show ?thesis unfolding unit_within_def by blast
qed

text \<open>A job that has left the queue.\<close>

abbreviation dispatched :: "JobId \<Rightarrow> store \<Rightarrow> bool" where
  "dispatched \<equiv> job_in (- {Queued})"

lemma dispatched_steps:
  assumes "steps digest ts_text as_second ts_add s s'" and "store_inv s" and "dispatched jid s"
  shows "dispatched jid s'"
  using assms
proof (rule job_in_steps)
  show "b \<in> - {Queued}" if "a \<in> - {Queued}" "JobState_can_transition_to a b" for a b
    using that by (cases a) (auto simp: JobState_can_transition_to_def)
qed

text \<open>\<open>d\<close> says whether the job is known to have left the queue.\<close>

definition launches_ok ::
  "(json \<Rightarrow> string) \<Rightarrow> (timestamp \<Rightarrow> string) \<Rightarrow> (timestamp \<Rightarrow> int) \<Rightarrow> (timestamp \<Rightarrow> nat \<Rightarrow> timestamp option) \<Rightarrow>
   Config \<Rightarrow> JobId \<Rightarrow> bool \<Rightarrow> ('w, command_call) exec \<Rightarrow> bool" where
  "launches_ok digest ts_text as_second ts_add c jid d x \<longleftrightarrow>
     moves_ok digest ts_text as_second ts_add (x_moves x) \<and> store_inv (x_store x) \<and> (d \<longrightarrow> dispatched jid (x_store x))
     \<and> (\<forall>(s, call) \<in> set (x_calls x). \<exists>arguments. call = LaunchUnit jid arguments \<and> dispatched jid s \<and> unit_within c jid arguments)"

interpretation launches: worker_invariant "launches_ok digest ts_text as_second ts_add c jid d" "worker_ops digest ts_text as_second ts_add"
  for digest ts_text as_second ts_add c jid d
proof
  fix x :: "('w, command_call) exec" and m ms op
  assume I: "launches_ok digest ts_text as_second ts_add c jid d x" and ms: "x_moves x = m # ms"
    and op: "op \<in> worker_ops digest ts_text as_second ts_add"
  let ?s = "op (mv_now m) (mv_store m (x_store x))"
  from I ms have "steps digest ts_text as_second ts_add (x_store x) (mv_store m (x_store x))"
    by (simp add: launches_ok_def moves_ok_def)
  moreover from op have "steps digest ts_text as_second ts_add (mv_store m (x_store x)) ?s" by (simp add: worker_ops_def)
  ultimately have st: "steps digest ts_text as_second ts_add (x_store x) ?s" by (rule run.R_trans)
  have inv: "store_inv (x_store x)" using I by (simp add: launches_ok_def)
  show "launches_ok digest ts_text as_second ts_add c jid d
      (x\<lparr>x_store := ?s, x_world := mv_world m (x_world x), x_now := mv_now m, x_instant := mv_instant m, x_moves := ms\<rparr>)"
    using I ms steps_store_inv[OF st inv] dispatched_steps[OF st inv] by (auto simp: launches_ok_def moves_ok_def)
next
  show "(\<lambda>_ s. s) \<in> worker_ops digest ts_text as_second ts_add" by (simp add: worker_ops_def run.R_refl)
next
  show "launches_ok digest ts_text as_second ts_add c jid d x \<Longrightarrow> launches_ok digest ts_text as_second ts_add c jid d (x\<lparr>x_world := w\<rparr>)"
    for x :: "('w, command_call) exec" and w
    by (simp add: launches_ok_def)
qed

named_theorems launch_intros \<open>what command workers keep\<close>

lemma l_move_job [launch_intros]: "launches.keeps digest ts_text as_second ts_add c jid d (move_job jid' job st payload result)"
  unfolding move_job_def by (rule launches.keeps_xstore[OF transition_op])

lemma l_release [launch_intros]: "launches.keeps digest ts_text as_second ts_add c jid d (release_manager c' jid')"
  unfolding release_manager_def by (intro launches.keeps_rules launches.keeps_xstore[OF release_op])

lemma l_serialized [launch_intros]: "launches.keeps digest ts_text as_second ts_add c jid d (release_if_serialized c' jid' job)"
  unfolding release_if_serialized_def by (intro launches.keeps_rules launch_intros)

lemma l_state [launch_intros]: "launches.keeps digest ts_text as_second ts_add c jid d (systemd_state h jid')"
  unfolding systemd_state_def by (intro launches.keeps_rules launch_intros)

lemma l_record [launch_intros]: "launches.keeps digest ts_text as_second ts_add c jid d (finish_from_record h se c' jid' job bytes)"
  unfolding finish_from_record_def by (intro launches.keeps_rules launch_intros)

lemma l_unit [launch_intros]: "launches.keeps digest ts_text as_second ts_add c jid d (reconcile_unit jid' job unit)"
  unfolding reconcile_unit_def by (intro launches.keeps_rules launch_intros)

lemma l_missing [launch_intros]: "launches.keeps digest ts_text as_second ts_add c jid d (reconcile_missing jid' job)"
  unfolding reconcile_missing_def by (intro launches.keeps_rules launch_intros)

lemma l_reconcile [launch_intros]: "launches.keeps digest ts_text as_second ts_add c jid d (reconcile_runner_state h se c' jid')"
  unfolding reconcile_runner_state_def by (intro launches.keeps_rules launch_intros)

lemma l_fail: "launches.keeps digest ts_text as_second ts_add c jid d (\<lambda>x. (x, Err e))"
  by (simp add: launches.keeps_def)

lemma l_once [launch_intros]: "launches.keeps digest ts_text as_second ts_add c jid d (reconcile_once h se c' jid')"
  unfolding reconcile_once_def by (intro launches.keeps_rules launch_intros l_fail)

lemma l_monitor [launch_intros]: "launches.keeps digest ts_text as_second ts_add c jid d (monitor h se c' jid')"
proof -
  have "launches.keeps digest ts_text as_second ts_add c jid d (monitor_loop rounds h se c' jid')" for rounds
    by (induction rounds) (simp add: l_fail, unfold monitor_loop.simps, intro launches.keeps_rules launch_intros)
  then show ?thesis unfolding monitor_def launches.keeps_def by blast
qed

lemma l_wait [launch_intros]: "launches.keeps digest ts_text as_second ts_add c jid d (wait_for_command_resource c' jid')"
proof -
  have "launches.keeps digest ts_text as_second ts_add c jid d (wait_host_lock rounds c' jid')" for rounds
    by (induction rounds) (simp add: l_fail, unfold wait_host_lock.simps,
        intro launches.keeps_rules launch_intros launches.keeps_xstore[OF acquire_op])
  then have "launches.keeps digest ts_text as_second ts_add c jid d (\<lambda>x. wait_host_lock (length (x_moves x)) c' jid' x)"
    unfolding launches.keeps_def by blast
  then show ?thesis unfolding wait_for_command_resource_def by (intro launches.keeps_rules)
qed

lemma l_error [launch_intros]: "launches.keeps digest ts_text as_second ts_add c jid d (record_command_worker_error c' jid')"
  unfolding record_command_worker_error_def by (intro launches.keeps_rules launch_intros)

lemma l_files [launch_intros]: "launches.keeps digest ts_text as_second ts_add c jid d (xfiles h ops)"
  by (induction ops) (unfold xfiles.simps, intro launches.keeps_rules, intro launches.keeps_rules)

lemma l_persist [launch_intros]: "launches.keeps digest ts_text as_second ts_add c jid d (persist_command h se c' jid' operation spec prepared)"
  unfolding persist_command_def persist_deployment_spec_def by (intro launches.keeps_rules launch_intros)

lemma l_params [launch_intros]: "launches.keeps digest ts_text as_second ts_add c jid d (runner_params h se as_second' c' who operation spec)"
  unfolding runner_params_def check_exec_params_def deployment_runner_params_def validate_deployment_job_def
    validate_build_source_def validate_artifact_def
  by (intro launches.keeps_rules launch_intros)

lemma l_prepare [launch_intros]:
  "launches.keeps digest ts_text as_second ts_add c jid d (prepare_command h se as_second' c' jid' who operation spec)"
  unfolding prepare_command_def by (intro launches.keeps_rules launch_intros)

lemma l_fail_job [launch_intros]: "launches.keeps digest ts_text as_second ts_add c jid d (fail_job jid' job payload result)"
  unfolding fail_job_def by (intro launches.keeps_rules launch_intros)

section \<open>Workers\<close>

lemma launches_weaken: "launches_ok digest ts_text as_second ts_add c jid d x \<Longrightarrow> launches_ok digest ts_text as_second ts_add c jid False x"
  by (simp add: launches_ok_def)

lemma launch_keeps:
  fixes h :: "'w target_host"
  assumes "prepare_runner_spec canonicalize c params = Ok spec"
  shows "launches.keeps digest ts_text as_second ts_add c jid True (launch h as_second' c jid params deadline)"
proof (rule launches.keepsI)
  fix x :: "('w, command_call) exec" assume I: "launches_ok digest ts_text as_second ts_add c jid True x"
  let ?r = "launch_arguments as_second' (x_now x) c jid params (th_exists h (deployment_spec_path c jid) (x_world x)) deadline"
  show "launches_ok digest ts_text as_second ts_add c jid True (fst (launch h as_second' c jid params deadline x))"
  proof (cases ?r)
    case (Inl e)
    with I show ?thesis by (simp add: launch_def xbind_def xclock_def xpeek_def xlift_def)
  next
    case (Inr arguments)
    let ?x = "x\<lparr>x_calls := x_calls x @ [(x_store x, LaunchUnit jid arguments)]\<rparr>"
    have "launches_ok digest ts_text as_second ts_add c jid True ?x"
      using I launch_within[OF assms Inr] by (auto simp: launches_ok_def)
    then have "launches_ok digest ts_text as_second ts_add c jid True
        (fst (xbind (xworld (th_systemd_run h arguments)) (\<lambda>success. xensure [(success, ''systemd-run failed'')]) ?x))"
      by (rule launches.keepsD[rotated]) (intro launches.keeps_rules)
    with Inr show ?thesis by (simp add: launch_def xbind_def xclock_def xpeek_def xlift_def xcall_def)
  qed
qed

lemma xbind_Ok:
  assumes "xbind m f x = (x', Ok v)"
  obtains x1 u where "m x = (x1, Ok u)" and "f u x1 = (x', Ok v)"
  using assms by (auto simp: xbind_def split: prod.splits sum.splits)

lemma prepare_command_Ok:
  assumes "prepare_command h se as_second c jid who operation spec x = (x', Ok (params, prepared))"
  shows "\<exists>canonicalize prepared. prepare_runner_spec canonicalize c params = Ok prepared"
  using assms unfolding prepare_command_def
  by (elim xbind_Ok) (auto simp: xpeek_def xlift_def xret_def split: sum.splits)

lemma moved_dispatched:
  assumes "launches_ok digest ts_text as_second ts_add c jid d x" and "move_job jid job st payload result x = (x', Ok job')"
    and "st \<noteq> Queued"
  shows "launches_ok digest ts_text as_second ts_add c jid True x'"
proof -
  have I: "launches_ok digest ts_text as_second ts_add c jid d x'"
    using launches.keepsD[OF l_move_job assms(1)] assms(2) by (metis fst_conv)
  note ok = moved_job[OF assms(2)]
  have "dispatched jid (x_store x')"
    by (rule get_job_in[OF store_inv_parts(1)]) (use I ok assms(1,3) in \<open>auto simp: launches_ok_def\<close>)
  with I show ?thesis by (simp add: launches_ok_def)
qed

text \<open>What follows a successful step.\<close>

lemma after_Ok:
  fixes m :: "('w, command_call, 'a) xact" and f :: "'a \<Rightarrow> ('w, command_call, 'b) xact"
  assumes "launches_ok digest ts_text as_second ts_add c jid d x" and "launches.keeps digest ts_text as_second ts_add c jid d m"
    and "\<And>x1 v. m x = (x1, Ok v) \<Longrightarrow> launches_ok digest ts_text as_second ts_add c jid d x1 \<Longrightarrow>
      launches_ok digest ts_text as_second ts_add c jid False (fst (f v x1))"
  shows "launches_ok digest ts_text as_second ts_add c jid False (fst (xbind m f x))"
  by (rule xbind_cases) (use assms launches.keepsD[OF assms(2,1)] launches_weaken in \<open>metis fst_conv\<close>)+

text \<open>A prepared command is dispatched and launched, or launched when it is dispatched already.\<close>

lemma dispatch_then_launch:
  assumes "launches_ok digest ts_text as_second ts_add c jid d x" and "prepare_runner_spec canonicalize c params = Ok spec"
    and "\<And>dispatching. launches.keeps digest ts_text as_second ts_add c jid True (rest dispatching)"
  shows "launches_ok digest ts_text as_second ts_add c jid False
    (fst (xbind (move_job jid job Dispatching payload None) rest x))"
proof (rule after_Ok[OF assms(1) l_move_job])
  fix x1 dispatching assume "move_job jid job Dispatching payload None x = (x1, Ok dispatching)"
  from moved_dispatched[OF assms(1) this] have "launches_ok digest ts_text as_second ts_add c jid True x1" by simp
  from launches.keepsD[OF assms(3) this] show "launches_ok digest ts_text as_second ts_add c jid False (fst (rest dispatching x1))"
    by (rule launches_weaken)
qed

lemma recover_queued_keeps:
  assumes "launches_ok digest ts_text as_second ts_add c jid d x"
  shows "launches_ok digest ts_text as_second ts_add c jid False (fst (recover_queued h se as_second' c jid job x))"
  unfolding recover_queued_def
proof (rule after_Ok[OF assms l_prepare], clarsimp)
  fix x1 params prepared
  assume p: "prepare_command h se as_second' c jid (job_principal job) (h_operation (job_handle job)) (job_spec job) x = (x1, Ok (params, prepared))"
    and I: "launches_ok digest ts_text as_second ts_add c jid d x1"
  from prepare_command_Ok[OF p] obtain canonicalize spec where spec: "prepare_runner_spec canonicalize c params = Ok spec" by blast
  show "launches_ok digest ts_text as_second ts_add c jid False
     (fst (xbind (persist_command h se c jid (h_operation (job_handle job)) (job_spec job) prepared) (\<lambda>_.
     xbind (move_job jid job Dispatching (JObject [(''recovered'', JBool True), (''launcher'', JString ''systemd'')]) None) (\<lambda>dispatching.
     xbind (launch h as_second' c jid params (job_deadline job)) (\<lambda>_.
     xbind (move_job jid dispatching Running (recovered_unit jid) None) (\<lambda>_. xret ())))) x1))"
    by (rule after_Ok[OF I l_persist], rule dispatch_then_launch[OF _ spec])
      (assumption, intro launches.keeps_rules launch_intros launch_keeps[OF spec])
qed

lemma recover_dispatching_keeps:
  fixes h :: "'w target_host"
  shows "launches.keeps digest ts_text as_second ts_add c jid True (recover_dispatching h se as_second' c jid job)"
proof -
  have launch: "launches.keeps digest ts_text as_second ts_add c jid True
     (xbind (prepare_command h se as_second' c jid (job_principal job) (h_operation (job_handle job)) (job_spec job)) (\<lambda>(params, prepared).
         xbind (persist_command h se c jid (h_operation (job_handle job)) (job_spec job) prepared) (\<lambda>_.
         xbind (launch h as_second' c jid params (job_deadline job)) (\<lambda>_.
         xbind (move_job jid job Running (recovered_unit jid) None) (\<lambda>_. xret ())))))"
  proof (rule launches.keepsI, rule xbind_cases)
    fix x :: "('w, command_call) exec" and x1 e assume "launches_ok digest ts_text as_second ts_add c jid True x"
      "prepare_command h se as_second' c jid (job_principal job) (h_operation (job_handle job)) (job_spec job) x = (x1, Err e)"
    then show "launches_ok digest ts_text as_second ts_add c jid True x1" using launches.keepsD[OF l_prepare] by (metis fst_conv)
  next
    fix x :: "('w, command_call) exec" and x1 v assume I: "launches_ok digest ts_text as_second ts_add c jid True x"
      and p: "prepare_command h se as_second' c jid (job_principal job) (h_operation (job_handle job)) (job_spec job) x = (x1, Ok v)"
    obtain params prepared where v: "v = (params, prepared)" by fastforce
    from prepare_command_Ok[OF p[unfolded v]] obtain canonicalize spec where spec: "prepare_runner_spec canonicalize c params = Ok spec" by blast
    have I1: "launches_ok digest ts_text as_second ts_add c jid True x1" using launches.keepsD[OF l_prepare I] p by (metis fst_conv)
    show "launches_ok digest ts_text as_second ts_add c jid True (fst ((case v of (params, prepared) \<Rightarrow>
         xbind (persist_command h se c jid (h_operation (job_handle job)) (job_spec job) prepared) (\<lambda>_.
         xbind (launch h as_second' c jid params (job_deadline job)) (\<lambda>_.
         xbind (move_job jid job Running (recovered_unit jid) None) (\<lambda>_. xret ())))) x1))"
      unfolding v prod.case
      by (rule launches.keepsD[OF _ I1]) (intro launches.keeps_rules launch_intros launch_keeps[OF spec])
  qed
  show ?thesis unfolding recover_dispatching_def by (intro launches.keeps_rules launch_intros launch)
qed

lemma waited_dispatched:
  fixes x :: "('w, command_call) exec"
  assumes "launches_ok digest ts_text as_second ts_add c jid False x" and "wait_for_command_resource c' jid x = (x', Ok job)"
    and "h_state (job_handle job) = Dispatching"
  shows "launches_ok digest ts_text as_second ts_add c jid True x'"
proof -
  let ?I = "launches_ok digest ts_text as_second ts_add c jid :: bool \<Rightarrow> ('w, command_call) exec \<Rightarrow> bool"
  have known: "?I True y'" if "?I False y" "xread (get_job jid) y = (y', Ok job)" for y y'
  proof -
    have I: "?I False y'" using launches.keepsD[OF launches.keeps_xread that(1)] that(2) by (metis fst_conv)
    have "dispatched jid (x_store y')"
      by (rule get_job_in[OF store_inv_parts(1) xread_Ok[OF that(2)]]) (use I assms(3) in \<open>auto simp: launches_ok_def\<close>)
    with I show ?thesis by (simp add: launches_ok_def)
  qed
  have ended: False if "?I False y" "xbind (move_job jid job0 st payload result) (\<lambda>ended. xbind m (\<lambda>_. xret ended)) y = (y', Ok job)"
    "st \<noteq> Dispatching" for y y' job0 st payload result and m :: "('w, command_call, unit) xact"
    using that(2)
  proof (elim xbind_Ok)
    fix y1 u y2 v assume m: "move_job jid job0 st payload result y = (y1, Ok u)" and "xret u y2 = (y', Ok job)"
    then have "u = job" by (simp add: xret_def)
    with moved_job(2)[OF m] that(1,3) assms(3) show False by (auto simp: launches_ok_def)
  qed
  have wait: "?I True y'" if "?I False y" "wait_host_lock rounds c' jid y = (y', Ok job)" for rounds y y'
    using that
  proof (induction rounds arbitrary: y)
    case (Suc rounds)
    let ?acquire = "xstore (\<lambda>now. try_acquire_resource now ''systemd_manager'' (cf_host c') jid)"
    from Suc.prems(2) obtain y1 acquired y2 job0 where a: "?acquire y = (y1, Ok acquired)"
      and rd: "xread (get_job jid) y1 = (y2, Ok job0)"
      and rest: "(let release = (if acquired then release_manager c' jid else xret ()) in
         if JobState_is_terminal (h_state (job_handle job0)) then xbind release (\<lambda>_. xret job0)
         else xbind xclock (\<lambda>now.
           if h_state (job_handle job0) = Queued \<and> deadline_passed job0 now
           then xbind (move_job jid job0 TimedOut (phase ''host_queue'' [])
              (Some (JObject [(''error'', JString ''deadline_expired_before_deployment'')]))) (\<lambda>ended. xbind release (\<lambda>_. xret ended))
           else if h_state (job_handle job0) = Queued \<and> job_cancel_requested job0
           then xbind (move_job jid job0 Cancelled (phase ''host_queue'' []) (Some not_started)) (\<lambda>ended. xbind release (\<lambda>_. xret ended))
           else if acquired then xret job0
           else xbind xsleep (\<lambda>_. wait_host_lock rounds c' jid))) y2 = (y', Ok job)"
      unfolding wait_host_lock.simps by (elim xbind_Ok) blast
    have I1: "?I False y1" using launches.keepsD[OF launches.keeps_xstore[OF acquire_op] Suc.prems(1)] a by (metis fst_conv)
    have I2: "?I False y2" using launches.keepsD[OF launches.keeps_xread I1] rd by (metis fst_conv)
    have clock: "xbind xclock f y2 = f (x_now y2) y2" for f :: "timestamp \<Rightarrow> ('w, command_call, JobRecord) xact"
      by (simp add: xbind_def xclock_def)
    have same: "job0 = job" if "xbind m (\<lambda>_. xret job0) y2 = (y', Ok job)" for m :: "('w, command_call, unit) xact"
      using that by (elim xbind_Ok) (simp add: xret_def)
    consider (ended) "JobState_is_terminal (h_state (job_handle job0))"
      | (timeout) "\<not> JobState_is_terminal (h_state (job_handle job0))" "h_state (job_handle job0) = Queued \<and> deadline_passed job0 (x_now y2)"
      | (cancel) "\<not> JobState_is_terminal (h_state (job_handle job0))" "\<not> (h_state (job_handle job0) = Queued \<and> deadline_passed job0 (x_now y2))"
          "h_state (job_handle job0) = Queued \<and> job_cancel_requested job0"
      | (go) "\<not> JobState_is_terminal (h_state (job_handle job0))" "\<not> (h_state (job_handle job0) = Queued \<and> deadline_passed job0 (x_now y2))"
          "\<not> (h_state (job_handle job0) = Queued \<and> job_cancel_requested job0)" by blast
    then show ?case
    proof cases
      case ended
      then have "job0 = job" using rest same by (simp add: Let_def)
      with ended assms(3) show ?thesis by (simp add: JobState_is_terminal_def)
    next
      case timeout
      with rest show ?thesis using ended[OF I2] by (simp add: Let_def clock) blast
    next
      case cancel
      with rest show ?thesis using ended[OF I2] by (simp add: Let_def clock) blast
    next
      case go
      show ?thesis
      proof (cases acquired)
        case True
        with go rest have "job0 = job" "y' = y2" by (auto simp: Let_def clock xret_def)
        with known[OF I1] rd show ?thesis by simp
      next
        case False
        with go rest have "xbind xsleep (\<lambda>_. wait_host_lock rounds c' jid) y2 = (y', Ok job)"
          by (auto simp: Let_def clock split: if_splits)
        then obtain y3 u where sl: "xsleep y2 = (y3, Ok u)" and w: "wait_host_lock rounds c' jid y3 = (y', Ok job)"
          by (elim xbind_Ok)
        have "?I False y3" using launches.keepsD[OF launches.keeps_xsleep I2] sl by (metis fst_conv)
        from Suc.IH[OF this w] show ?thesis .
      qed
    qed
  qed simp
  from assms(2) obtain y1 job0 where rd: "xread (get_job jid) x = (y1, Ok job0)"
    and rest: "(if \<not> serializes_host_changes (h_operation (job_handle job0)) then xret job0
      else (\<lambda>x. wait_host_lock (length (x_moves x)) c' jid x)) y1 = (x', Ok job)"
    unfolding wait_for_command_resource_def by (elim xbind_Ok)
  have I1: "?I False y1" using launches.keepsD[OF launches.keeps_xread assms(1)] rd by (metis fst_conv)
  show ?thesis
  proof (cases "serializes_host_changes (h_operation (job_handle job0))")
    case True
    with rest wait[OF I1] show ?thesis by simp
  next
    case False
    with rest have "job0 = job" "x' = y1" by (simp_all add: xret_def)
    with known[OF assms(1)] rd show ?thesis by simp
  qed
qed

lemma command_worker_keeps:
  fixes h :: "'w target_host"
  shows "launches.keeps digest ts_text as_second ts_add c jid False (command_worker h se as_second' c jid)"
proof (rule launches.keepsI)
  fix x :: "('w, command_call) exec"
  let ?I = "launches_ok digest ts_text as_second ts_add c jid :: bool \<Rightarrow> ('w, command_call) exec \<Rightarrow> bool"
  assume I: "?I False x"
  obtain x1 r where w: "wait_for_command_resource c jid x = (x1, r)" by fastforce
  have I1: "?I False x1" using launches.keepsD[OF l_wait I] w by (metis fst_conv)
  have noted: "?I False (fst (xignore (record_command_worker_error c jid) y))" if "?I False y" for y
    by (rule launches.keepsD[OF _ that]) (intro launches.keeps_rules launch_intros)
  have tail: "?I False (fst (xtry m (\<lambda>recovered. case recovered of
      Inl _ \<Rightarrow> xignore (record_command_worker_error c jid) | Inr _ \<Rightarrow> monitor h se c jid) x1))"
    if "?I False (fst (m x1))" for m :: "('w, unit) command_act"
    using that noted launches.keepsD[OF l_monitor] by (auto simp: xtry_def split: prod.splits sum.splits)
  show "?I False (fst (command_worker h se as_second' c jid x))"
  proof (cases r)
    case (Inl e)
    then show ?thesis using noted[OF I1] w by (simp add: command_worker_def xtry_def[of "wait_for_command_resource c jid"])
  next
    case (Inr job)
    let ?recover = "if h_state (job_handle job) = Queued then recover_queued h se as_second' c jid job
        else if h_state (job_handle job) = Dispatching then recover_dispatching h se as_second' c jid job else xret ()"
    have "?I False (fst (?recover x1))"
    proof (cases "h_state (job_handle job) = Dispatching")
      case True
      from waited_dispatched[OF I w[unfolded Inr] True] have "?I True x1" .
      from launches_weaken[OF launches.keepsD[OF recover_dispatching_keeps this]] True show ?thesis by simp
    next
      case False
      then show ?thesis using recover_queued_keeps[OF I1] I1 by (simp add: xret_def)
    qed
    from tail[of ?recover, OF this] Inr w I1 show ?thesis
      by (simp add: command_worker_def xtry_def[of "wait_for_command_resource c jid"] xret_def)
  qed
qed

lemma xtry_cases:
  assumes "\<And>x1 r. m x = (x1, r) \<Longrightarrow> P (fst (f r x1))"
  shows "P (fst (xtry m f x))"
  using assms by (cases "m x") (simp add: xtry_def)

lemma dispatch_submitted_keeps:
  fixes h :: "'w target_host"
  assumes "prepare_runner_spec canonicalize c params = Ok spec"
  shows "launches.keeps digest ts_text as_second ts_add c jid False (dispatch_submitted h se as_second' c jid new job params prepared)"
proof -
  have start: "launches.keeps digest ts_text as_second ts_add c jid True (start_submitted h as_second' c jid new params dispatching)" for dispatching
    unfolding start_submitted_def by (intro launches.keeps_rules launch_intros launch_keeps[OF assms])
  have go: "launches.keeps digest ts_text as_second ts_add c jid False
      (xbind (move_job jid job Dispatching (JObject [(''launcher'', JString ''systemd'')]) None) (start_submitted h as_second' c jid new params))"
    by (rule launches.keepsI, rule dispatch_then_launch[OF _ assms start])
  show ?thesis unfolding dispatch_submitted_def by (intro launches.keeps_rules launch_intros go)
qed

lemma submit_command_keeps [launch_intros]:
  fixes h :: "'w target_host"
  shows "launches.keeps digest ts_text as_second ts_add c jid False (submit_command_job h se as_second' c jid new accepted)"
proof (cases "sub_created accepted")
  case False
  then show ?thesis by (simp add: submit_command_job_def Let_def launches.keeps_rules)
next
  case True
  show ?thesis
  proof (rule launches.keepsI)
    fix x :: "('w, command_call) exec"
    let ?I = "launches_ok digest ts_text as_second ts_add c jid :: bool \<Rightarrow> ('w, command_call) exec \<Rightarrow> bool"
    assume I: "?I False x"
    obtain x1 r where p: "prepare_command h se as_second' c jid (nj_principal new) (nj_operation new) (nj_spec new) x = (x1, r)" by fastforce
    have I1: "?I False x1" using launches.keepsD[OF l_prepare I] p by (metis fst_conv)
    show "?I False (fst (submit_command_job h se as_second' c jid new accepted x))"
    proof (cases r)
      case (Inl e)
      then show ?thesis using launches.keepsD[OF l_fail_job I1] True p by (simp add: submit_command_job_def Let_def xtry_def)
    next
      case (Inr v)
      obtain params prepared where v: "v = (params, prepared)" by fastforce
      from prepare_command_Ok[OF p[unfolded Inr v]] obtain canonicalize spec
        where spec: "prepare_runner_spec canonicalize c params = Ok spec" by blast
      from launches.keepsD[OF dispatch_submitted_keeps[OF spec] I1] Inr v True p show ?thesis
        by (simp add: submit_command_job_def Let_def xtry_def)
    qed
  qed
qed

lemma accept_op:
  assumes "uuid_text (job_id_str jid)" and "nj_spec_version new \<le> u32_max"
  shows "(\<lambda>now s. fst (accept_job digest now jid new s)) \<in> worker_ops digest ts_text as_second ts_add"
  unfolding worker_ops_def steps_def
  using assms by (auto intro!: r_into_rtranclp store_step.accept[OF prod.collapse[symmetric]])

lemma submit_job_keeps:
  fixes h :: "'w target_host"
  assumes "uuid_text (job_id_str jid)" and "nj_spec_version new \<le> u32_max"
  shows "launches.keeps digest ts_text as_second ts_add c jid False (submit_job h se digest as_second' c jid new)"
proof -
  have validate: "launches.keeps digest ts_text as_second ts_add c jid False (validate_workspace_job se c new)"
    "launches.keeps digest ts_text as_second ts_add c jid False (validate_deployment_job h se as_second' c new)"
    unfolding validate_workspace_job_def validate_deployment_job_def validate_build_source_def validate_artifact_def
    by (intro launches.keeps_rules)+
  show ?thesis unfolding submit_job_def
    by (intro launches.keeps_rules launch_intros validate launches.keeps_xstore[OF accept_op[OF assms]])
qed

section \<open>Reconciliation\<close>

lemma unit_never_succeeds:
  assumes "reconcile_unit jid job unit x = (x', Ok job')" and "moves_ok digest ts_text as_second ts_add (x_moves x)"
    and "store_inv (x_store x)" and "h_state (job_handle job) \<noteq> Succeeded"
  shows "h_state (job_handle job') \<noteq> Succeeded"
  using assms(1,4) moved_job(2)[OF _ assms(2,3)]
  by (auto simp: reconcile_unit_def Let_def xret_def split: if_splits)

lemma missing_never_succeeds:
  assumes "reconcile_missing jid job x = (x', Ok job')" and "moves_ok digest ts_text as_second ts_add (x_moves x)"
    and "store_inv (x_store x)" and "h_state (job_handle job) \<noteq> Succeeded"
  shows "h_state (job_handle job') \<noteq> Succeeded"
  using assms(1,4) moved_job(2)[OF _ assms(2,3)]
  by (auto simp: reconcile_missing_def xret_def split: if_splits)

lemma record_success:
  assumes "finish_from_record h se c jid job bytes x = (x', Ok job')" and "launches_ok digest ts_text as_second ts_add c' jid False x"
    and "h_state (job_handle job') = Succeeded"
  shows "\<exists>result. tv_result_of se bytes = Some result \<and> rr_success result"
proof -
  from assms(1) obtain x1 result x2 v where d: "xdecode (tv_result_of se bytes) x = (x1, Ok result)"
    and o: "(if is_deployment_job (h_operation (job_handle job))
            then xtry (xworld (th_read h (spool_path c jid ''stdout.bin''))) (\<lambda>out.
              xret (JObject [(''runner'', tv_result se result),
                (''deployment'', jopt (tv_report se)
                   (case out of Inl _ \<Rightarrow> None | Inr b \<Rightarrow> if length b \<le> 64 * 1024 then tv_report_of se b else None))]))
            else xret (tv_result se result)) x1 = (x2, Ok v)"
    and m: "move_job jid job (if rr_success result then Succeeded else Failed)
       (JObject [(''completion'', JString ''runner_result'')]) (Some v) x2 = (x', Ok job')"
    unfolding finish_from_record_def by (elim xbind_Ok)
  from d have r: "tv_result_of se bytes = Some result" "x1 = x"
    by (auto simp: xdecode_def xlift_def ok_or_def split: option.splits)
  have keep: "launches.keeps digest ts_text as_second ts_add c' jid False (if is_deployment_job (h_operation (job_handle job))
            then xtry (xworld (th_read h (spool_path c jid ''stdout.bin''))) (\<lambda>out.
              xret (JObject [(''runner'', tv_result se result),
                (''deployment'', jopt (tv_report se)
                   (case out of Inl _ \<Rightarrow> None | Inr b \<Rightarrow> if length b \<le> 64 * 1024 then tv_report_of se b else None))]))
            else xret (tv_result se result))"
    by (intro launches.keeps_rules)
  have "launches_ok digest ts_text as_second ts_add c' jid False x2"
    using launches.keepsD[OF keep assms(2)] o r(2) by (metis fst_conv)
  then have "h_state (job_handle job') = (if rr_success result then Succeeded else Failed)"
    using moved_job(2)[OF m] by (auto simp: launches_ok_def)
  with r(1) assms(3) show ?thesis by (auto split: if_splits)
qed

text \<open>A reconciliation that returns a successful job found it so or read a record of success.\<close>

lemma reconcile_success:
  assumes "reconcile_runner_state h se c jid x = (x', Ok job')" and "launches_ok digest ts_text as_second ts_add c jid False x"
    and "h_state (job_handle job') = Succeeded"
  shows "xread (get_job jid) x = (x', Ok job')
    \<or> (\<exists>w w' bytes result. th_read h (spool_path c jid ''result.json'') w = (w', Ok bytes)
        \<and> tv_result_of se bytes = Some result \<and> rr_success result)"
proof -
  let ?I = "launches_ok digest ts_text as_second ts_add c jid False"
  let ?read = "xworld (th_read h (spool_path c jid ''result.json''))"
  from assms(1) obtain x1 job where rd: "xread (get_job jid) x = (x1, Ok job)"
    and rest: "(if JobState_is_terminal (h_state (job_handle job)) \<and> h_state (job_handle job) \<noteq> OutcomeUnknown then xret job
     else xtry ?read (\<lambda>record. case record of
         Inr bytes \<Rightarrow> finish_from_record h se c jid job bytes
       | Inl _ \<Rightarrow> xbind (systemd_state h jid) (\<lambda>unit.
           case unit of Some unit \<Rightarrow> reconcile_unit jid job unit | None \<Rightarrow> reconcile_missing jid job))) x1 = (x', Ok job')"
    unfolding reconcile_runner_state_def by (elim xbind_Ok)
  have I1: "?I x1" using launches.keepsD[OF launches.keeps_xread assms(2)] rd by (metis fst_conv)
  show ?thesis
  proof (cases "JobState_is_terminal (h_state (job_handle job)) \<and> h_state (job_handle job) \<noteq> OutcomeUnknown")
    case True
    with rest rd show ?thesis by (simp add: xret_def)
  next
    case False
    note rest = rest[unfolded if_not_P[OF False]]
    from False have live: "h_state (job_handle job) \<noteq> Succeeded" by (auto simp: JobState_is_terminal_def)
    obtain x2 r where w: "?read x1 = (x2, r)" by fastforce
    have I2: "?I x2" using launches.keepsD[OF launches.keeps_xworld I1] w by (metis fst_conv)
    show ?thesis
    proof (cases r)
      case (Inl e)
      with rest w have "xbind (systemd_state h jid) (\<lambda>unit. case unit of
          Some unit \<Rightarrow> reconcile_unit jid job unit | None \<Rightarrow> reconcile_missing jid job) x2 = (x', Ok job')"
        by (simp add: xtry_def)
      then obtain x3 u where st: "systemd_state h jid x2 = (x3, Ok u)"
        and u: "(case u of Some unit \<Rightarrow> reconcile_unit jid job unit | None \<Rightarrow> reconcile_missing jid job) x3 = (x', Ok job')"
        by (elim xbind_Ok)
      have "?I x3" using launches.keepsD[OF l_state I2] st by (metis fst_conv)
      then have ok: "moves_ok digest ts_text as_second ts_add (x_moves x3)" "store_inv (x_store x3)" by (auto simp: launches_ok_def)
      from u have "h_state (job_handle job') \<noteq> Succeeded"
        using unit_never_succeeds[OF _ ok live] missing_never_succeeds[OF _ ok live] by (cases u) auto
      with assms(3) show ?thesis by simp
    next
      case (Inr bytes)
      with rest w have f: "finish_from_record h se c jid job bytes x2 = (x', Ok job')" by (simp add: xtry_def)
      from w Inr obtain wd wd' where "th_read h (spool_path c jid ''result.json'') wd = (wd', Ok bytes)"
        by (auto simp: xworld_def map_err_def split: list.splits prod.splits sum.splits)
      with record_success[OF f I2 assms(3)] show ?thesis by blast
    qed
  qed
qed

end
