(* ===== verification/Properties_Commands.thy ===== *)
theory Properties_Commands
  imports Executor_Command_Facts Example_Executor
begin

text \<open>
  What an executor guarantees of command jobs: when their units are launched, what their success rests
  on, and what a reader of their output is told.
\<close>

section \<open>An example\<close>

definition ex_result :: RunnerResult where
  "ex_result = \<lparr>rr_success = True, rr_exit_code = Some 0, rr_signal = None, rr_stdout_bytes = 4, rr_stderr_bytes = 0,
     rr_stdout_discarded_bytes = 2, rr_stderr_discarded_bytes = 0, rr_completed_at = 9\<rparr>"

definition ex_target :: "bool target_host" where
  "ex_target = \<lparr>th_is_dir = (\<lambda>_ _. True), th_exists = (\<lambda>_ _. False), th_canonicalize = (\<lambda>p _. Some p),
     th_read_link = (\<lambda>_ _. None), th_read_text = (\<lambda>_ _. None), th_file = (\<lambda>_ w. (w, Ok ())),
     th_read = (\<lambda>_ w. (w, Ok ''record'')), th_read_at = (\<lambda>_ _ _ w. (w, Ok (Some ''abcd''))),
     th_systemd_run = (\<lambda>_ w. (w, Ok True)), th_show = (\<lambda>_ w. (w, Ok (True, ''ActiveState=active'', []))),
     th_stop = (\<lambda>_ w. (w, Ok True))\<rparr>"

definition ex_target_serde :: target_serde where
  "ex_target_serde = \<lparr>tv_exec = (\<lambda>_. Some ex_params), tv_unit = (\<lambda>_. None), tv_create = (\<lambda>_. None), tv_check = (\<lambda>_. None),
     tv_publish = (\<lambda>_. None), tv_deploy = (\<lambda>_. None), tv_spec_bytes = (\<lambda>_. []), tv_deploy_bytes = (\<lambda>_. []),
     tv_result_of = (\<lambda>_. Some ex_result), tv_result = (\<lambda>_. JNull), tv_report_of = (\<lambda>_. None), tv_report = (\<lambda>_. JNull)\<rparr>"

definition ex_command :: "store \<Rightarrow> nat \<Rightarrow> (bool, command_call) exec" where
  "ex_command s n = \<lparr>x_store = s, x_world = False, x_now = 10, x_instant = 0, x_moves = ex_quiet n, x_calls = []\<rparr>"

lemma ex_quiet_ok: "moves_ok ex_digest ex_text ex_second ex_add (ex_quiet n)"
  by (simp add: moves_ok_def ex_quiet_def run.R_refl)

section \<open>Launches\<close>

text \<open>
  (C12) Units follow the store: whatever other tasks do to the store and the host between the awaits of
  a submission or of a recovery, and wherever either is killed, the executor launches a unit only for
  the job it works at, after the store holds that this job has left the queue, as the user and within
  the time of a configured profile and in its sandbox.
\<close>

theorem units_follow_the_store:
  assumes "reachable digest ts_text as_second ts_add (x_store x)" and "x_calls x = []"
    and "moves_ok digest ts_text as_second ts_add (x_moves x)"
    and "uuid_text (job_id_str jid)" and "nj_spec_version new \<le> u32_max"
    and "x' \<in> {fst (command_worker h se as_second' c jid x), fst (submit_job h se digest as_second' c jid new x)}"
  shows "\<forall>(s, call) \<in> set (x_calls x'). \<exists>arguments.
    call = LaunchUnit jid arguments \<and> job_in (- {Queued}) jid s \<and> unit_within c jid arguments"
proof -
  have I: "launches_ok digest ts_text as_second ts_add c jid False x"
    using assms(1-3) reachable_store_inv[OF assms(1)] by (simp add: launches_ok_def)
  have "launches_ok digest ts_text as_second ts_add c jid False x'"
    using assms(6) launches.keepsD[OF command_worker_keeps I] launches.keepsD[OF submit_job_keeps[OF assms(4,5)] I] by blast
  then show ?thesis by (simp add: launches_ok_def)
qed

theorem units_follow_the_store_witness:
  "\<exists>s arguments. x_calls (fst (command_worker ex_target ex_target_serde ex_second ex_config ex_job (ex_command ex1 20)))
     = [(s, LaunchUnit ex_job arguments)] \<and> job_in (- {Queued}) ex_job s \<and> unit_within ex_config ex_job arguments"
proof -
  let ?x = "fst (command_worker ex_target ex_target_serde ex_second ex_config ex_job (ex_command ex1 20))"
  have "ex_reachable (x_store (ex_command ex1 20))" "x_calls (ex_command ex1 20) = []"
    using ex_reachable_1 by (simp_all add: ex_command_def)
  note start = this
  have moves: "moves_ok ex_digest ex_text ex_second ex_add (x_moves (ex_command ex1 20))"
    using ex_quiet_ok by (simp add: ex_command_def)
  have ids: "uuid_text (job_id_str ex_job)" "nj_spec_version ex_new \<le> u32_max" using ex_ids by (simp_all add: ex_new_def)
  have "length (x_calls ?x) = 1" by code_simp
  then obtain s call where one: "x_calls ?x = [(s, call)]" by (cases "x_calls ?x") auto
  from units_follow_the_store[OF start moves ids, of ?x ex_target ex_target_serde ex_second ex_config] one show ?thesis by auto
qed

section \<open>Outcomes\<close>

text \<open>
  (C13) Success needs a record: when a reconciliation answers that a command job succeeded, the job was
  stored as such already, or the host held a completion record of the job that says so; the state of
  the unit alone never makes a job succeed.
\<close>

theorem success_needs_record:
  fixes x :: "('w, command_call) exec"
  assumes "reachable digest ts_text as_second ts_add (x_store x)" and "x_calls x = []"
    and "moves_ok digest ts_text as_second ts_add (x_moves x)"
    and "reconcile_runner_state h se c jid x = (x', Ok job)" and "h_state (job_handle job) = Succeeded"
  shows "xread (get_job jid) x = (x', Ok job)
    \<or> (\<exists>w w' bytes result. th_read h (spool_path c jid ''result.json'') w = (w', Ok bytes)
        \<and> tv_result_of se bytes = Some result \<and> rr_success result)"
proof (rule reconcile_success[OF assms(4) _ assms(5)])
  show "launches_ok digest ts_text as_second ts_add c jid False x"
    using assms(1-3) reachable_store_inv[OF assms(1)] by (simp add: launches_ok_def)
qed

theorem success_needs_record_witness:
  "\<exists>x' job. reconcile_runner_state ex_target ex_target_serde ex_config ex_job (ex_command ex3 9) = (x', Ok job)
    \<and> h_state (job_handle job) = Succeeded
    \<and> (xread (get_job ex_job) (ex_command ex3 9) = (x', Ok job)
       \<or> (\<exists>w w' bytes result. th_read ex_target (spool_path ex_config ex_job ''result.json'') w = (w', Ok bytes)
           \<and> tv_result_of ex_target_serde bytes = Some result \<and> rr_success result))"
proof -
  let ?r = "reconcile_runner_state ex_target ex_target_serde ex_config ex_job (ex_command ex3 9)"
  have "case snd ?r of Inl _ \<Rightarrow> False | Inr job \<Rightarrow> h_state (job_handle job) = Succeeded" by code_simp
  then obtain x' job where run: "?r = (x', Ok job)" and ok: "h_state (job_handle job) = Succeeded"
    by (cases ?r) (auto split: sum.splits)
  have "ex_reachable (x_store (ex_command ex3 9))" "x_calls (ex_command ex3 9) = []"
    "moves_ok ex_digest ex_text ex_second ex_add (x_moves (ex_command ex3 9))"
    using ex_reachable_3 ex_quiet_ok by (simp_all add: ex_command_def)
  from success_needs_record[OF this run ok] run ok show ?thesis by blast
qed

section \<open>Output\<close>

text \<open>
  The result of a deployment job nests the runner's counts, where a reader of the output does not look
  for them: its answer never marks the output as truncated, however much was discarded.
\<close>

theorem deployment_truncation_unmarked:
  assumes "job_result job = Some (JObject [(''runner'', counts), (''deployment'', report)])"
    and "read_logs base64 h c job params x = (x', Ok answer)"
  shows "\<not> jlr_truncated answer"
proof -
  have "discarded_bytes job ''stdout_discarded_bytes'' = 0" "discarded_bytes job ''stderr_discarded_bytes'' = 0"
    using assms(1) by (simp_all add: discarded_bytes_def json_get_def)
  with assms(2) show ?thesis unfolding read_logs_def Let_def by (elim xbind_Ok) (auto simp: xret_def)
qed

end
