(* ===== verification/Executor_Workspaces.thy ===== *)
theory Executor_Workspaces
  imports Executor_Commands Workspace_Files
begin

text \<open>
  Workspaces (\<open>maxops-executor/src/workspace.rs\<close>): the git commands of the executor, the jobs that create
  and publish workspaces, and the requests that read, edit and commit them.
\<close>

section \<open>Git\<close>

record git_invocation =
  gi_program :: string
  gi_options :: "string list"
  gi_args :: "string list"
  gi_env :: "(string \<times> string) list"
  gi_stdin :: string

text \<open>
  What the workers ask of the host. \<open>gh_git\<close> gives the exit status and the standard output of a command;
  the mirrors of repositories lie outside of the tree of workspaces, on which git may act as well.
\<close>

record 'w git_host =
  gh_git :: "git_invocation \<Rightarrow> 'w \<Rightarrow> 'w \<times> (bool \<times> string, string) result"
  gh_exists :: "string \<Rightarrow> 'w \<Rightarrow> bool"
  gh_remove_dir_all :: "string \<Rightarrow> 'w \<Rightarrow> 'w \<times> (unit, string) result"
  gh_rename :: "string \<Rightarrow> string \<Rightarrow> 'w \<Rightarrow> 'w \<times> (unit, string) result"
  gh_tree :: "'w \<Rightarrow> tree_state"
  gh_put_tree :: "tree_state \<Rightarrow> 'w \<Rightarrow> 'w"

type_synonym ('w, 'a) git_act = "('w, git_invocation, 'a) xact"

text \<open>A use of the host without an await, and a use of the tree of workspaces.\<close>

definition xsync :: "('w \<Rightarrow> 'w \<times> ('a, string) result) \<Rightarrow> ('w, 'c, 'a) xact" where
  "xsync f = (\<lambda>x. case f (x_world x) of (w, r) \<Rightarrow> (x\<lparr>x_world := w\<rparr>, map_err Report r))"

definition xtree :: "'w git_host \<Rightarrow> 'a tact \<Rightarrow> ('w, 'c, 'a) xact" where
  "xtree h m = xsync (\<lambda>w. case m (gh_tree h w) of (st, r) \<Rightarrow> (gh_put_tree h st w, r))"

definition xresult :: "('a, store_error) result \<Rightarrow> ('w, 'c, 'a) xact" where
  "xresult r = (\<lambda>x. (x, r))"

definition xwrap :: "string \<Rightarrow> ('w, 'c, 'a) xact \<Rightarrow> ('w, 'c, 'a) xact" where
  "xwrap context m = xtry m (\<lambda>r. xresult (map_err (\<lambda>e. Report (context @ '': '' @ report_text e)) r))"

text \<open>\<open>app.workspace_serial.lock()\<close>: other tasks run until the mutex is granted.\<close>

definition workspace_serial :: "('w, 'c, unit) xact" where
  "workspace_serial = xsleep"

definition MAX_GIT_OUTPUT :: nat where
  "MAX_GIT_OUTPUT = 1024 * 1024"

definition git_command :: "Config \<Rightarrow> string option \<Rightarrow> string option \<Rightarrow> git_invocation" where
  "git_command c git_dir index =
     \<lparr>gi_program = cf_git c,
      gi_options = [''-c'', ''core.hooksPath=/dev/null''] @ (case git_dir of None \<Rightarrow> [] | Some d \<Rightarrow> [''--git-dir'', d]),
      gi_args = [],
      gi_env = [(''LC_ALL'', ''C.UTF-8''), (''GIT_TERMINAL_PROMPT'', ''0''), (''GIT_CONFIG_NOSYSTEM'', ''1''),
        (''GIT_CONFIG_GLOBAL'', ''/dev/null'')] @ (case index of None \<Rightarrow> [] | Some i \<Rightarrow> [(''GIT_INDEX_FILE'', i)]),
      gi_stdin = []\<rparr>"

definition run_git :: "'w git_host \<Rightarrow> git_invocation \<Rightarrow> ('w, bool \<times> string) git_act" where
  "run_git h command = xcall command (gh_git h command)"

definition git_success :: "'w git_host \<Rightarrow> Config \<Rightarrow> string option \<Rightarrow> string option \<Rightarrow> string list \<Rightarrow> ('w, bool) git_act" where
  "git_success h c git_dir index args =
     xbind (run_git h ((git_command c git_dir index)\<lparr>gi_args := args\<rparr>)) (\<lambda>(success, _). xret success)"

definition git_status :: "'w git_host \<Rightarrow> Config \<Rightarrow> string option \<Rightarrow> string option \<Rightarrow> string list \<Rightarrow> ('w, unit) git_act" where
  "git_status h c git_dir index args =
     xbind (git_success h c git_dir index args) (\<lambda>success. xensure [(success, ''Git command failed'')])"

definition git_status_os :: "'w git_host \<Rightarrow> Config \<Rightarrow> string option \<Rightarrow> string option \<Rightarrow> string list \<Rightarrow> ('w, unit) git_act" where
  "git_status_os h c git_dir index args =
     xbind (run_git h ((git_command c git_dir index)\<lparr>gi_args := args\<rparr>)) (\<lambda>(success, _).
     xensure [(success, ''Git command failed'')])"

definition git_output :: "'w git_host \<Rightarrow> Config \<Rightarrow> string option \<Rightarrow> string option \<Rightarrow> string list \<Rightarrow> ('w, string) git_act" where
  "git_output h c git_dir index args =
     xbind (run_git h ((git_command c git_dir index)\<lparr>gi_args := args\<rparr>)) (\<lambda>(success, stdout).
     xbind (xensure [(success, ''Git command failed''), (length stdout \<le> MAX_GIT_OUTPUT, ''Git output exceeds 1 MiB'')]) (\<lambda>_.
     xret stdout))"

definition git_text :: "'w git_host \<Rightarrow> Config \<Rightarrow> string option \<Rightarrow> string option \<Rightarrow> string list \<Rightarrow> ('w, string) git_act" where
  "git_text h c git_dir index args =
     xbind (git_output h c git_dir index args) (\<lambda>stdout.
     xbind (xensure [(utf8_valid stdout, ''invalid utf-8 sequence''), (trim stdout \<noteq> [], ''Git returned empty output'')]) (\<lambda>_.
     xret (trim stdout)))"

section \<open>Paths\<close>

definition mirror_path :: "Config \<Rightarrow> string \<Rightarrow> string" where
  "mirror_path c repository = path_join (cf_repository_root c) (repository @ ''.git'')"

definition workspace_revision_index :: "Config \<Rightarrow> WorkspaceId \<Rightarrow> nat \<Rightarrow> string" where
  "workspace_revision_index c wid revision = path_join (workspace_revision_directory c wid revision) ''index''"

text \<open>The same directories as paths below the root of workspaces.\<close>

definition revisions_path :: "WorkspaceId \<Rightarrow> string list" where
  "revisions_path wid = [workspace_id_str wid, ''revisions'']"

definition revision_path :: "WorkspaceId \<Rightarrow> nat \<Rightarrow> string list" where
  "revision_path wid revision = revisions_path wid @ [nat_to_string revision]"

definition revision_is_dir :: "'w git_host \<Rightarrow> WorkspaceId \<Rightarrow> nat \<Rightarrow> ('w, 'c, bool) xact" where
  "revision_is_dir h wid revision = xpeek (\<lambda>w. is_directory (node_at (ts_root (gh_tree h w)) (revision_path wid revision)))"

definition git_output_with_revision ::
  "'w git_host \<Rightarrow> Config \<Rightarrow> string \<Rightarrow> WorkspaceId \<Rightarrow> nat \<Rightarrow> string list \<Rightarrow> ('w, string) git_act" where
  "git_output_with_revision h c mirror wid revision args =
     xbind (run_git h ((git_command c (Some mirror) (Some (workspace_revision_index c wid revision)))
       \<lparr>gi_args := [''--work-tree'', workspace_revision_tree c wid revision] @ args\<rparr>)) (\<lambda>(success, stdout).
     xbind (xensure [(success, ''Git workspace command failed''),
       (length stdout \<le> MAX_GIT_OUTPUT, ''Git output exceeds 1 MiB'')]) (\<lambda>_.
     xret stdout))"

definition git_status_with_revision ::
  "'w git_host \<Rightarrow> Config \<Rightarrow> string \<Rightarrow> WorkspaceId \<Rightarrow> nat \<Rightarrow> string list \<Rightarrow> ('w, unit) git_act" where
  "git_status_with_revision h c mirror wid revision args =
     xbind (run_git h ((git_command c (Some mirror) (Some (workspace_revision_index c wid revision)))
       \<lparr>gi_args := [''--work-tree'', workspace_revision_tree c wid revision] @ args\<rparr>)) (\<lambda>(success, _).
     xensure [(success, ''Git workspace command failed'')])"

definition git_text_with_revision ::
  "'w git_host \<Rightarrow> Config \<Rightarrow> string \<Rightarrow> WorkspaceId \<Rightarrow> nat \<Rightarrow> string list \<Rightarrow> ('w, string) git_act" where
  "git_text_with_revision h c mirror wid revision args =
     xbind (git_output_with_revision h c mirror wid revision args) (\<lambda>stdout.
     xbind (xensure [(utf8_valid stdout, ''invalid utf-8 sequence''), (trim stdout \<noteq> [], ''Git returned empty output'')]) (\<lambda>_.
     xret (trim stdout)))"

definition git_commit_tree ::
  "'w git_host \<Rightarrow> Config \<Rightarrow> string \<Rightarrow> string \<Rightarrow> string \<Rightarrow> string \<Rightarrow> RepositoryConfig \<Rightarrow> ('w, string) git_act" where
  "git_commit_tree h c mirror tree parent message repository =
     (let command = git_command c (Some mirror) None in
      xbind (run_git h (command
        \<lparr>gi_args := [''commit-tree'', tree, ''-p'', parent],
         gi_env := gi_env command @ [(''GIT_AUTHOR_NAME'', rc_author_name repository), (''GIT_AUTHOR_EMAIL'', rc_author_email repository),
           (''GIT_COMMITTER_NAME'', rc_author_name repository), (''GIT_COMMITTER_EMAIL'', rc_author_email repository)],
         gi_stdin := message\<rparr>)) (\<lambda>(success, stdout).
      xbind (xensure [(success, ''Git commit-tree failed''), (length stdout \<le> 128, ''Git commit identity is oversized''),
        (utf8_valid stdout, ''invalid utf-8 sequence''), (valid_git_oid (trim stdout), ''Git returned an invalid commit'')]) (\<lambda>_.
      xret (trim stdout))))"

section \<open>Mirrors\<close>

definition ensure_mirror :: "'w git_host \<Rightarrow> Config \<Rightarrow> string \<Rightarrow> RepositoryConfig \<Rightarrow> ('w, string) git_act" where
  "ensure_mirror h c name repository =
     (let mirror = mirror_path c name; temporary = path_join (cf_repository_root c) (''.'' @ name @ ''.tmp'') in
      xbind (xpeek (gh_exists h mirror)) (\<lambda>present.
      xbind
        (if present then xret ()
         else
           xbind (xignore (xsync (gh_remove_dir_all h temporary))) (\<lambda>_.
           xbind (git_status h c None None [''init'', ''--bare'', temporary]) (\<lambda>_.
           xbind (git_status h c (Some temporary) None [''remote'', ''add'', ''origin'', rc_url repository]) (\<lambda>_.
           xsync (gh_rename h temporary mirror))))) (\<lambda>_.
      xbind (git_status h c (Some mirror) None [''remote'', ''set-url'', ''origin'', rc_url repository]) (\<lambda>_.
      xret mirror))))"

definition fetch :: "'w git_host \<Rightarrow> Config \<Rightarrow> string \<Rightarrow> RepositoryConfig \<Rightarrow> ('w, unit) git_act" where
  "fetch h c mirror repository =
     xbind (git_status h c (Some mirror) None
       [''fetch'', ''--no-tags'', ''--prune'', ''origin'', ''+refs/heads/*:refs/remotes/origin/*'']) (\<lambda>_.
     xensure [(starts_with (rc_default_ref repository) ''refs/heads/'', ''default ref must be a branch'')])"

definition tracking_ref :: "string \<Rightarrow> string" where
  "tracking_ref reference = ''refs/remotes/origin/'' @ drop (length ''refs/heads/'') reference @ ''^{commit}''"

definition resolve_remote_head :: "'w git_host \<Rightarrow> Config \<Rightarrow> string \<Rightarrow> string \<Rightarrow> ('w, string) git_act" where
  "resolve_remote_head h c mirror reference =
     xbind (xensure [(starts_with reference ''refs/heads/'', ''configured ref is not a branch'')]) (\<lambda>_.
     git_text h c (Some mirror) None [''rev-parse'', ''--verify'', tracking_ref reference])"

definition observe_repository_head ::
  "'w git_host \<Rightarrow> Config \<Rightarrow> string \<Rightarrow> string \<Rightarrow> string \<Rightarrow> ('w, RepositoryHeadResponse) git_act" where
  "observe_repository_head h c who name reference =
     xbind (xensure [(who \<noteq> [], ''empty repository observer identity''), (valid_repository_id name, ''invalid repository ID'')]) (\<lambda>_.
     xbind (xlift (repository_config c name)) (\<lambda>repository.
     xbind (xensure [(reference = rc_default_ref repository \<or> reference \<in> set (rc_publish_refs repository),
       ''repository ref is not configured'')]) (\<lambda>_.
     xbind workspace_serial (\<lambda>_.
     xbind (ensure_mirror h c name repository) (\<lambda>mirror.
     xbind (fetch h c mirror repository) (\<lambda>_.
     xbind (resolve_remote_head h c mirror reference) (\<lambda>commit.
     xbind xclock (\<lambda>now.
     xret \<lparr>hd_repository = name, hd_reference = reference, hd_commit = commit, hd_observed_at = now\<rparr>))))))))"

section \<open>Revisions\<close>

text \<open>\<open>create_dir_all\<close>, which makes the directories that are missing.\<close>

fun make_dirs :: "string list \<Rightarrow> string list \<Rightarrow> unit tact" where
  "make_dirs current [] = tret ()"
| "make_dirs current (c # cs) = (\<lambda>st.
     if is_directory (node_at (ts_root st) (current @ [c])) then make_dirs (current @ [c]) cs st
     else tbind (fs_create (current @ [c]) (DirNode [])) (\<lambda>_. make_dirs (current @ [c]) cs) st)"

definition materialize_revision ::
  "'w git_host \<Rightarrow> Config \<Rightarrow> string \<Rightarrow> WorkspaceId \<Rightarrow> nat \<Rightarrow> string \<Rightarrow> ('w, unit) git_act" where
  "materialize_revision h c mirror wid revision commit =
     (let parent = revisions_path wid; name = ''.'' @ nat_to_string revision @ ''.tmp''; temporary = parent @ [name];
          full = path_join (path_join (path_join (cf_workspace_root c) (workspace_id_str wid)) ''revisions'') name;
          tree = path_join full ''tree''; index = path_join full ''index'' in
      xbind (revision_is_dir h wid revision) (\<lambda>present.
      if present then xret ()
      else
        xbind (xtree h (make_dirs [] parent)) (\<lambda>_.
        xbind (xignore (xtree h (fs_remove_dir_all temporary))) (\<lambda>_.
        xbind (xtree h (fs_create temporary (DirNode []))) (\<lambda>_.
        xbind (xtree h (fs_create (temporary @ [''tree'']) (DirNode []))) (\<lambda>_.
        xbind (xwrap ''Git read-tree failed while materializing workspace''
          (git_status h c (Some mirror) (Some index) [''read-tree'', commit])) (\<lambda>_.
        xbind (xwrap ''Git checkout-index failed while materializing workspace''
          (git_status_os h c (Some mirror) (Some index)
            [''--work-tree'', tree, ''checkout-index'', ''--all'', ''--force'', ''--prefix'', tree @ ''/''])) (\<lambda>_.
        xtree h (fs_rename temporary (revision_path wid revision))))))))))"

text \<open>
  A transition of the stored workspace to the revision \<open>next_revision\<close>, whose directory is removed when
  the transition failed. A killed process removes nothing.
\<close>

definition discard_if_failed :: "'w git_host \<Rightarrow> WorkspaceId \<Rightarrow> nat \<Rightarrow> ('a, store_error) result \<Rightarrow> ('w, 'c, 'a) xact" where
  "discard_if_failed h wid next_revision r =
     xbind (if isl r \<and> r \<noteq> Inl crashed then xignore (xtree h (fs_remove_dir_all (revision_path wid next_revision))) else xret ())
       (\<lambda>_. xresult r)"

definition exact_workspace ::
  "'w git_host \<Rightarrow> Config \<Rightarrow> string \<Rightarrow> string \<Rightarrow> WorkspaceId \<Rightarrow> nat \<Rightarrow> ('w, 'c, WorkspaceRecord) xact" where
  "exact_workspace h c who repository wid expected_revision =
     xbind (xlift (repository_config c repository)) (\<lambda>_.
     xbind (xread (get_owned_workspace who repository wid)) (\<lambda>workspace.
     xbind (xensure [(ws_revision workspace = expected_revision, ''workspace revision changed'')]) (\<lambda>_.
     xbind (revision_is_dir h wid expected_revision) (\<lambda>present.
     xbind (xensure [(present, ''workspace revision data is unavailable'')]) (\<lambda>_.
     xret workspace)))))"

definition next_revision_of :: "WorkspaceRecord \<Rightarrow> (nat, string) result" where
  "next_revision_of workspace = ok_or ''workspace revision is exhausted'' (checked_add_u64 (ws_revision workspace) 1)"

section \<open>Jobs\<close>

text \<open>What serde and jiff make of a workspace and of a time.\<close>

record workspace_serde =
  wx_workspace :: "WorkspaceRecord \<Rightarrow> json"
  wx_time :: "timestamp \<Rightarrow> string"

definition release_job_resource :: "target_serde \<Rightarrow> JobRecord \<Rightarrow> ('w, 'c, unit) xact" where
  "release_job_resource se job =
     (let release = (\<lambda>kind resource_key.
        xbind (xstore (\<lambda>_. release_resource kind resource_key (h_job_id (job_handle job)))) (\<lambda>_. xret ())) in
      if h_operation (job_handle job) = ''workspace.create'' then
        (case tv_create se (job_spec job) of
           Some params \<Rightarrow> release ''repository_fetch'' (wc_repository params)
         | None \<Rightarrow> xret ())
      else if h_operation (job_handle job) = ''workspace.publish'' then
        (case tv_publish se (job_spec job) of
           Some params \<Rightarrow> release ''repository_publish'' (wp_repository params @ '':'' @ wp_reference params)
         | None \<Rightarrow> xret ())
      else xret ())"

definition mark_workspace_job_running :: "JobId \<Rightarrow> JobRecord \<Rightarrow> string \<Rightarrow> ('w, 'c, JobRecord) xact" where
  "mark_workspace_job_running jid job name =
     xbind (if h_state (job_handle job) = Queued
            then move_job jid job Dispatching (JObject [(''launcher'', JString ''workspace_worker'')]) None else xret job) (\<lambda>job.
     if h_state (job_handle job) = Dispatching then move_job jid job Running (phase name []) None else xret job)"

text \<open>
  The loops that wait for a lock; \<open>None\<close> stands for the early return. A round uses up at least one await.
\<close>

primrec wait_repository_fetch :: "nat \<Rightarrow> JobId \<Rightarrow> string \<Rightarrow> JobRecord \<Rightarrow> ('w, 'c, JobRecord option) xact" where
  "wait_repository_fetch 0 jid repository job = xresult (Inl crashed)"
| "wait_repository_fetch (Suc rounds) jid repository job =
     xbind (xstore (\<lambda>now. try_acquire_resource now ''repository_fetch'' repository jid)) (\<lambda>acquired.
     if acquired then xret (Some job)
     else
       xbind (xread (get_job jid)) (\<lambda>job.
       if JobState_is_terminal (h_state (job_handle job)) then xret None
       else if job_cancel_requested job
       then xbind (move_job jid job Cancelled (phase ''repository_queue'' [])
              (Some (JObject [(''effect'', JString ''not_started'')]))) (\<lambda>_. xret None)
       else xbind xsleep (\<lambda>_. wait_repository_fetch rounds jid repository job)))"

primrec wait_repository_publish :: "nat \<Rightarrow> JobId \<Rightarrow> string \<Rightarrow> JobRecord \<Rightarrow> ('w, 'c, JobRecord option) xact" where
  "wait_repository_publish 0 jid resource job = xresult (Inl crashed)"
| "wait_repository_publish (Suc rounds) jid resource job =
     xbind (xstore (\<lambda>now. try_acquire_resource now ''repository_publish'' resource jid)) (\<lambda>acquired.
     if acquired then xret (Some job)
     else
       xbind (xread (get_job jid)) (\<lambda>job.
       if JobState_is_terminal (h_state (job_handle job)) then xret None
       else xbind xsleep (\<lambda>_. wait_repository_publish rounds jid resource job)))"

definition finish_with :: "JobId \<Rightarrow> JobRecord \<Rightarrow> JobState \<Rightarrow> json \<Rightarrow> json \<Rightarrow> string \<Rightarrow> string \<Rightarrow> ('w, 'c, unit) xact" where
  "finish_with jid job state payload result kind resource_key =
     xbind (move_job jid job state payload (Some result)) (\<lambda>_.
     xbind (xstore (\<lambda>_. release_resource kind resource_key jid)) (\<lambda>_. xret ()))"

definition baseline_changed :: "workspace_serde \<Rightarrow> json \<Rightarrow> string \<Rightarrow> string \<Rightarrow> timestamp \<Rightarrow> json" where
  "baseline_changed wx expected observed reference now =
     JObject [(''error'', JString ''baseline_changed''), (''expected_remote_head'', expected), (''observed_remote_head'', JString observed),
       (''reference'', JString reference), (''observed_at'', JString (wx_time wx now))]"

text \<open>A workspace that exists already, and a new one.\<close>

definition adopt_workspace ::
  "workspace_serde \<Rightarrow> JobId \<Rightarrow> JobRecord \<Rightarrow> WorkspaceCreateParams \<Rightarrow> WorkspaceRecord \<Rightarrow> ('w, 'c, unit) xact" where
  "adopt_workspace wx jid job params existing =
     xbind (xensure [(ws_creator existing = job_principal job \<and> ws_repository existing = wc_repository params,
       ''workspace identity conflict'')]) (\<lambda>_.
     xbind (if JobState_is_terminal (h_state (job_handle job)) then xret ()
            else xbind (move_job jid job Succeeded (phase ''workspace_already_materialized'' [])
              (Some (JObject [(''workspace'', wx_workspace wx existing), (''recovered'', JBool True)]))) (\<lambda>_. xret ())) (\<lambda>_.
     xbind (xstore (\<lambda>_. release_resource ''repository_fetch'' (wc_repository params) jid)) (\<lambda>_. xret ())))"

definition materialize_workspace ::
  "'w git_host \<Rightarrow> workspace_serde \<Rightarrow> Config \<Rightarrow> JobId \<Rightarrow> JobRecord \<Rightarrow> WorkspaceCreateParams \<Rightarrow> RepositoryConfig \<Rightarrow> WorkspaceId \<Rightarrow>
   ('w, unit) git_act" where
  "materialize_workspace h wx c jid job params repository wid =
     xbind (xensure [(h_state (job_handle job) = Running, ''invalid workspace create state'')]) (\<lambda>_.
     xbind workspace_serial (\<lambda>_.
     xbind (ensure_mirror h c (wc_repository params) repository) (\<lambda>mirror.
     xbind (fetch h c mirror repository) (\<lambda>_.
     xbind (resolve_remote_head h c mirror (rc_default_ref repository)) (\<lambda>remote_head.
     xbind xclock (\<lambda>now.
     if (case wc_expected_remote_head params of None \<Rightarrow> False | Some expected \<Rightarrow> \<not> eq_ignore_ascii_case expected remote_head)
     then finish_with jid job Failed (phase ''remote_baseline'' [(''reason'', JString ''baseline_changed'')])
            (baseline_changed wx (jopt JString (wc_expected_remote_head params)) remote_head (rc_default_ref repository) now)
            ''repository_fetch'' (wc_repository params)
     else
       xbind (git_text h c (Some mirror) None [''rev-parse'', remote_head @ ''^{tree}'']) (\<lambda>tree_hash.
       xbind (materialize_revision h c mirror wid 1 remote_head) (\<lambda>_.
       xbind (xstore (\<lambda>now. create_workspace now wid (wc_repository params) (cf_host c) remote_head tree_hash (job_principal job))) (\<lambda>workspace.
       xbind xclock (\<lambda>now.
       finish_with jid job Succeeded (phase ''workspace_materialized'' [])
         (JObject [(''workspace'', wx_workspace wx workspace),
           (''remote'', JObject [(''reference'', JString (rc_default_ref repository)), (''commit'', JString remote_head),
              (''observed_at'', JString (wx_time wx now))])])
         ''repository_fetch'' (wc_repository params)))))))))))"

definition create_job ::
  "'w git_host \<Rightarrow> target_serde \<Rightarrow> workspace_serde \<Rightarrow> Config \<Rightarrow> JobId \<Rightarrow> JobRecord \<Rightarrow> ('w, unit) git_act" where
  "create_job h se wx c jid job =
     xbind (xdecode (tv_create se (job_spec job))) (\<lambda>params.
     xbind (xlift (repository_config c (wc_repository params))) (\<lambda>repository.
     xbind (\<lambda>x. wait_repository_fetch (length (x_moves x)) jid (wc_repository params) job x) (\<lambda>waited.
     case waited of
       None \<Rightarrow> xret ()
     | Some job \<Rightarrow>
         xbind (mark_workspace_job_running jid job ''fetching_configured_remote'') (\<lambda>job.
         xbind (xlift (WorkspaceId_parse (job_id_str jid))) (\<lambda>wid.
         xtry (xread (get_workspace wid)) (\<lambda>existing.
         case existing of
           Inr existing \<Rightarrow> adopt_workspace wx jid job params existing
         | Inl _ \<Rightarrow> materialize_workspace h wx c jid job params repository wid))))))"

definition mark_published_if_needed :: "'w git_host \<Rightarrow> WorkspaceRecord \<Rightarrow> string \<Rightarrow> ('w, 'c, WorkspaceRecord) xact" where
  "mark_published_if_needed h workspace commit =
     (if ws_state workspace = Published then xret workspace
      else
        let wid = ws_workspace_id workspace in
        xbind (xlift (next_revision_of workspace)) (\<lambda>next_revision.
        xbind (xwrap ''copy workspace revision before publish''
          (xtree h (copy_revision (revisions_path wid) (ws_revision workspace) next_revision))) (\<lambda>_.
        xtry (xstore (\<lambda>_. transition_workspace wid (ws_creator workspace) (ws_revision workspace) (ws_tree_hash workspace)
          (Some commit) Published)) (discard_if_failed h wid next_revision))))"

definition finish_publish_success ::
  "workspace_serde \<Rightarrow> JobId \<Rightarrow> JobRecord \<Rightarrow> WorkspacePublishParams \<Rightarrow> WorkspaceRecord \<Rightarrow> string \<Rightarrow> bool \<Rightarrow> ('w, 'c, unit) xact" where
  "finish_publish_success wx jid job params workspace observed recovered =
     xbind xclock (\<lambda>now.
     finish_with jid job Succeeded (phase ''publish_verified'' [])
       (JObject [(''workspace'', wx_workspace wx workspace), (''reference'', JString (wp_reference params)),
         (''observed_remote_head'', JString observed), (''observed_at'', JString (wx_time wx now)), (''recovered'', JBool recovered)])
       ''repository_publish'' (wp_repository params @ '':'' @ wp_reference params))"

text \<open>After the push: the remote head decides.\<close>

definition verify_publish ::
  "'w git_host \<Rightarrow> workspace_serde \<Rightarrow> Config \<Rightarrow> JobId \<Rightarrow> JobRecord \<Rightarrow> WorkspacePublishParams \<Rightarrow> RepositoryConfig \<Rightarrow> string \<Rightarrow> string \<Rightarrow> bool \<Rightarrow>
   ('w, unit) git_act" where
  "verify_publish h wx c jid job params repository mirror commit pushed =
     xbind (fetch h c mirror repository) (\<lambda>_.
     xbind (resolve_remote_head h c mirror (wp_reference params)) (\<lambda>after.
     if eq_ignore_ascii_case after commit
     then
       xbind (xread (get_owned_workspace (job_principal job) (wp_repository params) (wp_workspace_id params))) (\<lambda>latest.
       xbind (mark_published_if_needed h latest commit) (\<lambda>published.
       finish_publish_success wx jid job params published after False))
     else
       finish_with jid job (if pushed then OutcomeUnknown else Failed) (phase ''publish_verification'' [])
         (JObject [(''error'', JString (if pushed then ''publish_superseded_or_unconfirmed'' else ''baseline_changed'')),
           (''expected_remote_head'', JString (wp_expected_remote_head params)), (''intended_commit'', JString commit),
           (''observed_remote_head'', JString after), (''effect'', JString (if pushed then ''unknown'' else ''not_applied''))])
         ''repository_publish'' (wp_repository params @ '':'' @ wp_reference params)))"

definition record_push_intent :: "JobId \<Rightarrow> JobRecord \<Rightarrow> WorkspacePublishParams \<Rightarrow> string \<Rightarrow> ('w, 'c, JobRecord) xact" where
  "record_push_intent jid job params commit =
     (if h_state (job_handle job) = Running
      then move_job jid job Reconciling (phase ''push_may_start'' [])
        (Some (JObject [(''commit'', JString commit), (''expected_remote_head'', JString (wp_expected_remote_head params)),
          (''reference'', JString (wp_reference params))]))
      else xret job)"

definition push_commit ::
  "'w git_host \<Rightarrow> workspace_serde \<Rightarrow> Config \<Rightarrow> JobId \<Rightarrow> JobRecord \<Rightarrow> WorkspacePublishParams \<Rightarrow> RepositoryConfig \<Rightarrow> string \<Rightarrow> string \<Rightarrow>
   ('w, unit) git_act" where
  "push_commit h wx c jid job params repository mirror commit =
     xbind (git_success h c (Some mirror) None [''merge-base'', ''--is-ancestor'', wp_expected_remote_head params, commit]) (\<lambda>ancestor.
     xbind (xensure [(ancestor, ''workspace commit is not a fast-forward of the expected remote head'')]) (\<lambda>_.
     xbind (record_push_intent jid job params commit) (\<lambda>job.
     xbind (git_success h c (Some mirror) None [''push'', ''origin'', commit @ '':'' @ wp_reference params]) (\<lambda>pushed.
     verify_publish h wx c jid job params repository mirror commit pushed))))"

definition publish_observed ::
  "'w git_host \<Rightarrow> workspace_serde \<Rightarrow> Config \<Rightarrow> JobId \<Rightarrow> JobRecord \<Rightarrow> WorkspacePublishParams \<Rightarrow> RepositoryConfig \<Rightarrow> string \<Rightarrow>
   WorkspaceRecord \<Rightarrow> string \<Rightarrow> string \<Rightarrow> ('w, unit) git_act" where
  "publish_observed h wx c jid job params repository mirror workspace commit observed =
     (if eq_ignore_ascii_case observed commit
      then xbind (mark_published_if_needed h workspace commit) (\<lambda>published.
           finish_publish_success wx jid job params published observed True)
      else if \<not> eq_ignore_ascii_case observed (wp_expected_remote_head params)
      then xbind xclock (\<lambda>now.
           finish_with jid job Failed (phase ''remote_baseline'' [(''reason'', JString ''baseline_changed'')])
             (baseline_changed wx (JString (wp_expected_remote_head params)) observed (wp_reference params) now)
             ''repository_publish'' (wp_repository params @ '':'' @ wp_reference params))
      else push_commit h wx c jid job params repository mirror commit)"

text \<open>What follows once the lock on the reference is held.\<close>

definition publish_locked ::
  "'w git_host \<Rightarrow> workspace_serde \<Rightarrow> Config \<Rightarrow> JobId \<Rightarrow> JobRecord \<Rightarrow> WorkspacePublishParams \<Rightarrow> RepositoryConfig \<Rightarrow> ('w, unit) git_act" where
  "publish_locked h wx c jid job params repository =
     xbind (xread (get_owned_workspace (job_principal job) (wp_repository params) (wp_workspace_id params))) (\<lambda>workspace.
     xbind (xensure [(ws_revision workspace = wp_expected_revision params
         \<or> (checked_add_u64 (wp_expected_revision params) 1 = Some (ws_revision workspace) \<and> ws_state workspace = Published),
         ''workspace revision changed'')]) (\<lambda>_.
     xbind (xlift (ok_or ''workspace has no commit to publish'' (ws_commit_hash workspace))) (\<lambda>commit.
     xbind (mark_workspace_job_running jid job ''checking_remote_baseline'') (\<lambda>job.
     xbind workspace_serial (\<lambda>_.
     xbind (ensure_mirror h c (wp_repository params) repository) (\<lambda>mirror.
     xbind (fetch h c mirror repository) (\<lambda>_.
     xbind (resolve_remote_head h c mirror (wp_reference params)) (\<lambda>observed.
     publish_observed h wx c jid job params repository mirror workspace commit observed))))))))"

definition publish_job ::
  "'w git_host \<Rightarrow> target_serde \<Rightarrow> workspace_serde \<Rightarrow> Config \<Rightarrow> JobId \<Rightarrow> JobRecord \<Rightarrow> ('w, unit) git_act" where
  "publish_job h se wx c jid job =
     xbind (xdecode (tv_publish se (job_spec job))) (\<lambda>params.
     xbind (xlift (repository_config c (wp_repository params))) (\<lambda>repository.
     xbind (xensure [(wp_reference params \<in> set (rc_publish_refs repository), ''publish ref is no longer configured'')]) (\<lambda>_.
     xbind (\<lambda>x. wait_repository_publish (length (x_moves x)) jid (wp_repository params @ '':'' @ wp_reference params) job x) (\<lambda>waited.
     case waited of None \<Rightarrow> xret () | Some job \<Rightarrow> publish_locked h wx c jid job params repository))))"

definition run_workspace_job ::
  "'w git_host \<Rightarrow> target_serde \<Rightarrow> workspace_serde \<Rightarrow> Config \<Rightarrow> JobId \<Rightarrow> ('w, unit) git_act" where
  "run_workspace_job h se wx c jid =
     xbind (xread (get_job jid)) (\<lambda>job.
     if JobState_is_terminal (h_state (job_handle job)) then release_job_resource se job
     else if h_operation (job_handle job) = ''workspace.create'' then create_job h se wx c jid job
     else if h_operation (job_handle job) = ''workspace.publish'' then publish_job h se wx c jid job
     else if h_operation (job_handle job) = ''workspace.check'' then xret ()
     else xfail ''unsupported workspace job'')"

definition record_worker_error :: "target_serde \<Rightarrow> JobId \<Rightarrow> ('w, 'c, unit) xact" where
  "record_worker_error se jid =
     xbind (xread (get_job jid)) (\<lambda>job.
     if JobState_is_terminal (h_state (job_handle job)) then release_job_resource se job
     else
       let uncertain = h_state (job_handle job) = Reconciling in
       xbind (move_job jid job (if uncertain then OutcomeUnknown else Failed) (phase ''workspace_worker_error'' [])
         (Some (JObject [(''error'', JString ''workspace_worker_failed''),
           (''effect'', JString (if uncertain then ''unknown'' else ''not_applied''))]))) (\<lambda>_.
       release_job_resource se job))"

text \<open>The task that \<open>spawn\<close> starts.\<close>

definition workspace_worker ::
  "'w git_host \<Rightarrow> target_serde \<Rightarrow> workspace_serde \<Rightarrow> Config \<Rightarrow> JobId \<Rightarrow> ('w, unit) git_act" where
  "workspace_worker h se wx c jid =
     xtry (run_workspace_job h se wx c jid) (\<lambda>r.
     case r of Inl _ \<Rightarrow> xignore (record_worker_error se jid) | Inr _ \<Rightarrow> xret ())"

definition cancel_workspace_job :: "target_serde \<Rightarrow> JobCancelParams \<Rightarrow> ('w, 'c, JobRecord) xact" where
  "cancel_workspace_job se params =
     xbind (xstore (\<lambda>now. request_cancel now (jc_job_id params) (jc_expected_revision params) (jc_reason params))) (\<lambda>requested.
     if h_state (job_handle requested) \<in> {Queued, Dispatching}
     then xbind (move_job (jc_job_id params) requested Cancelled (phase ''before_workspace_side_effect'' [])
            (Some (JObject [(''effect'', JString ''not_started'')]))) (\<lambda>cancelled.
          xbind (release_job_resource se cancelled) (\<lambda>_. xret cancelled))
     else xret requested)"

section \<open>Requests\<close>

definition file_length :: "string list \<Rightarrow> nat tact" where
  "file_length p = file_action p (\<lambda>root.
     case node_at root p of
       Some (FileNode content _) \<Rightarrow> Ok (root, length content)
     | _ \<Rightarrow> Err ''No such file or directory (os error 2)'')"

definition file_bytes :: "string list \<Rightarrow> string tact" where
  "file_bytes p = file_action p (\<lambda>root.
     case node_at root p of
       Some (FileNode content _) \<Rightarrow> Ok (root, content)
     | _ \<Rightarrow> Err ''No such file or directory (os error 2)'')"

definition target_status :: "Config \<Rightarrow> string \<Rightarrow> WorkspaceStatusParams \<Rightarrow> ('w, 'c, WorkspaceTargetResponse) xact" where
  "target_status c who params =
     xbind (xlift (WorkspaceStatusParams_validate params)) (\<lambda>_.
     xbind (xlift (repository_config c (wst_repository params))) (\<lambda>_.
     xbind (xread (get_owned_workspace who (wst_repository params) (wst_workspace_id params))) (\<lambda>workspace.
     xret (WtRecord workspace))))"

text \<open>\<open>hex\<close> is the digest of another crate.\<close>

definition target_read ::
  "'w git_host \<Rightarrow> (string \<Rightarrow> string) \<Rightarrow> Config \<Rightarrow> string \<Rightarrow> WorkspaceReadParams \<Rightarrow> ('w, 'c, WorkspaceTargetResponse) xact" where
  "target_read h hex c who params =
     xbind (xlift (WorkspaceReadParams_validate params)) (\<lambda>_.
     xbind (exact_workspace h c who (wr_repository params) (wr_workspace_id params) (wr_expected_revision params)) (\<lambda>workspace.
     xbind (xtree h (safe_existing_file (revision_path (wr_workspace_id params) (wr_expected_revision params) @ [''tree''])
       (wr_path params))) (\<lambda>path.
     xbind (xtree h (file_length path)) (\<lambda>len.
     xbind (xensure [(len \<le> wr_max_bytes params, ''workspace file exceeds requested limit'')]) (\<lambda>_.
     xbind xsleep (\<lambda>_.
     xbind (xtree h (file_bytes path)) (\<lambda>bytes.
     xbind (xensure [(utf8_valid bytes, ''workspace file is not UTF-8'')]) (\<lambda>_.
     xret (WtFile \<lparr>wf_workspace_id = ws_workspace_id workspace, wf_revision = ws_revision workspace, wf_path = wr_path params,
       wf_encoding = ''utf-8'', wf_content = bytes, wf_digest = hex bytes\<rparr>)))))))))"

text \<open>\<open>fresh\<close> gives the names of temporary files.\<close>

definition target_apply ::
  "'w git_host \<Rightarrow> (nat \<Rightarrow> string) \<Rightarrow> Config \<Rightarrow> string \<Rightarrow> WorkspaceApplyParams \<Rightarrow> ('w, WorkspaceTargetResponse) git_act" where
  "target_apply h fresh c who params =
     (let wid = wa_workspace_id params; mirror = mirror_path c (wa_repository params) in
      xbind (xlift (WorkspaceApplyParams_validate params)) (\<lambda>_.
      xbind (exact_workspace h c who (wa_repository params) wid (wa_expected_revision params)) (\<lambda>workspace.
      xbind (xlift (next_revision_of workspace)) (\<lambda>next_revision.
      xbind (xwrap ''copy workspace revision before apply''
        (xtree h (copy_revision (revisions_path (ws_workspace_id workspace)) (ws_revision workspace) next_revision))) (\<lambda>_.
      xtry (xtree h (apply_edits (revision_path (ws_workspace_id workspace) next_revision @ [''tree'']) {}
        (zip (wa_edits params) (map fresh [0..<length (wa_edits params)])))) (\<lambda>applied.
      xbind
        (case applied of
           Inl e \<Rightarrow> xret (Inl e)
         | Inr _ \<Rightarrow>
             xbind (xwrap ''Git add failed for workspace revision''
               (git_status_with_revision h c mirror wid next_revision [''add'', ''-A'', ''--'', ''.''])) (\<lambda>_.
             xbind (xwrap ''Git write-tree failed for workspace revision''
               (git_text_with_revision h c mirror wid next_revision [''write-tree''])) (\<lambda>tree_hash.
             xtry (xstore (\<lambda>_. transition_workspace (ws_workspace_id workspace) who (ws_revision workspace) tree_hash
               (ws_commit_hash workspace) Dirty)) xret))) (\<lambda>result.
      xbind (discard_if_failed h (ws_workspace_id workspace) next_revision result) (\<lambda>moved.
      xret (WtRecord moved)))))))))"

definition target_diff :: "'w git_host \<Rightarrow> Config \<Rightarrow> string \<Rightarrow> WorkspaceRevisionParams \<Rightarrow> ('w, WorkspaceTargetResponse) git_act" where
  "target_diff h c who params =
     xbind (xlift (WorkspaceRevisionParams_validate params)) (\<lambda>_.
     xbind (exact_workspace h c who (wv_repository params) (wv_workspace_id params) (wv_expected_revision params)) (\<lambda>workspace.
     let against = (case ws_commit_hash workspace of None \<Rightarrow> ws_base_commit workspace | Some commit \<Rightarrow> commit) in
     xbind (git_output_with_revision h c (mirror_path c (wv_repository params)) (wv_workspace_id params) (wv_expected_revision params)
       [''diff'', ''--cached'', ''--no-ext-diff'', ''--binary'', against, ''--'']) (\<lambda>stdout.
     xbind (xensure [(length stdout \<le> MAX_GIT_OUTPUT, ''workspace diff exceeds 1 MiB''),
       (utf8_valid stdout, ''Git diff is not UTF-8'')]) (\<lambda>_.
     xret (WtDiffOf \<lparr>wd_workspace_id = ws_workspace_id workspace, wd_revision = ws_revision workspace,
       wd_against_commit = against, wd_patch = stdout\<rparr>)))))"

definition target_commit :: "'w git_host \<Rightarrow> Config \<Rightarrow> string \<Rightarrow> WorkspaceCommitParams \<Rightarrow> ('w, WorkspaceTargetResponse) git_act" where
  "target_commit h c who params =
     xbind (xlift (WorkspaceCommitParams_validate params)) (\<lambda>_.
     xbind (exact_workspace h c who (wm_repository params) (wm_workspace_id params) (wm_expected_revision params)) (\<lambda>workspace.
     xbind (xlift (repository_config c (wm_repository params))) (\<lambda>repository.
     let parent = (case ws_commit_hash workspace of None \<Rightarrow> ws_base_commit workspace | Some commit \<Rightarrow> commit) in
     xbind (git_commit_tree h c (mirror_path c (wm_repository params)) (ws_tree_hash workspace) parent (wm_message params) repository) (\<lambda>commit.
     xbind (xlift (next_revision_of workspace)) (\<lambda>next_revision.
     xbind (xwrap ''copy workspace revision before commit''
       (xtree h (copy_revision (revisions_path (ws_workspace_id workspace)) (ws_revision workspace) next_revision))) (\<lambda>_.
     xtry (xstore (\<lambda>_. transition_workspace (ws_workspace_id workspace) who (ws_revision workspace) (ws_tree_hash workspace)
       (Some commit) Committed)) (\<lambda>result.
     xbind (discard_if_failed h (ws_workspace_id workspace) next_revision result) (\<lambda>moved.
     xret (WtRecord moved)))))))))"

definition handle_workspace ::
  "'w git_host \<Rightarrow> (string \<Rightarrow> string) \<Rightarrow> (nat \<Rightarrow> string) \<Rightarrow> Config \<Rightarrow> string \<Rightarrow> WorkspaceTargetRequest \<Rightarrow>
   ('w, WorkspaceTargetResponse) git_act" where
  "handle_workspace h hex fresh c who request =
     xbind workspace_serial (\<lambda>_.
     case request of
       WtStatus params \<Rightarrow> target_status c who params
     | WtRead params \<Rightarrow> target_read h hex c who params
     | WtApply params \<Rightarrow> target_apply h fresh c who params
     | WtDiff params \<Rightarrow> target_diff h c who params
     | WtCommit params \<Rightarrow> target_commit h c who params)"

end
