(* ===== verification/Executor_Requests.thy ===== *)
theory Executor_Requests
  imports Executor_Workspaces
begin

text \<open>
  The requests that an executor serves (\<open>maxops-executor/src/main.rs\<close>): the handler and one connection.
\<close>

section \<open>The handler\<close>

text \<open>What is asked of the host, by component.\<close>

datatype executor_call = ServiceCall service_call | UnitCall command_call | GitCall git_invocation

definition xvia :: "('c \<Rightarrow> 'd) \<Rightarrow> ('w, 'c, 'a) xact \<Rightarrow> ('w, 'd, 'a) xact" where
  "xvia f m = (\<lambda>x.
     case m \<lparr>x_store = x_store x, x_world = x_world x, x_now = x_now x, x_instant = x_instant x, x_moves = x_moves x, x_calls = []\<rparr> of
       (y, r) \<Rightarrow>
         (\<lparr>x_store = x_store y, x_world = x_world y, x_now = x_now y, x_instant = x_instant y, x_moves = x_moves y,
           x_calls = x_calls x @ map (\<lambda>(s, call). (s, f call)) (x_calls y)\<rparr>, r))"

text \<open>What the handler takes from the host and from other crates.\<close>

record 'w executor_env =
  xe_target :: "'w target_host"
  xe_git :: "'w git_host"
  xe_serde :: target_serde
  xe_digest :: "json \<Rightarrow> string"
  xe_second :: "timestamp \<Rightarrow> int"
  xe_base64 :: "string \<Rightarrow> string"
  xe_hex :: "string \<Rightarrow> string"
  xe_fresh :: "nat \<Rightarrow> string"

definition handle_status ::
  "'w executor_env \<Rightarrow> Config \<Rightarrow> JobId \<Rightarrow> ('w, 'c, ExecutorResponse \<times> spawned) xact" where
  "handle_status e c jid =
     xbind (xread (get_job jid)) (\<lambda>job.
     let operation = h_operation (job_handle job); live = \<not> JobState_is_terminal (h_state (job_handle job)) in
     xbind
       (if is_runner_job operation
        then xbind (reconcile_once (xe_target e) (xe_serde e) c jid) (\<lambda>_. xret NoTask)
        else if ServiceAction_from_operation operation \<noteq> None \<and> live then xret ServiceTask
        else if is_workspace_job operation \<and> live then xret WorkspaceTask
        else xret NoTask) (\<lambda>task.
     xbind (xread (get_job jid)) (\<lambda>job. xret (RespJob job, task))))"

definition handle_cancel ::
  "'w executor_env \<Rightarrow> Config \<Rightarrow> JobCancelParams \<Rightarrow> ('w, executor_call, ExecutorResponse \<times> spawned) xact" where
  "handle_cancel e c params =
     xbind (xread (get_job (jc_job_id params))) (\<lambda>existing.
     xbind
       (let operation = h_operation (job_handle existing) in
        if ServiceAction_from_operation operation \<noteq> None then xvia ServiceCall (cancel_service_job c params)
        else if is_workspace_job operation \<and> operation \<noteq> ''workspace.check'' then cancel_workspace_job (xe_serde e) params
        else cancel_command_job (xe_target e) c existing params) (\<lambda>job.
     xret (RespJob job, NoTask)))"

definition handle ::
  "'w executor_env \<Rightarrow> Config \<Rightarrow> ExecutorRequest \<Rightarrow> ('w, executor_call, ExecutorResponse \<times> spawned) xact" where
  "handle e c request =
     (case request of
        ReqExecutionProfiles \<Rightarrow>
          xret (RespExecutionProfiles (map (\<lambda>(name, profile). profile_info name profile) (cf_profiles c)), NoTask)
      | ReqSubmit jid job \<Rightarrow>
          xvia UnitCall (submit_job (xe_target e) (xe_serde e) (xe_digest e) (xe_second e) c jid job)
      | ReqStatus jid \<Rightarrow> handle_status e c jid
      | ReqLogs params \<Rightarrow>
          xbind (xread (get_job (jlog_job_id params))) (\<lambda>job.
          xbind (read_logs (xe_base64 e) (xe_target e) c job params) (\<lambda>response. xret (RespLogs response, NoTask)))
      | ReqCancel params \<Rightarrow> handle_cancel e c params
      | ReqWorkspace who request \<Rightarrow>
          xbind (xvia GitCall (handle_workspace (xe_git e) (xe_hex e) (xe_fresh e) c who request)) (\<lambda>response.
          xret (RespWorkspace response, NoTask))
      | ReqRepositoryHead who repository reference \<Rightarrow>
          xbind (xvia GitCall (observe_repository_head (xe_git e) c who repository reference)) (\<lambda>response.
          xret (RespRepositoryHead response, NoTask))
      | ReqRuntimeState who name \<Rightarrow>
          xbind (observe_runtime (xe_target e) c who name) (\<lambda>response. xret (RespRuntimeState response, NoTask)))"

section \<open>Tasks\<close>

text \<open>
  The tasks that requests and the start leave behind; each is recorded by its job. A task that is already
  at work is not started again, which \<open>mv_store\<close> accounts for: it may do nothing.
\<close>

record 'w task_env =
  xt_service :: "'w service_host"
  xt_service_serde :: service_serde
  xt_workspace_serde :: workspace_serde

definition run_task ::
  "'w executor_env \<Rightarrow> 'w task_env \<Rightarrow> Config \<Rightarrow> JobId \<Rightarrow> spawned \<Rightarrow> ('w, executor_call, unit) xact" where
  "run_task e t c jid task =
     (case task of
        NoTask \<Rightarrow> xret ()
      | ServiceTask \<Rightarrow>
          xvia ServiceCall (\<lambda>x. service_worker (Suc (length (x_moves x))) (xt_service_serde t) (xt_service t) c jid x)
      | WorkspaceTask \<Rightarrow> xvia GitCall (workspace_worker (xe_git e) (xe_serde e) (xt_workspace_serde t) c jid)
      | CommandTask \<Rightarrow> xvia UnitCall (command_worker (xe_target e) (xe_serde e) (xe_second e) c jid)
      | MonitorTask \<Rightarrow> monitor (xe_target e) (xe_serde e) c jid)"

text \<open>The recovery of unfinished jobs at the start.\<close>

definition startup_tasks :: "(timestamp \<Rightarrow> string) \<Rightarrow> ('w, 'c, (JobId \<times> spawned) list) xact" where
  "startup_tasks ts_text =
     xbind (xread (nonterminal_jobs ts_text)) (\<lambda>jobs.
     xret (map (\<lambda>job. (h_job_id (job_handle job), recover_task (h_operation (job_handle job)))) jobs))"

section \<open>A connection\<close>

datatype ExecutorWireResponse = WireOk ExecutorResponse | WireError string string

text \<open>
  \<open>line\<close> is what the peer sends up to and including the first newline or its end; \<open>decode\<close> and \<open>encode\<close>
  are the JSON codecs. The result is what is written, if anything, and the task that is left behind.
\<close>

definition MAX_REQUEST_BYTES :: nat where
  "MAX_REQUEST_BYTES = 2 * 1024 * 1024"

definition MAX_RESPONSE_BYTES :: nat where
  "MAX_RESPONSE_BYTES = 2 * 1024 * 1024"

definition wire_error :: "store_error \<Rightarrow> ExecutorWireResponse" where
  "wire_error e = WireError (executor_error_code (report_text e)) (report_text e)"

definition serve_connection ::
  "(string \<Rightarrow> ExecutorRequest option) \<Rightarrow> (ExecutorWireResponse \<Rightarrow> string) \<Rightarrow> 'w executor_env \<Rightarrow> Config \<Rightarrow> string \<Rightarrow>
   ('w, executor_call, (string, string) result \<times> spawned) xact" where
  "serve_connection decode encode e c line =
     (let bytes = take (MAX_REQUEST_BYTES + 1) line in
      xbind xsleep (\<lambda>_.
      xbind (xensure [(length bytes \<le> MAX_REQUEST_BYTES, ''executor request too large'')]) (\<lambda>_.
      xbind (xdecode (decode bytes)) (\<lambda>request.
      xtry (handle e c request) (\<lambda>r.
      let response = encode (case r of Inl err \<Rightarrow> wire_error err | Inr (response, _) \<Rightarrow> WireOk response);
          task = (case r of Inl _ \<Rightarrow> NoTask | Inr (_, task) \<Rightarrow> task) in
      xret (if length response \<le> MAX_RESPONSE_BYTES then Ok (response @ [CHR 0x0A]) else Err ''executor response too large'', task))))))"

end
