(* ===== verification/Executor_Workspace_Facts.thy ===== *)
theory Executor_Workspace_Facts
  imports Executor_Workspaces Executor_Command_Facts Hub_Runs
begin

text \<open>
  What the workspace workers keep, whatever other tasks and the host do between their awaits: they use
  the store through its operations only, and they push only what a publish job may push.
\<close>

section \<open>Traced workers\<close>

text \<open>A worker that started at the store \<open>s0\<close>, and whose requests to the host all satisfy \<open>P\<close>.\<close>

definition traced ::
  "(json \<Rightarrow> string) \<Rightarrow> (timestamp \<Rightarrow> string) \<Rightarrow> (timestamp \<Rightarrow> int) \<Rightarrow> (timestamp \<Rightarrow> nat \<Rightarrow> timestamp option) \<Rightarrow>
   (store \<Rightarrow> 'c \<Rightarrow> bool) \<Rightarrow> store \<Rightarrow> ('w, 'c) exec \<Rightarrow> bool" where
  "traced digest ts_text as_second ts_add P s0 x \<longleftrightarrow>
     moves_ok digest ts_text as_second ts_add (x_moves x) \<and> steps digest ts_text as_second ts_add s0 (x_store x)
     \<and> (\<forall>(s, call) \<in> set (x_calls x). P s call)"

interpretation traced: worker_invariant "traced digest ts_text as_second ts_add P s0" "worker_ops digest ts_text as_second ts_add"
  for digest ts_text as_second ts_add and P :: "store \<Rightarrow> 'c \<Rightarrow> bool" and s0
proof
  fix x :: "('w, 'c) exec" and m ms op
  assume I: "traced digest ts_text as_second ts_add P s0 x" and ms: "x_moves x = m # ms"
    and op: "op \<in> worker_ops digest ts_text as_second ts_add"
  let ?s = "op (mv_now m) (mv_store m (x_store x))"
  from I ms have "steps digest ts_text as_second ts_add s0 (mv_store m (x_store x))"
    by (auto simp: traced_def moves_ok_def intro: run.R_trans)
  moreover from op have "steps digest ts_text as_second ts_add (mv_store m (x_store x)) ?s" by (simp add: worker_ops_def)
  ultimately have "steps digest ts_text as_second ts_add s0 ?s" by (rule run.R_trans)
  with I ms show "traced digest ts_text as_second ts_add P s0
      (x\<lparr>x_store := ?s, x_world := mv_world m (x_world x), x_now := mv_now m, x_instant := mv_instant m, x_moves := ms\<rparr>)"
    by (simp add: traced_def moves_ok_def)
next
  show "(\<lambda>_ s. s) \<in> worker_ops digest ts_text as_second ts_add" by (simp add: worker_ops_def run.R_refl)
next
  show "traced digest ts_text as_second ts_add P s0 x \<Longrightarrow> traced digest ts_text as_second ts_add P s0 (x\<lparr>x_world := w\<rparr>)"
    for x :: "('w, 'c) exec" and w
    by (simp add: traced_def)
qed

context worker_invariant
begin

lemma keeps_xsync: "keeps (xsync f)"
  by (rule keepsI) (auto simp: xsync_def world_any split: prod.splits)

lemma keeps_xtree: "keeps (xtree h m)"
  unfolding xtree_def by (rule keeps_xsync)

lemma keeps_xresult: "keeps (xresult r)"
  by (simp add: keeps_def xresult_def)

lemma keeps_xwrap: "keeps m \<Longrightarrow> keeps (xwrap context m)"
  unfolding xwrap_def by (intro keeps_xtry keeps_xresult)

lemma keeps_serial: "keeps workspace_serial"
  unfolding workspace_serial_def by (rule keeps_xsleep)

lemma keeps_fuel: "(\<And>n. keeps (f n)) \<Longrightarrow> keeps (\<lambda>x. f (length (x_moves x)) x)"
  by (simp add: keeps_def)

lemma keeps_lift_bind: "(\<And>v. r = Ok v \<Longrightarrow> keeps (f v)) \<Longrightarrow> keeps (xbind (xlift r) f)"
  by (cases r) (simp_all add: keeps_def xbind_def xlift_def map_err_def)

text \<open>What follows a successful step.\<close>

lemma bind_at:
  assumes "I (fst (m x))" and "\<And>x1 v. m x = (x1, Ok v) \<Longrightarrow> I x1 \<Longrightarrow> I (fst (f v x1))"
  shows "I (fst (xbind m f x))"
  by (rule xbind_cases) (use assms in \<open>metis fst_conv\<close>)+

lemma bind_after:
  assumes "I x" and "keeps m" and "\<And>x1 v. m x = (x1, Ok v) \<Longrightarrow> I x1 \<Longrightarrow> I (fst (f v x1))"
  shows "I (fst (xbind m f x))"
  by (rule bind_at) (use assms keepsD in blast)+

lemmas workspace_rules = keeps_rules keeps_xsync keeps_xtree keeps_xresult keeps_xwrap keeps_serial

end

lemma workspace_op: "(\<lambda>now s. fst (transition_workspace wid creator n tree commit st s)) \<in> worker_ops digest ts_text as_second ts_add"
  and create_workspace_op: "uuid_text (workspace_id_str wid) \<Longrightarrow>
    (\<lambda>now s. fst (create_workspace now wid repository executor base tree creator s)) \<in> worker_ops digest ts_text as_second ts_add"
  unfolding worker_ops_def steps_def
  by (auto intro!: r_into_rtranclp store_step.transition_workspace[OF prod.collapse[symmetric]]
      store_step.create_workspace[OF prod.collapse[symmetric]])

named_theorems traced_intros \<open>what executor workers keep\<close>

lemma t_call:
  fixes f :: "'w \<Rightarrow> 'w \<times> ('a, string) result" and call :: 'c
  shows "(\<And>s. P s call) \<Longrightarrow> traced.keeps digest ts_text as_second ts_add P s0 (xcall call f)"
proof (rule traced.keepsI)
  fix x :: "('w, 'c) exec" assume P: "\<And>s. P s call" and I: "traced digest ts_text as_second ts_add P s0 x"
  then have "traced digest ts_text as_second ts_add P s0 (x\<lparr>x_calls := x_calls x @ [(x_store x, call)]\<rparr>)" by (auto simp: traced_def)
  from traced.keepsD[OF traced.keeps_xworld this] show "traced digest ts_text as_second ts_add P s0 (fst (xcall call f x))"
    by (simp add: xcall_def)
qed

lemma t_move_job [traced_intros]: "traced.keeps digest ts_text as_second ts_add P s0 (move_job jid job st payload result)"
  unfolding move_job_def by (rule traced.keeps_xstore[OF transition_op])

lemma t_release [traced_intros]:
  "traced.keeps digest ts_text as_second ts_add P s0 (xstore (\<lambda>now. release_resource kind resource_key jid))"
  by (rule traced.keeps_xstore[OF release_op])

lemma t_acquire [traced_intros]:
  "traced.keeps digest ts_text as_second ts_add P s0 (xstore (\<lambda>now. try_acquire_resource now kind resource_key jid))"
  by (rule traced.keeps_xstore[OF acquire_op])

lemma t_cancel [traced_intros]: "traced.keeps digest ts_text as_second ts_add P s0 (xstore (\<lambda>now. request_cancel now jid n reason))"
  by (rule traced.keeps_xstore[OF cancel_op])

lemma t_workspace [traced_intros]:
  "traced.keeps digest ts_text as_second ts_add P s0 (xstore (\<lambda>now. transition_workspace wid creator n tree commit st))"
  by (rule traced.keeps_xstore[OF workspace_op])

section \<open>Git\<close>

text \<open>The subcommand of an invocation, and a predicate that constrains pushes only.\<close>

definition git_subcommand :: "git_invocation \<Rightarrow> string" where
  "git_subcommand command =
     (case gi_args command of
        [] \<Rightarrow> []
      | a # rest \<Rightarrow> if a = ''--work-tree'' then (case rest of _ # b # _ \<Rightarrow> b | _ \<Rightarrow> []) else a)"

definition pushes_only :: "(store \<Rightarrow> git_invocation \<Rightarrow> bool) \<Rightarrow> bool" where
  "pushes_only P \<longleftrightarrow> (\<forall>s command. git_subcommand command \<noteq> ''push'' \<longrightarrow> P s command)"

lemma t_git: "pushes_only P \<Longrightarrow> git_subcommand command \<noteq> ''push'' \<Longrightarrow>
    traced.keeps digest ts_text as_second ts_add P s0 (run_git h command)"
  unfolding run_git_def by (rule t_call) (simp add: pushes_only_def)

lemma t_git_success:
  assumes "pushes_only P" and "args \<noteq> []" and "hd args \<noteq> ''push''" "hd args \<noteq> ''--work-tree''"
  shows "traced.keeps digest ts_text as_second ts_add P s0 (git_success h c git_dir index args)"
    and "traced.keeps digest ts_text as_second ts_add P s0 (git_status h c git_dir index args)"
    and "traced.keeps digest ts_text as_second ts_add P s0 (git_text h c git_dir index args)"
proof -
  have sub: "git_subcommand ((git_command c git_dir index)\<lparr>gi_args := args\<rparr>) \<noteq> ''push''"
    using assms by (cases args) (auto simp: git_subcommand_def)
  note run = t_git[OF assms(1) sub]
  show success: "traced.keeps digest ts_text as_second ts_add P s0 (git_success h c git_dir index args)"
    unfolding git_success_def by (intro traced.keeps_rules run)
  show "traced.keeps digest ts_text as_second ts_add P s0 (git_status h c git_dir index args)"
    unfolding git_status_def by (intro traced.keeps_rules success)
  show "traced.keeps digest ts_text as_second ts_add P s0 (git_text h c git_dir index args)"
    unfolding git_text_def git_output_def by (intro traced.keeps_rules run)
qed

lemma t_git_os:
  assumes "pushes_only P" and "b \<noteq> ''push''"
  shows "traced.keeps digest ts_text as_second ts_add P s0 (git_status_os h c git_dir index (''--work-tree'' # tree # b # args))"
  unfolding git_status_os_def
  by (intro traced.keeps_rules t_git[OF assms(1)]) (use assms(2) in \<open>simp add: git_subcommand_def\<close>)

lemma t_git_revision:
  assumes "pushes_only P" and "b \<noteq> ''push''"
  shows "traced.keeps digest ts_text as_second ts_add P s0 (git_output_with_revision h c mirror wid n (b # args))"
    and "traced.keeps digest ts_text as_second ts_add P s0 (git_status_with_revision h c mirror wid n (b # args))"
    and "traced.keeps digest ts_text as_second ts_add P s0 (git_text_with_revision h c mirror wid n (b # args))"
  unfolding git_output_with_revision_def git_status_with_revision_def git_text_with_revision_def
  by (intro traced.keeps_rules t_git[OF assms(1)]; use assms(2) in \<open>simp add: git_subcommand_def\<close>)+

lemma t_commit_tree:
  assumes "pushes_only P"
  shows "traced.keeps digest ts_text as_second ts_add P s0 (git_commit_tree h c mirror tree parent message repository)"
  unfolding git_commit_tree_def
  by (intro traced.keeps_rules t_git[OF assms]) (simp add: git_subcommand_def)

lemma t_mirror:
  assumes "pushes_only P"
  shows "traced.keeps digest ts_text as_second ts_add P s0 (ensure_mirror h c name repository)"
  unfolding ensure_mirror_def by (intro traced.workspace_rules t_git_success[OF assms]) simp_all

lemma t_fetch:
  assumes "pushes_only P"
  shows "traced.keeps digest ts_text as_second ts_add P s0 (fetch h c mirror repository)"
  unfolding fetch_def by (intro traced.workspace_rules t_git_success[OF assms]) simp_all

lemma t_resolve:
  assumes "pushes_only P"
  shows "traced.keeps digest ts_text as_second ts_add P s0 (resolve_remote_head h c mirror reference)"
  unfolding resolve_remote_head_def by (intro traced.workspace_rules t_git_success[OF assms]) simp_all

lemma t_materialize:
  assumes "pushes_only P"
  shows "traced.keeps digest ts_text as_second ts_add P s0 (materialize_revision h c mirror wid n commit)"
  unfolding materialize_revision_def revision_is_dir_def
  by (intro traced.workspace_rules t_git_success[OF assms] t_git_os[OF assms]) simp_all

lemmas t_git_rules = t_git_success t_git_os t_git_revision t_commit_tree t_mirror t_fetch t_resolve t_materialize

section \<open>Jobs\<close>

lemma t_job_resource [traced_intros]: "traced.keeps digest ts_text as_second ts_add P s0 (release_job_resource se job)"
  unfolding release_job_resource_def Let_def by (intro traced.workspace_rules traced_intros)

lemma t_mark [traced_intros]: "traced.keeps digest ts_text as_second ts_add P s0 (mark_workspace_job_running jid job name)"
  unfolding mark_workspace_job_running_def by (intro traced.workspace_rules traced_intros)

lemma t_wait_fetch [traced_intros]: "traced.keeps digest ts_text as_second ts_add P s0 (wait_repository_fetch rounds jid repository job)"
  by (induction rounds arbitrary: job) (simp add: traced.workspace_rules, unfold wait_repository_fetch.simps,
      intro traced.workspace_rules traced_intros)

lemma t_wait_publish [traced_intros]: "traced.keeps digest ts_text as_second ts_add P s0 (wait_repository_publish rounds jid resource job)"
  by (induction rounds arbitrary: job) (simp add: traced.workspace_rules, unfold wait_repository_publish.simps,
      intro traced.workspace_rules traced_intros)

lemma t_finish [traced_intros]: "traced.keeps digest ts_text as_second ts_add P s0 (finish_with jid job st payload result kind resource_key)"
  unfolding finish_with_def by (intro traced.workspace_rules traced_intros)

lemma t_adopt [traced_intros]: "traced.keeps digest ts_text as_second ts_add P s0 (adopt_workspace wx jid job params existing)"
  unfolding adopt_workspace_def by (intro traced.workspace_rules traced_intros)

lemma t_discard [traced_intros]: "traced.keeps digest ts_text as_second ts_add P s0 (discard_if_failed h wid n r)"
  unfolding discard_if_failed_def by (intro traced.workspace_rules traced_intros)

lemma t_mark_published [traced_intros]: "traced.keeps digest ts_text as_second ts_add P s0 (mark_published_if_needed h workspace commit)"
  unfolding mark_published_if_needed_def by (intro traced.workspace_rules traced_intros)

lemma t_publish_success [traced_intros]:
  "traced.keeps digest ts_text as_second ts_add P s0 (finish_publish_success wx jid job params workspace observed recovered)"
  unfolding finish_publish_success_def by (intro traced.workspace_rules traced_intros)

lemma t_worker_error [traced_intros]: "traced.keeps digest ts_text as_second ts_add P s0 (record_worker_error se jid)"
  unfolding record_worker_error_def by (intro traced.workspace_rules traced_intros)

lemma t_verify:
  assumes "pushes_only P"
  shows "traced.keeps digest ts_text as_second ts_add P s0 (verify_publish h wx c jid job params repository mirror commit pushed)"
  unfolding verify_publish_def by (intro traced.workspace_rules traced_intros t_git_rules assms)

lemma t_create:
  assumes "pushes_only P"
  shows "traced.keeps digest ts_text as_second ts_add P s0 (create_job h se wx c jid job)"
proof -
  have new: "traced.keeps digest ts_text as_second ts_add P s0 (materialize_workspace h wx c jid job params repository wid)"
    if "uuid_text (workspace_id_str wid)" for job params repository wid
    unfolding materialize_workspace_def
    by (intro traced.workspace_rules traced_intros t_git_rules traced.keeps_xstore[OF create_workspace_op[OF that]] assms) simp_all
  have parsed: "uuid_text (workspace_id_str wid)" if "WorkspaceId_parse (job_id_str jid) = Ok wid" for wid
    using that by (auto simp: WorkspaceId_parse_def split: if_splits)
  have located: "traced.keeps digest ts_text as_second ts_add P s0 (xbind (xlift (WorkspaceId_parse (job_id_str jid))) (\<lambda>wid.
         xtry (xread (get_workspace wid)) (\<lambda>existing.
         case existing of
           Inr existing \<Rightarrow> adopt_workspace wx jid job params existing
         | Inl _ \<Rightarrow> materialize_workspace h wx c jid job params repository wid)))" for job params repository
    by (rule traced.keeps_lift_bind) (intro traced.workspace_rules traced_intros new parsed)
  show ?thesis unfolding create_job_def by (intro traced.workspace_rules traced_intros located traced.keeps_fuel[OF t_wait_fetch])
qed

section \<open>Pushes\<close>

text \<open>What is known of a job record that a worker has read.\<close>

definition submitted_as :: "string \<Rightarrow> json \<Rightarrow> JobId \<Rightarrow> store \<Rightarrow> bool" where
  "submitted_as who spec jid s \<longleftrightarrow> (\<exists>r \<in> set (st_jobs s). jr_id r = job_id_str jid \<and> jr_principal r = who \<and> jr_spec r = spec)"

lemma submitted_as_steps:
  assumes "steps digest ts_text as_second ts_add s s'" and "store_inv s" and "submitted_as who spec jid s"
  shows "submitted_as who spec jid s'"
proof -
  have row: "jr_id j' = jr_id j \<and> jr_principal j' = jr_principal j \<and> jr_spec j' = jr_spec j" if "job_row_step j j'" for j j'
    using that by (auto simp: job_row_step_def transitioned_row_def cancelled_row_def)
  have "(submitted_as who spec jid s \<longrightarrow> submitted_as who spec jid s') \<and> store_inv s'"
  proof (rule steps_invariant[OF assms(1,2)])
    show "submitted_as who spec jid x \<longrightarrow> submitted_as who spec jid y"
      if "store_step digest ts_text as_second ts_add x y" "store_inv x" for x y
      using step_job_rows[OF that] row unfolding submitted_as_def by metis
  qed auto
  with assms(3) show ?thesis by simp
qed

text \<open>The store has held that the job is reconciling, which a publish job records before it may push.\<close>

definition recorded_reconciling ::
  "(json \<Rightarrow> string) \<Rightarrow> (timestamp \<Rightarrow> string) \<Rightarrow> (timestamp \<Rightarrow> int) \<Rightarrow> (timestamp \<Rightarrow> nat \<Rightarrow> timestamp option) \<Rightarrow> JobId \<Rightarrow> store \<Rightarrow> bool" where
  "recorded_reconciling digest ts_text as_second ts_add jid s \<longleftrightarrow>
     (\<exists>s1. reachable digest ts_text as_second ts_add s1 \<and> job_in {Reconciling} jid s1 \<and> steps digest ts_text as_second ts_add s1 s)"

definition followed_job ::
  "(json \<Rightarrow> string) \<Rightarrow> (timestamp \<Rightarrow> string) \<Rightarrow> (timestamp \<Rightarrow> int) \<Rightarrow> (timestamp \<Rightarrow> nat \<Rightarrow> timestamp option) \<Rightarrow>
   string \<Rightarrow> json \<Rightarrow> JobId \<Rightarrow> JobRecord \<Rightarrow> store \<Rightarrow> bool" where
  "followed_job digest ts_text as_second ts_add who spec jid job s \<longleftrightarrow>
     reachable digest ts_text as_second ts_add s \<and> submitted_as who spec jid s \<and> job_principal job = who
     \<and> \<not> JobState_is_terminal (h_state (job_handle job))
     \<and> (h_state (job_handle job) = Reconciling \<longrightarrow> recorded_reconciling digest ts_text as_second ts_add jid s)"

lemma recorded_steps:
  "recorded_reconciling digest ts_text as_second ts_add jid s \<Longrightarrow> steps digest ts_text as_second ts_add s s' \<Longrightarrow>
   recorded_reconciling digest ts_text as_second ts_add jid s'"
  unfolding recorded_reconciling_def by (blast intro: run.R_trans)

lemma live_steps:
  assumes "followed_job digest ts_text as_second ts_add who spec jid job s" and "steps digest ts_text as_second ts_add s s'"
  shows "followed_job digest ts_text as_second ts_add who spec jid job s'"
  using assms submitted_as_steps[OF assms(2) reachable_store_inv] steps_reachable[OF assms(2)] recorded_steps[OF _ assms(2)]
  by (auto simp: followed_job_def)

text \<open>A record read from the store, and one that has just been moved there.\<close>

lemma read_record:
  assumes "reachable digest ts_text as_second ts_add s" and "get_job jid s = Ok job"
  shows "submitted_as (job_principal job) (job_spec job) jid s"
    and "h_state (job_handle job) = Reconciling \<Longrightarrow> recorded_reconciling digest ts_text as_second ts_add jid s"
    and "submitted_as who spec jid s \<Longrightarrow> job_principal job = who"
proof -
  note inv = store_inv_parts(1)[OF reachable_store_inv[OF assms(1)]]
  obtain r where r: "select_one (\<lambda>r. jr_id r = job_id_str jid) (st_jobs s) = Some r" and job: "job = decoded_job r"
    using assms(2) unfolding get_job_iff[OF inv] by (auto split: option.splits)
  note mem = jobs_t.found[OF r]
  show "submitted_as (job_principal job) (job_spec job) jid s"
    using mem unfolding submitted_as_def job decoded_job_def by auto
  show "recorded_reconciling digest ts_text as_second ts_add jid s" if "h_state (job_handle job) = Reconciling"
    using get_job_in[OF inv assms(2), of "{Reconciling}"] that assms(1) run.R_refl unfolding recorded_reconciling_def by blast
  show "job_principal job = who" if "submitted_as who spec jid s"
  proof -
    from that obtain r' where r': "r' \<in> set (st_jobs s)" "jr_id r' = job_id_str jid" "jr_principal r' = who"
      unfolding submitted_as_def by blast
    have "r' = r" using jobs_t.key_unique[OF jobs_inv_distinct[OF inv] r'(1)] mem r'(2) by simp
    with r'(3) show ?thesis by (simp add: job decoded_job_def)
  qed
qed

lemma live_read:
  assumes "followed_job digest ts_text as_second ts_add who spec jid job s" and "get_job jid s = Ok job'"
    and "\<not> JobState_is_terminal (h_state (job_handle job'))"
  shows "followed_job digest ts_text as_second ts_add who spec jid job' s"
  using assms read_record[OF _ assms(2)] by (auto simp: followed_job_def)

text \<open>The store moves forward along a worker.\<close>

lemma traced_steps:
  assumes "traced digest ts_text as_second ts_add P s0 x"
    and "\<And>s. traced.keeps digest ts_text as_second ts_add (\<lambda>_ _. True) s m"
  shows "steps digest ts_text as_second ts_add (x_store x) (x_store (fst (m x)))"
proof -
  have "traced digest ts_text as_second ts_add (\<lambda>_ _. True) (x_store x) x"
    using assms(1) by (auto simp: traced_def run.R_refl)
  from traced.keepsD[OF assms(2) this] show ?thesis by (simp add: traced_def)
qed

lemma live_after:
  assumes "followed_job digest ts_text as_second ts_add who spec jid job (x_store x)"
    and "traced digest ts_text as_second ts_add P s0 x"
    and "\<And>s. traced.keeps digest ts_text as_second ts_add (\<lambda>_ _. True) s m"
  shows "followed_job digest ts_text as_second ts_add who spec jid job (x_store (fst (m x)))"
  by (rule live_steps[OF assms(1) traced_steps[OF assms(2,3)]])

lemma waited_live:
  assumes "wait_repository_publish rounds jid resource job x = (x', Ok (Some job'))"
    and "followed_job digest ts_text as_second ts_add who spec jid job (x_store x)" and "traced digest ts_text as_second ts_add P s0 x"
  shows "followed_job digest ts_text as_second ts_add who spec jid job' (x_store x')"
  using assms
proof (induction rounds arbitrary: job x)
  case 0
  then show ?case by (simp add: xresult_def)
next
  case (Suc rounds)
  from Suc.prems(1) obtain x1 acquired where a: "xstore (\<lambda>now. try_acquire_resource now ''repository_publish'' resource jid) x = (x1, Ok acquired)"
    and rest: "(if acquired then xret (Some job) else
       xbind (xread (get_job jid)) (\<lambda>job. if JobState_is_terminal (h_state (job_handle job)) then xret None
       else xbind xsleep (\<lambda>_. wait_repository_publish rounds jid resource job))) x1 = (x', Ok (Some job'))"
    unfolding wait_repository_publish.simps by (elim xbind_Ok)
  have L1: "followed_job digest ts_text as_second ts_add who spec jid job (x_store x1)"
    using live_after[OF Suc.prems(2,3) t_acquire] a by (metis fst_conv)
  have I1: "traced digest ts_text as_second ts_add P s0 x1" using traced.keepsD[OF t_acquire Suc.prems(3)] a by (metis fst_conv)
  show ?case
  proof (cases acquired)
    case True
    with rest L1 show ?thesis by (simp add: xret_def)
  next
    case False
    with rest obtain x2 job2 where r: "xread (get_job jid) x1 = (x2, Ok job2)"
      and rest2: "(if JobState_is_terminal (h_state (job_handle job2)) then xret None
         else xbind xsleep (\<lambda>_. wait_repository_publish rounds jid resource job2)) x2 = (x', Ok (Some job'))"
      by (auto elim: xbind_Ok)
    have "followed_job digest ts_text as_second ts_add who spec jid job (x_store x2)"
      using live_after[OF L1 I1 traced.keeps_xread] r by (metis fst_conv)
    moreover have "\<not> JobState_is_terminal (h_state (job_handle job2))" using rest2 by (auto simp: xret_def split: if_splits)
    ultimately have L2: "followed_job digest ts_text as_second ts_add who spec jid job2 (x_store x2)"
      and rest3: "xbind xsleep (\<lambda>_. wait_repository_publish rounds jid resource job2) x2 = (x', Ok (Some job'))"
      using live_read[OF _ xread_Ok[OF r]] rest2 by simp_all
    have I2: "traced digest ts_text as_second ts_add P s0 x2" using traced.keepsD[OF traced.keeps_xread I1] r by (metis fst_conv)
    from rest3 obtain x3 u where s: "xsleep x2 = (x3, Ok u)"
      and w: "wait_repository_publish rounds jid resource job2 x3 = (x', Ok (Some job'))" by (elim xbind_Ok)
    have "followed_job digest ts_text as_second ts_add who spec jid job2 (x_store x3)"
      using live_after[OF L2 I2 traced.keeps_xsleep] s by (metis fst_conv)
    moreover have "traced digest ts_text as_second ts_add P s0 x3" using traced.keepsD[OF traced.keeps_xsleep I2] s by (metis fst_conv)
    ultimately show ?thesis by (rule Suc.IH[OF w])
  qed
qed

text \<open>A moved job.\<close>

lemma live_moved:
  assumes "move_job jid job st payload result x = (x', Ok job')"
    and "followed_job digest ts_text as_second ts_add who spec jid job (x_store x)" and "traced digest ts_text as_second ts_add P s0 x"
    and "\<not> JobState_is_terminal st"
  shows "followed_job digest ts_text as_second ts_add who spec jid job' (x_store x')" and "h_state (job_handle job') = st"
proof -
  have L: "followed_job digest ts_text as_second ts_add who spec jid job (x_store x')"
    using live_after[OF assms(2,3) t_move_job] assms(1) by (metis fst_conv)
  have "moves_ok digest ts_text as_second ts_add (x_moves x)" "store_inv (x_store x)"
    using assms(2,3) reachable_store_inv by (auto simp: traced_def followed_job_def)
  note ok = moved_job[OF assms(1) this]
  show "h_state (job_handle job') = st" using ok(2) .
  show "followed_job digest ts_text as_second ts_add who spec jid job' (x_store x')"
    using live_read[OF L ok(1)] ok(2) assms(4) by simp
qed

lemma marked_live:
  assumes "mark_workspace_job_running jid job name x = (x', Ok job')"
    and "followed_job digest ts_text as_second ts_add who spec jid job (x_store x)" and "traced digest ts_text as_second ts_add P s0 x"
  shows "followed_job digest ts_text as_second ts_add who spec jid job' (x_store x')" and "h_state (job_handle job') \<in> {Running, Reconciling}"
proof -
  from assms(1) obtain x1 job1 where first: "(if h_state (job_handle job) = Queued
        then move_job jid job Dispatching (JObject [(''launcher'', JString ''workspace_worker'')]) None else xret job) x = (x1, Ok job1)"
    and second: "(if h_state (job_handle job1) = Dispatching then move_job jid job1 Running (phase name []) None else xret job1) x1 = (x', Ok job')"
    unfolding mark_workspace_job_running_def by (elim xbind_Ok)
  have I1: "traced digest ts_text as_second ts_add P s0 x1"
    using first assms(3) traced.keepsD[OF t_move_job assms(3)] by (cases "h_state (job_handle job) = Queued") (auto simp: xret_def, metis fst_conv)
  have L1: "followed_job digest ts_text as_second ts_add who spec jid job1 (x_store x1) \<and> h_state (job_handle job1) \<noteq> Queued"
    using first assms(2) live_moved[OF _ assms(2,3)] by (cases "h_state (job_handle job) = Queued") (auto simp: xret_def JobState_is_terminal_def)
  have "followed_job digest ts_text as_second ts_add who spec jid job' (x_store x') \<and> h_state (job_handle job') \<in> {Running, Reconciling}"
  proof (cases "h_state (job_handle job1) = Dispatching")
    case True
    with second have "move_job jid job1 Running (phase name []) None x1 = (x', Ok job')" by simp
    from live_moved[OF this conjunct1[OF L1] I1] show ?thesis by (simp add: JobState_is_terminal_def)
  next
    case False
    with second have "job' = job1" "x' = x1" by (simp_all add: xret_def)
    with L1 False show ?thesis by (cases "h_state (job_handle job1)") (auto simp: followed_job_def JobState_is_terminal_def)
  qed
  then show "followed_job digest ts_text as_second ts_add who spec jid job' (x_store x')" "h_state (job_handle job') \<in> {Running, Reconciling}"
    by simp_all
qed

text \<open>What makes a push right: the job, its request and its workspace, and what git answered before.\<close>

definition git_in_mirror :: "Config \<Rightarrow> string \<Rightarrow> string list \<Rightarrow> git_invocation" where
  "git_in_mirror c mirror args = (git_command c (Some mirror) None)\<lparr>gi_args := args\<rparr>"

definition git_answered :: "'w git_host \<Rightarrow> git_invocation \<Rightarrow> string \<Rightarrow> bool" where
  "git_answered h command stdout \<longleftrightarrow> (\<exists>w w'. gh_git h command w = (w', Ok (True, stdout)))"

definition push_prepared ::
  "'w git_host \<Rightarrow> target_serde \<Rightarrow> Config \<Rightarrow> WorkspacePublishParams \<Rightarrow> string \<Rightarrow> bool" where
  "push_prepared h se c params commit \<longleftrightarrow>
     (\<exists>repository. map_of (cf_repositories c) (wp_repository params) = Some repository
        \<and> wp_reference params \<in> set (rc_publish_refs repository))
     \<and> (\<exists>head. git_answered h (git_in_mirror c (mirror_path c (wp_repository params))
            [''rev-parse'', ''--verify'', tracking_ref (wp_reference params)]) head
          \<and> eq_ignore_ascii_case (trim head) (wp_expected_remote_head params))"

definition push_justified ::
  "(json \<Rightarrow> string) \<Rightarrow> (timestamp \<Rightarrow> string) \<Rightarrow> (timestamp \<Rightarrow> int) \<Rightarrow> (timestamp \<Rightarrow> nat \<Rightarrow> timestamp option) \<Rightarrow>
   'w git_host \<Rightarrow> target_serde \<Rightarrow> Config \<Rightarrow> JobId \<Rightarrow> store \<Rightarrow> git_invocation \<Rightarrow> bool" where
  "push_justified digest ts_text as_second ts_add h se c jid s command \<longleftrightarrow>
     recorded_reconciling digest ts_text as_second ts_add jid s
     \<and> (\<exists>who spec params s2 workspace commit stdout.
          submitted_as who spec jid s \<and> tv_publish se spec = Some params
          \<and> reachable digest ts_text as_second ts_add s2
          \<and> get_owned_workspace who (wp_repository params) (wp_workspace_id params) s2 = Ok workspace
          \<and> ws_commit_hash workspace = Some commit \<and> push_prepared h se c params commit
          \<and> git_answered h (git_in_mirror c (mirror_path c (wp_repository params))
              [''merge-base'', ''--is-ancestor'', wp_expected_remote_head params, commit]) stdout
          \<and> command = git_in_mirror c (mirror_path c (wp_repository params)) [''push'', ''origin'', commit @ '':'' @ wp_reference params])"

abbreviation pushes_ok where
  "pushes_ok digest ts_text as_second ts_add h se c jid \<equiv> \<lambda>s command.
     git_subcommand command = ''push'' \<longrightarrow> push_justified digest ts_text as_second ts_add h se c jid s command"

lemma pushes_ok_only: "pushes_only (pushes_ok digest ts_text as_second ts_add h se c jid)"
  by (simp add: pushes_only_def)

lemma call_at:
  assumes "traced digest ts_text as_second ts_add P s0 x" and "P (x_store x) call"
  shows "traced digest ts_text as_second ts_add P s0 (fst (xcall call f x))"
proof -
  have "traced digest ts_text as_second ts_add P s0 (x\<lparr>x_calls := x_calls x @ [(x_store x, call)]\<rparr>)"
    using assms by (auto simp: traced_def)
  from traced.keepsD[OF traced.keeps_xworld this] show ?thesis by (simp add: xcall_def)
qed

lemma run_git_Ok:
  assumes "run_git h command x = (x', Ok (True, stdout))"
  shows "git_answered h command stdout"
  using assms by (auto simp: git_answered_def run_git_def xcall_def xworld_def map_err_def split: list.splits prod.splits sum.splits)

lemma git_success_Ok:
  assumes "git_success h c git_dir index args x = (x', Ok True)"
  shows "\<exists>stdout. git_answered h ((git_command c git_dir index)\<lparr>gi_args := args\<rparr>) stdout"
  using assms unfolding git_success_def by (elim xbind_Ok) (auto simp: xret_def dest: run_git_Ok)

lemma ensure_all_Ok: "ensure_all checks = Ok u \<Longrightarrow> list_all fst checks"
  by (induction checks rule: ensure_all.induct) (auto split: if_splits)

lemma xensure_Ok: "xensure checks x = (x', Ok u) \<Longrightarrow> x' = x \<and> list_all fst checks"
  by (cases "ensure_all checks") (auto simp: xensure_def xlift_def map_err_def dest: ensure_all_Ok)

lemma git_text_Ok:
  assumes "git_text h c git_dir index args x = (x', Ok t)"
  shows "\<exists>stdout. git_answered h ((git_command c git_dir index)\<lparr>gi_args := args\<rparr>) stdout \<and> t = trim stdout"
proof -
  let ?cmd = "(git_command c git_dir index)\<lparr>gi_args := args\<rparr>"
  from assms obtain x1 out where o: "git_output h c git_dir index args x = (x1, Ok out)" and t: "t = trim out"
    unfolding git_text_def by (elim xbind_Ok) (auto simp: xret_def)
  from o obtain x2 a b where r: "run_git h ?cmd x = (x2, Ok (a, b))" and
    rest: "xbind (xensure [(a, ''Git command failed''), (length b \<le> MAX_GIT_OUTPUT, ''Git output exceeds 1 MiB'')]) (\<lambda>_. xret b) x2 = (x1, Ok out)"
    unfolding git_output_def by (elim xbind_Ok) (auto split: prod.splits)
  from rest have "a" "b = out" by (auto elim!: xbind_Ok simp: xret_def dest!: xensure_Ok)
  with r t run_git_Ok[of h ?cmd x x2 out] show ?thesis by auto
qed

lemma resolve_Ok:
  assumes "resolve_remote_head h c mirror reference x = (x', Ok head)"
  shows "\<exists>stdout. git_answered h (git_in_mirror c mirror [''rev-parse'', ''--verify'', tracking_ref reference]) stdout \<and> head = trim stdout"
  using assms git_text_Ok unfolding resolve_remote_head_def git_in_mirror_def by (fastforce elim: xbind_Ok)

lemma t_intent [traced_intros]: "traced.keeps digest ts_text as_second ts_add P s0 (record_push_intent jid job params commit)"
  unfolding record_push_intent_def by (intro traced.workspace_rules traced_intros)

lemma intent_live:
  assumes "record_push_intent jid job params commit x = (x', Ok job')"
    and "followed_job digest ts_text as_second ts_add who spec jid job (x_store x)" and "traced digest ts_text as_second ts_add P s0 x"
    and "h_state (job_handle job) \<in> {Running, Reconciling}"
  shows "followed_job digest ts_text as_second ts_add who spec jid job' (x_store x')" and "h_state (job_handle job') = Reconciling"
  using assms(1,2,4) live_moved[OF _ assms(2,3), of Reconciling]
  by (auto simp: record_push_intent_def xret_def JobState_is_terminal_def split: if_splits)

lemma push_keeps:
  fixes h :: "'w git_host"
  assumes "traced digest ts_text as_second ts_add (pushes_ok digest ts_text as_second ts_add h se c jid) s0 x"
    and "push_justified digest ts_text as_second ts_add h se c jid (x_store x) (git_in_mirror c mirror args)"
  shows "traced digest ts_text as_second ts_add (pushes_ok digest ts_text as_second ts_add h se c jid) s0
    (fst (git_success h c (Some mirror) None args x))"
  unfolding git_success_def run_git_def git_in_mirror_def[symmetric]
  by (intro traced.bind_at call_at[OF assms(1)]) (use assms(2) in \<open>auto simp: xret_def split: prod.splits\<close>)

lemma push_commit_keeps:
  fixes h :: "'w git_host"
  assumes I: "traced digest ts_text as_second ts_add (pushes_ok digest ts_text as_second ts_add h se c jid) s0 x"
    and L: "followed_job digest ts_text as_second ts_add who spec jid job (x_store x)" and st: "h_state (job_handle job) \<in> {Running, Reconciling}"
    and p: "tv_publish se spec = Some params"
    and w: "reachable digest ts_text as_second ts_add s2" "get_owned_workspace who (wp_repository params) (wp_workspace_id params) s2 = Ok workspace"
      "ws_commit_hash workspace = Some commit"
    and prepared: "push_prepared h se c params commit"
  shows "traced digest ts_text as_second ts_add (pushes_ok digest ts_text as_second ts_add h se c jid) s0
    (fst (push_commit h wx c jid job params repository (mirror_path c (wp_repository params)) commit x))"
proof -
  let ?I = "traced digest ts_text as_second ts_add (pushes_ok digest ts_text as_second ts_add h se c jid) s0 :: ('w, git_invocation) exec \<Rightarrow> bool"
  let ?mirror = "mirror_path c (wp_repository params)"
  let ?ancestor = "[''merge-base'', ''--is-ancestor'', wp_expected_remote_head params, commit]"
  let ?push = "[''push'', ''origin'', commit @ '':'' @ wp_reference params]"
  let ?go = "\<lambda>job. xbind (git_success h c (Some ?mirror) None ?push) (verify_publish h wx c jid job params repository ?mirror commit)"
  have pushed: "?I (fst (xbind (record_push_intent jid job params commit) ?go x1))"
    if I1: "?I x1" and L1: "followed_job digest ts_text as_second ts_add who spec jid job (x_store x1)"
      and out: "git_answered h (git_in_mirror c ?mirror ?ancestor) out" for x1 out
  proof (rule traced.bind_after[OF I1 t_intent])
    fix x2 job' assume j: "record_push_intent jid job params commit x1 = (x2, Ok job')" and I2: "?I x2"
    from intent_live[OF j L1 I1 st] have "push_justified digest ts_text as_second ts_add h se c jid (x_store x2) (git_in_mirror c ?mirror ?push)"
      using p w prepared out unfolding push_justified_def followed_job_def by blast
    from push_keeps[OF I2 this] show "?I (fst (?go job' x2))"
      by (rule traced.bind_at) (rule traced.keepsD[OF t_verify[OF pushes_ok_only]])
  qed
  have quiet: "traced.keeps digest ts_text as_second ts_add P s (git_success h c (Some ?mirror) None ?ancestor)" if "pushes_only P" for P s
    by (rule t_git_success(1)[OF that]) simp_all
  have checked: "?I (fst (xbind (git_success h c (Some ?mirror) None ?ancestor) (\<lambda>ancestor.
     xbind (xensure [(ancestor, ''workspace commit is not a fast-forward of the expected remote head'')]) (\<lambda>_.
     xbind (record_push_intent jid job params commit) ?go)) x))"
  proof (rule traced.bind_after[OF I quiet[OF pushes_ok_only]])
    fix x1 ancestor assume m: "git_success h c (Some ?mirror) None ?ancestor x = (x1, Ok ancestor)" and I1: "?I x1"
    have L1: "followed_job digest ts_text as_second ts_add who spec jid job (x_store x1)"
      using live_after[OF L I quiet] m by (simp add: pushes_only_def)
    show "?I (fst (xbind (xensure [(ancestor, ''workspace commit is not a fast-forward of the expected remote head'')]) (\<lambda>_.
        xbind (record_push_intent jid job params commit) ?go) x1))"
    proof (rule traced.bind_after[OF I1 traced.keeps_pure(7)])
      fix x2 u assume e: "xensure [(ancestor, ''workspace commit is not a fast-forward of the expected remote head'')] x1 = (x2, Ok u)"
      from xensure_Ok[OF e] have x2: "x2 = x1" and ancestor by simp_all
      with m git_success_Ok obtain out where "git_answered h (git_in_mirror c ?mirror ?ancestor) out"
        unfolding git_in_mirror_def by fastforce
      from pushed[OF I1 L1 this] show "?I (fst (xbind (record_push_intent jid job params commit) ?go x2))" by (simp add: x2)
    qed
  qed
  then show ?thesis by (simp add: push_commit_def)
qed

text \<open>A step that pushes nothing, while the job is followed.\<close>

lemma live_bind:
  assumes "traced digest ts_text as_second ts_add (pushes_ok digest ts_text as_second ts_add h se c jid) s0 x"
    and "followed_job digest ts_text as_second ts_add who spec jid job (x_store x)"
    and "\<And>P s. pushes_only P \<Longrightarrow> traced.keeps digest ts_text as_second ts_add P s m"
    and "\<And>x1 v. m x = (x1, Ok v) \<Longrightarrow> traced digest ts_text as_second ts_add (pushes_ok digest ts_text as_second ts_add h se c jid) s0 x1 \<Longrightarrow>
      followed_job digest ts_text as_second ts_add who spec jid job (x_store x1) \<Longrightarrow>
      traced digest ts_text as_second ts_add (pushes_ok digest ts_text as_second ts_add h se c jid) s0 (fst (f v x1))"
  shows "traced digest ts_text as_second ts_add (pushes_ok digest ts_text as_second ts_add h se c jid) s0 (fst (xbind m f x))"
proof (rule traced.bind_after[OF assms(1) assms(3)[OF pushes_ok_only] assms(4)])
  fix x1 v assume m: "m x = (x1, Ok v)"
  have "followed_job digest ts_text as_second ts_add who spec jid job (x_store (fst (m x)))"
    by (rule live_after[OF assms(2,1) assms(3)]) (simp add: pushes_only_def)
  with m show "followed_job digest ts_text as_second ts_add who spec jid job (x_store x1)" by simp
qed

lemma mirror_Ok: "ensure_mirror h c name repository x = (x', Ok mirror) \<Longrightarrow> mirror = mirror_path c name"
  unfolding ensure_mirror_def Let_def by (elim xbind_Ok) (auto simp: xret_def)

lemma publish_observed_keeps:
  fixes h :: "'w git_host"
  assumes I: "traced digest ts_text as_second ts_add (pushes_ok digest ts_text as_second ts_add h se c jid) s0 x"
    and L: "followed_job digest ts_text as_second ts_add who spec jid job (x_store x)" and st: "h_state (job_handle job) \<in> {Running, Reconciling}"
    and p: "tv_publish se spec = Some params"
    and w: "reachable digest ts_text as_second ts_add s2" "get_owned_workspace who (wp_repository params) (wp_workspace_id params) s2 = Ok workspace"
      "ws_commit_hash workspace = Some commit"
    and ref: "map_of (cf_repositories c) (wp_repository params) = Some repository" "wp_reference params \<in> set (rc_publish_refs repository)"
    and head: "resolve_remote_head h c (mirror_path c (wp_repository params)) (wp_reference params) x0 = (x, Ok observed)"
  shows "traced digest ts_text as_second ts_add (pushes_ok digest ts_text as_second ts_add h se c jid) s0
    (fst (publish_observed h wx c jid job params repository (mirror_path c (wp_repository params)) workspace commit observed x))"
proof (cases "eq_ignore_ascii_case observed commit \<or> \<not> eq_ignore_ascii_case observed (wp_expected_remote_head params)")
  case True
  have "traced.keeps digest ts_text as_second ts_add (pushes_ok digest ts_text as_second ts_add h se c jid) s0
      (publish_observed h wx c jid job params repository (mirror_path c (wp_repository params)) workspace commit observed)"
    by (cases "eq_ignore_ascii_case observed commit"; use True in \<open>simp add: publish_observed_def\<close>)
      (intro traced.workspace_rules traced_intros)+
  from traced.keepsD[OF this I] show ?thesis .
next
  case False
  from resolve_Ok[OF head] False ref have "push_prepared h se c params commit" unfolding push_prepared_def by auto
  from push_commit_keeps[OF I L st p w this] False show ?thesis by (simp add: publish_observed_def)
qed

lemma publish_locked_keeps:
  fixes h :: "'w git_host"
  assumes I: "traced digest ts_text as_second ts_add (pushes_ok digest ts_text as_second ts_add h se c jid) s0 x"
    and L: "followed_job digest ts_text as_second ts_add who spec jid job (x_store x)" and p: "tv_publish se spec = Some params"
    and ref: "map_of (cf_repositories c) (wp_repository params) = Some repository" "wp_reference params \<in> set (rc_publish_refs repository)"
  shows "traced digest ts_text as_second ts_add (pushes_ok digest ts_text as_second ts_add h se c jid) s0
    (fst (publish_locked h wx c jid job params repository x))"
proof -
  let ?I = "traced digest ts_text as_second ts_add (pushes_ok digest ts_text as_second ts_add h se c jid) s0 :: ('w, git_invocation) exec \<Rightarrow> bool"
  let ?L = "\<lambda>job x. followed_job digest ts_text as_second ts_add who spec jid job (x_store x)"
  let ?observe = "\<lambda>job workspace commit. xbind workspace_serial (\<lambda>_.
     xbind (ensure_mirror h c (wp_repository params) repository) (\<lambda>mirror.
     xbind (fetch h c mirror repository) (\<lambda>_.
     xbind (resolve_remote_head h c mirror (wp_reference params)) (\<lambda>observed.
     publish_observed h wx c jid job params repository mirror workspace commit observed))))"
  have observe: "?I (fst (?observe job workspace commit x))"
    if "?I x" "?L job x" and st: "h_state (job_handle job) \<in> {Running, Reconciling}"
      and w: "reachable digest ts_text as_second ts_add s2" "get_owned_workspace who (wp_repository params) (wp_workspace_id params) s2 = Ok workspace"
        "ws_commit_hash workspace = Some commit" for x job workspace commit s2
    using that(1,2)
    by (elim live_bind) (auto intro!: traced.keeps_serial t_git_rules publish_observed_keeps[OF _ _ st p w ref] elim!: live_bind dest: mirror_Ok)
  have mark: "?I (fst (xbind (mark_workspace_job_running jid job ''checking_remote_baseline'') (\<lambda>job. ?observe job workspace commit) x))"
    if "?I x" "?L job x" and w: "reachable digest ts_text as_second ts_add s2"
        "get_owned_workspace who (wp_repository params) (wp_workspace_id params) s2 = Ok workspace"
        "ws_commit_hash workspace = Some commit" for x workspace commit s2
  proof (rule traced.bind_after[OF that(1) t_mark])
    fix x1 job' assume m: "mark_workspace_job_running jid job ''checking_remote_baseline'' x = (x1, Ok job')" and I1: "?I x1"
    from observe[OF I1 marked_live[OF m that(2,1)] w] show "?I (fst (?observe job' workspace commit x1))" .
  qed
  have who: "job_principal job = who" using L by (simp add: followed_job_def)
  show ?thesis unfolding publish_locked_def
  proof (rule live_bind[OF I L traced.keeps_xread])
    fix x1 workspace
    assume r: "xread (get_owned_workspace (job_principal job) (wp_repository params) (wp_workspace_id params)) x = (x1, Ok workspace)"
      and I1: "?I x1" and L1: "?L job x1"
    from xread_Ok[OF r] who have w: "get_owned_workspace who (wp_repository params) (wp_workspace_id params) (x_store x1) = Ok workspace" by simp
    have R: "reachable digest ts_text as_second ts_add (x_store x1)" using L1 by (simp add: followed_job_def)
    show "?I (fst (xbind (xensure [(ws_revision workspace = wp_expected_revision params
         \<or> (checked_add_u64 (wp_expected_revision params) 1 = Some (ws_revision workspace) \<and> ws_state workspace = Published),
         ''workspace revision changed'')]) (\<lambda>_.
       xbind (xlift (ok_or ''workspace has no commit to publish'' (ws_commit_hash workspace))) (\<lambda>commit.
       xbind (mark_workspace_job_running jid job ''checking_remote_baseline'') (\<lambda>job. ?observe job workspace commit))) x1))"
      by (rule live_bind[OF I1 L1 traced.keeps_pure(7)], rule live_bind, assumption, assumption, rule traced.keeps_pure(3))
        (auto intro!: mark[OF _ _ R w] simp: xlift_def ok_or_def map_err_def split: option.splits)
  qed
qed

lemma publish_keeps:
  fixes h :: "'w git_host"
  assumes I: "traced digest ts_text as_second ts_add (pushes_ok digest ts_text as_second ts_add h se c jid) s0 x"
    and L: "followed_job digest ts_text as_second ts_add who (job_spec job) jid job (x_store x)"
  shows "traced digest ts_text as_second ts_add (pushes_ok digest ts_text as_second ts_add h se c jid) s0 (fst (publish_job h se wx c jid job x))"
proof -
  let ?I = "traced digest ts_text as_second ts_add (pushes_ok digest ts_text as_second ts_add h se c jid) s0 :: ('w, git_invocation) exec \<Rightarrow> bool"
  let ?L = "\<lambda>job x. followed_job digest ts_text as_second ts_add who spec jid job (x_store x)"
  let ?wait = "\<lambda>params x. wait_repository_publish (length (x_moves x)) jid (wp_repository params @ '':'' @ wp_reference params) job x"
  have locked: "?I (fst (xbind (?wait params) (\<lambda>waited.
      case waited of None \<Rightarrow> xret () | Some job \<Rightarrow> publish_locked h wx c jid job params repository) x))"
    if I: "?I x" and L: "followed_job digest ts_text as_second ts_add who (job_spec job) jid job (x_store x)"
      and p: "tv_publish se (job_spec job) = Some params"
      and ref: "map_of (cf_repositories c) (wp_repository params) = Some repository" "wp_reference params \<in> set (rc_publish_refs repository)"
    for x params repository
  proof (rule traced.bind_after[OF I traced.keeps_fuel[OF t_wait_publish]])
    fix x1 waited assume w: "?wait params x = (x1, Ok waited)" and I1: "?I x1"
    show "?I (fst ((case waited of None \<Rightarrow> xret () | Some job \<Rightarrow> publish_locked h wx c jid job params repository) x1))"
    proof (cases waited)
      case None
      with I1 show ?thesis by (simp add: xret_def)
    next
      case (Some job')
      from publish_locked_keeps[OF I1 waited_live[OF w[unfolded Some] L I] p ref] Some show ?thesis by simp
    qed
  qed
  show ?thesis unfolding publish_job_def
    by (rule live_bind[OF I L traced.keeps_pure(8)], rule live_bind, assumption, assumption, rule traced.keeps_pure(3),
        rule live_bind, assumption, assumption, rule traced.keeps_pure(7))
      (auto intro!: locked[simplified] dest!: xensure_Ok
        simp: xdecode_def xlift_def ok_or_def map_err_def repository_config_def split: option.splits)
qed

lemma workspace_worker_keeps:
  fixes h :: "'w git_host"
  assumes I: "traced digest ts_text as_second ts_add (pushes_ok digest ts_text as_second ts_add h se c jid) s0 x"
    and R: "reachable digest ts_text as_second ts_add s0"
  shows "traced digest ts_text as_second ts_add (pushes_ok digest ts_text as_second ts_add h se c jid) s0 (fst (workspace_worker h se wx c jid x))"
proof -
  let ?I = "traced digest ts_text as_second ts_add (pushes_ok digest ts_text as_second ts_add h se c jid) s0 :: ('w, git_invocation) exec \<Rightarrow> bool"
  have run: "?I (fst (run_workspace_job h se wx c jid x))" unfolding run_workspace_job_def
  proof (rule traced.bind_after[OF I traced.keeps_xread])
    fix x1 job assume r: "xread (get_job jid) x = (x1, Ok job)" and I1: "?I x1"
    have R1: "reachable digest ts_text as_second ts_add (x_store x1)" using steps_reachable[OF _ R] I1 by (simp add: traced_def)
    have L: "followed_job digest ts_text as_second ts_add (job_principal job) (job_spec job) jid job (x_store x1)"
      if "\<not> JobState_is_terminal (h_state (job_handle job))"
      using read_record(1,2)[OF R1 xread_Ok[OF r]] R1 that by (simp add: followed_job_def)
    show "?I (fst ((if JobState_is_terminal (h_state (job_handle job)) then release_job_resource se job
       else if h_operation (job_handle job) = ''workspace.create'' then create_job h se wx c jid job
       else if h_operation (job_handle job) = ''workspace.publish'' then publish_job h se wx c jid job
       else if h_operation (job_handle job) = ''workspace.check'' then xret () else xfail ''unsupported workspace job'') x1))"
      using traced.keepsD[OF t_job_resource I1] traced.keepsD[OF t_create[OF pushes_ok_only] I1] publish_keeps[OF I1 L] I1
      by (simp add: xret_def xfail_def)
  qed
  have settle: "?I (fst ((case r of Inl _ \<Rightarrow> xignore (record_worker_error se jid) | Inr _ \<Rightarrow> xret ()) y))" if "?I y" for r :: "(unit, store_error) result" and y
    by (rule traced.keepsD[OF _ that]) (intro traced.workspace_rules traced_intros)
  show ?thesis using run settle by (cases "run_workspace_job h se wx c jid x") (simp add: workspace_worker_def xtry_def)
qed

end
