(* ===== verification/Executor_Request_Facts.thy ===== *)
theory Executor_Request_Facts
  imports Executor_Requests Executor_Workspace_Facts
begin

text \<open>
  Every request that an executor serves, whatever the host answers and other tasks do, uses the store
  through its operations only.
\<close>

section \<open>Command jobs\<close>

lemma free_only: "pushes_only (\<lambda>_ _. True)"
  by (simp add: pushes_only_def)

lemma t_manager [traced_intros]: "traced.keeps digest ts_text as_second ts_add P s0 (release_manager c jid)"
  unfolding release_manager_def by (intro traced.workspace_rules traced_intros)

lemma t_serialized [traced_intros]: "traced.keeps digest ts_text as_second ts_add P s0 (release_if_serialized c jid job)"
  unfolding release_if_serialized_def by (intro traced.workspace_rules traced_intros)

lemma t_reconcile [traced_intros]: "traced.keeps digest ts_text as_second ts_add P s0 (reconcile_once h se c jid)"
  unfolding reconcile_once_def reconcile_runner_state_def finish_from_record_def reconcile_unit_def reconcile_missing_def
    systemd_state_def xresult_def[symmetric]
  by (intro traced.workspace_rules traced_intros)

lemma t_files [traced_intros]: "traced.keeps digest ts_text as_second ts_add P s0 (xfiles h ops)"
  by (induction ops) (unfold xfiles.simps, intro traced.workspace_rules, intro traced.workspace_rules)

lemma t_persist [traced_intros]: "traced.keeps digest ts_text as_second ts_add P s0 (persist_command h se c jid operation spec prepared)"
  unfolding persist_command_def persist_deployment_spec_def by (intro traced.workspace_rules traced_intros)

lemma t_validate [traced_intros]:
  "traced.keeps digest ts_text as_second ts_add P s0 (validate_deployment_job h se as_second' c new)"
  "traced.keeps digest ts_text as_second ts_add P s0 (validate_workspace_job se c new)"
  unfolding validate_deployment_job_def validate_build_source_def validate_artifact_def validate_workspace_job_def
  by (intro traced.workspace_rules)+

lemma t_prepare [traced_intros]:
  "traced.keeps digest ts_text as_second ts_add P s0 (prepare_command h se as_second' c jid who operation spec)"
  unfolding prepare_command_def runner_params_def check_exec_params_def deployment_runner_params_def
  by (intro traced.workspace_rules traced_intros)

lemma t_fail_job [traced_intros]: "traced.keeps digest ts_text as_second ts_add P s0 (fail_job jid job payload result)"
  unfolding fail_job_def by (intro traced.workspace_rules traced_intros)

lemma t_launch: "traced.keeps digest ts_text as_second ts_add (\<lambda>_ _. True) s0 (launch h as_second' c jid params deadline)"
  unfolding launch_def by (intro traced.workspace_rules t_call) simp

lemma t_submit_command:
  "traced.keeps digest ts_text as_second ts_add (\<lambda>_ _. True) s0 (submit_command_job h se as_second' c jid new accepted)"
  unfolding submit_command_job_def dispatch_submitted_def start_submitted_def
  by (intro traced.workspace_rules traced_intros t_launch)

lemma t_submit:
  assumes "uuid_text (job_id_str jid)" and "nj_spec_version new \<le> u32_max"
  shows "traced.keeps digest ts_text as_second ts_add (\<lambda>_ _. True) s0 (submit_job h se digest as_second' c jid new)"
  unfolding submit_job_def
  by (intro traced.workspace_rules traced_intros t_submit_command traced.keeps_xstore[OF accept_op[OF assms]])

lemma t_cancel_service [traced_intros]: "traced.keeps digest ts_text as_second ts_add P s0 (cancel_service_job c params)"
  unfolding cancel_service_job_def by (intro traced.workspace_rules traced_intros)

lemma t_cancel_workspace [traced_intros]: "traced.keeps digest ts_text as_second ts_add P s0 (cancel_workspace_job se params)"
  unfolding cancel_workspace_job_def by (intro traced.workspace_rules traced_intros)

lemma t_cancel_command [traced_intros]: "traced.keeps digest ts_text as_second ts_add P s0 (cancel_command_job h c existing params)"
  unfolding cancel_command_job_def by (intro traced.workspace_rules traced_intros)

lemma t_read_logs [traced_intros]: "traced.keeps digest ts_text as_second ts_add P s0 (read_logs base64 h c job params)"
  unfolding read_logs_def Let_def by (intro traced.workspace_rules)

lemma t_runtime [traced_intros]: "traced.keeps digest ts_text as_second ts_add P s0 (observe_runtime h c who name)"
  unfolding observe_runtime_def by (intro traced.workspace_rules)

section \<open>Workspaces\<close>

lemma t_exact [traced_intros]: "traced.keeps digest ts_text as_second ts_add P s0 (exact_workspace h c who repository wid n)"
  unfolding exact_workspace_def revision_is_dir_def by (intro traced.workspace_rules)

lemma t_head:
  assumes "pushes_only P"
  shows "traced.keeps digest ts_text as_second ts_add P s0 (observe_repository_head h c who name reference)"
  unfolding observe_repository_head_def by (intro traced.workspace_rules t_git_rules assms)

lemma t_target_request:
  assumes "pushes_only P"
  shows "traced.keeps digest ts_text as_second ts_add P s0 (handle_workspace h hex fresh c who request)"
proof -
  have "traced.keeps digest ts_text as_second ts_add P s0 (target_status c who ps)"
    "traced.keeps digest ts_text as_second ts_add P s0 (target_read h hex c who pr)" for ps pr
    unfolding target_status_def target_read_def by (intro traced.workspace_rules traced_intros)+
  moreover have "traced.keeps digest ts_text as_second ts_add P s0 (target_apply h fresh c who pa)" for pa
    unfolding target_apply_def by (intro traced.workspace_rules traced_intros t_git_revision[OF assms]) simp_all
  moreover have "traced.keeps digest ts_text as_second ts_add P s0 (target_diff h c who pd)" for pd
    unfolding target_diff_def by (intro traced.workspace_rules traced_intros t_git_revision[OF assms]) simp_all
  moreover have "traced.keeps digest ts_text as_second ts_add P s0 (target_commit h c who pc)" for pc
    unfolding target_commit_def by (intro traced.workspace_rules traced_intros t_commit_tree[OF assms])
  ultimately show ?thesis
    unfolding handle_workspace_def by (cases request) (auto intro!: traced.keeps_xbind traced.keeps_serial)
qed

section \<open>The handler\<close>

lemma t_via:
  fixes m :: "('w, 'c, 'a) xact" and f :: "'c \<Rightarrow> 'd"
  assumes "\<And>s. traced.keeps digest ts_text as_second ts_add (\<lambda>_ _. True) s m"
  shows "traced.keeps digest ts_text as_second ts_add (\<lambda>_ _. True) s0 (xvia f m)"
proof (rule traced.keepsI)
  fix x :: "('w, 'd) exec" assume I: "traced digest ts_text as_second ts_add (\<lambda>_ _. True) s0 x"
  let ?x = "\<lparr>x_store = x_store x, x_world = x_world x, x_now = x_now x, x_instant = x_instant x, x_moves = x_moves x, x_calls = []\<rparr>"
  have "traced digest ts_text as_second ts_add (\<lambda>_ _. True) s0 ?x" using I by (simp add: traced_def)
  from traced.keepsD[OF assms this] show "traced digest ts_text as_second ts_add (\<lambda>_ _. True) s0 (fst (xvia f m x))"
    by (cases "m ?x") (simp add: xvia_def traced_def case_prod_beta)
qed

definition well_formed_request :: "ExecutorRequest \<Rightarrow> bool" where
  "well_formed_request request \<longleftrightarrow>
     (case request of ReqSubmit jid new \<Rightarrow> uuid_text (job_id_str jid) \<and> nj_spec_version new \<le> u32_max | _ \<Rightarrow> True)"

lemma t_handle:
  assumes "well_formed_request request" and "xe_digest e = digest"
  shows "traced.keeps digest ts_text as_second ts_add (\<lambda>_ _. True) s0 (handle e c request)"
proof -
  have "traced.keeps digest ts_text as_second ts_add (\<lambda>_ _. True) s0 (handle_status e c jid)" for jid
    unfolding handle_status_def by (intro traced.workspace_rules traced_intros)
  moreover have "traced.keeps digest ts_text as_second ts_add (\<lambda>_ _. True) s0 (handle_cancel e c params)" for params
    unfolding handle_cancel_def by (intro traced.workspace_rules traced_intros t_via)
  moreover have "traced.keeps digest ts_text as_second ts_add (\<lambda>_ _. True) s0
      (xvia UnitCall (submit_job (xe_target e) (xe_serde e) (xe_digest e) (xe_second e) c jid new))"
    if "uuid_text (job_id_str jid)" "nj_spec_version new \<le> u32_max" for jid new
    unfolding assms(2) by (intro t_via t_submit that)
  moreover have "traced.keeps digest ts_text as_second ts_add (\<lambda>_ _. True) s0 (handle e c (ReqLogs logs))"
    "traced.keeps digest ts_text as_second ts_add (\<lambda>_ _. True) s0 (handle e c (ReqRuntimeState who name))" for logs who name
    unfolding handle_def ExecutorRequest.case by (intro traced.workspace_rules traced_intros)+
  moreover have "traced.keeps digest ts_text as_second ts_add (\<lambda>_ _. True) s0 (handle e c (ReqWorkspace who target))"
    "traced.keeps digest ts_text as_second ts_add (\<lambda>_ _. True) s0 (handle e c (ReqRepositoryHead who name reference))"
    for who target name reference
    unfolding handle_def ExecutorRequest.case
    by (intro traced.workspace_rules t_via t_target_request[OF free_only] t_head[OF free_only])+
  ultimately show ?thesis using assms(1)
    by (cases request) (auto simp: handle_def well_formed_request_def intro: traced.keeps_pure)
qed

lemma t_serve:
  assumes "\<And>bytes request. decode bytes = Some request \<Longrightarrow> well_formed_request request" and "xe_digest e = digest"
  shows "traced.keeps digest ts_text as_second ts_add (\<lambda>_ _. True) s0 (serve_connection decode encode e c line)"
proof -
  have served: "traced.keeps digest ts_text as_second ts_add (\<lambda>_ _. True) s0 (xbind (xdecode (decode bytes)) (\<lambda>request.
      xtry (handle e c request) (\<lambda>r. xret (k r))))" for bytes k
    unfolding xdecode_def
    by (rule traced.keeps_lift_bind) (intro traced.keeps_xtry t_handle traced.keeps_pure assms, auto simp: ok_or_def split: option.splits intro: assms(1))
  show ?thesis unfolding serve_connection_def Let_def
    by (rule traced.keeps_xbind[OF traced.keeps_xsleep], rule traced.keeps_xbind[OF traced.keeps_pure(7)]) (rule served)
qed

section \<open>Tasks\<close>

text \<open>With no constraint on requests to the host, any request keeps the trace.\<close>

lemma t_any_call: "traced.keeps digest ts_text as_second ts_add (\<lambda>_ _. True) s0 (xcall call f)"
  by (rule t_call) simp

lemma t_any_git: "traced.keeps digest ts_text as_second ts_add (\<lambda>_ _. True) s0 (git_success h c git_dir index args)"
  unfolding git_success_def run_git_def by (intro traced.workspace_rules t_any_call)

lemma t_any_publish: "traced.keeps digest ts_text as_second ts_add (\<lambda>_ _. True) s0 (publish_job h se wx c jid job)"
  unfolding publish_job_def publish_locked_def publish_observed_def push_commit_def
  by (intro traced.workspace_rules traced_intros traced.keeps_fuel[OF t_wait_publish] t_any_git t_verify[OF free_only]
      t_mirror[OF free_only] t_fetch[OF free_only] t_resolve[OF free_only])

lemma t_workspace_worker: "traced.keeps digest ts_text as_second ts_add (\<lambda>_ _. True) s0 (workspace_worker h se wx c jid)"
  unfolding workspace_worker_def run_workspace_job_def
  by (intro traced.workspace_rules traced_intros t_create[OF free_only] t_any_publish)

lemma t_monitor [traced_intros]: "traced.keeps digest ts_text as_second ts_add P s0 (monitor h se c jid)"
proof -
  have "traced.keeps digest ts_text as_second ts_add P s0 (monitor_loop rounds h se c jid)" for rounds
    by (induction rounds) (simp add: traced.keeps_def, unfold monitor_loop.simps, intro traced.workspace_rules traced_intros)
  then show ?thesis unfolding monitor_def by (rule traced.keeps_fuel)
qed

lemma t_command_worker: "traced.keeps digest ts_text as_second ts_add (\<lambda>_ _. True) s0 (command_worker h se as_second' c jid)"
proof -
  have "traced.keeps digest ts_text as_second ts_add (\<lambda>_ _. True) s0 (wait_host_lock rounds c jid)" for rounds
    by (induction rounds) (simp add: traced.keeps_def, unfold wait_host_lock.simps, intro traced.workspace_rules traced_intros)
  note wait = traced.keeps_fuel[OF this]
  show ?thesis
    unfolding command_worker_def wait_for_command_resource_def record_command_worker_error_def recover_queued_def
      recover_dispatching_def systemd_state_def
    by (intro traced.workspace_rules traced_intros wait t_launch)
qed

lemma t_service_worker:
  "traced.keeps digest ts_text as_second ts_add (\<lambda>_ _. True) s0 (\<lambda>x. service_worker (Suc (length (x_moves x))) sv h c jid x)"
proof -
  have observe: "traced.keeps digest ts_text as_second ts_add (\<lambda>_ _. True) s0 (observe_service_unit h unit)" for unit
    unfolding observe_service_unit_def by (intro traced.workspace_rules traced.keepsI) auto
  have "traced.keeps digest ts_text as_second ts_add (\<lambda>_ _. True) s0 (wait_manager_job rounds h d n)" for rounds d n
    by (induction rounds) (simp add: traced.keeps_def, unfold wait_manager_job.simps, intro traced.workspace_rules traced_intros)
  note manager = traced.keeps_fuel[OF this]
  have "traced.keeps digest ts_text as_second ts_add (\<lambda>_ _. True) s0 (wait_service_lock rounds c jid)" for rounds
    by (induction rounds) (simp add: traced.keeps_def, unfold wait_service_lock.simps, intro traced.workspace_rules traced_intros)
  note wait = traced.keeps_fuel[OF this]
  have stages: "traced.keeps digest ts_text as_second ts_add (\<lambda>_ _. True) s0 (begin_service_action sv h c jid action params job)"
    "traced.keeps digest ts_text as_second ts_add (\<lambda>_ _. True) s0 (start_service_action sv h c jid job progress)"
    "traced.keeps digest ts_text as_second ts_add (\<lambda>_ _. True) s0 (recover_uncertain_service_action sv h c jid job)"
    "traced.keeps digest ts_text as_second ts_add (\<lambda>_ _. True) s0 (transition_service_unknown sv c jid job progress reason)"
    "traced.keeps digest ts_text as_second ts_add (\<lambda>_ _. True) s0 (finish_accepted_service_action sv h c jid job progress)"
    for action params job progress reason
    unfolding begin_service_action_def start_service_action_def recover_uncertain_service_action_def
      finish_accepted_service_action_def transition_service_unknown_def
    by (intro traced.workspace_rules traced_intros observe manager t_any_call)+
  have stage: "traced.keeps digest ts_text as_second ts_add (\<lambda>_ _. True) s0 (service_stage sv h c jid action params job)" for action params job
    unfolding service_stage_def by (cases "h_state (job_handle job)"; simp only: JobState.case; intro traced.workspace_rules traced_intros stages)
  have run: "traced.keeps digest ts_text as_second ts_add (\<lambda>_ _. True) s0 (run_service_job sv h c jid)"
    unfolding run_service_job_def locked_service_job_def by (intro traced.workspace_rules traced_intros stage wait)
  have failure: "traced.keeps digest ts_text as_second ts_add (\<lambda>_ _. True) s0 (record_service_worker_error c jid)"
    unfolding record_service_worker_error_def by (intro traced.workspace_rules traced_intros)
  have "traced.keeps digest ts_text as_second ts_add (\<lambda>_ _. True) s0 (service_worker rounds sv h c jid)" for rounds
    by (induction rounds) (simp add: traced.keeps_def, unfold service_worker.simps, intro traced.workspace_rules run failure)
  then show ?thesis by (rule traced.keeps_fuel)
qed

lemma t_task: "traced.keeps digest ts_text as_second ts_add (\<lambda>_ _. True) s0 (run_task e t c jid task)"
  unfolding run_task_def
  by (cases task) (simp_all add: traced.keeps_pure t_monitor t_via t_workspace_worker t_command_worker t_service_worker
      del: service_worker.simps)

end
