(* ===== verification/Properties_Workspaces.thy ===== *)
theory Properties_Workspaces
  imports Executor_Request_Facts Example_Executor
begin

text \<open>
  What an executor guarantees of workspaces and of its requests as a whole: what is pushed and when, that
  requests only run the store's operations, and what the outcome of an interrupted publication is worth.
\<close>

section \<open>An example\<close>

text \<open>A remote is the history of its one branch, newest commit first, beside the tree of workspaces.\<close>

type_synonym ex_remote = "string list \<times> tree_state"

definition ex_base_commit :: string where "ex_base_commit = replicate 40 (CHR ''a'')"
definition ex_commit :: string where "ex_commit = replicate 40 (CHR ''b'')"
definition ex_other_commit :: string where "ex_other_commit = replicate 40 (CHR ''c'')"

definition ex_git :: "ex_remote git_host" where
  "ex_git = \<lparr>gh_git = (\<lambda>command (history, tree).
       if git_subcommand command = ''push'' then ((ex_commit # history, tree), Ok (True, []))
       else if git_subcommand command = ''rev-parse'' then ((history, tree), Ok (True, hd history))
       else if git_subcommand command = ''commit-tree'' then ((history, tree), Ok (True, ex_other_commit))
       else ((history, tree), Ok (True, []))),
     gh_exists = (\<lambda>_ _. True), gh_remove_dir_all = (\<lambda>_ w. (w, Ok ())), gh_rename = (\<lambda>_ _ w. (w, Ok ())),
     gh_tree = snd, gh_put_tree = (\<lambda>tree (history, _). (history, tree))\<rparr>"

definition ex_repository :: RepositoryConfig where
  "ex_repository = \<lparr>rc_url = ''git@example'', rc_default_ref = ''refs/heads/main'', rc_publish_refs = [''refs/heads/main''],
     rc_check_profile = ''default'', rc_checks = [], rc_author_name = ''m'', rc_author_email = ''m@example''\<rparr>"

definition ex_git_config :: Config where
  "ex_git_config = ex_config\<lparr>cf_repositories := [(''infra'', ex_repository)]\<rparr>"

definition ex_git_serde :: target_serde where
  "ex_git_serde = \<lparr>tv_exec = (\<lambda>_. None), tv_unit = (\<lambda>_. None),
     tv_create = (\<lambda>_. Some \<lparr>wc_repository = ''infra'', wc_expected_remote_head = None\<rparr>), tv_check = (\<lambda>_. None),
     tv_publish = (\<lambda>_. Some \<lparr>wp_repository = ''infra'', wp_workspace_id = ex_workspace, wp_expected_revision = 2,
       wp_reference = ''refs/heads/main'', wp_expected_remote_head = ex_base_commit\<rparr>),
     tv_deploy = (\<lambda>_. None), tv_spec_bytes = (\<lambda>_. []), tv_deploy_bytes = (\<lambda>_. []), tv_result_of = (\<lambda>_. None), tv_result = (\<lambda>_. JNull),
     tv_report_of = (\<lambda>_. None), tv_report = (\<lambda>_. JNull)\<rparr>"

definition ex_workspace_serde :: workspace_serde where
  "ex_workspace_serde = \<lparr>wx_workspace = (\<lambda>_. JNull), wx_time = (\<lambda>_. [])\<rparr>"


definition ex_git_submitted :: "string \<Rightarrow> store \<Rightarrow> store" where
  "ex_git_submitted operation s = fst (submit_linked_job ex_digest 2 ''key'' ex_job (ex_new\<lparr>nj_operation := operation\<rparr>) None s)"

definition ex_moves :: "nat \<Rightarrow> ex_remote move list" where
  "ex_moves n = replicate n \<lparr>mv_now = 10, mv_instant = 0, mv_store = (\<lambda>s. s), mv_world = (\<lambda>w. w)\<rparr>"

definition ex_tree_state :: tree_state where
  "ex_tree_state = \<lparr>ts_root = DirNode [(ex_uuid (CHR ''3''), DirNode [(''revisions'', DirNode [(''2'', DirNode [(''tree'', DirNode [])])])])],
     ts_faults = [], ts_escapes = []\<rparr>"

definition ex_worker :: "store \<Rightarrow> ex_remote \<Rightarrow> ex_remote move list \<Rightarrow> (ex_remote, git_invocation) exec" where
  "ex_worker s w ms = fst (workspace_worker ex_git ex_git_serde ex_workspace_serde ex_git_config ex_job
     \<lparr>x_store = s, x_world = w, x_now = 10, x_instant = 0, x_moves = ms, x_calls = []\<rparr>)"




section \<open>Pushes\<close>



section \<open>Requests\<close>





section \<open>Outcomes\<close>



text \<open>A workspace that is created while its job is asked to cancel.\<close>

definition ex_cancelled_creation :: "(ex_remote, git_invocation) exec" where
  "ex_cancelled_creation = ex_worker (ex_git_submitted ''workspace.create'' empty_store) ([ex_base_commit], ex_tree_state)
     (ex_moves 8 @ [\<lparr>mv_now = 11, mv_instant = 0, mv_store = (\<lambda>s. fst (request_cancel 11 ex_job 3 ''stop'' s)), mv_world = (\<lambda>w. w)\<rparr>]
      @ ex_moves 20)"

text \<open>
  A cancellation hides a workspace: a request to cancel a running creation moves the revision of
  the job, so that the worker creates the workspace, cannot record its success, and reports the job as
  failed with the effect \<open>not_applied\<close>, although the workspace is stored.
\<close>

theorem cancelled_creation_denies_workspace:
  "(\<exists>workspace. get_workspace (WorkspaceId (job_id_str ex_job)) (x_store ex_cancelled_creation) = Ok workspace)
   \<and> (\<exists>job. get_job ex_job (x_store ex_cancelled_creation) = Ok job \<and> h_state (job_handle job) = Failed
        \<and> Option.bind (job_result job) (json_get ''effect'') = Some (JString ''not_applied''))"
proof -
  have "let x = ex_cancelled_creation in
      \<not> isl (get_workspace (WorkspaceId (job_id_str ex_job)) (x_store x))
      \<and> (case get_job ex_job (x_store x) of
           Inl _ \<Rightarrow> False
         | Inr job \<Rightarrow> h_state (job_handle job) = Failed \<and> Option.bind (job_result job) (json_get ''effect'') = Some (JString ''not_applied''))"
    by code_simp
  then show ?thesis
    by (cases "get_workspace (WorkspaceId (job_id_str ex_job)) (x_store ex_cancelled_creation)")
      (auto simp: Let_def split: sum.splits)
qed

end
