(* ===== verification/Hub_Build.thy ===== *)
theory Hub_Build
  imports Hub_Delivery "HOL-Library.Word"
begin

text \<open>
  \<open>maxops-hub/src/lib.rs\<close>, \<open>build\<close>: from the configuration file to the running application. The hosts, the
  repositories, the deployment profiles, the clients, the alert ingress and the event sinks are checked
  one after the other in the order of the file; then the store is asked for the jobs to resume.

  Files, the URL parser, the HTTP client, the database file and the JSON form of a sink's filter are
  the fields of \<open>build_env\<close>. Maps of the application are association lists here, because the checks go
  through their values; \<open>App_of\<close> gives the application that the request handlers see.
\<close>

section \<open>Addresses\<close>

datatype IpAddr = Ipv4Addr "32 word" | Ipv6Addr "128 word"

record SocketAddr =
  sa_ip :: IpAddr
  sa_port :: "16 word"

primrec is_unspecified :: "IpAddr \<Rightarrow> bool" where
  "is_unspecified (Ipv4Addr a) = (a = 0)"
| "is_unspecified (Ipv6Addr a) = (a = 0)"

record Url =
  url_scheme :: string
  url_host :: "string option"
  url_username :: string
  url_password :: "string option"
  url_query :: "string option"
  url_fragment :: "string option"

section \<open>The configuration file\<close>

record HostConfig =
  hf_name :: string
  hf_site :: "string option"
  hf_agent_url :: string
  hf_agent_token_file :: string
  hf_execution_token_file :: "string option"
  hf_readable_units :: "string set"
  hf_read_all_units :: bool
  hf_manageable_units :: "string set"
  hf_diagnostic_profile :: "string option"
  hf_diagnostic_probes :: "(string \<times> string list) list"

record ClientConfig =
  cl_name :: string
  cl_token_file :: string
  cl_hosts :: "string set"
  cl_capabilities :: "string set"
  cl_repositories :: "string set"
  cl_deployments :: "string set"
  cl_access :: Access

record HubRepositoryConfig =
  rf_name :: string
  rf_executor_host :: string

record AlertIngressConfig =
  ai_token_file :: string
  ai_sink_url :: string
  ai_sink_token_file :: "string option"

record EventSinkConfig = EventSink +
  sk_url :: string
  sk_token_file :: "string option"

record RemediationPolicyConfig =
  rp_max_attempts_per_episode :: nat
  rp_cooldown_seconds :: nat

record HubConfig =
  hb_listen :: SocketAddr
  hb_hosts :: "HostConfig list"
  hb_clients :: "ClientConfig list"
  hb_repositories :: "HubRepositoryConfig list"
  hb_deployments :: "DeploymentConfig list"
  hb_prometheus_url :: "string option"
  hb_alertmanager_url :: "string option"
  hb_alert_ingress :: "AlertIngressConfig option"
  hb_event_sinks :: "EventSinkConfig list"
  hb_remediation_policy :: RemediationPolicyConfig
  hb_state_file :: "string option"

definition default_plan_ttl :: nat where "default_plan_ttl = 3600"

definition default_delivery_retry :: nat where "default_delivery_retry = 5"

definition RemediationPolicyConfig_default :: RemediationPolicyConfig where
  "RemediationPolicyConfig_default = \<lparr>rp_max_attempts_per_episode = 2, rp_cooldown_seconds = 300\<rparr>"

section \<open>The application\<close>

record HubHost =
  hh_config :: HostConfig
  hh_token :: Token
  hh_execution_token :: "Token option"

record AlertIngress =
  ig_token :: Token
  ig_sink_url :: string
  ig_sink_token :: "Token option"

record HubSink =
  hs_config :: EventSinkConfig
  hs_token :: "Token option"

record HubApp =
  hub_hosts :: "(string \<times> HubHost) list"
  hub_clients :: "Principal list"
  hub_prometheus_url :: "string option"
  hub_alertmanager_url :: "string option"
  hub_alert_ingress :: "AlertIngress option"
  hub_event_sinks :: "HubSink list"
  hub_remediation_policy :: RemediationPolicyConfig
  hub_slots :: nat
  hub_wait_slots :: nat
  hub_store :: bool
  hub_repositories :: "(string \<times> string) list"
  hub_deployments :: "(string \<times> DeploymentConfig) list"
  hub_started_at :: timestamp

definition Host_of :: "HubHost \<Rightarrow> Host" where
  "Host_of h =
     \<lparr>hc_name = hf_name (hh_config h), hc_readable_units = hf_readable_units (hh_config h),
      hc_read_all_units = hf_read_all_units (hh_config h),
      hc_manageable_units = hf_manageable_units (hh_config h),
      hc_diagnostic_probes = map_of (hf_diagnostic_probes (hh_config h)),
      host_execution_token = hh_execution_token h\<rparr>"

definition App_of :: "HubApp \<Rightarrow> App" where
  "App_of a =
     \<lparr>app_hosts = map_option Host_of \<circ> map_of (hub_hosts a), app_clients = hub_clients a,
      app_store = hub_store a, app_repositories = map_of (hub_repositories a),
      app_deployments = map_of (hub_deployments a),
      app_max_attempts_per_episode = rp_max_attempts_per_episode (hub_remediation_policy a),
      app_cooldown_seconds = rp_cooldown_seconds (hub_remediation_policy a)\<rparr>"

section \<open>What the program is given\<close>

record build_env =
  be_read :: "string \<Rightarrow> (string, string) result"
  be_url :: "string \<Rightarrow> (Url, string) result"
  be_ct_eq :: "string \<Rightarrow> string \<Rightarrow> bool"
  be_open :: "string \<Rightarrow> (store, store_error) result"
  be_filter :: "EventSinkConfig \<Rightarrow> json"
  be_client :: "(unit, string) result"
  be_ts_text :: "timestamp \<Rightarrow> string"
  be_now :: timestamp

definition ensure_report :: "bool \<Rightarrow> string \<Rightarrow> (unit, store_error) result" where
  "ensure_report b message = ensure b (Report message)"

definition validate_url :: "build_env \<Rightarrow> string \<Rightarrow> (Url, store_error) result" where
  "validate_url e v =
     rbind (map_err Report (be_url e v)) (\<lambda>url.
     rbind (ensure_report (url_scheme url \<in> {''http'', ''https''} \<and> url_host url \<noteq> None \<and> url_username url = []
              \<and> url_password url = None \<and> url_query url = None \<and> url_fragment url = None)
              ''invalid HTTP endpoint'') (\<lambda>_.
     Ok url))"

definition validate_listen :: "SocketAddr \<Rightarrow> (unit, store_error) result" where
  "validate_listen addr =
     ensure_report (\<not> is_unspecified (sa_ip addr)) ''bind an explicit loopback or private network address''"

definition Token_read :: "build_env \<Rightarrow> string \<Rightarrow> (Token, store_error) result" where
  "Token_read e path = rbind (map_err Report (be_read e path)) (\<lambda>text. map_err Report (Token_parse text))"

text \<open>\<open>Option::transpose\<close> of an optional file.\<close>

definition Token_read_opt :: "build_env \<Rightarrow> string option \<Rightarrow> (Token option, store_error) result" where
  "Token_read_opt e path =
     (case path of None \<Rightarrow> Ok None | Some p \<Rightarrow> rbind (Token_read e p) (\<lambda>t. Ok (Some t)))"

definition same :: "build_env \<Rightarrow> Token \<Rightarrow> Token \<Rightarrow> bool" where
  "same e = Token_same_as (be_ct_eq e)"

definition same_opt :: "build_env \<Rightarrow> Token option \<Rightarrow> Token \<Rightarrow> bool" where
  "same_opt e t u = (case t of None \<Rightarrow> False | Some x \<Rightarrow> same e x u)"

text \<open>\<open>for item in items { ... ? }\<close>: the loop over the items with what was built so far.\<close>

fun try_fold :: "('b \<Rightarrow> 'a \<Rightarrow> ('b, 'e) result) \<Rightarrow> 'b \<Rightarrow> 'a list \<Rightarrow> ('b, 'e) result" where
  "try_fold f acc [] = Ok acc"
| "try_fold f acc (x # xs) = rbind (f acc x) (\<lambda>acc'. try_fold f acc' xs)"

section \<open>Hosts\<close>

definition probe_ok :: "string \<times> string list \<Rightarrow> bool" where
  "probe_ok p \<longleftrightarrow> valid_check_id (fst p) \<and> snd p \<noteq> [] \<and> length (snd p) \<le> 256
     \<and> starts_with (hd (snd p)) ''/'' \<and> list_all (\<lambda>argument. length argument \<le> 8192) (snd p)"

text \<open>Another endpoint already uses one of the two credentials.\<close>

definition endpoint_clash :: "build_env \<Rightarrow> Token \<Rightarrow> Token option \<Rightarrow> HubHost \<Rightarrow> bool" where
  "endpoint_clash e token execution_token other \<longleftrightarrow>
     same e (hh_token other) token
     \<or> (case execution_token of None \<Rightarrow> False | Some execution \<Rightarrow> same e (hh_token other) execution)
     \<or> (case hh_execution_token other of None \<Rightarrow> False
        | Some execution \<Rightarrow> same e execution token
            \<or> (case execution_token of None \<Rightarrow> False | Some candidate \<Rightarrow> same e execution candidate))"

definition build_host ::
  "build_env \<Rightarrow> (string \<times> HubHost) list \<Rightarrow> HostConfig \<Rightarrow> ((string \<times> HubHost) list, store_error) result" where
  "build_host e hosts host =
     rbind (ensure_report (valid_host (hf_name host)) ''invalid inventory host name'') (\<lambda>_.
     rbind (ensure_report (\<forall>u \<in> hf_readable_units host. valid_observation_unit u)
              ''invalid readable service name'') (\<lambda>_.
     rbind (ensure_report (\<forall>unit \<in> hf_manageable_units host.
                valid_unit unit \<and> (hf_read_all_units host \<or> unit \<in> hf_readable_units host))
              ''manageable services must be valid readable service names'') (\<lambda>_.
     rbind (ensure_report (hf_diagnostic_probes host = [] \<or> hf_diagnostic_profile host \<noteq> None)
              ''diagnostic probes require an execution profile'') (\<lambda>_.
     rbind (ensure_report (list_all probe_ok (hf_diagnostic_probes host)) ''invalid diagnostic probe'') (\<lambda>_.
     rbind (validate_url e (hf_agent_url host)) (\<lambda>_.
     rbind (Token_read e (hf_agent_token_file host)) (\<lambda>token.
     rbind (Token_read_opt e (hf_execution_token_file host)) (\<lambda>execution_token.
     rbind (ensure_report (\<not> same_opt e execution_token token)
              ''agent observation and execution credentials must differ'') (\<lambda>_.
     rbind (ensure_report (\<not> list_ex (endpoint_clash e token execution_token) (map snd hosts))
              ''each agent endpoint requires distinct credentials'') (\<lambda>_.
     rbind (ensure_report (map_of hosts (hf_name host) = None) ''duplicate inventory host'') (\<lambda>_.
     Ok (hosts @ [(hf_name host,
           \<lparr>hh_config = host, hh_token = token, hh_execution_token = execution_token\<rparr>)]))))))))))))"

section \<open>Repositories and deployments\<close>

definition has_executor :: "(string \<times> HubHost) list \<Rightarrow> string \<Rightarrow> bool" where
  "has_executor hosts name \<longleftrightarrow>
     (case map_of hosts name of None \<Rightarrow> False | Some host \<Rightarrow> hh_execution_token host \<noteq> None)"

definition build_repository ::
  "(string \<times> HubHost) list \<Rightarrow> (string \<times> string) list \<Rightarrow> HubRepositoryConfig \<Rightarrow>
   ((string \<times> string) list, store_error) result" where
  "build_repository hosts repositories repository =
     rbind (ensure_report (valid_repository_id (rf_name repository)) ''invalid repository ID'') (\<lambda>_.
     rbind (ensure_report (has_executor hosts (rf_executor_host repository))
              ''repository executor host is unknown or has execution disabled'') (\<lambda>_.
     rbind (ensure_report (map_of repositories (rf_name repository) = None) ''duplicate repository ID'') (\<lambda>_.
     Ok (repositories @ [(rf_name repository, rf_executor_host repository)]))))"

definition build_deployment ::
  "(string \<times> HubHost) list \<Rightarrow> (string \<times> string) list \<Rightarrow> (string \<times> DeploymentConfig) list \<Rightarrow> DeploymentConfig \<Rightarrow>
   ((string \<times> DeploymentConfig) list, store_error) result" where
  "build_deployment hosts repositories deployments deployment =
     rbind (ensure_report (valid_check_id (df_name deployment)) ''invalid deployment profile name'') (\<lambda>_.
     rbind (ensure_report (map_of repositories (df_repository deployment) = Some (df_builder_host deployment))
              ''deployment builder must own its configured repository'') (\<lambda>_.
     rbind (ensure_report (has_executor hosts (df_target_host deployment))
              ''deployment target is unknown or has execution disabled'') (\<lambda>_.
     rbind (ensure_report (df_flake_attribute deployment \<noteq> [] \<and> df_source_reference deployment \<noteq> []
                \<and> df_plan_ttl_seconds deployment > 0) ''invalid deployment profile'') (\<lambda>_.
     rbind (ensure_report (map_of deployments (df_name deployment) = None) ''duplicate deployment profile'') (\<lambda>_.
     Ok (deployments @ [(df_name deployment, deployment)]))))))"

section \<open>Clients\<close>

definition known_caps :: "string list" where
  "known_caps = map op_capability operations"

definition management_caps :: "string list" where
  "management_caps = map op_capability (filter (\<lambda>operation. op_kind operation \<noteq> Observation) operations)"

text \<open>The credentials of an agent endpoint that a token may collide with.\<close>

definition host_uses :: "build_env \<Rightarrow> Token \<Rightarrow> HubHost \<Rightarrow> bool" where
  "host_uses e token host \<longleftrightarrow> same e (hh_token host) token \<or> same_opt e (hh_execution_token host) token"

definition deployment_in_scope :: "(string \<times> DeploymentConfig) list \<Rightarrow> ClientConfig \<Rightarrow> string \<Rightarrow> bool" where
  "deployment_in_scope deployments client name \<longleftrightarrow>
     (case map_of deployments name of None \<Rightarrow> False
      | Some deployment \<Rightarrow> df_repository deployment \<in> cl_repositories client
          \<and> df_builder_host deployment \<in> cl_hosts client \<and> df_target_host deployment \<in> cl_hosts client)"

definition build_client ::
  "build_env \<Rightarrow> (string \<times> HubHost) list \<Rightarrow> (string \<times> string) list \<Rightarrow> (string \<times> DeploymentConfig) list \<Rightarrow>
   Principal list \<Rightarrow> ClientConfig \<Rightarrow> (Principal list, store_error) result" where
  "build_client e hosts repositories deployments clients client =
     rbind (ensure_report (cl_name client \<noteq> []) ''empty client name'') (\<lambda>_.
     rbind (ensure_report (\<forall>cap \<in> cl_capabilities client. cap \<in> set known_caps) ''unknown capability'') (\<lambda>_.
     rbind (ensure_report (cl_access client = ManageAccess
                \<or> (\<forall>capability \<in> cl_capabilities client. capability \<notin> set management_caps))
              ''observation client cannot receive job capabilities'') (\<lambda>_.
     rbind (ensure_report (\<forall>name \<in> cl_hosts client. map_of hosts name \<noteq> None)
              ''policy references an unknown host'') (\<lambda>_.
     rbind (ensure_report (\<forall>name \<in> cl_repositories client. map_of repositories name \<noteq> None)
              ''policy references an unknown repository'') (\<lambda>_.
     rbind (ensure_report (\<forall>name \<in> cl_repositories client.
                case map_of repositories name of None \<Rightarrow> False | Some host \<Rightarrow> host \<in> cl_hosts client)
              ''repository executor must also be in the client's host scope'') (\<lambda>_.
     rbind (ensure_report (\<forall>name \<in> cl_deployments client. deployment_in_scope deployments client name)
              ''deployment grant must remain within the client's host and repository scope'') (\<lambda>_.
     rbind (Token_read e (cl_token_file client)) (\<lambda>token.
     rbind (ensure_report (\<not> list_ex (\<lambda>p. pr_name p = cl_name client \<or> same e (pr_token p) token) clients)
              ''duplicate client name or token'') (\<lambda>_.
     rbind (ensure_report (\<not> list_ex (\<lambda>h. same e (hh_token h) token) (map snd hosts))
              ''client and agent credentials must differ'') (\<lambda>_.
     rbind (ensure_report (\<not> list_ex (\<lambda>h. same_opt e (hh_execution_token h) token) (map snd hosts))
              ''client and agent execution credentials must differ'') (\<lambda>_.
     Ok (clients @ [\<lparr>pr_name = cl_name client, pr_token = token, pr_hosts = cl_hosts client,
           pr_capabilities = cl_capabilities client, pr_access = cl_access client,
           pr_repositories = cl_repositories client, pr_deployments = cl_deployments client\<rparr>]))))))))))))"

section \<open>Alerts and event sinks\<close>

definition build_ingress ::
  "build_env \<Rightarrow> (string \<times> HubHost) list \<Rightarrow> Principal list \<Rightarrow> AlertIngressConfig \<Rightarrow> (AlertIngress, store_error) result" where
  "build_ingress e hosts clients ingress =
     rbind (validate_url e (ai_sink_url ingress)) (\<lambda>_.
     rbind (Token_read e (ai_token_file ingress)) (\<lambda>token.
     rbind (Token_read_opt e (ai_sink_token_file ingress)) (\<lambda>sink_token.
     rbind (ensure_report (\<not> list_ex (\<lambda>p. same e (pr_token p) token) clients
                \<and> \<not> list_ex (host_uses e token) (map snd hosts))
              ''alert ingress requires a dedicated token'') (\<lambda>_.
     rbind (case sink_token of None \<Rightarrow> Ok ()
            | Some sink \<Rightarrow> ensure_report (\<not> same e sink token \<and> \<not> list_ex (\<lambda>p. same e (pr_token p) sink) clients
                \<and> \<not> list_ex (\<lambda>h. same e (hh_token h) sink) (map snd hosts)
                \<and> \<not> list_ex (\<lambda>h. same_opt e (hh_execution_token h) sink) (map snd hosts))
                ''notification sink requires a dedicated token'') (\<lambda>_.
     Ok \<lparr>ig_token = token, ig_sink_url = ai_sink_url ingress, ig_sink_token = sink_token\<rparr>)))))"

definition build_ingress_opt ::
  "build_env \<Rightarrow> (string \<times> HubHost) list \<Rightarrow> Principal list \<Rightarrow> AlertIngressConfig option \<Rightarrow>
   (AlertIngress option, store_error) result" where
  "build_ingress_opt e hosts clients ingress =
     (case ingress of None \<Rightarrow> Ok None
      | Some i \<Rightarrow> rbind (build_ingress e hosts clients i) (\<lambda>built. Ok (Some built)))"

definition ingress_uses :: "build_env \<Rightarrow> Token \<Rightarrow> AlertIngress \<Rightarrow> bool" where
  "ingress_uses e token ingress \<longleftrightarrow> same e (ig_token ingress) token \<or> same_opt e (ig_sink_token ingress) token"

text \<open>The checks of a sink before its subscription is recorded; the result is its token.\<close>

definition check_sink ::
  "build_env \<Rightarrow> (string \<times> HubHost) list \<Rightarrow> Principal list \<Rightarrow> AlertIngress option \<Rightarrow> HubSink list \<Rightarrow> EventSinkConfig \<Rightarrow>
   (Token option, store_error) result" where
  "check_sink e hosts clients ingress sinks sink =
     rbind (ensure_report (sk_id sink \<noteq> [] \<and> length (sk_id sink) \<le> 128 \<and> sk_retry_seconds sink > 0
                \<and> (\<forall>host \<in> sk_hosts sink. map_of hosts host \<noteq> None)) ''invalid event sink'') (\<lambda>_.
     rbind (validate_url e (sk_url sink)) (\<lambda>_.
     rbind (Token_read_opt e (sk_token_file sink)) (\<lambda>token.
     rbind (case token of None \<Rightarrow> Ok ()
            | Some t \<Rightarrow> ensure_report (\<not> list_ex (\<lambda>p. same e (pr_token p) t) clients
                \<and> \<not> list_ex (host_uses e t) (map snd hosts)
                \<and> \<not> list_ex (\<lambda>other. same_opt e (hs_token other) t) sinks
                \<and> \<not> (case ingress of None \<Rightarrow> False | Some i \<Rightarrow> ingress_uses e t i))
                ''event sink requires a dedicated token'') (\<lambda>_.
     rbind (ensure_report (\<not> list_ex (\<lambda>other. sk_id (hs_config other) = sk_id sink) sinks)
              ''duplicate event sink'') (\<lambda>_.
     Ok token)))))"

text \<open>Without a store nothing is recorded.\<close>

definition subscribe_sink ::
  "build_env \<Rightarrow> EventSinkConfig \<Rightarrow> store option \<Rightarrow> store option \<times> (unit, store_error) result" where
  "subscribe_sink e sink st =
     (case st of None \<Rightarrow> (None, Ok ())
      | Some s \<Rightarrow>
          (case ensure_subscription (be_now e) (sk_id sink) (be_filter e sink)
                  (JObject [(''url'', JString (sk_url sink))])
                  (map_option (\<lambda>_. sk_id sink) (sk_token_file sink)) s of
             (s', Inl err) \<Rightarrow> (Some s', Err err) | (s', Inr _) \<Rightarrow> (Some s', Ok ())))"

fun build_sinks ::
  "build_env \<Rightarrow> (string \<times> HubHost) list \<Rightarrow> Principal list \<Rightarrow> AlertIngress option \<Rightarrow> EventSinkConfig list \<Rightarrow> HubSink list \<Rightarrow>
   store option \<Rightarrow> store option \<times> (HubSink list, store_error) result" where
  "build_sinks e hosts clients ingress [] sinks st = (st, Ok sinks)"
| "build_sinks e hosts clients ingress (sink # rest) sinks st =
     (case check_sink e hosts clients ingress sinks sink of
        Inl err \<Rightarrow> (st, Err err)
      | Inr token \<Rightarrow>
          (case subscribe_sink e sink st of
             (st', Inl err) \<Rightarrow> (st', Err err)
           | (st', Inr _) \<Rightarrow>
               build_sinks e hosts clients ingress rest (sinks @ [\<lparr>hs_config = sink, hs_token = token\<rparr>]) st'))"

section \<open>Starting\<close>

datatype startup_task =
    RunWorkflow JobRecord
  | RunDiagnostics JobRecord
  | RunRemediationBegin JobRecord
  | RunDispatch JobId
  | RunEventDelivery

definition resume_task :: "JobRecord \<Rightarrow> startup_task" where
  "resume_task job =
     (if h_operation (job_handle job) = ''deploy.run'' then RunWorkflow job
      else if h_operation (job_handle job) = ''diagnostics.collect'' then RunDiagnostics job
      else if h_operation (job_handle job) = ''remediations.begin'' then RunRemediationBegin job
      else RunDispatch (h_job_id (job_handle job)))"

definition resume_jobs :: "build_env \<Rightarrow> store option \<Rightarrow> (startup_task list, store_error) result" where
  "resume_jobs e st =
     (case st of None \<Rightarrow> Ok []
      | Some s \<Rightarrow> rbind (nonterminal_jobs (be_ts_text e) s) (\<lambda>jobs. Ok (map resume_task jobs)))"

text \<open>Everything that is checked before the store is opened.\<close>

definition check_config ::
  "build_env \<Rightarrow> HubConfig \<Rightarrow>
   ((string \<times> HubHost) list \<times> (string \<times> string) list \<times> (string \<times> DeploymentConfig) list \<times> Principal list, store_error) result" where
  "check_config e config =
     rbind (validate_listen (hb_listen config)) (\<lambda>_.
     rbind (try_fold (\<lambda>_ url. rbind (validate_url e url) (\<lambda>_. Ok ())) ()
              (map the (filter (\<lambda>u. u \<noteq> None) [hb_prometheus_url config, hb_alertmanager_url config]))) (\<lambda>_.
     rbind (try_fold (build_host e) [] (hb_hosts config)) (\<lambda>hosts.
     rbind (try_fold (build_repository hosts) [] (hb_repositories config)) (\<lambda>repositories.
     rbind (try_fold (build_deployment hosts repositories) [] (hb_deployments config)) (\<lambda>deployments.
     rbind (try_fold (build_client e hosts repositories deployments) [] (hb_clients config)) (\<lambda>clients.
     rbind (ensure_report (clients \<noteq> []) ''at least one authenticated client is required'') (\<lambda>_.
     rbind (ensure_report (\<not> list_ex (\<lambda>client. pr_access client = ManageAccess) clients \<or> hb_state_file config \<noteq> None)
              ''management clients require a durable hub state_file'') (\<lambda>_.
     Ok (hosts, repositories, deployments, clients)))))))))"

definition open_store :: "build_env \<Rightarrow> HubConfig \<Rightarrow> (store option, store_error) result" where
  "open_store e config =
     (case hb_state_file config of None \<Rightarrow> Ok None
      | Some path \<Rightarrow> rbind (be_open e path) (\<lambda>s. Ok (Some s)))"

definition check_events ::
  "build_env \<Rightarrow> HubConfig \<Rightarrow> (string \<times> HubHost) list \<Rightarrow> Principal list \<Rightarrow> store option \<Rightarrow>
   (AlertIngress option, store_error) result" where
  "check_events e config hosts clients st =
     rbind (build_ingress_opt e hosts clients (hb_alert_ingress config)) (\<lambda>ingress.
     rbind (ensure_report (hb_event_sinks config = [] \<or> st \<noteq> None) ''event sinks require durable hub storage'') (\<lambda>_.
     rbind (ensure_report (rp_max_attempts_per_episode (hb_remediation_policy config) > 0)
              ''remediation attempt budget must be positive'') (\<lambda>_.
     Ok ingress)))"

text \<open>
  The result is the store as it is left, if one was opened, and the application with the tasks it starts;
  the counters, heartbeats and worker sets of a new application are empty.
\<close>

definition hub_build ::
  "build_env \<Rightarrow> HubConfig \<Rightarrow> store option \<times> (SocketAddr \<times> HubApp \<times> startup_task list, store_error) result" where
  "hub_build e config =
     (case check_config e config of
        Inl err \<Rightarrow> (None, Err err)
      | Inr (hosts, repositories, deployments, clients) \<Rightarrow>
     (case open_store e config of
        Inl err \<Rightarrow> (None, Err err)
      | Inr st \<Rightarrow>
     (case check_events e config hosts clients st of
        Inl err \<Rightarrow> (st, Err err)
      | Inr ingress \<Rightarrow>
     (case build_sinks e hosts clients ingress (hb_event_sinks config) [] st of
        (st', Inl err) \<Rightarrow> (st', Err err)
      | (st', Inr sinks) \<Rightarrow>
          (st', rbind (map_err Report (be_client e)) (\<lambda>_.
                rbind (resume_jobs e st') (\<lambda>tasks.
                Ok (hb_listen config,
                    \<lparr>hub_hosts = hosts, hub_clients = clients, hub_prometheus_url = hb_prometheus_url config,
                     hub_alertmanager_url = hb_alertmanager_url config, hub_alert_ingress = ingress,
                     hub_event_sinks = sinks, hub_remediation_policy = hb_remediation_policy config,
                     hub_slots = 16, hub_wait_slots = 64, hub_store = (st' \<noteq> None),
                     hub_repositories = repositories, hub_deployments = deployments,
                     hub_started_at = be_now e\<rparr>,
                    tasks @ (if sinks = [] then [] else [RunEventDelivery])))))))))"

end
