(* ===== verification/Hub_Build_Facts.thy ===== *)
theory Hub_Build_Facts
  imports Hub_Build Store_System
begin

text \<open>
  What the checks of \<open>build\<close> establish: every credential of the application has one owner, every grant of
  a client resolves, and the store is left with its subscriptions only.
\<close>

section \<open>Loops\<close>

lemma try_fold_inv:
  assumes "try_fold f acc xs = Ok r" and "P acc"
    and "\<And>acc x acc'. f acc x = Ok acc' \<Longrightarrow> P acc \<Longrightarrow> P acc'"
  shows "P r"
  using assms(1,2)
proof (induction xs arbitrary: acc)
  case (Cons x xs)
  then show ?case using assms(3) by auto
qed simp

lemma ensure_report_ok [simp]: "ensure_report b m = Ok u \<longleftrightarrow> b"
  by (simp add: ensure_report_def)

section \<open>Credentials\<close>

definition opt_list :: "'a option \<Rightarrow> 'a list" where
  "opt_list x = (case x of None \<Rightarrow> [] | Some y \<Rightarrow> [y])"

definition host_tokens :: "(string \<times> HubHost) list \<Rightarrow> Token list" where
  "host_tokens hosts = concat (map (\<lambda>(_, h). hh_token h # opt_list (hh_execution_token h)) hosts)"

definition ingress_tokens :: "AlertIngress option \<Rightarrow> Token list" where
  "ingress_tokens i = (case i of None \<Rightarrow> [] | Some g \<Rightarrow> ig_token g # opt_list (ig_sink_token g))"

definition sink_tokens :: "HubSink list \<Rightarrow> Token list" where
  "sink_tokens sinks = concat (map (opt_list \<circ> hs_token) sinks)"

text \<open>The credentials of machines: agents, executors, the alert ingress and the sinks.\<close>

definition machine_tokens :: "HubApp \<Rightarrow> Token list" where
  "machine_tokens a = host_tokens (hub_hosts a) @ ingress_tokens (hub_alert_ingress a) @ sink_tokens (hub_event_sinks a)"

definition client_tokens :: "HubApp \<Rightarrow> Token list" where
  "client_tokens a = map pr_token (hub_clients a)"

lemma opt_list_simps [simp]: "opt_list None = []" "opt_list (Some x) = [x]"
  by (simp_all add: opt_list_def)

lemma set_opt_list [simp]: "x \<in> set (opt_list y) \<longleftrightarrow> y = Some x"
  by (cases y) auto

lemma distinct_opt_list [simp]: "distinct (opt_list y)"
  by (cases y) auto

lemma host_tokens_simps [simp]:
  "host_tokens [] = []"
  "host_tokens (hosts @ [(n, h)]) = host_tokens hosts @ hh_token h # opt_list (hh_execution_token h)"
  by (simp_all add: host_tokens_def)

lemma host_tokens_iff:
  "t \<in> set (host_tokens hosts) \<longleftrightarrow>
     \<not> (\<forall>h \<in> set hosts. hh_token (snd h) \<noteq> t \<and> hh_execution_token (snd h) \<noteq> Some t)"
  by (auto simp: host_tokens_def split_def)

lemma sink_tokens_simps [simp]:
  "sink_tokens [] = []"
  "sink_tokens (sinks @ [x]) = sink_tokens sinks @ opt_list (hs_token x)"
  by (simp_all add: sink_tokens_def)

lemma sink_tokens_iff: "t \<in> set (sink_tokens sinks) \<longleftrightarrow> (\<exists>x \<in> set sinks. hs_token x = Some t)"
  by (auto simp: sink_tokens_def)

lemma ingress_tokens_iff:
  "t \<in> set (ingress_tokens i) \<longleftrightarrow> (\<exists>g. i = Some g \<and> (ig_token g = t \<or> ig_sink_token g = Some t))"
  by (auto simp: ingress_tokens_def split: option.splits)

text \<open>
  The constant-time comparison decides equality: the locale collects what the checks then mean.
\<close>

locale exact_comparison =
  fixes ct_eq :: "string \<Rightarrow> string \<Rightarrow> bool"
  assumes exact: "ct_eq a b \<longleftrightarrow> a = b"
begin

lemma same_iff: "be_ct_eq e = ct_eq \<Longrightarrow> same e t u \<longleftrightarrow> t = u"
  by (cases t; cases u) (simp add: same_def Token_same_as_def exact)

lemma same_opt_iff: "be_ct_eq e = ct_eq \<Longrightarrow> same_opt e t u \<longleftrightarrow> t = Some u"
  by (cases t) (simp_all add: same_opt_def same_iff)

lemmas same_iffs = same_iff same_opt_iff

lemma host_uses_iff: "be_ct_eq e = ct_eq \<Longrightarrow> host_uses e t h \<longleftrightarrow> hh_token h = t \<or> hh_execution_token h = Some t"
  by (simp add: host_uses_def same_iffs)

lemma endpoint_clash_iff:
  assumes "be_ct_eq e = ct_eq"
  shows "endpoint_clash e t x h \<longleftrightarrow> (\<exists>u. (u = t \<or> x = Some u) \<and> (hh_token h = u \<or> hh_execution_token h = Some u))"
  by (cases x; cases "hh_execution_token h") (auto simp: endpoint_clash_def same_iffs[OF assms])

lemma any_clash_iff:
  assumes "be_ct_eq e = ct_eq"
  shows "list_ex (endpoint_clash e t x) (map snd hosts) \<longleftrightarrow> (\<exists>u. (u = t \<or> x = Some u) \<and> u \<in> set (host_tokens hosts))"
  unfolding host_tokens_iff list_ex_iff endpoint_clash_iff[OF assms] set_map by blast

lemmas token_iffs = same_iffs host_uses_iff any_clash_iff

lemma build_host_tokens:
  assumes "build_host e hosts host = Ok hosts'" and "be_ct_eq e = ct_eq" and "distinct (host_tokens hosts)"
  shows "distinct (host_tokens hosts')"
proof -
  obtain token x h where h: "hosts' = hosts @ [(hf_name host, h)]" "hh_token h = token" "hh_execution_token h = x"
      "\<not> same_opt e x token" "\<not> list_ex (endpoint_clash e token x) (map snd hosts)"
    using assms(1) by (auto simp: build_host_def)
  then have "token \<notin> set (host_tokens hosts)" "\<forall>u. x = Some u \<longrightarrow> u \<notin> set (host_tokens hosts) \<and> u \<noteq> token"
    unfolding token_iffs[OF assms(2)] by blast+
  with assms(3) h(1-3) show ?thesis by (cases x) auto
qed

lemma build_client_tokens:
  assumes "build_client e hosts repositories deployments clients client = Ok clients'" and "be_ct_eq e = ct_eq"
    and "distinct (host_tokens hosts @ map pr_token clients)"
  shows "distinct (host_tokens hosts @ map pr_token clients')"
proof -
  obtain token p where p: "clients' = clients @ [p]" "pr_token p = token"
      "\<not> list_ex (\<lambda>p. pr_name p = cl_name client \<or> same e (pr_token p) token) clients"
      "\<not> list_ex (\<lambda>h. same e (hh_token h) token) (map snd hosts)"
      "\<not> list_ex (\<lambda>h. same_opt e (hh_execution_token h) token) (map snd hosts)"
    using assms(1) by (auto simp: build_client_def)
  then have "token \<notin> set (host_tokens hosts)" "token \<notin> pr_token ` set clients"
    by (auto simp: host_tokens_iff list_ex_iff same_iffs[OF assms(2)])
  with assms(3) p(1,2) show ?thesis by auto
qed

lemma build_ingress_tokens:
  assumes "build_ingress_opt e hosts clients cfg = Ok ingress" and "be_ct_eq e = ct_eq"
    and "distinct (host_tokens hosts @ map pr_token clients)"
  shows "distinct (host_tokens hosts @ map pr_token clients @ ingress_tokens ingress)"
proof (cases cfg)
  case None
  with assms show ?thesis by (simp add: build_ingress_opt_def ingress_tokens_def)
next
  case (Some c)
  with assms(1) obtain g where g: "ingress = Some g" "build_ingress e hosts clients c = Ok g"
    by (auto simp: build_ingress_opt_def)
  from g(2) have own: "ig_token g \<notin> pr_token ` set clients" "ig_token g \<notin> set (host_tokens hosts)"
    by (auto simp: build_ingress_def host_tokens_iff list_ex_iff token_iffs[OF assms(2)])
  have "t \<noteq> ig_token g \<and> t \<notin> pr_token ` set clients \<and> t \<notin> set (host_tokens hosts)"
    if "ig_sink_token g = Some t" for t
  proof -
    from g(2) that have "\<not> list_ex (\<lambda>p. same e (pr_token p) t) clients" "\<not> same e t (ig_token g)"
        "\<not> list_ex (\<lambda>h. same e (hh_token h) t) (map snd hosts)"
        "\<not> list_ex (\<lambda>h. same_opt e (hh_execution_token h) t) (map snd hosts)"
      by (auto simp: build_ingress_def)
    then show ?thesis unfolding same_iffs[OF assms(2)] list_ex_iff host_tokens_iff set_map by blast
  qed
  with own assms(3) show ?thesis
    by (cases "ig_sink_token g") (auto simp: g(1) ingress_tokens_def)
qed

lemma build_sinks_tokens:
  assumes "build_sinks e hosts clients ingress cfgs sinks st = (st', Ok sinks')" and "be_ct_eq e = ct_eq"
    and "distinct (host_tokens hosts @ map pr_token clients @ ingress_tokens ingress @ sink_tokens sinks)"
  shows "distinct (host_tokens hosts @ map pr_token clients @ ingress_tokens ingress @ sink_tokens sinks')"
  using assms(1,3)
proof (induction cfgs arbitrary: sinks st)
  case (Cons c cfgs)
  from Cons.prems(1) obtain token st1 where t: "check_sink e hosts clients ingress sinks c = Ok token"
      "build_sinks e hosts clients ingress cfgs (sinks @ [\<lparr>hs_config = c, hs_token = token\<rparr>]) st1 = (st', Ok sinks')"
    by (auto split: sum.splits prod.splits)
  have "u \<notin> set (host_tokens hosts @ map pr_token clients @ ingress_tokens ingress @ sink_tokens sinks)"
    if "token = Some u" for u
    using t(1) that by (auto simp: check_sink_def host_tokens_iff list_ex_iff token_iffs[OF assms(2)]
        ingress_tokens_iff sink_tokens_iff ingress_uses_def)
  with Cons.prems(2) show ?case by (intro Cons.IH[OF t(2)]) (cases token; auto)
qed simp

end

interpretation exact_eq: exact_comparison "(=)"
  by unfold_locales simp

section \<open>Grants\<close>

text \<open>What the policy of a client may name.\<close>

definition policy_ok ::
  "(string \<times> HubHost) list \<Rightarrow> (string \<times> string) list \<Rightarrow> (string \<times> DeploymentConfig) list \<Rightarrow> Principal \<Rightarrow> bool" where
  "policy_ok hosts repositories deployments p \<longleftrightarrow>
     (\<forall>cap \<in> pr_capabilities p. cap \<in> set known_caps)
     \<and> (pr_access p = ManageAccess \<or> (\<forall>cap \<in> pr_capabilities p. cap \<notin> set management_caps))
     \<and> (\<forall>name \<in> pr_hosts p. map_of hosts name \<noteq> None)
     \<and> (\<forall>name \<in> pr_repositories p. \<exists>host \<in> pr_hosts p. map_of repositories name = Some host)
     \<and> (\<forall>name \<in> pr_deployments p. \<exists>d. map_of deployments name = Some d
          \<and> df_repository d \<in> pr_repositories p \<and> df_builder_host d \<in> pr_hosts p \<and> df_target_host d \<in> pr_hosts p)"

lemma build_client_policy:
  assumes "build_client e hosts repositories deployments clients client = Ok clients'"
    and "list_all (policy_ok hosts repositories deployments) clients \<and> distinct (map pr_name clients)"
  shows "list_all (policy_ok hosts repositories deployments) clients' \<and> distinct (map pr_name clients')"
proof -
  from assms(1) have grants: "\<forall>name \<in> cl_repositories client. \<exists>host \<in> cl_hosts client. map_of repositories name = Some host"
      "\<forall>name \<in> cl_deployments client. deployment_in_scope deployments client name"
    by (auto simp: build_client_def split: option.splits)
  from grants(2) have "\<forall>name \<in> cl_deployments client. \<exists>d. map_of deployments name = Some d
      \<and> df_repository d \<in> cl_repositories client \<and> df_builder_host d \<in> cl_hosts client \<and> df_target_host d \<in> cl_hosts client"
    by (fastforce simp: deployment_in_scope_def split: option.splits)
  with grants(1) assms(1) obtain p where p: "clients' = clients @ [p]" "policy_ok hosts repositories deployments p"
      "\<not> list_ex (\<lambda>p'. pr_name p' = pr_name p) clients"
    by (auto simp: build_client_def policy_ok_def list_ex_iff)
  from p(3) have "pr_name p \<notin> pr_name ` set clients" unfolding list_ex_iff by force
  with p(1,2) assms(2) show ?thesis by simp
qed

definition deployments_ok :: "(string \<times> HubHost) list \<Rightarrow> (string \<times> string) list \<Rightarrow> (string \<times> DeploymentConfig) list \<Rightarrow> bool" where
  "deployments_ok hosts repositories deployments \<longleftrightarrow>
     (\<forall>(name, d) \<in> set deployments. df_name d = name
        \<and> map_of repositories (df_repository d) = Some (df_builder_host d)
        \<and> has_executor hosts (df_target_host d))"

definition repositories_ok :: "(string \<times> HubHost) list \<Rightarrow> (string \<times> string) list \<Rightarrow> bool" where
  "repositories_ok hosts repositories \<longleftrightarrow> (\<forall>(name, host) \<in> set repositories. has_executor hosts host)"

lemma build_deployment_ok:
  assumes "build_deployment hosts repositories deployments d = Ok deployments'"
    and "deployments_ok hosts repositories deployments"
  shows "deployments_ok hosts repositories deployments'"
  using assms by (auto simp: build_deployment_def deployments_ok_def)

lemma build_repository_ok:
  assumes "build_repository hosts repositories r = Ok repositories'" and "repositories_ok hosts repositories"
  shows "repositories_ok hosts repositories'"
  using assms by (auto simp: build_repository_def repositories_ok_def)

section \<open>The whole configuration\<close>

lemma check_config_parts:
  assumes "check_config e config = Ok (hosts, repositories, deployments, clients)"
  shows "try_fold (build_host e) [] (hb_hosts config) = Ok hosts"
    and "repositories_ok hosts repositories" and "deployments_ok hosts repositories deployments"
    and "list_all (policy_ok hosts repositories deployments) clients" and "distinct (map pr_name clients)"
    and "clients \<noteq> []" and "(\<exists>p \<in> set clients. pr_access p = ManageAccess) \<longrightarrow> hb_state_file config \<noteq> None"
    and "try_fold (build_client e hosts repositories deployments) [] (hb_clients config) = Ok clients"
proof -
  from assms show "try_fold (build_host e) [] (hb_hosts config) = Ok hosts" "clients \<noteq> []"
      "(\<exists>p \<in> set clients. pr_access p = ManageAccess) \<longrightarrow> hb_state_file config \<noteq> None"
      and clients: "try_fold (build_client e hosts repositories deployments) [] (hb_clients config) = Ok clients"
    by (auto simp: check_config_def list_ex_iff)
  from assms have "try_fold (build_repository hosts) [] (hb_repositories config) = Ok repositories"
    by (auto simp: check_config_def)
  then show "repositories_ok hosts repositories"
    by (rule try_fold_inv) (auto simp: repositories_ok_def[of hosts "[]"] intro: build_repository_ok)
  from assms have "try_fold (build_deployment hosts repositories) [] (hb_deployments config) = Ok deployments"
    by (auto simp: check_config_def)
  then show "deployments_ok hosts repositories deployments"
    by (rule try_fold_inv) (auto simp: deployments_ok_def[of hosts repositories "[]"] intro: build_deployment_ok)
  have "list_all (policy_ok hosts repositories deployments) clients \<and> distinct (map pr_name clients)"
    by (rule try_fold_inv[OF clients]) (auto dest: build_client_policy)
  then show "list_all (policy_ok hosts repositories deployments) clients" "distinct (map pr_name clients)" by simp_all
qed

lemma check_config_tokens:
  assumes "check_config e config = Ok (hosts, repositories, deployments, clients)" and "be_ct_eq e = (=)"
  shows "distinct (host_tokens hosts @ map pr_token clients)"
proof -
  note parts = check_config_parts[OF assms(1)]
  have "distinct (host_tokens hosts)"
    by (rule try_fold_inv[OF parts(1)]) (auto intro: exact_eq.build_host_tokens[OF _ assms(2)])
  then have "distinct (host_tokens hosts @ map pr_token [])" by simp
  then show ?thesis
    by (rule try_fold_inv[OF parts(8), of "\<lambda>clients. distinct (host_tokens hosts @ map pr_token clients)"])
      (rule exact_eq.build_client_tokens[OF _ assms(2)])
qed

lemma hub_build_ok:
  assumes "hub_build e config = (st', Ok (listen, app, tasks))"
  obtains st where "check_config e config = Ok (hub_hosts app, hub_repositories app, hub_deployments app, hub_clients app)"
    and "open_store e config = Ok st"
    and "check_events e config (hub_hosts app) (hub_clients app) st = Ok (hub_alert_ingress app)"
    and "build_sinks e (hub_hosts app) (hub_clients app) (hub_alert_ingress app) (hb_event_sinks config) [] st
           = (st', Ok (hub_event_sinks app))"
    and "\<exists>resumed. resume_jobs e st' = Ok resumed
           \<and> tasks = resumed @ (if hub_event_sinks app = [] then [] else [RunEventDelivery])"
    and "hub_store app \<longleftrightarrow> st' \<noteq> None"
  using assms by (auto simp: hub_build_def split: sum.splits prod.splits)

lemma hub_build_tokens:
  assumes "hub_build e config = (st', Ok (listen, app, tasks))" and "be_ct_eq e = (=)"
  shows "distinct (client_tokens app @ machine_tokens app)"
proof -
  from assms(1) obtain st where b:
      "check_config e config = Ok (hub_hosts app, hub_repositories app, hub_deployments app, hub_clients app)"
      "check_events e config (hub_hosts app) (hub_clients app) st = Ok (hub_alert_ingress app)"
      "build_sinks e (hub_hosts app) (hub_clients app) (hub_alert_ingress app) (hb_event_sinks config) [] st
         = (st', Ok (hub_event_sinks app))"
    by (rule hub_build_ok)
  from b(2) have "build_ingress_opt e (hub_hosts app) (hub_clients app) (hb_alert_ingress config) = Ok (hub_alert_ingress app)"
    by (auto simp: check_events_def)
  from exact_eq.build_ingress_tokens[OF this assms(2) check_config_tokens[OF b(1) assms(2)]]
  have "distinct (host_tokens (hub_hosts app) @ map pr_token (hub_clients app) @ ingress_tokens (hub_alert_ingress app) @ sink_tokens [])"
    by simp
  from exact_eq.build_sinks_tokens[OF b(3) assms(2) this] show ?thesis
    by (auto simp: client_tokens_def machine_tokens_def)
qed

section \<open>The store\<close>

text \<open>What a start leaves of the store: other subscriptions at most, with their cursors.\<close>

definition resumed :: "store \<Rightarrow> store \<Rightarrow> bool" where
  "resumed s s' \<longleftrightarrow> (\<exists>subs. s' = s\<lparr>st_subscriptions := subs\<rparr>)
     \<and> (\<forall>sid c. cursor_of sid s = Some c \<longrightarrow> cursor_of sid s' = Some c)
     \<and> (\<forall>digest ts_text as_second ts_add. reachable digest ts_text as_second ts_add s \<longrightarrow>
          reachable digest ts_text as_second ts_add s')"

lemma resumed_refl [simp]: "resumed s s"
  unfolding resumed_def by (auto intro: exI[of _ "st_subscriptions s"])

lemma resumed_trans: "resumed a b \<Longrightarrow> resumed b c \<Longrightarrow> resumed a c"
  unfolding resumed_def by fastforce

lemma cursor_of_update:
  assumes "\<And>r. sr_id (f r) = sr_id r" and "\<And>r. sr_cursor (f r) = sr_cursor r"
  shows "cursor_of sid (s\<lparr>st_subscriptions := update_where p f (st_subscriptions s)\<rparr>) = cursor_of sid s"
proof -
  have "select_one (\<lambda>r. sr_id r = sid) (update_where p f rows)
      = map_option (\<lambda>r. if p r then f r else r) (select_one (\<lambda>r. sr_id r = sid) rows)" for rows
    by (induction rows) (simp_all add: select_one_def update_where_def assms(1))
  then show ?thesis by (simp add: cursor_of_def option.map_comp o_def assms(2) if_distrib cong: if_cong)
qed

lemma subscription_resumed:
  assumes "ensure_subscription now sid filter_doc target cred s = (s', r)"
  shows "resumed s s'" and "is_ok r \<Longrightarrow> \<exists>c. cursor_of sid s' = Some c"
proof -
  have "cursor_of k s' = Some c" if "cursor_of k s = Some c" for k c
    using assms that
    by (auto simp: ensure_subscription_def Let_def cursor_of_update split: if_splits)
      (auto simp: cursor_of_def select_one_append)
  moreover have "\<exists>subs. s' = s\<lparr>st_subscriptions := subs\<rparr>"
    using assms by (auto simp: ensure_subscription_def Let_def intro: exI[of _ "st_subscriptions s"] split: if_splits)
  ultimately show "resumed s s'"
    unfolding resumed_def using assms by (blast intro: reachable.step store_step.subscribe)
  show "\<exists>c. cursor_of sid s' = Some c" if "is_ok r"
    using assms that by (cases r) (auto simp: ensure_subscription_def Let_def subscription_cursor_def cursor_of_def split: if_splits)
qed

lemma subscribe_sink_resumed:
  assumes "subscribe_sink e sink (Some s) = (st', r)"
  shows "\<exists>s'. st' = Some s' \<and> resumed s s' \<and> (is_ok r \<longrightarrow> (\<exists>c. cursor_of (sk_id sink) s' = Some c))"
proof -
  obtain s1 r1 where one: "ensure_subscription (be_now e) (sk_id sink) (be_filter e sink)
      (JObject [(''url'', JString (sk_url sink))]) (map_option (\<lambda>_. sk_id sink) (sk_token_file sink)) s = (s1, r1)"
    by fastforce
  with assms have "st' = Some s1" "is_ok r \<longleftrightarrow> is_ok r1" by (auto simp: subscribe_sink_def split: sum.splits)
  with subscription_resumed[OF one] show ?thesis by simp
qed

lemma build_sinks_resumed:
  assumes "build_sinks e hosts clients ingress cfgs sinks (Some s) = (st', r)"
  shows "\<exists>s'. st' = Some s' \<and> resumed s s'"
  using assms
proof (induction cfgs arbitrary: sinks s)
  case (Cons c cfgs)
  show ?case
  proof (cases "check_sink e hosts clients ingress sinks c")
    case (Inl err)
    with Cons.prems show ?thesis by auto
  next
    case (Inr token)
    obtain st1 r1 where one: "subscribe_sink e c (Some s) = (st1, r1)" by fastforce
    with subscribe_sink_resumed[OF this] obtain s1 where s1: "st1 = Some s1" "resumed s s1" by blast
    from Cons.prems Inr one s1 Cons.IH[of _ s1] show ?thesis
      by (cases r1) (auto intro: resumed_trans)
  qed
qed auto

lemma build_sinks_cursors:
  assumes "build_sinks e hosts clients ingress cfgs sinks (Some s) = (Some s', Ok sinks')" and "x \<in> set sinks'"
    and "\<forall>x \<in> set sinks. \<exists>c. cursor_of (sk_id (hs_config x)) s = Some c"
  shows "\<exists>c. cursor_of (sk_id (hs_config x)) s' = Some c"
  using assms
proof (induction cfgs arbitrary: sinks s)
  case (Cons c cfgs)
  from Cons.prems(1) obtain token st1 where t: "subscribe_sink e c (Some s) = (st1, Ok ())"
      "build_sinks e hosts clients ingress cfgs (sinks @ [\<lparr>hs_config = c, hs_token = token\<rparr>]) st1 = (Some s', Ok sinks')"
    by (auto split: sum.splits prod.splits)
  from subscribe_sink_resumed[OF t(1)] obtain s1 where s1: "st1 = Some s1" "resumed s s1"
      "\<exists>k. cursor_of (sk_id c) s1 = Some k" by auto
  from s1(2) Cons.prems(3) have "\<forall>x \<in> set sinks. \<exists>k. cursor_of (sk_id (hs_config x)) s1 = Some k"
    by (fastforce simp: resumed_def)
  with s1 Cons.IH[OF t(2)[unfolded s1(1)] Cons.prems(2)] show ?case by auto
qed auto

lemma build_sinks_keeps_store:
  "build_sinks e hosts clients ingress cfgs sinks st = (st', r) \<Longrightarrow> st \<noteq> None \<Longrightarrow> st' \<noteq> None"
  using build_sinks_resumed by blast

lemma hub_build_resumed:
  assumes "hub_build e config = (st', r)" and "check_config e config = Ok (hosts, repositories, deployments, clients)"
    and "open_store e config = Ok (Some s)"
  shows "\<exists>s'. st' = Some s' \<and> resumed s s'"
proof (cases "check_events e config hosts clients (Some s)")
  case (Inl err)
  with assms show ?thesis by (auto simp: hub_build_def)
next
  case (Inr ingress)
  obtain st1 r1 where b: "build_sinks e hosts clients ingress (hb_event_sinks config) [] (Some s) = (st1, r1)" by fastforce
  with assms Inr have "st' = st1" by (auto simp: hub_build_def split: sum.splits)
  with build_sinks_resumed[OF b] show ?thesis by blast
qed

end
