(* ===== verification/Properties_Build.thy ===== *)
theory Properties_Build
  imports Hub_Build_Facts Properties_Listings Example_Hub
begin

text \<open>
  What holds of a hub that has started: who its credentials belong to, that every grant of its clients can
  be used, and what a restart makes of the store it finds.
\<close>

section \<open>A configuration\<close>

definition ex_web :: HostConfig where
  "ex_web = \<lparr>hf_name = ''web1'', hf_site = None, hf_agent_url = ''http://web1'', hf_agent_token_file = ''agent'',
     hf_execution_token_file = Some ''executor'', hf_readable_units = set [''nginx.service''], hf_read_all_units = False,
     hf_manageable_units = set [''nginx.service''], hf_diagnostic_profile = None, hf_diagnostic_probes = []\<rparr>"

definition ex_alice :: ClientConfig where
  "ex_alice = \<lparr>cl_name = ''alice'', cl_token_file = ''alice'', cl_hosts = set [''web1''],
     cl_capabilities = set [''exec:run'', ''deploy:manage''], cl_repositories = set [''infra''],
     cl_deployments = set [''system''], cl_access = ManageAccess\<rparr>"

definition ex_hook :: EventSinkConfig where
  "ex_hook = \<lparr>sk_id = ''hook'', sk_hosts = set [''web1''], sk_kinds = set [], sk_retry_seconds = default_delivery_retry,
     sk_url = ''http://hook'', sk_token_file = Some ''hook''\<rparr>"

definition ex_hub :: HubConfig where
  "ex_hub = \<lparr>hb_listen = \<lparr>sa_ip = Ipv4Addr 0x7F000001, sa_port = 8080\<rparr>, hb_hosts = [ex_web], hb_clients = [ex_alice],
     hb_repositories = [\<lparr>rf_name = ''infra'', rf_executor_host = ''web1''\<rparr>], hb_deployments = [ex_deployment],
     hb_prometheus_url = None, hb_alertmanager_url = None,
     hb_alert_ingress = Some \<lparr>ai_token_file = ''ingress'', ai_sink_url = ''http://sink'', ai_sink_token_file = None\<rparr>,
     hb_event_sinks = [ex_hook], hb_remediation_policy = RemediationPolicyConfig_default, hb_state_file = Some ''db''\<rparr>"

text \<open>The token of a file is its name repeated; every URL is plain HTTP; the database holds \<open>s\<close>.\<close>

definition ex_build_env :: "store \<Rightarrow> build_env" where
  "ex_build_env s = \<lparr>be_read = (\<lambda>path. Ok (concat (replicate 16 path))),
     be_url = (\<lambda>u. Ok \<lparr>url_scheme = ''http'', url_host = Some u, url_username = [], url_password = None, url_query = None,
                      url_fragment = None\<rparr>),
     be_ct_eq = (=), be_open = (\<lambda>_. Ok s), be_filter = (\<lambda>_. JNull), be_client = Ok (), be_ts_text = ex_text, be_now = 20\<rparr>"

definition ex_built :: "store option \<times> (SocketAddr \<times> HubApp \<times> startup_task list, store_error) result" where
  "ex_built = hub_build (ex_build_env ex7) ex_hub"

definition ex_built_app :: HubApp where
  "ex_built_app = fst (snd (projr (snd ex_built)))"

definition ex_agent_token :: Token where
  "ex_agent_token = Token (concat (replicate 16 ''agent''))"

definition ex_agent_headers :: headers where
  "ex_agent_headers = [(''authorization'', ''Bearer '' @ concat (replicate 16 ''agent''))]"

lemma ex_built_eval:
  "let r = snd ex_built; a = fst (snd (projr r)); p = hd (hub_clients a) in
     is_ok r \<and> hub_clients a \<noteq> [] \<and> length (machine_tokens a) = 4 \<and> ex_agent_token \<in> set (machine_tokens a)
     \<and> pr_name p = ''alice'' \<and> ''system'' \<in> pr_deployments p"
  by code_simp

lemma ex_built_ok:
  "is_ok (snd ex_built)" "hub_clients ex_built_app \<noteq> []" "length (machine_tokens ex_built_app) = 4"
  "ex_agent_token \<in> set (machine_tokens ex_built_app)" "pr_name (hd (hub_clients ex_built_app)) = ''alice''"
  "''system'' \<in> pr_deployments (hd (hub_clients ex_built_app))"
  using ex_built_eval unfolding Let_def ex_built_app_def by blast+

lemma ex_built_run:
  "hub_build (ex_build_env ex7) ex_hub
     = (fst ex_built, Ok (fst (projr (snd ex_built)), ex_built_app, snd (snd (projr (snd ex_built)))))"
  using ex_built_ok by (cases "snd ex_built") (auto simp: ex_built_def ex_built_app_def prod_eq_iff)

section \<open>Credentials\<close>

lemma authenticate_owner:
  assumes "distinct (map pr_token (app_clients app))" and "p \<in> set (app_clients app)"
    and "Token_matches (=) (pr_token p) hs"
  shows "authenticate (=) app hs = Ok p"
proof -
  have one: "t = u" if "Token_matches (=) t hs" "Token_matches (=) u hs" for t u
    using that by (cases t; cases u) (auto simp: Token_matches_def split: if_splits list.splits option.splits)
  have "find (\<lambda>q. Token_matches (=) (pr_token q) hs) (app_clients app) = Some p"
  proof (cases "find (\<lambda>q. Token_matches (=) (pr_token q) hs) (app_clients app)")
    case None
    with assms show ?thesis by (auto simp: find_None_iff)
  next
    case (Some q)
    then have "q \<in> set (app_clients app)" "Token_matches (=) (pr_token q) hs"
      by (auto simp: find_Some_iff in_set_conv_nth)
    with one assms have "q = p" by (metis distinct_map inj_on_def)
    with Some show ?thesis by simp
  qed
  then show ?thesis by (simp add: authenticate_def)
qed

text \<open>
  (C17) In a hub that has started, no two of its credentials are equal: those of the clients, of every agent
  and executor, of the alert ingress and of the notification and event sinks. So a request with the token
  of a client is that client's and nobody else's, and a credential that a machine holds opens no client's
  access. (The constant-time comparison is taken to decide equality.)
\<close>

theorem credentials_separate:
  assumes "hub_build e config = (st', Ok (listen, app, tasks))" and "be_ct_eq e = (=)"
  shows "distinct (client_tokens app @ machine_tokens app)
    \<and> (\<forall>p \<in> set (hub_clients app). \<forall>hs. Token_matches (be_ct_eq e) (pr_token p) hs \<longrightarrow>
         authenticate (be_ct_eq e) (App_of app) hs = Ok p)
    \<and> (\<forall>t \<in> set (machine_tokens app). \<forall>hs. Token_matches (be_ct_eq e) t hs \<longrightarrow>
         authenticate (be_ct_eq e) (App_of app) hs = Err (ApiError 401 ''unauthorized''))"
proof -
  have d: "distinct (client_tokens app @ machine_tokens app)" using hub_build_tokens[OF assms] .
  have clients: "app_clients (App_of app) = hub_clients app" by (simp add: App_of_def)
  have "authenticate (=) (App_of app) hs = Ok p"
    if "p \<in> set (hub_clients app)" "Token_matches (=) (pr_token p) hs" for p hs
    using authenticate_owner[of "App_of app"] d that by (simp add: client_tokens_def clients)
  moreover have "authenticate (=) (App_of app) hs = Err (ApiError 401 ''unauthorized'')"
    if "t \<in> set (machine_tokens app)" "Token_matches (=) t hs" for t hs
  proof -
    have "\<not> Token_matches (=) (pr_token p) hs" if "p \<in> set (hub_clients app)" for p
    proof
      assume "Token_matches (=) (pr_token p) hs"
      with \<open>Token_matches (=) t hs\<close> have "pr_token p = t"
        by (cases t; cases "pr_token p") (auto simp: Token_matches_def split: if_splits list.splits option.splits)
      with d that \<open>t \<in> set (machine_tokens app)\<close> show False by (auto simp: client_tokens_def)
    qed
    then have "find (\<lambda>p. Token_matches (=) (pr_token p) hs) (hub_clients app) = None" by (simp add: find_None_iff)
    then show ?thesis by (simp add: authenticate_def clients)
  qed
  ultimately show ?thesis using d by (simp add: assms(2))
qed

theorem credentials_separate_witness:
  "length (machine_tokens ex_built_app) = 4
   \<and> authenticate (=) (App_of ex_built_app) ex_agent_headers = Err (ApiError 401 ''unauthorized'')"
proof -
  have "Token_matches (=) ex_agent_token ex_agent_headers" by code_simp
  moreover have "be_ct_eq (ex_build_env ex7) = (=)" by (simp add: ex_build_env_def)
  ultimately show ?thesis
    using credentials_separate[OF ex_built_run] ex_built_ok(3,4) by simp
qed

section \<open>Grants\<close>

lemma granted_host_for:
  assumes "policy_ok (hub_hosts app) (hub_repositories app) (hub_deployments app) p" and "name \<in> pr_hosts p"
  shows "\<exists>h. host_for (App_of app) p name = Ok h"
  using assms by (auto simp: policy_ok_def host_for_def App_of_def)

lemma granted_repository_host:
  assumes "policy_ok (hub_hosts app) (hub_repositories app) (hub_deployments app) p" and "name \<in> pr_repositories p"
  shows "\<exists>host \<in> pr_hosts p. repository_host (App_of app) p name = Ok host \<and> map_of (hub_repositories app) name = Some host"
proof -
  from assms obtain host where h: "host \<in> pr_hosts p" "map_of (hub_repositories app) name = Some host"
    by (auto simp: policy_ok_def)
  with granted_host_for[OF assms(1) h(1)] assms(2) have "repository_host (App_of app) p name = Ok host"
    by (auto simp: repository_host_def App_of_def)
  with h show ?thesis by blast
qed

lemma observe_only:
  assumes "policy_ok hosts repositories deployments p" and "pr_access p = ObserveAccess" and "operation_kind r \<noteq> Observation"
  shows "Request_capability r \<notin> pr_capabilities p"
proof -
  have "Request_capability r \<in> set management_caps"
    using assms(3) all_requests_complete[of r] by (force simp: management_caps_def operations_def Request_operation_def)
  with assms(1,2) show ?thesis by (auto simp: policy_ok_def)
qed

text \<open>
  (C32) Once a hub has started, every grant of a client can be used: the checks of a request find each
  granted host, each granted repository on a permitted host with an executor, and each granted deployment
  with its builder, the owner of its repository, and its target, both permitted and with an executor. A client
  that only observes has no capability of an operation that submits or controls jobs, and a client that
  manages implies a durable store.
\<close>

theorem grants_resolve:
  assumes "hub_build e config = (st', Ok (listen, app, tasks))" and "p \<in> set (hub_clients app)"
  shows "(\<forall>name \<in> pr_hosts p. \<exists>h. host_for (App_of app) p name = Ok h)
    \<and> (\<forall>name \<in> pr_repositories p. \<exists>host \<in> pr_hosts p. repository_host (App_of app) p name = Ok host
         \<and> has_executor (hub_hosts app) host)
    \<and> (\<forall>name \<in> pr_deployments p. \<exists>d. deployment_for (App_of app) p name = Ok d \<and> df_name d = name
         \<and> repository_host (App_of app) p (df_repository d) = Ok (df_builder_host d)
         \<and> df_builder_host d \<in> pr_hosts p \<and> df_target_host d \<in> pr_hosts p
         \<and> has_executor (hub_hosts app) (df_builder_host d) \<and> has_executor (hub_hosts app) (df_target_host d))
    \<and> (pr_access p = ObserveAccess \<longrightarrow> (\<forall>r. operation_kind r \<noteq> Observation \<longrightarrow> Request_capability r \<notin> pr_capabilities p))
    \<and> (pr_access p = ManageAccess \<longrightarrow> durable_store (App_of app) = Ok ())"
proof -
  from assms(1) obtain st where cfg:
      "check_config e config = Ok (hub_hosts app, hub_repositories app, hub_deployments app, hub_clients app)"
      and st: "open_store e config = Ok st" "hub_store app \<longleftrightarrow> st' \<noteq> None"
        "build_sinks e (hub_hosts app) (hub_clients app) (hub_alert_ingress app) (hb_event_sinks config) [] st
           = (st', Ok (hub_event_sinks app))"
    by (rule hub_build_ok)
  note parts = check_config_parts[OF cfg]
  have ok: "policy_ok (hub_hosts app) (hub_repositories app) (hub_deployments app) p"
    using parts(4) assms(2) by (simp add: list_all_iff)
  have executes: "has_executor (hub_hosts app) host" if "map_of (hub_repositories app) name = Some host" for name host
    using parts(2) map_of_SomeD[OF that] by (auto simp: repositories_ok_def)
  have deployment: "\<exists>d. deployment_for (App_of app) p name = Ok d \<and> df_name d = name
         \<and> repository_host (App_of app) p (df_repository d) = Ok (df_builder_host d)
         \<and> df_builder_host d \<in> pr_hosts p \<and> df_target_host d \<in> pr_hosts p
         \<and> has_executor (hub_hosts app) (df_builder_host d) \<and> has_executor (hub_hosts app) (df_target_host d)"
    if name: "name \<in> pr_deployments p" for name
  proof -
    from ok name obtain d where d: "map_of (hub_deployments app) name = Some d" "df_repository d \<in> pr_repositories p"
        "df_builder_host d \<in> pr_hosts p" "df_target_host d \<in> pr_hosts p"
      unfolding policy_ok_def by blast
    from parts(3) map_of_SomeD[OF d(1)] have facts: "df_name d = name"
        "map_of (hub_repositories app) (df_repository d) = Some (df_builder_host d)"
        "has_executor (hub_hosts app) (df_target_host d)"
      by (auto simp: deployments_ok_def)
    have repo: "repository_host (App_of app) p (df_repository d) = Ok (df_builder_host d)"
      using granted_repository_host[OF ok d(2)] facts(2) by auto
    moreover obtain h where "host_for (App_of app) p (df_target_host d) = Ok h" using granted_host_for[OF ok d(4)] by blast
    ultimately have "deployment_for (App_of app) p name = Ok d"
      using name d(1) by (simp add: deployment_for_def) (simp add: App_of_def)
    with d facts repo executes[OF facts(2)] show ?thesis by blast
  qed
  have "durable_store (App_of app) = Ok ()" if "pr_access p = ManageAccess"
  proof -
    have "hb_state_file config \<noteq> None" using parts(7) assms(2) that by blast
    with st(1) have "st \<noteq> None" by (auto simp: open_store_def)
    with build_sinks_keeps_store[OF st(3)] st(2) show ?thesis by (simp add: durable_store_def App_of_def)
  qed
  with granted_host_for[OF ok] granted_repository_host[OF ok] executes deployment observe_only[OF ok] show ?thesis by blast
qed

theorem grants_resolve_witness:
  "\<exists>p \<in> set (hub_clients ex_built_app). pr_name p = ''alice''
    \<and> (\<exists>d. deployment_for (App_of ex_built_app) p ''system'' = Ok d \<and> df_name d = ''system'')"
proof -
  let ?p = "hd (hub_clients ex_built_app)"
  have "?p \<in> set (hub_clients ex_built_app)" using ex_built_ok(2) by simp
  then show ?thesis using grants_resolve[OF ex_built_run, of ?p] ex_built_ok(5,6) by blast
qed

section \<open>Restarts\<close>

text \<open>
  (C31) A restart resumes where the hub stopped. Whatever becomes of the start, the store changes in its
  subscriptions only and stays reachable, and no subscription loses its cursor. If the hub starts, every
  configured sink has a cursor, and the tasks are those of the jobs that have not ended among the 200
  newest, one each, then the delivery of events if there is a sink.
\<close>

theorem restart_resumes:
  assumes "hub_build e config = (st', r)" and "hb_state_file config = Some path" and "be_open e path = Ok s"
    and "reachable digest (be_ts_text e) as_second ts_add s"
  shows "st' = None \<and> \<not> is_ok r \<or> (\<exists>s'. st' = Some s' \<and> reachable digest (be_ts_text e) as_second ts_add s'
    \<and> (\<exists>subs. s' = s\<lparr>st_subscriptions := subs\<rparr>)
    \<and> (\<forall>sid c. cursor_of sid s = Some c \<longrightarrow> cursor_of sid s' = Some c)
    \<and> (\<forall>listen app tasks. r = Ok (listen, app, tasks) \<longrightarrow>
         (\<forall>x \<in> set (hub_event_sinks app). \<exists>c. cursor_of (sk_id (hs_config x)) s' = Some c)
       \<and> tasks = map resume_task (filter (\<lambda>job. \<not> JobState_is_terminal (h_state (job_handle job)))
             (map decoded_job (take 200 (order_by_desc (\<lambda>j. be_ts_text e (jr_created_at j)) (st_jobs s)))))
           @ (if hub_event_sinks app = [] then [] else [RunEventDelivery])))"
proof -
  have opened: "open_store e config = Ok (Some s)" by (simp add: open_store_def assms(2,3))
  show ?thesis
  proof (cases "check_config e config")
    case (Inl err)
    with assms(1) show ?thesis by (auto simp: hub_build_def)
  next
    case (Inr cfg)
    then obtain hosts repositories deployments clients
      where cfg: "check_config e config = Ok (hosts, repositories, deployments, clients)" by (cases cfg) auto
    obtain s' where s': "st' = Some s'" "resumed s s'"
      using hub_build_resumed[OF assms(1) cfg opened] by blast
    have reach: "reachable digest (be_ts_text e) as_second ts_add s'"
      using s'(2) assms(4) by (auto simp: resumed_def)
    have sinks: "\<exists>c. cursor_of (sk_id (hs_config x)) s' = Some c"
      if "r = Ok (listen, app, tasks)" "x \<in> set (hub_event_sinks app)" for listen app tasks x
    proof (rule hub_build_ok[OF assms(1)[unfolded that(1)]])
      fix st
      assume "open_store e config = Ok st"
        and "build_sinks e (hub_hosts app) (hub_clients app) (hub_alert_ingress app) (hb_event_sinks config) [] st
          = (st', Ok (hub_event_sinks app))"
      with opened s'(1) that(2) show ?thesis by (auto intro: build_sinks_cursors)
    qed
    have "tasks = map resume_task (filter (\<lambda>job. \<not> JobState_is_terminal (h_state (job_handle job)))
             (map decoded_job (take 200 (order_by_desc (\<lambda>j. be_ts_text e (jr_created_at j)) (st_jobs s)))))
           @ (if hub_event_sinks app = [] then [] else [RunEventDelivery])"
      if "r = Ok (listen, app, tasks)" for listen app tasks
    proof -
      have "st_jobs s' = st_jobs s" using s'(2) by (auto simp: resumed_def)
      with nonterminal_jobs_exact[OF reach] assms(1) that s'(1) show ?thesis
        by (auto elim!: hub_build_ok simp: resume_jobs_def)
    qed
    with reach sinks s' show ?thesis by (auto simp: resumed_def)
  qed
qed

theorem restart_resumes_witness:
  "\<exists>s'. fst ex_built = Some s' \<and> st_jobs s' = st_jobs ex7 \<and> cursor_of ''hook'' s' = Some 0"
proof -
  have "cursor_of ''hook'' ex7 = Some 0" by code_simp
  moreover have "ex_reachable ex7" by (rule ex_reachable_7)
  moreover have "hb_state_file ex_hub = Some ''db''" "be_open (ex_build_env ex7) ''db'' = Ok ex7"
      "be_ts_text (ex_build_env ex7) = ex_text"
    by (simp_all add: ex_hub_def ex_build_env_def)
  ultimately show ?thesis using restart_resumes[OF ex_built_run, of "''db''" ex7 ex_digest ex_second ex_add] by fastforce
qed

end
