(* ===== verification/Hub_Alerts.thy ===== *)
theory Hub_Alerts
  imports Hub_Client Hub_Delivery
begin

text \<open>
  The active alerts: their selection by host in \<open>maxops-hub/src/lib.rs\<close> and the bounded view of
  \<open>maxops-hub/src/observation_views.rs\<close>, which projects an alert to a few fields, pages the result and
  groups a page by name, with what the alerts of a group share said once.

  The answer of Alertmanager, the serializer and the hash of a page are parameters. An object is the list
  of its entries in the order of their keys.
\<close>

section \<open>Objects\<close>

text \<open>\<open>object[k] = v\<close> and \<open>object.remove(k)\<close>.\<close>

definition json_set :: "string \<Rightarrow> json \<Rightarrow> json \<Rightarrow> json" where
  "json_set k v j =
     (case j of JObject kvs \<Rightarrow> JObject (insort_key fst (k, v) (filter (\<lambda>(k', _). k' \<noteq> k) kvs)) | _ \<Rightarrow> j)"

definition json_remove :: "string \<Rightarrow> json \<Rightarrow> json" where
  "json_remove k j = (case j of JObject kvs \<Rightarrow> JObject (filter (\<lambda>(k', _). k' \<noteq> k) kvs) | _ \<Rightarrow> j)"

text \<open>\<open>json!({ ... })\<close>.\<close>

definition json_object :: "(string \<times> json) list \<Rightarrow> json" where
  "json_object kvs = foldl (\<lambda>o' (k, v). json_set k v o') (JObject []) kvs"

definition json_array :: "json \<Rightarrow> json list" where
  "json_array j = (case j of JArray vs \<Rightarrow> vs | _ \<Rightarrow> [])"

section \<open>Texts\<close>

text \<open>\<open>chars().next()\<close>, \<open>chars().count()\<close> and \<open>chars().take(n).collect()\<close> on the bytes of a text.\<close>

definition first_char :: "string \<Rightarrow> string" where
  "first_char s = (case s of [] \<Rightarrow> [] | c # cs \<Rightarrow> c # takeWhile is_continuation cs)"

definition chars_count :: "string \<Rightarrow> nat" where
  "chars_count s = length (filter (\<lambda>c. \<not> is_continuation c) s)"

fun take_chars :: "nat \<Rightarrow> string \<Rightarrow> string" where
  "take_chars n [] = []"
| "take_chars n (c # cs) =
     (if is_continuation c then c # take_chars n cs
      else case n of 0 \<Rightarrow> [] | Suc m \<Rightarrow> c # take_chars m cs)"

definition bounded_text :: "json \<Rightarrow> nat \<Rightarrow> json" where
  "bounded_text value max_chars =
     (case json_as_str value of None \<Rightarrow> JNull | Some s \<Rightarrow> JString (take_chars max_chars s))"

section \<open>Templates\<close>

definition host_token :: string where "host_token = ''{host}''"

definition peer_token :: string where "peer_token = ''{peer}''"

text \<open>
  The scan of a summary. The values that are looked for are not empty (they are filtered before), so every
  round consumes some of the text.
\<close>

function scan_template :: "(string \<times> string) list \<Rightarrow> string \<Rightarrow> string" where
  "scan_template replacements remaining =
     (if remaining = [] then []
      else case find (\<lambda>(v, _). v \<noteq> [] \<and> starts_with remaining v) replacements of
        Some (v, token) \<Rightarrow> token @ scan_template replacements (drop (length v) remaining)
      | None \<Rightarrow> first_char remaining @ scan_template replacements (drop (length (first_char remaining)) remaining))"
  by pat_completeness auto
termination
  by (relation "measure (\<lambda>(_, s). length s)")
    (auto simp: find_Some_iff first_char_def split: list.splits)

declare scan_template.simps [simp del]

definition replacements_of :: "string \<Rightarrow> string \<Rightarrow> (string \<times> string) list" where
  "replacements_of host peer =
     (let given = filter (\<lambda>(v, _). v \<noteq> []) [(host, host_token), (peer, peer_token)] in
      sort_key (\<lambda>(v, _). - int (length v)) given)"

definition summary_template :: "json \<Rightarrow> string option" where
  "summary_template alert =
     Option.bind (json_as_str (json_index alert ''summary'')) (\<lambda>text.
     if str_contains text host_token \<or> str_contains text peer_token then None
     else
       Option.bind (json_as_str (json_index alert ''host'')) (\<lambda>host.
       Option.bind (json_as_str (json_index alert ''peer'')) (\<lambda>peer.
       Some (scan_template (replacements_of host peer) text))))"

section \<open>The projection of an alert\<close>

definition peer_labels :: "json \<Rightarrow> (string \<times> json) list" where
  "peer_labels labels =
     (case labels of
        JObject kvs \<Rightarrow> map (\<lambda>(name, v). (name, bounded_text v 128))
                       (take 8 (filter (\<lambda>(name, _). starts_with name ''peer'') kvs))
      | _ \<Rightarrow> [])"

definition alert_summary :: "json \<Rightarrow> string" where
  "alert_summary alert =
     (case json_as_str (json_index (json_index alert ''annotations'') ''summary'') of
        Some s \<Rightarrow> s
      | None \<Rightarrow> (case json_as_str (json_index (json_index alert ''annotations'') ''description'') of
                 Some s \<Rightarrow> s | None \<Rightarrow> []))"

definition project_alert :: "json \<Rightarrow> json" where
  "project_alert alert =
     (let labels = json_index alert ''labels'';
          projected = json_object
            [(''alertname'', bounded_text (json_index labels ''alertname'') 128),
             (''host'', json_index labels ''instance''),
             (''unit'', bounded_text (case json_get ''unit'' labels of Some u \<Rightarrow> u | None \<Rightarrow>
                          (case json_get ''name'' labels of Some u \<Rightarrow> u | None \<Rightarrow> JNull)) 255),
             (''severity'', bounded_text (json_index labels ''severity'') 32),
             (''startsAt'', bounded_text (json_index alert ''startsAt'') 64),
             (''fingerprint'', bounded_text (json_index alert ''fingerprint'') 128),
             (''summary'', JString (take_chars 200 (alert_summary alert)))];
          peers = peer_labels labels in
      if length peers = 1 \<and> map_of peers ''peer'' \<noteq> None
      then json_set ''peer'' (the (map_of peers ''peer'')) projected
      else if peers \<noteq> [] then json_set ''peer'' (json_object peers) projected
      else projected)"

section \<open>Groups\<close>

definition group_name :: "json \<Rightarrow> string" where
  "group_name alert = (case json_as_str (json_index alert ''alertname'') of Some n \<Rightarrow> n | None \<Rightarrow> ''unknown'')"

text \<open>The loop body over the fields that may be said once; the first peer exists.\<close>

definition hoist :: "string \<Rightarrow> json \<times> json list \<Rightarrow> json \<times> json list" where
  "hoist field gp =
     (case gp of (grp, peers) \<Rightarrow>
        (case json_get field (hd peers) of
           None \<Rightarrow> (grp, peers)
         | Some v \<Rightarrow>
             if list_all (\<lambda>peer. json_index peer field = json_index (hd peers) field) peers
             then (json_set field v grp, map (json_remove field) peers)
             else (grp, peers)))"

definition hoisted_fields :: "string list" where
  "hoisted_fields = [''host'', ''unit'', ''severity'', ''startsAt'', ''summary'']"

definition share_template :: "json \<times> json list \<Rightarrow> json \<times> json list" where
  "share_template gp =
     (case gp of (grp, peers) \<Rightarrow>
        (case those (map summary_template peers) of
           None \<Rightarrow> (grp, peers)
         | Some templates \<Rightarrow>
             if chars_count (hd templates) \<le> 200 \<and> list_all (\<lambda>template. template = hd templates) templates
                \<and> list_ex (\<lambda>peer. json_index peer ''summary'' \<noteq> json_index (hd peers) ''summary'') peers
             then (json_set ''summary_template'' (JString (hd templates)) grp, map (json_remove ''summary'') peers)
             else (grp, peers)))"

definition alert_group :: "string \<times> json list \<Rightarrow> json" where
  "alert_group np =
     (case np of (name, peers) \<Rightarrow>
        let grp = json_object [(''alertname'', JString name), (''count'', JNumber (PosInt (length peers)))];
            (grp, peers) = fold hoist hoisted_fields (share_template (grp, peers));
            peers = map (json_remove ''alertname'') peers in
        json_set ''peers'' (JArray peers) grp)"

text \<open>\<open>BTreeMap<String, Vec<Value>>\<close>: the names in order, each with its alerts in the order of the page.\<close>

definition group_by_name :: "json list \<Rightarrow> (string \<times> json list) list" where
  "group_by_name items =
     map (\<lambda>name. (name, filter (\<lambda>alert. group_name alert = name) items)) (sort (remdups (map group_name items)))"

section \<open>The view\<close>

record AlertsParams =
  ap_host :: "string option"
  ap_limit :: "nat option"
  ap_cursor :: "string option"

datatype alerts_answer = AlertsFull json | AlertsPage "json page_value" json

definition alerts_view ::
  "(json \<Rightarrow> string) \<Rightarrow> (json list \<Rightarrow> string) \<Rightarrow> json \<Rightarrow> AlertsParams \<Rightarrow> bool \<Rightarrow> (alerts_answer, ApiError) result" where
  "alerts_view to_string hash value params summary =
     (if \<not> summary \<and> ap_limit params = None \<and> ap_cursor params = None then Ok (AlertsFull value)
      else
        let alerts = json_array (json_index value ''alerts'');
            alerts = (if summary then map project_alert alerts else alerts);
            alerts = sort_key to_string alerts in
        rbind (page hash alerts (case ap_limit params of Some n \<Rightarrow> n | None \<Rightarrow> if summary then 20 else 50)
                 (ap_cursor params)) (\<lambda>result.
        Ok (AlertsPage
              (if summary then result\<lparr>pg_values := map alert_group (group_by_name (pg_values result))\<rparr> else result)
              (json_index value ''observed_at''))))"

text \<open>
  \<open>Request::AlertsActive\<close>; \<open>configured\<close> tells whether an Alertmanager is configured, \<open>answer\<close> is what it
  says, if it says anything that is a list.
\<close>

definition alerts_active ::
  "App \<Rightarrow> Principal \<Rightarrow> bool \<Rightarrow> json list option \<Rightarrow> json \<Rightarrow> AlertsParams \<Rightarrow> (json, ApiError) result" where
  "alerts_active app prin configured answer now params =
     rbind (case ap_host params of None \<Rightarrow> Ok () | Some host \<Rightarrow> rbind (host_for app prin host) (\<lambda>_. Ok ())) (\<lambda>_.
     if \<not> configured then Err (ApiError 503 ''Alertmanager not configured'')
     else
       rbind (ok_or (ApiError 502 ''upstream observation unavailable'') answer) (\<lambda>alerts.
       Ok (json_object
         [(''observed_at'', now),
          (''alerts'', JArray (filter (\<lambda>alert.
             case json_as_str (json_index (json_index alert ''labels'') ''instance'') of
               None \<Rightarrow> False
             | Some name \<Rightarrow> name \<in> pr_hosts prin \<and> (case ap_host params of None \<Rightarrow> True | Some host \<Rightarrow> host = name))
             alerts))])))"

end
