(* ===== verification/Hub_Observe.thy ===== *)
theory Hub_Observe
  imports Hub_Client
begin

text \<open>
  \<open>maxops-hub/src/lib.rs\<close>, the observation of hosts: what the agent of a host says is checked for its
  identity and its age and cut down to the units that the configuration lets the hub read, before any
  operation shows it. What an agent answers, if anything, and the serializer of a unit are parameters;
  the instant of a request is one value.
\<close>

section \<open>Observations\<close>

record Facts =
  fa_kernel :: string
  fa_uptime_seconds :: number
  fa_boot_id :: "string option"
  fa_system_closure :: "string option"
  fa_system_profile :: "string option"
  fa_profile_generation :: "nat option"
  fa_profile_matches_running :: "bool option"

record UnitDetails =
  ud_main_pid :: "nat option"
  ud_memory_current_bytes :: "nat option"
  ud_restarts :: "nat option"
  ud_exec_main_code :: "int option"
  ud_exec_main_status :: "int option"
  ud_invocation_id :: "string option"

record UnitStatus =
  us_unit :: string
  us_description :: string
  us_load_state :: string
  us_active_state :: string
  us_sub_state :: string
  us_details :: "UnitDetails option"

record UnitObservation =
  uo_host :: string
  uo_observed_at :: timestamp
  uo_unit :: UnitStatus

record Snapshot =
  sn_host :: string
  sn_observed_at :: timestamp
  sn_facts :: Facts
  sn_units :: "UnitStatus list"
  sn_read_all_units :: bool

text \<open>\<open>App::agent_heartbeats\<close>: when the agent of a host was last observed.\<close>

type_synonym heartbeats = "string \<rightharpoonup> timestamp"

text \<open>An observation is at most 30 seconds ahead of the hub's clock and at most 90 seconds old.\<close>

definition observation_fresh :: "(timestamp \<Rightarrow> int) \<Rightarrow> timestamp \<Rightarrow> timestamp \<Rightarrow> bool" where
  "observation_fresh as_second now observed_at \<longleftrightarrow>
     as_second observed_at \<le> as_second now + 30 \<and> as_second now - as_second observed_at \<le> 90"

definition unit_readable :: "Host \<Rightarrow> string \<Rightarrow> bool" where
  "unit_readable host unit \<longleftrightarrow>
     valid_observation_unit unit \<and> (hc_read_all_units host \<or> unit \<in> hc_readable_units host)"

definition observe_host ::
  "(timestamp \<Rightarrow> int) \<Rightarrow> timestamp \<Rightarrow> (string \<Rightarrow> Snapshot option) \<Rightarrow> Host \<Rightarrow> heartbeats \<Rightarrow>
   heartbeats \<times> (Snapshot, string) result" where
  "observe_host as_second now agent host beats =
     (case agent (hc_name host) of
        None \<Rightarrow> (beats, Err ''upstream'')
      | Some snapshot \<Rightarrow>
          if sn_host snapshot \<noteq> hc_name host then (beats, Err ''agent identity mismatch'')
          else if \<not> observation_fresh as_second now (sn_observed_at snapshot)
          then (beats, Err ''agent observation is stale or clock is skewed'')
          else
            (beats(hc_name host \<mapsto> sn_observed_at snapshot),
             Ok (snapshot\<lparr>sn_units := filter (\<lambda>unit. unit_readable host (us_unit unit)) (sn_units snapshot),
                         sn_read_all_units := (sn_read_all_units snapshot \<and> hc_read_all_units host)\<rparr>)))"

text \<open>The hosts are observed in chunks of eight, each on its own; the results are sorted by name.\<close>

fun observe_all ::
  "(timestamp \<Rightarrow> int) \<Rightarrow> timestamp \<Rightarrow> (string \<Rightarrow> Snapshot option) \<Rightarrow> Host list \<Rightarrow> heartbeats \<Rightarrow>
   heartbeats \<times> (Host \<times> (Snapshot, string) result) list" where
  "observe_all as_second now agent [] beats = (beats, [])"
| "observe_all as_second now agent (host # hosts) beats =
     (case observe_host as_second now agent host beats of (beats', r) \<Rightarrow>
        (case observe_all as_second now agent hosts beats' of (beats'', rs) \<Rightarrow> (beats'', (host, r) # rs)))"

definition snapshots ::
  "(timestamp \<Rightarrow> int) \<Rightarrow> timestamp \<Rightarrow> (string \<Rightarrow> Snapshot option) \<Rightarrow> Host list \<Rightarrow> heartbeats \<Rightarrow>
   heartbeats \<times> (Host \<times> (Snapshot, string) result) list" where
  "snapshots as_second now agent hosts beats =
     (case observe_all as_second now agent hosts beats of (beats', rs) \<Rightarrow> (beats', sort_key (hc_name \<circ> fst) rs))"

record unit_scope =
  sc_all_loaded :: bool
  sc_observed_count :: nat

definition unit_scope_of :: "Snapshot \<Rightarrow> unit_scope" where
  "unit_scope_of snapshot =
     \<lparr>sc_all_loaded = sn_read_all_units snapshot, sc_observed_count = length (sn_units snapshot)\<rparr>"

section \<open>The operations\<close>

definition upstream_error :: ApiError where
  "upstream_error = ApiError 502 ''upstream observation unavailable''"

text \<open>One named host, or every host of the client that is in the inventory.\<close>

definition hosts_for :: "App \<Rightarrow> Principal \<Rightarrow> string option \<Rightarrow> (Host list, ApiError) result" where
  "hosts_for app prin name =
     (case name of
        Some name \<Rightarrow> rbind (host_for app prin name) (\<lambda>host. Ok [host])
      | None \<Rightarrow> Ok (List.map_filter (app_hosts app) (sorted_list_of_set (pr_hosts prin))))"

text \<open>\<open>UnitsFailed\<close>: a row per host, with its failed units unless the host is unavailable.\<close>

record failed_row =
  fr_host :: string
  fr_observed_at :: "timestamp option"
  fr_scope :: "unit_scope option"
  fr_units :: "UnitStatus list option"

definition units_failed ::
  "(timestamp \<Rightarrow> int) \<Rightarrow> timestamp \<Rightarrow> (string \<Rightarrow> Snapshot option) \<Rightarrow> App \<Rightarrow> Principal \<Rightarrow> string option \<Rightarrow> heartbeats \<Rightarrow>
   heartbeats \<times> (failed_row list, ApiError) result" where
  "units_failed as_second now agent app prin name beats =
     (case hosts_for app prin name of
        Inl e \<Rightarrow> (beats, Err e)
      | Inr hosts \<Rightarrow>
          (case snapshots as_second now agent hosts beats of (beats', rs) \<Rightarrow>
             (beats', Ok (map (\<lambda>(host, r).
                case r of
                  Inr snapshot \<Rightarrow>
                    \<lparr>fr_host = hc_name host, fr_observed_at = Some (sn_observed_at snapshot),
                     fr_scope = Some (unit_scope_of snapshot),
                     fr_units = Some (filter (\<lambda>u. us_active_state u = ''failed'') (sn_units snapshot))\<rparr>
                | Inl _ \<Rightarrow> \<lparr>fr_host = hc_name host, fr_observed_at = None, fr_scope = None, fr_units = None\<rparr>) rs))))"

definition host_facts ::
  "(timestamp \<Rightarrow> int) \<Rightarrow> timestamp \<Rightarrow> (string \<Rightarrow> Snapshot option) \<Rightarrow> App \<Rightarrow> Principal \<Rightarrow> string \<Rightarrow> heartbeats \<Rightarrow>
   heartbeats \<times> (string \<times> timestamp \<times> Facts, ApiError) result" where
  "host_facts as_second now agent app prin name beats =
     (case host_for app prin name of
        Inl e \<Rightarrow> (beats, Err e)
      | Inr host \<Rightarrow>
          (case observe_host as_second now agent host beats of
             (beats', Inl _) \<Rightarrow> (beats', Err upstream_error)
           | (beats', Inr snapshot) \<Rightarrow> (beats', Ok (sn_host snapshot, sn_observed_at snapshot, sn_facts snapshot))))"

text \<open>\<open>DeployStatus\<close>: the running closure and the profile of each host, as observed.\<close>

definition deploy_status ::
  "(timestamp \<Rightarrow> int) \<Rightarrow> timestamp \<Rightarrow> (string \<Rightarrow> Snapshot option) \<Rightarrow> App \<Rightarrow> Principal \<Rightarrow> string option \<Rightarrow> heartbeats \<Rightarrow>
   heartbeats \<times> ((string \<times> (timestamp \<times> string option \<times> string option \<times> nat option \<times> bool option) option) list, ApiError) result" where
  "deploy_status as_second now agent app prin name beats =
     (case hosts_for app prin name of
        Inl e \<Rightarrow> (beats, Err e)
      | Inr hosts \<Rightarrow>
          (case snapshots as_second now agent hosts beats of (beats', rs) \<Rightarrow>
             (beats', Ok (map (\<lambda>(host, r).
                (hc_name host,
                 case r of
                   Inr snapshot \<Rightarrow> Some (sn_observed_at snapshot, fa_system_closure (sn_facts snapshot),
                     fa_system_profile (sn_facts snapshot), fa_profile_generation (sn_facts snapshot),
                     fa_profile_matches_running (sn_facts snapshot))
                 | Inl _ \<Rightarrow> None)) rs))))"

record UnitsListParams =
  ul_host :: string
  ul_state :: "string option"
  ul_prefix :: "string option"
  ul_cursor :: "string option"
  ul_limit :: nat

record units_page =
  up_page :: "UnitStatus page_value"
  up_host :: string
  up_observed_at :: timestamp
  up_scope :: unit_scope

definition units_list ::
  "(UnitStatus list \<Rightarrow> string) \<Rightarrow> (timestamp \<Rightarrow> int) \<Rightarrow> timestamp \<Rightarrow> (string \<Rightarrow> Snapshot option) \<Rightarrow> App \<Rightarrow> Principal \<Rightarrow>
   UnitsListParams \<Rightarrow> heartbeats \<Rightarrow> heartbeats \<times> (units_page, ApiError) result" where
  "units_list hash as_second now agent app prin params beats =
     (case host_for app prin (ul_host params) of
        Inl e \<Rightarrow> (beats, Err e)
      | Inr host \<Rightarrow>
          (case observe_host as_second now agent host beats of
             (beats', Inl _) \<Rightarrow> (beats', Err upstream_error)
           | (beats', Inr snapshot) \<Rightarrow>
               let units = filter (\<lambda>unit.
                     (case ul_state params of None \<Rightarrow> True | Some state \<Rightarrow> state = us_active_state unit)
                     \<and> (case ul_prefix params of None \<Rightarrow> True | Some p \<Rightarrow> starts_with (us_unit unit) p)) (sn_units snapshot);
                   units = sort_key us_unit units in
               (beats', rbind (page hash units (ul_limit params) (ul_cursor params)) (\<lambda>result.
                  Ok \<lparr>up_page = result, up_host = sn_host snapshot, up_observed_at = sn_observed_at snapshot,
                      up_scope = unit_scope_of snapshot\<rparr>))))"

text \<open>\<open>ask\<close> is what the agent of a host answers to the question about one unit.\<close>

definition units_status ::
  "(timestamp \<Rightarrow> int) \<Rightarrow> timestamp \<Rightarrow> (string \<Rightarrow> string \<Rightarrow> UnitObservation option) \<Rightarrow> App \<Rightarrow> Principal \<Rightarrow> string \<Rightarrow> string \<Rightarrow>
   (UnitObservation, ApiError) result" where
  "units_status as_second now ask app prin host_name unit =
     rbind (host_for app prin host_name) (\<lambda>host.
     rbind (unit_allowed host unit) (\<lambda>_.
     rbind (ok_or upstream_error (ask host_name unit)) (\<lambda>observation.
     if uo_host observation \<noteq> host_name \<or> us_unit (uo_unit observation) \<noteq> unit
        \<or> as_second (uo_observed_at observation) > as_second now + 30
        \<or> as_second now - as_second (uo_observed_at observation) > 90
     then Err upstream_error
     else Ok observation)))"

definition units_logs ::
  "(LogParams \<Rightarrow> json option) \<Rightarrow> App \<Rightarrow> Principal \<Rightarrow> LogParams \<Rightarrow> (json, ApiError) result" where
  "units_logs ask app prin params =
     rbind (map_err (ApiError 400) (LogParams_validate params)) (\<lambda>_.
     rbind (host_for app prin (lg_host params)) (\<lambda>host.
     rbind (unit_allowed host (lg_unit params)) (\<lambda>_.
     ok_or upstream_error (ask params))))"

text \<open>\<open>SelfStatus\<close>: the state of the agents that a client may see, from their heartbeats.\<close>

definition agent_state :: "(timestamp \<Rightarrow> int) \<Rightarrow> timestamp \<Rightarrow> heartbeats \<Rightarrow> string \<Rightarrow> string \<times> timestamp option" where
  "agent_state as_second now beats host =
     (case beats host of
        None \<Rightarrow> (''unobserved'', None)
      | Some at \<Rightarrow> (if as_second now - as_second at \<le> 90 then ''observed'' else ''unobserved'', Some at))"

definition self_agents ::
  "(timestamp \<Rightarrow> int) \<Rightarrow> timestamp \<Rightarrow> heartbeats \<Rightarrow> Principal \<Rightarrow> (string \<times> string \<times> timestamp option) list" where
  "self_agents as_second now beats prin =
     map (\<lambda>host. (host, agent_state as_second now beats host)) (sorted_list_of_set (pr_hosts prin))"

end
