(* ===== verification/Properties_Views.thy ===== *)
theory Properties_Views
  imports Hub_Alerts Hub_Observe Properties_Build "HOL-Library.Sublist"
begin

text \<open>
  What the compact view of the active alerts promises: a reader can restore every field of every alert of
  a page from the groups, a shared template of a summary included, and sees permitted hosts only.
\<close>

section \<open>Templates can be expanded\<close>

lemma starts_with_prefix: "starts_with s p \<longleftrightarrow> prefix p s"
  by (auto simp: starts_with_def prefix_def) (metis append_take_drop_id)

lemma str_contains_sublist: "str_contains s p \<longleftrightarrow> sublist p s"
proof (induction s)
  case (Cons c s)
  then show ?case
    by (simp add: sublist_Cons_right flip: starts_with_def) (simp add: starts_with_prefix)
qed auto

text \<open>A reader substitutes the two placeholders in one scan from the left.\<close>

function expand_template :: "string \<Rightarrow> string \<Rightarrow> string \<Rightarrow> string" where
  "expand_template host peer t =
     (if t = [] then []
      else if starts_with t host_token then host @ expand_template host peer (drop 6 t)
      else if starts_with t peer_token then peer @ expand_template host peer (drop 6 t)
      else hd t # expand_template host peer (tl t))"
  by pat_completeness auto
termination
  by (relation "measure (\<lambda>(_, _, s). length s)") auto

declare expand_template.simps [simp del]

lemmas tokens = host_token_def peer_token_def

definition replaces :: "string \<Rightarrow> string \<Rightarrow> (string \<times> string) list \<Rightarrow> bool" where
  "replaces host peer rs \<longleftrightarrow> set rs \<subseteq> {(host, host_token), (peer, peer_token)}"

lemma replacements_of_replaces: "replaces host peer (replacements_of host peer)"
  by (auto simp: replaces_def replacements_of_def Let_def)

lemma first_char_split:
  assumes "r \<noteq> []"
  obtains x ks r' where "r = (x # ks) @ r'" and "first_char r = x # ks" and "list_all is_continuation ks"
    and "drop (length (first_char r)) r = r'"
proof (cases r)
  case (Cons x cs)
  let ?ks = "takeWhile is_continuation cs" and ?r' = "dropWhile is_continuation cs"
  have "list_all is_continuation ?ks" by (auto simp: list_all_iff dest: set_takeWhileD)
  moreover have "drop (length ?ks) cs = ?r'" by (simp add: dropWhile_eq_drop)
  ultimately show thesis using that[of x ?ks ?r'] Cons by (simp add: first_char_def)
qed (use assms in simp)

text \<open>One round of the scan: a value becomes its placeholder, or one character is copied.\<close>

lemma scan_cases [consumes 2, case_names replaced copied]:
  assumes "replaces host peer rs" and "r \<noteq> []"
  obtains (replaced) v t r' where "r = v @ r'" and "v \<noteq> []" and "(v, t) \<in> {(host, host_token), (peer, peer_token)}"
      and "scan_template rs r = t @ scan_template rs r'"
    | (copied) x ks r' where "r = (x # ks) @ r'" and "list_all is_continuation ks"
      and "scan_template rs r = (x # ks) @ scan_template rs r'"
proof (cases "find (\<lambda>(v, _). v \<noteq> [] \<and> starts_with r v) rs")
  case None
  obtain x ks r' where c: "r = (x # ks) @ r'" "first_char r = x # ks" "list_all is_continuation ks"
      "drop (length (first_char r)) r = r'"
    using first_char_split[OF assms(2)] .
  have "scan_template rs r = first_char r @ scan_template rs (drop (length (first_char r)) r)"
    using None assms(2) by (subst scan_template.simps) simp
  with c show thesis by (intro copied[OF c(1,3)]) simp
next
  case (Some vt)
  obtain v t where vt: "vt = (v, t)" by fastforce
  from Some have "vt \<in> set rs" "v \<noteq> []" "starts_with r v"
    by (auto simp: find_Some_iff vt in_set_conv_nth)
  then have "(v, t) \<in> {(host, host_token), (peer, peer_token)}" "r = v @ drop (length v) r"
    using assms(1) by (auto simp: replaces_def vt starts_with_def) (metis append_take_drop_id)+
  with replaced[of v "drop (length v) r" t] Some vt \<open>v \<noteq> []\<close> assms(2) show thesis
    by (simp add: scan_template.simps[of rs r])
qed

lemma scan_Nil [simp]: "scan_template rs [] = []"
  by (simp add: scan_template.simps)

text \<open>A text without an opening brace at the front of the template is at the front of the summary.\<close>

lemma scan_prefix:
  assumes "replaces host peer rs" and "CHR ''{'' \<notin> set w" and "prefix w (scan_template rs r)"
  shows "prefix w r"
  using assms(2,3)
proof (induction "length r" arbitrary: w r rule: less_induct)
  case less
  show ?case
  proof (cases "r = []")
    case False
    from assms(1) False show ?thesis
    proof (cases rule: scan_cases)
      case (replaced v t r')
      then show ?thesis using less.prems by (cases w) (auto simp: tokens)
    next
      case (copied x ks r')
      then consider "prefix w (x # ks)" | w' where "w = (x # ks) @ w'" "prefix w' (scan_template rs r')"
        using less.prems(2) unfolding copied(3) prefix_append by blast
      then show ?thesis
      proof cases
        case 1
        then show ?thesis unfolding copied(1) by (rule prefix_prefix)
      next
        case 2
        then have "prefix w' r'" using less.hyps[of r' w'] less.prems(1) copied(1) by simp
        then show ?thesis unfolding copied(1) 2(1) by simp
      qed
    qed
  qed (use less.prems in simp)
qed

lemma expand_copies:
  "CHR ''{'' \<notin> set ks \<Longrightarrow> expand_template host peer (ks @ t) = ks @ expand_template host peer t"
proof (induction ks)
  case (Cons k ks)
  then show ?case by (subst expand_template.simps) (auto simp: starts_with_prefix tokens)
qed simp

lemma expand_token:
  "expand_template host peer (host_token @ t) = host @ expand_template host peer t"
  "expand_template host peer (peer_token @ t) = peer @ expand_template host peer t"
  by (subst expand_template.simps, simp add: starts_with_def tokens)+

text \<open>A character that is copied never completes a placeholder that the summary does not have.\<close>

lemma no_placeholder:
  assumes "replaces host peer rs" and "prefix token ((x # ks) @ scan_template rs r')"
    and "token = CHR ''{'' # w" and "CHR ''{'' \<notin> set w"
  shows "prefix token ((x # ks) @ r')"
proof -
  from assms(2) consider "prefix token (x # ks)" | w' where "token = (x # ks) @ w'" "prefix w' (scan_template rs r')"
    unfolding prefix_append by blast
  then show ?thesis
  proof cases
    case 1
    then show ?thesis by (rule prefix_prefix)
  next
    case 2
    with assms(3,4) have "CHR ''{'' \<notin> set w'" by auto
    from scan_prefix[OF assms(1) this 2(2)] show ?thesis unfolding 2(1) by simp
  qed
qed

lemma scan_expands:
  assumes "replaces host peer rs" and "\<not> sublist host_token r" and "\<not> sublist peer_token r"
  shows "expand_template host peer (scan_template rs r) = r"
  using assms(2,3)
proof (induction "length r" arbitrary: r rule: less_induct)
  case less
  show ?case
  proof (cases "r = []")
    case True
    then show ?thesis by (simp add: expand_template.simps)
  next
    case False
    have rest: "expand_template host peer (scan_template rs r') = r'" if "r = c @ r'" "c \<noteq> []" for c r'
      using less.hyps[of r'] less.prems that by (auto simp: sublist_append)
    from assms(1) False show ?thesis
    proof (cases rule: scan_cases)
      case (replaced v t r')
      then show ?thesis using rest[OF replaced(1,2)] by (auto simp: expand_token)
    next
      case (copied x ks r')
      have none: "\<not> prefix token ((x # ks) @ scan_template rs r')"
        if "token = CHR ''{'' # w" "CHR ''{'' \<notin> set w" "\<not> sublist token r" for token w
        using no_placeholder[OF assms(1) _ that(1,2), of x ks r'] that(3) prefix_imp_sublist[of token r]
        unfolding copied(1) by blast
      have "\<not> prefix host_token ((x # ks) @ scan_template rs r')"
        by (rule none[OF _ _ less.prems(1), of "''host}''"]) (simp_all add: host_token_def)
      moreover have "\<not> prefix peer_token ((x # ks) @ scan_template rs r')"
        by (rule none[OF _ _ less.prems(2), of "''peer}''"]) (simp_all add: peer_token_def)
      moreover have "CHR ''{'' \<notin> set ks" using copied(2) by (auto simp: list_all_iff is_continuation_def byte_simps)
      ultimately show ?thesis
        using rest[OF copied(1)] copied(1,3) expand_copies[of ks]
        by (subst copied(3), subst expand_template.simps) (simp add: starts_with_prefix)
    qed
  qed
qed

lemma template_expands:
  assumes "summary_template alert = Some t"
  obtains whole host peer where "json_index alert ''summary'' = JString whole" and "json_index alert ''host'' = JString host"
    and "json_index alert ''peer'' = JString peer" and "expand_template host peer t = whole"
proof -
  from assms obtain whole host peer where parts: "json_index alert ''summary'' = JString whole"
      "json_index alert ''host'' = JString host" "json_index alert ''peer'' = JString peer"
      "\<not> str_contains whole host_token" "\<not> str_contains whole peer_token"
      "t = scan_template (replacements_of host peer) whole"
    by (auto simp: summary_template_def json_as_str_def bind_eq_Some_conv split: json.splits if_splits)
  then show thesis
    using that scan_expands[OF replacements_of_replaces] by (simp add: str_contains_sublist)
qed

section \<open>Objects\<close>

lemma map_of_insort: "k \<notin> fst ` set kvs \<Longrightarrow> map_of (insort_key fst (k, v) kvs) = (map_of kvs)(k \<mapsto> v)"
  by (induction kvs) (auto simp: fun_upd_twist)

lemma map_of_without: "map_of (filter (\<lambda>(k', _). k' \<noteq> k) kvs) = (map_of kvs)(k := None)"
  by (induction kvs) (auto simp: fun_eq_iff)

lemma map_of_put:
  "map_of (insort_key fst (k, v) (filter (\<lambda>(k', _). k' \<noteq> k) kvs)) = (map_of kvs)(k \<mapsto> v)"
  by (subst map_of_insort) (auto simp: map_of_without)

lemma json_get_set [simp]:
  "is_object j \<Longrightarrow> json_get k (json_set k' v j) = (if k = k' then Some v else json_get k j)"
  by (cases j) (auto simp: json_set_def json_get_def is_object_def map_of_put)

lemma json_get_remove [simp]: "json_get k (json_remove k' j) = (if k = k' then None else json_get k j)"
  by (cases j) (auto simp: json_remove_def json_get_def map_of_without)

lemma is_object_set [simp]: "is_object (json_set k v j) \<longleftrightarrow> is_object j"
  by (cases j) (auto simp: json_set_def is_object_def)

lemma is_object_nil [simp]: "is_object (JObject kvs)" and json_get_nil [simp]: "json_get k (JObject []) = None"
  by (simp_all add: is_object_def json_get_def)

lemma json_object_simps [simp]:
  "json_object [] = JObject []"
  "json_object (kvs @ [(k, v)]) = json_set k v (json_object kvs)"
  by (simp_all add: json_object_def)

section \<open>Groups can be read back\<close>

text \<open>What a reader takes a field of a peer to be: its own, or the one of the group.\<close>

definition inherited :: "json \<Rightarrow> json \<Rightarrow> string \<Rightarrow> json" where
  "inherited grp peer field = (case json_get field peer of Some v \<Rightarrow> v | None \<Rightarrow> json_index grp field)"

text \<open>The summary of a peer is the template of the group with the peer's host and name, if there is one.\<close>

definition read_summary :: "json \<Rightarrow> json \<Rightarrow> json" where
  "read_summary grp peer =
     (case json_get ''summary_template'' grp of
        None \<Rightarrow> inherited grp peer ''summary''
      | Some template \<Rightarrow>
          (case (json_as_str template, json_as_str (inherited grp peer ''host''), json_as_str (inherited grp peer ''peer'')) of
             (Some t, Some host, Some name) \<Rightarrow> JString (expand_template host name t)
           | _ \<Rightarrow> JNull))"

definition kept_fields :: "string list" where
  "kept_fields = [''host'', ''unit'', ''severity'', ''startsAt'', ''fingerprint'', ''peer'']"

definition read_peer :: "json \<Rightarrow> json \<Rightarrow> json \<times> json list \<times> json" where
  "read_peer grp peer = (json_index grp ''alertname'', map (inherited grp peer) kept_fields, read_summary grp peer)"

definition read_group :: "json \<Rightarrow> (json \<times> json list \<times> json) list" where
  "read_group grp = map (read_peer grp) (json_array (json_index grp ''peers''))"

text \<open>The same of a projected alert; an alert without a name goes by the name \<open>unknown\<close>.\<close>

definition alert_shown :: "json \<Rightarrow> json \<times> json list \<times> json" where
  "alert_shown alert = (JString (group_name alert), map (json_index alert) kept_fields, json_index alert ''summary'')"

lemma map_eq_nth:
  assumes "map h xs = map k ys" and "i < length ys"
  shows "h (xs ! i) = k (ys ! i)"
proof -
  from assms(1) have "length xs = length ys" by (rule map_eq_imp_length_eq)
  with assms have "map h xs ! i = map k ys ! i" by simp
  then show ?thesis using \<open>length xs = length ys\<close> assms(2) by simp
qed

lemma hoist_keeps:
  assumes "hoist field (g, ps) = (g', ps')" and "is_object g" and "json_get field g = None"
  shows "\<forall>f. map (\<lambda>p. inherited g' p f) ps' = map (\<lambda>p. inherited g p f) ps" and "is_object g'"
    and "\<forall>f. f \<noteq> field \<longrightarrow> json_get f g' = json_get f g"
proof -
  have "g' = g \<and> ps' = ps \<or> (\<exists>v. g' = json_set field v g \<and> ps' = map (json_remove field) ps
      \<and> (\<forall>p \<in> set ps. json_index p field = v))"
    using assms(1) by (auto simp: hoist_def list_all_iff json_index_def[of "hd ps"] split: option.splits if_splits)
  then show "\<forall>f. map (\<lambda>p. inherited g' p f) ps' = map (\<lambda>p. inherited g p f) ps" "is_object g'"
      "\<forall>f. f \<noteq> field \<longrightarrow> json_get f g' = json_get f g"
    using assms(2,3) by (force simp: inherited_def json_index_def split: option.split)+
qed

lemma hoists_keep:
  assumes "fold hoist fs (g, ps) = (g', ps')" and "is_object g" and "\<forall>f \<in> set fs. json_get f g = None" and "distinct fs"
  shows "(\<forall>f. map (\<lambda>p. inherited g' p f) ps' = map (\<lambda>p. inherited g p f) ps) \<and> is_object g'
    \<and> (\<forall>f. f \<notin> set fs \<longrightarrow> json_get f g' = json_get f g)"
  using assms
proof (induction fs arbitrary: g ps)
  case (Cons field fs)
  obtain g1 ps1 where one: "hoist field (g, ps) = (g1, ps1)" by fastforce
  note h = hoist_keeps[OF one Cons.prems(2)]
  have none: "json_get field g = None" using Cons.prems(3) by simp
  have "fold hoist fs (g1, ps1) = (g', ps')" using Cons.prems(1) one by simp
  moreover have "\<forall>f \<in> set fs. json_get f g1 = None" using Cons.prems(3,4) h(3)[OF none] by auto
  ultimately show ?case using Cons.IH[of g1 ps1] h[OF none] Cons.prems(4) by auto
qed simp

lemma share_template_keeps:
  assumes "share_template (g, ps) = (g', ps')" and "is_object g"
    and "json_get ''summary_template'' g = None" and "json_get ''summary'' g = None"
  shows "is_object g'" and "\<forall>f. f \<noteq> ''summary_template'' \<longrightarrow> json_get f g' = json_get f g"
    and "\<forall>f. f \<notin> {''summary'', ''summary_template''} \<longrightarrow> map (\<lambda>p. inherited g' p f) ps' = map (\<lambda>p. inherited g p f) ps"
    and "json_get ''summary_template'' g' = None \<and> ps' = ps
      \<or> (\<exists>t. json_get ''summary_template'' g' = Some (JString t) \<and> ps' = map (json_remove ''summary'') ps
           \<and> (\<forall>p \<in> set ps. summary_template p = Some t))"
proof -
  have eq: "summary_template p = Some t"
    if "those (map summary_template ps) = Some ts" "\<forall>u \<in> set ts. u = t" "p \<in> set ps" for ts t p
    using that by (induction ps arbitrary: ts) (auto split: option.splits)
  show "is_object g'" "\<forall>f. f \<noteq> ''summary_template'' \<longrightarrow> json_get f g' = json_get f g"
      "\<forall>f. f \<notin> {''summary'', ''summary_template''} \<longrightarrow> map (\<lambda>p. inherited g' p f) ps' = map (\<lambda>p. inherited g p f) ps"
    using assms
    by (auto simp: share_template_def inherited_def json_index_def split: option.splits if_splits)
  show "json_get ''summary_template'' g' = None \<and> ps' = ps
      \<or> (\<exists>t. json_get ''summary_template'' g' = Some (JString t) \<and> ps' = map (json_remove ''summary'') ps
           \<and> (\<forall>p \<in> set ps. summary_template p = Some t))"
  proof (cases "those (map summary_template ps)")
    case (Some ts)
    with assms eq[OF Some, of "hd ts"] show ?thesis
      by (auto simp: share_template_def list_all_iff split: if_splits)
  qed (use assms in \<open>auto simp: share_template_def\<close>)
qed

text \<open>A group after its two passes: what its peers inherit, and where their summaries are.\<close>

lemma group_passes:
  assumes "share_template (g0, ps) = (g1, ps1)" and "fold hoist hoisted_fields (g1, ps1) = (g2, ps2)" and "is_object g0"
    and "\<forall>f. f \<notin> {''alertname'', ''count''} \<longrightarrow> json_get f g0 = None"
  shows "length ps2 = length ps" and "is_object g2" and "json_get ''alertname'' g2 = json_get ''alertname'' g0"
    and "\<forall>i < length ps. \<forall>f \<in> set kept_fields. inherited g2 (ps2 ! i) f = json_index (ps ! i) f"
    and "json_get ''summary_template'' g2 = None \<and> (\<forall>i < length ps. inherited g2 (ps2 ! i) ''summary'' = json_index (ps ! i) ''summary'')
      \<or> (\<exists>t. json_get ''summary_template'' g2 = Some (JString t) \<and> (\<forall>p \<in> set ps. summary_template p = Some t))"
proof -
  have sh: "is_object g1" "\<forall>f. f \<noteq> ''summary_template'' \<longrightarrow> json_get f g1 = json_get f g0"
      "\<forall>f. f \<notin> {''summary'', ''summary_template''} \<longrightarrow> map (\<lambda>p. inherited g1 p f) ps1 = map (\<lambda>p. inherited g0 p f) ps"
      "json_get ''summary_template'' g1 = None \<and> ps1 = ps
      \<or> (\<exists>t. json_get ''summary_template'' g1 = Some (JString t) \<and> ps1 = map (json_remove ''summary'') ps
           \<and> (\<forall>p \<in> set ps. summary_template p = Some t))"
    using share_template_keeps[OF assms(1,3)] assms(4) by simp_all
  have "\<forall>f \<in> set hoisted_fields. json_get f g1 = None" using sh(2) assms(4) by (simp add: hoisted_fields_def)
  moreover have "distinct hoisted_fields" by (simp add: hoisted_fields_def)
  ultimately have ho: "\<forall>f. map (\<lambda>p. inherited g2 p f) ps2 = map (\<lambda>p. inherited g1 p f) ps1" "is_object g2"
      "\<forall>f. f \<notin> set hoisted_fields \<longrightarrow> json_get f g2 = json_get f g1"
    using hoists_keep[OF assms(2) sh(1)] by blast+
  have len1: "length ps1 = length ps" using sh(4) by auto
  show "length ps2 = length ps" using map_eq_imp_length_eq[OF ho(1)[rule_format]] len1 by simp
  show "is_object g2" "json_get ''alertname'' g2 = json_get ''alertname'' g0"
    using ho(2,3) sh(2) by (simp_all add: hoisted_fields_def)
  have bare: "inherited g0 p f = json_index p f" if "f \<notin> {''alertname'', ''count''}" for p f
    using assms(4) that by (simp add: inherited_def json_index_def split: option.split)
  have second: "inherited g2 (ps2 ! i) f = inherited g1 (ps1 ! i) f" if "i < length ps" for i f
    using map_eq_nth[OF ho(1)[rule_format]] len1 that by simp
  show "\<forall>i < length ps. \<forall>f \<in> set kept_fields. inherited g2 (ps2 ! i) f = json_index (ps ! i) f"
  proof (intro allI impI ballI)
    fix i f assume i: "i < length ps" and f: "f \<in> set kept_fields"
    then have "f \<notin> {''summary'', ''summary_template''}" "f \<notin> {''alertname'', ''count''}" by (auto simp: kept_fields_def)
    then show "inherited g2 (ps2 ! i) f = json_index (ps ! i) f"
      using second[OF i] map_eq_nth[OF sh(3)[rule_format] i] bare by metis
  qed
  have template: "json_get ''summary_template'' g2 = json_get ''summary_template'' g1"
    using ho(3) by (simp add: hoisted_fields_def)
  have first: "inherited g1 p ''summary'' = json_index p ''summary''" for p
    using sh(2) assms(4) by (simp add: inherited_def json_index_def split: option.split)
  show "json_get ''summary_template'' g2 = None \<and> (\<forall>i < length ps. inherited g2 (ps2 ! i) ''summary'' = json_index (ps ! i) ''summary'')
      \<or> (\<exists>t. json_get ''summary_template'' g2 = Some (JString t) \<and> (\<forall>p \<in> set ps. summary_template p = Some t))"
    using sh(4)
  proof (elim disjE conjE exE)
    assume none: "json_get ''summary_template'' g1 = None" "ps1 = ps"
    have "inherited g2 (ps2 ! i) ''summary'' = json_index (ps ! i) ''summary''" if "i < length ps" for i
      unfolding second[OF that] none(2) by (rule first)
    with none(1) template show ?thesis by simp
  qed (simp add: template)
qed

text \<open>Reading back a group gives what was put in, alert by alert.\<close>

lemma read_alert_group:
  assumes "\<forall>p \<in> set ps. group_name p = name"
  shows "read_group (alert_group (name, ps)) = map alert_shown ps"
proof -
  define g0 where "g0 = json_object [(''alertname'', JString name), (''count'', JNumber (PosInt (length ps)))]"
  have g0: "is_object g0" "json_get ''alertname'' g0 = Some (JString name)"
      "\<forall>f. f \<notin> {''alertname'', ''count''} \<longrightarrow> json_get f g0 = None"
    by (simp_all add: g0_def json_object_def)
  obtain g1 ps1 where s: "share_template (g0, ps) = (g1, ps1)" by fastforce
  obtain g2 ps2 where h: "fold hoist hoisted_fields (g1, ps1) = (g2, ps2)" by fastforce
  note passes = group_passes[OF s h g0(1,3)]
  define g where "g = json_set ''peers'' (JArray (map (json_remove ''alertname'') ps2)) g2"
  have result: "alert_group (name, ps) = g" using s h by (simp add: alert_group_def g0_def g_def)
  have getg: "json_get f g = (if f = ''peers'' then Some (JArray (map (json_remove ''alertname'') ps2)) else json_get f g2)" for f
    using passes(2) by (simp add: g_def)
  have inh: "inherited g (json_remove ''alertname'' p) f = inherited g2 p f" if "f \<noteq> ''alertname''" "f \<noteq> ''peers''" for p f
    using that by (simp add: inherited_def json_index_def getg split: option.split)
  have kept: "inherited g (json_remove ''alertname'' (ps2 ! i)) f = json_index (ps ! i) f"
    if "i < length ps" "f \<in> set kept_fields" for i f
    using passes(4) inh that by (auto simp: kept_fields_def)
  have summary: "read_summary g (json_remove ''alertname'' (ps2 ! i)) = json_index (ps ! i) ''summary''" if i: "i < length ps" for i
    using passes(5)
  proof (elim disjE exE conjE)
    assume "json_get ''summary_template'' g2 = None"
      and "\<forall>i < length ps. inherited g2 (ps2 ! i) ''summary'' = json_index (ps ! i) ''summary''"
    with i show ?thesis by (simp add: read_summary_def getg inh)
  next
    fix t
    assume t: "json_get ''summary_template'' g2 = Some (JString t)" "\<forall>p \<in> set ps. summary_template p = Some t"
    with i have "summary_template (ps ! i) = Some t" by simp
    then obtain whole host peer where e: "json_index (ps ! i) ''summary'' = JString whole"
        "json_index (ps ! i) ''host'' = JString host" "json_index (ps ! i) ''peer'' = JString peer"
        "expand_template host peer t = whole"
      by (rule template_expands)
    have "json_get ''summary_template'' g = Some (JString t)" using t(1) by (simp add: getg)
    then show ?thesis
      using kept[OF i, of "''host''"] kept[OF i, of "''peer''"] e
      by (simp add: read_summary_def json_as_str_def kept_fields_def)
  qed
  have "read_peer g (json_remove ''alertname'' (ps2 ! i)) = alert_shown (ps ! i)" if "i < length ps" for i
    using kept[OF that] summary[OF that] assms that passes(3) g0(2)
    by (simp add: read_peer_def alert_shown_def json_index_def[of g] getg)
  moreover have "json_array (json_index g ''peers'') = map (json_remove ''alertname'') ps2"
    by (simp add: json_index_def getg json_array_def)
  ultimately show ?thesis
    unfolding result read_group_def by (intro nth_equalityI) (simp_all add: passes(1))
qed

section \<open>A page\<close>

lemma mset_by_key:
  assumes "distinct ks" and "k ` set xs \<subseteq> set ks"
  shows "mset (concat (map (\<lambda>n. filter (\<lambda>x. k x = n) xs) ks)) = mset xs"
proof (rule multiset_eqI)
  fix x
  have "count (mset (concat (map (\<lambda>n. filter (\<lambda>x. k x = n) xs) ks))) x
      = (\<Sum>n\<leftarrow>ks. if n = k x then count (mset xs) x else 0)"
    by (induction ks) (auto simp: count_filter_mset)
  also have "\<dots> = (if k x \<in> set ks then count (mset xs) x else 0)"
    using assms(1) by (induction ks) auto
  also have "\<dots> = count (mset xs) x"
    using assms(2) by (auto simp: count_eq_zero_iff)
  finally show "count (mset (concat (map (\<lambda>n. filter (\<lambda>x. k x = n) xs) ks))) x = count (mset xs) x" .
qed

lemma read_groups:
  "mset (concat (map (read_group \<circ> alert_group) (group_by_name items))) = mset (map alert_shown items)"
proof -
  let ?ks = "sort (remdups (map group_name items))" and ?part = "\<lambda>n. filter (\<lambda>a. group_name a = n) items"
  have "concat (map (read_group \<circ> alert_group) (group_by_name items)) = concat (map (\<lambda>n. map alert_shown (?part n)) ?ks)"
    unfolding group_by_name_def map_map o_def by (intro arg_cong[where f = concat] map_cong refl read_alert_group) auto
  also have "\<dots> = map alert_shown (concat (map ?part ?ks))" by (simp add: map_concat o_def)
  finally show ?thesis using mset_by_key[of ?ks group_name items] by simp
qed

lemma page_part:
  assumes "page hash vs limit cursor = Ok raw"
  shows "set (pg_values raw) \<subseteq> set vs" and "pg_total raw = length vs"
proof -
  from assms obtain n m where "pg_values raw = take n (drop m vs)" and total: "pg_total raw = length vs"
    unfolding page_def Let_def by (simp split: if_splits) (metis page_value.select_convs(1,3))
  then show "set (pg_values raw) \<subseteq> set vs" by (metis set_drop_subset set_take_subset subset_trans)
  show "pg_total raw = length vs" by (rule total)
qed

text \<open>Which alerts a client may see.\<close>

definition permitted :: "Principal \<Rightarrow> AlertsParams \<Rightarrow> json \<Rightarrow> bool" where
  "permitted prin params alert \<longleftrightarrow>
     (\<exists>name \<in> pr_hosts prin. json_index (json_index alert ''labels'') ''instance'' = JString name
        \<and> (ap_host params = None \<or> ap_host params = Some name))"

lemma project_alert_host: "json_index (project_alert alert) ''host'' = json_index (json_index alert ''labels'') ''instance''"
  by (simp add: project_alert_def Let_def json_object_def json_index_def)

lemma alerts_active_alerts:
  assumes "alerts_active app prin configured listed now params = Ok value"
  obtains items where "listed = Some items" and "json_array (json_index value ''alerts'') = filter (permitted prin params) items"
proof -
  have "(case json_as_str (json_index (json_index alert ''labels'') ''instance'') of None \<Rightarrow> False
      | Some name \<Rightarrow> name \<in> pr_hosts prin \<and> (case ap_host params of None \<Rightarrow> True | Some host \<Rightarrow> host = name))
      \<longleftrightarrow> permitted prin params alert" for alert
    by (auto simp: permitted_def json_as_str_def split: json.splits option.splits)
  then show thesis
    using assms that by (auto simp: alerts_active_def json_object_def json_index_def[of "json_set _ _ _"] json_array_def split: if_splits)
qed

text \<open>
  (C36) The compact view of the active alerts loses nothing of the fields it keeps. The groups of a page,
  read back with the fields that a peer inherits from its group and with the shared template expanded for its
  host and peer, are the projected alerts of that page, each as often as it occurs: its name, host, unit,
  severity, start, fingerprint, peer and summary. The page is one of the listing of all alerts on the
  hosts that the client may see, and of no other.
\<close>

theorem alert_groups_lossless:
  assumes "alerts_active app prin configured (Some listed) now params = Ok value"
    and "alerts_view to_string hash value params True = Ok (AlertsPage result observed_at)"
  shows "\<exists>raw. page hash (sort_key to_string (map project_alert (filter (permitted prin params) listed)))
           (case ap_limit params of Some n \<Rightarrow> n | None \<Rightarrow> 20) (ap_cursor params) = Ok raw
      \<and> mset (concat (map read_group (pg_values result))) = mset (map alert_shown (pg_values raw))
      \<and> (\<forall>alert \<in> set (pg_values raw). \<exists>name \<in> pr_hosts prin. json_index alert ''host'' = JString name)
      \<and> pg_total result = length (filter (permitted prin params) listed) \<and> pg_next_cursor result = pg_next_cursor raw"
proof -
  let ?all = "sort_key to_string (map project_alert (filter (permitted prin params) listed))"
  have "json_array (json_index value ''alerts'') = filter (permitted prin params) listed"
    using alerts_active_alerts[OF assms(1)] by auto
  with assms(2) obtain raw where raw:
      "page hash ?all (case ap_limit params of Some n \<Rightarrow> n | None \<Rightarrow> 20) (ap_cursor params) = Ok raw"
      "result = raw\<lparr>pg_values := map alert_group (group_by_name (pg_values raw))\<rparr>"
    by (auto simp: alerts_view_def Let_def cong: option.case_cong)
  note part = page_part[OF raw(1)]
  have "\<exists>name \<in> pr_hosts prin. json_index alert ''host'' = JString name" if "alert \<in> set (pg_values raw)" for alert
  proof -
    from that part(1) have "alert \<in> project_alert ` set (filter (permitted prin params) listed)" by auto
    then show ?thesis by (auto simp: project_alert_host permitted_def)
  qed
  moreover have "mset (concat (map read_group (pg_values result))) = mset (map alert_shown (pg_values raw))"
    using read_groups[of "pg_values raw"] by (simp add: raw(2) o_def)
  ultimately show ?thesis using raw part(2) by auto
qed

definition ex_alert_json :: "string \<Rightarrow> string \<Rightarrow> json" where
  "ex_alert_json fingerprint peer = json_object
     [(''labels'', json_object [(''alertname'', JString ''PeerDown''), (''instance'', JString ''web1''), (''peer'', JString peer)]),
      (''annotations'', json_object [(''summary'', JString (''web1 lost '' @ peer))]),
      (''fingerprint'', JString fingerprint)]"

definition ex_listed :: "json list" where
  "ex_listed = [ex_alert_json ''f1'' ''db1'', ex_alert_json ''f2'' ''db2'',
     json_object [(''labels'', json_object [(''instance'', JString ''db9'')])]]"

definition ex_alerts_params :: AlertsParams where
  "ex_alerts_params = \<lparr>ap_host = None, ap_limit = None, ap_cursor = None\<rparr>"

definition ex_alerts_value :: json where
  "ex_alerts_value = projr (alerts_active ex_app ex_prin True (Some ex_listed) JNull ex_alerts_params)"

definition ex_alert_text :: "json \<Rightarrow> string" where
  "ex_alert_text alert = (case json_index alert ''fingerprint'' of JString f \<Rightarrow> f | _ \<Rightarrow> [])"

definition ex_alerts_answer :: alerts_answer where
  "ex_alerts_answer = projr (alerts_view ex_alert_text (\<lambda>_. ''r'') ex_alerts_value ex_alerts_params True)"

theorem alert_groups_lossless_witness:
  "\<exists>result. ex_alerts_answer = AlertsPage result JNull \<and> pg_total result = 2 \<and> length (pg_values result) = 1
    \<and> json_get ''summary_template'' (hd (pg_values result)) = Some (JString ''{host} lost {peer}'')"
proof -
  define result where "result = (case ex_alerts_answer of AlertsPage r _ \<Rightarrow> r | AlertsFull _ \<Rightarrow> undefined)"
  have active: "alerts_active ex_app ex_prin True (Some ex_listed) JNull ex_alerts_params = Ok ex_alerts_value"
    by code_simp
  have "is_ok (alerts_view ex_alert_text (\<lambda>_. ''r'') ex_alerts_value ex_alerts_params True)
      \<and> (case ex_alerts_answer of AlertsPage r o' \<Rightarrow> o' = JNull \<and> length (pg_values r) = 1
           \<and> json_get ''summary_template'' (hd (pg_values r)) = Some (JString ''{host} lost {peer}'') | AlertsFull _ \<Rightarrow> False)
      \<and> length (filter (permitted ex_prin ex_alerts_params) ex_listed) = 2"
    by code_simp
  then have eval: "alerts_view ex_alert_text (\<lambda>_. ''r'') ex_alerts_value ex_alerts_params True = Ok (AlertsPage result JNull)"
      "ex_alerts_answer = AlertsPage result JNull" "length (pg_values result) = 1"
      "json_get ''summary_template'' (hd (pg_values result)) = Some (JString ''{host} lost {peer}'')"
      "length (filter (permitted ex_prin ex_alerts_params) ex_listed) = 2"
    by (auto simp: result_def ex_alerts_answer_def is_ok_def split: sum.splits alerts_answer.splits)
  from alert_groups_lossless[OF active eval(1)] eval show ?thesis by auto
qed

section \<open>Observed hosts\<close>

text \<open>The host a name of the inventory stands for carries that name.\<close>

lemma built_host_named:
  assumes "hub_build e config = (st', Ok (listen, app, tasks))" and "app_hosts (App_of app) name = Some host"
  shows "hc_name host = name"
proof -
  have "\<forall>(n, h) \<in> set (hub_hosts app). hf_name (hh_config h) = n"
    using assms(1)
  proof (rule hub_build_ok)
    assume "check_config e config = Ok (hub_hosts app, hub_repositories app, hub_deployments app, hub_clients app)"
    from check_config_parts(1)[OF this] show ?thesis
      by (rule try_fold_inv) (auto simp: build_host_def)
  qed
  moreover from assms(2) obtain h where "map_of (hub_hosts app) name = Some h" "host = Host_of h"
    by (auto simp: App_of_def)
  ultimately show ?thesis by (auto simp: Host_of_def dest!: map_of_SomeD)
qed

text \<open>What a client may be shown of a host.\<close>

definition readable_on :: "App \<Rightarrow> Principal \<Rightarrow> string \<Rightarrow> string \<Rightarrow> bool" where
  "readable_on app prin name unit \<longleftrightarrow>
     name \<in> pr_hosts prin \<and> (\<exists>host. app_hosts app name = Some host \<and> unit_readable host unit)"

lemma observe_host_ok:
  assumes "observe_host as_second now agent host beats = (beats', Ok snapshot)"
  shows "sn_host snapshot = hc_name host" and "observation_fresh as_second now (sn_observed_at snapshot)"
    and "u \<in> set (sn_units snapshot) \<Longrightarrow> unit_readable host (us_unit u)"
  using assms by (auto simp: observe_host_def split: option.splits if_splits)

lemma observe_all_ok:
  assumes "observe_all as_second now agent hosts beats = (beats', rs)" and "(host, r) \<in> set rs"
  shows "host \<in> set hosts \<and> (\<exists>b b'. observe_host as_second now agent host b = (b', r))"
  using assms
proof (induction hosts arbitrary: beats beats' rs)
  case (Cons h hosts)
  obtain b1 r1 where one: "observe_host as_second now agent h beats = (b1, r1)" by fastforce
  obtain b2 rs2 where rest: "observe_all as_second now agent hosts b1 = (b2, rs2)" by fastforce
  with Cons.prems one Cons.IH[OF rest] show ?case by fastforce
qed simp

lemma hosts_for_ok:
  assumes "hosts_for app prin name = Ok hosts" and "host \<in> set hosts"
  shows "\<exists>n \<in> pr_hosts prin. app_hosts app n = Some host"
proof (cases name)
  case None
  have "set (sorted_list_of_set (pr_hosts prin)) \<subseteq> pr_hosts prin" by (cases "finite (pr_hosts prin)") simp_all
  moreover from None assms obtain n where "n \<in> set (sorted_list_of_set (pr_hosts prin))" "app_hosts app n = Some host"
    by (auto simp: hosts_for_def List.map_filter_def)
  ultimately show ?thesis by blast
qed (use assms in \<open>auto simp: hosts_for_def host_for_def split: if_splits\<close>)

text \<open>The three operations, over any inventory whose hosts carry their names.\<close>

lemma units_list_scoped:
  assumes "\<forall>n h. app_hosts app n = Some h \<longrightarrow> hc_name h = n"
    and "units_list hash as_second now agent app prin params beats = (beats', Ok r)"
  shows "up_host r = ul_host params \<and> observation_fresh as_second now (up_observed_at r)
    \<and> (\<forall>u \<in> set (pg_values (up_page r)). readable_on app prin (ul_host params) (us_unit u))"
proof -
  let ?sel = "\<lambda>unit. (case ul_state params of None \<Rightarrow> True | Some state \<Rightarrow> state = us_active_state unit)
      \<and> (case ul_prefix params of None \<Rightarrow> True | Some p \<Rightarrow> starts_with (us_unit unit) p)"
  from assms(2) obtain host snapshot where h: "host_for app prin (ul_host params) = Ok host"
      "observe_host as_second now agent host beats = (beats', Ok snapshot)"
      "page hash (sort_key us_unit (filter ?sel (sn_units snapshot))) (ul_limit params) (ul_cursor params) = Ok (up_page r)"
      "up_host r = sn_host snapshot" "up_observed_at r = sn_observed_at snapshot"
    by (auto simp: units_list_def Let_def split: sum.splits prod.splits)
  from h(1) have host: "ul_host params \<in> pr_hosts prin" "app_hosts app (ul_host params) = Some host"
    by (auto simp: host_for_def split: if_splits)
  have "set (pg_values (up_page r)) \<subseteq> set (sn_units snapshot)" using page_part(1)[OF h(3)] by auto
  with observe_host_ok[OF h(2)] assms(1)[rule_format, OF host(2)] host show ?thesis by (auto simp: readable_on_def h(4,5))
qed

lemma units_failed_scoped:
  assumes named: "\<forall>n h. app_hosts app n = Some h \<longrightarrow> hc_name h = n"
    and "units_failed as_second now agent app prin which beats = (beats', Ok rows)" and "row \<in> set rows"
  shows "fr_host row \<in> pr_hosts prin \<and> (\<forall>t. fr_observed_at row = Some t \<longrightarrow> observation_fresh as_second now t)
    \<and> (\<forall>units. fr_units row = Some units \<longrightarrow> (\<forall>u \<in> set units. us_active_state u = ''failed''
          \<and> readable_on app prin (fr_host row) (us_unit u)))"
proof -
  from assms(2,3) obtain hosts rs host r where h: "hosts_for app prin which = Ok hosts"
      "observe_all as_second now agent hosts beats = (beats', rs)" "(host, r) \<in> set rs" and row: "fr_host row = hc_name host"
      "case r of Inl _ \<Rightarrow> fr_observed_at row = None \<and> fr_units row = None
       | Inr snapshot \<Rightarrow> fr_observed_at row = Some (sn_observed_at snapshot)
           \<and> fr_units row = Some (filter (\<lambda>u. us_active_state u = ''failed'') (sn_units snapshot))"
    by (auto simp: units_failed_def snapshots_def split: sum.splits prod.splits)
  from observe_all_ok[OF h(2,3)] obtain b b' where o': "host \<in> set hosts" "observe_host as_second now agent host b = (b', r)"
    by blast
  have host: "hc_name host \<in> pr_hosts prin" "app_hosts app (hc_name host) = Some host"
    using hosts_for_ok[OF h(1) o'(1)] named by auto
  show ?thesis
  proof (cases r)
    case (Inr snapshot)
    with row(2) host observe_host_ok[OF o'(2)[unfolded Inr]] show ?thesis by (auto simp: readable_on_def row(1))
  qed (use row host in simp)
qed

lemma units_status_scoped:
  assumes "units_status as_second now ask app prin host_name unit = Ok ob"
  shows "uo_host ob = host_name \<and> us_unit (uo_unit ob) = unit \<and> observation_fresh as_second now (uo_observed_at ob)
    \<and> readable_on app prin host_name unit"
  using assms
  by (auto simp: units_status_def readable_on_def observation_fresh_def unit_readable_def host_for_def unit_allowed_def
      split: if_splits)

text \<open>
  (C18) Whatever an agent answers, an observation shows a client only what it may see: units that the
  configuration lets the hub read, on hosts that the client is granted, from an answer in the name of that
  host that is at most 90 seconds old and 30 ahead. This holds of the listing of a host's units, of the failed
  units of all hosts and of the status of one unit.
\<close>

theorem observations_in_scope:
  assumes "hub_build e config = (st', Ok (listen, app, tasks))"
  shows "(\<forall>beats beats' r. units_list hash as_second now agent (App_of app) prin params beats = (beats', Ok r) \<longrightarrow>
      up_host r = ul_host params \<and> observation_fresh as_second now (up_observed_at r)
      \<and> (\<forall>u \<in> set (pg_values (up_page r)). readable_on (App_of app) prin (ul_host params) (us_unit u)))
    \<and> (\<forall>beats beats' rows. units_failed as_second now agent (App_of app) prin which beats = (beats', Ok rows) \<longrightarrow>
      (\<forall>row \<in> set rows. fr_host row \<in> pr_hosts prin
         \<and> (\<forall>t. fr_observed_at row = Some t \<longrightarrow> observation_fresh as_second now t)
         \<and> (\<forall>units. fr_units row = Some units \<longrightarrow> (\<forall>u \<in> set units. us_active_state u = ''failed''
               \<and> readable_on (App_of app) prin (fr_host row) (us_unit u)))))
    \<and> (\<forall>ob. units_status as_second now ask (App_of app) prin host_name unit = Ok ob \<longrightarrow>
      uo_host ob = host_name \<and> us_unit (uo_unit ob) = unit \<and> observation_fresh as_second now (uo_observed_at ob)
      \<and> readable_on (App_of app) prin host_name unit)"
proof -
  have named: "\<forall>n h. app_hosts (App_of app) n = Some h \<longrightarrow> hc_name h = n" using built_host_named[OF assms] by blast
  show ?thesis
    by (rule conjI; (rule conjI)?; intro allI impI ballI;
        (rule units_list_scoped[OF named] | rule units_failed_scoped[OF named] | rule units_status_scoped); assumption)
qed

text \<open>An agent that also reports a unit outside the configured ones.\<close>

definition ex_unit :: "string \<Rightarrow> UnitStatus" where
  "ex_unit name = \<lparr>us_unit = name, us_description = [], us_load_state = ''loaded'', us_active_state = ''failed'',
     us_sub_state = ''failed'', us_details = None\<rparr>"

definition ex_snapshot :: Snapshot where
  "ex_snapshot = \<lparr>sn_host = ''web1'', sn_observed_at = 10, sn_facts = \<lparr>fa_kernel = [], fa_uptime_seconds = PosInt 1,
       fa_boot_id = None, fa_system_closure = None, fa_system_profile = None, fa_profile_generation = None,
       fa_profile_matches_running = None\<rparr>,
     sn_units = [ex_unit ''sshd.service'', ex_unit ''nginx.service''], sn_read_all_units = True\<rparr>"

definition ex_units_params :: UnitsListParams where
  "ex_units_params = \<lparr>ul_host = ''web1'', ul_state = None, ul_prefix = None, ul_cursor = None, ul_limit = default_lines\<rparr>"

definition ex_units_listed :: "(units_page, ApiError) result" where
  "ex_units_listed = snd (units_list (\<lambda>_. ''r'') id 20 (\<lambda>_. Some ex_snapshot) (App_of ex_built_app)
     (hd (hub_clients ex_built_app)) ex_units_params (\<lambda>_. None))"

theorem observations_in_scope_witness:
  "\<exists>r. ex_units_listed = Ok r \<and> map us_unit (pg_values (up_page r)) = [''nginx.service''] \<and> up_host r = ''web1''"
proof -
  have "case ex_units_listed of Inl _ \<Rightarrow> False | Inr r \<Rightarrow> map us_unit (pg_values (up_page r)) = [''nginx.service'']"
    by code_simp
  then obtain r where r: "ex_units_listed = Ok r" "map us_unit (pg_values (up_page r)) = [''nginx.service'']"
    by (auto split: sum.splits)
  then obtain beats' where "units_list (\<lambda>_. ''r'') id 20 (\<lambda>_. Some ex_snapshot) (App_of ex_built_app)
      (hd (hub_clients ex_built_app)) ex_units_params (\<lambda>_. None) = (beats', Ok r)"
    unfolding ex_units_listed_def by (metis prod.collapse)
  with observations_in_scope[OF ex_built_run, of "\<lambda>_. ''r''" id 20 "\<lambda>_. Some ex_snapshot" "hd (hub_clients ex_built_app)"
      ex_units_params] r
  show ?thesis by (auto simp: ex_units_params_def)
qed

end
