(* ===== verification/Spec2Isabelle.thy ===== *)
theory Spec2Isabelle
  imports Properties_Jobs Properties_Updates Properties_Changes Properties_Events
    Properties_Remediations Properties_Listings Properties_Proto
    Properties_Hub Properties_Deploy Properties_Runner Properties_Executor Properties_Commands
    Properties_Workspaces Properties_Build Properties_Views
begin

text \<open>
  \<^bold>\<open>maxops\<close> operates a fleet of NixOS hosts. A \<^emph>\<open>hub\<close> accepts requests from principals, records the
  work as durable jobs and deployment changes, and drives them; an \<^emph>\<open>executor\<close> on each target runs
  jobs under systemd and keeps git workspaces; an \<^emph>\<open>agent\<close> observes units and journals. Hub and
  executor each own a SQLite database through the crate \<open>maxops-store\<close>, and all of them speak the
  types of \<open>maxops-proto\<close>.

  \<^bold>\<open>What is modelled.\<close>

  \<^item> \<open>Prelude\<close>: results, bytes, bounded integers, decimal text.
  \<^item> \<open>Proto_Ids\<close>, \<open>Proto_Operations\<close>, \<open>Proto_Jobs\<close>, \<open>Proto_Changes\<close>, \<open>Proto_Workspaces\<close>,
    \<open>Proto_Events\<close>, \<open>Transport\<close>: the wire types of \<open>maxops-proto/src\<close>, file by file: identifiers,
    the operation registry, job and change state machines, parameter validation, tokens, the public
    error vocabulary and the bounded reading of upstream answers. The locale \<open>opaque_id\<close> is the
    contract of the six identifier types, \<open>enum_codec_spec\<close> that of the eight text codecs.
  \<^item> \<open>Json\<close>: \<open>serde_json::Value\<close> and \<open>canonical_json\<close>.
  \<^item> \<open>Store_Tables\<close>: the tables of the migrations as lists of rows in insertion order, the
    statements the store uses on them, and transactions that commit all of their effect or none.
    The locale \<open>keyed_table\<close> holds the laws of a table with a primary key.
  \<^item> \<open>Store_Jobs\<close>, \<open>Store_Resources\<close>, \<open>Store_Workspaces\<close>, \<open>Store_Changes\<close>, \<open>Store_Events\<close>,
    \<open>Store_Delivery\<close>, \<open>Store_Remediations\<close>: every operation of \<open>maxops-store/src/lib.rs\<close> except the
    monitoring statistics, with all guards, early returns and constraint failures. An operation is
    a function from a store to a store and a result.
  \<^item> \<open>Revision_Contract\<close> with \<open>Store_Revisions\<close>: optimistic concurrency as a locale, interpreted for
    jobs, changes and workspaces.
  \<^item> \<open>Store_System\<close> and \<open>Store_History\<close>: all writing operations as one step relation
    \<open>store_step\<close>, the reachable stores, their invariant \<open>store_inv\<close>, and what holds between two
    points of a run.
  \<^item> \<open>Proto_Executor\<close>, \<open>Rust_Str\<close>: the requests and answers between hub and executor, and the string
    and path functions of the standard library that the code uses.
  \<^item> \<open>Hub_Config\<close>: the hub's configuration as its handlers read it, authentication, permissions,
    admission of a request, the authorization of a dispatch, error mapping (\<open>maxops-hub/src/lib.rs\<close>).
  \<^item> \<open>Hub_Jobs\<close>: handlers, functions from a store to a store and a result, with the combinators they
    are composed by; dispatch, monitoring and projection of target jobs. The locale \<open>handler_frame\<close>
    states what a composition keeps of a reflexive and transitive relation on stores; it is
    interpreted for runs of the store, for moves of jobs and for the absence of new jobs.
  \<^item> \<open>Hub_Changes\<close>, \<open>Hub_Workflow\<close>: refreshing a change, submitting stages, and the rounds of the
    deployment workflow (\<open>deployment_workflow.rs\<close>).
  \<^item> \<open>Hub_Client\<close>, \<open>Hub_Submit\<close>, \<open>Hub_Requests\<close>, \<open>Hub_Delivery\<close>: the client API (\<open>client_api.rs\<close>), the
    job operations of the API up to \<open>execute\<close>, event delivery and alerts. \<open>Hub_Facts\<close>, \<open>Hub_Runs\<close>,
    \<open>Hub_Client_Facts\<close> and \<open>Hub_Change_Facts\<close> hold their lemmas.
  \<^item> \<open>Hub_Build\<close>: the start of the hub (\<open>build\<close>): the configuration file with every check in its order, the
    subscriptions of the sinks and the tasks for the jobs that are resumed. \<open>Hub_Build_Facts\<close> holds what
    the checks establish; its locale \<open>exact_comparison\<close> is what they need of the constant-time
    comparison, interpreted on equality.
  \<^item> \<open>Hub_Observe\<close>: the observation of a host through its agent and the operations that show it;
    \<open>Hub_Alerts\<close>: the active alerts and their compact view (\<open>observation_views.rs\<close>).
  \<^item> \<open>Deploy_Runner\<close>: the program \<open>maxops-deploy-runner\<close> over a host whose files, links and commands
    are parameters.
  \<^item> \<open>Executor_Config\<close>: the executor's configuration and its validation (\<open>maxops-executor/src/main.rs\<close>).
  \<^item> \<open>Executor_Actions\<close>: workers as functions from a state to a state and a result, in which every
    \<open>await\<close> is a point where other tasks use the store, the host changes, or the process dies. The
    locale \<open>worker_invariant\<close> states what a composition of awaits keeps; it is interpreted for the
    invariant that an action is requested once.
  \<^item> \<open>Executor_Services\<close>: jobs that start, stop, restart and reload units; \<open>Executor_Facts\<close> holds their
    lemmas.
  \<^item> \<open>Job_Runner\<close>: the preparation and launch of a command, and the wrapper \<open>maxops-job-runner\<close>
    (\<open>lib.rs\<close>); \<open>Job_Runner_Facts\<close> holds their lemmas.
  \<^item> \<open>Executor_Params\<close>: what an executor checks of deployment and workspace jobs, and the commands that
    jobs run (\<open>deployment.rs\<close>, \<open>workspace.rs\<close>).
  \<^item> \<open>Executor_Commands\<close>: submission of all kinds of jobs, and launch, reconciliation, monitoring,
    recovery, cancellation and output of command jobs. \<open>Executor_Command_Facts\<close> interprets
    \<open>worker_invariant\<close> for what is launched and when.
  \<^item> \<open>Executor_Workspaces\<close>: every git command of the executor, mirrors, the jobs that create and publish
    workspaces, and the requests on workspaces (\<open>workspace.rs\<close>); \<open>Executor_Workspace_Facts\<close> interprets
    \<open>worker_invariant\<close> for what is asked of the host along a run.
  \<^item> \<open>Executor_Requests\<close>: the handler of all requests, one connection, and the tasks that requests and the
    start leave behind (\<open>main.rs\<close>); \<open>Executor_Request_Facts\<close> holds their lemmas.
  \<^item> \<open>Rust_Path\<close>, \<open>Workspace_Files\<close>: paths, edits and copies of workspace revisions (\<open>workspace.rs\<close>) on a
    tree with links in which any operation may fail. \<open>Workspace_Facts\<close> and \<open>Workspace_Copies\<close> hold a
    small program logic of their effects (\<open>triple\<close>) and what it gives.
  \<^item> \<open>Example_Run\<close>, \<open>Example_Hub\<close>, \<open>Example_Executor\<close>: a worked run, a configured hub and a configured
    executor to which the properties are applied.

  \<^bold>\<open>Correspondence.\<close> A SQL row is a record with the columns of its table; columns with a closed
  vocabulary stay texts, so that decoding can fail as it does in the code; JSON columns hold the
  value that the code serialises. \<open>u64\<close> values are natural numbers with the checked operations of
  the source, \<open>i64\<close> columns are integers with the range checks of \<open>to_i64\<close> and \<open>to_u64\<close>. A
  timestamp is a number of nanoseconds. The clock, fresh identifiers, the digest of a
  specification, the text of a timestamp, date arithmetic, the constant-time comparison and the
  JSON parser come from the platform or from other crates: they are arguments of the operations.
  The writer mutex of the store makes writing operations atomic, so a run is a sequence of
  \<open>store_step\<close>; \<open>list_events\<close>, which takes neither the mutex nor a transaction, is modelled on the
  separate states its statements may see. What an executor answers is an arbitrary function of the
  host and the request, so the theorems hold for lost, delayed and wrong answers. Between two rounds
  of a loop that sleeps, any steps of the store may happen.

  \<^bold>\<open>What is shown.\<close> \<open>Properties_Jobs\<close>: every reachable store is consistent, the job table is the
  replay of its log, outcomes are final, submission is idempotent. \<open>Properties_Updates\<close>:
  transitions are revision-checked and serialise, locks are exclusive. \<open>Properties_Changes\<close>: the
  workflow fence, legality of steps under stale reads, the bound on change transitions, permanence
  of workspaces. \<open>Properties_Events\<close>: episodes, the feed and its race, retention, single delivery.
  \<open>Properties_Remediations\<close>: exclusivity, budget, cooldown, single outcome. \<open>Properties_Listings\<close>:
  what recovery sees, and a gap in the change history. \<open>Properties_Proto\<close>: fingerprints, names,
  identifiers, the registry, tokens, errors, edit batches. \<open>Properties_Hub\<close>: requests need
  authority and only run the store's operations, revoked jobs are not dispatched, workflows get
  their outcome, pages and fragments tile. \<open>Properties_Deploy\<close>: the checks before an activation, what
  success rests on, what a preparation freezes and why a retry does not repair it, deliveries in
  order. \<open>Properties_Runner\<close>: the runner's reports are true, accepted by the hub, and foreign states
  are left alone. \<open>Properties_Executor\<close>: a service action is requested at most once over all restarts,
  commands stay within their profile, results and records are true and whole, edits refine a map of
  contents and stay in their revision, a copied revision appears whole. \<open>Properties_Commands\<close>: units
  are launched only for jobs that have left the queue and within their profile, success rests on a
  completion record, and the output of deployments is never marked as truncated.
  \<open>Properties_Workspaces\<close>: pushes follow the store and the checks of the remote, connections and tasks
  do to the store only what they rely on others to do, and two outcomes that deny an effect.
  \<open>Properties_Build\<close>: the credentials of a hub that has started are separate, its grants can be used, and
  a restart resumes the jobs and keeps the cursors. \<open>Properties_Views\<close>: observations stay in the scope of
  the client and are fresh, and the compact view of alerts can be read back.

  \<^bold>\<open>Fuel.\<close> The loop of \<open>finish\<close> takes a number of rounds; two are shown to be enough when nobody
  else moves the job. The walks of a client over pages and fragments take a number of requests; one
  more than there are values or bytes is shown to be enough. The waiting loop of the client API is a
  list of rounds, as its timeout bounds it. A worker of the executor has a schedule of awaits and ends
  with it; every round of its loops uses at least one await, so the length of the schedule is enough
  rounds. All other loops are folds over lists.

  \<^bold>\<open>Not modelled.\<close> Monitoring statistics (floating point and file-system sizes), opening and
  migrating the database, HTTP servers and clients, D-Bus, git and systemd processes, the
  command-line and MCP front ends, and JSON-schema generation: they are I/O or generated code.
  Host pressure, metric aggregation and the fleet overview built on them are floating-point summaries
  of Prometheus answers; the collection of diagnostics, the discovery listings and the presentation of
  answers rewrite JSON documents for display; the agent reads systemd and the journal over D-Bus. None
  of them keeps state that the modelled parts use.
\<close>

end
